(* ===== verification/Prelude.thy ===== *)
theory Prelude
  imports Main "HOL-Library.Char_ord" "HOL-Library.List_Lexorder" "HOL-Library.Word"
begin

text \<open>
  What every component shares: the errors a JavaScript function can throw, the
  state-and-error computations that model \<^verbatim>\<open>async\<close> functions (an \<^verbatim>\<open>await\<close> is a sequencing
  point, a rejected promise is an \<open>Inl\<close>), their laws, and the two frame predicates
  \<open>keeps\<close> (a component of the state is never written) and \<open>maintains\<close> (an invariant is
  preserved on every path, error paths included), with a collection of introduction
  rules for each.
\<close>

named_theorems run_simps "unfolding rules that run a computation on a state"
named_theorems keeps_intros "introduction rules for keeps"
named_theorems maintains_intros "introduction rules for maintains"

section \<open>Errors\<close>

text \<open>
  \<^verbatim>\<open>new Error(m)\<close> of the source is \<open>Error m\<close>; the other constructors are the
  exceptions the engine itself throws, whose message text is not the program's.
\<close>

datatype js_error =
    Error string
  | TypeError
  | SyntaxError
  | InvalidCharacterError
  | OperationError

type_synonym 'a result = "js_error + 'a"

definition res_bind :: "'a result \<Rightarrow> ('a \<Rightarrow> 'b result) \<Rightarrow> 'b result" where
  "res_bind r f = (case r of Inl e \<Rightarrow> Inl e | Inr x \<Rightarrow> f x)"

lemma res_bind_simps [simp]:
  "res_bind (Inl e) f = Inl e"
  "res_bind (Inr x) f = f x"
  by (simp_all add: res_bind_def)

lemma res_bind_eq_Inr: "res_bind r f = Inr y \<longleftrightarrow> (\<exists>x. r = Inr x \<and> f x = Inr y)"
  by (cases r) auto

lemma res_bind_eq_Inl: "res_bind r f = Inl e \<longleftrightarrow> r = Inl e \<or> (\<exists>x. r = Inr x \<and> f x = Inl e)"
  by (cases r) auto

definition is_ok :: "'a result \<Rightarrow> bool" where
  "is_ok r = (case r of Inl _ \<Rightarrow> False | Inr _ \<Rightarrow> True)"

lemma is_ok_run: "is_ok (fst r) \<Longrightarrow> r = (Inr (projr (fst r)), snd r)"
  by (cases r; cases "fst r") (auto simp: is_ok_def)

lemma is_ok_unit: "is_ok (fst r) \<Longrightarrow> r = (Inr (), snd r)"
  by (cases r; cases "fst r") (auto simp: is_ok_def)

lemma is_ok_simps [simp]: "is_ok (Inr x)" "\<not> is_ok (Inl e)"
  by (simp_all add: is_ok_def)

fun map_result :: "('a \<Rightarrow> 'b result) \<Rightarrow> 'a list \<Rightarrow> 'b list result" where
  "map_result f [] = Inr []"
| "map_result f (x # xs) =
     res_bind (f x) (\<lambda>y. res_bind (map_result f xs) (\<lambda>ys. Inr (y # ys)))"

lemma map_result_length: "map_result f xs = Inr ys \<Longrightarrow> length ys = length xs"
  by (induction xs arbitrary: ys) (auto simp: res_bind_eq_Inr)

lemma map_result_total: "(\<And>x. x \<in> set xs \<Longrightarrow> f x = Inr (g x)) \<Longrightarrow> map_result f xs = Inr (map g xs)"
  by (induction xs) auto

lemma map_result_set:
  "map_result f xs = Inr ys \<Longrightarrow> y \<in> set ys \<Longrightarrow> \<exists>x \<in> set xs. f x = Inr y"
  by (induction xs arbitrary: ys) (auto simp: res_bind_eq_Inr)

lemma map_result_hit: "map_result f xs = Inr ys \<Longrightarrow> x \<in> set xs \<Longrightarrow> \<exists>y. f x = Inr y \<and> y \<in> set ys"
  by (induction xs arbitrary: ys) (auto simp: res_bind_eq_Inr)

section \<open>Computations over a state\<close>

type_synonym ('s, 'a) io = "'s \<Rightarrow> 'a result \<times> 's"

definition ret :: "'a \<Rightarrow> ('s, 'a) io" where
  "ret x = (\<lambda>s. (Inr x, s))"

definition raise :: "js_error \<Rightarrow> ('s, 'a) io" where
  "raise e = (\<lambda>s. (Inl e, s))"

definition lift :: "'a result \<Rightarrow> ('s, 'a) io" where
  "lift r = (\<lambda>s. (r, s))"

definition bind :: "('s, 'a) io \<Rightarrow> ('a \<Rightarrow> ('s, 'b) io) \<Rightarrow> ('s, 'b) io" where
  "bind m f = (\<lambda>s. case m s of (Inl e, t) \<Rightarrow> (Inl e, t) | (Inr x, t) \<Rightarrow> f x t)"

text \<open>\<^verbatim>\<open>try { m } catch (e) { h(e) }\<close>: the state changes \<open>m\<close> made before it threw stay.\<close>

definition catch :: "('s, 'a) io \<Rightarrow> (js_error \<Rightarrow> ('s, 'a) io) \<Rightarrow> ('s, 'a) io" where
  "catch m h = (\<lambda>s. case m s of (Inl e, t) \<Rightarrow> h e t | (Inr x, t) \<Rightarrow> (Inr x, t))"

text \<open>\<^verbatim>\<open>try { m } finally { f }\<close>, for an \<open>f\<close> that cannot throw.\<close>

definition finally_do :: "('s, 'a) io \<Rightarrow> ('s \<Rightarrow> 's) \<Rightarrow> ('s, 'a) io" where
  "finally_do m f = (\<lambda>s. case m s of (r, t) \<Rightarrow> (r, f t))"

definition reads :: "('s \<Rightarrow> 'a) \<Rightarrow> ('s, 'a) io" where
  "reads f = (\<lambda>s. (Inr (f s), s))"

definition update :: "('s \<Rightarrow> 's) \<Rightarrow> ('s, unit) io" where
  "update f = (\<lambda>s. (Inr (), f s))"

definition seqc :: "('s, 'a) io \<Rightarrow> ('s, 'b) io \<Rightarrow> ('s, 'b) io" where
  "seqc m n = bind m (\<lambda>_. n)"

text \<open>A computation on a part of the state, such as the worker's state inside a page's.\<close>

definition zoom :: "('s \<Rightarrow> 't) \<Rightarrow> ('t \<Rightarrow> 's \<Rightarrow> 's) \<Rightarrow> ('t, 'a) io \<Rightarrow> ('s, 'a) io" where
  "zoom part set_part m = (\<lambda>s. case m (part s) of (r, t) \<Rightarrow> (r, set_part t s))"

text \<open>\<^verbatim>\<open>Promise.allSettled\<close> runs every computation and drops every rejection.\<close>

fun all_settled :: "('s, unit) io list \<Rightarrow> ('s, unit) io" where
  "all_settled [] = ret ()"
| "all_settled (m # ms) = seqc (catch m (\<lambda>_. ret ())) (all_settled ms)"

lemma ret_run [run_simps]: "ret x s = (Inr x, s)"
  by (simp add: ret_def)

lemma raise_run [run_simps]: "raise e s = (Inl e, s)"
  by (simp add: raise_def)

lemma lift_run [run_simps]: "lift r s = (r, s)"
  by (simp add: lift_def)

lemma reads_run [run_simps]: "reads f s = (Inr (f s), s)"
  by (simp add: reads_def)

lemma update_run [run_simps]: "update f s = (Inr (), f s)"
  by (simp add: update_def)

lemma bind_run [run_simps]:
  "bind m f s = (case m s of (Inl e, t) \<Rightarrow> (Inl e, t) | (Inr x, t) \<Rightarrow> f x t)"
  by (simp add: bind_def)

lemma seqc_run [run_simps]:
  "seqc m n s = (case m s of (Inl e, t) \<Rightarrow> (Inl e, t) | (Inr x, t) \<Rightarrow> n t)"
  by (simp add: seqc_def bind_def)

lemma catch_run [run_simps]:
  "catch m h s = (case m s of (Inl e, t) \<Rightarrow> h e t | (Inr x, t) \<Rightarrow> (Inr x, t))"
  by (simp add: catch_def)

lemma finally_do_run [run_simps]: "finally_do m f s = (case m s of (r, t) \<Rightarrow> (r, f t))"
  by (simp add: finally_do_def)

lemma zoom_run [run_simps]: "zoom g h m s = (case m (g s) of (r, t) \<Rightarrow> (r, h t s))"
  by (simp add: zoom_def)

lemma bind_ret_left [simp]: "bind (ret x) f = f x"
  by (simp add: bind_def ret_def)

lemma bind_raise [simp]: "bind (raise e) f = raise e"
  by (simp add: bind_def raise_def)

lemma bind_assoc: "bind (bind m f) g = bind m (\<lambda>x. bind (f x) g)"
  by (rule ext) (simp add: bind_def split: prod.split sum.split)

lemma bind_eq_Inr:
  "bind m f s = (Inr y, u) \<longleftrightarrow> (\<exists>x t. m s = (Inr x, t) \<and> f x t = (Inr y, u))"
  by (auto simp: bind_def split: prod.splits sum.splits)

lemma bind_eq_Inl:
  "bind m f s = (Inl e, u) \<longleftrightarrow>
     m s = (Inl e, u) \<or> (\<exists>x t. m s = (Inr x, t) \<and> f x t = (Inl e, u))"
  by (auto simp: bind_def split: prod.splits sum.splits)

lemma seqc_eq_Inr: "seqc m n s = (Inr y, u) \<longleftrightarrow> (\<exists>x t. m s = (Inr x, t) \<and> n t = (Inr y, u))"
  by (simp add: seqc_def bind_eq_Inr)

lemma catch_eq_Inr:
  "catch m h s = (Inr y, u) \<longleftrightarrow>
     m s = (Inr y, u) \<or> (\<exists>e t. m s = (Inl e, t) \<and> h e t = (Inr y, u))"
  by (auto simp: catch_def split: prod.splits sum.splits)

lemma catch_total: "(\<And>e t. \<exists>u. h e t = (Inr (), u)) \<Longrightarrow> \<exists>u. catch m h s = (Inr (), u)"
  by (cases "m s"; cases "fst (m s)") (auto simp: catch_def)

section \<open>Frame conditions and invariants of computations\<close>

definition keeps :: "('s \<Rightarrow> 'c) \<Rightarrow> ('s, 'a) io \<Rightarrow> bool" where
  "keeps f m \<longleftrightarrow> (\<forall>s. f (snd (m s)) = f s)"

definition maintains :: "('s \<Rightarrow> bool) \<Rightarrow> ('s, 'a) io \<Rightarrow> bool" where
  "maintains P m \<longleftrightarrow> (\<forall>s. P s \<longrightarrow> P (snd (m s)))"

lemma keepsD: "keeps f m \<Longrightarrow> m s = (r, t) \<Longrightarrow> f t = f s"
  unfolding keeps_def by (metis snd_conv)

lemma maintainsD: "maintains P m \<Longrightarrow> P s \<Longrightarrow> m s = (r, t) \<Longrightarrow> P t"
  unfolding maintains_def by (metis snd_conv)

lemma keeps_maintains: "keeps f m \<Longrightarrow> maintains (\<lambda>s. P (f s)) m"
  by (simp add: keeps_def maintains_def)

lemma keepsI: "(\<And>s r t. m s = (r, t) \<Longrightarrow> f t = f s) \<Longrightarrow> keeps f m"
  unfolding keeps_def by (metis prod.collapse)

lemma maintainsI: "(\<And>s r t. P s \<Longrightarrow> m s = (r, t) \<Longrightarrow> P t) \<Longrightarrow> maintains P m"
  unfolding maintains_def by (metis prod.collapse)

lemma keeps_ret [keeps_intros]: "keeps f (ret x)"
  by (simp add: keeps_def ret_def)

lemma keeps_raise [keeps_intros]: "keeps f (raise e)"
  by (simp add: keeps_def raise_def)

lemma keeps_lift [keeps_intros]: "keeps f (lift r)"
  by (simp add: keeps_def lift_def)

lemma keeps_reads [keeps_intros]: "keeps f (reads g)"
  by (simp add: keeps_def reads_def)

lemma keeps_update: "(\<And>s. f (g s) = f s) \<Longrightarrow> keeps f (update g)"
  by (simp add: keeps_def update_def)

lemma keeps_bind [keeps_intros]:
  "keeps f m \<Longrightarrow> (\<And>x. keeps f (n x)) \<Longrightarrow> keeps f (bind m n)"
  by (auto simp: keeps_def bind_def split: prod.split sum.split) (metis snd_conv)+

lemma keeps_seqc [keeps_intros]: "keeps f m \<Longrightarrow> keeps f n \<Longrightarrow> keeps f (seqc m n)"
  by (simp add: seqc_def keeps_bind)

lemma keeps_catch [keeps_intros]:
  "keeps f m \<Longrightarrow> (\<And>e. keeps f (h e)) \<Longrightarrow> keeps f (catch m h)"
  by (auto simp: keeps_def catch_def split: prod.split sum.split) (metis snd_conv)+

lemma keeps_finally: "keeps f m \<Longrightarrow> (\<And>s. f (g s) = f s) \<Longrightarrow> keeps f (finally_do m g)"
  by (auto simp: keeps_def finally_do_def split: prod.split) (metis snd_conv)

lemma keeps_zoom: "(\<And>t s. f (h t s) = f s) \<Longrightarrow> keeps f (zoom g h m)"
  by (simp add: keeps_def zoom_def split: prod.split)

lemma keeps_if [keeps_intros]:
  "(b \<Longrightarrow> keeps f m) \<Longrightarrow> (\<not> b \<Longrightarrow> keeps f n) \<Longrightarrow> keeps f (if b then m else n)"
  by simp

lemma keeps_case_option [keeps_intros]:
  "(v = None \<Longrightarrow> keeps f m) \<Longrightarrow> (\<And>x. v = Some x \<Longrightarrow> keeps f (n x)) \<Longrightarrow>
   keeps f (case v of None \<Rightarrow> m | Some x \<Rightarrow> n x)"
  by (cases v) simp_all

lemma keeps_case_sum [keeps_intros]:
  "(\<And>e. keeps f (m e)) \<Longrightarrow> (\<And>x. keeps f (n x)) \<Longrightarrow>
   keeps f (case r of Inl e \<Rightarrow> m e | Inr x \<Rightarrow> n x)"
  by (cases r) simp_all

lemma keeps_let [keeps_intros]: "(\<And>x. keeps f (n x)) \<Longrightarrow> keeps f (let x = v in n x)"
  by (simp add: Let_def)

lemma keeps_all_settled: "(\<And>m. m \<in> set ms \<Longrightarrow> keeps f m) \<Longrightarrow> keeps f (all_settled ms)"
  by (induction ms) (auto intro!: keeps_intros)

lemma maintains_ret [maintains_intros]: "maintains P (ret x)"
  by (simp add: maintains_def ret_def)

lemma maintains_raise [maintains_intros]: "maintains P (raise e)"
  by (simp add: maintains_def raise_def)

lemma maintains_lift [maintains_intros]: "maintains P (lift r)"
  by (simp add: maintains_def lift_def)

lemma maintains_reads [maintains_intros]: "maintains P (reads g)"
  by (simp add: maintains_def reads_def)

lemma maintains_update: "(\<And>s. P s \<Longrightarrow> P (g s)) \<Longrightarrow> maintains P (update g)"
  by (simp add: maintains_def update_def)

lemma maintains_bind [maintains_intros]:
  "maintains P m \<Longrightarrow> (\<And>x. maintains P (n x)) \<Longrightarrow> maintains P (bind m n)"
  by (rule maintainsI) (auto simp: bind_def split: prod.splits sum.splits dest: maintainsD)

lemma maintains_seqc [maintains_intros]:
  "maintains P m \<Longrightarrow> maintains P n \<Longrightarrow> maintains P (seqc m n)"
  by (simp add: seqc_def maintains_bind)

lemma maintains_catch [maintains_intros]:
  "maintains P m \<Longrightarrow> (\<And>e. maintains P (h e)) \<Longrightarrow> maintains P (catch m h)"
  by (rule maintainsI) (auto simp: catch_def split: prod.splits sum.splits dest: maintainsD)

lemma maintains_if [maintains_intros]:
  "(b \<Longrightarrow> maintains P m) \<Longrightarrow> (\<not> b \<Longrightarrow> maintains P n) \<Longrightarrow> maintains P (if b then m else n)"
  by simp

lemma maintains_case_option [maintains_intros]:
  "(v = None \<Longrightarrow> maintains P m) \<Longrightarrow> (\<And>x. v = Some x \<Longrightarrow> maintains P (n x)) \<Longrightarrow>
   maintains P (case v of None \<Rightarrow> m | Some x \<Rightarrow> n x)"
  by (cases v) simp_all

lemma maintains_case_sum [maintains_intros]:
  "(\<And>e. maintains P (m e)) \<Longrightarrow> (\<And>x. maintains P (n x)) \<Longrightarrow>
   maintains P (case r of Inl e \<Rightarrow> m e | Inr x \<Rightarrow> n x)"
  by (cases r) simp_all

lemma maintains_let [maintains_intros]:
  "(\<And>x. maintains P (n x)) \<Longrightarrow> maintains P (let x = v in n x)"
  by (simp add: Let_def)

lemma maintains_zoom:
  "maintains P m \<Longrightarrow> (\<And>s. Q s \<Longrightarrow> P (g s)) \<Longrightarrow> (\<And>t s. Q s \<Longrightarrow> P t \<Longrightarrow> Q (h t s)) \<Longrightarrow>
   maintains Q (zoom g h m)"
  by (rule maintainsI) (auto simp: zoom_def split: prod.splits dest: maintainsD)

lemma maintains_finally:
  "maintains P m \<Longrightarrow> (\<And>s. P s \<Longrightarrow> P (g s)) \<Longrightarrow> maintains P (finally_do m g)"
  by (rule maintainsI) (auto simp: finally_do_def split: prod.splits dest: maintainsD)

lemma maintains_all_settled:
  "(\<And>m. m \<in> set ms \<Longrightarrow> maintains P m) \<Longrightarrow> maintains P (all_settled ms)"
  by (induction ms) (auto intro!: maintains_intros)

text \<open>
  \<open>establishes P m\<close>: whatever state \<open>m\<close> starts in and however it ends, \<open>P\<close> holds after it;
  \<open>succeeds_in P m\<close> asks that of the runs that do not throw.
\<close>

named_theorems establishes_intros "introduction rules for establishes and succeeds_in"

definition establishes :: "('s \<Rightarrow> bool) \<Rightarrow> ('s, 'a) io \<Rightarrow> bool" where
  "establishes P m \<longleftrightarrow> (\<forall>s. P (snd (m s)))"

definition succeeds_in :: "('s \<Rightarrow> bool) \<Rightarrow> ('s, 'a) io \<Rightarrow> bool" where
  "succeeds_in P m \<longleftrightarrow> (\<forall>s x t. m s = (Inr x, t) \<longrightarrow> P t)"

lemma establishesD: "establishes P m \<Longrightarrow> m s = (r, t) \<Longrightarrow> P t"
  unfolding establishes_def by (metis snd_conv)

lemma establishes_maintains: "establishes P m \<Longrightarrow> maintains P m"
  by (simp add: establishes_def maintains_def)

lemma establishes_succeeds: "establishes P m \<Longrightarrow> succeeds_in P m"
  unfolding establishes_def succeeds_in_def by (metis snd_conv)

lemma establishes_update [establishes_intros]: "establishes P m \<Longrightarrow> establishes P (seqc (update f) m)"
  by (simp add: establishes_def seqc_run update_run)

lemma establishes_reads [establishes_intros]: "(\<And>x. establishes P (m x)) \<Longrightarrow> establishes P (bind (reads f) m)"
  by (simp add: establishes_def bind_run reads_run)

lemma establishes_then: "establishes P m \<Longrightarrow> maintains P n \<Longrightarrow> establishes P (seqc m n)"
  by (auto simp: establishes_def maintains_def seqc_run split: prod.split sum.split) (metis snd_conv)+

lemma establishes_catch:
  "succeeds_in P m \<Longrightarrow> (\<And>e. establishes P (h e)) \<Longrightarrow> establishes P (catch m h)"
  by (auto simp: establishes_def succeeds_in_def catch_run split: prod.split sum.split)

lemma succeeds_bind [establishes_intros]: "(\<And>x. succeeds_in P (n x)) \<Longrightarrow> succeeds_in P (bind m n)"
  by (auto simp: succeeds_in_def bind_eq_Inr)

lemma succeeds_seqc [establishes_intros]: "succeeds_in P n \<Longrightarrow> succeeds_in P (seqc m n)"
  by (auto simp: succeeds_in_def seqc_eq_Inr)

lemma succeeds_let [establishes_intros]: "(\<And>x. succeeds_in P (n x)) \<Longrightarrow> succeeds_in P (let x = v in n x)"
  by (simp add: Let_def)

lemma all_settled_ok: "\<exists>t. all_settled ms s = (Inr (), t)"
proof (induction ms arbitrary: s)
  case Nil
  then show ?case by (simp add: ret_run)
next
  case (Cons m ms)
  obtain r t where "m s = (r, t)" by (cases "m s")
  then show ?case
    using Cons.IH [of t] by (cases r) (auto simp: seqc_run catch_run ret_run)
qed

end
