(* ===== verification/JsString.thy ===== *)
theory JsString
  imports Prelude
begin

text \<open>
  The string operations of the language that the components use.  A JavaScript string is
  a list of characters read as its UTF-8 bytes; case mapping and the whitespace class are
  those of ASCII text.  The section ends with decimal numerals (\<^verbatim>\<open>String(n)\<close>,
  \<^verbatim>\<open>Number.parseInt(s, 10)\<close>) and the fact that parsing undoes printing, stated through
  the locale \<open>codec\<close> that the other encodings of the program share.
\<close>

section \<open>An encoder and its decoder\<close>

text \<open>
  The contract every encoding here offers its client: on the values it accepts, decoding
  undoes encoding.  What clients use is derived once, inside the locale.
\<close>

locale codec =
  fixes enc :: "'a \<Rightarrow> 'b" and dec :: "'b \<Rightarrow> 'a option" and ok :: "'a \<Rightarrow> bool"
  assumes dec_enc: "ok x \<Longrightarrow> dec (enc x) = Some x"
begin

lemma enc_inj: "ok x \<Longrightarrow> ok y \<Longrightarrow> enc x = enc y \<Longrightarrow> x = y"
  by (metis dec_enc option.inject)

lemma enc_eq_iff: "ok x \<Longrightarrow> ok y \<Longrightarrow> enc x = enc y \<longleftrightarrow> x = y"
  by (auto dest: enc_inj)

lemma dec_map: "ok x \<Longrightarrow> map_option f (dec (enc x)) = Some (f x)"
  by (simp add: dec_enc)

end

text \<open>Two encodings, one after the other, are an encoding again.\<close>

locale codec_pair =
  inner: codec enc1 dec1 ok1 + outer: codec enc2 dec2 ok2
  for enc1 :: "'a \<Rightarrow> 'b" and dec1 and ok1
    and enc2 :: "'b \<Rightarrow> 'c" and dec2 and ok2 +
  assumes inner_ok: "ok1 x \<Longrightarrow> ok2 (enc1 x)"
begin

lemma pair_dec_enc: "ok1 x \<Longrightarrow> Option.bind (dec2 (enc2 (enc1 x))) dec1 = Some x"
  by (simp add: inner_ok outer.dec_enc inner.dec_enc)

end

section \<open>Trimming, case, searching\<close>

definition is_space :: "char \<Rightarrow> bool" where
  "is_space c \<longleftrightarrow> c = CHR '' '' \<or> c = CHR 0x09 \<or> c = CHR 0x0A \<or> c = CHR 0x0B \<or> c = CHR 0x0C \<or> c = CHR 0x0D"

definition trim :: "string \<Rightarrow> string" where
  "trim s = rev (dropWhile is_space (rev (dropWhile is_space s)))"

definition is_upper :: "char \<Rightarrow> bool" where
  "is_upper c \<longleftrightarrow> (65::nat) \<le> of_char c \<and> of_char c \<le> (90::nat)"

definition lower_char :: "char \<Rightarrow> char" where
  "lower_char c = (if is_upper c then char_of (of_char c + (32::nat)) else c)"

definition lower :: "string \<Rightarrow> string" where
  "lower s = map lower_char s"

fun starts_with :: "string \<Rightarrow> string \<Rightarrow> bool" where
  "starts_with s [] = True"
| "starts_with [] (c # p) = False"
| "starts_with (d # s) (c # p) = (c = d \<and> starts_with s p)"

definition ends_with :: "string \<Rightarrow> string \<Rightarrow> bool" where
  "ends_with s p = starts_with (rev s) (rev p)"

fun str_includes :: "string \<Rightarrow> string \<Rightarrow> bool" where
  "str_includes [] p = (p = [])"
| "str_includes (c # s) p = (starts_with (c # s) p \<or> str_includes s p)"

text \<open>\<^verbatim>\<open>/a|b|c/.test(s)\<close> for an alternation of plain words.\<close>

definition str_includes_any :: "string \<Rightarrow> string list \<Rightarrow> bool" where
  "str_includes_any s ps = list_ex (str_includes s) ps"

fun split_by :: "(char \<Rightarrow> bool) \<Rightarrow> string \<Rightarrow> string list" where
  "split_by p [] = [[]]"
| "split_by p (c # s) =
     (if p c then [] # split_by p s
      else (case split_by p s of [] \<Rightarrow> [[c]] | w # ws \<Rightarrow> (c # w) # ws))"

fun join :: "string \<Rightarrow> string list \<Rightarrow> string" where
  "join sep [] = []"
| "join sep [w] = w"
| "join sep (w # ws) = w @ sep @ join sep ws"

text \<open>\<^verbatim>\<open>s.replace(/\/+$/, "")\<close> and \<^verbatim>\<open>s.replace(/^www\./, "")\<close>.\<close>

definition strip_trailing_slashes :: "string \<Rightarrow> string" where
  "strip_trailing_slashes s = rev (dropWhile (\<lambda>c. c = CHR ''/'') (rev s))"

definition strip_www :: "string \<Rightarrow> string" where
  "strip_www s = (if starts_with s ''www.'' then drop 4 s else s)"

lemma starts_with_iff: "starts_with s p \<longleftrightarrow> (\<exists>t. s = p @ t)"
  by (induction s p rule: starts_with.induct) auto

lemma starts_with_append [simp]: "starts_with (p @ s) p"
  by (auto simp: starts_with_iff)

lemma ends_with_iff: "ends_with s p \<longleftrightarrow> (\<exists>t. s = t @ p)"
proof
  assume "ends_with s p"
  then obtain t where "rev s = rev p @ t" by (auto simp: ends_with_def starts_with_iff)
  then have "s = rev t @ p" by (metis rev_append rev_rev_ident)
  then show "\<exists>t. s = t @ p" ..
next
  assume "\<exists>t. s = t @ p"
  then show "ends_with s p" by (auto simp: ends_with_def)
qed

lemma str_includes_iff: "str_includes s p \<longleftrightarrow> (\<exists>u v. s = u @ p @ v)"
proof (induction s)
  case Nil
  then show ?case by simp
next
  case (Cons c s)
  have "(\<exists>u v. c # s = u @ p @ v) \<longleftrightarrow> (\<exists>v. c # s = p @ v) \<or> (\<exists>u v. s = u @ p @ v)"
    by (metis append_Cons append_Nil list.inject neq_Nil_conv)
  with Cons.IH show ?case by (simp add: starts_with_iff)
qed

lemma split_by_not_Nil [simp]: "split_by p s \<noteq> []"
  by (cases s) (auto split: list.splits)

lemma split_by_no_sep: "w \<in> set (split_by p s) \<Longrightarrow> \<forall>c \<in> set w. \<not> p c"
proof (induction s arbitrary: w)
  case (Cons c s)
  obtain v vs where sp: "split_by p s = v # vs" by (meson neq_Nil_conv split_by_not_Nil)
  with Cons.IH have "\<forall>w \<in> set (v # vs). \<forall>c \<in> set w. \<not> p c" by metis
  with Cons.prems sp show ?case by (auto split: if_splits)
qed simp

lemma dropWhile_rev_last: "s' = rev (dropWhile p (rev s)) \<Longrightarrow> s' \<noteq> [] \<Longrightarrow> \<not> p (last s')"
  by (metis hd_dropWhile last_rev rev_is_Nil_conv)

lemma dropWhile_rev_idem: "rev (dropWhile p (rev (rev (dropWhile p (rev s))))) = rev (dropWhile p (rev s))"
  by (simp add: dropWhile_idem)

lemma strip_trailing_slashes_idem [simp]:
  "strip_trailing_slashes (strip_trailing_slashes s) = strip_trailing_slashes s"
  by (simp add: strip_trailing_slashes_def dropWhile_idem)

lemma strip_trailing_slashes_last: "\<not> ends_with (strip_trailing_slashes s) ''/''"
proof
  assume "ends_with (strip_trailing_slashes s) ''/''"
  then obtain t where t: "strip_trailing_slashes s = t @ ''/''" by (auto simp: ends_with_iff)
  then have "\<not> last (strip_trailing_slashes s) = CHR ''/''"
    using dropWhile_rev_last [where p = "\<lambda>c. c = CHR ''/''" and s = s]
    by (simp add: strip_trailing_slashes_def)
  with t show False by simp
qed

lemma strip_trailing_slashes_prefix: "\<exists>t. s = strip_trailing_slashes s @ t \<and> set t \<subseteq> {CHR ''/''}"
proof -
  let ?p = "\<lambda>c. c = CHR ''/''"
  have "rev s = takeWhile ?p (rev s) @ dropWhile ?p (rev s)" by simp
  then have "s = rev (dropWhile ?p (rev s)) @ rev (takeWhile ?p (rev s))"
    by (metis rev_append rev_rev_ident)
  moreover have "set (rev (takeWhile ?p (rev s))) \<subseteq> {CHR ''/''}"
    by (auto dest: set_takeWhileD)
  ultimately show ?thesis unfolding strip_trailing_slashes_def by blast
qed

lemma trim_Nil [simp]: "trim [] = []"
  by (simp add: trim_def)

lemma trim_idem [simp]: "trim (trim s) = trim s"
proof -
  define u where "u = dropWhile is_space s"
  define v where "v = rev (dropWhile is_space (rev u))"
  have tv: "trim s = v" by (simp add: trim_def u_def v_def)
  have vpre: "\<exists>t. u = v @ t"
  proof -
    have "rev u = takeWhile is_space (rev u) @ dropWhile is_space (rev u)" by simp
    then have "u = v @ rev (takeWhile is_space (rev u))"
      unfolding v_def by (metis rev_append rev_rev_ident)
    then show ?thesis ..
  qed
  have "dropWhile is_space v = v"
  proof (cases v)
    case (Cons c v')
    with vpre obtain t where "u = c # v' @ t" by auto
    then have "\<not> is_space c" unfolding u_def by (metis dropWhile_eq_Cons_conv)
    with Cons show ?thesis by simp
  qed simp
  then have "trim v = v" by (simp add: trim_def v_def dropWhile_idem)
  then show ?thesis by (simp add: tv)
qed

lemma lower_length [simp]: "length (lower s) = length s"
  by (simp add: lower_def)

lemma lower_char_idem [simp]: "lower_char (lower_char c) = lower_char c"
  by (auto simp: lower_char_def is_upper_def)

lemma lower_idem [simp]: "lower (lower s) = lower s"
  by (simp add: lower_def)

lemma lower_Nil [simp]: "lower [] = []"
  by (simp add: lower_def)

section \<open>Decimal numerals\<close>

definition is_digit :: "char \<Rightarrow> bool" where
  "is_digit c \<longleftrightarrow> (48::nat) \<le> of_char c \<and> of_char c \<le> (57::nat)"

definition digit_char :: "nat \<Rightarrow> char" where
  "digit_char d = char_of (48 + d)"

definition digit_val :: "char \<Rightarrow> nat" where
  "digit_val c = of_char c - 48"

fun show_nat :: "nat \<Rightarrow> string" where
  "show_nat n = (if n < 10 then [digit_char n] else show_nat (n div 10) @ [digit_char (n mod 10)])"

declare show_nat.simps [simp del]

definition show_int :: "int \<Rightarrow> string" where
  "show_int i = (if i < 0 then CHR ''-'' # show_nat (nat (- i)) else show_nat (nat i))"

definition digits_val :: "string \<Rightarrow> nat" where
  "digits_val ds = foldl (\<lambda>acc c. 10 * acc + digit_val c) 0 ds"

text \<open>
  \<^verbatim>\<open>Number.parseInt(s, 10)\<close>: skip whitespace, an optional sign, then the longest run of
  digits; no digit at all is NaN, here \<open>None\<close>.
\<close>

definition parse_unsigned :: "string \<Rightarrow> nat option" where
  "parse_unsigned s =
     (case takeWhile is_digit s of [] \<Rightarrow> None | d # ds \<Rightarrow> Some (digits_val (d # ds)))"

definition parse_int :: "string \<Rightarrow> int option" where
  "parse_int s =
     (case dropWhile is_space s of
        [] \<Rightarrow> None
      | c # t \<Rightarrow>
          (if c = CHR ''-'' then map_option (\<lambda>n. - int n) (parse_unsigned t)
           else if c = CHR ''+'' then map_option int (parse_unsigned t)
           else map_option int (parse_unsigned (c # t))))"

lemma of_char_digit: "d < 10 \<Longrightarrow> of_char (digit_char d) = 48 + d"
  by (simp add: digit_char_def)

lemma is_digit_digit_char [simp]: "d < 10 \<Longrightarrow> is_digit (digit_char d)"
  by (simp add: is_digit_def of_char_digit)

lemma digit_val_digit_char [simp]: "d < 10 \<Longrightarrow> digit_val (digit_char d) = d"
  by (simp add: digit_val_def of_char_digit)

lemma show_nat_not_Nil [simp]: "show_nat n \<noteq> []"
  by (subst show_nat.simps) simp

lemma show_nat_digits: "\<forall>c \<in> set (show_nat n). is_digit c"
proof (induction n rule: show_nat.induct)
  case (1 n)
  then show ?case by (cases "n < 10") (auto simp: show_nat.simps [of n])
qed

lemma digits_val_snoc: "digits_val (ds @ [c]) = 10 * digits_val ds + digit_val c"
  by (simp add: digits_val_def)

lemma digits_val_show: "digits_val (show_nat n) = n"
proof (induction n rule: show_nat.induct)
  case (1 n)
  show ?case
  proof (cases "n < 10")
    case True
    then show ?thesis by (simp add: show_nat.simps [of n] digits_val_def)
  next
    case False
    with 1 have "digits_val (show_nat (n div 10)) = n div 10" by simp
    with False show ?thesis by (simp add: show_nat.simps [of n] digits_val_snoc)
  qed
qed

lemma takeWhile_show_nat:
  "(rest = [] \<or> \<not> is_digit (hd rest)) \<Longrightarrow> takeWhile is_digit (show_nat n @ rest) = show_nat n"
  using show_nat_digits [of n] by (cases rest) (auto simp: takeWhile_append takeWhile_eq_all_conv)

lemma dropWhile_show_nat:
  "(rest = [] \<or> \<not> is_digit (hd rest)) \<Longrightarrow> dropWhile is_digit (show_nat n @ rest) = rest"
  using show_nat_digits [of n] by (cases rest) (auto simp: dropWhile_append dropWhile_eq_Nil_conv)

lemma parse_unsigned_show: "parse_unsigned (show_nat n) = Some n"
proof -
  have tw: "takeWhile is_digit (show_nat n) = show_nat n"
    using takeWhile_show_nat [of "[]" n] by (simp only: append_Nil2) simp
  obtain d ds where "show_nat n = d # ds" by (meson neq_Nil_conv show_nat_not_Nil)
  then show ?thesis
    unfolding parse_unsigned_def tw using digits_val_show [of n] by simp
qed

lemma is_digit_not_special:
  "is_digit c \<Longrightarrow> \<not> is_space c \<and> c \<noteq> CHR ''-'' \<and> c \<noteq> CHR ''+''"
  by (auto simp: is_digit_def is_space_def)

lemma parse_int_show: "parse_int (show_int i) = Some i"
proof (cases "i < 0")
  case True
  then show ?thesis
    by (simp add: parse_int_def show_int_def parse_unsigned_show is_space_def)
next
  case False
  obtain c t where ct: "show_nat (nat i) = c # t" by (meson neq_Nil_conv show_nat_not_Nil)
  then have "is_digit c" using show_nat_digits [of "nat i"] by simp
  with False ct show ?thesis
    using parse_unsigned_show [of "nat i"] is_digit_not_special [of c]
    by (simp add: parse_int_def show_int_def)
qed

interpretation numeral: codec show_int parse_int "\<lambda>_. True"
  by unfold_locales (rule parse_int_show)

lemma show_int_inj: "show_int i = show_int j \<Longrightarrow> i = j"
  by (rule numeral.enc_inj) simp_all

lemma show_int_not_Nil [simp]: "show_int i \<noteq> []"
  by (simp add: show_int_def)

end
