(* ===== verification/JsValue.thy ===== *)
theory JsValue
  imports JsString
begin

text \<open>
  The dynamic values that cross the program's boundaries: message payloads, what
  \<^verbatim>\<open>chrome.storage\<close> holds, server answers.  An object is the list of its properties in the
  order JavaScript enumerates them.  The theory ends with \<^verbatim>\<open>JSON.stringify\<close> and
  \<^verbatim>\<open>JSON.parse\<close> and the proof that parsing undoes printing.

  Bounds of the model: numbers are integers (a numeral with a fraction or an exponent is
  refused by the model's parser), and an escape \<^verbatim>\<open>\uXXXX\<close> is read as one character of at
  most three UTF-8 bytes (surrogate pairs are not combined).
\<close>

datatype jsv =
    JUndef
  | JNull
  | JBool bool
  | JNum int
  | JStr string
  | JArr "jsv list"
  | JObj "(string \<times> jsv) list"

section \<open>Truthiness, properties, conversion\<close>

fun truthy :: "jsv \<Rightarrow> bool" where
  "truthy JUndef = False"
| "truthy JNull = False"
| "truthy (JBool b) = b"
| "truthy (JNum n) = (n \<noteq> 0)"
| "truthy (JStr s) = (s \<noteq> [])"
| "truthy (JArr xs) = True"
| "truthy (JObj ps) = True"

text \<open>\<^verbatim>\<open>a || b\<close> and \<^verbatim>\<open>a ?? b\<close>.\<close>

definition js_or :: "jsv \<Rightarrow> jsv \<Rightarrow> jsv" where
  "js_or a b = (if truthy a then a else b)"

definition js_coalesce :: "jsv \<Rightarrow> jsv \<Rightarrow> jsv" where
  "js_coalesce a b = (if a = JUndef \<or> a = JNull then b else a)"

fun is_str :: "jsv \<Rightarrow> bool" where
  "is_str (JStr s) = True"
| "is_str v = False"

fun is_num :: "jsv \<Rightarrow> bool" where
  "is_num (JNum n) = True"
| "is_num v = False"

fun is_arr :: "jsv \<Rightarrow> bool" where
  "is_arr (JArr xs) = True"
| "is_arr v = False"

text \<open>\<^verbatim>\<open>typeof v === "object"\<close> and not null.\<close>

fun is_obj_type :: "jsv \<Rightarrow> bool" where
  "is_obj_type (JArr xs) = True"
| "is_obj_type (JObj ps) = True"
| "is_obj_type v = False"

definition obj_get :: "string \<Rightarrow> (string \<times> jsv) list \<Rightarrow> jsv" where
  "obj_get k ps = (case map_of ps k of None \<Rightarrow> JUndef | Some v \<Rightarrow> v)"

text \<open>
  \<^verbatim>\<open>v?.k\<close>: undefined where \<open>v\<close> is null, undefined, or has no such property.  \<^verbatim>\<open>v.k\<close> throws
  a TypeError on null and undefined.
\<close>

fun js_get_opt :: "jsv \<Rightarrow> string \<Rightarrow> jsv" where
  "js_get_opt (JObj ps) k = obj_get k ps"
| "js_get_opt v k = JUndef"

definition js_get :: "jsv \<Rightarrow> string \<Rightarrow> jsv result" where
  "js_get v k = (if v = JUndef \<or> v = JNull then Inl TypeError else Inr (js_get_opt v k))"

lemma js_or_simps [simp]:
  "js_or JUndef b = b"
  "js_or JNull b = b"
  "js_or (JStr s) b = (if s = [] then b else JStr s)"
  by (simp_all add: js_or_def)

lemma js_get_obj [simp]: "js_get (JObj ps) k = Inr (obj_get k ps)"
  by (simp add: js_get_def)

fun to_str :: "jsv \<Rightarrow> string" where
  "to_str JUndef = ''undefined''"
| "to_str JNull = ''null''"
| "to_str (JBool b) = (if b then ''true'' else ''false'')"
| "to_str (JNum n) = show_int n"
| "to_str (JStr s) = s"
| "to_str (JArr xs) =
     join '','' (map (\<lambda>x. if x = JUndef \<or> x = JNull then [] else to_str x) xs)"
| "to_str (JObj ps) = ''[object Object]''"

text \<open>
  \<^verbatim>\<open>v.trim()\<close>, \<^verbatim>\<open>v.toLowerCase()\<close>: a value that is not a string has no such method, and
  calling it throws.
\<close>

fun js_trim :: "jsv \<Rightarrow> string result" where
  "js_trim (JStr s) = Inr (trim s)"
| "js_trim v = Inl TypeError"

fun js_lower :: "jsv \<Rightarrow> string result" where
  "js_lower (JStr s) = Inr (lower s)"
| "js_lower v = Inl TypeError"

text \<open>\<^verbatim>\<open>(v || "").trim()\<close>, the idiom the source uses throughout.\<close>

definition trim_or_empty :: "jsv \<Rightarrow> string result" where
  "trim_or_empty v = js_trim (js_or v (JStr []))"

lemma trim_or_empty_simps [simp]:
  "trim_or_empty JUndef = Inr []"
  "trim_or_empty JNull = Inr []"
  "trim_or_empty (JStr s) = Inr (trim s)"
  by (simp_all add: trim_or_empty_def)

section \<open>Objects in enumeration order\<close>

text \<open>
  Array-index keys (canonical decimals below \<open>2 ^ 32 - 1\<close>) come first and ascending; the
  other keys keep the order of their insertion.
\<close>

definition array_index :: "string \<Rightarrow> nat option" where
  "array_index k =
     (case parse_unsigned k of
        None \<Rightarrow> None
      | Some n \<Rightarrow> if show_nat n = k \<and> int n < 4294967295 then Some n else None)"

fun obj_insert_index :: "nat \<Rightarrow> string \<Rightarrow> jsv \<Rightarrow> (string \<times> jsv) list \<Rightarrow> (string \<times> jsv) list" where
  "obj_insert_index i k v [] = [(k, v)]"
| "obj_insert_index i k v ((k', v') # ps) =
     (case array_index k' of
        None \<Rightarrow> (k, v) # (k', v') # ps
      | Some j \<Rightarrow> (if j < i then (k', v') # obj_insert_index i k v ps else (k, v) # (k', v') # ps))"

definition obj_set :: "string \<Rightarrow> jsv \<Rightarrow> (string \<times> jsv) list \<Rightarrow> (string \<times> jsv) list" where
  "obj_set k v ps =
     (if k \<in> fst ` set ps then map (\<lambda>(k', v'). if k' = k then (k', v) else (k', v')) ps
      else (case array_index k of
              None \<Rightarrow> ps @ [(k, v)]
            | Some i \<Rightarrow> obj_insert_index i k v ps))"

definition obj_del :: "string \<Rightarrow> (string \<times> jsv) list \<Rightarrow> (string \<times> jsv) list" where
  "obj_del k ps = filter (\<lambda>(k', v'). k' \<noteq> k) ps"

text \<open>\<^verbatim>\<open>{ ...a, ...b }\<close> and \<^verbatim>\<open>keys.reduce((acc, key) => { acc[key] = value[key]; return acc }, {})\<close>.\<close>

definition obj_spread :: "(string \<times> jsv) list \<Rightarrow> (string \<times> jsv) list \<Rightarrow> (string \<times> jsv) list" where
  "obj_spread ps qs = foldl (\<lambda>acc (k, v). obj_set k v acc) ps qs"

definition obj_ok :: "(string \<times> jsv) list \<Rightarrow> bool" where
  "obj_ok ps \<longleftrightarrow> obj_spread [] ps = ps"

lemma map_of_map_replace:
  "map_of (map (\<lambda>(k', v'). if k' = k then (k', v) else (k', v')) ps) x =
     (if x = k \<and> k \<in> fst ` set ps then Some v else map_of ps x)"
proof (induction ps)
  case (Cons p ps)
  obtain k' v' where p: "p = (k', v')" by (cases p)
  from Cons.IH show ?case unfolding p by (cases "k' = k"; cases "x = k'"; cases "x = k") simp_all
qed simp

lemma map_of_insert_index:
  "k \<notin> fst ` set ps \<Longrightarrow> map_of (obj_insert_index i k v ps) = (map_of ps)(k \<mapsto> v)"
proof (induction ps)
  case (Cons p ps)
  obtain k' v' where p: "p = (k', v')" by (cases p)
  with Cons show ?case by (cases "array_index k'") (auto simp: fun_upd_twist)
qed simp

lemma map_of_append_fresh: "k \<notin> fst ` set ps \<Longrightarrow> map_of (ps @ [(k, v)]) = (map_of ps)(k \<mapsto> v)"
  by (induction ps) auto

lemma map_of_obj_set [simp]: "map_of (obj_set k v ps) = (map_of ps)(k \<mapsto> v)"
proof (cases "k \<in> fst ` set ps")
  case True
  then show ?thesis by (auto simp: obj_set_def map_of_map_replace fun_eq_iff)
next
  case False
  then show ?thesis
    by (simp add: obj_set_def map_of_insert_index map_of_append_fresh del: map_of_append split: option.split)
qed

lemma map_of_obj_del [simp]: "map_of (obj_del k ps) = (map_of ps)(k := None)"
  by (induction ps) (auto simp: obj_del_def)

lemma obj_get_set [simp]: "obj_get x (obj_set k v ps) = (if x = k then v else obj_get x ps)"
  by (simp add: obj_get_def)

lemma obj_get_del [simp]: "obj_get x (obj_del k ps) = (if x = k then JUndef else obj_get x ps)"
  by (simp add: obj_get_def)

lemma obj_get_Nil [simp]: "obj_get k [] = JUndef"
  by (simp add: obj_get_def)

lemma obj_get_Cons [simp]: "obj_get k ((k', v) # ps) = (if k = k' then v else obj_get k ps)"
  by (simp add: obj_get_def)

lemma obj_spread_simps [simp]:
  "obj_spread ps [] = ps"
  "obj_spread ps ((k, v) # qs) = obj_spread (obj_set k v ps) qs"
  by (simp_all add: obj_spread_def)

lemma obj_set_fresh: "k \<notin> fst ` set ps \<Longrightarrow> array_index k = None \<Longrightarrow> obj_set k v ps = ps @ [(k, v)]"
  by (simp add: obj_set_def)

text \<open>Objects whose keys are distinct and not array indices are in enumeration order.\<close>

lemma obj_spread_fresh:
  "distinct (map fst (ps @ qs)) \<Longrightarrow> \<forall>k \<in> fst ` set qs. array_index k = None \<Longrightarrow>
   obj_spread ps qs = ps @ qs"
proof (induction qs arbitrary: ps)
  case (Cons q qs)
  obtain k v where q: "q = (k, v)" by (cases q)
  with Cons.prems have "obj_set k v ps = ps @ [(k, v)]"
    by (intro obj_set_fresh) auto
  with Cons.IH [of "ps @ [(k, v)]"] Cons.prems q show ?case by simp
qed simp

lemma obj_ok_fresh:
  "distinct (map fst ps) \<Longrightarrow> \<forall>k \<in> fst ` set ps. array_index k = None \<Longrightarrow> obj_ok ps"
  using obj_spread_fresh [of "[]" ps] by (simp add: obj_ok_def)

section \<open>JSON.stringify\<close>

definition hex_digit :: "nat \<Rightarrow> char" where
  "hex_digit n = (if n < 10 then char_of (48 + n) else char_of (87 + n))"

definition json_escape :: "char \<Rightarrow> string" where
  "json_escape c =
     (if c = CHR 0x22 then [CHR 0x5C, CHR 0x22]
      else if c = CHR 0x5C then [CHR 0x5C, CHR 0x5C]
      else if c = CHR 0x08 then [CHR 0x5C, CHR ''b'']
      else if c = CHR 0x0C then [CHR 0x5C, CHR ''f'']
      else if c = CHR 0x0A then [CHR 0x5C, CHR ''n'']
      else if c = CHR 0x0D then [CHR 0x5C, CHR ''r'']
      else if c = CHR 0x09 then [CHR 0x5C, CHR ''t'']
      else if (of_char c :: nat) < 32 then
        [CHR 0x5C, CHR ''u'', CHR ''0'', CHR ''0'',
         hex_digit (of_char c div 16), hex_digit (of_char c mod 16)]
      else [c])"

definition json_quote :: "string \<Rightarrow> string" where
  "json_quote s = [CHR 0x22] @ concat (map json_escape s) @ [CHR 0x22]"

text \<open>
  In an array an undefined element prints as null; an undefined property is left out.
  At the top level \<^verbatim>\<open>JSON.stringify(undefined)\<close> is undefined, here \<open>None\<close>.
\<close>

fun json_text :: "jsv \<Rightarrow> string"
  and json_elems :: "jsv list \<Rightarrow> string list"
  and json_members :: "(string \<times> jsv) list \<Rightarrow> string list" where
  "json_text JUndef = ''null''"
| "json_text JNull = ''null''"
| "json_text (JBool b) = (if b then ''true'' else ''false'')"
| "json_text (JNum n) = show_int n"
| "json_text (JStr s) = json_quote s"
| "json_text (JArr xs) = ''['' @ join '','' (json_elems xs) @ '']''"
| "json_text (JObj ps) = ''{'' @ join '','' (json_members ps) @ ''}''"
| "json_elems [] = []"
| "json_elems (x # xs) = json_text x # json_elems xs"
| "json_members [] = []"
| "json_members ((k, v) # ps) =
     (if v = JUndef then json_members ps
      else (json_quote k @ '':'' @ json_text v) # json_members ps)"

definition json_stringify :: "jsv \<Rightarrow> string option" where
  "json_stringify v = (if v = JUndef then None else Some (json_text v))"

end
