(* ===== verification/Json.thy ===== *)
theory Json
  imports JsValue
begin

text \<open>
  \<^verbatim>\<open>JSON.parse\<close> as a recursive-descent parser.  The parser carries fuel; \<open>json_parse\<close> starts
  it with twice the length of the text plus one, and \<open>json_value_fuel\<close> shows that this is
  as good as any larger amount.  \<open>json_roundtrip\<close> is what the vault relies on when it
  reads back the metadata it encrypted.
\<close>

section \<open>The parser\<close>

definition json_space :: "char \<Rightarrow> bool" where
  "json_space c \<longleftrightarrow> c = CHR '' '' \<or> c = CHR 0x09 \<or> c = CHR 0x0A \<or> c = CHR 0x0D"

definition skip_ws :: "string \<Rightarrow> string" where
  "skip_ws s = dropWhile json_space s"

definition hex_val :: "char \<Rightarrow> nat option" where
  "hex_val c =
     (let n = of_char c :: nat in
      if 48 \<le> n \<and> n \<le> 57 then Some (n - 48)
      else if 97 \<le> n \<and> n \<le> 102 then Some (n - 87)
      else if 65 \<le> n \<and> n \<le> 70 then Some (n - 55)
      else None)"

definition hex4 :: "char \<Rightarrow> char \<Rightarrow> char \<Rightarrow> char \<Rightarrow> nat option" where
  "hex4 a b c d =
     (case (hex_val a, hex_val b, hex_val c, hex_val d) of
        (Some p, Some q, Some r, Some s) \<Rightarrow> Some (((p * 16 + q) * 16 + r) * 16 + s)
      | _ \<Rightarrow> None)"

definition utf8_char :: "nat \<Rightarrow> string" where
  "utf8_char n =
     (if n < 128 then [char_of n]
      else if n < 2048 then [char_of (192 + n div 64), char_of (128 + n mod 64)]
      else [char_of (224 + n div 4096), char_of (128 + (n div 64) mod 64), char_of (128 + n mod 64)])"

definition simple_escape :: "char \<Rightarrow> char option" where
  "simple_escape e =
     (if e = CHR 0x22 \<or> e = CHR 0x5C \<or> e = CHR ''/'' then Some e
      else if e = CHR ''b'' then Some (CHR 0x08)
      else if e = CHR ''f'' then Some (CHR 0x0C)
      else if e = CHR ''n'' then Some (CHR 0x0A)
      else if e = CHR ''r'' then Some (CHR 0x0D)
      else if e = CHR ''t'' then Some (CHR 0x09)
      else None)"

text \<open>The characters of a string literal up to its closing quote, and what follows it.\<close>

fun json_chars :: "string \<Rightarrow> (string \<times> string) option" where
  "json_chars [] = None"
| "json_chars (c # s) =
     (if c = CHR 0x22 then Some ([], s)
      else if c = CHR 0x5C then
        (case s of
           [] \<Rightarrow> None
         | e # t \<Rightarrow>
             (case simple_escape e of
                Some d \<Rightarrow> map_option (\<lambda>(w, r). (d # w, r)) (json_chars t)
              | None \<Rightarrow>
                  (if e = CHR ''u'' then
                     (case t of
                        h1 # h2 # h3 # h4 # t' \<Rightarrow>
                          (case hex4 h1 h2 h3 h4 of
                             None \<Rightarrow> None
                           | Some n \<Rightarrow> map_option (\<lambda>(w, r). (utf8_char n @ w, r)) (json_chars t'))
                      | _ \<Rightarrow> None)
                   else None)))
      else if (of_char c :: nat) < 32 then None
      else map_option (\<lambda>(w, r). (c # w, r)) (json_chars s))"

definition json_nat :: "string \<Rightarrow> (nat \<times> string) option" where
  "json_nat s =
     (case takeWhile is_digit s of
        [] \<Rightarrow> None
      | d # ds \<Rightarrow>
          (if d = CHR ''0'' \<and> ds \<noteq> [] then None
           else (case dropWhile is_digit s of
                   [] \<Rightarrow> Some (digits_val (d # ds), [])
                 | c # r \<Rightarrow> (if c = CHR ''.'' \<or> c = CHR ''e'' \<or> c = CHR ''E'' then None
                            else Some (digits_val (d # ds), c # r)))))"

definition json_number :: "string \<Rightarrow> (jsv \<times> string) option" where
  "json_number s =
     (case s of
        [] \<Rightarrow> None
      | c # t \<Rightarrow>
          (if c = CHR ''-'' then map_option (\<lambda>(n, r). (JNum (- int n), r)) (json_nat t)
           else map_option (\<lambda>(n, r). (JNum (int n), r)) (json_nat s)))"

text \<open>A string, a word or a number.\<close>

definition json_atom :: "string \<Rightarrow> (jsv \<times> string) option" where
  "json_atom s =
     (if starts_with s [CHR 0x22] then map_option (\<lambda>(w, r). (JStr w, r)) (json_chars (tl s))
      else if starts_with s ''null'' then Some (JNull, drop 4 s)
      else if starts_with s ''true'' then Some (JBool True, drop 4 s)
      else if starts_with s ''false'' then Some (JBool False, drop 5 s)
      else json_number s)"

fun json_value :: "nat \<Rightarrow> string \<Rightarrow> (jsv \<times> string) option"
  and json_list :: "nat \<Rightarrow> jsv list \<Rightarrow> string \<Rightarrow> (jsv \<times> string) option"
  and json_pairs :: "nat \<Rightarrow> (string \<times> jsv) list \<Rightarrow> string \<Rightarrow> (jsv \<times> string) option" where
  "json_value 0 s = None"
| "json_value (Suc n) s =
     (case skip_ws s of
        [] \<Rightarrow> None
      | c # t \<Rightarrow>
          (if c = CHR ''['' then
             (case skip_ws t of
                [] \<Rightarrow> None
              | d # u \<Rightarrow> (if d = CHR '']'' then Some (JArr [], u) else json_list n [] t))
           else if c = CHR ''{'' then
             (case skip_ws t of
                [] \<Rightarrow> None
              | d # u \<Rightarrow> (if d = CHR ''}'' then Some (JObj [], u) else json_pairs n [] t))
           else json_atom (c # t)))"
| "json_list 0 acc s = None"
| "json_list (Suc n) acc s =
     (case json_value n s of
        None \<Rightarrow> None
      | Some (v, t) \<Rightarrow>
          (case skip_ws t of
             [] \<Rightarrow> None
           | d # u \<Rightarrow> (if d = CHR '','' then json_list n (acc @ [v]) u
                      else if d = CHR '']'' then Some (JArr (acc @ [v]), u) else None)))"
| "json_pairs 0 acc s = None"
| "json_pairs (Suc n) acc s =
     (case skip_ws s of
        [] \<Rightarrow> None
      | q # t \<Rightarrow>
          (if q \<noteq> CHR 0x22 then None
           else (case json_chars t of
                   None \<Rightarrow> None
                 | Some (k, t1) \<Rightarrow>
                     (case skip_ws t1 of
                        [] \<Rightarrow> None
                      | c # t2 \<Rightarrow>
                          (if c \<noteq> CHR '':'' then None
                           else (case json_value n t2 of
                                   None \<Rightarrow> None
                                 | Some (v, t3) \<Rightarrow>
                                     (case skip_ws t3 of
                                        [] \<Rightarrow> None
                                      | d # u \<Rightarrow>
                                          (if d = CHR '','' then json_pairs n (obj_set k v acc) u
                                           else if d = CHR ''}'' then Some (JObj (obj_set k v acc), u)
                                           else None))))))))"

definition json_parse :: "string \<Rightarrow> jsv result" where
  "json_parse s =
     (case json_value (2 * length s + 1) s of
        None \<Rightarrow> Inl SyntaxError
      | Some (v, r) \<Rightarrow> (if skip_ws r = [] then Inr v else Inl SyntaxError))"

declare json_chars.simps [simp del]
declare json_value.simps [simp del] json_list.simps [simp del] json_pairs.simps [simp del]

section \<open>Every parser consumes input\<close>

lemma skip_ws_length: "length (skip_ws s) \<le> length s"
  by (simp add: skip_ws_def length_dropWhile_le)

lemma skip_ws_Cons: "skip_ws s = c # t \<Longrightarrow> length t < length s"
  using skip_ws_length [of s] by simp

lemma json_chars_cases:
  assumes "json_chars (c # s) = Some (w, r)"
  shows "r = s \<or> (\<exists>t w'. json_chars t = Some (w', r) \<and> length t \<le> length s)"
  using assms unfolding json_chars.simps(2)
  by (auto split: if_splits list.splits option.splits)

lemma json_chars_length: "json_chars s = Some (w, r) \<Longrightarrow> length r < length s"
proof (induction s arbitrary: w r rule: length_induct)
  case (1 s)
  then obtain c t where s: "s = c # t" by (cases s) (auto simp: json_chars.simps)
  from json_chars_cases [OF 1(2) [unfolded s]] 1(1) show ?case
    unfolding s by (auto simp: less_Suc_eq_le)
qed

lemma json_nat_length: "json_nat s = Some (n, r) \<Longrightarrow> length r < length s"
proof -
  assume a: "json_nat s = Some (n, r)"
  then have tw: "takeWhile is_digit s \<noteq> []"
    by (auto simp: json_nat_def)
  obtain d ds where dd: "takeWhile is_digit s = d # ds" using tw by (meson neq_Nil_conv)
  define rest where "rest = dropWhile is_digit s"
  from a have "r = rest"
    unfolding json_nat_def dd rest_def [symmetric] by (auto split: if_splits list.splits)
  then have r: "r = dropWhile is_digit s" by (simp add: rest_def)
  have "length s = length (takeWhile is_digit s) + length (dropWhile is_digit s)"
    by (metis length_append takeWhile_dropWhile_id)
  with tw r show ?thesis by (cases "takeWhile is_digit s") simp_all
qed

lemma json_number_length: "json_number s = Some (v, r) \<Longrightarrow> length r < length s"
  by (auto simp: json_number_def split: list.splits if_splits dest!: json_nat_length)

lemma json_atom_length: "json_atom s = Some (v, r) \<Longrightarrow> length r < length s"
proof -
  assume a: "json_atom s = Some (v, r)"
  show ?thesis
  proof (cases "starts_with s [CHR 0x22]")
    case True
    then obtain t where "s = CHR 0x22 # t" by (auto simp: starts_with_iff)
    with a show ?thesis by (auto simp: json_atom_def dest: json_chars_length)
  next
    case False
    then show ?thesis
      using a json_number_length [of s v r]
      by (auto simp: json_atom_def starts_with_iff split: if_splits)
  qed
qed

text \<open>One unfolding of each parser, as an elimination rule.\<close>

lemma json_value_step:
  assumes "json_value n s = Some (v, r)"
  obtains m c t where "n = Suc m" "skip_ws s = c # t" "length r < length (c # t)"
    "\<And>k. json_value (Suc k) s = Some (v, r)"
  | m t where "n = Suc m" "skip_ws s = CHR ''['' # t" "json_list m [] t = Some (v, r)"
    "\<And>k. json_value (Suc k) s = json_list k [] t"
  | m t where "n = Suc m" "skip_ws s = CHR ''{'' # t" "json_pairs m [] t = Some (v, r)"
    "\<And>k. json_value (Suc k) s = json_pairs k [] t"
proof -
  from assms obtain m where n: "n = Suc m" by (cases n) (auto simp: json_value.simps)
  from assms n obtain c t where st: "skip_ws s = c # t"
    by (auto simp: json_value.simps split: list.splits)
  consider "c = CHR ''[''" | "c = CHR ''{''" | "c \<noteq> CHR ''[''" "c \<noteq> CHR ''{''" by blast
  then show ?thesis
  proof cases
    case 1
    from assms n st 1 obtain d u where du: "skip_ws t = d # u"
      by (auto simp: json_value.simps split: list.splits)
    show ?thesis
    proof (cases "d = CHR '']''")
      case True
      with assms n st 1 du have "r = u" "\<And>k. json_value (Suc k) s = Some (v, r)"
        by (simp_all add: json_value.simps)
      with that(1) [OF n st] skip_ws_Cons [OF du] show ?thesis by simp
    next
      case False
      with assms n st 1 du that(2) show ?thesis by (simp add: json_value.simps)
    qed
  next
    case 2
    from assms n st 2 obtain d u where du: "skip_ws t = d # u"
      by (auto simp: json_value.simps split: list.splits)
    show ?thesis
    proof (cases "d = CHR ''}''")
      case True
      with assms n st 2 du have "r = u" "\<And>k. json_value (Suc k) s = Some (v, r)"
        by (simp_all add: json_value.simps)
      with that(1) [OF n st] skip_ws_Cons [OF du] show ?thesis by simp
    next
      case False
      with assms n st 2 du that(3) show ?thesis by (simp add: json_value.simps)
    qed
  next
    case 3
    with st have "json_value (Suc k) s = json_atom (c # t)" for k
      by (simp add: json_value.simps)
    with assms n that(1) [OF n st] json_atom_length [of "c # t" v r] show ?thesis by simp
  qed
qed

lemma json_list_step:
  assumes "json_list n acc s = Some (v, r)"
  obtains m x t u where "n = Suc m" "json_value m s = Some (x, t)"
    "skip_ws t = CHR '','' # u" "json_list m (acc @ [x]) u = Some (v, r)"
    "\<And>k. json_value k s = Some (x, t) \<Longrightarrow> json_list (Suc k) acc s = json_list k (acc @ [x]) u"
  | m x t where "n = Suc m" "json_value m s = Some (x, t)" "skip_ws t = CHR '']'' # r"
    "\<And>k. json_value k s = Some (x, t) \<Longrightarrow> json_list (Suc k) acc s = Some (v, r)"
proof -
  from assms obtain m where n: "n = Suc m" by (cases n) (auto simp: json_list.simps)
  from assms n obtain x t d u where xt: "json_value m s = Some (x, t)" and du: "skip_ws t = d # u"
    by (auto simp: json_list.simps split: list.splits option.splits)
  show ?thesis
  proof (cases "d = CHR '',''")
    case True
    with assms n xt du that(1) [OF n xt] show ?thesis by (simp add: json_list.simps)
  next
    case False
    with assms n xt du that(2) [OF n xt] show ?thesis by (simp add: json_list.simps split: if_splits)
  qed
qed

lemma json_pairs_step:
  assumes "json_pairs n acc s = Some (v, r)"
  obtains m q k t1 t2 x t3 u where "n = Suc m" "skip_ws s = q # k" "length t2 < length k"
    "json_value m t2 = Some (x, t3)" "skip_ws t3 = CHR '','' # u"
    "json_pairs m t1 u = Some (v, r)"
    "\<And>i. json_value i t2 = Some (x, t3) \<Longrightarrow> json_pairs (Suc i) acc s = json_pairs i t1 u"
  | m q k t2 x t3 where "n = Suc m" "skip_ws s = q # k" "length t2 < length k"
    "json_value m t2 = Some (x, t3)" "skip_ws t3 = CHR ''}'' # r"
    "\<And>i. json_value i t2 = Some (x, t3) \<Longrightarrow> json_pairs (Suc i) acc s = Some (v, r)"
proof -
  from assms obtain m where n: "n = Suc m" by (cases n) (auto simp: json_pairs.simps)
  from assms n obtain k where sk: "skip_ws s = CHR 0x22 # k"
    by (auto simp: json_pairs.simps split: list.splits if_splits)
  from assms n sk obtain w t1 where jc: "json_chars k = Some (w, t1)"
    by (auto simp: json_pairs.simps split: option.splits)
  from assms n sk jc obtain t2 where t2: "skip_ws t1 = CHR '':'' # t2"
    by (auto simp: json_pairs.simps split: list.splits if_splits)
  from assms n sk jc t2 obtain x t3 where xt: "json_value m t2 = Some (x, t3)"
    by (auto simp: json_pairs.simps split: option.splits)
  from assms n sk jc t2 xt obtain d u where du: "skip_ws t3 = d # u"
    by (auto simp: json_pairs.simps split: list.splits)
  have len: "length t2 < length k"
    using json_chars_length [OF jc] skip_ws_Cons [OF t2] by simp
  show ?thesis
  proof (cases "d = CHR '',''")
    case True
    with assms n sk jc t2 xt du that(1) [OF n sk len xt] show ?thesis by (simp add: json_pairs.simps)
  next
    case False
    with assms n sk jc t2 xt du that(2) [OF n sk len xt] show ?thesis
      by (simp add: json_pairs.simps split: if_splits)
  qed
qed

lemma json_lengths:
  "(\<forall>s v r. json_value n s = Some (v, r) \<longrightarrow> length r < length s) \<and>
   (\<forall>acc s v r. json_list n acc s = Some (v, r) \<longrightarrow> length r < length s) \<and>
   (\<forall>ps s v r. json_pairs n ps s = Some (v, r) \<longrightarrow> length r < length s)"
proof (induction n)
  case 0
  then show ?case by (simp add: json_value.simps(1) json_list.simps(1) json_pairs.simps(1))
next
  case (Suc n)
  have v: "length r < length s" if a: "json_value (Suc n) s = Some (v, r)" for s v r
    using a
  proof (rule json_value_step)
    fix m t assume "Suc n = Suc m" "skip_ws s = CHR ''['' # t" "json_list m [] t = Some (v, r)"
    with Suc.IH skip_ws_Cons [of s] show ?thesis by fastforce
  next
    fix m t assume "Suc n = Suc m" "skip_ws s = CHR ''{'' # t" "json_pairs m [] t = Some (v, r)"
    with Suc.IH skip_ws_Cons [of s] show ?thesis by fastforce
  qed (use skip_ws_Cons [of s] in fastforce)
  have l: "length r < length s" if a: "json_list (Suc n) acc s = Some (v, r)" for acc s v r
    using a
  proof (rule json_list_step)
    fix m x t u
    assume h: "Suc n = Suc m" "json_value m s = Some (x, t)" "skip_ws t = CHR '','' # u"
      "json_list m (acc @ [x]) u = Some (v, r)"
    then have "length r < length u" "length t < length s" using Suc.IH by auto
    with skip_ws_Cons [OF h(3)] show ?thesis by simp
  next
    fix m x t
    assume h: "Suc n = Suc m" "json_value m s = Some (x, t)" "skip_ws t = CHR '']'' # r"
    then have "length t < length s" using Suc.IH by auto
    with skip_ws_Cons [OF h(3)] show ?thesis by simp
  qed
  have p: "length r < length s" if a: "json_pairs (Suc n) ps s = Some (v, r)" for ps s v r
    using a
  proof (rule json_pairs_step)
    fix m q w t1 t2 x t3 u
    assume h: "Suc n = Suc m" "skip_ws s = q # w" "length t2 < length w"
      "json_value m t2 = Some (x, t3)" "skip_ws t3 = CHR '','' # u"
      "json_pairs m t1 u = Some (v, r)"
    then have "length r < length u" "length t3 < length t2" using Suc.IH by auto
    with skip_ws_Cons [OF h(5)] skip_ws_Cons [OF h(2)] h(3) show ?thesis by simp
  next
    fix m q w t2 x t3
    assume h: "Suc n = Suc m" "skip_ws s = q # w" "length t2 < length w"
      "json_value m t2 = Some (x, t3)" "skip_ws t3 = CHR ''}'' # r"
    then have "length t3 < length t2" using Suc.IH by auto
    with skip_ws_Cons [OF h(5)] skip_ws_Cons [OF h(2)] h(3) show ?thesis by simp
  qed
  show ?case using v l p by blast
qed

lemmas json_value_length = json_lengths [THEN conjunct1, rule_format]

text \<open>
  Fuel: whatever some amount of fuel parses, \<open>2 * length s\<close> is enough for, and more does
  not change it.
\<close>

definition json_value_stable :: "nat \<Rightarrow> bool" where
  "json_value_stable N \<longleftrightarrow>
     (\<forall>s r n. json_value N s = Some r \<longrightarrow> 2 * length s \<le> n \<longrightarrow> json_value n s = Some r)"

definition json_list_stable :: "nat \<Rightarrow> bool" where
  "json_list_stable N \<longleftrightarrow>
     (\<forall>acc s r n. json_list N acc s = Some r \<longrightarrow> 2 * length s < n \<longrightarrow> json_list n acc s = Some r)"

definition json_pairs_stable :: "nat \<Rightarrow> bool" where
  "json_pairs_stable N \<longleftrightarrow>
     (\<forall>ps s r n. json_pairs N ps s = Some r \<longrightarrow> 2 * length s < n \<longrightarrow> json_pairs n ps s = Some r)"

lemma json_value_stableD:
  "json_value_stable N \<Longrightarrow> json_value N s = Some r \<Longrightarrow> 2 * length s \<le> n \<Longrightarrow> json_value n s = Some r"
  unfolding json_value_stable_def by blast

lemma json_list_stableD:
  "json_list_stable N \<Longrightarrow> json_list N acc s = Some r \<Longrightarrow> 2 * length s < n \<Longrightarrow> json_list n acc s = Some r"
  unfolding json_list_stable_def by blast

lemma json_pairs_stableD:
  "json_pairs_stable N \<Longrightarrow> json_pairs N ps s = Some r \<Longrightarrow> 2 * length s < n \<Longrightarrow> json_pairs n ps s = Some r"
  unfolding json_pairs_stable_def by blast

lemma json_value_fuel_step:
  assumes L: "json_list_stable N" and P: "json_pairs_stable N"
    and a: "json_value (Suc N) s = Some (v, r)" and b: "2 * length s \<le> n"
  shows "json_value n s = Some (v, r)"
proof -
  obtain k where n: "n = Suc k"
    using json_value_length [OF a] b by (cases n) auto
  from a show ?thesis
  proof (rule json_value_step)
    fix m t
    assume h: "Suc N = Suc m" "skip_ws s = CHR ''['' # t" "json_list m [] t = Some (v, r)"
      "\<And>k. json_value (Suc k) s = json_list k [] t"
    have "2 * length t < k" using b n skip_ws_Cons [OF h(2)] by linarith
    with L h(1,3) have "json_list k [] t = Some (v, r)" by (metis json_list_stableD nat.inject)
    then show ?thesis unfolding n h(4) .
  next
    fix m t
    assume h: "Suc N = Suc m" "skip_ws s = CHR ''{'' # t" "json_pairs m [] t = Some (v, r)"
      "\<And>k. json_value (Suc k) s = json_pairs k [] t"
    have "2 * length t < k" using b n skip_ws_Cons [OF h(2)] by linarith
    with P h(1,3) have "json_pairs k [] t = Some (v, r)" by (metis json_pairs_stableD nat.inject)
    then show ?thesis unfolding n h(4) .
  next
    fix m c t
    assume h: "\<And>k. json_value (Suc k) s = Some (v, r)"
    show ?thesis unfolding n by (rule h)
  qed
qed

lemma json_list_fuel_step:
  assumes V: "json_value_stable N" and L: "json_list_stable N"
    and a: "json_list (Suc N) acc s = Some (v, r)" and b: "2 * length s < n"
  shows "json_list n acc s = Some (v, r)"
proof -
  obtain k where n: "n = Suc k" using b by (cases n) auto
  have k: "2 * length s \<le> k" using b n by simp
  from a show ?thesis
  proof (rule json_list_step)
    fix m x t u
    assume h: "Suc N = Suc m" "json_value m s = Some (x, t)" "skip_ws t = CHR '','' # u"
      "json_list m (acc @ [x]) u = Some (v, r)"
      "\<And>k. json_value k s = Some (x, t) \<Longrightarrow> json_list (Suc k) acc s = json_list k (acc @ [x]) u"
    have "2 * length u < k"
      using json_value_length [OF h(2)] skip_ws_Cons [OF h(3)] k by linarith
    with L h(1,4) have "json_list k (acc @ [x]) u = Some (v, r)" by (metis json_list_stableD nat.inject)
    moreover from V h(1,2) k have "json_value k s = Some (x, t)" by (metis json_value_stableD nat.inject)
    ultimately show ?thesis unfolding n using h(5) by simp
  next
    fix m x t
    assume h: "Suc N = Suc m" "json_value m s = Some (x, t)" "skip_ws t = CHR '']'' # r"
      "\<And>k. json_value k s = Some (x, t) \<Longrightarrow> json_list (Suc k) acc s = Some (v, r)"
    from V h(1,2) k have "json_value k s = Some (x, t)" by (metis json_value_stableD nat.inject)
    then show ?thesis unfolding n by (rule h(4))
  qed
qed

lemma json_pairs_fuel_step:
  assumes V: "json_value_stable N" and P: "json_pairs_stable N"
    and a: "json_pairs (Suc N) ps s = Some (v, r)" and b: "2 * length s < n"
  shows "json_pairs n ps s = Some (v, r)"
proof -
  obtain k where n: "n = Suc k" using b by (cases n) auto
  from a show ?thesis
  proof (rule json_pairs_step)
    fix m q w t1 t2 x t3 u
    assume h: "Suc N = Suc m" "skip_ws s = q # w" "length t2 < length w"
      "json_value m t2 = Some (x, t3)" "skip_ws t3 = CHR '','' # u"
      "json_pairs m t1 u = Some (v, r)"
      "\<And>i. json_value i t2 = Some (x, t3) \<Longrightarrow> json_pairs (Suc i) ps s = json_pairs i t1 u"
    have len: "2 * length u < k" "2 * length t2 \<le> k"
      using json_value_length [OF h(4)] skip_ws_Cons [OF h(5)] skip_ws_Cons [OF h(2)] h(3) b n
      by linarith+
    from P h(1,6) len(1) have "json_pairs k t1 u = Some (v, r)" by (metis json_pairs_stableD nat.inject)
    moreover from V h(1,4) len(2) have "json_value k t2 = Some (x, t3)"
      by (metis json_value_stableD nat.inject)
    ultimately show ?thesis unfolding n using h(7) by simp
  next
    fix m q w t2 x t3
    assume h: "Suc N = Suc m" "skip_ws s = q # w" "length t2 < length w"
      "json_value m t2 = Some (x, t3)" "skip_ws t3 = CHR ''}'' # r"
      "\<And>i. json_value i t2 = Some (x, t3) \<Longrightarrow> json_pairs (Suc i) ps s = Some (v, r)"
    have "2 * length t2 \<le> k" using skip_ws_Cons [OF h(2)] h(3) b n by linarith
    with V h(1,4) have "json_value k t2 = Some (x, t3)" by (metis json_value_stableD nat.inject)
    then show ?thesis unfolding n by (rule h(6))
  qed
qed

lemma json_fuel: "json_value_stable N \<and> json_list_stable N \<and> json_pairs_stable N"
proof (induction N)
  case 0
  show ?case
    by (simp add: json_value_stable_def json_list_stable_def json_pairs_stable_def
        json_value.simps(1) json_list.simps(1) json_pairs.simps(1))
next
  case (Suc N)
  then have V: "json_value_stable N" and L: "json_list_stable N" and P: "json_pairs_stable N"
    by simp_all
  have "json_value_stable (Suc N)"
    unfolding json_value_stable_def by (auto intro: json_value_fuel_step [OF L P])
  moreover have "json_list_stable (Suc N)"
    unfolding json_list_stable_def by (auto intro: json_list_fuel_step [OF V L])
  moreover have "json_pairs_stable (Suc N)"
    unfolding json_pairs_stable_def by (auto intro: json_pairs_fuel_step [OF V P])
  ultimately show ?case by simp
qed

lemma json_value_fuel:
  "json_value N s = Some (v, r) \<Longrightarrow> 2 * length s \<le> n \<Longrightarrow> json_value n s = Some (v, r)"
  using json_fuel [of N] by (metis json_value_stableD)

lemma json_parse_any_fuel:
  "json_value N s = Some (v, r) \<Longrightarrow> skip_ws r = [] \<Longrightarrow> json_parse s = Inr v"
  using json_value_fuel [of N s v r "2 * length s + 1"] by (simp add: json_parse_def)

section \<open>Parsing undoes printing\<close>

text \<open>
  The values that survive: no undefined anywhere, and every object in enumeration order.
\<close>

fun json_ok :: "jsv \<Rightarrow> bool" where
  "json_ok JUndef = False"
| "json_ok (JArr xs) = (\<forall>x \<in> set xs. json_ok x)"
| "json_ok (JObj ps) = (obj_ok ps \<and> (\<forall>p \<in> set ps. json_ok (snd p)))"
| "json_ok v = True"

lemma hex4_control: "n < 32 \<Longrightarrow> hex4 (CHR ''0'') (CHR ''0'') (hex_digit (n div 16)) (hex_digit (n mod 16)) = Some n"
proof -
  have d: "hex_val (hex_digit m) = Some m" if "m < 16" for m
    using that by (auto simp: hex_val_def hex_digit_def)
  have z: "hex_val (CHR ''0'') = Some 0" by (simp add: hex_val_def)
  assume "n < 32"
  then have "n div 16 < 16" "n mod 16 < 16" by auto
  then show ?thesis by (simp add: hex4_def z d)
qed

lemma json_chars_escape:
  assumes "json_chars t = Some (w, r)"
  shows "json_chars (json_escape c @ t) = Some (c # w, r)"
proof -
  let ?plain = "c \<noteq> CHR 0x22 \<and> c \<noteq> CHR 0x5C \<and> c \<noteq> CHR 0x08 \<and> c \<noteq> CHR 0x0C \<and> c \<noteq> CHR 0x0A \<and>
    c \<noteq> CHR 0x0D \<and> c \<noteq> CHR 0x09"
  consider "\<not> ?plain" | "?plain" "(of_char c :: nat) < 32" | "?plain" "\<not> (of_char c :: nat) < 32" by blast
  then show ?thesis
  proof cases
    case 1
    then show ?thesis
      using assms by (auto simp: json_escape_def json_chars.simps(2) simple_escape_def)
  next
    case 2
    then have "json_escape c = [CHR 0x5C, CHR ''u'', CHR ''0'', CHR ''0'',
         hex_digit (of_char c div 16), hex_digit (of_char c mod 16)]"
      by (simp add: json_escape_def)
    moreover have "simple_escape (CHR ''u'') = None" by (simp add: simple_escape_def)
    moreover have "utf8_char (of_char c) = [c]" using 2 by (simp add: utf8_char_def)
    ultimately show ?thesis
      using assms 2 by (simp add: json_chars.simps(2) hex4_control)
  next
    case 3
    then have "json_escape c = [c]" by (simp add: json_escape_def)
    with 3 assms show ?thesis by (simp add: json_chars.simps(2))
  qed
qed

lemma json_chars_quote: "json_chars (concat (map json_escape s) @ CHR 0x22 # r) = Some (s, r)"
proof (induction s)
  case Nil
  then show ?case by (simp add: json_chars.simps)
next
  case (Cons c s)
  from json_chars_escape [OF Cons.IH] show ?case by simp
qed

lemma json_quote_Cons: "json_quote s @ r = CHR 0x22 # concat (map json_escape s) @ CHR 0x22 # r"
  by (simp add: json_quote_def)

definition json_stop :: "string \<Rightarrow> bool" where
  "json_stop r \<longleftrightarrow> r = [] \<or> hd r = CHR '','' \<or> hd r = CHR '']'' \<or> hd r = CHR ''}''"

lemma show_nat_zero: "show_nat n = CHR ''0'' # ds \<Longrightarrow> ds = []"
proof (induction n arbitrary: ds rule: show_nat.induct)
  case (1 n)
  show ?case
  proof (cases "n < 10")
    case True
    with 1 show ?thesis by (simp add: show_nat.simps [of n])
  next
    case False
    obtain c t where ct: "show_nat (n div 10) = c # t" by (meson neq_Nil_conv show_nat_not_Nil)
    with False 1(2) have c: "c = CHR ''0''" by (simp add: show_nat.simps [of n])
    with ct 1(1) [OF False] have "t = []" by simp
    with ct c have "n div 10 = 0"
      using digits_val_show [of "n div 10"] by (simp add: digits_val_def digit_val_def)
    with False show ?thesis by simp
  qed
qed

lemma json_nat_show:
  assumes "json_stop r"
  shows "json_nat (show_nat n @ r) = Some (n, r)"
proof -
  have stop: "r = [] \<or> \<not> is_digit (hd r)" using assms by (auto simp: json_stop_def is_digit_def)
  obtain d ds where dd: "show_nat n = d # ds" by (meson neq_Nil_conv show_nat_not_Nil)
  have tw: "takeWhile is_digit (show_nat n @ r) = d # ds"
    using takeWhile_show_nat [OF stop] dd by metis
  have dw: "dropWhile is_digit (show_nat n @ r) = r" using dropWhile_show_nat [OF stop] by metis
  have val: "digits_val (d # ds) = n" using digits_val_show [of n] dd by simp
  have z: "\<not> (d = CHR ''0'' \<and> ds \<noteq> [])" using show_nat_zero dd by blast
  show ?thesis
    unfolding json_nat_def tw dw using assms z val by (auto simp: json_stop_def split: list.split)
qed

lemma json_number_show: "json_stop r \<Longrightarrow> json_number (show_int i @ r) = Some (JNum i, r)"
proof (cases "i < 0")
  case True
  assume "json_stop r"
  with True show ?thesis by (simp add: json_number_def show_int_def json_nat_show)
next
  case False
  assume r: "json_stop r"
  obtain d ds where dd: "show_nat (nat i) = d # ds" by (meson neq_Nil_conv show_nat_not_Nil)
  then have "d \<noteq> CHR ''-''" using show_nat_digits [of "nat i"] is_digit_not_special by auto
  with False dd show ?thesis
    using json_nat_show [OF r, of "nat i"] by (simp add: json_number_def show_int_def)
qed

text \<open>The first character of a printed value selects the parser's branch.\<close>

lemma show_int_first:
  "\<exists>c t. show_int i = c # t \<and> (c = CHR ''-'' \<or> is_digit c)"
proof (cases "i < 0")
  case False
  obtain d ds where dd: "show_nat (nat i) = d # ds" by (meson neq_Nil_conv show_nat_not_Nil)
  then have "is_digit d" using show_nat_digits [of "nat i"] by simp
  with dd False show ?thesis by (simp add: show_int_def)
qed (simp add: show_int_def)

lemma json_text_first:
  "\<exists>c t. json_text v = c # t \<and> \<not> json_space c \<and> c \<noteq> CHR '']'' \<and> c \<noteq> CHR ''}'' \<and> c \<noteq> CHR '','' \<and>
     (c = CHR ''['' \<longleftrightarrow> is_arr v) \<and> (c = CHR ''{'' \<longleftrightarrow> (\<exists>ps. v = JObj ps))"
proof (cases v)
  case (JNum i)
  obtain c t where "show_int i = c # t" "c = CHR ''-'' \<or> is_digit c" using show_int_first by blast
  with JNum show ?thesis by (auto simp: json_space_def is_digit_def)
qed (auto simp: json_space_def json_quote_def)

lemma skip_ws_id: "\<not> json_space c \<Longrightarrow> skip_ws (c # t) = c # t"
  by (simp add: skip_ws_def)

lemma json_atom_text:
  assumes "json_ok v" "\<not> is_arr v" "\<nexists>ps. v = JObj ps" "json_stop r"
  shows "json_atom (json_text v @ r) = Some (v, r)"
proof (cases v)
  case (JNum i)
  obtain c t where ct: "show_int i = c # t" "c = CHR ''-'' \<or> is_digit c" using show_int_first by blast
  then have "\<not> starts_with (show_int i @ r) [CHR 0x22]" "\<not> starts_with (show_int i @ r) ''null''"
    "\<not> starts_with (show_int i @ r) ''true''" "\<not> starts_with (show_int i @ r) ''false''"
    by (auto simp: is_digit_def)
  with JNum assms show ?thesis by (simp add: json_atom_def json_number_show)
next
  case (JStr s)
  then show ?thesis by (simp add: json_atom_def json_quote_Cons json_chars_quote)
qed (use assms in \<open>simp_all add: json_atom_def\<close>)

text \<open>Parsing a printed value, list or member list out of a longer text.\<close>

definition parses_value :: "jsv \<Rightarrow> bool" where
  "parses_value v \<longleftrightarrow>
     (\<forall>r. json_stop r \<longrightarrow> (\<exists>N. json_value N (json_text v @ r) = Some (v, r)))"

lemma json_stop_sep [simp]:
  "json_stop (CHR '','' # r)" "json_stop (CHR '']'' # r)" "json_stop (CHR ''}'' # r)"
  by (simp_all add: json_stop_def)

lemma json_list_text:
  assumes "xs \<noteq> []" "\<forall>x \<in> set xs. parses_value x"
  shows "\<exists>N. json_list N acc (join '','' (json_elems xs) @ CHR '']'' # r) = Some (JArr (acc @ xs), r)"
  using assms
proof (induction xs arbitrary: acc)
  case (Cons x xs)
  show ?case
  proof (cases xs)
    case Nil
    from Cons.prems obtain N where "json_value N (json_text x @ CHR '']'' # r) = Some (x, CHR '']'' # r)"
      unfolding parses_value_def by (meson json_stop_sep list.set_intros(1))
    then have "json_list (Suc N) acc (join '','' (json_elems (x # xs)) @ CHR '']'' # r)
        = Some (JArr (acc @ x # xs), r)"
      using Nil by (simp add: json_list.simps(2) skip_ws_id json_space_def)
    then show ?thesis by blast
  next
    case (Cons y ys)
    let ?tl = "join '','' (json_elems xs) @ CHR '']'' # r"
    have sep: "join '','' (json_elems (x # xs)) @ CHR '']'' # r = json_text x @ CHR '','' # ?tl"
      using Cons by simp
    from Cons Cons.prems Cons.IH [of "acc @ [x]"]
    obtain N where N: "json_list N (acc @ [x]) ?tl = Some (JArr (acc @ x # xs), r)" by auto
    from Cons.prems obtain M where M: "json_value M (json_text x @ CHR '','' # ?tl) = Some (x, CHR '','' # ?tl)"
      unfolding parses_value_def by (meson json_stop_sep list.set_intros(1))
    let ?k = "2 * length (json_text x @ CHR '','' # ?tl) + 1"
    have "json_value ?k (json_text x @ CHR '','' # ?tl) = Some (x, CHR '','' # ?tl)"
      by (rule json_value_fuel [OF M]) simp
    moreover have "json_list ?k (acc @ [x]) ?tl = Some (JArr (acc @ x # xs), r)"
      by (rule json_list_stableD [OF _ N]) (simp_all add: json_fuel)
    ultimately have "json_list (Suc ?k) acc (json_text x @ CHR '','' # ?tl) = Some (JArr (acc @ x # xs), r)"
      unfolding json_list.simps(2) by (simp add: skip_ws_id json_space_def)
    then show ?thesis unfolding sep by blast
  qed
qed simp

lemma json_pair_text:
  assumes "json_value N (json_text v @ r) = Some (v, r)"
  shows "json_pairs (Suc N) acc (json_quote k @ '':'' @ json_text v @ r) =
      (case skip_ws r of
         [] \<Rightarrow> None
       | d # u \<Rightarrow>
           (if d = CHR '','' then json_pairs N (obj_set k v acc) u
            else if d = CHR ''}'' then Some (JObj (obj_set k v acc), u)
            else None))"
  using assms
  by (simp add: json_pairs.simps(2) json_quote_Cons json_chars_quote skip_ws_id json_space_def)

lemma json_pairs_text:
  assumes "ps \<noteq> []" "\<forall>p \<in> set ps. parses_value (snd p) \<and> snd p \<noteq> JUndef"
  shows "\<exists>N. json_pairs N acc (join '','' (json_members ps) @ CHR ''}'' # r)
            = Some (JObj (obj_spread acc ps), r)"
  using assms
proof (induction ps arbitrary: acc)
  case (Cons p ps)
  obtain k v where p: "p = (k, v)" by (cases p)
  with Cons.prems have v: "parses_value v" "v \<noteq> JUndef" by auto
  show ?case
  proof (cases ps)
    case Nil
    from v(1) obtain N where N: "json_value N (json_text v @ CHR ''}'' # r) = Some (v, CHR ''}'' # r)"
      unfolding parses_value_def by (meson json_stop_sep)
    have "json_pairs (Suc N) acc (json_quote k @ '':'' @ json_text v @ CHR ''}'' # r)
        = Some (JObj (obj_set k v acc), r)"
      unfolding json_pair_text [OF N] by (simp add: skip_ws_id json_space_def)
    then show ?thesis using Nil p v(2) by auto
  next
    case (Cons q qs)
    obtain k' v' where q: "q = (k', v')" by (cases q)
    let ?tl = "join '','' (json_members ps) @ CHR ''}'' # r"
    have sep: "join '','' (json_members (p # ps)) @ CHR ''}'' # r =
        json_quote k @ '':'' @ json_text v @ CHR '','' # ?tl"
      using Cons Cons.prems p q v(2) by simp
    from Cons Cons.prems Cons.IH [of "obj_set k v acc"]
    obtain N where N: "json_pairs N (obj_set k v acc) ?tl = Some (JObj (obj_spread (obj_set k v acc) ps), r)"
      by auto
    from v(1) obtain M where M: "json_value M (json_text v @ CHR '','' # ?tl) = Some (v, CHR '','' # ?tl)"
      unfolding parses_value_def by (meson json_stop_sep)
    let ?k = "2 * length (json_text v @ CHR '','' # ?tl) + 1"
    have V: "json_value ?k (json_text v @ CHR '','' # ?tl) = Some (v, CHR '','' # ?tl)"
      by (rule json_value_fuel [OF M]) simp
    have "json_pairs ?k (obj_set k v acc) ?tl = Some (JObj (obj_spread (obj_set k v acc) ps), r)"
      by (rule json_pairs_stableD [OF _ N]) (simp_all add: json_fuel)
    then have "json_pairs (Suc ?k) acc (json_quote k @ '':'' @ json_text v @ CHR '','' # ?tl)
        = Some (JObj (obj_spread acc (p # ps)), r)"
      unfolding json_pair_text [OF V] by (simp add: skip_ws_id json_space_def p)
    then show ?thesis unfolding sep by blast
  qed
qed simp

lemma json_value_atom_text:
  assumes "json_ok v" "\<not> is_arr v" "\<nexists>ps. v = JObj ps"
  shows "parses_value v"
  unfolding parses_value_def
proof (intro allI impI)
  fix r assume r: "json_stop r"
  obtain c t where ct: "json_text v = c # t" "\<not> json_space c" "c \<noteq> CHR ''[''" "c \<noteq> CHR ''{''"
    using json_text_first [of v] assms(2,3) by auto
  then have "json_value (Suc 0) (json_text v @ r) = json_atom (json_text v @ r)"
    by (simp add: json_value.simps(2) skip_ws_id)
  with json_atom_text [OF assms r] show "\<exists>N. json_value N (json_text v @ r) = Some (v, r)" by metis
qed

lemma json_text_head: "json_text v = hd (json_text v) # tl (json_text v)"
    "\<not> json_space (hd (json_text v))" "hd (json_text v) \<noteq> CHR '']''"
  using json_text_first [of v] by (metis list.sel(1) list.sel(3))+

lemma join_elems_first:
  assumes "xs \<noteq> []"
  shows "\<exists>c t. join '','' (json_elems xs) = c # t \<and> \<not> json_space c \<and> c \<noteq> CHR '']''"
proof -
  obtain x ys where xs: "xs = x # ys" using assms by (meson neq_Nil_conv)
  have "\<exists>t. join '','' (json_elems xs) = json_text x @ t"
    by (cases ys) (simp_all add: xs)
  then obtain t where "join '','' (json_elems xs) = hd (json_text x) # (tl (json_text x) @ t)"
    by (metis append_Cons json_text_head(1))
  with json_text_head(2,3) [of x] show ?thesis by metis
qed

lemma join_members_first:
  "ps \<noteq> [] \<Longrightarrow> \<forall>p \<in> set ps. snd p \<noteq> JUndef \<Longrightarrow>
   \<exists>t. join '','' (json_members ps) = CHR 0x22 # t"
proof (cases ps)
  case (Cons p qs)
  assume "\<forall>p \<in> set ps. snd p \<noteq> JUndef"
  with Cons show ?thesis by (cases p; cases "json_members qs") (auto simp: json_quote_def)
qed simp

lemma parses_value_arr: "\<forall>x \<in> set xs. parses_value x \<Longrightarrow> parses_value (JArr xs)"
  unfolding parses_value_def [of "JArr xs"]
proof (intro allI impI)
  fix r assume xs: "\<forall>x \<in> set xs. parses_value x"
  show "\<exists>N. json_value N (json_text (JArr xs) @ r) = Some (JArr xs, r)"
  proof (cases "xs = []")
    case True
    then have "json_value 1 (json_text (JArr xs) @ r) = Some (JArr xs, r)"
      unfolding One_nat_def json_value.simps(2) by (simp add: skip_ws_id json_space_def)
    then show ?thesis by blast
  next
    case False
    from json_list_text [OF False xs, of "[]" r] obtain N where
      N: "json_list N [] (join '','' (json_elems xs) @ CHR '']'' # r) = Some (JArr xs, r)" by auto
    obtain c t where "join '','' (json_elems xs) = c # t" "\<not> json_space c" "c \<noteq> CHR '']''"
      using join_elems_first [OF False] by blast
    with N have "json_value (Suc N) (json_text (JArr xs) @ r) = Some (JArr xs, r)"
      unfolding json_value.simps(2) by (simp add: skip_ws_id json_space_def)
    then show ?thesis by blast
  qed
qed

lemma parses_value_obj:
  "obj_ok ps \<Longrightarrow> \<forall>p \<in> set ps. parses_value (snd p) \<and> snd p \<noteq> JUndef \<Longrightarrow> parses_value (JObj ps)"
  unfolding parses_value_def [of "JObj ps"]
proof (intro allI impI)
  fix r assume ok: "obj_ok ps" and ps: "\<forall>p \<in> set ps. parses_value (snd p) \<and> snd p \<noteq> JUndef"
  show "\<exists>N. json_value N (json_text (JObj ps) @ r) = Some (JObj ps, r)"
  proof (cases "ps = []")
    case True
    then have "json_value 1 (json_text (JObj ps) @ r) = Some (JObj ps, r)"
      unfolding One_nat_def json_value.simps(2) by (simp add: skip_ws_id json_space_def)
    then show ?thesis by blast
  next
    case False
    from json_pairs_text [OF False ps, of "[]" r] ok obtain N where
      N: "json_pairs N [] (join '','' (json_members ps) @ CHR ''}'' # r) = Some (JObj ps, r)"
      by (auto simp: obj_ok_def)
    obtain t where "join '','' (json_members ps) = CHR 0x22 # t"
      using join_members_first [OF False] ps by blast
    with N have "json_value (Suc N) (json_text (JObj ps) @ r) = Some (JObj ps, r)"
      unfolding json_value.simps(2) by (simp add: skip_ws_id json_space_def)
    then show ?thesis by blast
  qed
qed

lemma json_ok_parses: "json_ok v \<Longrightarrow> parses_value v"
proof (induction v rule: json_ok.induct)
  case (2 xs)
  then show ?case by (intro parses_value_arr) simp
next
  case (3 ps)
  then show ?case by (intro parses_value_obj) auto
qed (auto intro: json_value_atom_text)

lemma json_parse_text: "json_ok v \<Longrightarrow> json_parse (json_text v) = Inr v"
proof -
  assume "json_ok v"
  then obtain N where "json_value N (json_text v @ []) = Some (v, [])"
    using json_ok_parses unfolding parses_value_def by (meson json_stop_def)
  then show ?thesis
    by (intro json_parse_any_fuel [where r = "[]"]) (simp_all add: skip_ws_def)
qed

interpretation json: codec json_text "\<lambda>s. case json_parse s of Inl _ \<Rightarrow> None | Inr v \<Rightarrow> Some v" json_ok
  by unfold_locales (simp add: json_parse_text)

text \<open>Printing is injective: two values with the same text are the same value.\<close>

lemma json_text_inj: "json_ok v \<Longrightarrow> json_ok w \<Longrightarrow> json_text v = json_text w \<Longrightarrow> v = w"
  by (rule json.enc_inj)

end
