(* ===== verification/World.thy ===== *)
theory World
  imports Json
begin

text \<open>
  What the extension runs on.  \<open>platform\<close> collects the code that is not in the repository
  (the URL parser, WebCrypto, the network, \<^verbatim>\<open>chrome.storage\<close> failures, the tabs of the
  browser): it is a parameter of every definition that uses it, and nothing is assumed about
  it unless a lemma says so.  \<open>world\<close> is the state one extension context sees: the two
  storage areas, the clock, the requests it has sent, the random bytes it has drawn, and the
  module state of \<^verbatim>\<open>lib/storage.js\<close>.
\<close>

section \<open>Platform\<close>

type_synonym bytes = "8 word list"

text \<open>The components of a parsed URL, as the getters of \<^verbatim>\<open>URL\<close> return them.\<close>

record url =
  u_protocol :: string
  u_userinfo :: string
  u_host :: string
  u_hostname :: string
  u_pathname :: string
  u_search :: string
  u_hash :: string
  u_origin :: string

text \<open>\<^verbatim>\<open>url.toString()\<close> of an http or https URL.\<close>

definition url_text :: "url \<Rightarrow> string" where
  "url_text u = u_protocol u @ ''//'' @ u_userinfo u @ u_host u @ u_pathname u @ u_search u @ u_hash u"

datatype area = LocalArea | SessionArea

datatype form_value =
    FormText string
  | FormFile string nat string

datatype body =
    NoBody
  | TextBody string
  | FormBody "(string \<times> form_value) list"

record request =
  req_method :: string
  req_url :: string
  req_headers :: "(string \<times> string) list"
  req_body :: body
  req_omit_credentials :: bool

record response =
  res_status :: int
  res_json :: "jsv option"
  res_header :: "string \<Rightarrow> string option"
  res_blob_size :: nat
  res_blob_type :: string

definition res_ok :: "response \<Rightarrow> bool" where
  "res_ok r \<longleftrightarrow> 200 \<le> res_status r \<and> res_status r \<le> 299"

datatype fetch_outcome = NetworkError | Response response

record tab =
  tab_id :: jsv
  tab_url :: jsv
  tab_title :: jsv

text \<open>
  \<open>fetch_of\<close> may depend on every request sent before, so the server keeps whatever state it
  likes; \<open>storage_fault n\<close> is the \<^verbatim>\<open>chrome.runtime.lastError\<close> of the \<open>n\<close>-th storage
  operation; the crypto operations are \<open>None\<close> where WebCrypto rejects; \<open>has_api\<close> says which
  optional parts of the \<^verbatim>\<open>chrome\<close> object the browser has; \<open>tab_reply\<close> is what the content script
  of a tab answers; \<open>params_of\<close> and \<open>params_text\<close> are \<^verbatim>\<open>URLSearchParams\<close>; \<open>web_auth\<close> is
  \<^verbatim>\<open>chrome.identity.launchWebAuthFlow\<close>, with the message of \<^verbatim>\<open>lastError\<close> on the left;
  \<open>lag\<close> is how much later than asked a timer fires.
\<close>

record platform =
  url_of :: "string \<Rightarrow> url option"
  has_area :: "area \<Rightarrow> bool"
  storage_fault :: "nat \<Rightarrow> string option"
  fetch_of :: "request list \<Rightarrow> request \<Rightarrow> fetch_outcome"
  random_byte :: "nat \<Rightarrow> 8 word"
  pbkdf2_key :: "bytes \<Rightarrow> bytes \<Rightarrow> int \<Rightarrow> bytes option"
  hkdf_key :: "bytes \<Rightarrow> bytes \<Rightarrow> bytes option"
  gcm_encrypt :: "bytes \<Rightarrow> bytes \<Rightarrow> bytes option \<Rightarrow> bytes \<Rightarrow> bytes option"
  gcm_decrypt :: "bytes \<Rightarrow> bytes \<Rightarrow> bytes option \<Rightarrow> bytes \<Rightarrow> bytes option"
  collate :: "string \<Rightarrow> string \<Rightarrow> int"
  decode_uri :: "string \<Rightarrow> string option"
  iso_time :: "int \<Rightarrow> string"
  native_message :: "js_error \<Rightarrow> string"
  extension_origin :: string
  has_api :: "string \<Rightarrow> bool"
  page_tabs :: "tab list"
  active_tab :: "tab option"
  tab_by_id :: "int \<Rightarrow> tab option"
  tab_reply :: "jsv \<Rightarrow> jsv \<Rightarrow> jsv result"
  confirm_ok :: "string \<Rightarrow> bool"
  date_ms :: "jsv \<Rightarrow> int option"
  params_of :: "string \<Rightarrow> (string \<times> string) list"
  params_text :: "(string \<times> string) list \<Rightarrow> string"
  identity_redirect :: "string option"
  web_auth :: "string \<Rightarrow> string + string option"
  lag :: "nat \<Rightarrow> nat"

text \<open>\<^verbatim>\<open>error.message\<close>: the program's own errors carry their text.\<close>

definition error_message :: "platform \<Rightarrow> js_error \<Rightarrow> string" where
  "error_message p e = (case e of Error m \<Rightarrow> m | _ \<Rightarrow> native_message p e)"

lemma error_message_Error [simp]: "error_message p (Error m) = m"
  by (simp add: error_message_def)

section \<open>State\<close>

record world =
  local_area :: "string \<rightharpoonup> jsv"
  session_area :: "string \<rightharpoonup> jsv"
  storage_ops :: nat
  clock :: int
  net_log :: "request list"
  random_used :: nat
  pendingLoginSaves :: "string \<rightharpoonup> jsv"

text \<open>\<^verbatim>\<open>fetch(...)\<close>: the request is logged; a network failure rejects.\<close>

definition fetch :: "platform \<Rightarrow> request \<Rightarrow> ('a world_scheme, response) io" where
  "fetch p r =
     bind (reads net_log) (\<lambda>log.
     seqc (update (\<lambda>w. w\<lparr>net_log := log @ [r]\<rparr>))
       (case fetch_of p log r of
          NetworkError \<Rightarrow> raise TypeError
        | Response resp \<Rightarrow> ret resp))"

text \<open>\<^verbatim>\<open>await new Promise((resolve) => setTimeout(resolve, ms))\<close>: at least \<open>ms\<close> pass.\<close>

definition delay :: "platform \<Rightarrow> int \<Rightarrow> ('a world_scheme, unit) io" where
  "delay p ms = update (\<lambda>w. w\<lparr>clock := clock w + ms + int (lag p (length (net_log w)))\<rparr>)"

text \<open>\<^verbatim>\<open>crypto.getRandomValues(new Uint8Array(n))\<close>.\<close>

definition random_bytes :: "platform \<Rightarrow> nat \<Rightarrow> ('a world_scheme, bytes) io" where
  "random_bytes p n =
     bind (reads random_used) (\<lambda>k.
     seqc (update (\<lambda>w. w\<lparr>random_used := k + n\<rparr>))
       (ret (map (random_byte p) [k ..< k + n])))"

lemma fetch_run [run_simps]:
  "fetch p r w =
     (case fetch_of p (net_log w) r of
        NetworkError \<Rightarrow> (Inl TypeError, w\<lparr>net_log := net_log w @ [r]\<rparr>)
      | Response resp \<Rightarrow> (Inr resp, w\<lparr>net_log := net_log w @ [r]\<rparr>))"
  by (simp add: fetch_def run_simps split: fetch_outcome.split)

lemma random_bytes_run [run_simps]:
  "random_bytes p n w =
     (Inr (map (random_byte p) [random_used w ..< random_used w + n]),
      w\<lparr>random_used := random_used w + n\<rparr>)"
  by (simp add: random_bytes_def run_simps)

text \<open>
  \<open>Number(v)\<close> where the program compares times; NaN is \<open>None\<close>, and a comparison with NaN
  is false.
\<close>

fun js_to_num :: "jsv \<Rightarrow> int option" where
  "js_to_num (JNum n) = Some n"
| "js_to_num JNull = Some 0"
| "js_to_num (JBool b) = Some (if b then 1 else 0)"
| "js_to_num (JStr s) =
     (if trim s = [] then Some 0
      else case parse_int (trim s) of
             None \<Rightarrow> None
           | Some n \<Rightarrow> if show_int n = trim s then Some n else None)"
| "js_to_num v = None"

text \<open>\<^verbatim>\<open>Date.now() - v > ttl\<close>.\<close>

definition older_than :: "int \<Rightarrow> jsv \<Rightarrow> int \<Rightarrow> bool" where
  "older_than now v ttl = (case js_to_num v of None \<Rightarrow> False | Some t \<Rightarrow> now - t > ttl)"

lemma older_than_num [simp]: "older_than now (JNum t) ttl \<longleftrightarrow> now - t > ttl"
  by (simp add: older_than_def)

section \<open>What a computation sends\<close>

text \<open>\<open>sends P m\<close>: the requests \<open>m\<close> adds to the log, on any path, all satisfy \<open>P\<close>.\<close>

named_theorems sends_intros "introduction rules for sends"

definition sends :: "(request \<Rightarrow> bool) \<Rightarrow> ('a world_scheme, 'b) io \<Rightarrow> bool" where
  "sends P m \<longleftrightarrow> (\<forall>w. \<exists>rs. net_log (snd (m w)) = net_log w @ rs \<and> list_all P rs)"

lemma sendsD: "sends P m \<Longrightarrow> m w = (r, t) \<Longrightarrow> \<exists>rs. net_log t = net_log w @ rs \<and> list_all P rs"
  unfolding sends_def by (metis snd_conv)

lemma sends_keeps: "keeps net_log m \<Longrightarrow> sends P m"
  unfolding sends_def keeps_def by (metis append_Nil2 list.pred_inject(1))

lemma sends_mono: "sends P m \<Longrightarrow> (\<And>r. P r \<Longrightarrow> Q r) \<Longrightarrow> sends Q m"
  unfolding sends_def by (metis list.pred_mono_strong)

lemma sends_bind [sends_intros]:
  assumes "sends P m" "\<And>x. sends P (f x)"
  shows "sends P (bind m f)"
proof -
  have "\<exists>rs. net_log (snd (bind m f w)) = net_log w @ rs \<and> list_all P rs" for w
  proof -
    obtain r t where m: "m w = (r, t)" by (cases "m w")
    obtain rs where rs: "net_log t = net_log w @ rs" "list_all P rs" using sendsD [OF assms(1) m] by blast
    show ?thesis
    proof (cases r)
      case (Inl e)
      with m rs show ?thesis by (auto simp: bind_run)
    next
      case (Inr x)
      obtain r' u where u: "f x t = (r', u)" by (cases "f x t")
      obtain rs' where "net_log u = net_log t @ rs'" "list_all P rs'" using sendsD [OF assms(2) u] by blast
      with m rs Inr u show ?thesis by (intro exI [of _ "rs @ rs'"]) (simp add: bind_run)
    qed
  qed
  then show ?thesis by (simp add: sends_def)
qed

lemma sends_seqc [sends_intros]: "sends P m \<Longrightarrow> sends P n \<Longrightarrow> sends P (seqc m n)"
  by (simp add: seqc_def sends_bind)

lemma sends_catch [sends_intros]:
  assumes "sends P m" "\<And>e. sends P (h e)"
  shows "sends P (catch m h)"
proof -
  have "\<exists>rs. net_log (snd (catch m h w)) = net_log w @ rs \<and> list_all P rs" for w
  proof -
    obtain r t where m: "m w = (r, t)" by (cases "m w")
    obtain rs where rs: "net_log t = net_log w @ rs" "list_all P rs" using sendsD [OF assms(1) m] by blast
    show ?thesis
    proof (cases r)
      case (Inr x)
      with m rs show ?thesis by (auto simp: catch_run)
    next
      case (Inl x)
      obtain r' u where u: "h x t = (r', u)" by (cases "h x t")
      obtain rs' where "net_log u = net_log t @ rs'" "list_all P rs'" using sendsD [OF assms(2) u] by blast
      with m rs Inl u show ?thesis by (intro exI [of _ "rs @ rs'"]) (simp add: catch_run)
    qed
  qed
  then show ?thesis by (simp add: sends_def)
qed

lemma sends_pure [sends_intros]:
  "sends P (ret x)" "sends P (raise e)" "sends P (lift r)" "sends P (reads f)"
  by (simp_all add: sends_def run_simps list.pred_inject(1))

lemma sends_if [sends_intros]:
  "(b \<Longrightarrow> sends P m) \<Longrightarrow> (\<not> b \<Longrightarrow> sends P n) \<Longrightarrow> sends P (if b then m else n)"
  by simp

lemma sends_case_option [sends_intros]:
  "(v = None \<Longrightarrow> sends P m) \<Longrightarrow> (\<And>x. v = Some x \<Longrightarrow> sends P (n x)) \<Longrightarrow>
   sends P (case v of None \<Rightarrow> m | Some x \<Rightarrow> n x)"
  by (cases v) simp_all

lemma sends_case_sum [sends_intros]:
  "(\<And>e. sends P (m e)) \<Longrightarrow> (\<And>x. sends P (n x)) \<Longrightarrow> sends P (case r of Inl e \<Rightarrow> m e | Inr x \<Rightarrow> n x)"
  by (cases r) simp_all

lemma sends_fetch [sends_intros]: "P r \<Longrightarrow> sends P (fetch p r)"
  by (simp add: sends_def fetch_run split: fetch_outcome.split)

lemma sends_update: "(\<And>s. net_log (g s) = net_log s) \<Longrightarrow> sends P (update g)"
  by (rule sends_keeps) (rule keeps_update)

section \<open>A concrete platform\<close>

text \<open>
  An instance on which hypotheses about a platform are shown to hold: it knows a few URLs,
  its storage never fails, its cipher prepends a tag of key, nonce and associated data, and
  its server answers every request with status 200 and the body it is given.
\<close>

definition sample_url :: "string \<Rightarrow> string \<Rightarrow> string \<Rightarrow> url" where
  "sample_url protocol host path =
     \<lparr>u_protocol = protocol, u_userinfo = [], u_host = host, u_hostname = host, u_pathname = path,
      u_search = [], u_hash = [], u_origin = protocol @ ''//'' @ host\<rparr>"

definition sample_tag :: "bytes \<Rightarrow> bytes \<Rightarrow> bytes option \<Rightarrow> 8 word" where
  "sample_tag key iv ad =
     foldl (\<lambda>acc b. 3 * acc + b) 7 (key @ iv @ (case ad of None \<Rightarrow> [] | Some a \<Rightarrow> a))"

definition sample_decrypt :: "bytes \<Rightarrow> bytes \<Rightarrow> bytes option \<Rightarrow> bytes \<Rightarrow> bytes option" where
  "sample_decrypt key iv ad c =
     (case c of [] \<Rightarrow> None | t # m \<Rightarrow> if t = sample_tag key iv ad then Some m else None)"

definition sample_urls :: "(string \<times> url) list" where
  "sample_urls =
     [(''https://vault.example/app/'', sample_url ''https:'' ''vault.example'' ''/app/''),
      (''https://vault.example/'', sample_url ''https:'' ''vault.example'' ''/''),
      (''https://shop.example/login'', sample_url ''https:'' ''shop.example'' ''/login''),
      (''https://shop.example/home'', sample_url ''https:'' ''shop.example'' ''/home''),
      (''https://shop.example'', sample_url ''https:'' ''shop.example'' ''/''),
      (''https://evil.example/login'', sample_url ''https:'' ''evil.example'' ''/login'')]"

definition sample_response :: "jsv \<Rightarrow> response" where
  "sample_response v =
     \<lparr>res_status = 200, res_json = Some v, res_header = (\<lambda>_. None), res_blob_size = 0, res_blob_type = []\<rparr>"

definition sample_platform :: "jsv \<Rightarrow> platform" where
  "sample_platform answer =
     \<lparr>url_of = map_of sample_urls,
      has_area = (\<lambda>_. True),
      storage_fault = (\<lambda>_. None),
      fetch_of = (\<lambda>_ _. Response (sample_response answer)),
      random_byte = of_nat,
      pbkdf2_key = (\<lambda>secret salt iterations. Some (secret @ salt)),
      hkdf_key = (\<lambda>ikm info. Some (ikm @ info)),
      gcm_encrypt = (\<lambda>key iv ad m. Some (sample_tag key iv ad # m)),
      gcm_decrypt = sample_decrypt,
      collate = (\<lambda>a b. if a = b then 0 else if a < b then - 1 else 1),
      decode_uri = Some,
      iso_time = (\<lambda>t. show_int t),
      native_message = (\<lambda>_. ''TypeError''),
      extension_origin = ''chrome-extension://nerve/'',
      has_api = (\<lambda>_. True),
      page_tabs = [\<lparr>tab_id = JNum 7, tab_url = JStr ''https://shop.example/login'', tab_title = JStr ''Shop''\<rparr>],
      active_tab = Some \<lparr>tab_id = JNum 7, tab_url = JStr ''https://shop.example/login'', tab_title = JStr ''Shop''\<rparr>,
      tab_by_id = (\<lambda>_. None),
      tab_reply = (\<lambda>_ _. Inr (JObj [(''ok'', JBool True)])),
      confirm_ok = (\<lambda>_. True),
      date_ms = (\<lambda>v. case v of JNum n \<Rightarrow> Some n | _ \<Rightarrow> None),
      params_of = (\<lambda>s. [(''token'', s)]),
      params_text = (\<lambda>ps. concat (map (\<lambda>(k, v). k @ ''='' @ v @ ''&'') ps)),
      identity_redirect = Some ''https://nerve.example/'',
      web_auth = (\<lambda>_. Inr None),
      lag = (\<lambda>_. 0)\<rparr>"

definition sample_world :: world where
  "sample_world =
     \<lparr>local_area = (\<lambda>_. None), session_area = (\<lambda>_. None), storage_ops = 0, clock = 1000000,
      net_log = [], random_used = 0, pendingLoginSaves = (\<lambda>_. None)\<rparr>"

lemma sample_fields [simp]:
  "has_area (sample_platform v) a"
  "storage_fault (sample_platform v) n = None"
  "has_api (sample_platform v) s"
  "url_of (sample_platform v) = map_of sample_urls"
  "fetch_of (sample_platform v) l r = Response (sample_response v)"
  "extension_origin (sample_platform v) = ''chrome-extension://nerve/''"
  by (simp_all add: sample_platform_def)

lemmas sample_simps =
  sample_platform_def sample_world_def sample_response_def sample_urls_def sample_url_def

end
