(* ===== verification/Base64.thy ===== *)
theory Base64
  imports World
begin

text \<open>
  \<^verbatim>\<open>btoa\<close> and \<^verbatim>\<open>atob\<close> (the forgiving decoder of the Infra standard), the two loops
  \<^verbatim>\<open>bytesToBase64\<close> and \<^verbatim>\<open>base64ToBytes\<close> of \<^verbatim>\<open>lib/crypto.js\<close> over them, and \<^verbatim>\<open>TextEncoder\<close> /
  \<^verbatim>\<open>TextDecoder\<close>.  A binary string (one character per byte) is the list of its bytes.  Each
  pair is an instance of the locale \<open>codec\<close>.
\<close>

section \<open>The alphabet\<close>

definition b64_char :: "nat \<Rightarrow> char" where
  "b64_char n =
     (if n < 26 then char_of (65 + n)
      else if n < 52 then char_of (71 + n)
      else if n < 62 then char_of (n - 4)
      else if n = 62 then CHR ''+'' else CHR ''/'')"

definition b64_val :: "char \<Rightarrow> nat option" where
  "b64_val c =
     (let n = of_char c :: nat in
      if 65 \<le> n \<and> n \<le> 90 then Some (n - 65)
      else if 97 \<le> n \<and> n \<le> 122 then Some (n - 71)
      else if 48 \<le> n \<and> n \<le> 57 then Some (n + 4)
      else if c = CHR ''+'' then Some 62
      else if c = CHR ''/'' then Some 63
      else None)"

section \<open>btoa and atob\<close>

text \<open>Three bytes are four digits of six bits; a final group of one or two bytes is padded.\<close>

fun b64_encode :: "nat list \<Rightarrow> string" where
  "b64_encode [] = []"
| "b64_encode [a] = [b64_char (a div 4), b64_char (a mod 4 * 16), CHR ''='', CHR ''='']"
| "b64_encode [a, b] =
     [b64_char (a div 4), b64_char (a mod 4 * 16 + b div 16), b64_char (b mod 16 * 4), CHR ''='']"
| "b64_encode (a # b # c # r) =
     [b64_char (a div 4), b64_char (a mod 4 * 16 + b div 16), b64_char (b mod 16 * 4 + c div 64),
      b64_char (c mod 64)] @ b64_encode r"

definition btoa :: "bytes \<Rightarrow> string" where
  "btoa bs = b64_encode (map unat bs)"

text \<open>
  Digits to bytes; a last group of two or three digits gives one or two bytes and its spare
  bits are dropped, a single left-over digit is an error.
\<close>

fun b64_decode :: "nat list \<Rightarrow> nat list option" where
  "b64_decode [] = Some []"
| "b64_decode [p] = None"
| "b64_decode [p, q] = Some [p * 4 + q div 16]"
| "b64_decode [p, q, r] = Some [p * 4 + q div 16, q mod 16 * 16 + r div 4]"
| "b64_decode (p # q # r # s # t) =
     map_option (\<lambda>u. (p * 4 + q div 16) # (q mod 16 * 16 + r div 4) # (r mod 4 * 64 + s) # u)
       (b64_decode t)"

definition ascii_space :: "char \<Rightarrow> bool" where
  "ascii_space c \<longleftrightarrow> c = CHR '' '' \<or> c = CHR 0x09 \<or> c = CHR 0x0A \<or> c = CHR 0x0C \<or> c = CHR 0x0D"

definition strip_padding :: "string \<Rightarrow> string" where
  "strip_padding s =
     (if length s mod 4 = 0 then
        (if ends_with s ''=='' then take (length s - 2) s
         else if ends_with s ''='' then take (length s - 1) s else s)
      else s)"

fun map_digits :: "string \<Rightarrow> nat list option" where
  "map_digits [] = Some []"
| "map_digits (c # s) =
     (case (b64_val c, map_digits s) of (Some d, Some ds) \<Rightarrow> Some (d # ds) | _ \<Rightarrow> None)"

definition atob :: "string \<Rightarrow> bytes result" where
  "atob s =
     (case map_digits (strip_padding (filter (\<lambda>c. \<not> ascii_space c) s)) of
        None \<Rightarrow> Inl InvalidCharacterError
      | Some ds \<Rightarrow>
          (case b64_decode ds of
             None \<Rightarrow> Inl InvalidCharacterError
           | Some ns \<Rightarrow> Inr (map word_of_nat ns)))"

section \<open>The loops of the source\<close>

definition bytesToBase64 :: "bytes \<Rightarrow> string" where
  "bytesToBase64 bs = btoa (foldl (\<lambda>binary byte. binary @ [byte]) [] bs)"

definition base64ToBytes :: "string \<Rightarrow> bytes result" where
  "base64ToBytes value =
     res_bind (atob value) (\<lambda>binary. Inr (map (\<lambda>index. binary ! index) [0 ..< length binary]))"

section \<open>Text\<close>

definition encode_text :: "string \<Rightarrow> bytes" where
  "encode_text s = map (\<lambda>c. word_of_nat (of_char c)) s"

definition decode_text :: "bytes \<Rightarrow> string" where
  "decode_text bs = map (\<lambda>b. char_of (unat b)) bs"

section \<open>Decoding undoes encoding\<close>

lemma b64_val_char [simp]: "n < 64 \<Longrightarrow> b64_val (b64_char n) = Some n"
  by (auto simp: b64_val_def b64_char_def Let_def)

lemma b64_char_plain: "n < 64 \<Longrightarrow> b64_char n \<noteq> CHR ''='' \<and> \<not> ascii_space (b64_char n)"
proof -
  assume "n < 64"
  then have "b64_val (b64_char n) = Some n" by simp
  moreover have "b64_val (CHR ''='') = None" "ascii_space c \<Longrightarrow> b64_val c = None" for c
    by (auto simp: b64_val_def ascii_space_def)
  ultimately show ?thesis by force
qed

lemma div_mod_radix: "(y::nat) < n \<Longrightarrow> (x * n + y) div n = x" "y < n \<Longrightarrow> (x * n + y) mod n = y"
  by (simp_all add: div_mult_self3)

lemma b64_group:
  assumes "(a::nat) < 256" "b < 256" "c < 256"
  shows "a div 4 < 64" "a mod 4 * 16 + b div 16 < 64" "b mod 16 * 4 + c div 64 < 64" "c mod 64 < 64"
    and "a div 4 * 4 + (a mod 4 * 16 + b div 16) div 16 = a"
    and "(a mod 4 * 16 + b div 16) mod 16 * 16 + (b mod 16 * 4 + c div 64) div 4 = b"
    and "(b mod 16 * 4 + c div 64) mod 4 * 64 + c mod 64 = c"
proof -
  have "b div 16 < 16" "c div 64 < 4" "a mod 4 < 4" "b mod 16 < 16" using assms by auto
  note small = this
  show "a div 4 < 64" "c mod 64 < 64" using assms by simp_all
  show "a mod 4 * 16 + b div 16 < 64" "b mod 16 * 4 + c div 64 < 64" using small by linarith+
  show "a div 4 * 4 + (a mod 4 * 16 + b div 16) div 16 = a"
    using small by (simp only: div_mod_radix div_mult_mod_eq)
  show "(a mod 4 * 16 + b div 16) mod 16 * 16 + (b mod 16 * 4 + c div 64) div 4 = b"
    using small by (simp only: div_mod_radix div_mult_mod_eq)
  show "(b mod 16 * 4 + c div 64) mod 4 * 64 + c mod 64 = c"
    using small by (simp only: div_mod_radix div_mult_mod_eq)
qed

lemma b64_encode_step:
  assumes abc: "a < 256" "b < 256" "c < 256"
    and enc: "b64_encode r = map b64_char ds @ pad" and ds: "\<forall>d \<in> set ds. d < 64"
    and dec: "b64_decode ds = Some r"
  shows "\<exists>es. b64_encode (a # b # c # r) = map b64_char es @ pad \<and> (\<forall>d \<in> set es. d < 64) \<and>
    b64_decode es = Some (a # b # c # r)"
proof (intro exI conjI)
  let ?p = "a div 4" and ?q = "a mod 4 * 16 + b div 16" and ?u = "b mod 16 * 4 + c div 64"
    and ?v = "c mod 64"
  show "b64_encode (a # b # c # r) = map b64_char (?p # ?q # ?u # ?v # ds) @ pad"
    by (simp only: b64_encode.simps enc list.map append.simps)
  show "\<forall>d \<in> set (?p # ?q # ?u # ?v # ds). d < 64"
    using ds b64_group(1-4) [OF abc] by simp
  show "b64_decode (?p # ?q # ?u # ?v # ds) = Some (a # b # c # r)"
    by (simp only: b64_decode.simps dec option.map b64_group(5-7) [OF abc])
qed

lemma b64_encode_length: "length (b64_encode as) mod 4 = 0"
  by (induction "as" rule: b64_encode.induct) simp_all

lemma b64_encode_chars:
  "\<forall>a \<in> set as. a < 256 \<Longrightarrow> \<exists>ds pad. b64_encode as = map b64_char ds @ pad \<and> (\<forall>d \<in> set ds. d < 64) \<and>
     b64_decode ds = Some as \<and>
     (pad = [] \<or> pad = ''='' \<or> pad = ''=='')"
proof (induction "as" rule: b64_encode.induct)
  case 1
  show ?case by (intro exI [of _ "[]"]) simp
next
  case (2 a)
  have g: "a div 4 < 64" "a mod 4 * 16 < 64" "a div 4 * 4 + a mod 4 * 16 div 16 = a"
    using b64_group [of a 0 0] 2 by simp_all
  have "b64_decode [a div 4, a mod 4 * 16] = Some [a]" by (simp only: b64_decode.simps g)
  with g(1,2) show ?case
    by (intro exI [of _ "[a div 4, a mod 4 * 16]"] exI [of _ "''==''"]) simp
next
  case (3 a b)
  have g: "a div 4 < 64" "a mod 4 * 16 + b div 16 < 64" "b mod 16 * 4 < 64"
    "a div 4 * 4 + (a mod 4 * 16 + b div 16) div 16 = a"
    "(a mod 4 * 16 + b div 16) mod 16 * 16 + (b mod 16 * 4) div 4 = b"
    using b64_group [of a b 0] 3 by simp_all
  have "b64_decode [a div 4, a mod 4 * 16 + b div 16, b mod 16 * 4] = Some [a, b]"
    by (simp only: b64_decode.simps g)
  with g(1-3) show ?case
    by (intro exI [of _ "[a div 4, a mod 4 * 16 + b div 16, b mod 16 * 4]"] exI [of _ "''=''"]) simp
next
  case (4 a b c r)
  have "\<forall>a \<in> set r. a < 256" and abc: "a < 256" "b < 256" "c < 256"
    using "4.prems" by simp_all
  from "4.IH" [OF this(1)] obtain ds pad where IH: "b64_encode r = map b64_char ds @ pad"
    "\<forall>d \<in> set ds. d < 64" "b64_decode ds = Some r" and pad: "pad = [] \<or> pad = ''='' \<or> pad = ''==''"
    by metis
  from b64_encode_step [OF abc IH] pad show ?case by metis
qed

lemma map_digits_chars: "\<forall>d \<in> set ds. d < 64 \<Longrightarrow> map_digits (map b64_char ds) = Some ds"
  by (induction ds) auto

lemma strip_padding_chars:
  assumes "length (s @ pad) mod 4 = 0" "CHR ''='' \<notin> set s" "pad = [] \<or> pad = ''='' \<or> pad = ''==''"
  shows "strip_padding (s @ pad) = s"
proof -
  have no: "\<not> ends_with s (p @ ''='')" for p
    using assms(2) by (auto simp: ends_with_iff)
  have no2: "\<not> ends_with (s @ ''='') ''==''"
  proof
    assume "ends_with (s @ ''='') ''==''"
    then obtain t where "s @ ''='' = (t @ ''='') @ ''=''" by (auto simp: ends_with_iff)
    then have "s = t @ ''=''" by blast
    with assms(2) show False by simp
  qed
  have yes1: "ends_with (s @ ''='') ''=''" and yes2: "ends_with (s @ ''=='') ''==''"
    by (auto simp: ends_with_iff)
  from assms(1,3) show ?thesis
    using no [of "[]"] no [of "''=''"] no2 yes1 yes2 by (auto simp: strip_padding_def)
qed

lemma atob_btoa: "atob (btoa bs) = Inr bs"
proof -
  have lt: "\<forall>a \<in> set (map unat bs). a < 256"
    using unsigned_less [where 'b = 8 and 'a = nat] by auto
  obtain ds pad where enc: "btoa bs = map b64_char ds @ pad" and ds: "\<forall>d \<in> set ds. d < 64"
    and dec: "b64_decode ds = Some (map unat bs)" and len: "length (map b64_char ds @ pad) mod 4 = 0"
    and pad: "pad = [] \<or> pad = ''='' \<or> pad = ''==''"
    using b64_encode_chars [OF lt] b64_encode_length [of "map unat bs"] unfolding btoa_def by metis
  have plain: "CHR ''='' \<notin> set (map b64_char ds)"
    using ds b64_char_plain by force
  have "filter (\<lambda>c. \<not> ascii_space c) (map b64_char ds @ pad) = map b64_char ds @ pad"
    using ds b64_char_plain pad by (auto simp: filter_id_conv ascii_space_def)
  then show ?thesis
    by (simp add: atob_def enc strip_padding_chars [OF len plain pad] map_digits_chars [OF ds] dec comp_def)
qed

lemma bytesToBase64_btoa [simp]: "bytesToBase64 bs = btoa bs"
proof -
  have "foldl (\<lambda>binary byte. binary @ [byte]) acc bs = acc @ bs" for acc :: bytes
    by (induction bs arbitrary: acc) simp_all
  then show ?thesis by (simp add: bytesToBase64_def)
qed

lemma base64ToBytes_atob [simp]: "base64ToBytes s = atob s"
  by (cases "atob s") (simp_all add: base64ToBytes_def map_nth)

lemma decode_encode_text [simp]: "decode_text (encode_text s) = s"
proof -
  have "char_of (unat (word_of_nat (of_char c) :: 8 word)) = c" for c :: char
    by (simp add: unat_of_nat of_char_mod_256)
  then show ?thesis by (simp add: decode_text_def encode_text_def comp_def)
qed

interpretation b64: codec bytesToBase64 "\<lambda>s. case base64ToBytes s of Inl _ \<Rightarrow> None | Inr bs \<Rightarrow> Some bs" "\<lambda>_. True"
  by unfold_locales (simp add: atob_btoa)

interpretation utf8: codec encode_text "\<lambda>bs. Some (decode_text bs)" "\<lambda>_. True"
  by unfold_locales simp

text \<open>Text through bytes through base64, and JSON through text bytes.\<close>

interpretation text64: codec_pair encode_text "\<lambda>bs. Some (decode_text bs)" "\<lambda>_. True"
    bytesToBase64 "\<lambda>s. case base64ToBytes s of Inl _ \<Rightarrow> None | Inr bs \<Rightarrow> Some bs" "\<lambda>_. True"
  by unfold_locales simp

interpretation json_bytes: codec_pair json_text
    "\<lambda>s. case json_parse s of Inl _ \<Rightarrow> None | Inr v \<Rightarrow> Some v" json_ok
    encode_text "\<lambda>bs. Some (decode_text bs)" "\<lambda>_. True"
  by unfold_locales simp

lemma encode_text_inj: "encode_text s = encode_text t \<Longrightarrow> s = t"
  by (rule utf8.enc_inj) simp_all


section \<open>Properties\<close>

text \<open>Any string survives UTF-8 and Base64, through the byte loops of the two directions.\<close>

theorem bytes_base64_roundtrip:
  "base64ToBytes (bytesToBase64 (encode_text s)) = Inr (encode_text s) \<and>
   res_bind (base64ToBytes (bytesToBase64 (encode_text s))) (\<lambda>b. Inr (decode_text b)) = Inr s \<and>
   length (bytesToBase64 bs) mod 4 = 0"
proof -
  have "length (btoa bs) mod 4 = 0" by (simp add: btoa_def b64_encode_length)
  then show ?thesis by (simp add: atob_btoa)
qed

end
