(* ===== verification/Crypto.thy ===== *)
theory Crypto
  imports Base64 "HOL-Library.Multiset"
begin

text \<open>
  \<^verbatim>\<open>clients/nerve-extension/lib/crypto.js\<close>: payload recognition, the canonical JSON of the
  associated data, unwrapping of the master data key and authenticated encryption of single
  values.  WebCrypto itself is the \<open>platform\<close>'s; the one law the round trip needs, that
  decryption under the same key, nonce and associated data undoes encryption, is the
  predicate \<open>gcm_correct\<close>.
\<close>

section \<open>Constants and payload shapes\<close>

definition VERSION :: int where "VERSION = 2"
definition ALGORITHM :: string where "ALGORITHM = ''AES-GCM''"
definition KDF :: string where "KDF = ''PBKDF2-SHA256''"
definition PBKDF2_ITERATIONS :: int where "PBKDF2_ITERATIONS = 600000"
definition HKDF_PREFIX :: string where "HKDF_PREFIX = ''elektrine-vault:''"

definition isClientPayload :: "jsv \<Rightarrow> bool" where
  "isClientPayload payload \<longleftrightarrow>
     truthy payload
     \<and> js_get_opt payload ''algorithm'' = JStr ALGORITHM
     \<and> is_str (js_get_opt payload ''iv'')
     \<and> is_str (js_get_opt payload ''ciphertext'')"

definition isWrappedPayload :: "jsv \<Rightarrow> bool" where
  "isWrappedPayload payload \<longleftrightarrow>
     isClientPayload payload
     \<and> js_get_opt payload ''kdf'' = JStr KDF
     \<and> is_num (js_get_opt payload ''iterations'')
     \<and> is_str (js_get_opt payload ''salt'')"

text \<open>A property known to be a string, or a number.\<close>

fun str_of :: "jsv \<Rightarrow> string" where
  "str_of (JStr s) = s"
| "str_of v = []"

fun num_of :: "jsv \<Rightarrow> int" where
  "num_of (JNum n) = n"
| "num_of v = 0"

section \<open>Associated data\<close>

definition sorted_object :: "(string \<times> jsv) list \<Rightarrow> (string \<times> jsv) list" where
  "sorted_object ps =
     foldl (\<lambda>acc key. obj_set key (obj_get key ps) acc) [] (sort (map fst ps))"

definition stableJson :: "jsv \<Rightarrow> string option" where
  "stableJson value =
     (case value of
        JObj ps \<Rightarrow> Some (json_text (JObj (sorted_object ps)))
      | _ \<Rightarrow> json_stringify value)"

text \<open>
  The \<^verbatim>\<open>additionalData\<close> of the AES-GCM parameters, absent where the caller passes none.
  (\<^verbatim>\<open>stableJson\<close> answers undefined for undefined only, which is falsy.)
\<close>

definition aesGcmParams :: "jsv \<Rightarrow> bytes option" where
  "aesGcmParams associatedData =
     (if \<not> truthy associatedData then None
      else map_option encode_text (stableJson associatedData))"

definition nerveEntryAssociatedData :: "jsv \<Rightarrow> string \<Rightarrow> jsv result" where
  "nerveEntryAssociatedData entry field =
     res_bind (res_bind (js_get entry ''title'') trim_or_empty) (\<lambda>title.
     res_bind (res_bind (js_get entry ''login_username'') trim_or_empty) (\<lambda>username.
     res_bind (res_bind (js_get entry ''website'') trim_or_empty) (\<lambda>website.
     Inr (JObj [(''purpose'', JStr ''elektrine-nerve-entry''),
                (''field'', JStr field),
                (''title'', JStr title),
                (''login_username'', JStr username),
                (''website'', JStr website)]))))"

definition nerveMetadataAssociatedData :: jsv where
  "nerveMetadataAssociatedData = JObj [(''purpose'', JStr ''elektrine-nerve-metadata'')]"

section \<open>Keys\<close>

definition deriveWrappingKey :: "platform \<Rightarrow> string \<Rightarrow> bytes \<Rightarrow> int \<Rightarrow> bytes result" where
  "deriveWrappingKey p secret salt iterations =
     (case pbkdf2_key p (encode_text secret) salt iterations of
        None \<Rightarrow> Inl OperationError
      | Some key \<Rightarrow> Inr key)"

definition decrypt_op :: "platform \<Rightarrow> bytes \<Rightarrow> bytes \<Rightarrow> bytes option \<Rightarrow> bytes \<Rightarrow> bytes result" where
  "decrypt_op p key iv ad ciphertext =
     (case gcm_decrypt p key iv ad ciphertext of None \<Rightarrow> Inl OperationError | Some b \<Rightarrow> Inr b)"

definition unwrapWithSecret :: "platform \<Rightarrow> jsv \<Rightarrow> string \<Rightarrow> bytes result" where
  "unwrapWithSecret p payload secret =
     (if \<not> isWrappedPayload payload then Inl (Error ''Encrypted data key payload is not valid.'')
      else
        res_bind (base64ToBytes (str_of (js_get_opt payload ''salt''))) (\<lambda>salt.
        res_bind (base64ToBytes (str_of (js_get_opt payload ''iv''))) (\<lambda>iv.
        res_bind (base64ToBytes (str_of (js_get_opt payload ''ciphertext''))) (\<lambda>ciphertext.
        res_bind (deriveWrappingKey p secret salt (num_of (js_get_opt payload ''iterations''))) (\<lambda>key.
        decrypt_op p key iv None ciphertext)))))"

definition deriveFeatureKey :: "platform \<Rightarrow> bytes \<Rightarrow> string \<Rightarrow> bytes result" where
  "deriveFeatureKey p mdkBytes feature =
     (case hkdf_key p mdkBytes (encode_text (HKDF_PREFIX @ feature)) of
        None \<Rightarrow> Inl OperationError
      | Some key \<Rightarrow> Inr key)"

section \<open>Values\<close>

definition client_payload :: "bytes \<Rightarrow> bytes \<Rightarrow> jsv" where
  "client_payload iv ciphertext =
     JObj [(''version'', JNum VERSION),
           (''algorithm'', JStr ALGORITHM),
           (''iv'', JStr (bytesToBase64 iv)),
           (''ciphertext'', JStr (bytesToBase64 ciphertext))]"

definition encryptValue :: "platform \<Rightarrow> string \<Rightarrow> bytes \<Rightarrow> jsv \<Rightarrow> ('a world_scheme, jsv) io" where
  "encryptValue p plaintext key associatedData =
     bind (random_bytes p 12) (\<lambda>iv.
       (case gcm_encrypt p key iv (aesGcmParams associatedData) (encode_text plaintext) of
          None \<Rightarrow> raise OperationError
        | Some ciphertext \<Rightarrow> ret (client_payload iv ciphertext)))"

definition decryptValue :: "platform \<Rightarrow> jsv \<Rightarrow> bytes \<Rightarrow> jsv \<Rightarrow> string result" where
  "decryptValue p payload key associatedData =
     (if \<not> isClientPayload payload
      then Inl (Error ''Nerve payload is not valid client-side ciphertext.'')
      else
        res_bind (base64ToBytes (str_of (js_get_opt payload ''iv''))) (\<lambda>iv.
        res_bind (base64ToBytes (str_of (js_get_opt payload ''ciphertext''))) (\<lambda>ciphertext.
        res_bind (decrypt_op p key iv (aesGcmParams associatedData) ciphertext) (\<lambda>plaintext.
        Inr (decode_text plaintext)))))"

section \<open>Lemmas\<close>

text \<open>WebCrypto's documented behaviour: AES-GCM decryption undoes encryption.\<close>

definition gcm_correct :: "platform \<Rightarrow> bool" where
  "gcm_correct p \<longleftrightarrow>
     (\<forall>key iv ad m c. gcm_encrypt p key iv ad m = Some c \<longrightarrow> gcm_decrypt p key iv ad c = Some m)"

lemma client_payload_shape [simp]: "isClientPayload (client_payload iv c)"
  by (simp add: isClientPayload_def client_payload_def)

lemma encryptValue_run:
  "encryptValue p s key ad w =
     (let iv = map (random_byte p) [random_used w ..< random_used w + 12];
          w' = w\<lparr>random_used := random_used w + 12\<rparr> in
      case gcm_encrypt p key iv (aesGcmParams ad) (encode_text s) of
        None \<Rightarrow> (Inl OperationError, w')
      | Some c \<Rightarrow> (Inr (client_payload iv c), w'))"
  by (simp add: encryptValue_def run_simps Let_def split: option.split)

lemma encryptValue_frame: "encryptValue p s key ad w = (r, t) \<Longrightarrow> t = w\<lparr>random_used := random_used w + 12\<rparr>"
  by (auto simp: encryptValue_run Let_def split: option.splits)

lemma encryptValue_ok:
  "encryptValue p s key ad w = (Inr payload, t) \<Longrightarrow>
   \<exists>iv c. length iv = 12 \<and> payload = client_payload iv c \<and>
     gcm_encrypt p key iv (aesGcmParams ad) (encode_text s) = Some c"
  by (auto simp: encryptValue_run Let_def split: option.splits intro!: exI)

lemma decrypt_client_payload:
  "gcm_decrypt p key iv (aesGcmParams ad) c = Some m \<Longrightarrow>
   decryptValue p (client_payload iv c) key ad = Inr (decode_text m)"
  by (simp add: decryptValue_def) (simp add: client_payload_def atob_btoa decrypt_op_def)

lemma decryptValue_encryptValue:
  assumes "gcm_correct p" "encryptValue p s key ad w = (Inr payload, t)"
  shows "isClientPayload payload \<and> decryptValue p payload key ad = Inr s"
proof -
  from encryptValue_ok [OF assms(2)] obtain iv c where pc: "payload = client_payload iv c"
    "gcm_encrypt p key iv (aesGcmParams ad) (encode_text s) = Some c" by blast
  with assms(1) have "gcm_decrypt p key iv (aesGcmParams ad) c = Some (encode_text s)"
    by (auto simp: gcm_correct_def)
  with pc show ?thesis by (simp add: decrypt_client_payload)
qed

lemma nerveEntryAssociatedData_obj:
  "nerveEntryAssociatedData (JObj [(''title'', JStr a), (''login_username'', JStr b), (''website'', JStr c)]) f =
     Inr (JObj [(''purpose'', JStr ''elektrine-nerve-entry''), (''field'', JStr f), (''title'', JStr (trim a)),
                (''login_username'', JStr (trim b)), (''website'', JStr (trim c))])"
  by (simp add: nerveEntryAssociatedData_def)

lemma nerveEntryAssociatedData_ok:
  "nerveEntryAssociatedData e f = Inr a \<Longrightarrow>
   \<exists>t u s. a = JObj [(''purpose'', JStr ''elektrine-nerve-entry''), (''field'', JStr f), (''title'', JStr t),
                (''login_username'', JStr u), (''website'', JStr s)]"
  by (auto simp: nerveEntryAssociatedData_def res_bind_eq_Inr)

section \<open>Canonical associated data\<close>

lemma sort_mset_eq: "mset xs = mset ys \<Longrightarrow> sort xs = sort (ys :: string list)"
  by (metis mset_sort properties_for_sort sorted_sort)

lemma map_of_mset_eq:
  "mset ps = mset qs \<Longrightarrow> distinct (map fst ps) \<Longrightarrow> map_of ps k = map_of qs k"
proof -
  assume m: "mset ps = mset qs" and d: "distinct (map fst ps)"
  then have "distinct (map fst qs)" by (metis mset_map mset_eq_imp_distinct_iff)
  moreover have "set ps = set qs" using m by (rule mset_eq_setD)
  ultimately show ?thesis using d by (metis map_of_inject_set)
qed

lemma stableJson_mset:
  assumes "mset ps = mset qs" "distinct (map fst ps)"
  shows "stableJson (JObj ps) = stableJson (JObj qs)"
proof -
  have "sort (map fst ps) = sort (map fst qs)"
    using assms(1) by (intro sort_mset_eq) (metis mset_map)
  moreover have "obj_get k ps = obj_get k qs" for k
    using map_of_mset_eq [OF assms] by (simp add: obj_get_def)
  ultimately show ?thesis by (simp add: stableJson_def sorted_object_def)
qed

text \<open>The associated data of an entry's field, in the canonical order of its keys.\<close>

lemma entry_keys_sorted:
  "sort [''purpose'', ''field'', ''title'', ''login_username'', ''website''] =
   [''field'', ''login_username'', ''purpose'', ''title'', ''website'']"
  by code_simp

lemma entry_keys_plain:
  "array_index ''field'' = None" "array_index ''login_username'' = None" "array_index ''purpose'' = None"
  "array_index ''title'' = None" "array_index ''website'' = None"
  by code_simp+

lemma entry_aad_sorted:
  "sorted_object [(''purpose'', a), (''field'', b), (''title'', c), (''login_username'', d), (''website'', e)] =
   [(''field'', b), (''login_username'', d), (''purpose'', a), (''title'', c), (''website'', e)]"
  by (simp add: sorted_object_def entry_keys_sorted obj_set_def entry_keys_plain del: sort_key_simps)

lemma entry_aad_json_ok:
  "json_ok (JObj [(''field'', JStr b), (''login_username'', JStr d), (''purpose'', JStr a), (''title'', JStr c), (''website'', JStr e)])"
  by (simp add: obj_ok_fresh entry_keys_plain)

lemma entry_aad_bytes:
  "aesGcmParams (JObj [(''purpose'', JStr a), (''field'', JStr b), (''title'', JStr c), (''login_username'', JStr d), (''website'', JStr e)])
   = Some (encode_text (json_text (JObj [(''field'', JStr b), (''login_username'', JStr d), (''purpose'', JStr a),
       (''title'', JStr c), (''website'', JStr e)])))"
  by (simp add: aesGcmParams_def stableJson_def entry_aad_sorted)

lemma entry_aad_inj:
  assumes "nerveEntryAssociatedData e f = Inr a" "nerveEntryAssociatedData e' f' = Inr a'"
    and "aesGcmParams a = aesGcmParams a'"
  shows "a = a' \<and> f = f'"
proof -
  obtain t u s where a: "a = JObj [(''purpose'', JStr ''elektrine-nerve-entry''), (''field'', JStr f), (''title'', JStr t),
                (''login_username'', JStr u), (''website'', JStr s)]"
    using nerveEntryAssociatedData_ok [OF assms(1)] by blast
  obtain t' u' s' where a': "a' = JObj [(''purpose'', JStr ''elektrine-nerve-entry''), (''field'', JStr f'), (''title'', JStr t'),
                (''login_username'', JStr u'), (''website'', JStr s')]"
    using nerveEntryAssociatedData_ok [OF assms(2)] by blast
  from assms(3) have "JObj [(''field'', JStr f), (''login_username'', JStr u), (''purpose'', JStr ''elektrine-nerve-entry''), (''title'', JStr t), (''website'', JStr s)]
    = JObj [(''field'', JStr f'), (''login_username'', JStr u'), (''purpose'', JStr ''elektrine-nerve-entry''), (''title'', JStr t'), (''website'', JStr s')]"
    unfolding a a' entry_aad_bytes option.inject
    by (intro json_text_inj entry_aad_json_ok) (rule encode_text_inj)
  then show ?thesis unfolding a a' by simp
qed

lemma metadata_aad_differs:
  "nerveEntryAssociatedData e f = Inr a \<Longrightarrow> aesGcmParams a \<noteq> aesGcmParams nerveMetadataAssociatedData"
proof
  assume "nerveEntryAssociatedData e f = Inr a"
    and eq: "aesGcmParams a = aesGcmParams nerveMetadataAssociatedData"
  then obtain t u s where a: "a = JObj [(''purpose'', JStr ''elektrine-nerve-entry''), (''field'', JStr f), (''title'', JStr t),
                (''login_username'', JStr u), (''website'', JStr s)]"
    using nerveEntryAssociatedData_ok by blast
  have m: "aesGcmParams nerveMetadataAssociatedData =
      Some (encode_text (json_text (JObj [(''purpose'', JStr ''elektrine-nerve-metadata'')])))"
    by (simp add: aesGcmParams_def stableJson_def nerveMetadataAssociatedData_def sorted_object_def obj_set_def
        entry_keys_plain)
  have "json_ok (JObj [(''purpose'', JStr ''elektrine-nerve-metadata'')])"
    by (simp add: obj_ok_fresh entry_keys_plain)
  from json_text_inj [OF entry_aad_json_ok this] eq show False
    unfolding a m entry_aad_bytes option.inject by (auto dest!: encode_text_inj)
qed


section \<open>Properties\<close>

lemma sample_gcm_correct: "gcm_correct (sample_platform v)"
  by (simp add: gcm_correct_def sample_platform_def sample_decrypt_def)

text \<open>
  Decrypting what \<open>encryptValue\<close> answered, with the same key and associated data, gives
  the plaintext back, for a cipher whose decryption undoes its encryption.
\<close>

theorem encrypt_decrypt_roundtrip:
  assumes "gcm_correct p" "encryptValue p s key ad w = (Inr payload, t)"
  shows "isClientPayload payload \<and> decryptValue p payload key ad = Inr s \<and>
    t = w\<lparr>random_used := random_used w + 12\<rparr>"
  using decryptValue_encryptValue [OF assms] encryptValue_frame [OF assms(2)] by blast

theorem encrypt_decrypt_roundtrip_witness:
  "\<exists>payload t. encryptValue (sample_platform JNull) ''hunter2'' [1, 2] nerveMetadataAssociatedData sample_world = (Inr payload, t) \<and>
     decryptValue (sample_platform JNull) payload [1, 2] nerveMetadataAssociatedData = Inr ''hunter2''"
proof -
  let ?q = "encryptValue (sample_platform JNull) ''hunter2'' [1, 2] nerveMetadataAssociatedData sample_world"
  obtain payload t where q: "?q = (Inr payload, t)"
    by (auto simp: encryptValue_run Let_def sample_platform_def)
  from encrypt_decrypt_roundtrip [OF sample_gcm_correct q] q show ?thesis by blast
qed

text \<open>
  C22: The associated data binds a field's ciphertext to the entry: two entries whose
  associated data have the same bytes have the same trimmed title, user name and website,
  and the field is the same; and no field's associated data is that of the metadata.
\<close>

theorem associated_data_binding:
  assumes "nerveEntryAssociatedData e f = Inr a" "nerveEntryAssociatedData e' f' = Inr a'"
  shows "(aesGcmParams a = aesGcmParams a' \<longleftrightarrow> a = a') \<and>
    (aesGcmParams a = aesGcmParams a' \<longrightarrow> f = f' \<and>
       (\<forall>k \<in> {''title'', ''login_username'', ''website''}.
          trim_or_empty (js_get_opt e k) = trim_or_empty (js_get_opt e' k))) \<and>
    aesGcmParams a \<noteq> aesGcmParams nerveMetadataAssociatedData"
proof -
  have get: "js_get x k = Inr v \<longleftrightarrow> x \<noteq> JUndef \<and> x \<noteq> JNull \<and> v = js_get_opt x k" for x k v
    by (auto simp: js_get_def)
  have "a = a' \<Longrightarrow> f = f' \<and> (\<forall>k \<in> {''title'', ''login_username'', ''website''}.
          trim_or_empty (js_get_opt e k) = trim_or_empty (js_get_opt e' k))"
    using assms by (auto simp: nerveEntryAssociatedData_def res_bind_eq_Inr get)
  with entry_aad_inj [OF assms] metadata_aad_differs [OF assms(1)] show ?thesis by blast
qed

theorem associated_data_binding_witness:
  "\<exists>a a'. nerveEntryAssociatedData (JObj [(''title'', JStr ''A''), (''login_username'', JStr ''u''), (''website'', JStr ''s'')]) ''password'' = Inr a \<and>
     nerveEntryAssociatedData (JObj [(''title'', JStr ''A ''), (''login_username'', JStr ''u''), (''website'', JStr ''s'')]) ''notes'' = Inr a' \<and>
     aesGcmParams a \<noteq> aesGcmParams a'"
proof -
  note e = nerveEntryAssociatedData_obj [of "''A''" "''u''" "''s''" "''password''"]
    and e' = nerveEntryAssociatedData_obj [of "''A ''" "''u''" "''s''" "''notes''"]
  from associated_data_binding [OF e e'] e e' show ?thesis by blast
qed

text \<open>The canonical JSON of an object does not depend on the order of its properties.\<close>

theorem stableJson_order:
  assumes "mset ps = mset qs" "distinct (map fst ps)"
  shows "stableJson (JObj ps) = stableJson (JObj qs)"
  using assms by (rule stableJson_mset)

theorem stableJson_order_witness:
  "stableJson (JObj [(''b'', JNum 1), (''a'', JNull)]) = stableJson (JObj [(''a'', JNull), (''b'', JNum 1)])"
  by (rule stableJson_order) simp_all

end
