(* ===== verification/Password.thy ===== *)
theory Password
  imports Prelude "HOL-Library.Multiset"
begin

text \<open>
  \<^verbatim>\<open>createPassword\<close> of \<^verbatim>\<open>clients/nerve-extension/lib/crypto.js\<close>.  The generator is a sequence
  \<open>rnd\<close> of 32-bit words, one per call of \<^verbatim>\<open>crypto.getRandomValues\<close>, and the position \<open>i\<close>
  of the next word is threaded through.  The rejection loop of \<^verbatim>\<open>randomInt\<close> may run forever
  (if every word is rejected), so it is a \<open>partial_function (option)\<close>: \<open>None\<close> is "does not
  return".
\<close>

section \<open>The generator\<close>

definition PASSWORD_LENGTH :: nat where "PASSWORD_LENGTH = 24"
definition lowercase :: string where "lowercase = ''abcdefghijklmnopqrstuvwxyz''"
definition uppercase :: string where "uppercase = ''ABCDEFGHIJKLMNOPQRSTUVWXYZ''"
definition digits :: string where "digits = ''0123456789''"
definition symbols :: string where "symbols = ''!@#$%^&*()-_=+''"
definition all_chars :: string where "all_chars = lowercase @ uppercase @ digits @ symbols"

definition random_limit :: "nat \<Rightarrow> nat" where
  "random_limit m = (0x100000000 div m) * m"

partial_function (option) random_word ::
  "(nat \<Rightarrow> 32 word) \<Rightarrow> nat \<Rightarrow> nat \<Rightarrow> (nat \<times> nat) option" where
  "random_word rnd limit i =
     (if unat (rnd i) \<ge> limit then random_word rnd limit (Suc i)
      else Some (unat (rnd i), Suc i))"

definition randomInt :: "(nat \<Rightarrow> 32 word) \<Rightarrow> nat \<Rightarrow> nat \<Rightarrow> (nat \<times> nat) option" where
  "randomInt rnd m i = map_option (\<lambda>(v, j). (v mod m, j)) (random_word rnd (random_limit m) i)"

definition pick :: "(nat \<Rightarrow> 32 word) \<Rightarrow> string \<Rightarrow> nat \<Rightarrow> (char \<times> nat) option" where
  "pick rnd characters i =
     map_option (\<lambda>(k, j). (characters ! k, j)) (randomInt rnd (length characters) i)"

function fill_chars :: "(nat \<Rightarrow> 32 word) \<Rightarrow> string \<Rightarrow> nat \<Rightarrow> (string \<times> nat) option" where
  "fill_chars rnd chars i =
     (if length chars < PASSWORD_LENGTH then
        (case pick rnd all_chars i of
           None \<Rightarrow> None
         | Some (c, j) \<Rightarrow> fill_chars rnd (chars @ [c]) j)
      else Some (chars, i))"
  by pat_completeness auto
termination
  by (relation "measure (\<lambda>(rnd, chars, i). PASSWORD_LENGTH - length chars)") auto

declare fill_chars.simps [simp del]

definition swap_chars :: "string \<Rightarrow> nat \<Rightarrow> nat \<Rightarrow> string" where
  "swap_chars chars i j = chars[i := chars ! j, j := chars ! i]"

text \<open>The shuffle, with its loop variable counting down from the argument to 1.\<close>

fun shuffle :: "(nat \<Rightarrow> 32 word) \<Rightarrow> nat \<Rightarrow> string \<Rightarrow> nat \<Rightarrow> (string \<times> nat) option" where
  "shuffle rnd 0 chars k = Some (chars, k)"
| "shuffle rnd (Suc i) chars k =
     (case randomInt rnd (Suc i + 1) k of
        None \<Rightarrow> None
      | Some (swapIndex, l) \<Rightarrow> shuffle rnd i (swap_chars chars (Suc i) swapIndex) l)"

definition createPassword :: "(nat \<Rightarrow> 32 word) \<Rightarrow> nat \<Rightarrow> (string \<times> nat) option" where
  "createPassword rnd i0 =
     (case pick rnd lowercase i0 of None \<Rightarrow> None | Some (a, i1) \<Rightarrow>
     (case pick rnd uppercase i1 of None \<Rightarrow> None | Some (b, i2) \<Rightarrow>
     (case pick rnd digits i2 of None \<Rightarrow> None | Some (c, i3) \<Rightarrow>
     (case pick rnd symbols i3 of None \<Rightarrow> None | Some (d, i4) \<Rightarrow>
     (case fill_chars rnd [a, b, c, d] i4 of None \<Rightarrow> None | Some (chars, i5) \<Rightarrow>
       shuffle rnd (length chars - 1) chars i5)))))"

section \<open>randomInt: range, termination, no bias\<close>

lemma random_limit_bounds:
  assumes "0 < m" "m \<le> 2 ^ 32"
  shows "2 ^ 32 - m < random_limit m" "random_limit m \<le> 2 ^ 32"
proof -
  have "random_limit m + 2 ^ 32 mod m = 2 ^ 32"
    using div_mult_mod_eq [of "2 ^ 32 :: nat" m] by (simp add: random_limit_def)
  moreover have "(2 ^ 32 :: nat) mod m < m" using assms by simp
  ultimately show "2 ^ 32 - m < random_limit m" "random_limit m \<le> 2 ^ 32" using assms by linarith+
qed

lemma random_word_accepts:
  "unat (rnd i) < limit \<Longrightarrow> random_word rnd limit i = Some (unat (rnd i), Suc i)"
  by (simp add: random_word.simps)

lemma random_word_rejects:
  "\<not> unat (rnd i) < limit \<Longrightarrow> random_word rnd limit i = random_word rnd limit (Suc i)"
  by (subst random_word.simps) simp

text \<open>The loop returns the first acceptable word, and returns whenever there is one.\<close>

lemma random_word_first:
  assumes "i \<le> j" "unat (rnd j) < limit" "\<forall>k. i \<le> k \<and> k < j \<longrightarrow> \<not> unat (rnd k) < limit"
  shows "random_word rnd limit i = Some (unat (rnd j), Suc j)"
  using assms
proof (induction "j - i" arbitrary: i)
  case 0
  then show ?case by (simp add: random_word_accepts)
next
  case (Suc n)
  then have "i < j" by simp
  with Suc have "random_word rnd limit i = random_word rnd limit (Suc i)"
    by (intro random_word_rejects) simp
  also have "\<dots> = Some (unat (rnd j), Suc j)"
    using Suc.hyps(2) Suc.prems by (intro Suc.hyps(1)) auto
  finally show ?case .
qed

lemma random_word_total:
  assumes "\<exists>j \<ge> i. unat (rnd j) < limit"
  obtains j where "i \<le> j" "unat (rnd j) < limit" "random_word rnd limit i = Some (unat (rnd j), Suc j)"
proof -
  let ?P = "\<lambda>j. i \<le> j \<and> unat (rnd j) < limit"
  define j where "j = (LEAST j. ?P j)"
  from assms have Pj: "?P j" unfolding j_def by (metis (mono_tags, lifting) LeastI)
  moreover have "\<forall>k. i \<le> k \<and> k < j \<longrightarrow> \<not> unat (rnd k) < limit"
    unfolding j_def using not_less_Least by blast
  ultimately show ?thesis using that random_word_first by blast
qed

lemma random_word_Some:
  assumes "random_word rnd limit i = Some (v, j)"
  shows "v < limit"
proof -
  have "case vj of (v, j) \<Rightarrow> v < limit" if "random_word rnd limit i = Some vj" for vj
    by (rule random_word.raw_induct [where P = "\<lambda>rnd limit i vj. case vj of (v, j) \<Rightarrow> v < limit", OF _ that])
      (auto split: if_splits)
  with assms show ?thesis by auto
qed

lemma random_word_drawn:
  assumes "random_word rnd limit i = Some (v, j)"
  shows "\<exists>k. v = unat (rnd k)"
proof -
  have "case vj of (v, j) \<Rightarrow> \<exists>k. v = unat (rnd k)" if "random_word rnd limit i = Some vj" for vj
    by (rule random_word.raw_induct [where P = "\<lambda>rnd limit i vj. case vj of (v, j) \<Rightarrow> \<exists>k. v = unat (rnd k)", OF _ that])
      (auto split: if_splits)
  with assms show ?thesis by auto
qed

lemma randomInt_less: "randomInt rnd m i = Some (k, j) \<Longrightarrow> 0 < m \<Longrightarrow> k < m"
  by (auto simp: randomInt_def)

text \<open>
  \<open>rich rnd\<close>: however far the generator has been read, a word below \<open>2 ^ 32 - 76\<close> still
  comes.  76 is the size of the whole alphabet, the largest modulus in use.
\<close>

definition rich :: "(nat \<Rightarrow> 32 word) \<Rightarrow> bool" where
  "rich rnd \<longleftrightarrow> (\<forall>i. \<exists>j \<ge> i. unat (rnd j) < 2 ^ 32 - 76)"

lemma randomInt_total:
  assumes "rich rnd" "0 < m" "m \<le> 76"
  shows "\<exists>k j. randomInt rnd m i = Some (k, j)"
proof -
  have "2 ^ 32 - 76 < random_limit m"
    using random_limit_bounds(1) [of m] assms(2,3) by simp
  then have "\<exists>j \<ge> i. unat (rnd j) < random_limit m"
    using assms(1) unfolding rich_def by (meson order.strict_trans)
  then show ?thesis
    by (rule random_word_total) (auto simp: randomInt_def)
qed

text \<open>
  No bias: below the limit, every residue class has the same number of 32-bit values, so a
  uniform word gives a uniform result.
\<close>

lemma residue_class_card:
  assumes "r < m"
  shows "card {v. v < n * m \<and> v mod m = r} = n"
proof -
  have "{v. v < n * m \<and> v mod m = r} = (\<lambda>q. q * m + r) ` {..< n}"
  proof (intro set_eqI iffI)
    fix v assume v: "v \<in> {v. v < n * m \<and> v mod m = r}"
    then have "v = v div m * m + r" by (metis (mono_tags) div_mult_mod_eq mem_Collect_eq)
    moreover have "v div m < n" using v by (simp add: less_mult_imp_div_less)
    ultimately show "v \<in> (\<lambda>q. q * m + r) ` {..< n}" by blast
  next
    fix v assume "v \<in> (\<lambda>q. q * m + r) ` {..< n}"
    then obtain q where q: "q < n" "v = q * m + r" by auto
    have "q * m + r < Suc q * m" using assms by simp
    also have "\<dots> \<le> n * m" using q(1) by (intro mult_le_mono1) simp
    finally show "v \<in> {v. v < n * m \<and> v mod m = r}" using q(2) assms by simp
  qed
  moreover have "inj_on (\<lambda>q. q * m + r) {..< n}"
    using assms by (auto simp: inj_on_def)
  ultimately show ?thesis by (simp add: card_image)
qed

lemma random_limit_unbiased:
  "r < m \<Longrightarrow> card {v. v < random_limit m \<and> v mod m = r} = 2 ^ 32 div m"
  using residue_class_card [of r m "2 ^ 32 div m"] by (simp add: random_limit_def)

section \<open>The password\<close>

lemma alphabet_lengths:
  "length lowercase = 26" "length uppercase = 26" "length digits = 10" "length symbols = 14"
  "length all_chars = 76"
  by (simp_all add: lowercase_def uppercase_def digits_def symbols_def all_chars_def)

lemma pick_mem: "pick rnd cs i = Some (c, j) \<Longrightarrow> cs \<noteq> [] \<Longrightarrow> c \<in> set cs"
  by (auto simp: pick_def dest: randomInt_less)

lemma pick_total: "rich rnd \<Longrightarrow> cs \<noteq> [] \<Longrightarrow> length cs \<le> 76 \<Longrightarrow> \<exists>c j. pick rnd cs i = Some (c, j)"
  using randomInt_total [of rnd "length cs" i] by (auto simp: pick_def)

lemma fill_chars_ok:
  "fill_chars rnd cs i = Some (ds, j) \<Longrightarrow> length cs \<le> PASSWORD_LENGTH \<Longrightarrow>
   length ds = PASSWORD_LENGTH \<and> (\<exists>es. ds = cs @ es \<and> set es \<subseteq> set all_chars)"
proof (induction rnd cs i rule: fill_chars.induct)
  case (1 rnd cs i)
  show ?case
  proof (cases "length cs < PASSWORD_LENGTH")
    case True
    with "1.prems" obtain c k where ck: "pick rnd all_chars i = Some (c, k)"
      "fill_chars rnd (cs @ [c]) k = Some (ds, j)"
      by (auto simp: fill_chars.simps [of rnd cs i] split: option.splits)
    have "c \<in> set all_chars"
      using pick_mem [OF ck(1)] alphabet_lengths(5) by (cases "all_chars = []") auto
    moreover have "length (cs @ [c]) \<le> PASSWORD_LENGTH" using True by simp
    then have "length ds = PASSWORD_LENGTH \<and> (\<exists>es. ds = (cs @ [c]) @ es \<and> set es \<subseteq> set all_chars)"
      using "1.IH" [OF True ck(1)] ck(2) by simp
    ultimately show ?thesis by auto
  next
    case False
    with "1.prems" show ?thesis by (simp add: fill_chars.simps [of rnd cs i])
  qed
qed

lemma fill_chars_total: "rich rnd \<Longrightarrow> \<exists>ds j. fill_chars rnd cs i = Some (ds, j)"
proof (induction rnd cs i rule: fill_chars.induct)
  case (1 rnd cs i)
  have "all_chars \<noteq> []" using alphabet_lengths(5) by auto
  then obtain c k where "pick rnd all_chars i = Some (c, k)"
    using pick_total "1.prems" alphabet_lengths(5) by fastforce
  with 1 show ?case by (simp add: fill_chars.simps [of rnd cs i])
qed

lemma mset_swap_chars: "i < length cs \<Longrightarrow> j < length cs \<Longrightarrow> mset (swap_chars cs i j) = mset cs"
  by (simp add: swap_chars_def mset_swap)

lemma shuffle_mset:
  "shuffle rnd n cs i = Some (ds, j) \<Longrightarrow> n < length cs \<Longrightarrow> mset ds = mset cs"
proof (induction rnd n cs i rule: shuffle.induct)
  case (2 rnd n cs i)
  then obtain k l where kl: "randomInt rnd (Suc n + 1) i = Some (k, l)"
    "shuffle rnd n (swap_chars cs (Suc n) k) l = Some (ds, j)"
    by (auto split: option.splits)
  have k: "k < length cs" using randomInt_less [OF kl(1)] "2.prems"(2) by simp
  then have "length (swap_chars cs (Suc n) k) = length cs" by (simp add: swap_chars_def)
  with 2 kl k show ?case by (simp add: mset_swap_chars)
qed simp

lemma shuffle_total: "rich rnd \<Longrightarrow> n < 76 \<Longrightarrow> \<exists>ds j. shuffle rnd n cs i = Some (ds, j)"
proof (induction rnd n cs i rule: shuffle.induct)
  case (2 rnd n cs i)
  obtain k l where "randomInt rnd (Suc n + 1) i = Some (k, l)"
    using randomInt_total [OF "2.prems"(1), of "Suc n + 1" i] "2.prems"(2) by auto
  with 2 show ?case by simp
qed simp

lemma createPassword_parts:
  assumes "createPassword rnd i = Some (s, j)"
  obtains a b c d es where "a \<in> set lowercase" "b \<in> set uppercase" "c \<in> set digits" "d \<in> set symbols"
    "mset s = mset ([a, b, c, d] @ es)" "set es \<subseteq> set all_chars" "length s = PASSWORD_LENGTH"
proof -
  have ne: "lowercase \<noteq> []" "uppercase \<noteq> []" "digits \<noteq> []" "symbols \<noteq> []"
    using alphabet_lengths by auto
  from assms obtain a i1 where 1: "pick rnd lowercase i = Some (a, i1)"
    by (auto simp: createPassword_def split: option.splits)
  with assms obtain b i2 where 2: "pick rnd uppercase i1 = Some (b, i2)"
    by (auto simp: createPassword_def split: option.splits)
  with assms 1 obtain c i3 where 3: "pick rnd digits i2 = Some (c, i3)"
    by (auto simp: createPassword_def split: option.splits)
  with assms 1 2 obtain d i4 where 4: "pick rnd symbols i3 = Some (d, i4)"
    by (auto simp: createPassword_def split: option.splits)
  with assms 1 2 3 obtain ds i5 where 5: "fill_chars rnd [a, b, c, d] i4 = Some (ds, i5)"
    by (auto simp: createPassword_def split: option.splits)
  with assms 1 2 3 4 have 6: "shuffle rnd (length ds - 1) ds i5 = Some (s, j)"
    by (simp add: createPassword_def)
  from fill_chars_ok [OF 5] obtain es where es: "ds = [a, b, c, d] @ es" "set es \<subseteq> set all_chars"
    "length ds = PASSWORD_LENGTH" by (auto simp: PASSWORD_LENGTH_def)
  then have "mset s = mset ds" using shuffle_mset [OF 6] by (simp add: PASSWORD_LENGTH_def)
  then show ?thesis
    using that [OF pick_mem [OF 1 ne(1)] pick_mem [OF 2 ne(2)] pick_mem [OF 3 ne(3)] pick_mem [OF 4 ne(4)]]
      es mset_eq_length [of s ds] by simp
qed

lemma createPassword_total: "rich rnd \<Longrightarrow> \<exists>s j. createPassword rnd i = Some (s, j)"
proof -
  assume r: "rich rnd"
  have ne: "lowercase \<noteq> []" "uppercase \<noteq> []" "digits \<noteq> []" "symbols \<noteq> []"
    using alphabet_lengths by auto
  note p = pick_total [OF r]
  from p [OF ne(1)] alphabet_lengths obtain a i1 where 1: "pick rnd lowercase i = Some (a, i1)" by fastforce
  from p [OF ne(2)] alphabet_lengths obtain b i2 where 2: "pick rnd uppercase i1 = Some (b, i2)" by fastforce
  from p [OF ne(3)] alphabet_lengths obtain c i3 where 3: "pick rnd digits i2 = Some (c, i3)" by fastforce
  from p [OF ne(4)] alphabet_lengths obtain d i4 where 4: "pick rnd symbols i3 = Some (d, i4)" by fastforce
  from fill_chars_total [OF r] obtain ds i5 where 5: "fill_chars rnd [a, b, c, d] i4 = Some (ds, i5)" by blast
  then have "length ds - 1 < 76" using fill_chars_ok [OF 5] by (simp add: PASSWORD_LENGTH_def)
  from shuffle_total [OF r this] 1 2 3 4 5 show ?thesis by (simp add: createPassword_def)
qed


section \<open>Properties\<close>

text \<open>
  C25: \<open>randomInt\<close> has no modulo bias: of the 32-bit words, equally many make it answer each
  residue below the modulus at the first draw.
\<close>

theorem randomInt_unbiased:
  assumes "r < m" "m \<le> 2 ^ 32"
  shows "card {v. randomInt (\<lambda>_. v) m 0 = Some (r, 1)} = 2 ^ 32 div m"
proof -
  have lim: "random_limit m \<le> 2 ^ 32" using random_limit_bounds(2) [of m] assms by simp
  have hit: "randomInt (\<lambda>_. v) m 0 = Some (r, 1) \<longleftrightarrow> unat v < random_limit m \<and> unat v mod m = r"
    for v :: "32 word"
  proof (cases "unat v < random_limit m")
    case True
    then show ?thesis by (simp add: randomInt_def random_word_accepts)
  next
    case False
    then have "random_word (\<lambda>_. v) (random_limit m) 0 \<noteq> Some vj" for vj
      using random_word_Some [of "\<lambda>_. v"] random_word_drawn [of "\<lambda>_. v"] by (cases vj) fastforce
    with False show ?thesis by (auto simp: randomInt_def)
  qed
  have "card {v :: 32 word. unat v < random_limit m \<and> unat v mod m = r} =
      card (unat ` {v :: 32 word. unat v < random_limit m \<and> unat v mod m = r})"
    by (intro card_image [symmetric] inj_onI) (rule word_unat_eq_iff [THEN iffD2])
  also have "unat ` {v :: 32 word. unat v < random_limit m \<and> unat v mod m = r} =
      {v. v < random_limit m \<and> v mod m = r}"
  proof (intro set_eqI iffI)
    fix v assume v: "v \<in> {v. v < random_limit m \<and> v mod m = r}"
    then have "unat (of_nat v :: 32 word) = v" using lim by (simp add: unat_of_nat)
    with v show "v \<in> unat ` {v :: 32 word. unat v < random_limit m \<and> unat v mod m = r}"
      by (intro image_eqI [of _ _ "of_nat v"]) auto
  qed auto
  finally show ?thesis unfolding hit using random_limit_unbiased [OF assms(1)] by simp
qed

theorem randomInt_unbiased_witness:
  "card {v. randomInt (\<lambda>_. v) 26 0 = Some (5, 1)} = 165191049"
  using randomInt_unbiased [of 5 26] by simp

text \<open>
  A generated password has 24 characters, all of the four alphabets, and among them a
  lower-case letter, an upper-case letter, a digit and a symbol.
\<close>

theorem createPassword_contents:
  assumes "createPassword rnd i = Some (s, j)"
  shows "length s = 24 \<and> set s \<subseteq> set all_chars \<and> set s \<inter> set lowercase \<noteq> {} \<and>
    set s \<inter> set uppercase \<noteq> {} \<and> set s \<inter> set digits \<noteq> {} \<and> set s \<inter> set symbols \<noteq> {}"
proof -
  from assms obtain a b c d es where o: "a \<in> set lowercase" "b \<in> set uppercase" "c \<in> set digits"
    "d \<in> set symbols" "mset s = mset ([a, b, c, d] @ es)" "set es \<subseteq> set all_chars" "length s = PASSWORD_LENGTH"
    by (rule createPassword_parts)
  have "set s = {a, b, c, d} \<union> set es" using mset_eq_setD [OF o(5)] by simp
  with o show ?thesis by (auto simp: all_chars_def PASSWORD_LENGTH_def)
qed

text \<open>The generator terminates on every source that keeps giving words of the accepted range.\<close>

theorem createPassword_terminates:
  assumes "\<forall>i. \<exists>j \<ge> i. unat (rnd j) < 2 ^ 32 - 76"
  shows "\<exists>s j. createPassword rnd i = Some (s, j)"
  by (rule createPassword_total) (use assms in \<open>simp add: rich_def\<close>)

theorem createPassword_terminates_witness:
  "\<exists>s j. createPassword (\<lambda>i. of_nat (i mod 7)) 0 = Some (s, j)"
proof (rule createPassword_terminates, intro allI)
  fix i :: nat
  have "unat (of_nat (i mod 7) :: 32 word) \<le> i mod 7" by (simp add: unat_of_nat)
  also have "i mod 7 < 7" by simp
  finally have "unat (of_nat (i mod 7) :: 32 word) < 2 ^ 32 - 76" by simp
  then show "\<exists>j \<ge> i. unat (of_nat (j mod 7) :: 32 word) < 2 ^ 32 - 76" by blast
qed

theorem createPassword_contents_witness:
  "\<exists>s j. createPassword (\<lambda>_. 5) 0 = Some (s, j) \<and> length s = 24 \<and> set s \<inter> set symbols \<noteq> {}"
proof -
  have "rich (\<lambda>_. 5)" by (auto simp: rich_def)
  from createPassword_total [OF this] obtain s j where "createPassword (\<lambda>_. 5) 0 = Some (s, j)" by blast
  with createPassword_contents [OF this] show ?thesis by blast
qed

end
