(* ===== verification/Storage.thy ===== *)
theory Storage
  imports World
begin

text \<open>
  \<^verbatim>\<open>clients/nerve-extension/lib/storage.js\<close>: the promise wrappers over \<^verbatim>\<open>chrome.storage\<close>,
  the settings, and the two per-tab stores (pending logins in module memory with a time to
  live, staged fills in one object of session storage).  Both stores are proved to meet the
  same contract, the locale \<open>tab_store\<close>, from which the background's per-tab facts follow.
\<close>

section \<open>Constants\<close>

definition SETTINGS_KEYS :: "string list" where "SETTINGS_KEYS = [''serverUrl'']"
definition TOKEN_KEY :: string where "TOKEN_KEY = ''apiToken''"
definition THEME_KEY :: string where "THEME_KEY = ''theme''"
definition PASSPHRASE_KEY :: string where "PASSPHRASE_KEY = ''vaultPassphrase''"
definition STAGED_FILLS_KEY :: string where "STAGED_FILLS_KEY = ''stagedEntryFills''"
definition PENDING_SAVE_MEMORY_TTL_MS :: int where "PENDING_SAVE_MEMORY_TTL_MS = 5 * 60 * 1000"

lemmas storage_keys = TOKEN_KEY_def THEME_KEY_def PASSPHRASE_KEY_def STAGED_FILLS_KEY_def

section \<open>Storage areas\<close>

definition getArea :: "platform \<Rightarrow> area \<Rightarrow> unit result" where
  "getArea p a =
     (if has_area p a then Inr ()
      else Inl (Error (''Storage area '' @ [CHR 0x22] @
                 (case a of LocalArea \<Rightarrow> ''local'' | SessionArea \<Rightarrow> ''session'') @
                 [CHR 0x22] @ '' is not available in this browser.'')))"

definition area_of :: "area \<Rightarrow> 'a world_scheme \<Rightarrow> (string \<rightharpoonup> jsv)" where
  "area_of a w = (case a of LocalArea \<Rightarrow> local_area w | SessionArea \<Rightarrow> session_area w)"

definition set_area :: "area \<Rightarrow> (string \<rightharpoonup> jsv) \<Rightarrow> 'a world_scheme \<Rightarrow> 'a world_scheme" where
  "set_area a m w =
     (case a of LocalArea \<Rightarrow> w\<lparr>local_area := m\<rparr> | SessionArea \<Rightarrow> w\<lparr>session_area := m\<rparr>)"

text \<open>One storage operation: it counts, and it may fail with \<^verbatim>\<open>chrome.runtime.lastError\<close>.\<close>

definition storage_op :: "platform \<Rightarrow> ('a world_scheme, unit) io" where
  "storage_op p =
     bind (reads storage_ops) (\<lambda>n.
     seqc (update (\<lambda>w. w\<lparr>storage_ops := n + 1\<rparr>))
       (case storage_fault p n of None \<Rightarrow> ret () | Some m \<Rightarrow> raise (Error m)))"

text \<open>\<^verbatim>\<open>area.get(keys)\<close> answers an object with those of the keys that are stored.\<close>

definition stored_values :: "string list \<Rightarrow> (string \<rightharpoonup> jsv) \<Rightarrow> (string \<times> jsv) list" where
  "stored_values ks m =
     concat (map (\<lambda>k. case m k of None \<Rightarrow> [] | Some v \<Rightarrow> [(k, v)]) ks)"

definition storageGet :: "platform \<Rightarrow> area \<Rightarrow> string list \<Rightarrow> ('a world_scheme, jsv) io" where
  "storageGet p a ks =
     bind (lift (getArea p a)) (\<lambda>_.
     seqc (storage_op p) (reads (\<lambda>w. JObj (stored_values ks (area_of a w)))))"

definition storageSet :: "platform \<Rightarrow> area \<Rightarrow> (string \<times> jsv) list \<Rightarrow> ('a world_scheme, unit) io" where
  "storageSet p a vs =
     bind (lift (getArea p a)) (\<lambda>_.
     seqc (storage_op p) (update (\<lambda>w. set_area a (area_of a w ++ map_of (rev vs)) w)))"

definition storageRemove :: "platform \<Rightarrow> area \<Rightarrow> string \<Rightarrow> ('a world_scheme, unit) io" where
  "storageRemove p a k =
     bind (lift (getArea p a)) (\<lambda>_.
     seqc (storage_op p) (update (\<lambda>w. set_area a ((area_of a w)(k := None)) w)))"

section \<open>Settings\<close>

text \<open>\<open>theme = None\<close> where the object has no \<^verbatim>\<open>theme\<close> property of its own.\<close>

record settings =
  serverUrl :: jsv
  apiToken :: jsv
  theme :: "jsv option"

definition getSettings :: "platform \<Rightarrow> ('a world_scheme, settings) io" where
  "getSettings p =
     bind (storageGet p LocalArea SETTINGS_KEYS) (\<lambda>values.
     bind (storageGet p SessionArea [TOKEN_KEY, THEME_KEY]) (\<lambda>tokenValues.
     let apiToken = js_or (js_get_opt tokenValues TOKEN_KEY) (JStr []) in
     ret \<lparr>serverUrl = js_or (js_get_opt values ''serverUrl'') (JStr []),
          apiToken = apiToken,
          theme = Some (if truthy apiToken then js_or (js_get_opt tokenValues THEME_KEY) JNull
                        else JNull)\<rparr>))"

definition saveSettings :: "platform \<Rightarrow> settings \<Rightarrow> ('a world_scheme, unit) io" where
  "saveSettings p st =
     bind (lift (trim_or_empty (serverUrl st))) (\<lambda>url.
     seqc (storageSet p LocalArea [(''serverUrl'', JStr url)])
     (bind (lift (trim_or_empty (apiToken st))) (\<lambda>token.
     let sessionValues =
           (TOKEN_KEY, JStr token) #
           (case theme st of None \<Rightarrow> [] | Some th \<Rightarrow> [(THEME_KEY, js_or th JNull)]) in
     seqc (storageSet p SessionArea sessionValues)
       (if token = [] then storageRemove p SessionArea THEME_KEY else ret ()))))"

definition clearSessionPassphrase :: "platform \<Rightarrow> ('a world_scheme, unit) io" where
  "clearSessionPassphrase p = storageRemove p SessionArea PASSPHRASE_KEY"

section \<open>Pending logins: module memory with a time to live\<close>

definition pendingSaveKey :: "jsv \<Rightarrow> string option" where
  "pendingSaveKey tabId = (if truthy tabId then Some (to_str tabId) else None)"

definition pendingSaveExpired :: "int \<Rightarrow> jsv \<Rightarrow> bool" where
  "pendingSaveExpired now v \<longleftrightarrow>
     \<not> truthy (js_get_opt v ''recordedAt'')
     \<or> older_than now (js_get_opt v ''recordedAt'') PENDING_SAVE_MEMORY_TTL_MS"

definition getPendingSave :: "jsv \<Rightarrow> ('a world_scheme, jsv) io" where
  "getPendingSave tabId =
     (case pendingSaveKey tabId of
        None \<Rightarrow> ret JNull
      | Some key \<Rightarrow>
          bind (reads (\<lambda>w. case pendingLoginSaves w key of None \<Rightarrow> JNull | Some v \<Rightarrow> js_or v JNull)) (\<lambda>value.
          bind (reads clock) (\<lambda>now.
          if pendingSaveExpired now value then
            seqc (update (\<lambda>w. w\<lparr>pendingLoginSaves := (pendingLoginSaves w)(key := None)\<rparr>)) (ret JNull)
          else ret value)))"

definition setPendingSave :: "jsv \<Rightarrow> jsv \<Rightarrow> ('a world_scheme, unit) io" where
  "setPendingSave tabId value =
     (case pendingSaveKey tabId of
        None \<Rightarrow> ret ()
      | Some key \<Rightarrow> update (\<lambda>w. w\<lparr>pendingLoginSaves := (pendingLoginSaves w)(key \<mapsto> value)\<rparr>))"

definition clearPendingSave :: "jsv \<Rightarrow> ('a world_scheme, unit) io" where
  "clearPendingSave tabId =
     (case pendingSaveKey tabId of
        None \<Rightarrow> ret ()
      | Some key \<Rightarrow> update (\<lambda>w. w\<lparr>pendingLoginSaves := (pendingLoginSaves w)(key := None)\<rparr>))"

section \<open>Staged fills: one object in session storage\<close>

definition sessionMapValues :: "platform \<Rightarrow> string \<Rightarrow> ('a world_scheme, jsv) io" where
  "sessionMapValues p storageKey =
     bind (storageGet p SessionArea [storageKey]) (\<lambda>values.
     ret (js_or (js_get_opt values storageKey) (JObj [])))"

definition getSessionMapEntry :: "platform \<Rightarrow> string \<Rightarrow> jsv \<Rightarrow> ('a world_scheme, jsv) io" where
  "getSessionMapEntry p storageKey entryKey =
     (if \<not> truthy entryKey then ret JNull
      else bind (sessionMapValues p storageKey) (\<lambda>values.
           ret (js_or (js_get_opt values (to_str entryKey)) JNull)))"

text \<open>
  \<^verbatim>\<open>values[k] = v\<close> and \<^verbatim>\<open>delete values[k]\<close> on what was read from storage.  In module code
  the assignment throws on a primitive, and the deletion leaves it alone.  (The program
  stores objects there only; arrays are not modelled.)
\<close>

fun js_set :: "jsv \<Rightarrow> string \<Rightarrow> jsv \<Rightarrow> jsv result" where
  "js_set (JObj ps) k v = Inr (JObj (obj_set k v ps))"
| "js_set _ k v = Inl TypeError"

fun js_delete :: "jsv \<Rightarrow> string \<Rightarrow> jsv result" where
  "js_delete (JObj ps) k = Inr (JObj (obj_del k ps))"
| "js_delete v k = Inr v"

definition setSessionMapEntry :: "platform \<Rightarrow> string \<Rightarrow> jsv \<Rightarrow> jsv \<Rightarrow> ('a world_scheme, unit) io" where
  "setSessionMapEntry p storageKey entryKey value =
     (if \<not> truthy entryKey then ret ()
      else bind (sessionMapValues p storageKey) (\<lambda>values.
           bind (lift (js_set values (to_str entryKey) value)) (\<lambda>values'.
           storageSet p SessionArea [(storageKey, values')])))"

definition clearSessionMapEntry :: "platform \<Rightarrow> string \<Rightarrow> jsv \<Rightarrow> ('a world_scheme, unit) io" where
  "clearSessionMapEntry p storageKey entryKey =
     (if \<not> truthy entryKey then ret ()
      else bind (sessionMapValues p storageKey) (\<lambda>values.
           bind (lift (js_delete values (to_str entryKey))) (\<lambda>values'.
           storageSet p SessionArea [(storageKey, values')])))"

definition getStagedFill :: "platform \<Rightarrow> jsv \<Rightarrow> ('a world_scheme, jsv) io" where
  "getStagedFill p tabId = getSessionMapEntry p STAGED_FILLS_KEY tabId"

definition setStagedFill :: "platform \<Rightarrow> jsv \<Rightarrow> jsv \<Rightarrow> ('a world_scheme, unit) io" where
  "setStagedFill p tabId value = setSessionMapEntry p STAGED_FILLS_KEY tabId value"

definition clearStagedFill :: "platform \<Rightarrow> jsv \<Rightarrow> ('a world_scheme, unit) io" where
  "clearStagedFill p tabId = clearSessionMapEntry p STAGED_FILLS_KEY tabId"

section \<open>The contract of a per-tab store\<close>

text \<open>
  What the background relies on, for pending logins and for staged fills alike.  \<open>live s k\<close>
  is the value a read of key \<open>k\<close> would answer in state \<open>s\<close>; \<open>fresh s x\<close> says that \<open>x\<close> is a
  value the store will still answer when it is read at once.  A failed operation leaves the
  live values alone, and a missing tab id reads as null and writes nothing.
\<close>

locale tab_store =
  fixes live :: "'s \<Rightarrow> string \<rightharpoonup> jsv"
    and fetchv :: "jsv \<Rightarrow> ('s, jsv) io"
    and store :: "jsv \<Rightarrow> jsv \<Rightarrow> ('s, unit) io"
    and discard :: "jsv \<Rightarrow> ('s, unit) io"
    and fresh :: "'s \<Rightarrow> jsv \<Rightarrow> bool"
  assumes fetch_value: "truthy k \<Longrightarrow> fetchv k s = (Inr v, t) \<Longrightarrow>
      v = (case live s (to_str k) of None \<Rightarrow> JNull | Some x \<Rightarrow> x)"
    and fetch_frame: "fetchv k s = (r, t) \<Longrightarrow> live t = live s"
    and store_value: "truthy k \<Longrightarrow> fresh s x \<Longrightarrow> store k x s = (Inr (), t) \<Longrightarrow>
      live t = (live s)(to_str k \<mapsto> x)"
    and store_frame: "store k x s = (r', t) \<Longrightarrow> j \<noteq> to_str k \<Longrightarrow> live t j = live s j"
    and store_failed: "store k x s = (Inl e, t) \<Longrightarrow> live t = live s"
    and discard_value: "truthy k \<Longrightarrow> discard k s = (Inr (), t) \<Longrightarrow> live t = (live s)(to_str k := None)"
    and discard_failed: "discard k s = (Inl e, t) \<Longrightarrow> live t = live s"
    and no_tab: "\<not> truthy k \<Longrightarrow>
      fetchv k s = (Inr JNull, s) \<and> store k x s = (Inr (), s) \<and> discard k s = (Inr (), s)"
begin

lemma store_then_fetch:
  "truthy k \<Longrightarrow> fresh s x \<Longrightarrow> store k x s = (Inr (), t) \<Longrightarrow> fetchv k t = (Inr v, u) \<Longrightarrow> v = x"
  using fetch_value [of k t v u] store_value [of k s x t] by simp

lemma discard_then_fetch:
  "truthy k \<Longrightarrow> discard k s = (Inr (), t) \<Longrightarrow> fetchv k t = (Inr v, u) \<Longrightarrow> v = JNull"
  using fetch_value [of k t v u] discard_value [of k s t] by simp

lemma discard_frame: "discard k s = (r, t) \<Longrightarrow> j \<noteq> to_str k \<Longrightarrow> live t j = live s j"
proof (cases "truthy k"; cases r)
  fix u assume "truthy k" "discard k s = (r, t)" "j \<noteq> to_str k" "r = Inr u"
  then show "live t j = live s j" using discard_value [of k s t] by simp
qed (use discard_failed [of k s _ t] no_tab [of k s] in auto)

end

text \<open>A sequence of operations, each of which may fail, by any number of tabs.\<close>

datatype tab_op = FetchOp jsv | StoreOp jsv jsv | DiscardOp jsv

fun op_tab :: "tab_op \<Rightarrow> jsv" where
  "op_tab (FetchOp k) = k"
| "op_tab (StoreOp k x) = k"
| "op_tab (DiscardOp k) = k"

fun run_tab_op ::
  "(jsv \<Rightarrow> ('s, jsv) io) \<Rightarrow> (jsv \<Rightarrow> jsv \<Rightarrow> ('s, unit) io) \<Rightarrow> (jsv \<Rightarrow> ('s, unit) io) \<Rightarrow> tab_op \<Rightarrow> 's \<Rightarrow> 's" where
  "run_tab_op f g d (FetchOp k) s = snd (f k s)"
| "run_tab_op f g d (StoreOp k x) s = snd (g k x s)"
| "run_tab_op f g d (DiscardOp k) s = snd (d k s)"

definition run_tab_ops ::
  "(jsv \<Rightarrow> ('s, jsv) io) \<Rightarrow> (jsv \<Rightarrow> jsv \<Rightarrow> ('s, unit) io) \<Rightarrow> (jsv \<Rightarrow> ('s, unit) io) \<Rightarrow> tab_op list \<Rightarrow> 's \<Rightarrow> 's" where
  "run_tab_ops f g d ops s = foldl (\<lambda>t oper. run_tab_op f g d oper t) s ops"

context tab_store
begin

lemma run_op_frame:
  "j \<noteq> to_str (op_tab oper) \<Longrightarrow> live (run_tab_op fetchv store discard oper s) j = live s j"
proof (cases oper)
  case (FetchOp k)
  then show ?thesis using fetch_frame [of k s "fst (fetchv k s)" "snd (fetchv k s)"] by simp
next
  case (StoreOp k x)
  then show "j \<noteq> to_str (op_tab oper) \<Longrightarrow> ?thesis"
    using store_frame [of k x s "fst (store k x s)" "snd (store k x s)" j] by simp
next
  case (DiscardOp k)
  then show "j \<noteq> to_str (op_tab oper) \<Longrightarrow> ?thesis"
    using discard_frame [of k s "fst (discard k s)" "snd (discard k s)" j] by simp
qed

lemma run_ops_frame:
  "\<forall>oper \<in> set ops. to_str (op_tab oper) \<noteq> j \<Longrightarrow>
   live (run_tab_ops fetchv store discard ops s) j = live s j"
  unfolding run_tab_ops_def
proof (induction ops arbitrary: s)
  case (Cons oper ops)
  then have "j \<noteq> to_str (op_tab oper)" by auto
  with Cons show ?case using run_op_frame [of j oper s] by simp
qed simp

end

section \<open>Both stores meet it\<close>

definition pending_live :: "'a world_scheme \<Rightarrow> string \<rightharpoonup> jsv" where
  "pending_live w k =
     (case pendingLoginSaves w k of
        None \<Rightarrow> None
      | Some v \<Rightarrow> if pendingSaveExpired (clock w) v then None else Some v)"

definition pending_fresh :: "'a world_scheme \<Rightarrow> jsv \<Rightarrow> bool" where
  "pending_fresh w v \<longleftrightarrow> \<not> pendingSaveExpired (clock w) v"

lemma expired_falsy: "\<not> truthy v \<Longrightarrow> pendingSaveExpired now v"
  by (cases v) (simp_all add: pendingSaveExpired_def)

lemma expired_or_null: "pendingSaveExpired now (js_or v JNull) \<longleftrightarrow> pendingSaveExpired now v"
  using expired_falsy [of v now] expired_falsy [of JNull now] by (simp add: js_or_def)

lemma getPendingSave_run:
  "getPendingSave k w =
     (if \<not> truthy k then (Inr JNull, w)
      else case pending_live w (to_str k) of
             Some v \<Rightarrow> (Inr v, w)
           | None \<Rightarrow> (Inr JNull, w\<lparr>pendingLoginSaves := (pendingLoginSaves w)(to_str k := None)\<rparr>))"
proof (cases "pendingLoginSaves w (to_str k)")
  case None
  then show ?thesis
    by (simp add: getPendingSave_def pendingSaveKey_def pending_live_def run_simps expired_falsy)
next
  case (Some v)
  then show ?thesis
    using expired_falsy [of v "clock w"] expired_falsy [of JNull "clock w"]
    by (auto simp: getPendingSave_def pendingSaveKey_def pending_live_def run_simps expired_or_null js_or_def)
qed

lemma pending_live_del:
  "pending_live (w\<lparr>pendingLoginSaves := (pendingLoginSaves w)(k := None)\<rparr>) = (pending_live w)(k := None)"
  by (rule ext) (simp add: pending_live_def split: option.split)

lemma pending_live_set:
  "pending_live (w\<lparr>pendingLoginSaves := (pendingLoginSaves w)(k \<mapsto> v)\<rparr>) =
     (pending_live w)(k := (if pendingSaveExpired (clock w) v then None else Some v))"
  by (rule ext) (simp add: pending_live_def split: option.split)

lemma setPendingSave_run:
  "setPendingSave k x w =
     (Inr (), if truthy k then w\<lparr>pendingLoginSaves := (pendingLoginSaves w)(to_str k \<mapsto> x)\<rparr> else w)"
  by (simp add: setPendingSave_def pendingSaveKey_def run_simps)

lemma clearPendingSave_run:
  "clearPendingSave k w =
     (Inr (), if truthy k then w\<lparr>pendingLoginSaves := (pendingLoginSaves w)(to_str k := None)\<rparr> else w)"
  by (simp add: clearPendingSave_def pendingSaveKey_def run_simps)

lemmas pending_run = getPendingSave_run setPendingSave_run clearPendingSave_run

interpretation pending: tab_store pending_live getPendingSave setPendingSave clearPendingSave pending_fresh
proof unfold_locales
  fix k :: jsv and s t :: "'a world_scheme" and v
  show "truthy k \<Longrightarrow> getPendingSave k s = (Inr v, t) \<Longrightarrow>
      v = (case pending_live s (to_str k) of None \<Rightarrow> JNull | Some x \<Rightarrow> x)"
    by (auto simp: getPendingSave_run split: option.splits)
next
  fix k :: jsv and s t :: "'a world_scheme" and r
  show "getPendingSave k s = (r, t) \<Longrightarrow> pending_live t = pending_live s"
    by (auto simp: getPendingSave_run pending_live_del split: if_splits option.splits)
qed (auto simp: setPendingSave_run clearPendingSave_run pending_fresh_def pending_live_set pending_live_del
      getPendingSave_run split: if_splits)

text \<open>Running one storage operation: refused, failed (counted), or done (counted).\<close>

definition op_outcome :: "platform \<Rightarrow> area \<Rightarrow> 'a world_scheme \<Rightarrow> unit result \<times> 'a world_scheme" where
  "op_outcome p a w =
     (case getArea p a of
        Inl e \<Rightarrow> (Inl e, w)
      | Inr _ \<Rightarrow>
          (case storage_fault p (storage_ops w) of
             None \<Rightarrow> (Inr (), w\<lparr>storage_ops := storage_ops w + 1\<rparr>)
           | Some m \<Rightarrow> (Inl (Error m), w\<lparr>storage_ops := storage_ops w + 1\<rparr>)))"

lemma op_outcome_state:
  "op_outcome p a w = (r, t) \<Longrightarrow> t = w \<or> t = w\<lparr>storage_ops := storage_ops w + 1\<rparr>"
  by (auto simp: op_outcome_def split: sum.splits option.splits)

lemma op_outcome_areas:
  "op_outcome p a w = (r, t) \<Longrightarrow>
   local_area t = local_area w \<and> session_area t = session_area w \<and> clock t = clock w \<and>
   pendingLoginSaves t = pendingLoginSaves w \<and> net_log t = net_log w \<and> random_used t = random_used w"
  by (drule op_outcome_state) auto

lemma storageGet_run:
  "storageGet p a ks w =
     (case op_outcome p a w of
        (Inl e, t) \<Rightarrow> (Inl e, t)
      | (Inr _, t) \<Rightarrow> (Inr (JObj (stored_values ks (area_of a w))), t))"
  by (auto simp: storageGet_def storage_op_def op_outcome_def run_simps area_of_def
      split: sum.split option.split area.split)

lemma storageSet_run:
  "storageSet p a vs w =
     (case op_outcome p a w of
        (Inl e, t) \<Rightarrow> (Inl e, t)
      | (Inr _, t) \<Rightarrow> (Inr (), set_area a (area_of a w ++ map_of (rev vs)) t))"
  by (auto simp: storageSet_def storage_op_def op_outcome_def run_simps area_of_def
      split: sum.split option.split area.split)

lemma storageRemove_run:
  "storageRemove p a k w =
     (case op_outcome p a w of
        (Inl e, t) \<Rightarrow> (Inl e, t)
      | (Inr _, t) \<Rightarrow> (Inr (), set_area a ((area_of a w)(k := None)) t))"
  by (auto simp: storageRemove_def storage_op_def op_outcome_def run_simps area_of_def
      split: sum.split option.split area.split)

lemmas storage_run = storageGet_run storageSet_run storageRemove_run

definition stored_map :: "'a world_scheme \<Rightarrow> jsv" where
  "stored_map w = (case session_area w STAGED_FILLS_KEY of None \<Rightarrow> JUndef | Some v \<Rightarrow> v)"

definition staged_live :: "'a world_scheme \<Rightarrow> string \<rightharpoonup> jsv" where
  "staged_live w k = (let v = js_get_opt (stored_map w) k in if truthy v then Some v else None)"

definition staged_fresh :: "'a world_scheme \<Rightarrow> jsv \<Rightarrow> bool" where
  "staged_fresh w v \<longleftrightarrow> truthy v"

lemma staged_live_cong: "session_area t = session_area w \<Longrightarrow> staged_live t = staged_live w"
  by (rule ext) (simp add: staged_live_def stored_map_def)

lemma js_get_opt_falsy: "\<not> truthy v \<Longrightarrow> js_get_opt v k = JUndef"
  by (cases v) simp_all

lemma js_get_opt_or_empty: "js_get_opt (js_or v (JObj [])) k = js_get_opt v k"
  by (simp add: js_or_def js_get_opt_falsy)

lemma sessionMapValues_run:
  "sessionMapValues p STAGED_FILLS_KEY w =
     (case op_outcome p SessionArea w of
        (Inl e, t) \<Rightarrow> (Inl e, t)
      | (Inr _, t) \<Rightarrow> (Inr (js_or (stored_map w) (JObj [])), t))"
  by (auto simp: sessionMapValues_def run_simps storageGet_run stored_values_def area_of_def
      stored_map_def split: prod.split sum.split option.split)

lemma getStagedFill_run:
  "getStagedFill p k w =
     (if \<not> truthy k then (Inr JNull, w)
      else case op_outcome p SessionArea w of
             (Inl e, t) \<Rightarrow> (Inl e, t)
           | (Inr _, t) \<Rightarrow> (Inr (case staged_live w (to_str k) of None \<Rightarrow> JNull | Some v \<Rightarrow> v), t))"
  by (auto simp: getStagedFill_def getSessionMapEntry_def run_simps sessionMapValues_run
      js_get_opt_or_empty staged_live_def js_or_def js_get_opt_falsy Let_def
      split: prod.split sum.split)

lemma staged_live_set:
  "session_area t = (session_area w)(STAGED_FILLS_KEY \<mapsto> v) \<Longrightarrow>
   staged_live t k = (if truthy (js_get_opt v k) then Some (js_get_opt v k) else None)"
  by (simp add: staged_live_def stored_map_def)

lemma js_set_get:
  "js_set (js_or v (JObj [])) k x = Inr v' \<Longrightarrow>
   js_get_opt v' j = (if j = k then x else js_get_opt v j)"
  by (cases v) (auto simp: js_or_def split: if_splits)

lemma js_delete_get:
  "js_delete (js_or v (JObj [])) k = Inr v' \<Longrightarrow>
   js_get_opt v' j = (if j = k then JUndef else js_get_opt v j)"
  by (cases v) (auto simp: js_or_def split: if_splits)

text \<open>A write-back of the whole map either fails, leaving the live values, or replaces it.\<close>

lemma write_back:
  assumes "bind (sessionMapValues p STAGED_FILLS_KEY) (\<lambda>values.
      bind (lift (f values)) (\<lambda>values'. storageSet p SessionArea [(STAGED_FILLS_KEY, values')])) w = (r, t)"
  shows "(\<exists>e. r = Inl e) \<and> staged_live t = staged_live w \<or>
    r = Inr () \<and> (\<exists>v'. f (js_or (stored_map w) (JObj [])) = Inr v' \<and>
      session_area t = (session_area w)(STAGED_FILLS_KEY \<mapsto> v'))"
proof -
  obtain r1 t1 where o1: "op_outcome p SessionArea w = (r1, t1)" by (cases "op_outcome p SessionArea w")
  note a1 = op_outcome_areas [OF o1]
  show ?thesis
  proof (cases r1)
    case (Inl e)
    with assms o1 a1 show ?thesis
      by (simp add: run_simps sessionMapValues_run) (metis staged_live_cong)
  next
    case (Inr u)
    show ?thesis
    proof (cases "f (js_or (stored_map w) (JObj []))")
      case (Inl e)
      with Inr assms o1 a1 show ?thesis
        by (simp add: run_simps sessionMapValues_run) (metis staged_live_cong)
    next
      case (Inr v')
      obtain r2 t2 where o2: "op_outcome p SessionArea t1 = (r2, t2)" by (cases "op_outcome p SessionArea t1")
      note a2 = op_outcome_areas [OF o2]
      from Inr \<open>r1 = Inr u\<close> assms o1 o2 a1 a2 show ?thesis
        by (cases r2)
          (auto simp: run_simps sessionMapValues_run storageSet_run area_of_def set_area_def
            map_add_upd intro!: staged_live_cong)
    qed
  qed
qed

lemma staged_live_updated:
  assumes "session_area t = (session_area w)(STAGED_FILLS_KEY \<mapsto> v')"
    and "\<And>j. js_get_opt v' j = (if j = k then y else js_get_opt (stored_map w) j)"
  shows "staged_live t = (staged_live w)(k := (if truthy y then Some y else None))"
  by (rule ext) (simp add: staged_live_set [OF assms(1)] assms(2) staged_live_def [of w] Let_def)

lemma setStagedFill_cases:
  assumes "setStagedFill p k x w = (r, t)" "truthy k"
  shows "(\<exists>e. r = Inl e) \<and> staged_live t = staged_live w \<or>
    r = Inr () \<and> staged_live t = (staged_live w)(to_str k := (if truthy x then Some x else None))"
proof -
  from assms have "bind (sessionMapValues p STAGED_FILLS_KEY) (\<lambda>values.
      bind (lift (js_set values (to_str k) x)) (\<lambda>values'.
      storageSet p SessionArea [(STAGED_FILLS_KEY, values')])) w = (r, t)"
    by (simp add: setStagedFill_def setSessionMapEntry_def)
  from write_back [OF this] show ?thesis
    by (elim disjE conjE exE) (simp_all add: staged_live_updated js_set_get)
qed

lemma clearStagedFill_cases:
  assumes "clearStagedFill p k w = (r, t)" "truthy k"
  shows "(\<exists>e. r = Inl e) \<and> staged_live t = staged_live w \<or>
    r = Inr () \<and> staged_live t = (staged_live w)(to_str k := None)"
proof -
  from assms have "bind (sessionMapValues p STAGED_FILLS_KEY) (\<lambda>values.
      bind (lift (js_delete values (to_str k))) (\<lambda>values'.
      storageSet p SessionArea [(STAGED_FILLS_KEY, values')])) w = (r, t)"
    by (simp add: clearStagedFill_def clearSessionMapEntry_def)
  from write_back [OF this] show ?thesis
    by (elim disjE conjE exE) (simp_all add: staged_live_updated [where y = JUndef] js_delete_get)
qed

lemma staged_no_tab:
  "\<not> truthy k \<Longrightarrow> getStagedFill p k w = (Inr JNull, w) \<and> setStagedFill p k x w = (Inr (), w) \<and>
     clearStagedFill p k w = (Inr (), w)"
  by (simp add: getStagedFill_def getSessionMapEntry_def setStagedFill_def setSessionMapEntry_def
      clearStagedFill_def clearSessionMapEntry_def run_simps)

interpretation staged: tab_store staged_live "getStagedFill p" "setStagedFill p" "clearStagedFill p" staged_fresh
  for p
proof unfold_locales
  fix k :: jsv and s t :: "'a world_scheme" and v
  show "truthy k \<Longrightarrow> getStagedFill p k s = (Inr v, t) \<Longrightarrow>
      v = (case staged_live s (to_str k) of None \<Rightarrow> JNull | Some x \<Rightarrow> x)"
    by (auto simp: getStagedFill_run split: prod.splits sum.splits)
next
  fix k :: jsv and s t :: "'a world_scheme" and r
  assume "getStagedFill p k s = (r, t)"
  then have "session_area t = session_area s"
    using op_outcome_areas by (auto simp: getStagedFill_run split: prod.splits sum.splits if_splits) blast+
  then show "staged_live t = staged_live s" by (rule staged_live_cong)
next
  fix k x :: jsv and s t :: "'a world_scheme"
  show "truthy k \<Longrightarrow> staged_fresh s x \<Longrightarrow> setStagedFill p k x s = (Inr (), t) \<Longrightarrow>
      staged_live t = (staged_live s)(to_str k \<mapsto> x)"
    using setStagedFill_cases [of p k x s "Inr ()" t] by (simp add: staged_fresh_def)
next
  fix k x :: jsv and s t :: "'a world_scheme" and r j
  show "setStagedFill p k x s = (r, t) \<Longrightarrow> j \<noteq> to_str k \<Longrightarrow> staged_live t j = staged_live s j"
    using setStagedFill_cases [of p k x s r t] staged_no_tab [of k p s x] by (cases "truthy k") auto
next
  fix k x :: jsv and s t :: "'a world_scheme" and e
  show "setStagedFill p k x s = (Inl e, t) \<Longrightarrow> staged_live t = staged_live s"
    using setStagedFill_cases [of p k x s "Inl e" t] staged_no_tab [of k p s x] by (cases "truthy k") auto
next
  fix k :: jsv and s t :: "'a world_scheme"
  show "truthy k \<Longrightarrow> clearStagedFill p k s = (Inr (), t) \<Longrightarrow>
      staged_live t = (staged_live s)(to_str k := None)"
    using clearStagedFill_cases [of p k s "Inr ()" t] by simp
next
  fix k :: jsv and s t :: "'a world_scheme" and e
  show "clearStagedFill p k s = (Inl e, t) \<Longrightarrow> staged_live t = staged_live s"
    using clearStagedFill_cases [of p k s "Inl e" t] staged_no_tab [of k p s] by (cases "truthy k") auto
qed (rule staged_no_tab)

section \<open>Settings: what is stored where\<close>

lemma saveSettings_areas:
  assumes "saveSettings p st w = (Inr (), t)"
  obtains url token where "trim_or_empty (serverUrl st) = Inr url" "trim_or_empty (apiToken st) = Inr token"
    "local_area t = (local_area w)(''serverUrl'' \<mapsto> JStr url)"
    "session_area t TOKEN_KEY = Some (JStr token)"
    "session_area t THEME_KEY =
       (if token = [] then None
        else case theme st of None \<Rightarrow> session_area w THEME_KEY | Some th \<Rightarrow> Some (js_or th JNull))"
    "\<And>k. k \<noteq> TOKEN_KEY \<Longrightarrow> k \<noteq> THEME_KEY \<Longrightarrow> session_area t k = session_area w k"
proof -
  have keys: "TOKEN_KEY \<noteq> THEME_KEY" by (simp add: TOKEN_KEY_def THEME_KEY_def)
  from assms obtain url where url: "trim_or_empty (serverUrl st) = Inr url"
    by (auto simp: saveSettings_def bind_eq_Inr lift_run)
  with assms obtain w1 where w1: "storageSet p LocalArea [(''serverUrl'', JStr url)] w = (Inr (), w1)"
    by (auto simp: saveSettings_def bind_eq_Inr seqc_eq_Inr lift_run)
  from assms url w1 obtain token where token: "trim_or_empty (apiToken st) = Inr token"
    by (auto simp: saveSettings_def bind_eq_Inr seqc_eq_Inr lift_run)
  define vs where "vs = (TOKEN_KEY, JStr token) #
      (case theme st of None \<Rightarrow> [] | Some th \<Rightarrow> [(THEME_KEY, js_or th JNull)])"
  from assms url w1 token obtain w2 where w2: "storageSet p SessionArea vs w1 = (Inr (), w2)"
    and last: "(if token = [] then storageRemove p SessionArea THEME_KEY else ret ()) w2 = (Inr (), t)"
    by (auto simp: saveSettings_def bind_eq_Inr seqc_eq_Inr lift_run Let_def vs_def)
  have 1: "local_area w1 = (local_area w)(''serverUrl'' \<mapsto> JStr url)" "session_area w1 = session_area w"
    using w1 op_outcome_areas by (fastforce simp: storageSet_run set_area_def area_of_def split: prod.splits sum.splits)+
  have 2: "local_area w2 = local_area w1" "session_area w2 = session_area w1 ++ map_of (rev vs)"
    using w2 op_outcome_areas by (fastforce simp: storageSet_run set_area_def area_of_def split: prod.splits sum.splits)+
  have 3: "local_area t = local_area w2"
    "session_area t = (if token = [] then (session_area w2)(THEME_KEY := None) else session_area w2)"
    using last op_outcome_areas
    by (fastforce simp: storageRemove_run ret_run set_area_def area_of_def split: prod.splits sum.splits if_splits)+
  show thesis
    by (rule that [OF url token]) (use 1 2 3 keys in \<open>auto simp: vs_def split: option.split\<close>)
qed

lemma getSettings_ok:
  assumes "getSettings p w = (Inr st, t)"
  shows "local_area t = local_area w \<and> session_area t = session_area w \<and>
    serverUrl st = js_or (case local_area w ''serverUrl'' of None \<Rightarrow> JUndef | Some v \<Rightarrow> v) (JStr []) \<and>
    apiToken st = js_or (case session_area w TOKEN_KEY of None \<Rightarrow> JUndef | Some v \<Rightarrow> v) (JStr []) \<and>
    theme st = Some (if truthy (apiToken st)
      then js_or (case session_area w THEME_KEY of None \<Rightarrow> JUndef | Some v \<Rightarrow> v) JNull else JNull)"
proof -
  have keys: "TOKEN_KEY \<noteq> THEME_KEY" by (simp add: TOKEN_KEY_def THEME_KEY_def)
  obtain r1 w1 where o1: "op_outcome p LocalArea w = (r1, w1)" by (cases "op_outcome p LocalArea w")
  obtain r2 w2 where o2: "op_outcome p SessionArea w1 = (r2, w2)" by (cases "op_outcome p SessionArea w1")
  from assms o1 o2 have "r1 = Inr ()" "r2 = Inr ()" "t = w2"
    by (auto simp: getSettings_def run_simps storageGet_run Let_def split: sum.splits)
  with assms o1 o2 op_outcome_areas [OF o1] op_outcome_areas [OF o2] keys show ?thesis
    by (auto simp: getSettings_def run_simps storageGet_run Let_def SETTINGS_KEYS_def stored_values_def
        area_of_def split: option.splits)
qed

section \<open>Properties\<close>

text \<open>
  Saving the settings and reading them back yields the trimmed server URL and token, and
  the theme only while there is a token; the token is written to session storage, and the
  only key of local storage that changes is the server URL.
\<close>

theorem settings_roundtrip:
  assumes "saveSettings p st w = (Inr (), t)" "getSettings p t = (Inr st', u)"
  shows "\<exists>url token. trim_or_empty (serverUrl st) = Inr url \<and> trim_or_empty (apiToken st) = Inr token \<and>
    serverUrl st' = JStr url \<and> apiToken st' = JStr token \<and>
    (token = [] \<longrightarrow> theme st' = Some JNull \<and> session_area t THEME_KEY = None) \<and>
    (\<forall>th. token \<noteq> [] \<and> theme st = Some th \<longrightarrow> theme st' = Some (js_or th JNull)) \<and>
    local_area t = (local_area w)(''serverUrl'' \<mapsto> JStr url)"
proof -
  from assms(1) obtain url token where o: "trim_or_empty (serverUrl st) = Inr url" "trim_or_empty (apiToken st) = Inr token"
    "local_area t = (local_area w)(''serverUrl'' \<mapsto> JStr url)" "session_area t TOKEN_KEY = Some (JStr token)"
    "session_area t THEME_KEY = (if token = [] then None
        else case theme st of None \<Rightarrow> session_area w THEME_KEY | Some th \<Rightarrow> Some (js_or th JNull))"
    by (rule saveSettings_areas)
  have "js_or (js_or th JNull) JNull = js_or th JNull" for th by (simp add: js_or_def)
  with o getSettings_ok [OF assms(2)] show ?thesis by (auto simp: js_or_def)
qed

definition sample_settings :: settings where
  "sample_settings = \<lparr>serverUrl = JStr '' https://vault.example/ '', apiToken = JStr ''tok '', theme = Some (JStr ''dark'')\<rparr>"

theorem settings_roundtrip_witness:
  "\<exists>t u st'. saveSettings (sample_platform JNull) sample_settings sample_world = (Inr (), t) \<and>
     getSettings (sample_platform JNull) t = (Inr st', u) \<and> apiToken st' = JStr ''tok'' \<and>
     local_area t = (local_area sample_world)(''serverUrl'' \<mapsto> JStr ''https://vault.example/'')"
proof -
  let ?r = "saveSettings (sample_platform JNull) sample_settings sample_world"
  let ?q = "getSettings (sample_platform JNull) (snd ?r)"
  have a: "?r = (Inr (), snd ?r)" by (rule is_ok_unit) code_simp
  have b: "?q = (Inr (projr (fst ?q)), snd ?q)" by (rule is_ok_run) code_simp
  have c: "trim_or_empty (serverUrl sample_settings) = Inr ''https://vault.example/''"
    "trim_or_empty (apiToken sample_settings) = Inr ''tok''" by code_simp+
  from settings_roundtrip [OF a b] c show ?thesis using a b by (intro exI conjI) auto
qed

text \<open>
  A pending login is answered only within five minutes of its recording, and a read that
  does not answer it leaves nothing of it in memory.
\<close>

theorem pending_save_ttl:
  assumes "truthy tabId" "getPendingSave tabId w = (r, t)"
  shows "r = Inr JNull \<and> pendingLoginSaves t = (pendingLoginSaves w)(to_str tabId := None) \<or>
    (\<exists>v. r = Inr v \<and> t = w \<and> pendingLoginSaves w (to_str tabId) = Some v \<and>
       truthy (js_get_opt v ''recordedAt'') \<and>
       \<not> older_than (clock w) (js_get_opt v ''recordedAt'') (5 * 60 * 1000))"
  using assms
  by (auto simp: getPendingSave_run pending_live_def pendingSaveExpired_def PENDING_SAVE_MEMORY_TTL_MS_def
      split: option.splits if_splits)

theorem pending_save_ttl_witness:
  "\<exists>r t. getPendingSave (JNum 7) (sample_world\<lparr>pendingLoginSaves :=
      (\<lambda>_. None)(''7'' \<mapsto> JObj [(''recordedAt'', JNum 1)]), clock := 300002\<rparr>) = (r, t) \<and> r = Inr JNull \<and>
     pendingLoginSaves t ''7'' = None"
proof -
  let ?w = "sample_world\<lparr>pendingLoginSaves := (\<lambda>_. None)(''7'' \<mapsto> JObj [(''recordedAt'', JNum 1)]), clock := 300002\<rparr>"
  have k: "truthy (JNum 7)" "to_str (JNum 7) = ''7''" by code_simp+
  obtain r t where rt: "getPendingSave (JNum 7) ?w = (r, t)" by (cases "getPendingSave (JNum 7) ?w")
  from pending_save_ttl [OF k(1) rt] k(2) rt show ?thesis by auto
qed

text \<open>
  What other tabs do to the staged fills, in any order and with any failures, does not
  change the fill a tab reads.
\<close>

theorem staged_fill_isolation:
  assumes "\<forall>oper \<in> set ops. to_str (op_tab oper) \<noteq> to_str tabId"
    and "getStagedFill p tabId w = (Inr v, t)"
    and "getStagedFill p tabId (run_tab_ops (getStagedFill p) (setStagedFill p) (clearStagedFill p) ops w) = (Inr v', u)"
  shows "v' = v"
proof (cases "truthy tabId")
  case True
  from staged.run_ops_frame [OF assms(1), of p w] show ?thesis
    using staged.fetch_value [OF True assms(2)] staged.fetch_value [OF True assms(3)] by simp
next
  case False
  with assms(2,3) show ?thesis by (simp add: staged_no_tab)
qed

definition sample_ops :: "tab_op list" where
  "sample_ops = [StoreOp (JNum 8) (JStr ''b''), FetchOp (JNum 8), DiscardOp (JNum 9)]"

theorem staged_fill_isolation_witness:
  "\<exists>t v' u. getStagedFill (sample_platform JNull) (JNum 7) sample_world = (Inr JNull, t) \<and>
     getStagedFill (sample_platform JNull) (JNum 7)
       (run_tab_ops (getStagedFill (sample_platform JNull)) (setStagedFill (sample_platform JNull))
          (clearStagedFill (sample_platform JNull)) sample_ops sample_world) = (Inr v', u) \<and> v' = JNull"
proof -
  let ?p = "sample_platform JNull"
  let ?q = "getStagedFill ?p (JNum 7) sample_world"
  let ?q' = "getStagedFill ?p (JNum 7)
      (run_tab_ops (getStagedFill ?p) (setStagedFill ?p) (clearStagedFill ?p) sample_ops sample_world)"
  have ops: "\<forall>oper \<in> set sample_ops. to_str (op_tab oper) \<noteq> to_str (JNum 7)" by code_simp
  have a: "?q = (Inr (projr (fst ?q)), snd ?q)" by (rule is_ok_run) code_simp
  have b: "?q' = (Inr (projr (fst ?q')), snd ?q')" by (rule is_ok_run) code_simp
  have v: "projr (fst ?q) = JNull" by code_simp
  note a = a [unfolded v]
  show ?thesis by (intro exI conjI) (rule a, rule b, rule staged_fill_isolation [OF ops a b])
qed

end
