(* ===== verification/Api.thy ===== *)
theory Api
  imports Storage
begin

text \<open>
  \<^verbatim>\<open>clients/nerve-extension/lib/api.js\<close>: which server URLs the extension accepts, how a
  request is built, what its answer or failure becomes, and the calls of the server API.
  The parser behind \<^verbatim>\<open>new URL\<close> and the server are the \<open>platform\<close>'s.
\<close>

section \<open>Server URLs\<close>

definition isLoopbackHostname :: "string \<Rightarrow> bool" where
  "isLoopbackHostname hostname \<longleftrightarrow>
     hostname = ''localhost'' \<or> hostname = ''127.0.0.1'' \<or> hostname = ''[::1]''"

definition is_letter :: "char \<Rightarrow> bool" where
  "is_letter c \<longleftrightarrow> (97::nat) \<le> of_char (lower_char c) \<and> of_char (lower_char c) \<le> (122::nat)"

text \<open>\<^verbatim>\<open>/^[a-z][a-z\d+.-]*:\/\//i\<close>\<close>

definition scheme_char :: "char \<Rightarrow> bool" where
  "scheme_char c \<longleftrightarrow> is_letter c \<or> is_digit c \<or> c = CHR ''+'' \<or> c = CHR ''.'' \<or> c = CHR ''-''"

definition hasProtocol :: "string \<Rightarrow> bool" where
  "hasProtocol value =
     (case value of
        [] \<Rightarrow> False
      | c # t \<Rightarrow> is_letter c \<and> starts_with (dropWhile scheme_char t) ''://'')"

text \<open>\<^verbatim>\<open>(:\d+)?(\/.*)?$\<close>; the dot does not match a line terminator.\<close>

definition port_and_path :: "string \<Rightarrow> bool" where
  "port_and_path s =
     (let r = (case s of
                 [] \<Rightarrow> s
               | c # t \<Rightarrow> if c = CHR '':'' \<and> takeWhile is_digit t \<noteq> [] then dropWhile is_digit t else s)
      in r = [] \<or> (hd r = CHR ''/'' \<and> CHR 0x0A \<notin> set r \<and> CHR 0x0D \<notin> set r))"

definition after_host :: "string \<Rightarrow> string \<Rightarrow> bool" where
  "after_host value host \<longleftrightarrow>
     starts_with (lower value) host \<and> port_and_path (drop (length host) value)"

definition coerceLocalDevelopmentUrl :: "string \<Rightarrow> string" where
  "coerceLocalDevelopmentUrl value =
     (if hasProtocol value then value
      else if after_host value ''localhost'' \<or> after_host value ''127.0.0.1'' then ''http://'' @ value
      else if after_host value ''[::1]'' then ''http://'' @ value
      else value)"

text \<open>
  The setter of \<^verbatim>\<open>url.pathname\<close> on an http or https URL, for a path it has parsed before:
  the empty path becomes the root.
\<close>

definition set_pathname :: "string \<Rightarrow> url \<Rightarrow> url" where
  "set_pathname s u = u\<lparr>u_pathname := (if s = [] then ''/'' else s)\<rparr>"

definition normalizeServerUrl :: "platform \<Rightarrow> jsv \<Rightarrow> string result" where
  "normalizeServerUrl p value =
     res_bind (trim_or_empty value) (\<lambda>v.
     let trimmed = coerceLocalDevelopmentUrl v in
     if trimmed = [] then Inl (Error ''Server URL is required.'')
     else
       (case url_of p trimmed of
          None \<Rightarrow> Inl (Error ''Enter a valid server URL, including https:// or http://localhost.'')
        | Some url \<Rightarrow>
            (let isLocalDevelopmentServer = (u_protocol url = ''http:'' \<and> isLoopbackHostname (u_hostname url)) in
             if u_protocol url \<noteq> ''https:'' \<and> \<not> isLocalDevelopmentServer then
               Inl (Error ''Server URL must start with https://, or use http:// for localhost testing.'')
             else
               (let url1 = set_pathname (strip_trailing_slashes (u_pathname url)) url;
                    url2 = url1\<lparr>u_hash := [], u_search := []\<rparr>
                in Inr (strip_trailing_slashes (url_text url2))))))"

section \<open>Requests\<close>

definition parseJson :: "response \<Rightarrow> jsv" where
  "parseJson response = (case res_json response of None \<Rightarrow> JNull | Some v \<Rightarrow> v)"

definition errorMessage :: "jsv \<Rightarrow> response \<Rightarrow> string" where
  "errorMessage payload response =
     (let message =
        js_or (js_get_opt (js_get_opt payload ''error'') ''message'')
          (js_or (js_get_opt payload ''error'') (js_get_opt payload ''message''))
      in case message of
           JStr m \<Rightarrow> if trim m \<noteq> [] then m
                     else ''Request failed ('' @ show_int (res_status response) @ '').''
         | _ \<Rightarrow> ''Request failed ('' @ show_int (res_status response) @ '').'')"

record options =
  opt_method :: string
  opt_auth :: bool
  opt_token :: jsv
  opt_form :: "(string \<times> form_value) list option"
  opt_body :: jsv

definition no_options :: options where
  "no_options = \<lparr>opt_method = [], opt_auth = True, opt_token = JUndef, opt_form = None, opt_body = JUndef\<rparr>"

definition build_request :: "string \<Rightarrow> string \<Rightarrow> options \<Rightarrow> string \<Rightarrow> request" where
  "build_request base path opts token =
     \<lparr>req_method = (if opt_method opts = [] then ''GET'' else opt_method opts),
      req_url = base @ path,
      req_headers =
        [(''Accept'', ''application/json'')]
        @ (if opt_auth opts then [(''Authorization'', ''Bearer '' @ token)] else [])
        @ (if opt_form opts = None \<and> opt_body opts \<noteq> JUndef
           then [(''Content-Type'', ''application/json'')] else []),
      req_body =
        (case opt_form opts of
           Some f \<Rightarrow> FormBody f
         | None \<Rightarrow> if opt_body opts = JUndef then NoBody else TextBody (json_text (opt_body opts))),
      req_omit_credentials = False\<rparr>"

definition send_request :: "platform \<Rightarrow> settings \<Rightarrow> string \<Rightarrow> options \<Rightarrow> ('a world_scheme, jsv) io" where
  "send_request p st path opts =
     bind (lift (normalizeServerUrl p (serverUrl st))) (\<lambda>server.
     bind (lift (trim_or_empty (js_coalesce (opt_token opts) (apiToken st)))) (\<lambda>token.
     if opt_auth opts \<and> token = [] then raise (Error ''An access token is required.'')
     else
       bind (catch (fetch p (build_request server path opts token))
               (\<lambda>_. raise (Error ''Could not reach the Elektrine server.''))) (\<lambda>response.
       let payload = parseJson response in
       if \<not> res_ok response then raise (Error (errorMessage payload response))
       else ret (js_coalesce (js_get_opt payload ''data'') payload))))"

section \<open>The calls\<close>

definition listEntries :: "platform \<Rightarrow> settings \<Rightarrow> ('a world_scheme, jsv) io" where
  "listEntries p st = send_request p st ''/api/ext/v1/nerve/entries?limit=100'' no_options"

definition getEntry :: "platform \<Rightarrow> settings \<Rightarrow> jsv \<Rightarrow> ('a world_scheme, jsv) io" where
  "getEntry p st entryId =
     send_request p st (''/api/ext/v1/nerve/entries/'' @ to_str entryId) no_options"

definition createEntry :: "platform \<Rightarrow> settings \<Rightarrow> jsv \<Rightarrow> ('a world_scheme, jsv) io" where
  "createEntry p st attrs =
     send_request p st ''/api/ext/v1/nerve/entries''
       (no_options\<lparr>opt_method := ''POST'', opt_body := JObj [(''entry'', attrs)]\<rparr>)"

definition updateEntry :: "platform \<Rightarrow> settings \<Rightarrow> jsv \<Rightarrow> jsv \<Rightarrow> ('a world_scheme, jsv) io" where
  "updateEntry p st entryId attrs =
     send_request p st (''/api/ext/v1/nerve/entries/'' @ to_str entryId)
       (no_options\<lparr>opt_method := ''PUT'', opt_body := JObj [(''entry'', attrs)]\<rparr>)"

definition createKairoSource :: "platform \<Rightarrow> settings \<Rightarrow> jsv \<Rightarrow> ('a world_scheme, jsv) io" where
  "createKairoSource p st attrs =
     send_request p st ''/api/ext/v1/kairo/sources''
       (no_options\<lparr>opt_method := ''POST'', opt_body := JObj [(''source'', attrs)]\<rparr>)"

text \<open>A nested value becomes one form field per leaf; empty leaves are left out.\<close>

fun appendFormValue :: "string \<Rightarrow> jsv \<Rightarrow> (string \<times> form_value) list"
  and append_items :: "string \<Rightarrow> jsv list \<Rightarrow> (string \<times> form_value) list"
  and append_nested :: "string \<Rightarrow> (string \<times> jsv) list \<Rightarrow> (string \<times> form_value) list" where
  "appendFormValue field JUndef = []"
| "appendFormValue field JNull = []"
| "appendFormValue field (JStr s) = (if s = [] then [] else [(field, FormText s)])"
| "appendFormValue field (JArr xs) = append_items (field @ ''[]'') xs"
| "appendFormValue field (JObj ps) = append_nested field ps"
| "appendFormValue field (JBool b) = [(field, FormText (to_str (JBool b)))]"
| "appendFormValue field (JNum n) = [(field, FormText (to_str (JNum n)))]"
| "append_items field [] = []"
| "append_items field (x # xs) = appendFormValue field x @ append_items field xs"
| "append_nested field [] = []"
| "append_nested field ((k, v) # ps) =
     appendFormValue (field @ ''['' @ k @ '']'') v @ append_nested field ps"

record File =
  file_name :: string
  file_size :: nat
  file_type :: string

definition createKairoFileSource :: "platform \<Rightarrow> settings \<Rightarrow> File \<Rightarrow> (string \<times> jsv) list \<Rightarrow> ('a world_scheme, jsv) io" where
  "createKairoFileSource p st file attrs =
     (let filename = to_str (js_or (JStr (file_name file)) (js_or (obj_get ''title'' attrs) (JStr ''kairo-file'')))
      in send_request p st ''/api/ext/v1/kairo/sources''
           (no_options\<lparr>opt_method := ''POST'',
              opt_form := Some ((''source[file]'', FormFile filename (file_size file) (file_type file))
                                # append_nested ''source'' attrs)\<rparr>))"

definition isPersonalAccessToken :: "jsv \<Rightarrow> bool result" where
  "isPersonalAccessToken token =
     res_bind (trim_or_empty token) (\<lambda>t. Inr (starts_with t ''ekt_''))"

definition loginWithAccount :: "platform \<Rightarrow> jsv \<Rightarrow> jsv \<Rightarrow> jsv \<Rightarrow> (string \<times> jsv) list \<Rightarrow> ('a world_scheme, jsv) io" where
  "loginWithAccount p url username password extra =
     send_request p \<lparr>serverUrl = url, apiToken = JStr [], theme = None\<rparr> ''/api/auth/login''
       (no_options\<lparr>opt_method := ''POST'', opt_auth := False,
          opt_body := JObj (obj_spread [(''username'', username), (''password'', password)] extra)\<rparr>)"

definition logoutWithAccount :: "platform \<Rightarrow> settings \<Rightarrow> ('a world_scheme, jsv) io" where
  "logoutWithAccount p st =
     bind (lift (isPersonalAccessToken (apiToken st))) (\<lambda>pat.
     if pat then ret (JObj [(''message'', JStr ''Signed out locally.'')])
     else send_request p st ''/api/auth/logout'' (no_options\<lparr>opt_method := ''POST''\<rparr>))"

section \<open>Lemmas\<close>

lemma normalizeServerUrl_ok:
  assumes "normalizeServerUrl p v = Inr s"
  obtains t u where "url_of p t = Some u" "t \<noteq> []"
    "u_protocol u = ''https:'' \<or> u_protocol u = ''http:'' \<and> isLoopbackHostname (u_hostname u)"
    "s = strip_trailing_slashes (u_protocol u @ ''//'' @ u_userinfo u @ u_host u @
           (if strip_trailing_slashes (u_pathname u) = [] then ''/'' else strip_trailing_slashes (u_pathname u)))"
  using assms
  by (auto simp: normalizeServerUrl_def Let_def res_bind_eq_Inr set_pathname_def url_text_def
      split: option.splits if_splits)

text \<open>A request that is sent is the one \<open>build_request\<close> describes, and it is the only one.\<close>

lemma send_request_log:
  assumes "send_request p st path opts w = (r, t)"
  shows "net_log t = net_log w \<and> (\<exists>e. r = Inl e) \<or>
    (\<exists>server token. normalizeServerUrl p (serverUrl st) = Inr server \<and>
       trim_or_empty (js_coalesce (opt_token opts) (apiToken st)) = Inr token \<and>
       (opt_auth opts \<longrightarrow> token \<noteq> []) \<and>
       net_log t = net_log w @ [build_request server path opts token])"
  using assms
  by (auto simp: send_request_def run_simps Let_def split: sum.splits if_splits fetch_outcome.splits)

lemma send_request_frame:
  "send_request p st path opts w = (r, t) \<Longrightarrow> t = w\<lparr>net_log := net_log t\<rparr>"
  by (auto simp: send_request_def run_simps Let_def split: sum.splits if_splits fetch_outcome.splits)

lemma send_request_ok:
  assumes "send_request p st path opts w = (Inr v, t)"
  obtains server token resp where
    "normalizeServerUrl p (serverUrl st) = Inr server"
    "trim_or_empty (js_coalesce (opt_token opts) (apiToken st)) = Inr token"
    "opt_auth opts \<longrightarrow> token \<noteq> []"
    "fetch_of p (net_log w) (build_request server path opts token) = Response resp" "res_ok resp"
    "v = js_coalesce (js_get_opt (parseJson resp) ''data'') (parseJson resp)"
    "t = w\<lparr>net_log := net_log w @ [build_request server path opts token]\<rparr>"
  using assms
  by (auto simp: send_request_def run_simps Let_def split: sum.splits if_splits fetch_outcome.splits)

lemma append_items_concat: "append_items f xs = concat (map (appendFormValue f) xs)"
  by (induction xs) simp_all

lemma append_nested_concat:
  "append_nested f ps = concat (map (\<lambda>(k, v). appendFormValue (f @ ''['' @ k @ '']'') v) ps)"
  by (induction ps) auto


section \<open>Properties\<close>

text \<open>
  An accepted server URL is https, or http on a loopback host; it has no search and no
  hash, and it does not end in a slash: it is the parsed URL's protocol, user info, host and
  path less the slashes at the end.
\<close>

theorem normalizeServerUrl_safe:
  assumes "normalizeServerUrl p v = Inr s"
  shows "\<exists>t u slashes. url_of p t = Some u \<and>
    (u_protocol u = ''https:'' \<or> u_protocol u = ''http:'' \<and> isLoopbackHostname (u_hostname u)) \<and>
    \<not> ends_with s ''/'' \<and> set slashes \<subseteq> {CHR ''/''} \<and>
    s @ slashes = u_protocol u @ ''//'' @ u_userinfo u @ u_host u @
      (if strip_trailing_slashes (u_pathname u) = [] then ''/'' else strip_trailing_slashes (u_pathname u))"
proof -
  from assms obtain t u where o: "url_of p t = Some u" "t \<noteq> []"
    "u_protocol u = ''https:'' \<or> u_protocol u = ''http:'' \<and> isLoopbackHostname (u_hostname u)"
    "s = strip_trailing_slashes (u_protocol u @ ''//'' @ u_userinfo u @ u_host u @
           (if strip_trailing_slashes (u_pathname u) = [] then ''/'' else strip_trailing_slashes (u_pathname u)))"
    by (rule normalizeServerUrl_ok)
  let ?x = "u_protocol u @ ''//'' @ u_userinfo u @ u_host u @
           (if strip_trailing_slashes (u_pathname u) = [] then ''/'' else strip_trailing_slashes (u_pathname u))"
  from strip_trailing_slashes_prefix [of ?x] obtain slashes where
    "?x = s @ slashes" "set slashes \<subseteq> {CHR ''/''}" unfolding o(4) by blast
  with o(1,3) strip_trailing_slashes_last [of ?x] show ?thesis unfolding o(4) [symmetric]
    by (intro exI [of _ t] exI [of _ u] exI [of _ slashes]) simp
qed

theorem normalizeServerUrl_safe_witness:
  "\<exists>s. normalizeServerUrl (sample_platform JNull) (JStr '' https://vault.example/app/ '') = Inr s \<and>
     s = ''https://vault.example/app'' \<and> \<not> ends_with s ''/''"
proof -
  have r: "normalizeServerUrl (sample_platform JNull) (JStr '' https://vault.example/app/ '') =
      Inr ''https://vault.example/app''" by code_simp
  from normalizeServerUrl_safe [OF r] r show ?thesis by auto
qed

text \<open>
  C23: A call of the server API sends at most one request, and sends it only to a server URL
  that \<open>normalizeServerUrl\<close> accepted; with authentication it is sent only when there is a
  token, which is in its Authorization header, and without authentication it carries no such
  header.  Nothing else of the state changes.
\<close>

theorem request_policy:
  assumes "send_request p st path opts w = (r, t)"
  shows "t = w \<and> (\<exists>e. r = Inl e) \<or>
    (\<exists>server token req. normalizeServerUrl p (serverUrl st) = Inr server \<and>
       trim_or_empty (js_coalesce (opt_token opts) (apiToken st)) = Inr token \<and>
       t = w\<lparr>net_log := net_log w @ [req]\<rparr> \<and> req_url req = server @ path \<and>
       map_of (req_headers req) ''Authorization'' =
         (if opt_auth opts then Some (''Bearer '' @ token) else None) \<and>
       (opt_auth opts \<longrightarrow> token \<noteq> []))"
  using send_request_log [OF assms]
proof
  assume "net_log t = net_log w \<and> (\<exists>e. r = Inl e)"
  with send_request_frame [OF assms] show ?thesis by auto
next
  assume "\<exists>server token. normalizeServerUrl p (serverUrl st) = Inr server \<and>
       trim_or_empty (js_coalesce (opt_token opts) (apiToken st)) = Inr token \<and>
       (opt_auth opts \<longrightarrow> token \<noteq> []) \<and>
       net_log t = net_log w @ [build_request server path opts token]"
  then obtain server token where s: "normalizeServerUrl p (serverUrl st) = Inr server"
    "trim_or_empty (js_coalesce (opt_token opts) (apiToken st)) = Inr token"
    "opt_auth opts \<longrightarrow> token \<noteq> []" "net_log t = net_log w @ [build_request server path opts token]" by blast
  have "t = w\<lparr>net_log := net_log w @ [build_request server path opts token]\<rparr>"
    using send_request_frame [OF assms] s(4) by simp
  with s(1-3) show ?thesis
    by (intro disjI2 exI [of _ server] exI [of _ token] exI [of _ "build_request server path opts token"])
      (simp add: build_request_def)
qed

theorem request_policy_witness:
  "\<exists>r t. listEntries (sample_platform (JNum 5)) sample_settings sample_world = (r, t) \<and>
     map req_url (net_log t) = [''https://vault.example/api/ext/v1/nerve/entries?limit=100'']"
proof -
  let ?q = "send_request (sample_platform (JNum 5)) sample_settings ''/api/ext/v1/nerve/entries?limit=100'' no_options sample_world"
  have n: "normalizeServerUrl (sample_platform (JNum 5)) (serverUrl sample_settings) = Inr ''https://vault.example''"
    by code_simp
  have ok: "?q = (Inr (projr (fst ?q)), snd ?q)" by (rule is_ok_run) code_simp
  have "net_log sample_world = []" by (simp add: sample_world_def)
  with request_policy [OF ok] n have "map req_url (net_log (snd ?q)) =
      [''https://vault.example/api/ext/v1/nerve/entries?limit=100'']" by auto
  then show ?thesis unfolding listEntries_def by (intro exI conjI) (rule ok)
qed

text \<open>
  What a request that can be sent becomes: a fixed error when the network fails, the
  server's message (or the status) on a status outside 200..299, and otherwise the
  \<^verbatim>\<open>data\<close> of the answer, or the whole answer when it has none.
\<close>

theorem request_outcome:
  assumes "normalizeServerUrl p (serverUrl st) = Inr server"
    and "trim_or_empty (js_coalesce (opt_token opts) (apiToken st)) = Inr token"
    and "opt_auth opts \<longrightarrow> token \<noteq> []"
  shows "fst (send_request p st path opts w) =
    (case fetch_of p (net_log w) (build_request server path opts token) of
       NetworkError \<Rightarrow> Inl (Error ''Could not reach the Elektrine server.'')
     | Response resp \<Rightarrow>
         if 200 \<le> res_status resp \<and> res_status resp \<le> 299
         then Inr (js_coalesce (js_get_opt (parseJson resp) ''data'') (parseJson resp))
         else Inl (Error (errorMessage (parseJson resp) resp)))"
  using assms by (auto simp: send_request_def run_simps Let_def res_ok_def split: fetch_outcome.split)

theorem request_outcome_witness:
  "fst (createEntry (sample_platform (JObj [(''data'', JNum 5)])) sample_settings JNull sample_world) = Inr (JNum 5)"
proof -
  have n: "normalizeServerUrl (sample_platform (JObj [(''data'', JNum 5)])) (serverUrl sample_settings) = Inr ''https://vault.example''"
    by code_simp
  let ?o = "no_options\<lparr>opt_method := ''POST'', opt_body := JObj [(''entry'', JNull)]\<rparr>"
  have k: "trim_or_empty (js_coalesce (opt_token ?o) (apiToken sample_settings)) = Inr ''tok''" by code_simp
  from request_outcome [OF n k] show ?thesis
    by (simp add: createEntry_def) (simp add: sample_platform_def sample_response_def parseJson_def js_coalesce_def)
qed

lemma append_form_fields:
  "(k, x) \<in> set (appendFormValue f v) \<Longrightarrow> starts_with k f \<and> (\<exists>s. x = FormText s \<and> s \<noteq> [])"
  "(k, x) \<in> set (append_items f vs) \<Longrightarrow> starts_with k f \<and> (\<exists>s. x = FormText s \<and> s \<noteq> [])"
  "(k, x) \<in> set (append_nested f ps) \<Longrightarrow> starts_with k f \<and> (\<exists>s. x = FormText s \<and> s \<noteq> [])"
  by (induction f v and f vs and f ps rule: appendFormValue_append_items_append_nested.induct)
    (auto simp: starts_with_iff split: if_splits)

text \<open>
  Every form field of a flattened value is named after the field it is nested in and
  carries a text that is not empty; null, undefined and empty strings give no field.
\<close>

theorem form_fields:
  assumes "(k, x) \<in> set (appendFormValue f v)"
  shows "starts_with k f \<and> (\<exists>s. x = FormText s \<and> s \<noteq> [])"
  using assms by (rule append_form_fields(1))

theorem form_fields_witness:
  "(''source[tags][]'', FormText ''b'') \<in> set (appendFormValue ''source[tags]'' (JArr [JStr [], JStr ''b''])) \<and>
   starts_with ''source[tags][]'' ''source[tags]''"
proof -
  have m: "(''source[tags][]'', FormText ''b'') \<in> set (appendFormValue ''source[tags]'' (JArr [JStr [], JStr ''b'']))"
    by simp
  from form_fields [OF m] m show ?thesis by blast
qed

text \<open>
  Signing out with a personal access token (one that starts with \<^verbatim>\<open>ekt_\<close>) sends nothing;
  with a session token it sends the one logout request.
\<close>

theorem logout_local:
  assumes "trim_or_empty (apiToken st) = Inr token"
  shows "logoutWithAccount p st w =
    (if starts_with token ''ekt_''
     then (Inr (JObj [(''message'', JStr ''Signed out locally.'')]), w)
     else send_request p st ''/api/auth/logout'' (no_options\<lparr>opt_method := ''POST''\<rparr>) w)"
  using assms by (simp add: logoutWithAccount_def isPersonalAccessToken_def run_simps)

theorem logout_local_witness:
  "logoutWithAccount (sample_platform JNull) (sample_settings\<lparr>apiToken := JStr '' ekt_1''\<rparr>) sample_world =
     (Inr (JObj [(''message'', JStr ''Signed out locally.'')]), sample_world)"
proof -
  have "trim_or_empty (apiToken (sample_settings\<lparr>apiToken := JStr '' ekt_1''\<rparr>)) = Inr ''ekt_1''" by code_simp
  from logout_local [OF this] show ?thesis by simp
qed

end
