(* ===== verification/Kairo.thy ===== *)
theory Kairo
  imports World
begin

text \<open>
  \<^verbatim>\<open>clients/nerve-extension/lib/kairo_capture.js\<close>: the attributes of a captured source, the
  normalisation of a selection, and the message shown for a failed capture.
\<close>

section \<open>Selections\<close>

abbreviation nl :: char where "nl \<equiv> CHR 0x0A"

text \<open>
  \<^verbatim>\<open>replace(/\s+\n/g, "\n")\<close>.  A match starts at the first character of a run of white space
  and is greedy, so it ends at the last line feed of the run; it needs one more character of
  the run before that line feed.
\<close>

definition squeeze_run :: "string \<Rightarrow> string" where
  "squeeze_run run =
     (let rest = rev (takeWhile (\<lambda>c. c \<noteq> nl) (rev run))
      in if length run - length rest \<ge> 2 then nl # rest else run)"

function squeeze_space :: "string \<Rightarrow> string" where
  "squeeze_space [] = []"
| "squeeze_space (c # t) =
     (if is_space c then
        squeeze_run (takeWhile is_space (c # t)) @ squeeze_space (dropWhile is_space (c # t))
      else c # squeeze_space t)"
  by pat_completeness auto
termination
  by (relation "measure length") (auto simp: le_imp_less_Suc length_dropWhile_le)

text \<open>\<^verbatim>\<open>replace(/\n{3,}/g, "\n\n")\<close>\<close>

function collapse_newlines :: "string \<Rightarrow> string" where
  "collapse_newlines [] = []"
| "collapse_newlines (c # t) =
     (if c = nl then
        (let run = takeWhile (\<lambda>d. d = nl) (c # t)
         in (if length run \<ge> 3 then [nl, nl] else run) @ collapse_newlines (dropWhile (\<lambda>d. d = nl) (c # t)))
      else c # collapse_newlines t)"
  by pat_completeness auto
termination
  by (relation "measure length") (auto simp: le_imp_less_Suc length_dropWhile_le)

definition normalizeSelection :: "jsv \<Rightarrow> string" where
  "normalizeSelection value = trim (collapse_newlines (squeeze_space (to_str (js_or value (JStr [])))))"

section \<open>Captures\<close>

definition kairo_safeHost :: "platform \<Rightarrow> string \<Rightarrow> string" where
  "kairo_safeHost p value =
     (case url_of p value of
        None \<Rightarrow> []
      | Some url \<Rightarrow> if u_protocol url \<in> {''http:'', ''https:''} then u_hostname url else [])"

record capture =
  cap_url :: jsv
  cap_title :: jsv
  cap_selectionText :: jsv

definition capture_tags :: jsv where
  "capture_tags = JArr [JStr ''capture'', JStr ''browser-extension'']"

definition kairoSourceAttrs :: "platform \<Rightarrow> int \<Rightarrow> capture \<Rightarrow> jsv result" where
  "kairoSourceAttrs p now capture =
     (let selectedText = normalizeSelection (cap_selectionText capture);
          capturedAt = JStr (iso_time p now);
          url = js_or (cap_url capture) (JStr [])
      in res_bind (js_trim (js_or (cap_title capture) (js_or (JStr (kairo_safeHost p (to_str url))) (JStr ''Captured page''))))
           (\<lambda>pageTitle.
         if selectedText \<noteq> [] then
           Inr (JObj [(''source_type'', JStr ''text''),
                      (''title'', JStr (''Selection from '' @ pageTitle)),
                      (''url'', url),
                      (''content'', JStr selectedText),
                      (''content_format'', JStr ''text''),
                      (''tags'', capture_tags),
                      (''metadata'', JObj [(''capture_type'', JStr ''selection''),
                                           (''captured_at'', capturedAt),
                                           (''page_title'', JStr pageTitle),
                                           (''source'', JStr ''nerve-extension'')])])
         else
           Inr (JObj [(''source_type'', JStr ''url''),
                      (''title'', JStr pageTitle),
                      (''url'', url),
                      (''tags'', capture_tags),
                      (''metadata'', JObj [(''capture_type'', JStr ''page''),
                                           (''captured_at'', capturedAt),
                                           (''source'', JStr ''nerve-extension'')])])))"

definition kairoErrorMessage :: "platform \<Rightarrow> js_error \<Rightarrow> string" where
  "kairoErrorMessage p error =
     (let message = (if error_message p error = [] then ''Could not capture to Kairo.'' else error_message p error)
      in if str_includes_any (lower message) [''scope'', ''forbidden'', ''unauthorized'', ''write:kairo'', ''403'', ''401'']
         then ''Reconnect the extension in settings so it can capture to Kairo.''
         else message)"

section \<open>What the normalisation leaves\<close>

fun no_blank_line :: "string \<Rightarrow> bool" where
  "no_blank_line (c # d # s) = (\<not> (c = nl \<and> d = nl) \<and> no_blank_line (d # s))"
| "no_blank_line _ = True"

lemma no_blank_line_Cons:
  "no_blank_line (c # s) \<longleftrightarrow> no_blank_line s \<and> \<not> (c = nl \<and> s \<noteq> [] \<and> hd s = nl)"
  by (cases s) auto

lemma no_blank_line_append:
  "no_blank_line (s @ t) \<longleftrightarrow>
     no_blank_line s \<and> no_blank_line t \<and> \<not> (s \<noteq> [] \<and> last s = nl \<and> t \<noteq> [] \<and> hd t = nl)"
  by (induction s) (auto simp: no_blank_line_Cons)

lemma no_newline_no_blank: "nl \<notin> set s \<Longrightarrow> no_blank_line s"
  by (induction s) (auto simp: no_blank_line_Cons)

lemma no_blank_line_includes: "no_blank_line s \<longleftrightarrow> \<not> str_includes s [nl, nl]"
proof
  assume "no_blank_line s"
  then show "\<not> str_includes s [nl, nl]"
    by (auto simp: str_includes_iff no_blank_line_append)
next
  have "\<not> no_blank_line s \<Longrightarrow> \<exists>u v. s = u @ [nl, nl] @ v"
  proof (induction s rule: no_blank_line.induct)
    case (1 c d s)
    show ?case
    proof (cases "c = nl \<and> d = nl")
      case True
      then show ?thesis by (intro exI [of _ "[]"] exI [of _ s]) simp
    next
      case False
      with 1 obtain u v where "d # s = u @ [nl, nl] @ v" by auto
      then show ?thesis by (intro exI [of _ "c # u"] exI [of _ v]) simp
    qed
  qed simp_all
  then show "\<not> str_includes s [nl, nl] \<Longrightarrow> no_blank_line s" by (auto simp: str_includes_iff)
qed

lemma run_split:
  "r = rev (takeWhile (\<lambda>c. c \<noteq> nl) (rev run)) \<Longrightarrow>
   nl \<notin> set r \<and> (\<exists>h. run = h @ r \<and> (h \<noteq> [] \<longrightarrow> last h = nl) \<and> length h = length run - length r)"
proof -
  assume r: "r = rev (takeWhile (\<lambda>c. c \<noteq> nl) (rev run))"
  let ?h = "rev (dropWhile (\<lambda>c. c \<noteq> nl) (rev run))"
  have "run = ?h @ r" unfolding r by (metis rev_append rev_rev_ident takeWhile_dropWhile_id)
  moreover have "?h \<noteq> [] \<longrightarrow> last ?h = nl" using hd_dropWhile [of "\<lambda>c. c \<noteq> nl" "rev run"] by (auto simp: last_rev)
  moreover have "length ?h = length run - length r" using calculation(1) by (metis add_diff_cancel_right' length_append)
  moreover have "nl \<notin> set r" unfolding r by (auto dest: set_takeWhileD)
  ultimately show ?thesis by blast
qed

lemma squeeze_run_no_blank: "no_blank_line (squeeze_run run)"
proof -
  obtain r h where r: "r = rev (takeWhile (\<lambda>c. c \<noteq> nl) (rev run))" "nl \<notin> set r" "run = h @ r"
    "length h = length run - length r" using run_split by blast
  have sq: "squeeze_run run = (if length h \<ge> 2 then nl # r else h @ r)"
    using r(1,3,4) by (simp only: squeeze_run_def Let_def split: if_split)
  have nr: "no_blank_line r" "r \<noteq> [] \<Longrightarrow> hd r \<noteq> nl"
    using r(2) by (simp_all add: no_newline_no_blank) (metis hd_in_set r(2))
  show ?thesis
  proof (cases "length h \<ge> 2")
    case True
    with nr show ?thesis by (auto simp: sq no_blank_line_Cons)
  next
    case False
    then have "h = [] \<or> (\<exists>c. h = [c])" by (cases h; cases "tl h") auto
    with nr False show ?thesis by (auto simp: sq no_blank_line_Cons)
  qed
qed

lemma is_space_nl: "is_space nl"
  by code_simp

lemma hd_squeeze_space: "s \<noteq> [] \<Longrightarrow> \<not> is_space (hd s) \<Longrightarrow> squeeze_space s \<noteq> [] \<and> hd (squeeze_space s) = hd s"
  by (cases s) auto

lemma squeeze_space_no_blank: "no_blank_line (squeeze_space s)"
proof (induction s rule: squeeze_space.induct)
  case (2 c t)
  show ?case
  proof (cases "is_space c")
    case True
    let ?d = "dropWhile is_space (c # t)"
    have "hd (squeeze_space ?d) \<noteq> nl" if "squeeze_space ?d \<noteq> []"
    proof -
      from that have ne: "?d \<noteq> []" by (metis squeeze_space.simps(1))
      then have "\<not> is_space (hd ?d)" by (rule hd_dropWhile)
      with hd_squeeze_space [OF ne] is_space_nl show ?thesis by metis
    qed
    with True 2 squeeze_run_no_blank show ?thesis by (auto simp: no_blank_line_append)
  next
    case False
    with 2 is_space_nl show ?thesis by (auto simp: no_blank_line_Cons)
  qed
qed simp

lemma collapse_newlines_id: "no_blank_line s \<Longrightarrow> collapse_newlines s = s"
proof (induction s rule: collapse_newlines.induct)
  case (2 c t)
  show ?case
  proof (cases "c = nl")
    case True
    with 2 have t: "takeWhile (\<lambda>d. d = nl) t = []" "dropWhile (\<lambda>d. d = nl) t = t" "no_blank_line t"
      by (cases t; auto simp: no_blank_line_Cons)+
    with True 2 show ?thesis by simp
  next
    case False
    with 2 show ?thesis by (simp add: no_blank_line_Cons)
  qed
qed simp

lemma trim_infix: "\<exists>u v. s = u @ trim s @ v"
proof -
  let ?d = "dropWhile is_space s"
  have "?d = rev (dropWhile is_space (rev ?d)) @ rev (takeWhile is_space (rev ?d))"
    by (metis rev_append rev_rev_ident takeWhile_dropWhile_id)
  then have "s = takeWhile is_space s @ trim s @ rev (takeWhile is_space (rev ?d))"
    unfolding trim_def by (metis takeWhile_dropWhile_id)
  then show ?thesis by blast
qed

lemma no_blank_line_trim: "no_blank_line s \<Longrightarrow> no_blank_line (trim s)"
proof -
  assume n: "no_blank_line s"
  obtain u v where "s = u @ trim s @ v" using trim_infix by blast
  with n show ?thesis by (metis no_blank_line_append)
qed

section \<open>Properties\<close>

text \<open>
  A normalised selection has no blank line: the first replacement already takes every
  run of white space up to its last line feed, paragraph breaks included, so the second one
  (three or more line feeds become two) never finds anything to replace.
\<close>

theorem selection_no_blank_line:
  "\<not> str_includes (normalizeSelection v) [nl, nl] \<and>
   collapse_newlines (squeeze_space (to_str v)) = squeeze_space (to_str v)"
  unfolding normalizeSelection_def no_blank_line_includes [symmetric]
  by (simp add: no_blank_line_trim squeeze_space_no_blank collapse_newlines_id)

text \<open>
  The source made from a capture: a selection that is not blank makes a text source with
  the normalised selection as its content; otherwise it is a page source without content.
  The capture fails only when its title is truthy and not a string.
\<close>

theorem kairo_source_kind:
  assumes "cap_title c = JStr title"
  shows "\<exists>ps. kairoSourceAttrs p now c = Inr (JObj ps) \<and>
    obj_get ''url'' ps = js_or (cap_url c) (JStr []) \<and>
    (if normalizeSelection (cap_selectionText c) = []
     then obj_get ''source_type'' ps = JStr ''url'' \<and> obj_get ''content'' ps = JUndef
     else obj_get ''source_type'' ps = JStr ''text'' \<and>
       obj_get ''content'' ps = JStr (normalizeSelection (cap_selectionText c)))"
  using assms by (auto simp: kairoSourceAttrs_def Let_def js_or_def)

theorem kairo_source_kind_witness:
  "\<exists>ps. kairoSourceAttrs (sample_platform JNull) 0
     \<lparr>cap_url = JNull, cap_title = JStr ''T'', cap_selectionText = JStr [CHR 0x20, nl, CHR ''a'', nl, nl, nl, CHR ''b'']\<rparr> = Inr (JObj ps) \<and>
   obj_get ''content'' ps = JStr [CHR ''a'', nl, CHR ''b'']"
proof -
  let ?c = "\<lparr>cap_url = JNull, cap_title = JStr ''T'', cap_selectionText = JStr [CHR 0x20, nl, CHR ''a'', nl, nl, nl, CHR ''b'']\<rparr>"
  have t: "cap_title ?c = JStr ''T''" by simp
  have "normalizeSelection (cap_selectionText ?c) = [CHR ''a'', nl, CHR ''b'']" by code_simp
  with kairo_source_kind [OF t, of "sample_platform JNull" 0] show ?thesis by auto
qed

end
