(* ===== verification/Theme.thy ===== *)
theory Theme
  imports Storage
begin

text \<open>
  \<^verbatim>\<open>clients/nerve-extension/lib/theme.js\<close>: which theme values the extension takes from the
  server, and the CSS variables it sets on its pages.
\<close>

section \<open>Tables\<close>

definition DEFAULT_THEME_VALUES :: "(string \<times> string) list" where
  "DEFAULT_THEME_VALUES =
     [(''color_primary'', ''#5f87b8''),
      (''color_secondary'', ''#c9853f''),
      (''color_accent'', ''#7d99bb''),
      (''color_base_100'', ''#121214''),
      (''color_base_200'', ''#1a1a1d''),
      (''color_base_300'', ''#2a2a31''),
      (''color_base_content'', ''#e5e2e1''),
      (''color_info'', ''#6f95c4''),
      (''color_success'', ''#6f8b74''),
      (''color_warning'', ''#c99152''),
      (''color_error'', ''#a56b68'')]"

definition CSS_VAR_BY_THEME_KEY :: "(string \<times> string) list" where
  "CSS_VAR_BY_THEME_KEY =
     [(''color_primary'', ''--primary''),
      (''color_secondary'', ''--secondary''),
      (''color_accent'', ''--accent''),
      (''color_base_100'', ''--bg''),
      (''color_base_200'', ''--bg-elevated''),
      (''color_base_300'', ''--bg-muted''),
      (''color_base_content'', ''--text''),
      (''color_info'', ''--info''),
      (''color_success'', ''--success''),
      (''color_warning'', ''--warning''),
      (''color_error'', ''--error'')]"

definition is_hex_char :: "char \<Rightarrow> bool" where
  "is_hex_char c \<longleftrightarrow> is_digit c \<or>
     ((97::nat) \<le> of_char (lower_char c) \<and> of_char (lower_char c) \<le> (102::nat))"

text \<open>\<^verbatim>\<open>/^#[0-9a-f]{6}$/i\<close>\<close>

definition is_hex_color :: "string \<Rightarrow> bool" where
  "is_hex_color s \<longleftrightarrow> length s = 7 \<and> hd s = CHR ''#'' \<and> list_all is_hex_char (tl s)"

section \<open>Operations\<close>

definition defaultTheme :: jsv where
  "defaultTheme = JObj [(''values'', JObj (map (\<lambda>(k, v). (k, JStr v)) DEFAULT_THEME_VALUES))]"

definition theme_value :: "jsv \<Rightarrow> string \<Rightarrow> string option" where
  "theme_value values key =
     (case js_get_opt values key of
        JStr value \<Rightarrow> if is_hex_color (trim value) then Some (lower (trim value)) else None
      | _ \<Rightarrow> None)"

definition normalized_values :: "jsv \<Rightarrow> (string \<times> string) list" where
  "normalized_values values =
     concat (map (\<lambda>(key, _). case theme_value values key of None \<Rightarrow> [] | Some v \<Rightarrow> [(key, v)])
               DEFAULT_THEME_VALUES)"

text \<open>\<^verbatim>\<open>null\<close> is \<open>None\<close>; otherwise the \<^verbatim>\<open>values\<close> of the answer.\<close>

definition normalizeTheme :: "jsv \<Rightarrow> (string \<times> string) list option" where
  "normalizeTheme th =
     (let values = (if is_obj_type (js_get_opt th ''values'') then js_get_opt th ''values'' else th)
      in if \<not> is_obj_type values then None else Some (normalized_values values))"

text \<open>The properties \<^verbatim>\<open>applyTheme\<close> sets on the document element, in order.\<close>

definition applyTheme :: "settings \<Rightarrow> (string \<times> string) list" where
  "applyTheme st =
     (let signedInTheme =
            (if truthy (apiToken st)
             then normalizeTheme (case theme st of None \<Rightarrow> JUndef | Some t \<Rightarrow> t) else None);
          overrides = (case signedInTheme of None \<Rightarrow> [] | Some vs \<Rightarrow> vs);
          values = map_of DEFAULT_THEME_VALUES ++ map_of overrides
      in map (\<lambda>(themeKey, cssVar). (cssVar, the (values themeKey))) CSS_VAR_BY_THEME_KEY
         @ [(''--muted'', the (values ''color_base_content'') @ ''b3''),
            (''--muted-strong'', the (values ''color_base_content'') @ ''db'')])"

section \<open>Lemmas\<close>

definition canonical_color :: "string \<Rightarrow> bool" where
  "canonical_color s \<longleftrightarrow> is_hex_color s \<and> lower s = s"

lemma lower_Cons: "lower (c # s) = lower_char c # lower s"
  by (simp add: lower_def)

lemma is_hex_char_lower [simp]: "is_hex_char c \<Longrightarrow> is_hex_char (lower_char c)"
  by (auto simp: is_hex_char_def lower_char_def is_digit_def is_upper_def)

lemma lower_color: "is_hex_color s \<Longrightarrow> canonical_color (lower s)"
proof -
  assume h: "is_hex_color s"
  then obtain t where s: "s = CHR ''#'' # t" by (cases s) (auto simp: is_hex_color_def)
  have "lower_char CHR ''#'' = CHR ''#''" by code_simp
  moreover have "list_all is_hex_char t \<Longrightarrow> list_all is_hex_char (lower t)"
    by (induction t) (auto simp: lower_Cons)
  ultimately show ?thesis using h s by (simp add: canonical_color_def is_hex_color_def lower_Cons)
qed

lemma theme_value_canonical: "theme_value values key = Some v \<Longrightarrow> canonical_color v"
  by (auto simp: theme_value_def lower_color split: jsv.splits if_splits)

lemma normalized_canonical: "(k, v) \<in> set (normalized_values vs) \<Longrightarrow> canonical_color v \<and> k \<in> fst ` set DEFAULT_THEME_VALUES"
  by (auto simp: normalized_values_def theme_value_canonical split: option.splits) (force)+

lemma defaults_canonical: "\<forall>kv \<in> set DEFAULT_THEME_VALUES. canonical_color (snd kv)"
  by code_simp

lemma overlay_canonical:
  assumes "k \<in> fst ` set DEFAULT_THEME_VALUES" "\<forall>kv \<in> set vs. canonical_color (snd kv)"
  shows "canonical_color (the ((map_of DEFAULT_THEME_VALUES ++ map_of vs) k))"
proof (cases "map_of vs k")
  case None
  with assms(1) obtain v where "map_of DEFAULT_THEME_VALUES k = Some v"
    by (metis (no_types) map_of_eq_None_iff option.exhaust)
  with None defaults_canonical show ?thesis by (auto simp: map_add_def dest!: map_of_SomeD)
next
  case (Some v)
  with assms(2) show ?thesis by (auto dest!: map_of_SomeD)
qed

lemma css_keys: "\<forall>kv \<in> set CSS_VAR_BY_THEME_KEY. fst kv \<in> fst ` set DEFAULT_THEME_VALUES"
  by code_simp

section \<open>Properties\<close>

text \<open>
  Whatever theme the server or the storage holds, every CSS value the extension sets is a
  hash and six lower-case hexadecimal digits, with the fixed suffix \<^verbatim>\<open>b3\<close> or \<^verbatim>\<open>db\<close> for the two
  muted colours; and each of the thirteen variables is set once.
\<close>

theorem applyTheme_safe:
  "map fst (applyTheme st) = map snd CSS_VAR_BY_THEME_KEY @ [''--muted'', ''--muted-strong''] \<and>
   list_all (\<lambda>(var, value). \<exists>color suffix. value = color @ suffix \<and> canonical_color color \<and>
     suffix = (if var = ''--muted'' then ''b3'' else if var = ''--muted-strong'' then ''db'' else [])) (applyTheme st)"
proof -
  define vs where "vs = (case (if truthy (apiToken st) then normalizeTheme (case theme st of None \<Rightarrow> JUndef | Some t \<Rightarrow> t) else None)
      of None \<Rightarrow> [] | Some vs \<Rightarrow> vs)"
  define m where "m = map_of DEFAULT_THEME_VALUES ++ map_of vs"
  have "\<forall>kv \<in> set vs. canonical_color (snd kv)"
    by (auto simp: vs_def normalizeTheme_def Let_def normalized_canonical split: option.splits if_splits)
  then have c: "canonical_color (the (m k))" if "k \<in> fst ` set DEFAULT_THEME_VALUES" for k
    using overlay_canonical [OF that, of vs] by (simp add: m_def)
  have content: "''color_base_content'' \<in> fst ` set DEFAULT_THEME_VALUES" by code_simp
  have vars: "\<forall>kv \<in> set CSS_VAR_BY_THEME_KEY. snd kv \<noteq> ''--muted'' \<and> snd kv \<noteq> ''--muted-strong''" by code_simp
  have a: "applyTheme st = map (\<lambda>(themeKey, cssVar). (cssVar, the (m themeKey))) CSS_VAR_BY_THEME_KEY
      @ [(''--muted'', the (m ''color_base_content'') @ ''b3''), (''--muted-strong'', the (m ''color_base_content'') @ ''db'')]"
    unfolding applyTheme_def Let_def m_def vs_def ..
  show ?thesis unfolding a list_all_append
    using c [OF content] css_keys vars c by (fastforce simp: list_all_iff)
qed

end
