(* ===== verification/JsSort.thy ===== *)
theory JsSort
  imports Prelude "HOL-Library.Multiset"
begin

text \<open>
  \<^verbatim>\<open>Array.prototype.sort(cmp)\<close>: a stable sort by a comparator that returns a negative, zero
  or positive number.  For a comparator that is a total preorder the result is determined
  (sorted, a permutation, equal elements in their old order), so the insertion sort below is
  the engine's sort for every comparator the program passes.  Those comparators are proved
  to be total preorders by interpreting the locale \<open>comparator\<close>.
\<close>

fun js_insort :: "('a \<Rightarrow> 'a \<Rightarrow> int) \<Rightarrow> 'a \<Rightarrow> 'a list \<Rightarrow> 'a list" where
  "js_insort cmp x [] = [x]"
| "js_insort cmp x (y # ys) = (if cmp x y \<le> 0 then x # y # ys else y # js_insort cmp x ys)"

definition js_sort :: "('a \<Rightarrow> 'a \<Rightarrow> int) \<Rightarrow> 'a list \<Rightarrow> 'a list" where
  "js_sort cmp xs = foldr (js_insort cmp) xs []"

lemma js_sort_simps [simp]:
  "js_sort cmp [] = []"
  "js_sort cmp (x # xs) = js_insort cmp x (js_sort cmp xs)"
  by (simp_all add: js_sort_def)

lemma mset_js_insort: "mset (js_insort cmp x ys) = add_mset x (mset ys)"
  by (induction ys) auto

lemma mset_js_sort [simp]: "mset (js_sort cmp xs) = mset xs"
  by (induction xs) (simp_all add: mset_js_insort)

lemma set_js_insort: "set (js_insort cmp x ys) = insert x (set ys)"
  by (induction ys) auto

lemma set_js_sort [simp]: "set (js_sort cmp xs) = set xs"
  by (induction xs) (simp_all add: set_js_insort)

lemma length_js_sort [simp]: "length (js_sort cmp xs) = length xs"
  by (metis mset_js_sort size_mset)

lemma js_sort_eq_Nil [simp]: "js_sort cmp xs = [] \<longleftrightarrow> xs = []"
  by (metis length_0_conv length_js_sort)

section \<open>Comparators\<close>

locale comparator =
  fixes cmp :: "'a \<Rightarrow> 'a \<Rightarrow> int"
  assumes cmp_total: "cmp x y \<le> 0 \<or> cmp y x \<le> 0"
    and cmp_trans: "cmp x y \<le> 0 \<Longrightarrow> cmp y z \<le> 0 \<Longrightarrow> cmp x z \<le> 0"
begin

lemma sorted_insort:
  "sorted_wrt (\<lambda>a b. cmp a b \<le> 0) ys \<Longrightarrow> sorted_wrt (\<lambda>a b. cmp a b \<le> 0) (js_insort cmp x ys)"
proof (induction ys)
  case (Cons y ys)
  show ?case
  proof (cases "cmp x y \<le> 0")
    case True
    with Cons.prems show ?thesis by (auto intro: cmp_trans)
  next
    case False
    then have "cmp y x \<le> 0" using cmp_total by blast
    with False Cons show ?thesis by (auto simp: set_js_insort)
  qed
qed simp

lemma sorted_sort: "sorted_wrt (\<lambda>a b. cmp a b \<le> 0) (js_sort cmp xs)"
  by (induction xs) (simp_all add: sorted_insort)

text \<open>The first element precedes, or ties with, every element of the input.\<close>

lemma hd_sort_least:
  assumes "x \<in> set xs"
  shows "cmp (hd (js_sort cmp xs)) x \<le> 0"
proof -
  from assms have "js_sort cmp xs \<noteq> []" by auto
  then obtain y ys where ys: "js_sort cmp xs = y # ys" by (meson neq_Nil_conv)
  with sorted_sort [of xs] have "\<forall>b \<in> set ys. cmp y b \<le> 0" by simp
  moreover from assms ys have "x \<in> insert y (set ys)" using set_js_sort [of cmp xs] by simp
  moreover have "cmp y y \<le> 0" using cmp_total by blast
  ultimately show ?thesis using ys by auto
qed

text \<open>Stability: elements that tie with each other keep their order.\<close>

lemma filter_insort_tie:
  assumes tie: "\<And>a b. P a \<Longrightarrow> P b \<Longrightarrow> cmp a b \<le> 0"
  shows "filter P (js_insort cmp x ys) = (if P x then x # filter P ys else filter P ys)"
  by (induction ys) (auto dest: tie)

lemma filter_sort_tie:
  assumes tie: "\<And>a b. P a \<Longrightarrow> P b \<Longrightarrow> cmp a b \<le> 0"
  shows "filter P (js_sort cmp xs) = filter P xs"
  by (induction xs) (simp_all add: filter_insort_tie [OF tie])

lemma sort_sorted_id: "sorted_wrt (\<lambda>a b. cmp a b \<le> 0) xs \<Longrightarrow> js_sort cmp xs = xs"
proof (induction xs)
  case (Cons x xs)
  then show ?case by (cases xs) auto
qed simp

end

text \<open>Comparing by a number, highest first: \<^verbatim>\<open>(l, r) => r.score - l.score\<close>.\<close>

definition by_score_desc :: "('a \<Rightarrow> int) \<Rightarrow> 'a \<Rightarrow> 'a \<Rightarrow> int" where
  "by_score_desc f l r = f r - f l"

interpretation score_desc: comparator "by_score_desc f" for f
  by unfold_locales (auto simp: by_score_desc_def)

text \<open>A comparator that breaks the ties of a number by a second comparator is one again.\<close>

definition by_score_then :: "('a \<Rightarrow> int) \<Rightarrow> ('a \<Rightarrow> 'a \<Rightarrow> int) \<Rightarrow> 'a \<Rightarrow> 'a \<Rightarrow> int" where
  "by_score_then f tie l r = (if f l \<noteq> f r then f r - f l else tie l r)"

lemma comparator_then: "comparator tie \<Longrightarrow> comparator (by_score_then f tie)"
  unfolding comparator_def by_score_then_def
  by (smt (verit) diff_gt_0_iff_gt)

end
