(* ===== verification/Ranking.thy ===== *)
theory Ranking
  imports World JsSort
begin

text \<open>
  The pure decisions of \<^verbatim>\<open>clients/nerve-extension/background.js\<close>: which pages may talk to it,
  which hosts belong together, which entries match a page or a submitted login and in what
  order, and when a submitted login is worth a prompt.
\<close>

section \<open>Hosts and pages\<close>

text \<open>\<^verbatim>\<open>new URL(v)\<close> converts its argument to a string first.\<close>

definition safeHost :: "platform \<Rightarrow> jsv \<Rightarrow> string" where
  "safeHost p v = (case url_of p (to_str v) of None \<Rightarrow> [] | Some url \<Rightarrow> u_hostname url)"

definition originFromUrl :: "platform \<Rightarrow> jsv \<Rightarrow> string" where
  "originFromUrl p v = (case url_of p (to_str v) of None \<Rightarrow> [] | Some url \<Rightarrow> u_origin url)"

definition hostsRelated :: "string \<Rightarrow> string \<Rightarrow> bool" where
  "hostsRelated left right \<longleftrightarrow> left = right"

definition looksLikeLoginUrl :: "platform \<Rightarrow> jsv \<Rightarrow> bool" where
  "looksLikeLoginUrl p v =
     (case url_of p (to_str v) of
        None \<Rightarrow> False
      | Some u \<Rightarrow>
          str_includes_any (lower (u_pathname u @ '' '' @ u_search u))
            [''login'', ''signin'', ''sign-in'', ''auth'', ''password'', ''session''])"

definition allowedPageUrl :: "platform \<Rightarrow> jsv \<Rightarrow> bool" where
  "allowedPageUrl p v =
     (case url_of p (to_str (js_or v (JStr []))) of
        None \<Rightarrow> False
      | Some parsed \<Rightarrow>
          u_protocol parsed \<in> {''https:'', ''http:''} \<and>
          (u_protocol parsed = ''https:'' \<or> u_hostname parsed = ''localhost'' \<or>
           u_hostname parsed = ''127.0.0.1'' \<or> u_hostname parsed = ''::1''))"

definition entryAllowedForPage :: "platform \<Rightarrow> jsv \<Rightarrow> jsv \<Rightarrow> bool result" where
  "entryAllowedForPage p entry pageUrl =
     res_bind (js_get entry ''website'') (\<lambda>website.
     let pageHost = safeHost p pageUrl; entryHost = safeHost p website
     in Inr (pageHost \<noteq> [] \<and> entryHost \<noteq> [] \<and> hostsRelated pageHost entryHost))"

definition defaultTitle :: "platform \<Rightarrow> jsv \<Rightarrow> string" where
  "defaultTitle p pending =
     (let host = safeHost p (js_or (js_get_opt pending ''website'') (js_get_opt pending ''submitUrl''))
      in if host \<noteq> [] then strip_www host else ''Saved Login'')"

definition fillBlockedMessage :: "string \<Rightarrow> string" where
  "fillBlockedMessage status =
     (if status = ''disconnected'' then ''Sign in to Elektrine in extension settings first.''
      else if status = ''unconfigured'' then ''Set up account-password encryption in Elektrine first.''
      else if status = ''locked'' then ''Unlock Elektrine in the extension manager first.''
      else ''Elektrine access is not available.'')"

section \<open>Pending logins\<close>

definition shouldPromptForPendingSave :: "platform \<Rightarrow> jsv \<Rightarrow> jsv \<Rightarrow> bool" where
  "shouldPromptForPendingSave p pending page =
     (let url = js_get_opt page ''url'' in
      if \<not> truthy url then False
      else
        let currentHost = safeHost p url;
            submitHost = safeHost p (js_get_opt pending ''submitUrl'') in
        if currentHost \<noteq> [] \<and> submitHost \<noteq> [] \<and> \<not> hostsRelated currentHost submitHost then False
        else if \<not> truthy (js_get_opt page ''hasVisiblePasswordField'') then True
        else url \<noteq> js_get_opt pending ''submitUrl'' \<and> \<not> looksLikeLoginUrl p url)"

text \<open>\<^verbatim>\<open>(entry.field || "").trim().toLowerCase()\<close>\<close>

definition folded_field :: "jsv \<Rightarrow> string \<Rightarrow> string result" where
  "folded_field entry field = res_bind (js_get entry field) (\<lambda>v. map_sum id lower (trim_or_empty v))"

definition existing_score :: "platform \<Rightarrow> string \<Rightarrow> string \<Rightarrow> string \<Rightarrow> jsv \<Rightarrow> (jsv \<times> int) result" where
  "existing_score p pendingHost username pendingTitle entry =
     res_bind (js_get entry ''website'') (\<lambda>website.
     let entryHost = safeHost p website;
         hostScore = (if pendingHost \<noteq> [] \<and> entryHost \<noteq> [] \<and> hostsRelated pendingHost entryHost
                      then 50 else 0) in
     res_bind (if username = [] then Inr 0
               else map_sum id (\<lambda>u. if u = username then 40 else 0) (folded_field entry ''login_username''))
       (\<lambda>userScore.
     res_bind (folded_field entry ''title'') (\<lambda>title.
     Inr (entry, hostScore + userScore + (if title = lower pendingTitle then 10 else 0)))))"

definition findExistingEntry :: "platform \<Rightarrow> jsv list \<Rightarrow> jsv \<Rightarrow> jsv result" where
  "findExistingEntry p entries pending =
     (let pendingHost = safeHost p (js_or (js_get_opt pending ''website'') (js_get_opt pending ''submitUrl'')) in
      res_bind (map_sum id lower (trim_or_empty (js_get_opt pending ''username''))) (\<lambda>username.
      res_bind (map_result (existing_score p pendingHost username (defaultTitle p pending)) entries) (\<lambda>scored.
      Inr (case js_sort (by_score_desc snd) (filter (\<lambda>(entry, score). score > 0) scored) of
             [] \<Rightarrow> JNull
           | (entry, score) # _ \<Rightarrow> js_or entry JNull))))"

section \<open>Suggestions\<close>

definition haystack :: "jsv \<Rightarrow> string result" where
  "haystack entry =
     res_bind (js_get entry ''title'') (\<lambda>title.
     res_bind (js_get entry ''login_username'') (\<lambda>username.
     res_bind (js_get entry ''website'') (\<lambda>website.
     Inr (lower (join '' '' (map to_str (filter truthy [title, username, website])))))))"

definition rank_score :: "platform \<Rightarrow> string \<Rightarrow> string \<Rightarrow> jsv \<Rightarrow> (jsv \<times> int) result" where
  "rank_score p host queryText entry =
     res_bind (js_get entry ''website'') (\<lambda>website.
     let entryHost = safeHost p website;
         hostScore = (if host \<noteq> [] \<and> entryHost \<noteq> [] then
                        (if host = entryHost then 40 else if hostsRelated host entryHost then 24 else 0)
                      else 0) in
     res_bind (haystack entry) (\<lambda>hay.
     Inr (entry, hostScore +
            (if queryText \<noteq> [] then (if str_includes hay queryText then 20 else - 100) else 0))))"

text \<open>
  Ties are compared by \<^verbatim>\<open>left.entry.title.localeCompare(...)\<close>, which throws where the title is
  not a string.  Which of two tied entries is the left one is the engine's choice; the model
  throws as soon as an entry without a string title ties with another one.
\<close>

definition tied :: "(jsv \<times> int) list \<Rightarrow> nat \<Rightarrow> bool" where
  "tied xs i \<longleftrightarrow> list_ex (\<lambda>j. j \<noteq> i \<and> snd (xs ! j) = snd (xs ! i)) [0 ..< length xs]"

definition comparable :: "(jsv \<times> int) list \<Rightarrow> bool" where
  "comparable xs \<longleftrightarrow>
     list_all (\<lambda>i. is_str (js_get_opt (fst (xs ! i)) ''title'') \<or> \<not> tied xs i) [0 ..< length xs]"

definition compare_titles :: "platform \<Rightarrow> jsv \<times> int \<Rightarrow> jsv \<times> int \<Rightarrow> int" where
  "compare_titles p left right =
     collate p (to_str (js_get_opt (fst left) ''title'')) (to_str (js_get_opt (fst right) ''title''))"

definition rankEntries :: "platform \<Rightarrow> jsv list \<Rightarrow> jsv \<Rightarrow> jsv \<Rightarrow> (jsv \<times> int) list result" where
  "rankEntries p entries pageUrl query =
     (let host = safeHost p pageUrl in
      res_bind (map_sum id lower (trim_or_empty query)) (\<lambda>queryText.
      res_bind (map_result (rank_score p host queryText) entries) (\<lambda>scored.
      let kept = filter (\<lambda>(entry, score). score \<ge> 0) scored in
      if comparable kept then Inr (js_sort (by_score_then snd (compare_titles p)) kept)
      else Inl TypeError)))"

section \<open>Lemmas\<close>

definition str_of_result :: "string result \<Rightarrow> string" where
  "str_of_result r = (case r of Inl _ \<Rightarrow> [] | Inr s \<Rightarrow> s)"

lemma safeHost_Some: "safeHost p v \<noteq> [] \<Longrightarrow> \<exists>u. url_of p (to_str v) = Some u \<and> u_hostname u = safeHost p v"
  by (auto simp: safeHost_def split: option.splits)

lemma map_sum_eq_Inr: "map_sum id f r = Inr y \<longleftrightarrow> (\<exists>x. r = Inr x \<and> y = f x)"
  by (cases r) auto

lemma existing_score_entry: "existing_score p h u t e = Inr (e', s) \<Longrightarrow> e' = e \<and> 0 \<le> s \<and> s \<le> 100"
  by (auto simp: existing_score_def res_bind_eq_Inr Let_def map_sum_eq_Inr split: if_splits)

lemma rank_score_entry: "rank_score p h q e = Inr (e', s) \<Longrightarrow> e' = e \<and> s \<in> {- 100, - 76, - 60, 0, 20, 24, 40, 44, 60}"
  by (auto simp: rank_score_def res_bind_eq_Inr Let_def split: if_splits)

lemma map_result_fst:
  assumes "map_result f xs = Inr ys" "\<And>x y s. f x = Inr (y, s) \<Longrightarrow> y = x"
  shows "map fst ys = xs"
  using assms by (induction xs arbitrary: ys) (auto simp: res_bind_eq_Inr)

lemma compare_titles_comparator: "comparator (collate p) \<Longrightarrow> comparator (compare_titles p)"
  unfolding comparator_def compare_titles_def by blast


lemma rank_score_value:
  "rank_score p host q e = Inr (e', s) \<Longrightarrow> e' = e \<and> (\<exists>h. haystack e = Inr h \<and>
    s = (if host \<noteq> [] \<and> safeHost p (js_get_opt e ''website'') = host then 40 else 0) +
         (if q = [] then 0 else if str_includes h q then 20 else - 100))"
  by (auto simp: rank_score_def res_bind_eq_Inr Let_def js_get_def hostsRelated_def split: if_splits)

lemma rankEntries_ok:
  assumes "rankEntries p entries pageUrl query = Inr xs"
  obtains q scored where "trim_or_empty query = Inr q"
    "map_result (rank_score p (safeHost p pageUrl) (lower q)) entries = Inr scored"
    "xs = js_sort (by_score_then snd (compare_titles p)) (filter (\<lambda>(entry, score). score \<ge> 0) scored)"
  using assms
  by (auto simp: rankEntries_def Let_def res_bind_eq_Inr map_sum_eq_Inr split: if_splits)

lemma findExistingEntry_ok:
  assumes "findExistingEntry p entries pending = Inr v"
  obtains u scored where "trim_or_empty (js_get_opt pending ''username'') = Inr u"
    "map_result (existing_score p (safeHost p (js_or (js_get_opt pending ''website'') (js_get_opt pending ''submitUrl'')))
        (lower u) (defaultTitle p pending)) entries = Inr scored"
    "v = (case js_sort (by_score_desc snd) (filter (\<lambda>(entry, score). score > 0) scored) of
             [] \<Rightarrow> JNull | (entry, score) # _ \<Rightarrow> js_or entry JNull)"
  using assms by (auto simp: findExistingEntry_def Let_def res_bind_eq_Inr map_sum_eq_Inr)

section \<open>Properties\<close>

text \<open>
  C24: The suggestions are entries of the vault in descending score; those saved for the
  page's host score 40 or more and so come first; and a search shows only entries whose
  title, user name and website contain the query.
\<close>

theorem rankEntries_order:
  assumes "rankEntries p entries pageUrl query = Inr xs" "comparator (collate p)"
  shows "sorted_wrt (\<lambda>a b. snd b \<le> snd a) xs \<and>
    (\<forall>(e, s) \<in> set xs. e \<in> set entries \<and> s \<in> {0, 20, 40, 60} \<and>
       (40 \<le> s \<longleftrightarrow> safeHost p pageUrl \<noteq> [] \<and> safeHost p (js_get_opt e ''website'') = safeHost p pageUrl) \<and>
       (\<forall>q. trim_or_empty query = Inr q \<and> q \<noteq> [] \<longrightarrow> (\<exists>h. haystack e = Inr h \<and> str_includes h (lower q))))"
proof -
  from assms(1) obtain q scored where q: "trim_or_empty query = Inr q"
    and sc: "map_result (rank_score p (safeHost p pageUrl) (lower q)) entries = Inr scored"
    and xs: "xs = js_sort (by_score_then snd (compare_titles p)) (filter (\<lambda>(entry, score). score \<ge> 0) scored)"
    by (rule rankEntries_ok)
  have "comparator (by_score_then snd (compare_titles p))"
    by (intro comparator_then compare_titles_comparator assms(2))
  then have "sorted_wrt (\<lambda>a b. by_score_then snd (compare_titles p) a b \<le> 0) xs"
    unfolding xs by (rule comparator.sorted_sort)
  then have "sorted_wrt (\<lambda>a b. snd b \<le> snd a) xs"
    by (rule sorted_wrt_mono_rel [rotated]) (auto simp: by_score_then_def split: if_splits)
  moreover have "e \<in> set entries \<and> s \<in> {0, 20, 40, 60} \<and>
       (40 \<le> s \<longleftrightarrow> safeHost p pageUrl \<noteq> [] \<and> safeHost p (js_get_opt e ''website'') = safeHost p pageUrl) \<and>
       (\<forall>q'. trim_or_empty query = Inr q' \<and> q' \<noteq> [] \<longrightarrow> (\<exists>h. haystack e = Inr h \<and> str_includes h (lower q')))"
    if "(e, s) \<in> set xs" for e s
  proof -
    from that have "(e, s) \<in> set scored" "0 \<le> s" by (auto simp: xs)
    with map_result_set [OF sc] obtain e0 where "e0 \<in> set entries"
      "rank_score p (safeHost p pageUrl) (lower q) e0 = Inr (e, s)" by blast
    moreover from rank_score_value [OF this(2)] obtain h where "e = e0" "haystack e0 = Inr h"
      "s = (if safeHost p pageUrl \<noteq> [] \<and> safeHost p (js_get_opt e0 ''website'') = safeHost p pageUrl then 40 else 0) +
         (if lower q = [] then 0 else if str_includes h (lower q) then 20 else - 100)" by blast
    ultimately show ?thesis using \<open>0 \<le> s\<close> q by (auto simp: lower_def split: if_splits)
  qed
  ultimately show ?thesis by blast
qed

text \<open>
  The entry a submitted login would update is one of the vault's entries with the
  highest score, and there is none exactly when no entry scores.
\<close>

theorem findExistingEntry_best:
  assumes "findExistingEntry p entries pending = Inr v" "\<forall>e \<in> set entries. truthy e"
    and "score = existing_score p (safeHost p (js_or (js_get_opt pending ''website'') (js_get_opt pending ''submitUrl'')))
           (lower (str_of_result (trim_or_empty (js_get_opt pending ''username'')))) (defaultTitle p pending)"
  shows "v = JNull \<and> (\<forall>e \<in> set entries. score e = Inr (e, 0)) \<or>
    v \<in> set entries \<and> (\<exists>s > 0. score v = Inr (v, s) \<and> (\<forall>e \<in> set entries. \<exists>s' \<le> s. score e = Inr (e, s')))"
proof -
  from assms(1) obtain u scored where
    sc: "map_result score entries = Inr scored"
    and v: "v = (case js_sort (by_score_desc snd) (filter (\<lambda>(entry, score). score > 0) scored) of
             [] \<Rightarrow> JNull | (entry, score) # _ \<Rightarrow> js_or entry JNull)"
    unfolding assms(3) by (rule findExistingEntry_ok) (simp add: str_of_result_def)
  have f: "\<exists>s. score e = Inr (e, s) \<and> (e, s) \<in> set scored \<and> 0 \<le> s" if e: "e \<in> set entries" for e
  proof -
    from map_result_hit [OF sc e] obtain e' s where "score e = Inr (e', s)" "(e', s) \<in> set scored" by fastforce
    with existing_score_entry show ?thesis unfolding assms(3) by blast
  qed
  have g: "e \<in> set entries \<and> score e = Inr (e, s)" if "(e, s) \<in> set scored" for e s
  proof -
    from map_result_set [OF sc that] obtain x where x: "x \<in> set entries" "score x = Inr (e, s)" by blast
    moreover have "e = x" using x(2) existing_score_entry unfolding assms(3) by blast
    ultimately show ?thesis by simp
  qed
  let ?k = "filter (\<lambda>(entry, score). score > 0) scored"
  show ?thesis
  proof (cases "js_sort (by_score_desc snd) ?k")
    case Nil
    then have "\<forall>(e, s) \<in> set scored. \<not> 0 < s" by (auto simp: filter_empty_conv)
    then have "\<forall>e \<in> set entries. score e = Inr (e, 0)" using f by fastforce
    with v Nil show ?thesis by simp
  next
    case (Cons x ys)
    obtain e s where x: "x = (e, s)" by (cases x)
    from Cons have mem: "x \<in> set ?k" by (metis list.set_intros(1) set_js_sort)
    then have es: "e \<in> set entries" "score e = Inr (e, s)" "0 < s" using g x by auto
    have "\<exists>s' \<le> s. score e' = Inr (e', s')" if "e' \<in> set entries" for e'
    proof -
      from f [OF that] obtain s' where s': "score e' = Inr (e', s')" "(e', s') \<in> set scored" by blast
      have "s' \<le> s"
      proof (cases "0 < s'")
        case True
        with s'(2) have "(e', s') \<in> set ?k" by simp
        from score_desc.hd_sort_least [OF this, of snd] Cons x show ?thesis by (simp add: by_score_desc_def)
      qed (use es(3) in simp)
      with s'(1) show ?thesis by blast
    qed
    moreover have "v = e" using v Cons x es(1) assms(2) by (simp add: js_or_def)
    ultimately show ?thesis using es by blast
  qed
qed

definition sample_entry :: jsv where
  "sample_entry = JObj [(''id'', JNum 1), (''title'', JStr ''Shop''), (''login_username'', JStr ''ann''),
     (''website'', JStr ''https://shop.example'')]"

definition other_entry :: jsv where
  "other_entry = JObj [(''id'', JNum 2), (''title'', JStr ''Other''), (''login_username'', JStr ''bob''), (''website'', JNull)]"

theorem rankEntries_order_witness:
  "\<exists>xs. rankEntries (sample_platform JNull) [other_entry, sample_entry] (JStr ''https://shop.example/login'') (JStr '' SHO'') = Inr xs \<and>
     sorted_wrt (\<lambda>a b. snd b \<le> snd a) xs \<and> xs = [(sample_entry, 60)]"
proof -
  have r: "rankEntries (sample_platform JNull) [other_entry, sample_entry] (JStr ''https://shop.example/login'') (JStr '' SHO'') =
      Inr [(sample_entry, 60)]" by code_simp
  have "comparator (collate (sample_platform JNull))"
    by unfold_locales (auto simp: sample_platform_def split: if_splits)
  from rankEntries_order [OF r this] r show ?thesis by blast
qed

definition sample_pending :: jsv where
  "sample_pending = JObj [(''submitUrl'', JStr ''https://shop.example/login''), (''website'', JStr ''https://shop.example''),
     (''username'', JStr ''Ann ''), (''password'', JStr ''pw''), (''pageTitle'', JStr ''Shop''), (''recordedAt'', JNum 999000)]"

theorem findExistingEntry_best_witness:
  "\<exists>v. findExistingEntry (sample_platform JNull) [other_entry, sample_entry] sample_pending = Inr v \<and>
     v \<in> set [other_entry, sample_entry] \<and> v = sample_entry"
proof -
  have r: "findExistingEntry (sample_platform JNull) [other_entry, sample_entry] sample_pending = Inr sample_entry" by code_simp
  have t: "\<forall>e \<in> set [other_entry, sample_entry]. truthy e" by code_simp
  have "sample_entry \<noteq> JNull" by (simp add: sample_entry_def)
  with findExistingEntry_best [OF r t refl] r show ?thesis by blast
qed

end
