(* ===== verification/Session.thy ===== *)
theory Session
  imports Ranking Storage Crypto
begin

text \<open>
  The account-password session of \<^verbatim>\<open>clients/nerve-extension/background.js\<close>: the password is
  held in the module variable \<open>sessionPassphrase\<close> only, with an expiry that every use of the
  vault pushes back, a timer, and a broadcast to the open pages when it changes.  The state
  \<open>background\<close> is the \<open>world\<close> with those variables, the messages sent to tabs, and what the
  worker has done to the browser's user interface.
\<close>

section \<open>State\<close>

definition VAULT_SESSION_IDLE_TIMEOUT_MS :: int where "VAULT_SESSION_IDLE_TIMEOUT_MS = 15 * 60 * 1000"

datatype ui_effect =
    OpenOptionsPage
  | OpenTab string
  | RemoveMenus
  | CreateMenu string string "string list" "string list" "string list"
  | BadgeText string
  | BadgeColor string
  | BadgeClearAfter int
  | ConsoleWarn string

text \<open>\<open>sessionPassphraseTimer\<close> is the time the pending timeout is due.\<close>

record background = world +
  sessionPassphrase :: jsv
  sessionPassphraseExpiresAt :: int
  sessionPassphraseTimer :: "int option"
  tab_log :: "(jsv \<times> string) list"
  ui_log :: "ui_effect list"

type_synonym 'a bg = "(background, 'a) io"

section \<open>Operations\<close>

definition queryPageTabs :: "platform \<Rightarrow> tab list" where
  "queryPageTabs p = page_tabs p"

definition broadcastNerveSessionChanged :: "platform \<Rightarrow> string \<Rightarrow> unit bg" where
  "broadcastNerveSessionChanged p status =
     (if \<not> has_api p ''tabs.query'' \<or> \<not> has_api p ''tabs.sendMessage'' then ret ()
      else
        let tabs = queryPageTabs p in
        update (\<lambda>b. b\<lparr>tab_log := tab_log b @
          map (\<lambda>t. (tab_id t, status))
            (filter (\<lambda>t. truthy (tab_id t) \<and> allowedPageUrl p (tab_url t)) tabs)\<rparr>))"

definition clearRuntimeSessionPassphrase :: "platform \<Rightarrow> bool \<Rightarrow> unit bg" where
  "clearRuntimeSessionPassphrase p broadcast =
     seqc (update (\<lambda>b. b\<lparr>sessionPassphrase := JStr [], sessionPassphraseExpiresAt := 0,
                         sessionPassphraseTimer := None\<rparr>))
     (seqc (clearSessionPassphrase p)
     (if broadcast then broadcastNerveSessionChanged p ''locked'' else ret ()))"

text \<open>
  Where the password is empty the clearing is started and not waited for, so its failure is
  dropped; otherwise a new timeout replaces the pending one.
\<close>

definition scheduleSessionPassphraseExpiry :: "platform \<Rightarrow> unit bg" where
  "scheduleSessionPassphraseExpiry p =
     bind (reads sessionPassphrase) (\<lambda>passphrase.
     if \<not> truthy passphrase then
       catch (clearRuntimeSessionPassphrase p False) (\<lambda>_. ret ())
     else
       update (\<lambda>b. b\<lparr>sessionPassphraseExpiresAt := clock b + VAULT_SESSION_IDLE_TIMEOUT_MS,
                    sessionPassphraseTimer := Some (clock b + VAULT_SESSION_IDLE_TIMEOUT_MS)\<rparr>))"

definition expireSessionPassphraseIfNeeded :: "platform \<Rightarrow> bool bg" where
  "expireSessionPassphraseIfNeeded p =
     bind (reads (\<lambda>b. truthy (sessionPassphrase b) \<and> sessionPassphraseExpiresAt b > 0 \<and>
                      clock b \<ge> sessionPassphraseExpiresAt b)) (\<lambda>expired.
     if expired then seqc (clearRuntimeSessionPassphrase p True) (ret True) else ret False)"

definition currentSessionPassphrase :: "platform \<Rightarrow> jsv bg" where
  "currentSessionPassphrase p =
     bind (expireSessionPassphraseIfNeeded p) (\<lambda>expired.
     if expired then ret (JStr []) else reads sessionPassphrase)"

section \<open>The invariant\<close>

text \<open>The module variables of the session, with the clock they are compared to.\<close>

definition session_vars :: "background \<Rightarrow> jsv \<times> int \<times> int option \<times> int" where
  "session_vars b = (sessionPassphrase b, sessionPassphraseExpiresAt b, sessionPassphraseTimer b, clock b)"

text \<open>
  Either there is no password, no expiry and no timer, or there is a password whose timer is
  due at its expiry, which lies at most fifteen minutes ahead.
\<close>

definition session_locked :: "background \<Rightarrow> bool" where
  "session_locked b \<longleftrightarrow> \<not> truthy (sessionPassphrase b) \<and> sessionPassphraseExpiresAt b = 0 \<and>
     sessionPassphraseTimer b = None"

definition session_armed :: "background \<Rightarrow> bool" where
  "session_armed b \<longleftrightarrow> truthy (sessionPassphrase b) \<and> sessionPassphraseExpiresAt b > 0 \<and>
     sessionPassphraseTimer b = Some (sessionPassphraseExpiresAt b) \<and>
     sessionPassphraseExpiresAt b \<le> clock b + VAULT_SESSION_IDLE_TIMEOUT_MS"

definition session_inv :: "background \<Rightarrow> bool" where
  "session_inv b \<longleftrightarrow> 0 \<le> clock b \<and> (session_locked b \<or> session_armed b)"

lemmas session_inv_defs = session_inv_def session_locked_def session_armed_def

lemma session_inv_cong: "session_vars b = session_vars c \<Longrightarrow> session_inv b = session_inv c"
  by (simp add: session_vars_def session_inv_defs)

lemma keeps_session_inv: "keeps session_vars m \<Longrightarrow> maintains session_inv m"
  by (rule maintainsI) (metis keepsD session_inv_cong)

text \<open>Operations on the world do not touch the session's variables.\<close>

lemma keeps_storage [keeps_intros]:
  "keeps session_vars (storageGet p a ks)"
  "keeps session_vars (storageSet p a vs)"
  "keeps session_vars (storageRemove p a k)"
  by (auto simp: keeps_def session_vars_def storage_run op_outcome_def set_area_def
      split: prod.split sum.split option.split area.split)

lemma keeps_fetch [keeps_intros]: "keeps session_vars (fetch p r)"
  by (auto simp: keeps_def session_vars_def fetch_run split: fetch_outcome.split)

lemma keeps_random [keeps_intros]: "keeps session_vars (random_bytes p n)"
  by (simp add: keeps_def session_vars_def random_bytes_run)

lemma keeps_pending [keeps_intros]:
  "keeps session_vars (getPendingSave k)"
  "keeps session_vars (setPendingSave k v)"
  "keeps session_vars (clearPendingSave k)"
  by (auto simp: keeps_def session_vars_def pending_run split: option.split)

lemma keeps_staged [keeps_intros]:
  "keeps session_vars (getStagedFill p k)"
  "keeps session_vars (setStagedFill p k v)"
  "keeps session_vars (clearStagedFill p k)"
  unfolding getStagedFill_def setStagedFill_def clearStagedFill_def getSessionMapEntry_def
    setSessionMapEntry_def clearSessionMapEntry_def sessionMapValues_def
  by (intro keeps_intros)+

lemma keeps_settings [keeps_intros]: "keeps session_vars (getSettings p)"
  unfolding getSettings_def by (intro keeps_intros)

lemma keeps_clearSessionPassphrase [keeps_intros]: "keeps session_vars (clearSessionPassphrase p)"
  unfolding clearSessionPassphrase_def by (intro keeps_intros)

lemma keeps_encryptValue [keeps_intros]: "keeps session_vars (encryptValue p s k a)"
  unfolding encryptValue_def by (intro keeps_intros)

lemma keeps_broadcast [keeps_intros]: "keeps session_vars (broadcastNerveSessionChanged p status)"
  unfolding broadcastNerveSessionChanged_def Let_def
  by (intro keeps_intros keeps_update) (simp add: session_vars_def)

text \<open>Clearing leaves the session locked on every path, failures included.\<close>

lemma clear_locks:
  "clearRuntimeSessionPassphrase p bc b = (r, c) \<Longrightarrow> session_locked c \<and> clock c = clock b"
proof -
  assume r: "clearRuntimeSessionPassphrase p bc b = (r, c)"
  let ?b = "b\<lparr>sessionPassphrase := JStr [], sessionPassphraseExpiresAt := 0, sessionPassphraseTimer := None\<rparr>"
  have "keeps session_vars (seqc (clearSessionPassphrase p)
     (if bc then broadcastNerveSessionChanged p ''locked'' else ret ()))"
    by (intro keeps_intros)
  with r have "session_vars c = session_vars ?b"
    by (auto simp: clearRuntimeSessionPassphrase_def seqc_run [of "update _"] update_run dest: keepsD)
  then show ?thesis by (simp add: session_vars_def session_locked_def)
qed

lemma clear_maintains [maintains_intros]: "maintains session_inv (clearRuntimeSessionPassphrase p bc)"
  by (rule maintainsI) (metis clear_locks session_inv_def)

lemma schedule_arms:
  assumes "scheduleSessionPassphraseExpiry p b = (r, c)"
  shows "r = Inr () \<and> clock c = clock b \<and>
    (if truthy (sessionPassphrase b)
     then session_vars c = (sessionPassphrase b, clock b + VAULT_SESSION_IDLE_TIMEOUT_MS,
            Some (clock b + VAULT_SESSION_IDLE_TIMEOUT_MS), clock b)
     else session_locked c)"
  using assms clear_locks [of p False b]
  by (auto simp: scheduleSessionPassphraseExpiry_def run_simps session_vars_def
      split: if_splits prod.splits sum.splits)

lemma schedule_inv:
  assumes "scheduleSessionPassphraseExpiry p b = (r, c)" "0 \<le> clock b"
  shows "session_inv c"
  using schedule_arms [OF assms(1)] assms(2)
  by (auto simp: session_inv_defs session_vars_def VAULT_SESSION_IDLE_TIMEOUT_MS_def split: if_splits)

lemma schedule_maintains [maintains_intros]: "maintains session_inv (scheduleSessionPassphraseExpiry p)"
  by (rule maintainsI) (metis schedule_inv session_inv_def)

lemma expire_maintains [maintains_intros]: "maintains session_inv (expireSessionPassphraseIfNeeded p)"
  unfolding expireSessionPassphraseIfNeeded_def by (intro maintains_intros)

lemma current_maintains [maintains_intros]: "maintains session_inv (currentSessionPassphrase p)"
  unfolding currentSessionPassphrase_def by (intro maintains_intros)

text \<open>The password is only answered before its expiry.\<close>

lemma current_passphrase:
  assumes "currentSessionPassphrase p b = (Inr v, c)" "session_inv b" "truthy v"
  shows "v = sessionPassphrase b \<and> c = b \<and> clock b < sessionPassphraseExpiresAt b \<and> session_armed b"
  using assms
  by (auto simp: currentSessionPassphrase_def expireSessionPassphraseIfNeeded_def run_simps session_inv_defs
      split: if_splits prod.splits sum.splits)

end
