(* ===== verification/Capture.thy ===== *)
theory Capture
  imports Session Api Kairo
begin

text \<open>
  Capturing to Kairo in \<^verbatim>\<open>clients/nerve-extension/background.js\<close>: the context menus, the
  capture of a page or a selection, the download of a file with its size checks, and the
  name under which it is uploaded.
\<close>

section \<open>Menus and the badge\<close>

definition KAIRO_CAPTURE_MAX_FILE_BYTES :: int where "KAIRO_CAPTURE_MAX_FILE_BYTES = 25 * 1024 * 1024"
definition MENU_PAGE :: string where "MENU_PAGE = ''kairo-capture-page''"
definition MENU_SELECTION :: string where "MENU_SELECTION = ''kairo-capture-selection''"
definition MENU_FILE :: string where "MENU_FILE = ''kairo-capture-file''"

definition ALLOWED_PAGE_PATTERNS :: "string list" where
  "ALLOWED_PAGE_PATTERNS = [''https://*/*'', ''http://localhost/*'', ''http://127.0.0.1/*'', ''http://[::1]/*'']"

definition installContextMenus :: "platform \<Rightarrow> unit bg" where
  "installContextMenus p =
     (if \<not> has_api p ''contextMenus.removeAll'' \<or> \<not> has_api p ''contextMenus.create'' then ret ()
      else update (\<lambda>b. b\<lparr>ui_log := ui_log b @
        [RemoveMenus,
         CreateMenu MENU_PAGE ''Capture page to Kairo'' [''page''] ALLOWED_PAGE_PATTERNS [],
         CreateMenu MENU_SELECTION ''Capture selection to Kairo'' [''selection''] ALLOWED_PAGE_PATTERNS [],
         CreateMenu MENU_FILE ''Save file to Kairo'' [''image'', ''video'', ''audio'', ''link''] [] ALLOWED_PAGE_PATTERNS]\<rparr>))"

definition ui :: "ui_effect \<Rightarrow> unit bg" where
  "ui e = update (\<lambda>b. b\<lparr>ui_log := ui_log b @ [e]\<rparr>)"

definition setActionBadge :: "platform \<Rightarrow> string \<Rightarrow> string \<Rightarrow> unit bg" where
  "setActionBadge p text color =
     (if \<not> has_api p ''action.setBadgeText'' then ret ()
      else seqc (ui (BadgeText text))
        (seqc (if has_api p ''action.setBadgeBackgroundColor'' then ui (BadgeColor color) else ret ())
          (ui (BadgeClearAfter 1800))))"

section \<open>Pages and selections\<close>

definition capture_of :: "platform \<Rightarrow> jsv \<Rightarrow> jsv \<Rightarrow> capture" where
  "capture_of p info tab =
     (let pageUrl = js_or (js_get_opt info ''pageUrl'') (js_get_opt tab ''url'') in
      \<lparr>cap_url = js_or pageUrl (JStr []),
       cap_title = js_or (js_get_opt tab ''title'') (js_or (JStr (Ranking.safeHost p pageUrl)) (JStr ''Captured page'')),
       cap_selectionText =
         (if js_get_opt info ''menuItemId'' = JStr MENU_SELECTION
          then js_or (js_get_opt info ''selectionText'') (JStr []) else JStr [])\<rparr>)"

definition connected_settings :: "platform \<Rightarrow> settings bg" where
  "connected_settings p =
     bind (getSettings p) (\<lambda>st.
     if \<not> truthy (serverUrl st) \<or> \<not> truthy (apiToken st)
     then raise (Error ''Connect your Elektrine account before capturing.'') else ret st)"

definition captureContextToKairo :: "platform \<Rightarrow> jsv \<Rightarrow> jsv \<Rightarrow> unit bg" where
  "captureContextToKairo p info tab =
     catch
       (bind (connected_settings p) (\<lambda>st.
        bind (reads clock) (\<lambda>now.
        bind (lift (kairoSourceAttrs p now (capture_of p info tab))) (\<lambda>attrs.
        bind (createKairoSource p st attrs) (\<lambda>_.
        setActionBadge p ''OK'' ''#6f8b74'')))))
       (\<lambda>error.
        seqc (ui (ConsoleWarn (''Kairo capture failed: '' @ kairoErrorMessage p error)))
          (setActionBadge p ''!'' ''#a56b68''))"

section \<open>Files: checks\<close>

definition localHttpUrl :: "url \<Rightarrow> bool" where
  "localHttpUrl url \<longleftrightarrow>
     u_protocol url = ''http:'' \<and> u_hostname url \<in> {''localhost'', ''127.0.0.1'', ''[::1]''}"

definition allowedRemoteFileUrl :: "platform \<Rightarrow> jsv \<Rightarrow> bool" where
  "allowedRemoteFileUrl p v =
     (case url_of p (to_str v) of
        None \<Rightarrow> False
      | Some url \<Rightarrow> u_protocol url = ''https:'' \<or> localHttpUrl url)"

text \<open>\<^verbatim>\<open>Number.parseInt(s, 10)\<close>: the number at the start of the text, or NaN.\<close>

definition parse_int_prefix :: "string \<Rightarrow> int option" where
  "parse_int_prefix s =
     (let t = dropWhile is_space s;
          signed = (t \<noteq> [] \<and> (hd t = CHR ''-'' \<or> hd t = CHR ''+''));
          ds = takeWhile is_digit (if signed then tl t else t)
      in if ds = [] then None
         else Some (if signed \<and> hd t = CHR ''-'' then - int (digits_val ds) else int (digits_val ds)))"

definition assertContentLengthWithinLimit :: "string option \<Rightarrow> unit result" where
  "assertContentLengthWithinLimit value =
     (case parse_int_prefix (case value of None \<Rightarrow> [] | Some v \<Rightarrow> v) of
        None \<Rightarrow> Inr ()
      | Some n \<Rightarrow>
          if n > KAIRO_CAPTURE_MAX_FILE_BYTES
          then Inl (Error ''That file is too large to save to Kairo.'') else Inr ())"

definition file_request :: "string \<Rightarrow> string \<Rightarrow> request" where
  "file_request verb url =
     \<lparr>req_method = verb, req_url = url, req_headers = [], req_body = NoBody, req_omit_credentials = True\<rparr>"

definition verifyRemoteFileSize :: "platform \<Rightarrow> string \<Rightarrow> unit bg" where
  "verifyRemoteFileSize p targetUrl =
     catch
       (bind (fetch p (file_request ''HEAD'' targetUrl)) (\<lambda>response.
        if res_ok response then lift (assertContentLengthWithinLimit (res_header response ''content-length''))
        else ret ()))
       (\<lambda>_. ret ())"

section \<open>Files: names\<close>

definition normalizedContentType :: "string option \<Rightarrow> string" where
  "normalizedContentType value =
     lower (trim (hd (split_by (\<lambda>c. c = CHR '';'') (case value of None \<Rightarrow> [] | Some v \<Rightarrow> v))))"

definition quote :: char where "quote = CHR 0x22"

text \<open>The leftmost position of the text where a pattern matches.\<close>

fun first_match :: "(string \<Rightarrow> string option) \<Rightarrow> string \<Rightarrow> string option" where
  "first_match m [] = m []"
| "first_match m (c # s) = (case m (c # s) of Some r \<Rightarrow> Some r | None \<Rightarrow> first_match m s)"

text \<open>\<^verbatim>\<open>/filename\*=UTF-8''([^;]+)/i\<close> and \<^verbatim>\<open>/filename="?([^";]+)"?/i\<close>\<close>

definition encoded_prefix :: string where
  "encoded_prefix = ''filename*=utf-8'' @ [CHR 0x27, CHR 0x27]"

definition match_encoded :: "string \<Rightarrow> string option" where
  "match_encoded s =
     (if \<not> starts_with (lower s) encoded_prefix then None
      else let r = takeWhile (\<lambda>c. c \<noteq> CHR '';'') (drop (length encoded_prefix) s)
           in if r = [] then None else Some r)"

definition match_plain :: "string \<Rightarrow> string option" where
  "match_plain s =
     (if \<not> starts_with (lower s) ''filename='' then None
      else let t = drop (length ''filename='') s;
               u = (if t \<noteq> [] \<and> hd t = quote then tl t else t);
               r = takeWhile (\<lambda>c. c \<noteq> quote \<and> c \<noteq> CHR '';'') u
           in if r = [] then None else Some r)"

text \<open>\<^verbatim>\<open>replace(/^"|"$/g, "")\<close>\<close>

definition strip_quotes :: "string \<Rightarrow> string" where
  "strip_quotes s =
     (let t = (if s \<noteq> [] \<and> hd s = quote then tl s else s)
      in if t \<noteq> [] \<and> last t = quote then butlast t else t)"

definition filenameFromContentDisposition :: "platform \<Rightarrow> string \<Rightarrow> string" where
  "filenameFromContentDisposition p disposition =
     (case first_match match_encoded disposition of
        Some encoded \<Rightarrow>
          (case decode_uri p (strip_quotes encoded) of
             None \<Rightarrow> strip_quotes encoded
           | Some name \<Rightarrow> name)
      | None \<Rightarrow>
          (case first_match match_plain disposition of None \<Rightarrow> [] | Some plain \<Rightarrow> plain))"

definition filenameFromUrl :: "platform \<Rightarrow> jsv \<Rightarrow> string" where
  "filenameFromUrl p v =
     (case url_of p (to_str v) of
        None \<Rightarrow> []
      | Some url \<Rightarrow>
          (let parts = filter (\<lambda>w. w \<noteq> []) (split_by (\<lambda>c. c = CHR ''/'') (u_pathname url))
           in case decode_uri p (if parts = [] then [] else last parts) of
                None \<Rightarrow> []
              | Some name \<Rightarrow> name))"

definition is_control :: "char \<Rightarrow> bool" where
  "is_control c \<longleftrightarrow> of_char c < (32::nat) \<or> of_char c = (127::nat)"

definition sanitizeDownloadFilename :: "string \<Rightarrow> string" where
  "sanitizeDownloadFilename value =
     (let v = (if value = [] then ''kairo-file'' else value);
          name = last (split_by (\<lambda>c. c = CHR 0x5C \<or> c = CHR ''/'') v);
          result = take 120 (trim (filter (\<lambda>c. \<not> is_control c) name))
      in if result = [] then ''kairo-file'' else result)"

definition extensionForContentType :: "string \<Rightarrow> string" where
  "extensionForContentType contentType =
     (if contentType \<in> {''image/jpeg'', ''image/jpg''} then ''.jpg''
      else if contentType = ''image/png'' then ''.png''
      else if contentType = ''image/gif'' then ''.gif''
      else if contentType = ''image/webp'' then ''.webp''
      else if contentType = ''image/heic'' then ''.heic''
      else if contentType = ''image/heif'' then ''.heif''
      else if contentType = ''image/avif'' then ''.avif''
      else if contentType = ''application/pdf'' then ''.pdf''
      else if contentType = ''application/json'' then ''.json''
      else if contentType \<in> {''application/markdown'', ''text/markdown''} then ''.md''
      else if contentType = ''text/plain'' then ''.txt''
      else ''.bin'')"

definition is_alnum :: "char \<Rightarrow> bool" where
  "is_alnum c \<longleftrightarrow> is_digit c \<or> is_letter c"

text \<open>\<^verbatim>\<open>/\.[a-z0-9]{1,8}$/i\<close>\<close>

definition has_extension :: "string \<Rightarrow> bool" where
  "has_extension s =
     (let e = takeWhile is_alnum (rev s); rest = dropWhile is_alnum (rev s)
      in 1 \<le> length e \<and> length e \<le> 8 \<and> rest \<noteq> [] \<and> hd rest = CHR ''.'')"

definition downloadFilename :: "platform \<Rightarrow> jsv \<Rightarrow> response \<Rightarrow> string \<Rightarrow> string" where
  "downloadFilename p url response contentType =
     (let disposition = (case res_header response ''content-disposition'' of None \<Rightarrow> [] | Some d \<Rightarrow> d);
          dispositionName = filenameFromContentDisposition p disposition;
          urlName = filenameFromUrl p url;
          filename = sanitizeDownloadFilename
            (if dispositionName \<noteq> [] then dispositionName else if urlName \<noteq> [] then urlName else ''kairo-file'')
      in if has_extension filename then filename else filename @ extensionForContentType contentType)"

section \<open>Files: the capture\<close>

definition file_attrs :: "platform \<Rightarrow> int \<Rightarrow> string \<Rightarrow> jsv \<Rightarrow> (string \<times> jsv) list" where
  "file_attrs p now filename targetUrl =
     [(''title'', JStr filename),
      (''url'', targetUrl),
      (''tags'', JStr ''capture, browser-extension''),
      (''metadata'', JObj [(''capture_type'', JStr ''file''),
                           (''captured_at'', JStr (iso_time p now)),
                           (''source'', JStr ''nerve-extension'')])]"

definition captureFileToKairo :: "platform \<Rightarrow> jsv \<Rightarrow> unit bg" where
  "captureFileToKairo p info =
     catch
       (bind (connected_settings p) (\<lambda>st.
        let targetUrl = js_or (js_get_opt info ''srcUrl'') (js_or (js_get_opt info ''linkUrl'') (JStr [])) in
        if \<not> allowedRemoteFileUrl p targetUrl then
          raise (Error ''Only http and https files can be saved to Kairo.'')
        else
          seqc (verifyRemoteFileSize p (to_str targetUrl))
          (bind (fetch p (file_request ''GET'' (to_str targetUrl))) (\<lambda>response.
           if \<not> res_ok response then
             raise (Error (''Could not download file ('' @ show_int (res_status response) @ '').''))
           else
             bind (lift (assertContentLengthWithinLimit (res_header response ''content-length''))) (\<lambda>_.
             let contentType = normalizedContentType (res_header response ''content-type'') in
             if int (res_blob_size response) > KAIRO_CAPTURE_MAX_FILE_BYTES then
               raise (Error ''That file is too large to save to Kairo.'')
             else
               let filename = downloadFilename p targetUrl response contentType;
                   upload = \<lparr>file_name = filename, file_size = res_blob_size response,
                             file_type = (if contentType \<noteq> [] then contentType else res_blob_type response)\<rparr> in
               bind (reads clock) (\<lambda>now.
               bind (createKairoFileSource p st upload (file_attrs p now filename targetUrl)) (\<lambda>_.
               setActionBadge p ''OK'' ''#6f8b74'')))))))
       (\<lambda>error.
        seqc (ui (ConsoleWarn (''Kairo file capture failed: '' @ kairoErrorMessage p error)))
          (setActionBadge p ''!'' ''#a56b68''))"

text \<open>The context-menu listener.\<close>

definition onMenuClicked :: "platform \<Rightarrow> jsv \<Rightarrow> jsv \<Rightarrow> unit bg" where
  "onMenuClicked p info tab =
     (if js_get_opt info ''menuItemId'' = JStr MENU_FILE then captureFileToKairo p info
      else if js_get_opt info ''menuItemId'' \<in> {JStr MENU_PAGE, JStr MENU_SELECTION}
           then captureContextToKairo p info tab
      else ret ())"

section \<open>Lemmas\<close>

lemma sanitize_cases:
  obtains "sanitizeDownloadFilename v = ''kairo-file''"
  | w where "sanitizeDownloadFilename v =
      take 120 (trim (filter (\<lambda>c. \<not> is_control c) (last (split_by (\<lambda>c. c = CHR 0x5C \<or> c = CHR ''/'') w))))"
    "sanitizeDownloadFilename v \<noteq> []"
proof -
  define w where "w = (if v = [] then ''kairo-file'' else v)"
  let ?r = "take 120 (trim (filter (\<lambda>c. \<not> is_control c) (last (split_by (\<lambda>c. c = CHR 0x5C \<or> c = CHR ''/'') w))))"
  have eq: "sanitizeDownloadFilename v = (if ?r = [] then ''kairo-file'' else ?r)"
    unfolding sanitizeDownloadFilename_def Let_def w_def [symmetric] by (rule refl)
  show thesis
  proof (cases "?r = []")
    case True
    show thesis by (rule that(1)) (rule eq [unfolded if_P [OF True]])
  next
    case False
    have e: "sanitizeDownloadFilename v = ?r" by (rule eq [unfolded if_not_P [OF False]])
    show thesis by (rule that(2) [OF e]) (unfold e, rule False)
  qed
qed

lemma sanitize_nonempty: "sanitizeDownloadFilename v \<noteq> []"
  by (rule sanitize_cases [of v]) simp_all

lemma sanitize_length: "length (sanitizeDownloadFilename v) \<le> 120"
proof (rule sanitize_cases [of v])
  assume "sanitizeDownloadFilename v = ''kairo-file''"
  then show ?thesis by simp
qed (simp only: length_take min.cobounded2)

lemma set_trim: "set (trim s) \<subseteq> set s"
  using trim_infix [of s] by (metis UnCI set_append subsetI)

lemma default_name_chars: "\<forall>c \<in> set ''kairo-file''. \<not> is_control c \<and> c \<noteq> CHR ''/'' \<and> c \<noteq> CHR 0x5C"
  by code_simp

lemma sanitize_chars: "c \<in> set (sanitizeDownloadFilename v) \<Longrightarrow> \<not> is_control c \<and> c \<noteq> CHR ''/'' \<and> c \<noteq> CHR 0x5C"
proof -
  assume c: "c \<in> set (sanitizeDownloadFilename v)"
  show ?thesis
  proof (rule sanitize_cases [of v])
    assume "sanitizeDownloadFilename v = ''kairo-file''"
    from default_name_chars c [unfolded this] show ?thesis by (rule bspec)
  next
    fix w
    let ?ws = "split_by (\<lambda>c. c = CHR 0x5C \<or> c = CHR ''/'') w"
    assume "sanitizeDownloadFilename v = take 120 (trim (filter (\<lambda>c. \<not> is_control c) (last ?ws)))"
    from c [unfolded this] have "c \<in> set (trim (filter (\<lambda>c. \<not> is_control c) (last ?ws)))" by (rule in_set_takeD)
    then have "c \<in> set (filter (\<lambda>c. \<not> is_control c) (last ?ws))" using set_trim by (rule subsetD [rotated])
    then have "c \<in> set (last ?ws)" "\<not> is_control c" by simp_all
    moreover have "\<forall>d \<in> set (last ?ws). \<not> (d = CHR 0x5C \<or> d = CHR ''/'')"
      by (rule split_by_no_sep [OF last_in_set [OF split_by_not_Nil]])
    ultimately show ?thesis by blast
  qed
qed

lemma extension_chars:
  "\<forall>c \<in> set (extensionForContentType t). \<not> is_control c \<and> c \<noteq> CHR ''/'' \<and> c \<noteq> CHR 0x5C"
proof -
  have "\<forall>x \<in> {''.jpg'', ''.png'', ''.gif'', ''.webp'', ''.heic'', ''.heif'', ''.avif'', ''.pdf'', ''.json'', ''.md'', ''.txt'', ''.bin''}.
      \<forall>c \<in> set x. \<not> is_control c \<and> c \<noteq> CHR ''/'' \<and> c \<noteq> CHR 0x5C"
    by code_simp
  then show ?thesis by (simp add: extensionForContentType_def)
qed

lemma extension_length: "length (extensionForContentType t) \<le> 5"
  by (simp add: extensionForContentType_def)

lemma extension_extends: "has_extension (s @ extensionForContentType t)"
proof -
  have e: "\<forall>x \<in> {''.jpg'', ''.png'', ''.gif'', ''.webp'', ''.heic'', ''.heif'', ''.avif'', ''.pdf'', ''.json'', ''.md'', ''.txt'', ''.bin''}.
      takeWhile is_alnum (rev x) = rev (tl x) \<and> dropWhile is_alnum (rev x) = ''.'' \<and> 2 \<le> length x \<and> length x \<le> 5"
    by code_simp
  have m: "extensionForContentType t \<in> {''.jpg'', ''.png'', ''.gif'', ''.webp'', ''.heic'', ''.heif'', ''.avif'', ''.pdf'', ''.json'', ''.md'', ''.txt'', ''.bin''}"
    by (simp add: extensionForContentType_def)
  let ?x = "extensionForContentType t"
  from e m have x: "takeWhile is_alnum (rev ?x) = rev (tl ?x)" "dropWhile is_alnum (rev ?x) = ''.''"
    "2 \<le> length ?x" "length ?x \<le> 5" by blast+
  have dot: "\<not> is_alnum CHR ''.''" by code_simp
  have rx: "rev ?x = rev (tl ?x) @ ''.''" using takeWhile_dropWhile_id [of is_alnum "rev ?x"] x(1,2) by simp
  have al: "\<forall>c \<in> set (rev (tl ?x)). is_alnum c" using x(1) set_takeWhileD by metis
  have "takeWhile is_alnum (rev (s @ ?x)) = rev (tl ?x)" "dropWhile is_alnum (rev (s @ ?x)) = ''.'' @ rev s"
    using al dot by (simp_all add: rx takeWhile_append dropWhile_append)
  then have "takeWhile is_alnum (rev (s @ ?x)) = rev (tl ?x)" "hd (dropWhile is_alnum (rev (s @ ?x))) = CHR ''.''"
    "dropWhile is_alnum (rev (s @ ?x)) \<noteq> []" by simp_all
  moreover have "1 \<le> length (rev (tl ?x))" "length (rev (tl ?x)) \<le> 8"
    using x(3,4) by (simp_all only: length_rev length_tl)
  ultimately show ?thesis by (simp only: has_extension_def Let_def) blast
qed

section \<open>Properties\<close>

text \<open>
  The name under which a downloaded file is uploaded is never empty, is at most 125
  characters long, has no path separator and no control character, and ends in an extension
  of one to eight letters or digits, whatever the URL and the headers are.
\<close>

theorem downloadFilename_safe:
  "downloadFilename p url response contentType \<noteq> [] \<and>
   length (downloadFilename p url response contentType) \<le> 125 \<and>
   has_extension (downloadFilename p url response contentType) \<and>
   list_all (\<lambda>c. \<not> is_control c \<and> c \<noteq> CHR ''/'' \<and> c \<noteq> CHR 0x5C) (downloadFilename p url response contentType)"
proof -
  obtain v where v: "downloadFilename p url response contentType =
      (if has_extension (sanitizeDownloadFilename v) then sanitizeDownloadFilename v
       else sanitizeDownloadFilename v @ extensionForContentType contentType)" (is "?f = _")
    by (simp only: downloadFilename_def Let_def)
  have ok: "list_all (\<lambda>c. \<not> is_control c \<and> c \<noteq> CHR ''/'' \<and> c \<noteq> CHR 0x5C) (sanitizeDownloadFilename v)"
    "list_all (\<lambda>c. \<not> is_control c \<and> c \<noteq> CHR ''/'' \<and> c \<noteq> CHR 0x5C) (extensionForContentType contentType)"
    using sanitize_chars extension_chars by (simp_all only: list_all_iff) blast+
  show ?thesis
  proof (cases "has_extension (sanitizeDownloadFilename v)")
    case True
    with v ok(1) sanitize_nonempty [of v] sanitize_length [of v] show ?thesis by simp
  next
    case False
    have "length (sanitizeDownloadFilename v @ extensionForContentType contentType) \<le> 125"
      using sanitize_length [of v] extension_length [of contentType] by simp
    with False v ok sanitize_nonempty [of v] extension_extends show ?thesis
      by (simp only: list_all_append if_False append_is_Nil_conv) simp
  qed
qed


text \<open>
  The size check before a download never rejects: it sends one HEAD request without
  credentials and then goes on, also when the server announces a file that is too large,
  because it catches its own error.
\<close>

theorem verifyRemoteFileSize_never_rejects:
  "verifyRemoteFileSize p url b = (Inr (), b\<lparr>net_log := net_log b @
     [\<lparr>req_method = ''HEAD'', req_url = url, req_headers = [], req_body = NoBody, req_omit_credentials = True\<rparr>]\<rparr>)"
  by (auto simp: verifyRemoteFileSize_def file_request_def run_simps split: fetch_outcome.split sum.split)

definition upload_within_limit :: "request \<Rightarrow> bool" where
  "upload_within_limit r \<longleftrightarrow>
     (\<exists>name n type rest. req_body r = FormBody ((''source[file]'', FormFile name n type) # rest) \<and>
        int n \<le> 25 * 1024 * 1024)"

lemma sends_state [sends_intros]:
  "sends P (getSettings p)" "sends P (ui e)" "sends P (setActionBadge p x y)" "sends P (connected_settings p)"
proof -
  have k: "keeps net_log (storageGet p a ks)" for a ks
    by (auto simp: keeps_def storage_run op_outcome_def split: prod.split sum.split option.split)
  show s: "sends P (getSettings p)" unfolding getSettings_def Let_def by (intro sends_intros sends_keeps k)
  show "sends P (connected_settings p)" unfolding connected_settings_def by (intro sends_intros s)
  show u: "sends P (ui e)" for e unfolding ui_def by (intro sends_update) simp
  show "sends P (setActionBadge p x y)" unfolding setActionBadge_def by (intro sends_intros u)
qed

lemma sends_send_request:
  "(\<And>base token. P (build_request base path opts token)) \<Longrightarrow> sends P (send_request p st path opts)"
  unfolding send_request_def Let_def by (intro sends_intros)

definition capture_request :: "platform \<Rightarrow> request \<Rightarrow> bool" where
  "capture_request p r \<longleftrightarrow>
     (\<exists>u verb. allowedRemoteFileUrl p (JStr u) \<and> verb \<in> {''HEAD'', ''GET''} \<and> r = file_request verb u) \<or>
     upload_within_limit r"

lemma remote_request:
  "allowedRemoteFileUrl p u \<Longrightarrow> capture_request p (file_request ''HEAD'' (to_str u))"
  "allowedRemoteFileUrl p u \<Longrightarrow> capture_request p (file_request ''GET'' (to_str u))"
proof -
  assume "allowedRemoteFileUrl p u"
  then have "allowedRemoteFileUrl p (JStr (to_str u))" by (simp add: allowedRemoteFileUrl_def)
  then show "capture_request p (file_request ''HEAD'' (to_str u))" "capture_request p (file_request ''GET'' (to_str u))"
    unfolding capture_request_def by blast+
qed

lemma sends_upload:
  "\<not> int n > KAIRO_CAPTURE_MAX_FILE_BYTES \<Longrightarrow>
   sends (capture_request p) (createKairoFileSource p st \<lparr>file_name = f, file_size = n, file_type = ty\<rparr> attrs)"
  unfolding createKairoFileSource_def Let_def
  by (intro sends_send_request)
    (simp add: capture_request_def upload_within_limit_def build_request_def KAIRO_CAPTURE_MAX_FILE_BYTES_def)

lemma captureFile_sends: "sends (capture_request p) (captureFileToKairo p info)"
  unfolding captureFileToKairo_def verifyRemoteFileSize_def Let_def
  by (intro sends_intros sends_upload remote_request) (erule notnotD)+

lemma badge_total: "\<exists>u. setActionBadge p x y s = (Inr (), u)"
  by (simp add: setActionBadge_def ui_def run_simps)

lemma report_total: "\<exists>u. seqc (ui e) (setActionBadge p x y) s = (Inr (), u)"
  using badge_total by (simp add: ui_def run_simps)

lemma capture_total:
  "\<exists>c. captureFileToKairo p info b = (Inr (), c)" "\<exists>c. captureContextToKairo p info tab b = (Inr (), c)"
  unfolding captureFileToKairo_def captureContextToKairo_def by (rule catch_total, rule report_total)+

text \<open>
  Capturing a file never fails, and all it sends is the HEAD and the GET request of an
  allowed URL (https, or http on a loopback host), both without credentials, and an upload
  whose file has at most 25 MB.
\<close>

theorem captureFile_requests:
  "\<exists>c rs. captureFileToKairo p info b = (Inr (), c) \<and> net_log c = net_log b @ rs \<and>
     list_all (\<lambda>r. (\<exists>u verb. allowedRemoteFileUrl p (JStr u) \<and> verb \<in> {''HEAD'', ''GET''} \<and> r = file_request verb u) \<or>
                   upload_within_limit r) rs"
proof -
  obtain c where c: "captureFileToKairo p info b = (Inr (), c)" using capture_total(1) by blast
  from sendsD [OF captureFile_sends c] c show ?thesis unfolding capture_request_def by blast
qed

end
