(* ===== verification/Background.thy ===== *)
theory Background
  imports Session Api
begin

text \<open>
  The vault side of \<^verbatim>\<open>clients/nerve-extension/background.js\<close>: building the session with its
  decrypted entries, unlocking, filling, staging a fill for the next page, recording and
  saving a submitted login, and \<open>handleMessage\<close> with its checks of the sender.  A handler is
  run as one step: what other messages do while it waits is not interleaved into it.
\<close>

section \<open>Constants\<close>

definition PENDING_SAVE_EXPIRY_MS :: int where "PENDING_SAVE_EXPIRY_MS = 5 * 60 * 1000"
definition STAGED_FILL_EXPIRY_MS :: int where "STAGED_FILL_EXPIRY_MS = 3 * 60 * 1000"
definition FEATURE :: string where "FEATURE = ''nerve''"

section \<open>Entries\<close>

definition hydrateEntryMetadata :: "platform \<Rightarrow> bytes \<Rightarrow> jsv \<Rightarrow> jsv" where
  "hydrateEntryMetadata p key entry =
     (if \<not> truthy entry \<or> \<not> isClientPayload (js_get_opt entry ''encrypted_metadata'') then entry
      else
        (case res_bind (decryptValue p (js_get_opt entry ''encrypted_metadata'') key nerveMetadataAssociatedData)
                (\<lambda>decrypted. res_bind (json_parse decrypted) (\<lambda>metadata.
                 res_bind (js_get metadata ''title'') (\<lambda>title. Inr (metadata, title)))) of
           Inl _ \<Rightarrow> entry
         | Inr (metadata, title) \<Rightarrow>
             (case entry of
                JObj ps \<Rightarrow>
                  JObj (obj_spread (obj_spread [] ps)
                    [(''title'', js_or title (js_or (js_get_opt entry ''title'') (JStr ''Encrypted entry''))),
                     (''login_username'', js_or (js_get_opt metadata ''login_username'') (JStr [])),
                     (''website'', js_or (js_get_opt metadata ''website'') (JStr []))])
              | _ \<Rightarrow> entry)))"

definition hydrateEntries :: "platform \<Rightarrow> jsv list \<Rightarrow> bytes \<Rightarrow> jsv list" where
  "hydrateEntries p entries key = map (hydrateEntryMetadata p key) entries"

section \<open>The session\<close>

record nerve_session =
  ns_status :: string
  ns_settings :: settings
  ns_theme :: jsv
  ns_key :: "bytes option"
  ns_entries :: "jsv list"

definition session_key :: "platform \<Rightarrow> jsv \<Rightarrow> jsv \<Rightarrow> bytes result" where
  "session_key p wrapped passphrase =
     res_bind (unwrapWithSecret p wrapped (to_str passphrase)) (\<lambda>mdk. deriveFeatureKey p mdk FEATURE)"

definition entries_of :: "jsv \<Rightarrow> jsv list" where
  "entries_of v = (case v of JArr xs \<Rightarrow> xs | _ \<Rightarrow> [])"

definition connected :: "settings \<Rightarrow> bool" where
  "connected st \<longleftrightarrow> truthy (serverUrl st) \<and> truthy (apiToken st)"

definition settings_theme :: "settings \<Rightarrow> jsv" where
  "settings_theme st = (case theme st of None \<Rightarrow> JUndef | Some v \<Rightarrow> v)"

definition getNerveSession :: "platform \<Rightarrow> nerve_session bg" where
  "getNerveSession p =
     bind (getSettings p) (\<lambda>st.
     if \<not> connected st then
       ret \<lparr>ns_status = ''disconnected'', ns_settings = st, ns_theme = JNull, ns_key = None, ns_entries = []\<rparr>
     else
       bind (listEntries p st) (\<lambda>data.
       bind (lift (js_get data ''entries'')) (\<lambda>dataEntries.
       let entries = entries_of dataEntries;
           theme = js_or (js_get_opt data ''theme'') (js_or (settings_theme st) JNull);
           blocked = (\<lambda>status. \<lparr>ns_status = status, ns_settings = st, ns_theme = theme, ns_key = None,
                                 ns_entries = entries\<rparr>) in
       if \<not> truthy (js_get_opt data ''master_configured'') then ret (blocked ''unconfigured'')
       else
         bind (currentSessionPassphrase p) (\<lambda>passphrase.
         if \<not> truthy passphrase then ret (blocked ''locked'')
         else
           (case session_key p (js_get_opt data ''master_wrapped_dek'') passphrase of
              Inl _ \<Rightarrow> seqc (clearRuntimeSessionPassphrase p True) (ret (blocked ''locked''))
            | Inr key \<Rightarrow>
                seqc (scheduleSessionPassphraseExpiry p)
                  (ret \<lparr>ns_status = ''ready'', ns_settings = st, ns_theme = theme, ns_key = Some key,
                         ns_entries = hydrateEntries p entries key\<rparr>))))))"

definition unlockSession :: "platform \<Rightarrow> jsv \<Rightarrow> (string \<times> jsv) list bg" where
  "unlockSession p passphrase =
     bind (getSettings p) (\<lambda>st.
     if \<not> connected st then raise (Error ''Connect your Elektrine account first.'')
     else if \<not> truthy passphrase then raise (Error ''Enter your account password.'')
     else
       bind (listEntries p st) (\<lambda>data.
       bind (lift (js_get data ''master_configured'')) (\<lambda>configured.
       if \<not> truthy configured then
         raise (Error ''Set up account-password encryption in Elektrine first.'')
       else if \<not> truthy (js_get_opt data ''master_wrapped_dek'') then
         raise (Error ''Encrypted data metadata is not available yet.'')
       else
         (case unwrapWithSecret p (js_get_opt data ''master_wrapped_dek'') (to_str passphrase) of
            Inl _ \<Rightarrow> raise (Error ''Incorrect account password. If you just reset it, recover encrypted data on the website.'')
          | Inr _ \<Rightarrow>
              seqc (update (\<lambda>b. b\<lparr>sessionPassphrase := passphrase\<rparr>))
              (seqc (clearSessionPassphrase p)
              (seqc (scheduleSessionPassphraseExpiry p)
              (seqc (broadcastNerveSessionChanged p ''unlocked'')
                (ret [(''status'', JStr ''unlocked'')]))))))))"

section \<open>States shown on the page\<close>

definition inlineState :: "platform \<Rightarrow> (string \<times> jsv) list bg" where
  "inlineState p =
     bind (getNerveSession p) (\<lambda>session.
     ret [(''status'', JStr (ns_status session)), (''theme'', js_or (ns_theme session) JNull)])"

definition themeState :: "platform \<Rightarrow> (string \<times> jsv) list bg" where
  "themeState p =
     bind (getSettings p) (\<lambda>st.
     ret [(''theme'', if truthy (apiToken st) then js_or (settings_theme st) JNull else JNull)])"

definition suggestion :: "jsv \<times> int \<Rightarrow> jsv" where
  "suggestion = (\<lambda>(entry, score).
     JObj [(''id'', js_get_opt entry ''id''),
           (''title'', js_get_opt entry ''title''),
           (''login_username'', js_get_opt entry ''login_username''),
           (''website'', js_get_opt entry ''website''),
           (''score'', JNum score)])"

definition suggestions :: "platform \<Rightarrow> jsv \<Rightarrow> jsv \<Rightarrow> (string \<times> jsv) list bg" where
  "suggestions p pageUrl query =
     bind (getNerveSession p) (\<lambda>session.
     if ns_status session \<noteq> ''ready'' then ret [(''status'', JStr (ns_status session))]
     else
       bind (lift (rankEntries p (ns_entries session) pageUrl query)) (\<lambda>ranked.
       ret [(''status'', JStr ''ready''),
            (''entries'', JArr (map suggestion (take 6 ranked)))]))"

section \<open>Filling\<close>

text \<open>\<^verbatim>\<open>a === b\<close>; two objects read from different messages are never the same object.\<close>

definition js_same :: "jsv \<Rightarrow> jsv \<Rightarrow> bool" where
  "js_same a b \<longleftrightarrow> \<not> is_obj_type a \<and> a = b"

fun find_entry :: "jsv \<Rightarrow> jsv list \<Rightarrow> jsv result" where
  "find_entry entryId [] = Inr JUndef"
| "find_entry entryId (candidate # rest) =
     res_bind (js_get candidate ''id'') (\<lambda>i.
     if js_same i entryId then Inr candidate else find_entry entryId rest)"

definition decrypt_field :: "platform \<Rightarrow> jsv \<Rightarrow> bytes \<Rightarrow> string \<Rightarrow> string \<Rightarrow> string result" where
  "decrypt_field p entry key property field =
     res_bind (nerveEntryAssociatedData entry field) (\<lambda>ad.
     decryptValue p (js_get_opt entry property) key ad)"

definition entry_credentials :: "platform \<Rightarrow> jsv \<Rightarrow> bytes \<Rightarrow> jsv result" where
  "entry_credentials p entry key =
     res_bind (js_get entry ''login_username'') (\<lambda>username.
     res_bind (decrypt_field p entry key ''encrypted_password'' ''password'') (\<lambda>password.
     res_bind (if truthy (js_get_opt entry ''encrypted_notes'')
               then decrypt_field p entry key ''encrypted_notes'' ''notes'' else Inr []) (\<lambda>notes.
     Inr (JObj [(''username'', js_or username (JStr [])),
                (''password'', JStr password),
                (''notes'', JStr notes)]))))"

text \<open>Called on a ready session only, which always has its key; WebCrypto throws on a missing one.\<close>

definition loadEntryCredentials :: "platform \<Rightarrow> nerve_session \<Rightarrow> jsv \<Rightarrow> jsv bg" where
  "loadEntryCredentials p session entryId =
     bind (getEntry p (ns_settings session) entryId) (\<lambda>data.
     bind (lift (js_get data ''entry'')) (\<lambda>dataEntry.
     (case ns_key session of
        None \<Rightarrow> raise TypeError
      | Some key \<Rightarrow> lift (entry_credentials p (hydrateEntryMetadata p key dataEntry) key))))"

definition fillEntry :: "platform \<Rightarrow> jsv \<Rightarrow> jsv \<Rightarrow> (string \<times> jsv) list bg" where
  "fillEntry p entryId pageUrl =
     bind (getNerveSession p) (\<lambda>session.
     if ns_status session \<noteq> ''ready'' then raise (Error (fillBlockedMessage (ns_status session)))
     else
       bind (lift (find_entry entryId (ns_entries session))) (\<lambda>entry.
       if \<not> truthy entry then raise (Error ''The selected entry is not available.'')
       else
         bind (lift (entryAllowedForPage p entry (if pageUrl = JUndef then JStr [] else pageUrl))) (\<lambda>allowed.
         if \<not> allowed then raise (Error ''This nerve entry is not saved for the current site.'')
         else
           bind (loadEntryCredentials p session entryId) (\<lambda>credentials.
           ret [(''status'', JStr ''ready''), (''credentials'', credentials)]))))"

section \<open>Staged fills\<close>

definition stageEntryFill :: "platform \<Rightarrow> jsv \<Rightarrow> jsv \<Rightarrow> (string \<times> jsv) list bg" where
  "stageEntryFill p tabId payload =
     (if \<not> truthy tabId \<or> \<not> truthy (js_get_opt payload ''entryId'') then ret [(''staged'', JBool False)]
      else
        bind (reads clock) (\<lambda>now.
        seqc (setStagedFill p tabId
          (JObj [(''entryId'', js_get_opt payload ''entryId''),
                 (''pageUrl'', js_or (js_get_opt payload ''pageUrl'') (JStr [])),
                 (''website'', js_or (js_get_opt payload ''website'') (JStr [])),
                 (''stagedAt'', JNum now)]))
          (ret [(''staged'', JBool True)])))"

definition status_none :: "(string \<times> jsv) list" where
  "status_none = [(''status'', JStr ''none'')]"

definition resolveStagedFill :: "platform \<Rightarrow> jsv \<Rightarrow> jsv \<Rightarrow> (string \<times> jsv) list bg" where
  "resolveStagedFill p tabId page =
     bind (getStagedFill p tabId) (\<lambda>staged.
     if \<not> truthy staged then ret status_none
     else
       bind (reads clock) (\<lambda>now.
       if older_than now (js_get_opt staged ''stagedAt'') STAGED_FILL_EXPIRY_MS then
         seqc (clearStagedFill p tabId) (ret status_none)
       else if \<not> truthy (js_get_opt page ''url'') then ret status_none
       else
         let currentHost = safeHost p (js_get_opt page ''url'');
             stagedHost = safeHost p (js_or (js_get_opt staged ''website'') (js_get_opt staged ''pageUrl'')) in
         if currentHost \<noteq> [] \<and> stagedHost \<noteq> [] \<and> \<not> hostsRelated currentHost stagedHost then
           seqc (clearStagedFill p tabId) (ret status_none)
         else if \<not> truthy (js_get_opt page ''hasVisiblePasswordField'') then
           ret [(''status'', JStr ''waiting'')]
         else
           bind (getNerveSession p) (\<lambda>session.
           if ns_status session \<noteq> ''ready'' then ret [(''status'', JStr (ns_status session))]
           else
             catch
               (bind (loadEntryCredentials p session (js_get_opt staged ''entryId'')) (\<lambda>credentials.
                seqc (clearStagedFill p tabId)
                  (ret [(''status'', JStr ''ready''),
                        (''entryId'', js_get_opt staged ''entryId''),
                        (''credentials'', credentials)])))
               (\<lambda>error. seqc (clearStagedFill p tabId) (raise error)))))"

section \<open>Submitted logins\<close>

definition recordSubmission :: "jsv \<Rightarrow> jsv \<Rightarrow> (string \<times> jsv) list bg" where
  "recordSubmission tabId payload =
     (if \<not> truthy tabId \<or> \<not> truthy (js_get_opt payload ''password'') \<or> truthy (js_get_opt payload ''skipSave'')
      then ret [(''recorded'', JBool False)]
      else
        bind (reads clock) (\<lambda>now.
        seqc (setPendingSave tabId
          (JObj [(''submitUrl'', js_get_opt payload ''submitUrl''),
                 (''website'', js_get_opt payload ''website''),
                 (''username'', js_or (js_get_opt payload ''username'') (JStr [])),
                 (''password'', js_get_opt payload ''password''),
                 (''pageTitle'', js_or (js_get_opt payload ''pageTitle'') (JStr [])),
                 (''recordedAt'', JNum now)]))
          (ret [(''recorded'', JBool True)])))"

definition resolvePendingSave :: "platform \<Rightarrow> jsv \<Rightarrow> jsv \<Rightarrow> (string \<times> jsv) list bg" where
  "resolvePendingSave p tabId page =
     bind (getPendingSave tabId) (\<lambda>pending.
     if \<not> truthy pending then ret status_none
     else
       bind (reads clock) (\<lambda>now.
       if older_than now (js_get_opt pending ''recordedAt'') PENDING_SAVE_EXPIRY_MS then
         seqc (clearPendingSave tabId) (ret status_none)
       else if \<not> shouldPromptForPendingSave p pending page then ret status_none
       else
         bind (getNerveSession p) (\<lambda>session.
         bind (lift (findExistingEntry p (ns_entries session) pending)) (\<lambda>existingEntry.
         ret [(''status'', JStr ''prompt''),
              (''nerveStatus'', JStr (ns_status session)),
              (''pending'', JObj
                [(''mode'', JStr (if truthy existingEntry then ''update'' else ''save'')),
                 (''entryId'', js_or (js_get_opt existingEntry ''id'') JNull),
                 (''title'', js_or (js_get_opt existingEntry ''title'') (JStr (defaultTitle p pending))),
                 (''username'', js_or (js_get_opt pending ''username'')
                    (js_or (js_get_opt existingEntry ''login_username'') (JStr []))),
                 (''website'', js_or (js_get_opt pending ''website'')
                    (js_or (js_get_opt existingEntry ''website'')
                       (JStr (originFromUrl p (js_get_opt pending ''submitUrl'')))))])]))))"

definition pending_metadata :: "platform \<Rightarrow> jsv \<Rightarrow> jsv \<Rightarrow> (string \<times> jsv) list result" where
  "pending_metadata p pending payload =
     res_bind (js_trim (js_or (js_get_opt payload ''title'') (JStr (defaultTitle p pending)))) (\<lambda>title.
     res_bind (js_trim (js_or (js_get_opt payload ''username'') (js_or (js_get_opt pending ''username'') (JStr [])))) (\<lambda>username.
     res_bind (js_trim (js_or (js_get_opt payload ''website'') (js_or (js_get_opt pending ''website'')
                 (js_or (JStr (originFromUrl p (js_get_opt pending ''submitUrl''))) (JStr []))))) (\<lambda>website.
     Inr [(''title'', JStr title), (''login_username'', JStr username), (''website'', JStr website)])))"

definition encrypted_attrs :: "jsv \<Rightarrow> jsv \<Rightarrow> jsv" where
  "encrypted_attrs metadata password =
     JObj [(''title'', JStr ''Encrypted entry''), (''login_username'', JStr []), (''website'', JStr []),
           (''encrypted_metadata'', metadata), (''encrypted_password'', password)]"

definition savePendingEntry :: "platform \<Rightarrow> jsv \<Rightarrow> jsv \<Rightarrow> (string \<times> jsv) list bg" where
  "savePendingEntry p tabId payload =
     bind (getPendingSave tabId) (\<lambda>pending.
     if \<not> truthy pending then raise (Error ''There is no pending login to save.'')
     else
       bind (getNerveSession p) (\<lambda>session.
       if ns_status session \<noteq> ''ready'' then raise (Error (fillBlockedMessage (ns_status session)))
       else (case ns_key session of
          None \<Rightarrow> raise TypeError
        | Some key \<Rightarrow>
            bind (lift (pending_metadata p pending payload)) (\<lambda>metadata.
            bind (encryptValue p (json_text (JObj metadata)) key nerveMetadataAssociatedData) (\<lambda>encryptedMetadata.
            bind (lift (nerveEntryAssociatedData (JObj metadata) ''password'')) (\<lambda>ad.
            bind (encryptValue p (to_str (js_get_opt pending ''password'')) key ad) (\<lambda>encryptedPassword.
            let attrs = encrypted_attrs encryptedMetadata encryptedPassword;
                entryId = js_get_opt payload ''entryId'' in
            bind (if truthy entryId then updateEntry p (ns_settings session) entryId attrs
                  else createEntry p (ns_settings session) attrs) (\<lambda>result.
            seqc (clearPendingSave tabId)
            (bind (lift (js_get result ''entry'')) (\<lambda>entry.
            ret [(''status'', JStr ''saved''),
                 (''mode'', JStr (if truthy entryId then ''update'' else ''save'')),
                 (''entry'', entry)]))))))))))"

definition cleanupTabState :: "platform \<Rightarrow> jsv \<Rightarrow> unit bg" where
  "cleanupTabState p tabId = all_settled [clearPendingSave tabId, clearStagedFill p tabId]"

section \<open>Messages\<close>

definition assertContentScriptSender :: "platform \<Rightarrow> jsv \<Rightarrow> unit result" where
  "assertContentScriptSender p sender =
     (if \<not> truthy (js_get_opt (js_get_opt sender ''tab'') ''id'') \<or> \<not> allowedPageUrl p (js_get_opt sender ''url'')
      then Inl (Error ''Message is not allowed from this sender.'') else Inr ())"

definition assertExtensionPageSender :: "platform \<Rightarrow> jsv \<Rightarrow> unit result" where
  "assertExtensionPageSender p sender =
     (if \<not> is_str (js_get_opt sender ''url'')
        \<or> \<not> starts_with (str_of (js_get_opt sender ''url'')) (extension_origin p)
      then Inl (Error ''Message is not allowed from this sender.'') else Inr ())"

definition openManagerPage :: "platform \<Rightarrow> jsv \<Rightarrow> unit bg" where
  "openManagerPage p tabId =
     update (\<lambda>b. b\<lparr>ui_log := ui_log b @
       [OpenTab (extension_origin p @ ''manager.html?'' @
          (if truthy tabId then ''tabId='' @ to_str tabId else []))]\<rparr>)"

definition setSessionPassphrase :: "platform \<Rightarrow> jsv \<Rightarrow> (string \<times> jsv) list bg" where
  "setSessionPassphrase p passphrase =
     seqc (update (\<lambda>b. b\<lparr>sessionPassphrase := (if is_str passphrase then passphrase else JStr [])\<rparr>))
     (seqc (clearSessionPassphrase p)
     (seqc (scheduleSessionPassphraseExpiry p)
     (seqc (broadcastNerveSessionChanged p ''unlocked'')
       (ret [(''stored'', JBool True)]))))"

text \<open>An absent \<^verbatim>\<open>payload\<close> is the empty object.\<close>

definition payload_or_empty :: "jsv \<Rightarrow> jsv" where
  "payload_or_empty message = js_or (js_get_opt message ''payload'') (JObj [])"

definition content_messages :: "platform \<Rightarrow> jsv \<Rightarrow> jsv \<Rightarrow> (string \<times> (string \<times> jsv) list bg) list" where
  "content_messages p message tabId =
     [(''ui:open-manager'', seqc (openManagerPage p tabId) (ret [(''opened'', JBool True)])),
      (''nerve:get-theme'', themeState p),
      (''nerve:get-inline-state'', inlineState p),
      (''nerve:get-suggestions'', suggestions p (js_get_opt message ''pageUrl'') (js_get_opt message ''query'')),
      (''nerve:fill-entry'', fillEntry p (js_get_opt message ''entryId'') (js_get_opt message ''pageUrl'')),
      (''nerve:stage-entry-fill'', stageEntryFill p tabId (payload_or_empty message)),
      (''nerve:resolve-staged-fill'', resolveStagedFill p tabId (js_get_opt message ''page'')),
      (''nerve:clear-staged-fill'', seqc (clearStagedFill p tabId) (ret [(''cleared'', JBool True)])),
      (''nerve:record-submission'', recordSubmission tabId (js_get_opt message ''payload'')),
      (''nerve:resolve-pending-save'', resolvePendingSave p tabId (js_get_opt message ''page'')),
      (''nerve:save-pending'', savePendingEntry p tabId (payload_or_empty message)),
      (''nerve:dismiss-pending-save'', seqc (clearPendingSave tabId) (ret [(''dismissed'', JBool True)])),
      (''nerve:unlock-session'', unlockSession p (js_get_opt message ''passphrase''))]"

definition page_messages :: "platform \<Rightarrow> jsv \<Rightarrow> (string \<times> (string \<times> jsv) list bg) list" where
  "page_messages p message =
     [(''nerve:get-session-passphrase'',
         bind (currentSessionPassphrase p) (\<lambda>v. ret [(''passphrase'', v)])),
      (''nerve:set-session-passphrase'', setSessionPassphrase p (js_get_opt message ''passphrase'')),
      (''nerve:clear-session-passphrase'',
         seqc (clearRuntimeSessionPassphrase p True) (ret [(''cleared'', JBool True)]))]"

definition handleMessage :: "platform \<Rightarrow> jsv \<Rightarrow> jsv \<Rightarrow> (string \<times> jsv) list bg" where
  "handleMessage p message sender =
     (let type = str_of (js_get_opt message ''type'');
          tabId = js_get_opt (js_get_opt sender ''tab'') ''id'' in
      if type = ''ui:open-options'' then
        seqc (update (\<lambda>b. b\<lparr>ui_log := ui_log b @ [OpenOptionsPage]\<rparr>)) (ret [(''opened'', JBool True)])
      else
        (case map_of (content_messages p message tabId) type of
           Some handler \<Rightarrow> bind (lift (assertContentScriptSender p sender)) (\<lambda>_. handler)
         | None \<Rightarrow>
             (case map_of (page_messages p message) type of
                Some handler \<Rightarrow> bind (lift (assertExtensionPageSender p sender)) (\<lambda>_. handler)
              | None \<Rightarrow> raise (Error ''Unsupported message type.''))))"

text \<open>The listener: what is sent back for a message.  It never throws.\<close>

definition onMessage :: "platform \<Rightarrow> jsv \<Rightarrow> jsv \<Rightarrow> background \<Rightarrow> jsv \<times> background" where
  "onMessage p message sender b =
     (case handleMessage p (js_or message (JObj [])) sender b of
        (Inr result, c) \<Rightarrow> (JObj (obj_spread [(''ok'', JBool True)] result), c)
      | (Inl error, c) \<Rightarrow> (JObj [(''ok'', JBool False), (''error'', JStr (error_message p error))], c))"

end
