(* ===== verification/Machine.thy ===== *)
theory Machine
  imports Background Capture
begin

text \<open>
  The worker as a state machine: the events that run its handlers, the clock, the timer, a
  restart of the worker, and what other extension pages may write to storage at any time.
  Every reachable state satisfies \<open>session_inv\<close>; what the session promises follows from it.
\<close>

section \<open>Handlers keep the session invariant\<close>

lemmas world_maintains [maintains_intros] =
  keeps_storage [THEN keeps_session_inv] keeps_fetch [THEN keeps_session_inv]
  keeps_pending [THEN keeps_session_inv] keeps_staged [THEN keeps_session_inv]
  keeps_settings [THEN keeps_session_inv] keeps_encryptValue [THEN keeps_session_inv]
  keeps_broadcast [THEN keeps_session_inv] keeps_clearSessionPassphrase [THEN keeps_session_inv]

lemma keeps_send_request [keeps_intros]: "keeps session_vars (send_request p st path opts)"
  unfolding send_request_def Let_def by (intro keeps_intros)

lemma keeps_calls [keeps_intros]:
  "keeps session_vars (listEntries p st)"
  "keeps session_vars (getEntry p st i)"
  "keeps session_vars (createEntry p st a)"
  "keeps session_vars (updateEntry p st i a)"
  "keeps session_vars (createKairoSource p st a)"
  "keeps session_vars (createKairoFileSource p st f ps)"
  unfolding listEntries_def getEntry_def createEntry_def updateEntry_def createKairoSource_def
    createKairoFileSource_def Let_def
  by (rule keeps_send_request)+

lemmas call_maintains [maintains_intros] = keeps_calls [THEN keeps_session_inv]

lemma keeps_ui [keeps_intros]: "keeps session_vars (ui e)"
  unfolding ui_def by (intro keeps_update) (simp add: session_vars_def)

lemma keeps_setActionBadge [keeps_intros]: "keeps session_vars (setActionBadge p t c)"
  unfolding setActionBadge_def by (intro keeps_intros)

lemma keeps_capture [keeps_intros]:
  "keeps session_vars (captureContextToKairo p info tab)"
  "keeps session_vars (verifyRemoteFileSize p url)"
  "keeps session_vars (connected_settings p)"
  unfolding captureContextToKairo_def connected_settings_def verifyRemoteFileSize_def by (intro keeps_intros)+

lemma keeps_captureFile [keeps_intros]: "keeps session_vars (captureFileToKairo p info)"
  unfolding captureFileToKairo_def Let_def by (intro keeps_intros)

lemma keeps_onMenuClicked [keeps_intros]: "keeps session_vars (onMenuClicked p info tab)"
  unfolding onMenuClicked_def by (intro keeps_intros)

lemma keeps_installContextMenus [keeps_intros]: "keeps session_vars (installContextMenus p)"
  unfolding installContextMenus_def by (intro keeps_intros keeps_update) (simp add: session_vars_def)

lemma keeps_loadEntryCredentials [keeps_intros]: "keeps session_vars (loadEntryCredentials p ns i)"
  unfolding loadEntryCredentials_def by (intro keeps_intros)

lemma keeps_openManagerPage [keeps_intros]: "keeps session_vars (openManagerPage p i)"
  unfolding openManagerPage_def by (intro keeps_update) (simp add: session_vars_def)

lemma keeps_openOptions: "keeps session_vars (update (\<lambda>b. b\<lparr>ui_log := ui_log b @ es\<rparr>))"
  by (intro keeps_update) (simp add: session_vars_def)

lemma getNerveSession_maintains [maintains_intros]: "maintains session_inv (getNerveSession p)"
  unfolding getNerveSession_def Let_def by (intro maintains_intros)

lemma load_maintains [maintains_intros]: "maintains session_inv (loadEntryCredentials p ns i)"
  by (rule keeps_session_inv [OF keeps_loadEntryCredentials])

lemma readers_maintain [maintains_intros]:
  "maintains session_inv (inlineState p)"
  "maintains session_inv (themeState p)"
  "maintains session_inv (suggestions p url q)"
  "maintains session_inv (fillEntry p i url)"
  unfolding inlineState_def themeState_def suggestions_def fillEntry_def by (intro maintains_intros)+

lemma stage_maintains [maintains_intros]:
  "maintains session_inv (stageEntryFill p i payload)"
  "maintains session_inv (resolveStagedFill p i page)"
  unfolding stageEntryFill_def resolveStagedFill_def Let_def by (intro maintains_intros)+

lemma pending_maintain [maintains_intros]:
  "maintains session_inv (recordSubmission i payload)"
  "maintains session_inv (resolvePendingSave p i page)"
  "maintains session_inv (savePendingEntry p i payload)"
  unfolding recordSubmission_def resolvePendingSave_def savePendingEntry_def Let_def by (intro maintains_intros)+

lemma cleanup_keeps: "keeps session_vars (cleanupTabState p i)"
  unfolding cleanupTabState_def by (rule keeps_all_settled) (auto intro: keeps_intros)

text \<open>
  Setting the password arms the session, provided the storage works: the password is set
  before the stored one is removed, and a failure there leaves it without an expiry.
\<close>

definition storage_ok :: "platform \<Rightarrow> bool" where
  "storage_ok p \<longleftrightarrow> (\<forall>a. has_area p a) \<and> (\<forall>n. storage_fault p n = None)"

lemma clearSessionPassphrase_ok:
  "storage_ok p \<Longrightarrow> fst (clearSessionPassphrase p b) = Inr ()"
  by (simp add: clearSessionPassphrase_def storageRemove_run op_outcome_def getArea_def storage_ok_def)

definition arm :: "platform \<Rightarrow> jsv \<Rightarrow> 'a bg \<Rightarrow> 'a bg" where
  "arm p v m =
     seqc (update (\<lambda>b. b\<lparr>sessionPassphrase := v\<rparr>))
     (seqc (clearSessionPassphrase p)
     (seqc (scheduleSessionPassphraseExpiry p) m))"

lemma arm_maintains:
  assumes "storage_ok p" "maintains session_inv m"
  shows "maintains session_inv (arm p v m)"
proof (rule maintainsI)
  fix b r c
  assume b: "session_inv b" and run: "arm p v m b = (r, c)"
  let ?b = "b\<lparr>sessionPassphrase := v\<rparr>"
  obtain b1 where b1: "clearSessionPassphrase p ?b = (Inr (), b1)"
    using clearSessionPassphrase_ok [OF assms(1), of ?b] by (cases "clearSessionPassphrase p ?b") auto
  have "session_vars b1 = session_vars ?b" by (rule keepsD [OF keeps_clearSessionPassphrase b1])
  then have "0 \<le> clock b1" using b by (simp add: session_vars_def session_inv_def)
  obtain r2 b2 where b2: "scheduleSessionPassphraseExpiry p b1 = (r2, b2)"
    by (cases "scheduleSessionPassphraseExpiry p b1")
  have "session_inv b2" by (rule schedule_inv [OF b2 \<open>0 \<le> clock b1\<close>])
  moreover have "r2 = Inr ()" using schedule_arms [OF b2] by blast
  then have "m b2 = (r, c)" using run b1 b2 by (simp add: arm_def run_simps)
  ultimately show "session_inv c" using assms(2) by (metis maintainsD)
qed

lemma arm_unlock: "unlockSession p v =
     bind (getSettings p) (\<lambda>st.
     if \<not> connected st then raise (Error ''Connect your Elektrine account first.'')
     else if \<not> truthy v then raise (Error ''Enter your account password.'')
     else
       bind (listEntries p st) (\<lambda>data.
       bind (lift (js_get data ''master_configured'')) (\<lambda>configured.
       if \<not> truthy configured then
         raise (Error ''Set up account-password encryption in Elektrine first.'')
       else if \<not> truthy (js_get_opt data ''master_wrapped_dek'') then
         raise (Error ''Encrypted data metadata is not available yet.'')
       else
         (case unwrapWithSecret p (js_get_opt data ''master_wrapped_dek'') (to_str v) of
            Inl _ \<Rightarrow> raise (Error ''Incorrect account password. If you just reset it, recover encrypted data on the website.'')
          | Inr _ \<Rightarrow> arm p v (seqc (broadcastNerveSessionChanged p ''unlocked'')
                (ret [(''status'', JStr ''unlocked'')]))))))"
  unfolding unlockSession_def arm_def ..

lemma unlock_maintains: "storage_ok p \<Longrightarrow> maintains session_inv (unlockSession p v)"
  unfolding arm_unlock by (intro maintains_intros arm_maintains)

lemma setSessionPassphrase_maintains: "storage_ok p \<Longrightarrow> maintains session_inv (setSessionPassphrase p v)"
  unfolding setSessionPassphrase_def arm_def [symmetric] by (intro maintains_intros arm_maintains)

section \<open>Messages\<close>

lemma content_maintains:
  assumes "storage_ok p" "map_of (content_messages p message tabId) type = Some h"
  shows "maintains session_inv h"
proof -
  have "list_all (\<lambda>(k, h). maintains session_inv h) (content_messages p message tabId)"
    unfolding content_messages_def list.pred_inject prod.case
    by (intro conjI maintains_intros unlock_maintains assms(1) list.pred_inject(1) keeps_openManagerPage [THEN keeps_session_inv])
  with map_of_SomeD [OF assms(2)] show ?thesis by (auto simp: list_all_iff)
qed

lemma page_maintains:
  assumes "storage_ok p" "map_of (page_messages p message) type = Some h"
  shows "maintains session_inv h"
proof -
  have "list_all (\<lambda>(k, h). maintains session_inv h) (page_messages p message)"
    unfolding page_messages_def list.pred_inject prod.case
    by (intro conjI maintains_intros setSessionPassphrase_maintains assms(1) list.pred_inject(1))
  with map_of_SomeD [OF assms(2)] show ?thesis by (auto simp: list_all_iff)
qed

lemma handleMessage_maintains: "storage_ok p \<Longrightarrow> maintains session_inv (handleMessage p message sender)"
  unfolding handleMessage_def Let_def
  by (intro maintains_intros keeps_openOptions [THEN keeps_session_inv]) (auto intro: content_maintains page_maintains)

lemma onMessage_inv:
  assumes "storage_ok p" "session_inv b" "onMessage p message sender b = (reply, c)"
  shows "session_inv c"
proof -
  obtain r d where d: "handleMessage p (js_or message (JObj [])) sender b = (r, d)"
    by (cases "handleMessage p (js_or message (JObj [])) sender b")
  then have "session_inv d" by (rule maintainsD [OF handleMessage_maintains [OF assms(1)] assms(2)])
  with assms(3) d show ?thesis by (auto simp: onMessage_def split: sum.splits)
qed

section \<open>The machine\<close>

datatype event =
    Message jsv jsv
  | TabRemoved jsv
  | MenuClicked jsv jsv
  | Installed
  | Tick int
  | TimerFires
  | WorkerRestart
  | StorageWritten "string \<rightharpoonup> jsv" "string \<rightharpoonup> jsv"

definition restarted :: "background \<Rightarrow> background" where
  "restarted b = b\<lparr>sessionPassphrase := JStr [], sessionPassphraseExpiresAt := 0,
     sessionPassphraseTimer := None, pendingLoginSaves := (\<lambda>_. None)\<rparr>"

inductive bg_step :: "platform \<Rightarrow> background \<Rightarrow> event \<Rightarrow> background \<Rightarrow> bool" for p where
  step_message: "onMessage p message sender b = (reply, c) \<Longrightarrow> bg_step p b (Message message sender) c"
| step_removed: "cleanupTabState p tabId b = (r, c) \<Longrightarrow> bg_step p b (TabRemoved tabId) c"
| step_menu: "onMenuClicked p info tab b = (r, c) \<Longrightarrow> bg_step p b (MenuClicked info tab) c"
| step_installed: "installContextMenus p b = (r, c) \<Longrightarrow> bg_step p b Installed c"
| step_tick: "0 \<le> d \<Longrightarrow> bg_step p b (Tick d) (b\<lparr>clock := clock b + d\<rparr>)"
| step_timer: "sessionPassphraseTimer b = Some due \<Longrightarrow> due \<le> clock b \<Longrightarrow>
    clearRuntimeSessionPassphrase p True (b\<lparr>sessionPassphraseTimer := None\<rparr>) = (r, c) \<Longrightarrow> bg_step p b TimerFires c"
| step_restart: "bg_step p b WorkerRestart (restarted b)"
| step_storage: "bg_step p b (StorageWritten l s) (b\<lparr>local_area := l, session_area := s\<rparr>)"

inductive_cases bg_step_timerE: "bg_step p b TimerFires c"
inductive_simps bg_step_restart: "bg_step p b WorkerRestart c"

definition initial :: "background \<Rightarrow> bool" where
  "initial b \<longleftrightarrow> 0 \<le> clock b \<and> b = restarted b"

inductive reachable :: "platform \<Rightarrow> background \<Rightarrow> bool" for p where
  reach_init: "initial b \<Longrightarrow> reachable p b"
| reach_step: "reachable p b \<Longrightarrow> bg_step p b e c \<Longrightarrow> reachable p c"

lemma restarted_locked: "session_locked (restarted b)" "clock (restarted b) = clock b"
  by (simp_all add: restarted_def session_locked_def)

lemma bg_step_inv: "bg_step p b e c \<Longrightarrow> storage_ok p \<Longrightarrow> session_inv b \<Longrightarrow> session_inv c"
proof (induction rule: bg_step.induct)
  case (step_message message sender b reply c)
  then show ?case by (blast intro: onMessage_inv)
next
  case (step_removed tabId b r c)
  then show ?case by (blast intro: maintainsD [OF keeps_session_inv [OF cleanup_keeps]])
next
  case (step_menu info tab b r c)
  then show ?case by (blast intro: maintainsD [OF keeps_session_inv [OF keeps_onMenuClicked]])
next
  case (step_installed b r c)
  then show ?case by (blast intro: maintainsD [OF keeps_session_inv [OF keeps_installContextMenus]])
next
  case (step_tick d b)
  then show ?case by (auto simp: session_inv_defs)
next
  case (step_timer b due r c)
  from clear_locks [OF step_timer(3)] step_timer(5) show ?case by (simp add: session_inv_def)
next
  case (step_restart b)
  then show ?case by (simp add: session_inv_def restarted_locked)
next
  case (step_storage b l s)
  then show ?case by (auto simp: session_inv_defs)
qed

lemma reachable_inv: "reachable p b \<Longrightarrow> storage_ok p \<Longrightarrow> session_inv b"
proof (induction rule: reachable.induct)
  case (reach_init b)
  then show ?case unfolding initial_def session_inv_def by (metis restarted_locked(1))
qed (rule bg_step_inv)


section \<open>Properties\<close>

lemma sample_storage_ok: "storage_ok (sample_platform v)"
  by (simp add: storage_ok_def sample_platform_def)

definition sample_background :: background where
  "sample_background =
     \<lparr>local_area = (\<lambda>_. None)(''serverUrl'' \<mapsto> JStr ''https://vault.example/''),
      session_area = (\<lambda>_. None)(TOKEN_KEY \<mapsto> JStr ''tok''),
      storage_ops = 0, clock = 1000000, net_log = [], random_used = 0, pendingLoginSaves = (\<lambda>_. None),
      sessionPassphrase = JStr [], sessionPassphraseExpiresAt = 0, sessionPassphraseTimer = None,
      tab_log = [], ui_log = []\<rparr>"

text \<open>The sample worker after an extension page has set the password.\<close>

definition sample_armed :: background where
  "sample_armed = sample_background\<lparr>storage_ops := 1, session_area := (\<lambda>_. None)(TOKEN_KEY \<mapsto> JStr ''tok'', PASSPHRASE_KEY := None),
     sessionPassphrase := JStr ''secret'', sessionPassphraseExpiresAt := 1900000,
     sessionPassphraseTimer := Some 1900000, tab_log := [(JNum 7, ''unlocked'')]\<rparr>"

definition set_message :: jsv where
  "set_message = JObj [(''type'', JStr ''nerve:set-session-passphrase''), (''passphrase'', JStr ''secret'')]"

definition page_sender :: jsv where
  "page_sender = JObj [(''url'', JStr ''chrome-extension://nerve/popup.html'')]"

lemma sample_initial: "initial sample_background"
  by (simp add: initial_def restarted_def sample_background_def)

lemma sample_set_ok: "assertExtensionPageSender (sample_platform v) page_sender = Inr ()"
  by (simp add: assertExtensionPageSender_def page_sender_def sample_platform_def)

lemma sample_broadcast:
  "broadcastNerveSessionChanged (sample_platform v) s b = (Inr (), b\<lparr>tab_log := tab_log b @ [(JNum 7, s)]\<rparr>)"
proof -
  have "filter (\<lambda>t. truthy (tab_id t) \<and> allowedPageUrl (sample_platform v) (tab_url t)) (page_tabs (sample_platform v)) =
      page_tabs (sample_platform v)"
    by (simp add: sample_platform_def allowedPageUrl_def sample_urls_def sample_url_def)
  then show ?thesis
    by (simp add: broadcastNerveSessionChanged_def queryPageTabs_def update_run) (simp add: sample_platform_def)
qed

lemma sample_arms: "fst (snd (onMessage (sample_platform v) set_message page_sender sample_background), ()) = sample_armed"
proof -
  have t: "js_get_opt set_message ''type'' = JStr ''nerve:set-session-passphrase''"
    "js_get_opt set_message ''passphrase'' = JStr ''secret''" "js_or set_message x = set_message" for x
    by (simp_all add: set_message_def js_or_def)
  have "handleMessage (sample_platform v) set_message page_sender sample_background =
      setSessionPassphrase (sample_platform v) (JStr ''secret'') sample_background"
    by (simp add: handleMessage_def t content_messages_def page_messages_def bind_run lift_run sample_set_ok Let_def)
  moreover have "setSessionPassphrase (sample_platform v) (JStr ''secret'') sample_background =
      (Inr [(''stored'', JBool True)], sample_armed)"
    by (simp add: setSessionPassphrase_def run_simps clearSessionPassphrase_def storageRemove_run op_outcome_def getArea_def
        scheduleSessionPassphraseExpiry_def sample_broadcast)
      (simp add: sample_background_def sample_armed_def set_area_def area_of_def
        VAULT_SESSION_IDLE_TIMEOUT_MS_def)
  ultimately show ?thesis by (simp add: onMessage_def t)
qed

lemma sample_reachable: "reachable (sample_platform v) sample_armed"
proof (rule reach_step [OF reach_init [OF sample_initial]])
  obtain reply c where r: "onMessage (sample_platform v) set_message page_sender sample_background = (reply, c)"
    by (cases "onMessage (sample_platform v) set_message page_sender sample_background")
  then have "c = sample_armed" using sample_arms [of v] by simp
  with step_message [OF r] show "bg_step (sample_platform v) sample_background (Message set_message page_sender) sample_armed" by simp
qed

text \<open>
  C3: In every state the worker can reach, whatever messages, tab and menu events, restarts,
  timer events and outside writes to the storage led to it, the session is either locked
  (no password, no expiry, no timer) or holds a password whose timer is due exactly at its
  expiry, at most fifteen minutes ahead.  (With a storage that does not fail.)
\<close>

theorem session_invariant:
  assumes "reachable p b" "\<forall>a. has_area p a" "\<forall>n. storage_fault p n = None"
  shows "\<not> truthy (sessionPassphrase b) \<and> sessionPassphraseExpiresAt b = 0 \<and> sessionPassphraseTimer b = None \<or>
    truthy (sessionPassphrase b) \<and> 0 < sessionPassphraseExpiresAt b \<and>
    sessionPassphraseTimer b = Some (sessionPassphraseExpiresAt b) \<and>
    sessionPassphraseExpiresAt b \<le> clock b + 15 * 60 * 1000"
  using reachable_inv [OF assms(1)] assms(2,3)
  by (auto simp: storage_ok_def session_inv_defs VAULT_SESSION_IDLE_TIMEOUT_MS_def)

theorem session_invariant_witness:
  "reachable (sample_platform JNull) sample_armed \<and> truthy (sessionPassphrase sample_armed) \<and>
   sessionPassphraseTimer sample_armed = Some (sessionPassphraseExpiresAt sample_armed)"
proof -
  have "\<forall>a. has_area (sample_platform JNull) a" "\<forall>n. storage_fault (sample_platform JNull) n = None"
    by (simp_all add: sample_platform_def)
  from session_invariant [OF sample_reachable this] show ?thesis
    using sample_reachable by (auto simp: sample_armed_def)
qed


definition get_message :: jsv where
  "get_message = JObj [(''type'', JStr ''nerve:get-session-passphrase'')]"




text \<open>
  The invariant needs the storage: the password is set before the stored one is removed,
  so when that removal fails the message fails, but the password stays in memory without an
  expiry and is answered at any later time.
\<close>

theorem storage_failure_keeps_passphrase:
  assumes "storage_fault p (storage_ops b) = Some m" "has_area p SessionArea" "session_locked b" "s \<noteq> []"
  shows "\<exists>c. setSessionPassphrase p (JStr s) b = (Inl (Error m), c) \<and>
    currentSessionPassphrase p (c\<lparr>clock := later\<rparr>) = (Inr (JStr s), c\<lparr>clock := later\<rparr>)"
  using assms
  by (simp add: setSessionPassphrase_def run_simps clearSessionPassphrase_def storageRemove_run op_outcome_def getArea_def
      currentSessionPassphrase_def expireSessionPassphraseIfNeeded_def session_locked_def)

theorem storage_failure_keeps_passphrase_witness:
  "\<exists>c. setSessionPassphrase ((sample_platform JNull)\<lparr>storage_fault := (\<lambda>_. Some ''quota'')\<rparr>) (JStr ''pw'') sample_background =
     (Inl (Error ''quota''), c) \<and> truthy (sessionPassphrase c)"
proof -
  let ?p = "(sample_platform JNull)\<lparr>storage_fault := (\<lambda>_. Some ''quota'')\<rparr>"
  have h: "storage_fault ?p (storage_ops sample_background) = Some ''quota''" "has_area ?p SessionArea"
    "session_locked sample_background" "''pw'' \<noteq> []"
    by (simp_all add: sample_platform_def session_locked_def sample_background_def)
  from storage_failure_keeps_passphrase [OF h, of 0] obtain c where
    c: "setSessionPassphrase ?p (JStr ''pw'') sample_background = (Inl (Error ''quota''), c)"
    "currentSessionPassphrase ?p (c\<lparr>clock := 0\<rparr>) = (Inr (JStr ''pw''), c\<lparr>clock := 0\<rparr>)" by blast
  have "truthy (sessionPassphrase c)"
    using c(2) by (auto simp: currentSessionPassphrase_def expireSessionPassphraseIfNeeded_def run_simps split: if_splits)
  with c(1) show ?thesis by blast
qed

end
