(* ===== verification/Vault.thy ===== *)
theory Vault
  imports Machine
begin

text \<open>
  What the vault handlers of the worker promise: a ready session means an unlocked, unexpired
  password; credentials go only to the page of their host and only to content scripts of
  allowed pages; a staged fill is used once; what is saved is ciphertext, and it decrypts to
  what was entered.
\<close>

section \<open>A ready session\<close>

text \<open>
  The session \<open>ns\<close> was built from the stored settings and the server's answer, with the key
  that the password in memory unwraps.
\<close>

definition ready_session :: "platform \<Rightarrow> background \<Rightarrow> settings \<Rightarrow> jsv \<Rightarrow> bytes \<Rightarrow> nerve_session \<Rightarrow> bool" where
  "ready_session p b st data key ns \<longleftrightarrow>
     (\<exists>b1 b2. getSettings p b = (Inr st, b1) \<and> listEntries p st b1 = (Inr data, b2)) \<and> connected st \<and> truthy (js_get_opt data ''master_configured'') \<and>
     session_key p (js_get_opt data ''master_wrapped_dek'') (sessionPassphrase b) = Inr key \<and>
     ns_settings ns = st \<and> ns_key ns = Some key \<and>
     ns_entries ns = hydrateEntries p (entries_of (js_get_opt data ''entries'')) key"

lemma lift_Inr: "lift r s = (Inr x, t) \<longleftrightarrow> r = Inr x \<and> t = s"
  by (auto simp: lift_def)

lemma ret_Inr: "ret x s = (Inr y, t) \<longleftrightarrow> y = x \<and> t = s"
  by (auto simp: ret_def)

lemma raise_Inr: "raise e s = (Inr y, t) \<longleftrightarrow> False"
  by (simp add: raise_def)

lemma reads_Inr: "reads f s = (Inr y, t) \<longleftrightarrow> y = f s \<and> t = s"
  by (auto simp: reads_def)

lemmas io_Inr = bind_eq_Inr seqc_eq_Inr lift_Inr ret_Inr raise_Inr reads_Inr

lemma js_get_Inr: "js_get v k = Inr x \<longleftrightarrow> v \<noteq> JUndef \<and> v \<noteq> JNull \<and> x = js_get_opt v k"
  by (auto simp: js_get_def)

lemma getNerveSession_ready:
  assumes "getNerveSession p b = (Inr ns, c)" "ns_status ns = ''ready''"
  obtains st b1 data b2 passphrase b3 key where
    "getSettings p b = (Inr st, b1)" "listEntries p st b1 = (Inr data, b2)"
    "currentSessionPassphrase p b2 = (Inr passphrase, b3)" "truthy passphrase" "connected st"
    "truthy (js_get_opt data ''master_configured'')"
    "session_key p (js_get_opt data ''master_wrapped_dek'') passphrase = Inr key"
    "scheduleSessionPassphraseExpiry p b3 = (Inr (), c)"
    "ns_settings ns = st" "ns_key ns = Some key"
    "ns_entries ns = hydrateEntries p (entries_of (js_get_opt data ''entries'')) key"
proof -
  from assms(1) obtain st b1 where st: "getSettings p b = (Inr st, b1)"
    by (auto simp: getNerveSession_def io_Inr)
  from assms st have conn: "connected st"
    by (auto simp: getNerveSession_def io_Inr split: if_splits)
  from assms st conn obtain data b2 where data: "listEntries p st b1 = (Inr data, b2)"
    "js_get data ''entries'' = Inr (js_get_opt data ''entries'')"
    by (auto simp: getNerveSession_def io_Inr Let_def js_get_Inr)
  let ?theme = "js_or (js_get_opt data ''theme'') (js_or (settings_theme st) JNull)"
  let ?es = "entries_of (js_get_opt data ''entries'')"
  have conf: "truthy (js_get_opt data ''master_configured'')"
    using assms st conn data by (auto simp: getNerveSession_def io_Inr Let_def split: if_splits)
  from assms(1) st conn data conf obtain passphrase b3 where pw: "currentSessionPassphrase p b2 = (Inr passphrase, b3)"
    by (auto simp: getNerveSession_def io_Inr Let_def)
  have t: "truthy passphrase"
    using assms st conn data conf pw by (auto simp: getNerveSession_def io_Inr Let_def split: if_splits)
  from assms st conn data conf pw t obtain key where key: "session_key p (js_get_opt data ''master_wrapped_dek'') passphrase = Inr key"
    by (auto simp: getNerveSession_def io_Inr Let_def split: sum.splits)
  from assms(1) st conn data conf pw t key
  have "scheduleSessionPassphraseExpiry p b3 = (Inr (), c)" "ns_settings ns = st" "ns_key ns = Some key"
    "ns_entries ns = hydrateEntries p ?es key"
    by (auto simp: getNerveSession_def io_Inr Let_def)
  with that st data(1) pw t conn conf key show thesis by blast
qed

text \<open>
  So the password the session was opened with is the one in memory, it has not expired, and
  its expiry is pushed back.
\<close>

lemma ready_unexpired:
  assumes "getNerveSession p b = (Inr ns, c)" "ns_status ns = ''ready''" "session_inv b"
  obtains data key where "clock b < sessionPassphraseExpiresAt b" "session_armed b"
    "ready_session p b (ns_settings ns) data key ns"
    "session_vars c = (sessionPassphrase b, clock b + VAULT_SESSION_IDLE_TIMEOUT_MS,
       Some (clock b + VAULT_SESSION_IDLE_TIMEOUT_MS), clock b)"
proof -
  from assms(1,2) obtain st b1 data b2 passphrase b3 key where r:
    "getSettings p b = (Inr st, b1)" "listEntries p st b1 = (Inr data, b2)"
    "currentSessionPassphrase p b2 = (Inr passphrase, b3)" "truthy passphrase" "connected st"
    "truthy (js_get_opt data ''master_configured'')"
    "session_key p (js_get_opt data ''master_wrapped_dek'') passphrase = Inr key"
    "scheduleSessionPassphraseExpiry p b3 = (Inr (), c)"
    "ns_settings ns = st" "ns_key ns = Some key"
    "ns_entries ns = hydrateEntries p (entries_of (js_get_opt data ''entries'')) key"
    by (rule getNerveSession_ready)
  have "session_vars b1 = session_vars b" by (rule keepsD [OF keeps_settings r(1)])
  moreover have "session_vars b2 = session_vars b1" by (rule keepsD [OF keeps_calls(1) r(2)])
  ultimately have v: "session_vars b2 = session_vars b" by simp
  then have "session_inv b2" using assms(3) session_inv_cong by blast
  from current_passphrase [OF r(3) this r(4)] have cp: "passphrase = sessionPassphrase b2" "b3 = b2"
    "clock b2 < sessionPassphraseExpiresAt b2" "session_armed b2" by auto
  have armed: "session_armed b" "clock b < sessionPassphraseExpiresAt b" "passphrase = sessionPassphrase b"
    using cp v by (auto simp: session_vars_def session_armed_def)
  moreover have "ready_session p b (ns_settings ns) data key ns"
    using r armed(3) by (simp add: ready_session_def)
  moreover have "session_vars c = (sessionPassphrase b, clock b + VAULT_SESSION_IDLE_TIMEOUT_MS,
       Some (clock b + VAULT_SESSION_IDLE_TIMEOUT_MS), clock b)"
    using schedule_arms [OF r(8)] r(4) cp(1,2) v by (auto simp: session_vars_def)
  ultimately show thesis using that by blast
qed

section \<open>Filling\<close>

lemma find_entry_ok: "find_entry i es = Inr e \<Longrightarrow> truthy e \<Longrightarrow> e \<in> set es \<and> js_same (js_get_opt e ''id'') i"
  by (induction es) (auto simp: res_bind_eq_Inr js_get_Inr split: if_splits)

lemma fillEntry_ok:
  assumes "fillEntry p entryId pageUrl b = (Inr res, c)"
  obtains ns b1 entry credentials where "getNerveSession p b = (Inr ns, b1)" "ns_status ns = ''ready''"
    "find_entry entryId (ns_entries ns) = Inr entry" "truthy entry"
    "entryAllowedForPage p entry (if pageUrl = JUndef then JStr [] else pageUrl) = Inr True"
    "loadEntryCredentials p ns entryId b1 = (Inr credentials, c)"
    "res = [(''status'', JStr ''ready''), (''credentials'', credentials)]"
  using assms by (auto simp: fillEntry_def io_Inr split: if_splits)

text \<open>
  C1: Credentials are filled only while the password is in memory and has not expired, only
  for an entry of the unlocked vault that has the requested id, and only on a page whose
  host is the host of that entry's website.
\<close>

theorem fillEntry_policy:
  assumes "fillEntry p entryId pageUrl b = (Inr res, c)" "session_inv b"
  shows "truthy (sessionPassphrase b) \<and> clock b < sessionPassphraseExpiresAt b \<and>
    (\<exists>ns data key entry. ready_session p b (ns_settings ns) data key ns \<and>
       entry \<in> set (ns_entries ns) \<and> js_same (js_get_opt entry ''id'') entryId \<and>
       safeHost p (if pageUrl = JUndef then JStr [] else pageUrl) \<noteq> [] \<and>
       safeHost p (js_get_opt entry ''website'') = safeHost p (if pageUrl = JUndef then JStr [] else pageUrl))"
proof -
  from assms(1) obtain ns b1 entry credentials where f: "getNerveSession p b = (Inr ns, b1)" "ns_status ns = ''ready''"
    "find_entry entryId (ns_entries ns) = Inr entry" "truthy entry"
    "entryAllowedForPage p entry (if pageUrl = JUndef then JStr [] else pageUrl) = Inr True" by (rule fillEntry_ok)
  obtain data key where r: "clock b < sessionPassphraseExpiresAt b" "session_armed b"
    "ready_session p b (ns_settings ns) data key ns"
    using ready_unexpired [OF f(1,2) assms(2)] by blast
  from f(5) have "safeHost p (if pageUrl = JUndef then JStr [] else pageUrl) \<noteq> [] \<and>
       safeHost p (js_get_opt entry ''website'') = safeHost p (if pageUrl = JUndef then JStr [] else pageUrl)"
    unfolding entryAllowedForPage_def Let_def hostsRelated_def
    by (cases "js_get entry ''website''") (simp_all add: js_get_Inr)
  with r find_entry_ok [OF f(3,4)] show ?thesis unfolding session_armed_def by blast
qed

section \<open>Senders\<close>

text \<open>
  C5: A message for content scripts from a sender without a tab or from a page that is not
  allowed, and a password message from a sender that is not an extension page, is refused
  and changes nothing.
\<close>

theorem sender_checks:
  "(\<not> truthy (js_get_opt (js_get_opt sender ''tab'') ''id'') \<or> \<not> allowedPageUrl p (js_get_opt sender ''url'') \<longrightarrow>
     list_all (\<lambda>(type, _). \<forall>ps. handleMessage p (JObj ((''type'', JStr type) # ps)) sender b =
        (Inl (Error ''Message is not allowed from this sender.''), b)) (content_messages p JNull JNull)) \<and>
   (\<not> starts_with (str_of (js_get_opt sender ''url'')) (extension_origin p) \<longrightarrow>
     list_all (\<lambda>(type, _). \<forall>ps. handleMessage p (JObj ((''type'', JStr type) # ps)) sender b =
        (Inl (Error ''Message is not allowed from this sender.''), b)) (page_messages p JNull))"
proof (intro conjI impI)
  assume "\<not> truthy (js_get_opt (js_get_opt sender ''tab'') ''id'') \<or> \<not> allowedPageUrl p (js_get_opt sender ''url'')"
  then have "assertContentScriptSender p sender = Inl (Error ''Message is not allowed from this sender.'')"
    by (simp add: assertContentScriptSender_def)
  then show "list_all (\<lambda>(type, _). \<forall>ps. handleMessage p (JObj ((''type'', JStr type) # ps)) sender b =
        (Inl (Error ''Message is not allowed from this sender.''), b)) (content_messages p JNull JNull)"
    by (simp add: content_messages_def handleMessage_def Let_def bind_run lift_run)
next
  assume "\<not> starts_with (str_of (js_get_opt sender ''url'')) (extension_origin p)"
  then have "assertExtensionPageSender p sender = Inl (Error ''Message is not allowed from this sender.'')"
    by (simp add: assertExtensionPageSender_def)
  then show "list_all (\<lambda>(type, _). \<forall>ps. handleMessage p (JObj ((''type'', JStr type) # ps)) sender b =
        (Inl (Error ''Message is not allowed from this sender.''), b)) (page_messages p JNull)"
    by (simp add: content_messages_def page_messages_def handleMessage_def Let_def bind_run lift_run)
qed

section \<open>A sample vault\<close>

text \<open>
  The sample server's vault: one entry for the sample shop, under a data key that the
  password \<^verbatim>\<open>secret\<close> unwraps.
\<close>

definition sample_key :: bytes where
  "sample_key = [9, 8] @ encode_text (HKDF_PREFIX @ FEATURE)"

definition sample_wrapped :: jsv where
  "sample_wrapped =
     JObj [(''algorithm'', JStr ALGORITHM), (''kdf'', JStr KDF), (''iterations'', JNum 1),
           (''salt'', JStr (bytesToBase64 [1])), (''iv'', JStr (bytesToBase64 [2])),
           (''ciphertext'', JStr (bytesToBase64 (sample_tag (encode_text ''secret'' @ [1]) [2] None # [9, 8])))]"

definition sample_cipher :: "string \<Rightarrow> jsv \<Rightarrow> jsv" where
  "sample_cipher s ad = client_payload [3] (sample_tag sample_key [3] (aesGcmParams ad) # encode_text s)"

definition sample_ad :: jsv where
  "sample_ad = (case nerveEntryAssociatedData sample_entry ''password'' of Inr ad \<Rightarrow> ad | Inl _ \<Rightarrow> JNull)"

definition stored_entry :: jsv where
  "stored_entry =
     JObj [(''id'', JNum 1), (''title'', JStr ''Shop''), (''login_username'', JStr ''ann''),
           (''website'', JStr ''https://shop.example''),
           (''encrypted_password'', sample_cipher ''hunter2'' sample_ad)]"

definition sample_vault :: platform where
  "sample_vault = sample_platform
     (JObj [(''data'', JObj [(''entries'', JArr [other_entry, stored_entry]), (''entry'', stored_entry),
        (''master_configured'', JBool True), (''master_wrapped_dek'', sample_wrapped)])])"

lemma sample_armed_inv: "session_inv sample_armed"
  by (simp add: session_inv_def session_armed_def sample_armed_def sample_background_def VAULT_SESSION_IDLE_TIMEOUT_MS_def)

lemma sample_fill: "is_ok (fst (fillEntry sample_vault (JNum 1) (JStr ''https://shop.example/login'') sample_armed))"
  by code_simp

theorem fillEntry_policy_witness:
  "\<exists>res c. fillEntry sample_vault (JNum 1) (JStr ''https://shop.example/login'') sample_armed = (Inr res, c) \<and>
     clock sample_armed < sessionPassphraseExpiresAt sample_armed \<and>
     safeHost sample_vault (JStr ''https://shop.example/login'') \<noteq> []"
proof -
  obtain res c where r: "fillEntry sample_vault (JNum 1) (JStr ''https://shop.example/login'') sample_armed = (Inr res, c)"
    using is_ok_run [OF sample_fill] by blast
  from fillEntry_policy [OF r sample_armed_inv] r show ?thesis by auto
qed

theorem sender_checks_witness:
  "handleMessage sample_vault (JObj [(''type'', JStr ''nerve:set-session-passphrase''), (''passphrase'', JStr ''x'')])
     (JObj [(''url'', JStr ''https://evil.example/login'')]) sample_armed =
   (Inl (Error ''Message is not allowed from this sender.''), sample_armed)"
proof -
  have "\<not> starts_with (str_of (js_get_opt (JObj [(''url'', JStr ''https://evil.example/login'')]) ''url'')) (extension_origin sample_vault)"
    by (simp add: sample_vault_def)
  with sender_checks [of "JObj [(''url'', JStr ''https://evil.example/login'')]" sample_vault sample_armed]
  show ?thesis by (simp add: page_messages_def)
qed

section \<open>Staged fills are used once\<close>

lemma resolve_ready:
  assumes "resolveStagedFill p tabId page b = (Inr res, c)" "obj_get ''status'' res = JStr ''ready''"
  obtains staged b1 ns b2 credentials b3 where
    "getStagedFill p tabId b = (Inr staged, b1)" "truthy staged"
    "\<not> older_than (clock b1) (js_get_opt staged ''stagedAt'') STAGED_FILL_EXPIRY_MS"
    "let h = safeHost p (js_get_opt page ''url'');
         s = safeHost p (js_or (js_get_opt staged ''website'') (js_get_opt staged ''pageUrl''))
     in h = [] \<or> s = [] \<or> h = s"
    "truthy (js_get_opt page ''hasVisiblePasswordField'')"
    "getNerveSession p b1 = (Inr ns, b2)" "ns_status ns = ''ready''"
    "loadEntryCredentials p ns (js_get_opt staged ''entryId'') b2 = (Inr credentials, b3)"
    "clearStagedFill p tabId b3 = (Inr (), c)"
    "res = [(''status'', JStr ''ready''), (''entryId'', js_get_opt staged ''entryId''), (''credentials'', credentials)]"
proof -
  from assms(1) obtain staged b1 where st: "getStagedFill p tabId b = (Inr staged, b1)"
    by (auto simp: resolveStagedFill_def io_Inr)
  let ?h = "safeHost p (js_get_opt page ''url'')"
  let ?s = "safeHost p (js_or (js_get_opt staged ''website'') (js_get_opt staged ''pageUrl''))"
  have g: "truthy staged" "\<not> older_than (clock b1) (js_get_opt staged ''stagedAt'') STAGED_FILL_EXPIRY_MS"
    "truthy (js_get_opt page ''url'')" "\<not> (?h \<noteq> [] \<and> ?s \<noteq> [] \<and> \<not> hostsRelated ?h ?s)"
    "truthy (js_get_opt page ''hasVisiblePasswordField'')"
    using assms st by (auto simp: resolveStagedFill_def io_Inr Let_def status_none_def split: if_splits)
  from assms(1) st g obtain ns b2 where ns: "getNerveSession p b1 = (Inr ns, b2)"
    by (auto simp: resolveStagedFill_def io_Inr Let_def split: if_splits)
  have rd: "ns_status ns = ''ready''"
    using assms st g ns by (auto simp: resolveStagedFill_def io_Inr Let_def split: if_splits)
  from assms(1) st g ns rd obtain credentials b3 where
    "loadEntryCredentials p ns (js_get_opt staged ''entryId'') b2 = (Inr credentials, b3)"
    "clearStagedFill p tabId b3 = (Inr (), c)"
    "res = [(''status'', JStr ''ready''), (''entryId'', js_get_opt staged ''entryId''), (''credentials'', credentials)]"
    by (auto simp: resolveStagedFill_def io_Inr Let_def catch_eq_Inr split: if_splits)
  moreover have "let h = ?h; s = ?s in h = [] \<or> s = [] \<or> h = s" using g(4) by (auto simp: hostsRelated_def Let_def)
  ultimately show thesis using that st g ns rd by blast
qed


definition sample_staged :: background where
  "sample_staged = sample_armed\<lparr>session_area := (\<lambda>_. None)(TOKEN_KEY \<mapsto> JStr ''tok'',
     STAGED_FILLS_KEY \<mapsto> JObj [(''7'', JObj [(''entryId'', JNum 1), (''pageUrl'', JStr ''https://shop.example/home''),
       (''website'', JStr []), (''stagedAt'', JNum 900000)])])\<rparr>"

definition login_page :: jsv where
  "login_page = JObj [(''url'', JStr ''https://shop.example/login''), (''hasVisiblePasswordField'', JBool True)]"

lemma sample_resolve:
  "case fst (resolveStagedFill sample_vault (JNum 7) login_page sample_staged) of
     Inl _ \<Rightarrow> False | Inr res \<Rightarrow> obj_get ''status'' res = JStr ''ready''"
  by code_simp


section \<open>Saving a login\<close>

lemma attr_keys_plain: "array_index ''encrypted_metadata'' = None" "array_index ''encrypted_password'' = None"
  by code_simp+

lemma hydrate_encrypted:
  assumes "isClientPayload em"
    and "decryptValue p em key nerveMetadataAssociatedData =
      Inr (json_text (JObj [(''title'', JStr t), (''login_username'', JStr u), (''website'', JStr s)]))"
  shows "hydrateEntryMetadata p key (encrypted_attrs em ep) =
    JObj [(''title'', if t = [] then JStr ''Encrypted entry'' else JStr t), (''login_username'', JStr u), (''website'', JStr s),
          (''encrypted_metadata'', em), (''encrypted_password'', ep)]"
proof -
  have "json_ok (JObj [(''title'', JStr t), (''login_username'', JStr u), (''website'', JStr s)])"
    by (simp add: obj_ok_fresh entry_keys_plain)
  note parse = json_parse_text [OF this]
  show ?thesis
    using assms
    by (simp add: hydrateEntryMetadata_def encrypted_attrs_def parse obj_set_def entry_keys_plain attr_keys_plain
        del: json_text.simps)
qed

lemma credentials_of_hydrated:
  assumes "decryptValue p ep key (JObj [(''purpose'', JStr ''elektrine-nerve-entry''), (''field'', JStr ''password''),
      (''title'', JStr (trim t)), (''login_username'', JStr (trim u)), (''website'', JStr (trim s))]) = Inr pw"
  shows "entry_credentials p (JObj [(''title'', JStr t), (''login_username'', JStr u), (''website'', JStr s),
          (''encrypted_metadata'', em), (''encrypted_password'', ep)]) key =
    Inr (JObj [(''username'', JStr u), (''password'', JStr pw), (''notes'', JStr [])])"
  using assms by (simp add: entry_credentials_def decrypt_field_def nerveEntryAssociatedData_def)

lemma pending_metadata_ok:
  "pending_metadata p pending payload = Inr m \<Longrightarrow>
   \<exists>t u s. m = [(''title'', JStr (trim t)), (''login_username'', JStr (trim u)), (''website'', JStr (trim s))]"
proof -
  have tr: "js_trim v = Inr x \<longleftrightarrow> (\<exists>s. v = JStr s \<and> x = trim s)" for v x by (cases v) auto
  show "pending_metadata p pending payload = Inr m \<Longrightarrow> ?thesis"
    by (auto simp: pending_metadata_def res_bind_eq_Inr tr)
qed

lemma savePendingEntry_ok:
  assumes "savePendingEntry p tabId payload b = (Inr res, c)"
  obtains pending b1 ns b2 key metadata em b3 ad ep b4 result b5 where
    "getPendingSave tabId b = (Inr pending, b1)" "truthy pending"
    "getNerveSession p b1 = (Inr ns, b2)" "ns_status ns = ''ready''" "ns_key ns = Some key"
    "pending_metadata p pending payload = Inr metadata"
    "encryptValue p (json_text (JObj metadata)) key nerveMetadataAssociatedData b2 = (Inr em, b3)"
    "nerveEntryAssociatedData (JObj metadata) ''password'' = Inr ad"
    "encryptValue p (to_str (js_get_opt pending ''password'')) key ad b3 = (Inr ep, b4)"
    "(if truthy (js_get_opt payload ''entryId'')
      then updateEntry p (ns_settings ns) (js_get_opt payload ''entryId'') (encrypted_attrs em ep)
      else createEntry p (ns_settings ns) (encrypted_attrs em ep)) b4 = (Inr result, b5)"
    "clearPendingSave tabId b5 = (Inr (), c)"
proof -
  from assms obtain pending b1 where pend: "getPendingSave tabId b = (Inr pending, b1)" "truthy pending"
    by (auto simp: savePendingEntry_def io_Inr split: if_splits)
  with assms obtain ns b2 where ns: "getNerveSession p b1 = (Inr ns, b2)" "ns_status ns = ''ready''"
    by (auto simp: savePendingEntry_def io_Inr split: if_splits)
  with assms pend obtain key where key: "ns_key ns = Some key"
    by (auto simp: savePendingEntry_def io_Inr split: option.splits)
  from assms pend ns key obtain metadata where m: "pending_metadata p pending payload = Inr metadata"
    by (auto simp: savePendingEntry_def io_Inr)
  from assms pend ns key m obtain em b3 where em: "encryptValue p (json_text (JObj metadata)) key nerveMetadataAssociatedData b2 = (Inr em, b3)"
    by (auto simp: savePendingEntry_def io_Inr)
  from assms pend ns key m em obtain ad where ad: "nerveEntryAssociatedData (JObj metadata) ''password'' = Inr ad"
    by (auto simp: savePendingEntry_def io_Inr)
  from assms pend ns key m em ad obtain ep b4 where ep: "encryptValue p (to_str (js_get_opt pending ''password'')) key ad b3 = (Inr ep, b4)"
    by (auto simp: savePendingEntry_def io_Inr)
  from assms pend ns key m em ad ep obtain result b5 where
    "(if truthy (js_get_opt payload ''entryId'')
      then updateEntry p (ns_settings ns) (js_get_opt payload ''entryId'') (encrypted_attrs em ep)
      else createEntry p (ns_settings ns) (encrypted_attrs em ep)) b4 = (Inr result, b5)"
    "clearPendingSave tabId b5 = (Inr (), c)"
    by (simp add: savePendingEntry_def io_Inr Let_def) blast
  with that pend ns key m em ad ep show thesis by blast
qed

lemma save_request_body:
  assumes "(if e then updateEntry p st i attrs else createEntry p st attrs) w = (Inr r, t)"
  shows "\<exists>req. net_log t = net_log w @ [req] \<and> req_body req = TextBody (json_text (JObj [(''entry'', attrs)])) \<and>
    t = w\<lparr>net_log := net_log t\<rparr>"
proof -
  have "\<exists>req. net_log t = net_log w @ [req] \<and> req_body req = TextBody (json_text (JObj [(''entry'', attrs)])) \<and>
      t = w\<lparr>net_log := net_log t\<rparr>"
    if "send_request p st path (no_options\<lparr>opt_method := m, opt_body := JObj [(''entry'', attrs)]\<rparr>) w = (Inr r, t)" for path m
    using that by (rule send_request_ok) (simp add: build_request_def no_options_def)
  with assms show ?thesis by (auto simp: updateEntry_def createEntry_def split: if_splits)
qed

text \<open>
  C7: Saving a submitted login sends only ciphertext: the last request carries a fixed title,
  an empty user name and website, and two ciphertexts; and the entry the server stores
  decrypts, with the session's key, to the trimmed user name and the password that was
  submitted, provided the title saved with it is not blank.
\<close>

theorem saved_login_roundtrip:
  assumes "gcm_correct p" "savePendingEntry p tabId payload b = (Inr res, c)"
  shows "\<exists>pending ns b2 key metadata em ep. pending_live b (to_str tabId) = Some pending \<and>
    getNerveSession p b = (Inr ns, b2) \<and> ns_key ns = Some key \<and>
    pending_metadata p pending payload = Inr metadata \<and>
    req_body (last (net_log c)) = TextBody (json_text (JObj [(''entry'',
      JObj [(''title'', JStr ''Encrypted entry''), (''login_username'', JStr []), (''website'', JStr []),
            (''encrypted_metadata'', em), (''encrypted_password'', ep)])])) \<and>
    isClientPayload em \<and> isClientPayload ep \<and>
    (obj_get ''title'' metadata \<noteq> JStr [] \<longrightarrow>
       entry_credentials p (hydrateEntryMetadata p key (encrypted_attrs em ep)) key =
         Inr (JObj [(''username'', obj_get ''login_username'' metadata),
                    (''password'', JStr (to_str (js_get_opt pending ''password''))), (''notes'', JStr [])]))"
proof -
  from assms(2) obtain pending b1 ns b2 key metadata em b3 ad ep b4 result b5 where r:
    "getPendingSave tabId b = (Inr pending, b1)" "truthy pending"
    "getNerveSession p b1 = (Inr ns, b2)" "ns_status ns = ''ready''" "ns_key ns = Some key"
    "pending_metadata p pending payload = Inr metadata"
    "encryptValue p (json_text (JObj metadata)) key nerveMetadataAssociatedData b2 = (Inr em, b3)"
    "nerveEntryAssociatedData (JObj metadata) ''password'' = Inr ad"
    "encryptValue p (to_str (js_get_opt pending ''password'')) key ad b3 = (Inr ep, b4)"
    "(if truthy (js_get_opt payload ''entryId'')
      then updateEntry p (ns_settings ns) (js_get_opt payload ''entryId'') (encrypted_attrs em ep)
      else createEntry p (ns_settings ns) (encrypted_attrs em ep)) b4 = (Inr result, b5)"
    "clearPendingSave tabId b5 = (Inr (), c)" by (rule savePendingEntry_ok)
  from pending_metadata_ok [OF r(6)] obtain t u s where
    m: "metadata = [(''title'', JStr (trim t)), (''login_username'', JStr (trim u)), (''website'', JStr (trim s))]" by blast
  have live: "pending_live b (to_str tabId) = Some pending" "b1 = b"
    using r(1,2) by (auto simp: getPendingSave_run split: if_splits option.splits)
  from save_request_body [OF r(10)] obtain req where req: "net_log b5 = net_log b4 @ [req]"
    "req_body req = TextBody (json_text (JObj [(''entry'', encrypted_attrs em ep)]))" by blast
  have log: "net_log c = net_log b5" using r(11) by (auto simp: clearPendingSave_run split: if_splits)
  note em = decryptValue_encryptValue [OF assms(1) r(7)] and ep = decryptValue_encryptValue [OF assms(1) r(9)]
  have ad: "ad = JObj [(''purpose'', JStr ''elektrine-nerve-entry''), (''field'', JStr ''password''),
      (''title'', JStr (trim t)), (''login_username'', JStr (trim u)), (''website'', JStr (trim s))]"
    using r(8) by (simp add: m nerveEntryAssociatedData_obj)
  have "trim t \<noteq> [] \<Longrightarrow> entry_credentials p (hydrateEntryMetadata p key (encrypted_attrs em ep)) key =
      Inr (JObj [(''username'', JStr (trim u)), (''password'', JStr (to_str (js_get_opt pending ''password''))), (''notes'', JStr [])])"
    using em ep hydrate_encrypted [of em p key "trim t" "trim u" "trim s" ep]
    by (simp add: m ad credentials_of_hydrated)
  with live r(3,5,6) req log em ep show ?thesis
    by (intro exI [of _ pending] exI [of _ ns] exI [of _ b2] exI [of _ key] exI [of _ metadata] exI [of _ em] exI [of _ ep])
      (simp add: m encrypted_attrs_def)
qed

definition sample_submitted :: background where
  "sample_submitted = sample_armed\<lparr>pendingLoginSaves := (\<lambda>_. None)(''7'' \<mapsto> sample_pending)\<rparr>"

lemma sample_session:
  "case fst (getNerveSession sample_vault sample_submitted) of
     Inl _ \<Rightarrow> False
   | Inr ns \<Rightarrow> ns_status ns = ''ready'' \<and> ns_key ns = Some sample_key \<and>
       serverUrl (ns_settings ns) = JStr ''https://vault.example/'' \<and> apiToken (ns_settings ns) = JStr ''tok''"
  by code_simp

lemma sample_pending_live: "getPendingSave (JNum 7) sample_submitted = (Inr sample_pending, sample_submitted)"
proof -
  have "truthy (JNum 7)" "to_str (JNum 7) = ''7''" by code_simp+
  then show ?thesis
    by (simp add: getPendingSave_run pending_live_def sample_submitted_def pendingSaveExpired_def
        PENDING_SAVE_MEMORY_TTL_MS_def sample_armed_def sample_background_def) (simp add: sample_pending_def)
qed

lemma sample_encrypt: "\<exists>c t. encryptValue (sample_platform v) s k a w = (Inr c, t)"
  by (simp add: encryptValue_run Let_def) (simp add: sample_platform_def)

lemma sample_create:
  assumes "serverUrl st = JStr ''https://vault.example/''" "apiToken st = JStr ''tok''"
  shows "\<exists>t. createEntry sample_vault st a w = (Inr (js_get_opt (the (res_json (sample_response
      (JObj [(''data'', JObj [(''entries'', JArr [other_entry, stored_entry]), (''entry'', stored_entry),
        (''master_configured'', JBool True), (''master_wrapped_dek'', sample_wrapped)])])))) ''data''), t)"
proof -
  have n: "normalizeServerUrl sample_vault (JStr ''https://vault.example/'') = Inr ''https://vault.example''"
    and k: "trim ''tok'' = ''tok''" by code_simp+
  show ?thesis
    by (simp add: createEntry_def send_request_def run_simps assms n no_options_def js_coalesce_def k)
      (simp add: sample_vault_def sample_response_def parseJson_def res_ok_def run_simps js_coalesce_def)
qed

lemma sample_save: "is_ok (fst (savePendingEntry sample_vault (JNum 7) (JObj []) sample_submitted))"
proof -
  obtain ns b2 where ns: "getNerveSession sample_vault sample_submitted = (Inr ns, b2)" "ns_status ns = ''ready''"
    "ns_key ns = Some sample_key" "serverUrl (ns_settings ns) = JStr ''https://vault.example/''"
    "apiToken (ns_settings ns) = JStr ''tok''"
    using sample_session by (cases "getNerveSession sample_vault sample_submitted") (auto split: sum.splits)
  have "is_ok (pending_metadata sample_vault sample_pending (JObj []))" by code_simp
  then obtain m where m: "pending_metadata sample_vault sample_pending (JObj []) = Inr m"
    by (cases "pending_metadata sample_vault sample_pending (JObj [])") auto
  obtain x y z where xyz: "m = [(''title'', JStr (trim x)), (''login_username'', JStr (trim y)), (''website'', JStr (trim z))]"
    using pending_metadata_ok [OF m] by blast
  have tr: "truthy sample_pending" by (simp add: sample_pending_def)
  obtain em b3 where em: "encryptValue sample_vault (json_text (JObj m)) sample_key nerveMetadataAssociatedData b2 = (Inr em, b3)"
    unfolding sample_vault_def using sample_encrypt by blast
  obtain ad where ad: "nerveEntryAssociatedData (JObj m) ''password'' = Inr ad"
    unfolding xyz nerveEntryAssociatedData_obj by blast
  obtain ep b4 where ep: "encryptValue sample_vault (to_str (js_get_opt sample_pending ''password'')) sample_key ad b3 = (Inr ep, b4)"
    unfolding sample_vault_def using sample_encrypt by blast
  obtain b5 where b5: "createEntry sample_vault (ns_settings ns) (encrypted_attrs em ep) b4 = (Inr (JObj
      [(''entries'', JArr [other_entry, stored_entry]), (''entry'', stored_entry),
        (''master_configured'', JBool True), (''master_wrapped_dek'', sample_wrapped)]), b5)"
    using sample_create [OF ns(4,5)] by (auto simp: sample_response_def)
  show ?thesis
    by (simp add: savePendingEntry_def bind_run seqc_run lift_run ret_run sample_pending_live tr ns(1-3) m em ad ep b5
        clearPendingSave_run Let_def del: json_text.simps)
qed

theorem saved_login_roundtrip_witness:
  "\<exists>res c em ep. savePendingEntry sample_vault (JNum 7) (JObj []) sample_submitted = (Inr res, c) \<and>
     isClientPayload em \<and> isClientPayload ep \<and>
     req_body (last (net_log c)) = TextBody (json_text (JObj [(''entry'', encrypted_attrs em ep)]))"
proof -
  obtain res c where r: "savePendingEntry sample_vault (JNum 7) (JObj []) sample_submitted = (Inr res, c)"
    using is_ok_run [OF sample_save] by blast
  have g: "gcm_correct sample_vault" unfolding sample_vault_def by (rule sample_gcm_correct)
  from saved_login_roundtrip [OF g r] r show ?thesis unfolding encrypted_attrs_def by blast
qed

section \<open>Suggestions\<close>


lemma sample_suggests:
  "case fst (suggestions sample_vault (JStr ''https://shop.example/login'') JUndef sample_armed) of
     Inl _ \<Rightarrow> False | Inr res \<Rightarrow> obj_get ''status'' res = JStr ''ready''"
  by code_simp


section \<open>Closing a tab\<close>

definition pending_vars :: "background \<Rightarrow> (string \<rightharpoonup> jsv) \<times> int" where
  "pending_vars b = (pendingLoginSaves b, clock b)"

lemma pending_live_of_vars: "pending_vars c = pending_vars b \<Longrightarrow> pending_live c = pending_live b"
  by (rule ext) (simp add: pending_vars_def pending_live_def split: option.split)

lemma keeps_pending_vars:
  "keeps pending_vars (storageGet p a ks)" "keeps pending_vars (storageSet p a vs)"
  by (auto simp: keeps_def pending_vars_def storage_run op_outcome_def set_area_def
      split: prod.split sum.split option.split area.split)

lemma keeps_staged_pending: "keeps pending_vars (clearStagedFill p k)"
  unfolding clearStagedFill_def clearSessionMapEntry_def sessionMapValues_def
  by (intro keeps_intros keeps_pending_vars)

lemma js_delete_total: "\<exists>v'. js_delete v k = Inr v'"
  by (cases v) auto

lemma clearStagedFill_ok: "storage_ok p \<Longrightarrow> fst (clearStagedFill p k b) = Inr ()"
  using js_delete_total
  by (auto simp: clearStagedFill_def clearSessionMapEntry_def sessionMapValues_def run_simps storage_run op_outcome_def
      getArea_def storage_ok_def split: sum.split) (metis sum.distinct(1))

text \<open>
  Closing a tab never fails, forgets its pending login, and leaves every other tab's
  pending login and staged fill; its own staged fill is gone too unless the storage failed.
\<close>

theorem cleanup_forgets:
  "\<exists>c. cleanupTabState p tabId b = (Inr (), c) \<and>
    (truthy tabId \<longrightarrow> pending_live c (to_str tabId) = None) \<and>
    (truthy tabId \<and> storage_ok p \<longrightarrow> staged_live c (to_str tabId) = None) \<and>
    (\<forall>k. k \<noteq> to_str tabId \<longrightarrow> pending_live c k = pending_live b k \<and> staged_live c k = staged_live b k)"
proof -
  let ?b1 = "if truthy tabId then b\<lparr>pendingLoginSaves := (pendingLoginSaves b)(to_str tabId := None)\<rparr> else b"
  have p1: "clearPendingSave tabId b = (Inr (), ?b1)" by (rule clearPendingSave_run)
  obtain r c where c: "clearStagedFill p tabId ?b1 = (r, c)" by (cases "clearStagedFill p tabId ?b1")
  have run: "cleanupTabState p tabId b = (Inr (), c)"
    using p1 c by (cases r) (simp_all add: cleanupTabState_def run_simps)
  have sess: "session_area ?b1 = session_area b" "storage_ops ?b1 = storage_ops b" by simp_all
  have pend: "pending_live c = pending_live ?b1"
    by (rule pending_live_of_vars) (rule keepsD [OF keeps_staged_pending c])
  have live1: "staged_live ?b1 = staged_live b" by (rule staged_live_cong) (rule sess(1))
  have "pending_live ?b1 = (if truthy tabId then (pending_live b)(to_str tabId := None) else pending_live b)"
    by (simp add: pending_live_del)
  moreover have "k \<noteq> to_str tabId \<Longrightarrow> staged_live c k = staged_live b k" for k
    using staged.discard_frame [OF c] live1 by simp
  moreover have "staged_live c (to_str tabId) = None"
    if "truthy tabId" "storage_ok p"
  proof -
    have "r = Inr ()" using c clearStagedFill_ok [OF that(2), of tabId ?b1] by simp
    with c have "clearStagedFill p tabId ?b1 = (Inr (), c)" by simp
    from staged.discard_value [OF that(1) this] show ?thesis by simp
  qed
  ultimately show ?thesis using run pend by auto
qed


theorem cleanup_forgets_witness:
  "\<exists>c. cleanupTabState sample_vault (JNum 7) sample_staged = (Inr (), c) \<and> staged_live c ''7'' = None \<and>
     pending_live c ''7'' = None"
proof -
  have k: "truthy (JNum 7)" "to_str (JNum 7) = ''7''" by code_simp+
  have ok: "storage_ok sample_vault" unfolding sample_vault_def by (rule sample_storage_ok)
  from cleanup_forgets [of sample_vault "JNum 7" sample_staged] k ok show ?thesis by auto
qed

end
