(* ===== verification/StagedRace.thy ===== *)
theory StagedRace
  imports Storage
begin

text \<open>
  The staged fills of all tabs are one object, read and written back by two separate storage
  operations.  \<open>setSessionMapEntry\<close> is split here at its \<^verbatim>\<open>await\<close>, and the two halves of two
  tabs are interleaved.
\<close>

definition stage_read :: "platform \<Rightarrow> ('a world_scheme, jsv) io" where
  "stage_read p = sessionMapValues p STAGED_FILLS_KEY"

definition stage_write :: "platform \<Rightarrow> jsv \<Rightarrow> jsv \<Rightarrow> jsv \<Rightarrow> ('a world_scheme, unit) io" where
  "stage_write p tabId v values =
     bind (lift (js_set values (to_str tabId) v)) (\<lambda>values'.
     storageSet p SessionArea [(STAGED_FILLS_KEY, values')])"

text \<open>Run one after the other, the halves are the operation.\<close>

lemma stage_halves: "truthy tabId \<Longrightarrow> setStagedFill p tabId v = bind (stage_read p) (stage_write p tabId v)"
  by (simp add: setStagedFill_def setSessionMapEntry_def stage_read_def stage_write_def [abs_def])

lemma stage_read_ok:
  "stage_read p w = (Inr v, t) \<Longrightarrow> v = js_or (stored_map w) (JObj []) \<and> session_area t = session_area w"
  using op_outcome_areas [of p SessionArea w]
  by (auto simp: stage_read_def sessionMapValues_run split: prod.splits sum.splits)

lemma stage_write_ok:
  assumes "stage_write p k x v w = (Inr (), t)" "v = js_or m (JObj [])"
  shows "staged_live t j = (if j = to_str k then (if truthy x then Some x else None)
                            else let y = js_get_opt m j in if truthy y then Some y else None)"
proof -
  obtain v' where v': "js_set v (to_str k) x = Inr v'"
    and w: "storageSet p SessionArea [(STAGED_FILLS_KEY, v')] w = (Inr (), t)"
    using assms(1) by (auto simp: stage_write_def bind_eq_Inr lift_run)
  have "session_area t = (session_area w)(STAGED_FILLS_KEY \<mapsto> v')"
    using w op_outcome_areas by (fastforce simp: storageSet_run set_area_def area_of_def split: prod.splits sum.splits)
  from staged_live_set [OF this] js_set_get [OF v' [unfolded assms(2)]] show ?thesis by (simp add: Let_def)
qed

text \<open>
  A lost update: when two tabs stage a fill at the same time and both read the stored
  object before either writes it back, the second write drops the first tab's fill, and that
  tab sees what it had before, although both calls report success.
\<close>

theorem staged_lost_update:
  assumes "to_str a \<noteq> to_str b" "truthy y"
    and "stage_read p w = (Inr va, w1)" "stage_read p w1 = (Inr vb, w2)"
    and "stage_write p a x va w2 = (Inr (), w3)" "stage_write p b y vb w3 = (Inr (), w4)"
  shows "staged_live w4 (to_str b) = Some y \<and> staged_live w4 (to_str a) = staged_live w (to_str a)"
proof -
  note r1 = stage_read_ok [OF assms(3)] and r2 = stage_read_ok [OF assms(4)]
  have "stored_map w1 = stored_map w" using r1 by (simp add: stored_map_def)
  then have "vb = js_or (stored_map w) (JObj [])" using r2 by simp
  from stage_write_ok [OF assms(6) this] show ?thesis
    using assms(1,2) by (simp add: staged_live_def)
qed

theorem staged_lost_update_witness:
  "\<exists>va w1 vb w2 w3 w4. stage_read (sample_platform JNull) sample_world = (Inr va, w1) \<and>
     stage_read (sample_platform JNull) w1 = (Inr vb, w2) \<and>
     stage_write (sample_platform JNull) (JNum 7) (JStr ''x'') va w2 = (Inr (), w3) \<and>
     stage_write (sample_platform JNull) (JNum 8) (JStr ''y'') vb w3 = (Inr (), w4) \<and>
     staged_live w4 (to_str (JNum 7)) = None"
proof -
  let ?p = "sample_platform JNull"
  have rd: "stage_read ?p w = (Inr (js_or (stored_map w) (JObj [])), w\<lparr>storage_ops := storage_ops w + 1\<rparr>)" for w :: world
    by (simp add: stage_read_def sessionMapValues_run op_outcome_def getArea_def)
  have wr: "\<exists>t. stage_write ?p k x (JObj []) w = (Inr (), t)" for k x and w :: world
    by (simp add: stage_write_def run_simps storageSet_run op_outcome_def getArea_def)
  have m: "stored_map sample_world = JUndef" by (simp add: stored_map_def sample_world_def)
  let ?w1 = "sample_world\<lparr>storage_ops := storage_ops sample_world + 1\<rparr>"
  let ?w2 = "?w1\<lparr>storage_ops := storage_ops ?w1 + 1\<rparr>"
  have a: "stage_read ?p sample_world = (Inr (JObj []), ?w1)" using rd [of sample_world] m by simp
  have "stored_map ?w1 = JUndef" using m by (simp add: stored_map_def)
  then have b: "stage_read ?p ?w1 = (Inr (JObj []), ?w2)" using rd [of ?w1] by simp
  obtain w3 where w3: "stage_write ?p (JNum 7) (JStr ''x'') (JObj []) ?w2 = (Inr (), w3)" using wr by blast
  obtain w4 where w4: "stage_write ?p (JNum 8) (JStr ''y'') (JObj []) w3 = (Inr (), w4)" using wr by blast
  have k: "to_str (JNum 7) \<noteq> to_str (JNum 8)" by code_simp
  have "staged_live sample_world (to_str (JNum 7)) = None" using m by (simp add: staged_live_def Let_def)
  with staged_lost_update [OF k _ a b w3 w4] a b w3 w4 show ?thesis by auto
qed

end
