(* ===== verification/Html.thy ===== *)
theory Html
  imports JsString
begin

text \<open>
  The escaping that \<^verbatim>\<open>popup.js\<close> and \<^verbatim>\<open>content.js\<close> of the extension put around every value they
  interpolate into HTML: five replacements one after the other.  It is proved equal to one
  pass over the text, to leave no character that could end a text node or a quoted attribute,
  and to lose nothing.
\<close>

section \<open>The code\<close>

text \<open>\<^verbatim>\<open>s.replaceAll(c, w)\<close> for a single character.\<close>

definition replace_char :: "char \<Rightarrow> string \<Rightarrow> string \<Rightarrow> string" where
  "replace_char c w s = concat (map (\<lambda>d. if d = c then w else [d]) s)"

definition escapeHtml :: "string \<Rightarrow> string" where
  "escapeHtml value =
     replace_char CHR 0x27 ''&#39;''
    (replace_char CHR 0x22 ''&quot;''
    (replace_char CHR ''>'' ''&gt;''
    (replace_char CHR ''<'' ''&lt;''
    (replace_char CHR ''&'' ''&amp;'' value))))"

definition escapeAttribute :: "string \<Rightarrow> string" where
  "escapeAttribute value = escapeHtml value"

section \<open>One pass\<close>

definition escape_char :: "char \<Rightarrow> string" where
  "escape_char c =
     (if c = CHR ''&'' then ''&amp;'' else if c = CHR ''<'' then ''&lt;'' else if c = CHR ''>'' then ''&gt;''
      else if c = CHR 0x22 then ''&quot;'' else if c = CHR 0x27 then ''&#39;'' else [c])"

fun unescape :: "string \<Rightarrow> string" where
  "unescape [] = []"
| "unescape (c # s) =
     (if c \<noteq> CHR ''&'' then c # unescape s
      else if starts_with s ''amp;'' then CHR ''&'' # unescape (drop 4 s)
      else if starts_with s ''lt;'' then CHR ''<'' # unescape (drop 3 s)
      else if starts_with s ''gt;'' then CHR ''>'' # unescape (drop 3 s)
      else if starts_with s ''quot;'' then CHR 0x22 # unescape (drop 5 s)
      else if starts_with s ''#39;'' then CHR 0x27 # unescape (drop 4 s)
      else c # unescape s)"

lemma replace_char_append: "replace_char c w (s @ t) = replace_char c w s @ replace_char c w t"
  by (simp add: replace_char_def)

lemma escapeHtml_append: "escapeHtml (s @ t) = escapeHtml s @ escapeHtml t"
  by (simp add: escapeHtml_def replace_char_append)

lemma escapeHtml_char: "escapeHtml [c] = escape_char c"
  by (simp add: escapeHtml_def escape_char_def replace_char_def)

lemma escapeHtml_one_pass: "escapeHtml s = concat (map escape_char s)"
proof (induction s)
  case Nil
  then show ?case by (simp add: escapeHtml_def replace_char_def)
next
  case (Cons c s)
  have "escapeHtml (c # s) = escapeHtml ([c] @ s)" by simp
  also have "\<dots> = escape_char c @ escapeHtml s" by (simp only: escapeHtml_append escapeHtml_char)
  finally show ?case using Cons by simp
qed

lemma unescape_char: "unescape (escape_char c @ s) = c # unescape s"
  by (simp add: escape_char_def)

lemma unescape_escapeHtml: "unescape (escapeHtml s) = s"
  unfolding escapeHtml_one_pass by (induction s) (simp_all add: unescape_char)

interpretation html: codec escapeHtml "\<lambda>s. Some (unescape s)" "\<lambda>_. True"
  by unfold_locales (simp add: unescape_escapeHtml)

definition html_special :: "char \<Rightarrow> bool" where
  "html_special c \<longleftrightarrow> c \<in> {CHR ''<'', CHR ''>'', CHR 0x22, CHR 0x27}"

lemma escape_char_plain: "d \<in> set (escape_char c) \<Longrightarrow> \<not> html_special d"
  by (auto simp: escape_char_def html_special_def split: if_splits)

lemma escapeHtml_plain: "d \<in> set (escapeHtml s) \<Longrightarrow> \<not> html_special d"
  unfolding escapeHtml_one_pass by (auto dest: escape_char_plain)

section \<open>Elements\<close>

text \<open>The elements the templates write.\<close>

definition html_attr :: "string \<Rightarrow> string \<Rightarrow> string" where
  "html_attr name value = '' '' @ name @ ''='' @ [CHR 0x22] @ value @ [CHR 0x22]"

definition open_tag :: "string \<Rightarrow> (string \<times> string) list \<Rightarrow> string" where
  "open_tag name attrs = ''<'' @ name @ concat (map (\<lambda>(a, v). html_attr a v) attrs) @ ''>''"

definition element :: "string \<Rightarrow> (string \<times> string) list \<Rightarrow> string \<Rightarrow> string" where
  "element name attrs content = open_tag name attrs @ content @ ''</'' @ name @ ''>''"

text \<open>The characters of a text that are markup.\<close>

definition markup :: "string \<Rightarrow> string" where
  "markup s = filter html_special s"

lemma markup_append [simp]: "markup (s @ t) = markup s @ markup t"
  by (simp add: markup_def)

lemma markup_escape [simp]: "markup (escapeHtml s) = []" "markup (escapeAttribute s) = []"
  using escapeHtml_plain by (auto simp: markup_def escapeAttribute_def filter_empty_conv)

lemma markup_element: "markup (element name attrs content) = markup (open_tag name attrs) @ markup content @ markup (''</'' @ name @ ''>'')"
  by (simp add: element_def)

lemma markup_attr: "markup (html_attr name v) = markup ('' '' @ name @ ''='' @ [CHR 0x22]) @ markup v @ markup [CHR 0x22]"
  by (simp only: html_attr_def markup_append append_assoc)

lemma markup_escaped_attr: "markup (html_attr c (escapeAttribute v)) = markup (html_attr c [])"
proof -
  have "markup [] = []" by (simp add: markup_def)
  then show ?thesis by (simp only: markup_attr markup_escape)
qed

lemma markup_concat: "markup (concat ws) = concat (map markup ws)"
  by (induction ws) (simp_all add: markup_def)

lemma markup_link:
  "markup (open_tag name [a, b, (c, escapeAttribute v), d, e]) = markup (open_tag name [a, b, (c, []), d, e])"
  "markup (open_tag name [a, (c, escapeAttribute v), d, e]) = markup (open_tag name [a, (c, []), d, e])"
  unfolding open_tag_def markup_append markup_concat list.map prod.case
  by (simp_all only: markup_escaped_attr)

section \<open>Properties\<close>

text \<open>
  Escaping is the one-pass replacement of the five special characters (no replacement
  touches the output of an earlier one), its output has no quote and no angle bracket, and
  it is injective.
\<close>

theorem escapeHtml_correct:
  "escapeHtml s = concat (map escape_char s) \<and> list_all (\<lambda>c. \<not> html_special c) (escapeHtml s) \<and>
   (escapeHtml s = escapeHtml t \<longleftrightarrow> s = t)"
  using html.enc_inj [of s t] by (auto simp: escapeHtml_one_pass [symmetric] list_all_iff escapeHtml_plain)

end
