(* ===== verification/Page.thy ===== *)
theory Page
  imports Background Capture Theme Html
begin

text \<open>
  What the extension's own pages share (\<^verbatim>\<open>popup.js\<close>, \<^verbatim>\<open>launcher.js\<close>, \<^verbatim>\<open>options.js\<close> under
  \<^verbatim>\<open>clients/nerve-extension\<close>): the document as the page's code reads and writes it, keyed by
  the ids of its elements, the worker it sends messages to, with the storage both use, and
  what the page did to the browser.
\<close>

section \<open>State\<close>

datatype page_effect =
    PageOpenOptions
  | PageOpenTab string
  | PageClosed
  | PageReplacedUrl string

record page =
  worker :: background
  el_text :: "string \<Rightarrow> string"
  el_class :: "string \<Rightarrow> string"
  el_value :: "string \<Rightarrow> string"
  el_hidden :: "string \<Rightarrow> bool"
  el_disabled :: "string \<Rightarrow> bool"
  el_html :: "string \<Rightarrow> string"
  css_vars :: "(string \<times> string) list"
  page_log :: "page_effect list"
  tab_messages :: "(jsv \<times> jsv) list"
  clipboard :: "string list"

section \<open>Operations\<close>

text \<open>The storage, the network and the random generator are those of the worker's world.\<close>

definition on_worker :: "(background, 'a) io \<Rightarrow> ('p page_scheme, 'a) io" where
  "on_worker m = zoom worker (\<lambda>b s. s\<lparr>worker := b\<rparr>) m"

definition set_text :: "string \<Rightarrow> string \<Rightarrow> ('p page_scheme, unit) io" where
  "set_text i t = update (\<lambda>s. s\<lparr>el_text := (el_text s)(i := t)\<rparr>)"

definition set_value :: "string \<Rightarrow> string \<Rightarrow> ('p page_scheme, unit) io" where
  "set_value i t = update (\<lambda>s. s\<lparr>el_value := (el_value s)(i := t)\<rparr>)"

definition set_html :: "string \<Rightarrow> string \<Rightarrow> ('p page_scheme, unit) io" where
  "set_html i t = update (\<lambda>s. s\<lparr>el_html := (el_html s)(i := t)\<rparr>)"

text \<open>\<^verbatim>\<open>button.disabled = busy\<close>, as a state function since it also runs in \<^verbatim>\<open>finally\<close>.\<close>

definition setBusy :: "string \<Rightarrow> bool \<Rightarrow> 'p page_scheme \<Rightarrow> 'p page_scheme" where
  "setBusy button busy s = s\<lparr>el_disabled := (el_disabled s)(button := busy)\<rparr>"

definition effect :: "page_effect \<Rightarrow> ('p page_scheme, unit) io" where
  "effect e = update (\<lambda>s. s\<lparr>page_log := page_log s @ [e]\<rparr>)"

definition apply_theme :: "settings \<Rightarrow> ('p page_scheme, unit) io" where
  "apply_theme st = update (\<lambda>s. s\<lparr>css_vars := applyTheme st\<rparr>)"

text \<open>
  A message to the worker, sent from the page named; the worker always answers, so
  \<^verbatim>\<open>lastError\<close> is not set.
\<close>

definition page_sender_of :: "platform \<Rightarrow> string \<Rightarrow> jsv" where
  "page_sender_of p name = JObj [(''url'', JStr (extension_origin p @ name))]"

definition post_message :: "platform \<Rightarrow> jsv \<Rightarrow> jsv \<Rightarrow> background \<Rightarrow> jsv result \<times> background" where
  "post_message p message sender b = (case onMessage p message sender b of (reply, c) \<Rightarrow> (Inr reply, c))"

definition runtimeMessage :: "platform \<Rightarrow> string \<Rightarrow> jsv \<Rightarrow> ('p page_scheme, jsv) io" where
  "runtimeMessage p name message =
     bind (on_worker (post_message p message (page_sender_of p name))) (\<lambda>response.
     if \<not> truthy (js_get_opt response ''ok'') then
       raise (Error (to_str (js_or (js_get_opt response ''error'') (JStr ''Extension request failed.''))))
     else ret response)"

text \<open>A message to the content script of a tab; \<^verbatim>\<open>lastError\<close> becomes an error of its text.\<close>

definition sendMessageToTab :: "platform \<Rightarrow> jsv \<Rightarrow> jsv \<Rightarrow> ('p page_scheme, jsv) io" where
  "sendMessageToTab p tabId message =
     seqc (update (\<lambda>s. s\<lparr>tab_messages := tab_messages s @ [(tabId, message)]\<rparr>))
       (case tab_reply p tabId message of
          Inl e \<Rightarrow> raise (Error (error_message p e))
        | Inr response \<Rightarrow> ret response)"

section \<open>Tabs\<close>

definition tab_field :: "(tab \<Rightarrow> jsv) \<Rightarrow> tab option \<Rightarrow> jsv" where
  "tab_field f t = (case t of None \<Rightarrow> JUndef | Some t \<Rightarrow> f t)"

lemma tab_field_simps [simp]: "tab_field f None = JUndef" "tab_field f (Some t) = f t"
  by (simp_all add: tab_field_def)

text \<open>\<^verbatim>\<open>["http:", "https:"].includes(url.protocol)\<close>.\<close>

definition http_url :: "url \<Rightarrow> bool" where
  "http_url u \<longleftrightarrow> u_protocol u \<in> {''http:'', ''https:''}"

section \<open>Frames\<close>

lemma on_worker_run [run_simps]: "on_worker m s = (case m (worker s) of (r, b) \<Rightarrow> (r, s\<lparr>worker := b\<rparr>))"
  by (simp add: on_worker_def zoom_run)

lemma keeps_on_worker: "(\<And>s b. f (s\<lparr>worker := b\<rparr>) = f s) \<Longrightarrow> keeps f (on_worker m)"
  unfolding on_worker_def by (rule keeps_zoom) simp

lemma runtimeMessage_ok:
  assumes "runtimeMessage p name message s = (Inr reply, t)"
  shows "t = s\<lparr>worker := worker t\<rparr> \<and> truthy (js_get_opt reply ''ok'') \<and>
    onMessage p message (page_sender_of p name) (worker s) = (reply, worker t)"
  using assms
  by (auto simp: runtimeMessage_def post_message_def run_simps split: prod.splits if_splits)

lemma keeps_runtimeMessage: "(\<And>s b. f (s\<lparr>worker := b\<rparr>) = f s) \<Longrightarrow> keeps f (runtimeMessage p name message)"
  unfolding runtimeMessage_def by (intro keeps_intros keeps_on_worker) blast

end
