(* ===== verification/Popup.thy ===== *)
theory Popup
  imports Page Password JsSort
begin

text \<open>
  The manager page, \<^verbatim>\<open>clients/nerve-extension/popup.js\<close>: unlocking and locking, the list of
  entries with its search, creating an entry, and filling or copying from an entry.  The
  state is the module's \<^verbatim>\<open>state\<close> object beside the page; a handler is one step.
  \<^verbatim>\<open>safeHost\<close> and \<^verbatim>\<open>hydrateEntryMetadata\<close> of this file are the worker's functions again.
\<close>

section \<open>State\<close>

record popup = page +
  st_settings :: settings
  st_currentTab :: "tab option"
  st_entries :: "jsv list"
  st_masterConfigured :: bool
  st_masterWrappedDek :: jsv
  st_passphrase :: jsv

type_synonym 'a pop = "(popup, 'a) io"

definition isConfigured :: "popup \<Rightarrow> bool" where
  "isConfigured s \<longleftrightarrow> truthy (serverUrl (st_settings s)) \<and> truthy (apiToken (st_settings s))"

definition isUnlocked :: "popup \<Rightarrow> bool" where
  "isUnlocked s \<longleftrightarrow> truthy (st_passphrase s)"

definition nerveKey :: "platform \<Rightarrow> popup \<Rightarrow> bytes result" where
  "nerveKey p s =
     (if \<not> truthy (st_masterWrappedDek s) \<or> \<not> truthy (st_passphrase s)
      then Inl (Error ''Unlock Nerve first.'')
      else res_bind (unwrapWithSecret p (st_masterWrappedDek s) (to_str (st_passphrase s)))
             (\<lambda>mdk. deriveFeatureKey p mdk FEATURE))"

section \<open>The document\<close>

definition setFeedback :: "string \<Rightarrow> string \<Rightarrow> unit pop" where
  "setFeedback message type =
     update (\<lambda>s. s\<lparr>el_text := (el_text s)(''feedback'' := message),
                  el_class := (el_class s)(''feedback'' := ''feedback '' @ type)\<rparr>)"

definition clearFeedback :: "unit pop" where
  "clearFeedback =
     update (\<lambda>s. s\<lparr>el_text := (el_text s)(''feedback'' := []),
                  el_class := (el_class s)(''feedback'' := ''feedback hidden'')\<rparr>)"

definition renderCurrentSite :: "platform \<Rightarrow> unit pop" where
  "renderCurrentSite p =
     bind (reads (\<lambda>s. safeHost p (tab_field tab_url (st_currentTab s)))) (\<lambda>host.
     set_text ''currentSiteLabel'' (if host \<noteq> [] then host else ''No supported page selected''))"

text \<open>The forms of \<^verbatim>\<open>manager.html\<close> give no field a default value.\<close>

definition reset_form :: "string list \<Rightarrow> unit pop" where
  "reset_form ids = update (\<lambda>s. s\<lparr>el_value := (\<lambda>i. if i \<in> set ids then [] else el_value s i)\<rparr>)"

definition unlockForm :: "string list" where "unlockForm = [''unlockPassphrase'']"

definition createEntryForm :: "string list" where
  "createEntryForm = [''entryTitle'', ''entryUsername'', ''entryWebsite'', ''entryPassword'', ''entryNotes'']"

definition suggestedWebsiteUrl :: "platform \<Rightarrow> popup \<Rightarrow> string" where
  "suggestedWebsiteUrl p s =
     (case url_of p (to_str (js_or (tab_field tab_url (st_currentTab s)) (JStr []))) of
        None \<Rightarrow> []
      | Some url \<Rightarrow> if \<not> http_url url then [] else u_origin url)"

definition prefillSuggestedWebsite :: "platform \<Rightarrow> unit pop" where
  "prefillSuggestedWebsite p =
     bind (reads (\<lambda>s. trim (el_value s ''entryWebsite''))) (\<lambda>website.
     if website \<noteq> [] then ret ()
     else
       bind (reads (suggestedWebsiteUrl p)) (\<lambda>suggestedWebsite.
       if suggestedWebsite \<noteq> [] then set_value ''entryWebsite'' suggestedWebsite else ret ()))"

section \<open>The list of entries\<close>

definition safeWebsiteUrl :: "platform \<Rightarrow> jsv \<Rightarrow> string" where
  "safeWebsiteUrl p v =
     (case url_of p (to_str v) of
        None \<Rightarrow> []
      | Some url \<Rightarrow> if http_url url then url_text url else [])"

definition canFillCurrentTab :: "popup \<Rightarrow> bool" where
  "canFillCurrentTab s \<longleftrightarrow>
     truthy (tab_field tab_id (st_currentTab s)) \<and>
     (let url = to_str (js_or (tab_field tab_url (st_currentTab s)) (JStr [])) in
      starts_with url ''http://'' \<or> starts_with url ''https://'')"

definition matchScore :: "platform \<Rightarrow> jsv \<Rightarrow> string \<Rightarrow> int result" where
  "matchScore p entry currentHost =
     res_bind (js_get entry ''website'') (\<lambda>website.
     let entryHost = safeHost p website in
     Inr (if currentHost = [] \<or> entryHost = [] then 0
          else if currentHost = entryHost then 3
          else if ends_with currentHost (''.'' @ entryHost) \<or> ends_with entryHost (''.'' @ currentHost) then 2
          else if str_includes currentHost entryHost \<or> str_includes entryHost currentHost then 1
          else 0))"

definition matchesQuery :: "jsv \<Rightarrow> string \<Rightarrow> bool result" where
  "matchesQuery entry query =
     (if query = [] then Inr True
      else res_bind (haystack entry) (\<lambda>hay. Inr (str_includes hay query)))"

text \<open>An invalid date makes the difference NaN, which sorts as zero.\<close>

definition newest_first :: "platform \<Rightarrow> jsv \<times> int \<Rightarrow> jsv \<times> int \<Rightarrow> int" where
  "newest_first p left right =
     (case (date_ms p (js_get_opt (fst right) ''inserted_at''), date_ms p (js_get_opt (fst left) ''inserted_at'')) of
        (Some r, Some l) \<Rightarrow> r - l
      | _ \<Rightarrow> 0)"

definition listed_entries :: "platform \<Rightarrow> jsv list \<Rightarrow> string \<Rightarrow> string \<Rightarrow> (jsv \<times> int) list result" where
  "listed_entries p entries currentHost query =
     res_bind (map_result (\<lambda>entry. res_bind (matchScore p entry currentHost) (\<lambda>score. Inr (entry, score))) entries) (\<lambda>scored.
     res_bind (map_result (\<lambda>e. res_bind (matchesQuery (fst e) query) (\<lambda>m. Inr (m, e))) scored) (\<lambda>marked.
     Inr (js_sort (by_score_then snd (newest_first p)) (map snd (filter fst marked)))))"

text \<open>The white space the template has between its elements is left out.\<close>

definition action_button :: "string \<Rightarrow> string \<Rightarrow> string \<Rightarrow> string \<Rightarrow> string \<Rightarrow> string" where
  "action_button cls action entryId flag label =
     ''<button'' @ html_attr ''class'' cls @ html_attr ''type'' ''button'' @ html_attr ''data-action'' action @
     html_attr ''data-entry-id'' entryId @ flag @ ''>'' @ label @ ''</button>''"

definition renderEntryCard :: "platform \<Rightarrow> bool \<Rightarrow> jsv \<times> int \<Rightarrow> string" where
  "renderEntryCard p canFill = (\<lambda>(entry, entryMatchScore).
     let websiteHost = safeHost p (js_get_opt entry ''website'');
         entryId = to_str (js_get_opt entry ''id'');
         fillDisabled = (if canFill then [] else '' disabled'');
         badge = (if entryMatchScore > 0 then element ''span'' [(''class'', ''badge'')] ''Suggested'' else []);
         websiteUrl = safeWebsiteUrl p (js_get_opt entry ''website'');
         website = (if websiteUrl \<noteq> []
           then element ''a'' [(''class'', ''subtle''), (''href'', escapeAttribute websiteUrl),
                               (''target'', ''_blank''), (''rel'', ''noreferrer'')]
                  (escapeHtml (if websiteHost \<noteq> [] then websiteHost else websiteUrl))
           else element ''span'' [(''class'', ''subtle'')] ''No website saved'');
         username = (if truthy (js_get_opt entry ''login_username'')
           then element ''p'' [(''class'', ''entry-meta'')] (escapeHtml (to_str (js_get_opt entry ''login_username'')))
           else element ''p'' [(''class'', ''entry-meta'')] ''No username saved'')
     in element ''article'' [(''class'', ''entry-card'')]
          (element ''div'' [(''class'', ''entry-top'')]
             (element ''div'' []
                (element ''h3'' [(''class'', ''entry-title'')] (escapeHtml (to_str (js_get_opt entry ''title''))) @
                 username) @
              badge) @
           element ''div'' [(''class'', ''entry-top'')] website @
           element ''div'' [(''class'', ''entry-actions'')]
             (action_button ''button'' ''fill'' entryId fillDisabled ''Fill'' @
              action_button ''button secondary'' ''copy-password'' entryId [] ''Copy password'' @
              action_button ''button secondary'' ''copy-username'' entryId [] ''Copy username'')))"

definition empty_message :: "string \<Rightarrow> string" where
  "empty_message query =
     (if query \<noteq> [] then ''No nerve entries matched your search.''
      else ''No entries yet. Save one above to start autofilling.'')"

definition renderEntries :: "platform \<Rightarrow> unit pop" where
  "renderEntries p =
     bind (reads (\<lambda>s. isConfigured s \<and> st_masterConfigured s \<and> isUnlocked s)) (\<lambda>shown.
     if \<not> shown then set_html ''entriesList'' []
     else
       bind (reads (\<lambda>s. safeHost p (tab_field tab_url (st_currentTab s)))) (\<lambda>currentHost.
       bind (reads (\<lambda>s. lower (trim (el_value s ''searchInput'')))) (\<lambda>query.
       bind (reads st_entries) (\<lambda>entries.
       bind (lift (listed_entries p entries currentHost query)) (\<lambda>filteredEntries.
       if filteredEntries = [] then
         set_html ''entriesList''
           (element ''div'' [(''class'', ''empty-state'')] (element ''p'' [] (escapeHtml (empty_message query))))
       else
         bind (reads canFillCurrentTab) (\<lambda>canFill.
         set_html ''entriesList'' (concat (map (renderEntryCard p canFill) filteredEntries))))))))"

definition toggle_sections :: "popup \<Rightarrow> string \<Rightarrow> bool" where
  "toggle_sections s = (el_hidden s)
     (''configSection'' := isConfigured s,
      ''setupSection'' := \<not> isConfigured s \<or> st_masterConfigured s,
      ''unlockSection'' := \<not> isConfigured s \<or> \<not> st_masterConfigured s \<or> isUnlocked s,
      ''nerveSection'' := \<not> isConfigured s \<or> \<not> st_masterConfigured s \<or> \<not> isUnlocked s)"

definition render :: "platform \<Rightarrow> unit pop" where
  "render p =
     seqc (update (\<lambda>s. s\<lparr>el_hidden := toggle_sections s\<rparr>))
     (bind (reads isConfigured) (\<lambda>configured.
      if \<not> configured then set_html ''entriesList'' []
      else seqc (prefillSuggestedWebsite p) (renderEntries p)))"

section \<open>Loading\<close>

definition popup_message :: "platform \<Rightarrow> string \<Rightarrow> (string \<times> jsv) list \<Rightarrow> jsv pop" where
  "popup_message p type rest = runtimeMessage p ''manager.html'' (JObj ((''type'', JStr type) # rest))"

definition clearStoredPassphrase :: "platform \<Rightarrow> unit pop" where
  "clearStoredPassphrase p = seqc (popup_message p ''nerve:clear-session-passphrase'' []) (ret ())"

definition getRuntimePassphrase :: "platform \<Rightarrow> jsv pop" where
  "getRuntimePassphrase p =
     bind (popup_message p ''nerve:get-session-passphrase'' []) (\<lambda>response.
     ret (js_or (js_get_opt response ''passphrase'') (JStr [])))"

definition set_passphrase :: "jsv \<Rightarrow> unit pop" where
  "set_passphrase v = update (\<lambda>s. s\<lparr>st_passphrase := v\<rparr>)"

definition validateSavedPassphrase :: "platform \<Rightarrow> unit pop" where
  "validateSavedPassphrase p =
     bind (reads (\<lambda>s. truthy (st_masterWrappedDek s))) (\<lambda>available.
     if \<not> available then
       seqc (clearStoredPassphrase p)
         (raise (Error ''This server does not expose encrypted data metadata yet.''))
     else
       bind (reads (\<lambda>s. unwrapWithSecret p (st_masterWrappedDek s) (to_str (st_passphrase s)))) (\<lambda>r.
       case r of
         Inr _ \<Rightarrow> ret ()
       | Inl _ \<Rightarrow> seqc (clearStoredPassphrase p) (set_passphrase (JStr []))))"

text \<open>Its callers always pass a key; a locked page leaves the entry as it is.\<close>

definition hydrateEntryMetadataValue :: "platform \<Rightarrow> popup \<Rightarrow> bytes \<Rightarrow> jsv \<Rightarrow> jsv" where
  "hydrateEntryMetadataValue p s key entry =
     (if \<not> isUnlocked s then entry else Background.hydrateEntryMetadata p key entry)"

definition popup_hydrateEntryMetadata :: "platform \<Rightarrow> jsv list \<Rightarrow> jsv list pop" where
  "popup_hydrateEntryMetadata p entries =
     bind (reads (nerveKey p)) (\<lambda>r.
     bind (lift r) (\<lambda>key.
     reads (\<lambda>s. map (hydrateEntryMetadataValue p s key) entries)))"

definition reportError :: "platform \<Rightarrow> js_error \<Rightarrow> unit pop" where
  "reportError p e = setFeedback (error_message p e) ''error''"

definition refreshNerveIndex :: "platform \<Rightarrow> unit pop" where
  "refreshNerveIndex p =
     catch
       (seqc (setFeedback ''Loading nerve...'' ''info'')
       (bind (reads st_settings) (\<lambda>st.
       bind (on_worker (listEntries p st)) (\<lambda>data.
       bind (lift (js_get data ''entries'')) (\<lambda>dataEntries.
       let st' = st\<lparr>theme := Some (js_or (js_get_opt data ''theme'') (js_or (settings_theme st) JNull))\<rparr> in
       seqc (update (\<lambda>s. s\<lparr>st_settings := st'\<rparr>))
       (seqc (on_worker (saveSettings p st'))
       (seqc (apply_theme st')
       (seqc (update (\<lambda>s. s\<lparr>st_masterConfigured := truthy (js_get_opt data ''master_configured''),
                            st_masterWrappedDek := js_or (js_get_opt data ''master_wrapped_dek'') JNull\<rparr>))
       (bind (reads (\<lambda>s. st_masterConfigured s \<and> isUnlocked s)) (\<lambda>saved.
       seqc (if saved then validateSavedPassphrase p else ret ())
       (bind (reads (\<lambda>s. st_masterConfigured s \<and> isUnlocked s)) (\<lambda>open_now.
       bind (if open_now then popup_hydrateEntryMetadata p (entries_of dataEntries)
             else ret (entries_of dataEntries)) (\<lambda>entries.
       seqc (update (\<lambda>s. s\<lparr>st_entries := entries\<rparr>))
       (seqc (render p)
       (bind (reads (\<lambda>s. st_masterConfigured s \<and> isUnlocked s)) (\<lambda>unlocked.
        if unlocked then setFeedback ''Nerve unlocked for this browser session.'' ''success''
        else clearFeedback))))))))))))))))
       (\<lambda>e. seqc (render p) (reportError p e))"

text \<open>The tab a query parameter names, else the active one.\<close>

definition targetTabId :: "platform \<Rightarrow> string \<Rightarrow> int option" where
  "targetTabId p search =
     (case parse_int_prefix (case map_of (params_of p search) ''tabId'' of None \<Rightarrow> [] | Some v \<Rightarrow> v) of
        None \<Rightarrow> None
      | Some n \<Rightarrow> if n > 0 then Some n else None)"

definition getActiveTab :: "platform \<Rightarrow> string \<Rightarrow> tab option" where
  "getActiveTab p search =
     (case targetTabId p search of Some tabId \<Rightarrow> tab_by_id p tabId | None \<Rightarrow> active_tab p)"

definition popup_init :: "platform \<Rightarrow> string \<Rightarrow> unit pop" where
  "popup_init p search =
     seqc (update (\<lambda>s. s\<lparr>st_currentTab := getActiveTab p search\<rparr>))
     (seqc (renderCurrentSite p)
     (bind (on_worker (getSettings p)) (\<lambda>st.
     seqc (update (\<lambda>s. s\<lparr>st_settings := st\<rparr>))
     (seqc (apply_theme st)
     (bind (getRuntimePassphrase p) (\<lambda>passphrase.
     seqc (set_passphrase passphrase)
     (seqc (render p)
     (bind (reads isConfigured) (\<lambda>configured.
      if configured then refreshNerveIndex p
      else setFeedback ''Add your server URL and sign in in Settings before using the extension.'' ''info'')))))))))"

section \<open>Unlocking, locking, creating\<close>

definition handleUnlockSubmit :: "platform \<Rightarrow> unit pop" where
  "handleUnlockSubmit p =
     bind (reads (\<lambda>s. trim (el_value s ''unlockPassphrase''))) (\<lambda>passphrase.
     finally_do
       (catch
         (bind (reads st_masterWrappedDek) (\<lambda>wrapped.
          if \<not> truthy wrapped then raise (Error ''Set up account-password encryption on Elektrine first.'')
          else
            seqc (update (setBusy ''unlockSubmitButton'' True))
            (case unwrapWithSecret p wrapped passphrase of
               Inl _ \<Rightarrow> raise (Error ''Incorrect account password. If you just reset it, recover encrypted data on the website.'')
             | Inr _ \<Rightarrow>
                 seqc (popup_message p ''nerve:set-session-passphrase'' [(''passphrase'', JStr passphrase)])
                 (seqc (set_passphrase (JStr passphrase))
                 (seqc (reset_form unlockForm)
                 (seqc (refreshNerveIndex p)
                   (setFeedback ''Nerve unlocked for this browser session.'' ''success'')))))))
         (reportError p))
       (setBusy ''unlockSubmitButton'' False))"

definition handleLock :: "platform \<Rightarrow> unit pop" where
  "handleLock p =
     seqc (clearStoredPassphrase p)
     (seqc (set_passphrase (JStr []))
     (seqc (render p) (setFeedback ''Nerve locked.'' ''info'')))"

text \<open>
  The 32-bit words \<^verbatim>\<open>createPassword\<close> draws, four bytes each, little endian; the handler
  returns when the generator does.
\<close>

definition word_at :: "platform \<Rightarrow> nat \<Rightarrow> nat \<Rightarrow> 32 word" where
  "word_at p start k =
     foldr (\<lambda>i acc. of_nat (unat (random_byte p (start + 4 * k + i))) + 256 * acc) [0 ..< 4] 0"

definition handleGeneratePassword :: "platform \<Rightarrow> popup \<Rightarrow> popup option" where
  "handleGeneratePassword p s =
     (let start = random_used (worker s) in
      case createPassword (word_at p start) 0 of
        None \<Rightarrow> None
      | Some (password, k) \<Rightarrow>
          Some (s\<lparr>el_value := (el_value s)(''entryPassword'' := password),
                  worker := (worker s)\<lparr>random_used := start + 4 * k\<rparr>\<rparr>))"

definition ensureUnlocked :: "unit pop" where
  "ensureUnlocked =
     bind (reads isUnlocked) (\<lambda>unlocked. if \<not> unlocked then raise (Error ''Unlock Nerve first.'') else ret ())"

record entry_form =
  form_title :: string
  form_username :: string
  form_website :: string
  form_password :: string
  form_notes :: string

definition read_form :: "platform \<Rightarrow> popup \<Rightarrow> entry_form" where
  "read_form p s =
     \<lparr>form_title = trim (el_value s ''entryTitle''),
      form_username = trim (el_value s ''entryUsername''),
      form_website = (let website = trim (el_value s ''entryWebsite'') in
                      trim (if website \<noteq> [] then website else suggestedWebsiteUrl p s)),
      form_password = el_value s ''entryPassword'',
      form_notes = trim (el_value s ''entryNotes'')\<rparr>"

definition form_metadata :: "entry_form \<Rightarrow> jsv" where
  "form_metadata f =
     JObj [(''title'', JStr (form_title f)), (''login_username'', JStr (form_username f)),
           (''website'', JStr (form_website f))]"

definition new_entry_attrs :: "jsv \<Rightarrow> jsv \<Rightarrow> jsv \<Rightarrow> jsv" where
  "new_entry_attrs encryptedMetadata encryptedPassword encryptedNotes =
     JObj [(''title'', JStr ''Encrypted entry''), (''login_username'', JStr []), (''website'', JStr []),
           (''encrypted_metadata'', encryptedMetadata), (''encrypted_password'', encryptedPassword),
           (''encrypted_notes'', encryptedNotes)]"

definition encrypt_field :: "platform \<Rightarrow> jsv \<Rightarrow> bytes \<Rightarrow> string \<Rightarrow> string \<Rightarrow> jsv pop" where
  "encrypt_field p metadata key field value =
     bind (lift (nerveEntryAssociatedData metadata field)) (\<lambda>ad. on_worker (encryptValue p value key ad))"

definition encrypt_entry :: "platform \<Rightarrow> bytes \<Rightarrow> entry_form \<Rightarrow> jsv pop" where
  "encrypt_entry p key form =
     (let metadata = form_metadata form in
      bind (on_worker (encryptValue p (json_text metadata) key nerveMetadataAssociatedData)) (\<lambda>encryptedMetadata.
      bind (encrypt_field p metadata key ''password'' (form_password form)) (\<lambda>encryptedPassword.
      bind (if form_notes form \<noteq> [] then encrypt_field p metadata key ''notes'' (form_notes form) else ret JNull) (\<lambda>encryptedNotes.
      ret (new_entry_attrs encryptedMetadata encryptedPassword encryptedNotes)))))"

definition create_from_form :: "platform \<Rightarrow> unit pop" where
  "create_from_form p =
     seqc ensureUnlocked
     (bind (reads (read_form p)) (\<lambda>form.
      if form_title form = [] then raise (Error ''Title is required.'')
      else if form_password form = [] then raise (Error ''Password is required.'')
      else
        seqc (update (setBusy ''createEntrySubmitButton'' True))
        (bind (reads (nerveKey p)) (\<lambda>r.
         bind (lift r) (\<lambda>key.
         bind (encrypt_entry p key form) (\<lambda>attrs.
         bind (reads st_settings) (\<lambda>st.
         seqc (on_worker (createEntry p st attrs))
         (seqc (reset_form createEntryForm)
         (seqc (prefillSuggestedWebsite p)
         (seqc (refreshNerveIndex p)
           (setFeedback ''Nerve entry saved.'' ''success''))))))))))) "

definition handleCreateEntrySubmit :: "platform \<Rightarrow> unit pop" where
  "handleCreateEntrySubmit p =
     finally_do (catch (create_from_form p) (reportError p)) (setBusy ''createEntrySubmitButton'' False)"

section \<open>Filling and copying\<close>

definition confirmEntryOrigin :: "platform \<Rightarrow> jsv \<Rightarrow> unit pop" where
  "confirmEntryOrigin p entry =
     bind (reads (\<lambda>s. safeHost p (tab_field tab_url (st_currentTab s)))) (\<lambda>currentHost.
     let entryHost = safeHost p (js_get_opt entry ''website'') in
     if currentHost = [] \<or> entryHost = [] then
       raise (Error ''This entry does not have a website that can be matched to the current tab.'')
     else if currentHost = entryHost then ret ()
     else
       let related = ends_with currentHost (''.'' @ entryHost) \<or> ends_with entryHost (''.'' @ currentHost) in
       if \<not> related \<or> \<not> confirm_ok p (''Fill '' @ entryHost @ '' credentials on '' @ currentHost @ ''?'')
       then raise (Error ''Autofill cancelled for this site.'') else ret ())"

record decrypted_entry =
  dec_entry :: jsv
  dec_password :: string
  dec_notes :: string

definition loadDecryptedEntry :: "platform \<Rightarrow> jsv \<Rightarrow> decrypted_entry pop" where
  "loadDecryptedEntry p entryId =
     bind (reads st_settings) (\<lambda>st.
     bind (on_worker (getEntry p st entryId)) (\<lambda>data.
     bind (reads (nerveKey p)) (\<lambda>r.
     bind (lift r) (\<lambda>key.
     bind (lift (js_get data ''entry'')) (\<lambda>dataEntry.
     bind (reads (\<lambda>s. hydrateEntryMetadataValue p s key dataEntry)) (\<lambda>entry.
     if \<not> isClientPayload (js_get_opt entry ''encrypted_password'') then
       raise (Error ''This entry is not stored in the current client-encrypted format.'')
     else
       bind (lift (decrypt_field p entry key ''encrypted_password'' ''password'')) (\<lambda>password.
       bind (if truthy (js_get_opt entry ''encrypted_notes'') \<and> isClientPayload (js_get_opt entry ''encrypted_notes'')
             then lift (decrypt_field p entry key ''encrypted_notes'' ''notes'') else ret []) (\<lambda>notes.
       ret \<lparr>dec_entry = entry, dec_password = password, dec_notes = notes\<rparr>))))))))"

definition fill_message :: "jsv \<Rightarrow> string \<Rightarrow> jsv" where
  "fill_message entry password =
     JObj [(''type'', JStr ''fill_credentials''),
           (''payload'', JObj [(''entryId'', js_get_opt entry ''id''),
                               (''username'', js_or (js_get_opt entry ''login_username'') (JStr [])),
                               (''password'', JStr password)])]"

definition fill_summary :: "jsv \<Rightarrow> string" where
  "fill_summary response =
     (let filled = js_get_opt (js_get_opt response ''result'') ''filled'';
          filledUsername = truthy (js_get_opt filled ''username'');
          filledPassword = truthy (js_get_opt filled ''password'') in
      if filledUsername \<and> filledPassword then ''Username and password filled.''
      else if filledPassword then ''Password filled.''
      else if truthy (js_get_opt response ''staged'') then
        (if filledUsername then ''Username filled. Continue to the password step.''
         else ''Continue to the password step and Elektrine will fill it there.'')
      else if filledUsername then ''Username filled. Continue to the password step.''
      else ''Autofill completed.'')"

definition popup_fillEntry :: "platform \<Rightarrow> jsv \<Rightarrow> unit pop" where
  "popup_fillEntry p entry =
     seqc ensureUnlocked
     (bind (reads canFillCurrentTab) (\<lambda>canFill.
      if \<not> canFill then raise (Error ''Open a normal website tab before autofill.'')
      else
        seqc (confirmEntryOrigin p entry)
        (bind (loadDecryptedEntry p (js_get_opt entry ''id'')) (\<lambda>decrypted.
         bind (reads (\<lambda>s. tab_field tab_id (st_currentTab s))) (\<lambda>tabId.
         bind (sendMessageToTab p tabId (fill_message entry (dec_password decrypted))) (\<lambda>response.
         if \<not> truthy (js_get_opt response ''ok'') then
           raise (Error (to_str (js_or (js_get_opt response ''error'') (JStr ''Autofill failed on this page.''))))
         else setFeedback (fill_summary response) ''success''))))))"

definition write_clipboard :: "platform \<Rightarrow> string \<Rightarrow> unit pop" where
  "write_clipboard p t =
     (if \<not> has_api p ''clipboard.writeText'' then raise TypeError
      else update (\<lambda>s. s\<lparr>clipboard := clipboard s @ [t]\<rparr>))"

definition copyEntryPassword :: "platform \<Rightarrow> jsv \<Rightarrow> unit pop" where
  "copyEntryPassword p entry =
     seqc ensureUnlocked
     (bind (loadDecryptedEntry p (js_get_opt entry ''id'')) (\<lambda>decrypted.
      seqc (write_clipboard p (dec_password decrypted))
        (setFeedback ''Password copied to clipboard.'' ''success'')))"

definition copyUsername :: "platform \<Rightarrow> jsv \<Rightarrow> unit pop" where
  "copyUsername p entry =
     (if \<not> truthy (js_get_opt entry ''login_username'') then
        raise (Error ''This entry does not have a username.'')
      else
        seqc (write_clipboard p (to_str (js_get_opt entry ''login_username'')))
          (setFeedback ''Username copied to clipboard.'' ''success''))"

text \<open>
  A click on a button of the list, with its \<^verbatim>\<open>data-action\<close> and \<^verbatim>\<open>data-entry-id\<close>; a click
  beside the buttons is \<open>None\<close>.  No id equals NaN.
\<close>

definition handleEntryAction :: "platform \<Rightarrow> (string \<times> string) option \<Rightarrow> unit pop" where
  "handleEntryAction p button =
     (case button of
        None \<Rightarrow> ret ()
      | Some (action, dataId) \<Rightarrow>
          bind (reads st_entries) (\<lambda>entries.
          (case parse_int_prefix dataId of
             None \<Rightarrow> seqc (lift (map_result (\<lambda>item. js_get item ''id'') entries)) (ret ())
           | Some entryId \<Rightarrow>
               bind (lift (find_entry (JNum entryId) entries)) (\<lambda>entry.
               if \<not> truthy entry then ret ()
               else
                 finally_do
                   (catch
                     (seqc (update (setBusy (action @ '':'' @ dataId) True))
                       (if action = ''fill'' then popup_fillEntry p entry
                        else if action = ''copy-password'' then copyEntryPassword p entry
                        else if action = ''copy-username'' then copyUsername p entry
                        else ret ()))
                     (reportError p))
                   (setBusy (action @ '':'' @ dataId) False)))))"

section \<open>Events\<close>

definition openOptionsPage :: "unit pop" where
  "openOptionsPage = effect PageOpenOptions"

definition openMasterPasswordSettings :: "unit pop" where
  "openMasterPasswordSettings =
     bind (reads (\<lambda>s. serverUrl (st_settings s))) (\<lambda>url.
     if \<not> truthy url then openOptionsPage
     else effect (PageOpenTab (strip_trailing_slashes (to_str url) @ ''/account/encrypted-data'')))"

text \<open>Typing into a field is the browser's; it is an event here since the handlers read it.\<close>

datatype popup_event =
    ClickOptions
  | ClickMasterSettings
  | SubmitUnlock
  | ClickLock
  | SearchInput
  | SubmitCreate
  | ClickList "(string \<times> string) option"
  | TypeInto string string

fun popup_handler :: "platform \<Rightarrow> popup_event \<Rightarrow> unit pop" where
  "popup_handler p ClickOptions = openOptionsPage"
| "popup_handler p ClickMasterSettings = openMasterPasswordSettings"
| "popup_handler p SubmitUnlock = handleUnlockSubmit p"
| "popup_handler p ClickLock = handleLock p"
| "popup_handler p SearchInput = renderEntries p"
| "popup_handler p SubmitCreate = handleCreateEntrySubmit p"
| "popup_handler p (ClickList button) = handleEntryAction p button"
| "popup_handler p (TypeInto i t) = set_value i t"

text \<open>
  The page reacts to its events one at a time; an error that a handler does not catch goes to
  the console.  Generating a password may not return, and then the page does not go on.
\<close>

datatype popup_label = Handled popup_event | ClickGenerate

inductive popup_step :: "platform \<Rightarrow> popup \<Rightarrow> popup_label \<Rightarrow> popup \<Rightarrow> bool" for p where
  popup_handled: "popup_handler p e s = (r, t) \<Longrightarrow> popup_step p s (Handled e) t"
| popup_generate: "handleGeneratePassword p s = Some t \<Longrightarrow> popup_step p s ClickGenerate t"

inductive popup_run :: "platform \<Rightarrow> popup \<Rightarrow> popup_label list \<Rightarrow> popup \<Rightarrow> bool" for p where
  run_done: "popup_run p s [] s"
| run_event: "popup_step p s e t \<Longrightarrow> popup_run p t es u \<Longrightarrow> popup_run p s (e # es) u"

inductive_simps popup_step_generate: "popup_step p s ClickGenerate t"
inductive_simps popup_run_Nil: "popup_run p s [] t"

end
