(* ===== verification/PageProps.thy ===== *)
theory PageProps
  imports Page Vault
begin

text \<open>
  What the pages of the extension can rely on when they send the worker a message: the
  worker accepts them as senders, answers the password before its expiry, and is locked
  after the message that clears it.
\<close>

section \<open>Running a page's operations\<close>

lemma on_worker_Inr: "on_worker m s = (Inr x, t) \<longleftrightarrow> (\<exists>b. m (worker s) = (Inr x, b) \<and> t = s\<lparr>worker := b\<rparr>)"
  by (auto simp: on_worker_run split: prod.splits)

lemma update_Inr: "update f s = (Inr x, t) \<longleftrightarrow> t = f s"
  by (auto simp: update_run)

section \<open>Messages to the worker\<close>

lemma page_sender_ok: "assertExtensionPageSender p (page_sender_of p name) = Inr ()"
  by (simp add: assertExtensionPageSender_def page_sender_of_def)

lemma get_message_reply:
  assumes "session_locked (worker s)"
  shows "runtimeMessage p name (JObj ((''type'', JStr ''nerve:get-session-passphrase'') # rest)) s =
    (Inr (JObj [(''ok'', JBool True), (''passphrase'', sessionPassphrase (worker s))]), s)"
proof -
  let ?m = "JObj ((''type'', JStr ''nerve:get-session-passphrase'') # rest)"
  have h: "handleMessage p ?m (page_sender_of p name) (worker s) =
      bind (currentSessionPassphrase p) (\<lambda>v. ret [(''passphrase'', v)]) (worker s)"
    by (simp add: handleMessage_def content_messages_def page_messages_def Let_def page_sender_ok bind_run lift_run)
  have ai: "array_index ''passphrase'' = None" by code_simp
  have "currentSessionPassphrase p (worker s) = (Inr (sessionPassphrase (worker s)), worker s)"
    using assms by (simp add: currentSessionPassphrase_def expireSessionPassphraseIfNeeded_def run_simps session_locked_def)
  with h show ?thesis
    by (simp add: runtimeMessage_def post_message_def run_simps onMessage_def js_or_def obj_set_fresh ai)
qed

text \<open>What the worker does with the message that clears the password.\<close>

lemma clear_message:
  assumes "clearRuntimeSessionPassphrase p True (worker s) = (r, c)"
  shows "case r of
      Inr _ \<Rightarrow> \<exists>reply. runtimeMessage p name (JObj ((''type'', JStr ''nerve:clear-session-passphrase'') # rest)) s =
        (Inr reply, s\<lparr>worker := c\<rparr>)
    | Inl _ \<Rightarrow> \<exists>e. runtimeMessage p name (JObj ((''type'', JStr ''nerve:clear-session-passphrase'') # rest)) s =
        (Inl e, s\<lparr>worker := c\<rparr>)"
proof -
  let ?m = "JObj ((''type'', JStr ''nerve:clear-session-passphrase'') # rest)"
  have h: "handleMessage p ?m (page_sender_of p name) (worker s) =
      seqc (clearRuntimeSessionPassphrase p True) (ret [(''cleared'', JBool True)]) (worker s)"
    by (simp add: handleMessage_def content_messages_def page_messages_def Let_def page_sender_ok bind_run lift_run)
  have ai: "array_index ''cleared'' = None" by code_simp
  show ?thesis
    using h assms
    by (cases r) (simp_all add: runtimeMessage_def post_message_def run_simps onMessage_def js_or_def obj_set_fresh ai)
qed

lemma clear_message_locks:
  assumes "runtimeMessage p name (JObj ((''type'', JStr ''nerve:clear-session-passphrase'') # rest)) s = (Inr reply, t)"
  shows "session_locked (worker t)"
proof -
  obtain r c where c: "clearRuntimeSessionPassphrase p True (worker s) = (r, c)"
    by (cases "clearRuntimeSessionPassphrase p True (worker s)")
  then have "worker t = c"
    using clear_message [OF c, of name rest] assms by (auto split: sum.splits)
  with clear_locks [OF c] show ?thesis by simp
qed

lemma clear_total: "storage_ok p \<Longrightarrow> \<exists>c. clearRuntimeSessionPassphrase p bc b = (Inr (), c)"
proof -
  assume ok: "storage_ok p"
  let ?s = "b\<lparr>sessionPassphrase := JStr [], sessionPassphraseExpiresAt := 0, sessionPassphraseTimer := None\<rparr>"
  obtain t where t: "clearSessionPassphrase p ?s = (Inr (), t)"
    using clearSessionPassphrase_ok [OF ok, of ?s] by (cases "clearSessionPassphrase p ?s") auto
  obtain r c where c: "broadcastNerveSessionChanged p ''locked'' t = (r, c)" by (cases "broadcastNerveSessionChanged p ''locked'' t")
  have "r = Inr ()" using c by (auto simp: broadcastNerveSessionChanged_def run_simps Let_def split: if_splits)
  with t c show ?thesis by (cases bc) (simp_all add: clearRuntimeSessionPassphrase_def run_simps)
qed

end
