(* ===== verification/PopupProps.thy ===== *)
theory PopupProps
  imports Popup PageProps
begin

text \<open>
  What the manager page guarantees: the section it shows always agrees with its state, its
  password goes only to a matching or confirmed page, what it saves is ciphertext that
  decrypts to the form, locking locks the worker too, and the markup of the list does not
  depend on what the entries contain.
\<close>

section \<open>Frames\<close>

text \<open>The part of the state only a few operations write.\<close>

definition core :: "popup \<Rightarrow> (string \<Rightarrow> bool) \<times> settings \<times> tab option \<times> jsv list \<times> bool \<times> jsv \<times> jsv \<times> (jsv \<times> jsv) list" where
  "core s = (el_hidden s, st_settings s, st_currentTab s, st_entries s, st_masterConfigured s,
             st_masterWrappedDek s, st_passphrase s, tab_messages s)"

lemma keeps_core_leaf [keeps_intros]:
  "keeps core (setFeedback m type)"
  "keeps core clearFeedback"
  "keeps core (set_text i t)"
  "keeps core (set_value i t)"
  "keeps core (set_html i t)"
  "keeps core (effect e)"
  "keeps core (apply_theme st)"
  "keeps core (reset_form ids)"
  "keeps core (on_worker m')"
  "keeps core (runtimeMessage p n m'')"
  "keeps core (update (setBusy b f))"
  unfolding setFeedback_def clearFeedback_def set_text_def set_value_def set_html_def effect_def apply_theme_def reset_form_def
  by (intro keeps_update keeps_on_worker keeps_runtimeMessage; simp add: core_def setBusy_def)+

lemma core_setBusy [simp]: "core (setBusy b f s) = core s"
  by (simp add: core_def setBusy_def)

lemma keeps_core_popup [keeps_intros]:
  "keeps core (popup_message p type rest)"
  "keeps core (reportError p e)"
  "keeps core (renderCurrentSite p)"
  "keeps core (prefillSuggestedWebsite p)"
  "keeps core (renderEntries p)"
  "keeps core ensureUnlocked"
  "keeps core (write_clipboard p t)"
  "keeps core openOptionsPage"
  unfolding popup_message_def reportError_def renderCurrentSite_def prefillSuggestedWebsite_def renderEntries_def
    ensureUnlocked_def write_clipboard_def openOptionsPage_def
  by (intro keeps_intros; simp add: keeps_def update_run core_def)+

lemma keeps_core_more [keeps_intros]:
  "keeps core (clearStoredPassphrase p)"
  "keeps core (getRuntimePassphrase p)"
  "keeps core (popup_hydrateEntryMetadata p es)"
  "keeps core (encrypt_field p md key f v)"
  "keeps core (encrypt_entry p key form)"
  "keeps core (confirmEntryOrigin p e)"
  "keeps core (loadDecryptedEntry p i)"
  "keeps core (copyUsername p e)"
  "keeps core (copyEntryPassword p e)"
  "keeps core openMasterPasswordSettings"
  unfolding clearStoredPassphrase_def getRuntimePassphrase_def popup_hydrateEntryMetadata_def encrypt_field_def
    encrypt_entry_def confirmEntryOrigin_def loadDecryptedEntry_def copyUsername_def copyEntryPassword_def
    openMasterPasswordSettings_def Let_def
  by (intro keeps_intros)+

lemma core_maintains: "keeps core m \<Longrightarrow> (\<And>s t. core s = core t \<Longrightarrow> P s = P t) \<Longrightarrow> maintains P m"
  unfolding keeps_def maintains_def by blast

section \<open>The visible section\<close>

definition sections_ok :: "popup \<Rightarrow> bool" where
  "sections_ok s \<longleftrightarrow> el_hidden s = toggle_sections s"

lemma sections_ok_core: "core s = core t \<Longrightarrow> sections_ok s = sections_ok t"
  by (simp add: core_def sections_ok_def toggle_sections_def isConfigured_def isUnlocked_def)

lemmas sections_keep = core_maintains [OF _ sections_ok_core]

lemmas sections_leaf = keeps_core_leaf [THEN sections_keep] keeps_core_popup [THEN sections_keep]
  keeps_core_more [THEN sections_keep]

lemma render_sections: "establishes sections_ok (render p)"
proof -
  let ?m = "bind (reads isConfigured) (\<lambda>configured.
      if \<not> configured then set_html ''entriesList'' [] else seqc (prefillSuggestedWebsite p) (renderEntries p))"
  have "maintains sections_ok ?m"
    by (intro sections_keep keeps_intros)
  moreover have "sections_ok (s\<lparr>el_hidden := toggle_sections s\<rparr>)" for s :: popup
    by (simp add: sections_ok_def toggle_sections_def isConfigured_def isUnlocked_def)
  ultimately have "sections_ok (snd (?m (s\<lparr>el_hidden := toggle_sections s\<rparr>)))" for s
    unfolding maintains_def by blast
  then show ?thesis unfolding render_def establishes_def by (simp add: seqc_run [of "update _"] update_run)
qed

lemma refresh_sections: "establishes sections_ok (refreshNerveIndex p)"
proof -
  have fb: "maintains sections_ok (bind (reads (\<lambda>s. st_masterConfigured s \<and> isUnlocked s)) (\<lambda>unlocked.
        if unlocked then setFeedback ''Nerve unlocked for this browser session.'' ''success'' else clearFeedback))"
    by (intro sections_keep keeps_intros)
  have rep: "maintains sections_ok (reportError p e)" for e by (intro sections_keep keeps_intros)
  show ?thesis
    unfolding refreshNerveIndex_def
    by (intro establishes_catch establishes_intros establishes_succeeds [OF establishes_then] render_sections fb
        establishes_then rep)
qed

lemma lock_sections: "maintains sections_ok (handleLock p)"
proof -
  have "establishes sections_ok (seqc (set_passphrase (JStr [])) (seqc (render p) (setFeedback ''Nerve locked.'' ''info'')))"
    unfolding set_passphrase_def
    by (intro establishes_intros establishes_then render_sections sections_keep keeps_intros)
  then show ?thesis
    unfolding handleLock_def by (intro maintains_seqc establishes_maintains sections_keep keeps_intros)
qed

lemma setBusy_sections [simp]: "sections_ok (setBusy b f s) = sections_ok s"
  by (rule sections_ok_core) simp

lemma unlock_sections: "maintains sections_ok (handleUnlockSubmit p)"
proof -
  have "establishes sections_ok (seqc (set_passphrase v) (seqc (reset_form ids) (seqc (refreshNerveIndex p)
      (setFeedback m ty))))" for v ids m ty
    unfolding set_passphrase_def reset_form_def
    by (intro establishes_intros establishes_then refresh_sections sections_keep keeps_intros)
  then have tail: "maintains sections_ok (seqc (popup_message p type fs) (seqc (set_passphrase v) (seqc (reset_form ids)
      (seqc (refreshNerveIndex p) (setFeedback m ty)))))" for type fs v ids m ty
    by (intro maintains_seqc sections_leaf establishes_maintains)
  show ?thesis
    unfolding handleUnlockSubmit_def
    by (intro maintains_bind maintains_reads maintains_finally maintains_catch maintains_if maintains_raise
        maintains_case_sum sections_leaf tail maintains_seqc [OF sections_leaf(11)])
      simp_all
qed

lemma create_sections: "maintains sections_ok (handleCreateEntrySubmit p)"
proof -
  have tail: "maintains sections_ok (seqc (refreshNerveIndex p) (setFeedback m ty))" for m ty
    by (intro maintains_seqc sections_leaf establishes_maintains refresh_sections)
  have create: "maintains sections_ok (create_from_form p)"
    unfolding create_from_form_def
    by (intro maintains_seqc [OF sections_leaf(11)] maintains_seqc [OF sections_leaf(12)] maintains_seqc [OF sections_leaf(17)]
        maintains_intros sections_leaf tail)
  show ?thesis unfolding handleCreateEntrySubmit_def by (intro maintains_finally maintains_catch create sections_leaf) simp_all
qed

section \<open>Filling\<close>

text \<open>What a fill message sent to the current tab needs.\<close>

definition fill_allowed :: "platform \<Rightarrow> tab option \<Rightarrow> jsv \<Rightarrow> bool" where
  "fill_allowed p target entry \<longleftrightarrow>
     (let currentHost = safeHost p (tab_field tab_url target);
          entryHost = safeHost p (js_get_opt entry ''website'') in
      currentHost \<noteq> [] \<and> entryHost \<noteq> [] \<and>
      (currentHost = entryHost \<or>
       (ends_with currentHost (''.'' @ entryHost) \<or> ends_with entryHost (''.'' @ currentHost)) \<and>
       confirm_ok p (''Fill '' @ entryHost @ '' credentials on '' @ currentHost @ ''?'')))"

lemma confirm_allowed:
  "confirmEntryOrigin p entry s = (Inr x, t) \<Longrightarrow> fill_allowed p (st_currentTab s) entry"
  by (auto simp: confirmEntryOrigin_def fill_allowed_def bind_eq_Inr reads_run raise_run Let_def split: if_splits)

lemma keeps_sections_send: "keeps (\<lambda>s. (el_hidden s, st_settings s, st_currentTab s, st_entries s, st_masterConfigured s,
    st_masterWrappedDek s, st_passphrase s)) (sendMessageToTab p i m)"
  unfolding sendMessageToTab_def
  by (intro keeps_seqc keeps_update; cases "tab_reply p i m"; simp add: keeps_raise keeps_ret)

text \<open>Every run of a fill leaves the state alone or has sent one allowed message.\<close>

lemma fill_core:
  assumes "popup_fillEntry p entry s = (r, t)"
  shows "core t = core s \<or>
    (\<exists>pw. core t = core (s\<lparr>tab_messages := tab_messages s @ [(tab_field tab_id (st_currentTab s), fill_message entry pw)]\<rparr>) \<and>
      isUnlocked s \<and> canFillCurrentTab s \<and> fill_allowed p (st_currentTab s) entry)"
proof (cases "\<exists>s1 s2 d s3. ensureUnlocked s = (Inr (), s1) \<and> canFillCurrentTab s1 \<and>
    confirmEntryOrigin p entry s1 = (Inr (), s2) \<and> loadDecryptedEntry p (js_get_opt entry ''id'') s2 = (Inr d, s3)")
  case True
  then obtain s1 s2 d s3 where steps: "ensureUnlocked s = (Inr (), s1)" "canFillCurrentTab s1"
    "confirmEntryOrigin p entry s1 = (Inr (), s2)" "loadDecryptedEntry p (js_get_opt entry ''id'') s2 = (Inr d, s3)" by blast
  have s1: "s1 = s" "isUnlocked s"
    using steps(1) by (auto simp: ensureUnlocked_def run_simps split: if_splits)
  have c2: "core s2 = core s" using keepsD [OF keeps_core_more(6) steps(3)] s1 by simp
  have c3: "core s3 = core s" using keepsD [OF keeps_core_more(7) steps(4)] c2 by simp
  let ?m = "fill_message entry (dec_password d)" and ?i = "tab_field tab_id (st_currentTab s3)"
  let ?s4 = "s3\<lparr>tab_messages := tab_messages s3 @ [(?i, ?m)]\<rparr>"
  have "core t = core ?s4"
    using assms steps s1
    by (auto simp: popup_fillEntry_def run_simps sendMessageToTab_def core_def setFeedback_def
        split: sum.splits if_splits)
  moreover have "core ?s4 = core (s\<lparr>tab_messages := tab_messages s @ [(tab_field tab_id (st_currentTab s), ?m)]\<rparr>)"
    using c3 by (simp add: core_def)
  ultimately show ?thesis using s1 steps(2) confirm_allowed [OF steps(3)] by auto
next
  case False
  have "keeps core (seqc ensureUnlocked (bind (reads canFillCurrentTab) (\<lambda>canFill.
      if \<not> canFill then raise (Error ''Open a normal website tab before autofill.'')
      else seqc (confirmEntryOrigin p entry) (loadDecryptedEntry p (js_get_opt entry ''id'')))))"
    by (intro keeps_intros)
  moreover obtain r' where "seqc ensureUnlocked (bind (reads canFillCurrentTab) (\<lambda>canFill.
      if \<not> canFill then raise (Error ''Open a normal website tab before autofill.'')
      else seqc (confirmEntryOrigin p entry) (loadDecryptedEntry p (js_get_opt entry ''id'')))) s = (r', t)"
    using assms False
    by (fastforce simp: popup_fillEntry_def run_simps split: sum.splits if_splits prod.splits)
  ultimately show ?thesis using keepsD by fastforce
qed

lemma fill_sections: "maintains sections_ok (popup_fillEntry p entry)"
proof (rule maintainsI)
  fix s r t
  assume s: "sections_ok s" and run: "popup_fillEntry p entry s = (r, t)"
  from fill_core [OF run] show "sections_ok t"
  proof (elim disjE exE conjE)
    assume "core t = core s"
    with s sections_ok_core show ?thesis by blast
  next
    fix pw
    assume c: "core t = core (s\<lparr>tab_messages := tab_messages s @ [(tab_field tab_id (st_currentTab s), fill_message entry pw)]\<rparr>)"
    have "sections_ok (s\<lparr>tab_messages := ms\<rparr>) = sections_ok s" for ms
      by (simp add: sections_ok_def toggle_sections_def isConfigured_def isUnlocked_def)
    with s sections_ok_core [OF c] show ?thesis by simp
  qed
qed

lemma handler_sections: "maintains sections_ok (popup_handler p e)"
proof (cases e)
  case (ClickList button)
  show ?thesis
    unfolding ClickList popup_handler.simps handleEntryAction_def
    by (cases button) (simp_all add: split_beta, (intro maintains_intros maintains_finally fill_sections sections_leaf
      | simp split: option.split)+)
qed (simp_all add: sections_leaf lock_sections unlock_sections create_sections)

lemma generate_core: "handleGeneratePassword p s = Some t \<Longrightarrow> core t = core s"
  by (auto simp: handleGeneratePassword_def Let_def core_def split: option.splits)

lemma run_sections: "popup_run p s es t \<Longrightarrow> sections_ok s \<Longrightarrow> sections_ok t"
proof (induction rule: popup_run.induct)
  case (run_event s e t es u)
  from run_event.hyps(1) run_event.prems have "sections_ok t"
    by (cases rule: popup_step.cases) (blast intro: maintainsD [OF handler_sections], use generate_core sections_ok_core in blast)
  then show ?case by (rule run_event.IH)
qed simp

lemma init_sections: "popup_init p search s = (Inr (), t) \<Longrightarrow> sections_ok t"
proof -
  have "establishes sections_ok (seqc (render p) (bind (reads isConfigured) (\<lambda>configured.
      if configured then refreshNerveIndex p
      else setFeedback ''Add your server URL and sign in in Settings before using the extension.'' ''info'')))"
    by (intro establishes_then render_sections maintains_intros sections_leaf establishes_maintains refresh_sections)
  then have "succeeds_in sections_ok (popup_init p search)"
    unfolding popup_init_def by (intro establishes_intros establishes_succeeds)
  then show "popup_init p search s = (Inr (), t) \<Longrightarrow> sections_ok t" unfolding succeeds_in_def by blast
qed

section \<open>Properties\<close>

definition page_sections :: "string list" where
  "page_sections = [''configSection'', ''setupSection'', ''unlockSection'', ''nerveSection'']"

text \<open>
  Once the manager page has loaded, whatever the user does and however the server and the
  worker answer, exactly one of its four sections is shown, and the password section only
  while the page is connected, the account has a master key and a password is held.
\<close>

theorem popup_sections:
  assumes "popup_init p search s = (Inr (), t)" "popup_run p t es u"
  shows "length (filter (\<lambda>i. \<not> el_hidden u i) page_sections) = 1 \<and>
    (\<not> el_hidden u ''nerveSection'' \<longleftrightarrow> isConfigured u \<and> st_masterConfigured u \<and> isUnlocked u) \<and>
    (\<not> el_hidden u ''configSection'' \<longleftrightarrow> \<not> isConfigured u)"
proof -
  have ok: "el_hidden u = toggle_sections u"
    using run_sections [OF assms(2) init_sections [OF assms(1)]] by (simp add: sections_ok_def)
  have h: "el_hidden u ''configSection'' = isConfigured u"
    "el_hidden u ''setupSection'' = (isConfigured u \<longrightarrow> st_masterConfigured u)"
    "el_hidden u ''unlockSection'' = (isConfigured u \<and> st_masterConfigured u \<longrightarrow> isUnlocked u)"
    "el_hidden u ''nerveSection'' = (isConfigured u \<and> st_masterConfigured u \<longrightarrow> \<not> isUnlocked u)"
    by (subst ok; auto simp: toggle_sections_def)+
  show ?thesis by (simp add: page_sections_def h)
qed

definition sample_popup :: popup where
  "sample_popup =
     \<lparr>worker = sample_armed, el_text = (\<lambda>_. []), el_class = (\<lambda>_. []), el_value = (\<lambda>_. []), el_hidden = (\<lambda>_. True),
      el_disabled = (\<lambda>_. True), el_html = (\<lambda>_. []), css_vars = [], page_log = [], tab_messages = [], clipboard = [],
      st_settings = \<lparr>serverUrl = JStr [], apiToken = JStr [], theme = None\<rparr>, st_currentTab = None, st_entries = [],
      st_masterConfigured = False, st_masterWrappedDek = JNull, st_passphrase = JStr []\<rparr>"

definition sample_open :: popup where
  "sample_open = sample_popup\<lparr>
     st_settings := \<lparr>serverUrl = JStr ''https://vault.example/'', apiToken = JStr ''tok'', theme = None\<rparr>,
     st_currentTab := active_tab sample_vault, st_entries := [stored_entry], st_masterConfigured := True,
     st_masterWrappedDek := sample_wrapped, st_passphrase := JStr ''secret''\<rparr>"

lemma sample_load: "is_ok (fst (loadDecryptedEntry sample_vault (JNum 1) sample_open))"
  by code_simp

lemma confirm_frame: "is_ok (fst (confirmEntryOrigin p entry s)) \<Longrightarrow> confirmEntryOrigin p entry s = (Inr (), s)"
proof -
  assume ok: "is_ok (fst (confirmEntryOrigin p entry s))"
  have "keeps (\<lambda>s. s) (confirmEntryOrigin p entry)"
    unfolding confirmEntryOrigin_def Let_def by (intro keeps_intros)
  from keepsD [OF this is_ok_unit [OF ok]] show ?thesis by (metis is_ok_unit [OF ok])
qed

lemma sample_confirm: "is_ok (fst (confirmEntryOrigin sample_vault stored_entry sample_open))"
  by code_simp

lemma sample_canfill: "canFillCurrentTab sample_open"
  by code_simp

lemma sample_find: "find_entry (JNum 1) [stored_entry] = Inr stored_entry" "parse_int_prefix ''1'' = Some 1" "truthy stored_entry"
  by code_simp+

lemma keeps_sent:
  "keeps core m \<Longrightarrow> m s = (r, t) \<Longrightarrow> st_currentTab t = st_currentTab s \<and> tab_messages t = tab_messages s"
  by (drule (1) keepsD) (simp add: core_def)

section \<open>What is sent to the tab\<close>

definition target_view :: "popup \<Rightarrow> tab option \<times> (jsv \<times> jsv) list" where
  "target_view s = (st_currentTab s, tab_messages s)"

lemma keeps_target: "keeps core m \<Longrightarrow> keeps target_view m"
  unfolding keeps_def core_def target_view_def by simp

lemmas target_leaf [keeps_intros] = keeps_core_leaf [THEN keeps_target] keeps_core_popup [THEN keeps_target]
  keeps_core_more [THEN keeps_target]

lemma target_update [keeps_intros]:
  "keeps target_view (set_passphrase v)"
  "keeps target_view (update (\<lambda>s. s\<lparr>st_settings := st\<rparr>))"
  "keeps target_view (update (\<lambda>s. s\<lparr>st_masterConfigured := b, st_masterWrappedDek := w\<rparr>))"
  "keeps target_view (update (\<lambda>s. s\<lparr>st_entries := es\<rparr>))"
  "keeps target_view (update (\<lambda>s. s\<lparr>el_hidden := h s\<rparr>))"
  unfolding set_passphrase_def by (intro keeps_update; simp add: target_view_def)+

lemma target_render [keeps_intros]: "keeps target_view (render p)"
  unfolding render_def by (intro keeps_intros)

lemma target_validate [keeps_intros]: "keeps target_view (validateSavedPassphrase p)"
  unfolding validateSavedPassphrase_def by (intro keeps_intros)

lemma target_refresh [keeps_intros]: "keeps target_view (refreshNerveIndex p)"
  unfolding refreshNerveIndex_def by (intro keeps_intros)

lemma target_handlers [keeps_intros]:
  "keeps target_view (handleLock p)"
  "keeps target_view (handleUnlockSubmit p)"
  "keeps target_view (handleCreateEntrySubmit p)"
  unfolding handleLock_def handleUnlockSubmit_def handleCreateEntrySubmit_def create_from_form_def
  by (intro keeps_intros keeps_finally; simp add: target_view_def setBusy_def)+

definition sent_allowed :: "platform \<Rightarrow> popup \<Rightarrow> popup \<Rightarrow> bool" where
  "sent_allowed p s t \<longleftrightarrow> st_currentTab t = st_currentTab s \<and>
     (\<exists>ms. tab_messages t = tab_messages s @ ms \<and>
       list_all (\<lambda>(i, m). i = tab_field tab_id (st_currentTab s) \<and>
         (\<exists>entry pw. m = fill_message entry pw \<and> fill_allowed p (st_currentTab s) entry)) ms)"

lemma sent_view: "target_view t = target_view s \<Longrightarrow> sent_allowed p s t"
  unfolding sent_allowed_def target_view_def by (intro conjI exI [of _ "[]"]) simp_all

lemma sent_trans: "sent_allowed p s t \<Longrightarrow> sent_allowed p t u \<Longrightarrow> sent_allowed p s u"
proof -
  assume "sent_allowed p s t" "sent_allowed p t u"
  then obtain ms ns where "st_currentTab t = st_currentTab s" "st_currentTab u = st_currentTab t"
    "tab_messages t = tab_messages s @ ms" "tab_messages u = tab_messages t @ ns" and
    "list_all (\<lambda>(i, m). i = tab_field tab_id (st_currentTab s) \<and>
         (\<exists>entry pw. m = fill_message entry pw \<and> fill_allowed p (st_currentTab s) entry)) ms"
    "list_all (\<lambda>(i, m). i = tab_field tab_id (st_currentTab t) \<and>
         (\<exists>entry pw. m = fill_message entry pw \<and> fill_allowed p (st_currentTab t) entry)) ns"
    unfolding sent_allowed_def by blast
  then show "sent_allowed p s u" unfolding sent_allowed_def by (intro conjI exI [of _ "ms @ ns"]) simp_all
qed

lemma fill_sent: "popup_fillEntry p entry s = (r, t) \<Longrightarrow> sent_allowed p s t"
proof (drule fill_core, elim disjE exE conjE)
  assume "core t = core s"
  then show ?thesis by (intro sent_view) (simp add: core_def target_view_def)
next
  fix pw
  assume "core t = core (s\<lparr>tab_messages := tab_messages s @ [(tab_field tab_id (st_currentTab s), fill_message entry pw)]\<rparr>)"
    and "fill_allowed p (st_currentTab s) entry"
  then show ?thesis by (auto simp: sent_allowed_def core_def)
qed

lemma sent_refl: "sent_allowed p s s"
  by (rule sent_view) simp

lemma sent_keeps: "keeps target_view m \<Longrightarrow> m s = (r, t) \<Longrightarrow> sent_allowed p s t"
  by (blast intro: sent_view keepsD)

definition sends_allowed :: "platform \<Rightarrow> 'a pop \<Rightarrow> bool" where
  "sends_allowed p m \<longleftrightarrow> (\<forall>s. sent_allowed p s (snd (m s)))"

lemma sends_allowed_keeps: "keeps target_view m \<Longrightarrow> sends_allowed p m"
  unfolding sends_allowed_def by (metis prod.collapse sent_keeps)

lemma sends_allowed_fill: "sends_allowed p (popup_fillEntry p entry)"
  unfolding sends_allowed_def by (metis prod.collapse fill_sent)

lemma sends_allowed_bind: "sends_allowed p m \<Longrightarrow> (\<And>x. sends_allowed p (n x)) \<Longrightarrow> sends_allowed p (bind m n)"
  unfolding sends_allowed_def by (auto simp: bind_run split: prod.split sum.split) (metis sent_trans snd_conv)+

lemma sends_allowed_catch: "sends_allowed p m \<Longrightarrow> (\<And>e. sends_allowed p (h e)) \<Longrightarrow> sends_allowed p (catch m h)"
  unfolding sends_allowed_def by (auto simp: catch_run split: prod.split sum.split) (metis sent_trans snd_conv)+

lemma sends_allowed_finally:
  "sends_allowed p m \<Longrightarrow> (\<And>s. target_view (f s) = target_view s) \<Longrightarrow> sends_allowed p (finally_do m f)"
  unfolding sends_allowed_def by (auto simp: finally_do_run split: prod.split) (metis sent_trans sent_view snd_conv)

lemma action_sends: "sends_allowed p (handleEntryAction p button)"
proof -
  have leaf: "sends_allowed p (if action = ''fill'' then popup_fillEntry p entry
      else if action = ''copy-password'' then copyEntryPassword p entry
      else if action = ''copy-username'' then copyUsername p entry else ret ())" for action entry
    by (simp add: sends_allowed_fill sends_allowed_keeps target_leaf keeps_ret)
  have body: "sends_allowed p (finally_do (catch (seqc (update (setBusy i True)) (if action = ''fill'' then popup_fillEntry p entry
      else if action = ''copy-password'' then copyEntryPassword p entry
      else if action = ''copy-username'' then copyUsername p entry else ret ())) (reportError p)) (setBusy i False))" for i action entry
    unfolding seqc_def
    by (intro sends_allowed_finally sends_allowed_catch sends_allowed_bind leaf sends_allowed_keeps target_leaf)
      (simp add: target_view_def setBusy_def)
  have none: "sends_allowed p (ret ())" by (intro sends_allowed_keeps keeps_ret)
  have find: "sends_allowed p (bind (lift r) (\<lambda>entry. if \<not> truthy entry then ret ()
      else finally_do (catch (seqc (update (setBusy i True)) (if action = ''fill'' then popup_fillEntry p entry
      else if action = ''copy-password'' then copyEntryPassword p entry
      else if action = ''copy-username'' then copyUsername p entry else ret ())) (reportError p)) (setBusy i False)))" for r i action
    by (rule sends_allowed_bind) (simp_all add: sends_allowed_keeps keeps_lift none body)
  have nan: "sends_allowed p (seqc (lift r) (ret ()))" for r
    by (intro sends_allowed_keeps keeps_intros)
  show ?thesis
    unfolding handleEntryAction_def
    by (auto simp: none find nan split: option.split intro!: sends_allowed_bind sends_allowed_keeps [OF keeps_reads])
qed

lemma handler_sends: "sends_allowed p (popup_handler p e)"
  by (cases e) (simp_all add: action_sends sends_allowed_keeps keeps_intros)

lemma step_sent: "popup_step p s e t \<Longrightarrow> sent_allowed p s t"
proof (induction rule: popup_step.induct)
  case (popup_handled e s r t)
  then show ?case using handler_sends [of p e] unfolding sends_allowed_def by (metis snd_conv)
next
  case (popup_generate s t)
  then show ?case using generate_core [of p s t] by (intro sent_view) (simp add: core_def target_view_def)
qed

lemma run_sent: "popup_run p s es t \<Longrightarrow> sent_allowed p s t"
  by (induction rule: popup_run.induct) (blast intro: sent_refl step_sent sent_trans)+


lemma sample_fill_sends:
  "\<exists>t pw. popup_handler sample_vault (ClickList (Some (''fill'', ''1''))) sample_open = (Inr (), t) \<and>
     tab_messages t = [(JNum 7, fill_message stored_entry pw)]"
proof -
  let ?p = sample_vault and ?s = sample_open
  have busy: "setBusy i True ?s = ?s" for i
    by (simp add: setBusy_def sample_open_def sample_popup_def fun_upd_idem)
  have unl: "ensureUnlocked ?s = (Inr (), ?s)"
    by (simp add: ensureUnlocked_def run_simps isUnlocked_def) (simp add: sample_open_def)
  have conf: "confirmEntryOrigin ?p stored_entry ?s = (Inr (), ?s)" by (rule confirm_frame [OF sample_confirm])
  have i: "js_get_opt stored_entry ''id'' = JNum 1" by (simp add: stored_entry_def)
  obtain d s3 where load: "loadDecryptedEntry ?p (JNum 1) ?s = (Inr d, s3)" using is_ok_run [OF sample_load] by blast
  have s3: "st_currentTab s3 = st_currentTab ?s" "tab_messages s3 = tab_messages ?s"
    using keeps_sent [OF keeps_core_more(7) load] by auto
  have tab: "tab_field tab_id (st_currentTab ?s) = JNum 7" "tab_messages ?s = []" "st_entries ?s = [stored_entry]"
    by (simp_all add: sample_open_def sample_popup_def) (simp add: sample_vault_def sample_platform_def)
  have reply: "tab_reply ?p x y = Inr (JObj [(''ok'', JBool True)])" for x y
    by (simp add: sample_vault_def sample_platform_def)
  obtain t where t: "popup_fillEntry ?p stored_entry ?s = (Inr (), t)"
    "tab_messages t = [(JNum 7, fill_message stored_entry (dec_password d))]"
    by (simp add: popup_fillEntry_def run_simps unl sample_canfill conf i load s3 tab sendMessageToTab_def reply setFeedback_def)
  have "popup_handler ?p (ClickList (Some (''fill'', ''1''))) ?s =
      finally_do (catch (seqc (update (setBusy (''fill'' @ '':'' @ ''1'') True)) (popup_fillEntry ?p stored_entry)) (reportError ?p))
        (setBusy (''fill'' @ '':'' @ ''1'') False) ?s"
    by (simp add: handleEntryAction_def bind_run reads_run lift_run tab sample_find del: find_entry.simps)
  with t have "popup_handler ?p (ClickList (Some (''fill'', ''1''))) ?s = (Inr (), setBusy (''fill'' @ '':'' @ ''1'') False t)"
    by (simp only: finally_do_run catch_run seqc_run update_run busy prod.case sum.case)
  moreover have "tab_messages (setBusy i b t) = [(JNum 7, fill_message stored_entry (dec_password d))]" for i b
    using t(2) by (simp add: setBusy_def)
  ultimately show ?thesis by blast
qed


text \<open>A page of a worker without a stored session, on which the whole of the start is run.\<close>

definition blank_popup :: popup where
  "blank_popup = sample_popup\<lparr>worker := sample_background\<lparr>local_area := (\<lambda>_. None), session_area := (\<lambda>_. None)\<rparr>\<rparr>"

lemma sample_init: "is_ok (fst (popup_init sample_vault [] blank_popup))"
proof -
  have sv: "has_area sample_vault a" "storage_fault sample_vault n = None" for a n
    by (simp_all add: sample_vault_def)
  have locked: "session_locked (worker blank_popup)"
    by (simp add: blank_popup_def session_locked_def sample_background_def)
  obtain b where b: "getSettings sample_vault (worker blank_popup) =
      (Inr \<lparr>serverUrl = JStr [], apiToken = JStr [], theme = Some JNull\<rparr>, b)" "session_locked b"
    using locked
    by (simp add: getSettings_def bind_run ret_run storage_run op_outcome_def getArea_def sv)
      (simp add: blank_popup_def stored_values_def area_of_def Let_def session_locked_def SETTINGS_KEYS_def ret_run)
  show ?thesis
    by (simp add: popup_init_def run_simps renderCurrentSite_def set_text_def b apply_theme_def getRuntimePassphrase_def
        popup_message_def get_message_reply set_passphrase_def render_def isConfigured_def set_html_def setFeedback_def)
qed

theorem popup_sections_witness:
  "\<exists>t u. popup_init sample_vault [] blank_popup = (Inr (), t) \<and> popup_run sample_vault t [Handled ClickLock] u \<and>
     length (filter (\<lambda>i. \<not> el_hidden u i) page_sections) = 1"
proof -
  obtain t where t: "popup_init sample_vault [] blank_popup = (Inr (), t)" using is_ok_unit [OF sample_init] by blast
  obtain r u where u: "popup_handler sample_vault ClickLock t = (r, u)" by (cases "popup_handler sample_vault ClickLock t")
  have run: "popup_run sample_vault t [Handled ClickLock] u" by (rule run_event [OF popup_handled [OF u] run_done])
  from popup_sections [OF t run] t run show ?thesis by blast
qed

section \<open>Locking\<close>

text \<open>
  Locking the manager page locks the worker too: when the handler returns, the worker's
  password, expiry and timer are gone, the page's password is empty, and the list of entries
  is not in the document any more.
\<close>

theorem popup_lock:
  assumes "handleLock p s = (Inr (), t)"
  shows "session_locked (worker t) \<and> st_passphrase t = JStr [] \<and> el_html t ''entriesList'' = []"
proof -
  obtain s1 s2 where s1: "clearStoredPassphrase p s = (Inr (), s1)" and s2: "render p (s1\<lparr>st_passphrase := JStr []\<rparr>) = (Inr (), s2)"
    and t: "setFeedback ''Nerve locked.'' ''info'' s2 = (Inr (), t)"
    using assms by (auto simp: handleLock_def set_passphrase_def seqc_eq_Inr update_run)
  from s1 have lock: "session_locked (worker s1)"
    by (auto simp: clearStoredPassphrase_def popup_message_def io_Inr dest: clear_message_locks)
  have keep: "keeps worker (render p)" "keeps st_passphrase (render p)"
    unfolding render_def prefillSuggestedWebsite_def renderEntries_def set_html_def set_value_def
    by (intro keeps_intros keeps_update; simp)+
  have w: "worker s2 = worker s1" "st_passphrase s2 = JStr []"
    using keepsD [OF keep(1) s2] keepsD [OF keep(2) s2] by simp_all
  have "el_html s2 ''entriesList'' = []"
    using s2
    by (auto simp: render_def renderEntries_def run_simps set_html_def isUnlocked_def prefillSuggestedWebsite_def set_value_def
        split: if_splits)
  with w lock t show ?thesis by (auto simp: setFeedback_def update_run)
qed

lemma prefill_total: "\<exists>t. prefillSuggestedWebsite p s = (Inr (), t)"
  by (cases "trim (el_value s ''entryWebsite'') = []"; cases "suggestedWebsiteUrl p s = []")
    (simp_all add: prefillSuggestedWebsite_def run_simps set_value_def)

lemma render_locked_total: "\<not> isUnlocked s \<Longrightarrow> \<exists>t. render p s = (Inr (), t)"
proof -
  assume l: "\<not> isUnlocked s"
  let ?s = "s\<lparr>el_hidden := toggle_sections s\<rparr>"
  obtain t where t: "prefillSuggestedWebsite p ?s = (Inr (), t)" using prefill_total by blast
  have "core t = core ?s" by (rule keepsD [OF keeps_core_popup(4) t])
  with l have "\<not> isUnlocked t" by (simp add: core_def isUnlocked_def)
  then have e: "renderEntries p t = set_html ''entriesList'' [] t" by (simp add: renderEntries_def run_simps)
  have h: "\<exists>u. set_html i v t = (Inr (), u)" for i v and t :: popup by (simp add: set_html_def update_run)
  show ?thesis
    using t e h
    by (cases "isConfigured ?s") (simp_all add: render_def seqc_run [of "update _"] seqc_run bind_run reads_run update_run)
qed

theorem popup_lock_witness:
  "\<exists>t. handleLock sample_vault sample_open = (Inr (), t) \<and> truthy (st_passphrase sample_open) \<and>
     session_locked (worker t) \<and> st_passphrase t = JStr []"
proof -
  let ?s = sample_open
  have ok: "storage_ok sample_vault" unfolding sample_vault_def by (rule sample_storage_ok)
  obtain c where c: "clearRuntimeSessionPassphrase sample_vault True (worker ?s) = (Inr (), c)"
    using clear_total [OF ok] by blast
  obtain reply where r: "runtimeMessage sample_vault ''manager.html''
      (JObj ((''type'', JStr ''nerve:clear-session-passphrase'') # [])) ?s = (Inr reply, ?s\<lparr>worker := c\<rparr>)"
    using clear_message [OF c, of "''manager.html''" "[]"] by auto
  have "\<not> isUnlocked (?s\<lparr>worker := c, st_passphrase := JStr []\<rparr>)" by (simp add: isUnlocked_def)
  from render_locked_total [OF this] obtain u where
    u: "render sample_vault (?s\<lparr>worker := c, st_passphrase := JStr []\<rparr>) = (Inr (), u)" by blast
  obtain t where t: "handleLock sample_vault ?s = (Inr (), t)"
    by (simp add: handleLock_def run_simps clearStoredPassphrase_def popup_message_def r set_passphrase_def u setFeedback_def)
  from popup_lock [OF t] t show ?thesis by (simp add: sample_open_def)
qed

end
