(* ===== verification/PopupEntry.thy ===== *)
theory PopupEntry
  imports PopupProps
begin

text \<open>
  What the manager page saves and shows: the entry it creates is ciphertext that decrypts to
  the form, and the markup of an entry's card does not depend on the text of the entry.
\<close>

section \<open>Creating an entry\<close>

lemma entry_form_keys:
  "array_index ''encrypted_notes'' = None" "array_index ''encrypted_password'' = None" "array_index ''encrypted_metadata'' = None"
  by code_simp+

lemma hydrate_new_entry:
  assumes "isClientPayload em" "decryptValue p em key nerveMetadataAssociatedData =
      Inr (json_text (JObj [(''title'', JStr t), (''login_username'', JStr u), (''website'', JStr w)]))" "t \<noteq> []"
  shows "Background.hydrateEntryMetadata p key (new_entry_attrs em ep en) =
    JObj [(''title'', JStr t), (''login_username'', JStr u), (''website'', JStr w),
          (''encrypted_metadata'', em), (''encrypted_password'', ep), (''encrypted_notes'', en)]"
proof -
  have "json_ok (JObj [(''title'', JStr t), (''login_username'', JStr u), (''website'', JStr w)])"
    by (simp add: obj_ok_fresh entry_keys_plain)
  note parse = json_parse_text [OF this]
  show ?thesis
    using assms
    by (simp add: hydrateEntryMetadata_def new_entry_attrs_def parse obj_set_def entry_keys_plain attr_keys_plain entry_form_keys
        del: json_text.simps)
qed

lemma encrypt_field_Inr:
  assumes "gcm_correct p" "encrypt_field p metadata key field value s = (Inr payload, t)"
  shows "\<exists>ad. nerveEntryAssociatedData metadata field = Inr ad \<and> isClientPayload payload \<and>
    decryptValue p payload key ad = Inr value"
  using assms(2)
  by (auto simp: encrypt_field_def io_Inr on_worker_Inr dest: decryptValue_encryptValue [OF assms(1)])

lemma trim_form:
  "read_form p s = form \<Longrightarrow> trim (form_title form) = form_title form \<and> trim (form_username form) = form_username form \<and>
     trim (form_website form) = form_website form"
  by (auto simp: read_form_def Let_def)

lemma encrypt_entry_roundtrip:
  assumes g: "gcm_correct p" and enc: "encrypt_entry p key form s = (Inr attrs, t)" and title: "form_title form \<noteq> []"
    and trimmed: "trim (form_title form) = form_title form" "trim (form_username form) = form_username form"
      "trim (form_website form) = form_website form"
  shows "\<exists>em ep en. attrs = new_entry_attrs em ep en \<and> isClientPayload em \<and> isClientPayload ep \<and>
    (isClientPayload en \<or> form_notes form = [] \<and> en = JNull) \<and>
    (let entry = Background.hydrateEntryMetadata p key attrs in
     js_get_opt entry ''login_username'' = JStr (form_username form) \<and>
     decrypt_field p entry key ''encrypted_password'' ''password'' = Inr (form_password form) \<and>
     (form_notes form \<noteq> [] \<longrightarrow> decrypt_field p entry key ''encrypted_notes'' ''notes'' = Inr (form_notes form)))"
proof -
  let ?md = "form_metadata form"
  from enc obtain em b ep s2 en s3 where
    em: "encryptValue p (json_text ?md) key nerveMetadataAssociatedData (worker s) = (Inr em, b)"
    and ep: "encrypt_field p ?md key ''password'' (form_password form) (s\<lparr>worker := b\<rparr>) = (Inr ep, s2)"
    and en: "(if form_notes form \<noteq> [] then encrypt_field p ?md key ''notes'' (form_notes form) else ret JNull) s2 = (Inr en, s3)"
    and attrs: "attrs = new_entry_attrs em ep en"
    by (auto simp: encrypt_entry_def io_Inr on_worker_Inr Let_def simp del: json_text.simps)
  note dm = decryptValue_encryptValue [OF g em]
  from encrypt_field_Inr [OF g ep] obtain ad where ad: "nerveEntryAssociatedData ?md ''password'' = Inr ad"
    "isClientPayload ep" "decryptValue p ep key ad = Inr (form_password form)" by blast
  have nt: "(isClientPayload en \<or> form_notes form = [] \<and> en = JNull) \<and> (form_notes form \<noteq> [] \<longrightarrow>
      (\<exists>an. nerveEntryAssociatedData ?md ''notes'' = Inr an \<and> decryptValue p en key an = Inr (form_notes form)))"
    using en encrypt_field_Inr [OF g, of ?md key "''notes''" "form_notes form" s2 en s3] by (auto simp: ret_run split: if_splits)
  have h: "Background.hydrateEntryMetadata p key attrs =
      JObj [(''title'', JStr (form_title form)), (''login_username'', JStr (form_username form)),
        (''website'', JStr (form_website form)), (''encrypted_metadata'', em), (''encrypted_password'', ep), (''encrypted_notes'', en)]"
    unfolding attrs by (rule hydrate_new_entry) (use dm title in \<open>simp_all add: form_metadata_def del: json_text.simps\<close>)
  have same: "nerveEntryAssociatedData (Background.hydrateEntryMetadata p key attrs) f = nerveEntryAssociatedData ?md f" for f
    unfolding h form_metadata_def by (simp add: nerveEntryAssociatedData_def)
  have "js_get_opt (Background.hydrateEntryMetadata p key attrs) ''login_username'' = JStr (form_username form)"
    "js_get_opt (Background.hydrateEntryMetadata p key attrs) ''encrypted_password'' = ep"
    "js_get_opt (Background.hydrateEntryMetadata p key attrs) ''encrypted_notes'' = en"
    unfolding h by simp_all
  then show ?thesis
    using same ad nt dm
    by (intro exI [of _ em] exI [of _ ep] exI [of _ en] conjI attrs) (auto simp: decrypt_field_def Let_def)
qed

lemma keeps_encrypt_log: "keeps net_log (encryptValue p v k a)"
  unfolding encryptValue_def by (intro keeps_intros) (simp add: keeps_def random_bytes_run)

lemma encrypt_entry_log: "encrypt_entry p key form s = (Inr attrs, t) \<Longrightarrow> net_log (worker t) = net_log (worker s)"
proof -
  have k: "keeps (\<lambda>s. net_log (worker s)) (on_worker (encryptValue p v k a))" for v k a
    by (rule keepsI) (auto simp: on_worker_run split: prod.splits dest: keepsD [OF keeps_encrypt_log])
  have "keeps (\<lambda>s. net_log (worker s)) (encrypt_entry p key form)"
    unfolding encrypt_entry_def encrypt_field_def Let_def by (intro keeps_intros k)
  then show "encrypt_entry p key form s = (Inr attrs, t) \<Longrightarrow> net_log (worker t) = net_log (worker s)"
    by (rule keepsD)
qed

text \<open>
  Saving the form: the request that creates the entry carries a fixed title, an empty user
  name and website and ciphertexts only; the title and the password of the form were not
  empty; and the saved entry decrypts, with the key the page unwrapped, to the user name,
  password and notes of the form.
\<close>

theorem popup_create_roundtrip:
  assumes "gcm_correct p" "create_from_form p s = (Inr (), t)"
  shows "\<exists>form key em ep en b req.
    form = read_form p s \<and> form_title form \<noteq> [] \<and> form_password form \<noteq> [] \<and> nerveKey p s = Inr key \<and>
    net_log (b :: background) = net_log (worker s) @ [req] \<and>
    req_body req = TextBody (json_text (JObj [(''entry'',
      JObj [(''title'', JStr ''Encrypted entry''), (''login_username'', JStr []), (''website'', JStr []),
            (''encrypted_metadata'', em), (''encrypted_password'', ep), (''encrypted_notes'', en)])])) \<and>
    isClientPayload em \<and> isClientPayload ep \<and> (isClientPayload en \<or> en = JNull) \<and>
    (let entry = Background.hydrateEntryMetadata p key (new_entry_attrs em ep en) in
     js_get_opt entry ''login_username'' = JStr (form_username form) \<and>
     decrypt_field p entry key ''encrypted_password'' ''password'' = Inr (form_password form) \<and>
     (form_notes form \<noteq> [] \<longrightarrow> decrypt_field p entry key ''encrypted_notes'' ''notes'' = Inr (form_notes form)))"
proof -
  let ?form = "read_form p s" and ?s1 = "setBusy ''createEntrySubmitButton'' True s"
  have unl: "ensureUnlocked s = (Inr (), s)"
    using assms(2) by (auto simp: create_from_form_def ensureUnlocked_def io_Inr split: if_splits)
  have form: "form_title ?form \<noteq> []" "form_password ?form \<noteq> []"
    using assms(2) unl by (auto simp: create_from_form_def io_Inr split: if_splits)
  have key_same: "nerveKey p ?s1 = nerveKey p s" by (simp add: nerveKey_def setBusy_def)
  obtain key attrs s2 r b where key: "nerveKey p s = Inr key" and enc: "encrypt_entry p key ?form ?s1 = (Inr attrs, s2)"
    and cr: "createEntry p (st_settings s2) attrs (worker s2) = (Inr r, b)"
    using assms(2) unl form by (auto simp: create_from_form_def io_Inr on_worker_Inr update_Inr key_same)
  from encrypt_entry_roundtrip [OF assms(1) enc form(1)] trim_form [OF refl, of p s] obtain em ep en where
    e: "attrs = new_entry_attrs em ep en" "isClientPayload em" "isClientPayload ep" "isClientPayload en \<or> en = JNull"
    "let entry = Background.hydrateEntryMetadata p key attrs in
     js_get_opt entry ''login_username'' = JStr (form_username ?form) \<and>
     decrypt_field p entry key ''encrypted_password'' ''password'' = Inr (form_password ?form) \<and>
     (form_notes ?form \<noteq> [] \<longrightarrow> decrypt_field p entry key ''encrypted_notes'' ''notes'' = Inr (form_notes ?form))"
    by blast
  have "(if False then updateEntry p (st_settings s2) JNull attrs else createEntry p (st_settings s2) attrs) (worker s2) = (Inr r, b)"
    using cr by (simp only: if_False)
  from save_request_body [OF this] obtain req where
    req: "net_log b = net_log (worker s2) @ [req]" "req_body req = TextBody (json_text (JObj [(''entry'', attrs)]))" by blast
  have log: "net_log (worker s2) = net_log (worker s)"
    using encrypt_entry_log [OF enc] by (simp add: setBusy_def)
  show ?thesis
    unfolding new_entry_attrs_def [symmetric]
    by (rule exI [of _ ?form], rule exI [of _ key], rule exI [of _ em], rule exI [of _ ep], rule exI [of _ en],
        rule exI [of _ b], rule exI [of _ req])
      (intro conjI refl form key e(2-4) e(5) [unfolded e(1)] req(1) [unfolded log] req(2) [unfolded e(1)])
qed

text \<open>
  A sample form on a sample server that answers the request that creates an entry and is then
  unreachable.
\<close>

definition create_vault :: platform where
  "create_vault = sample_vault\<lparr>fetch_of := (\<lambda>_ r.
     if req_method r = ''POST'' then Response (sample_response (JObj [(''data'', JNum 1)])) else NetworkError)\<rparr>"

definition filled_popup :: popup where
  "filled_popup = sample_open\<lparr>st_entries := [],
     el_value := (\<lambda>i. if i = ''entryTitle'' then ''Mail'' else if i = ''entryPassword'' then ''pw'' else [])\<rparr>"

lemma create_key: "is_ok (nerveKey create_vault sample_open)"
  by code_simp

lemma filled_key: "nerveKey p filled_popup = nerveKey p sample_open"
  by (simp add: nerveKey_def filled_popup_def)

lemma nerveKey_setBusy: "nerveKey p (setBusy b f s) = nerveKey p s"
  by (simp add: nerveKey_def setBusy_def)

lemma filled_form: "form_title (read_form p filled_popup) = ''Mail''" "form_password (read_form p filled_popup) = ''pw''"
proof -
  have m: "trim ''Mail'' = ''Mail''" by code_simp
  show "form_title (read_form p filled_popup) = ''Mail''" "form_password (read_form p filled_popup) = ''pw''"
    by (simp_all add: read_form_def filled_popup_def m)
qed

lemma create_gcm: "gcm_correct create_vault"
  using sample_gcm_correct [of JNull] by (simp add: gcm_correct_def create_vault_def sample_vault_def sample_platform_def)

lemma create_encrypts: "\<exists>c t. encryptValue create_vault v k a w = (Inr c, t)"
  by (simp add: encryptValue_run Let_def) (simp add: create_vault_def sample_vault_def sample_platform_def)

lemma create_offline: "\<exists>e t. listEntries create_vault st w = (Inl e, t)"
proof (cases "listEntries create_vault st w")
  case (Pair r t)
  show ?thesis
  proof (cases r)
    case (Inr v)
    with Pair have "send_request create_vault st ''/api/ext/v1/nerve/entries?limit=100'' no_options w = (Inr v, t)"
      by (simp add: listEntries_def)
    then show ?thesis
      by (rule send_request_ok) (simp add: create_vault_def build_request_def no_options_def)
  qed (use Pair in blast)
qed

lemma create_posts:
  assumes "serverUrl st = JStr ''https://vault.example/''" "apiToken st = JStr ''tok''"
  shows "\<exists>t. createEntry create_vault st a w = (Inr (JNum 1), t)"
proof -
  have n: "normalizeServerUrl create_vault (JStr ''https://vault.example/'') = Inr ''https://vault.example''"
    and k: "trim ''tok'' = ''tok''" by code_simp+
  have f: "fetch_of create_vault l r = (if req_method r = ''POST''
      then Response (sample_response (JObj [(''data'', JNum 1)])) else NetworkError)" for l r
    by (simp add: create_vault_def)
  show ?thesis
    by (simp add: createEntry_def send_request_def run_simps assms n no_options_def js_coalesce_def k f
        build_request_def sample_response_def parseJson_def res_ok_def)
qed

lemma render_empty_total: "st_entries s = [] \<Longrightarrow> \<exists>t. render p s = (Inr (), t)"
proof -
  assume l: "st_entries s = []"
  let ?s = "s\<lparr>el_hidden := toggle_sections s\<rparr>"
  obtain t where t: "prefillSuggestedWebsite p ?s = (Inr (), t)" using prefill_total by blast
  have "core t = core ?s" by (rule keepsD [OF keeps_core_popup(4) t])
  with l have "st_entries t = []" by (simp add: core_def)
  then have "\<exists>u. renderEntries p t = (Inr (), u)"
    by (cases "isConfigured t \<and> st_masterConfigured t \<and> isUnlocked t")
      (simp_all add: renderEntries_def run_simps set_html_def listed_entries_def)
  then show ?thesis
    using t by (cases "isConfigured ?s") (auto simp: render_def run_simps set_html_def)
qed

lemma create_refreshes: "st_entries s = [] \<Longrightarrow> \<exists>t. refreshNerveIndex create_vault s = (Inr (), t)"
proof -
  assume l: "st_entries s = []"
  obtain s1 where s1: "setFeedback ''Loading nerve...'' ''info'' s = (Inr (), s1)" by (simp add: setFeedback_def update_run)
  obtain e b where e: "listEntries create_vault (st_settings s1) (worker s1) = (Inl e, b)" using create_offline by blast
  have "st_entries (s1\<lparr>worker := b\<rparr>) = []"
    using keepsD [OF keeps_core_leaf(1) s1] l by (simp add: core_def)
  from render_empty_total [OF this] obtain u where u: "render create_vault (s1\<lparr>worker := b\<rparr>) = (Inr (), u)" by blast
  show ?thesis
    by (simp add: refreshNerveIndex_def run_simps s1 e u) (simp add: reportError_def setFeedback_def update_run)
qed

lemma create_encrypts_entry:
  assumes "form_notes form = []"
  shows "\<exists>attrs t. encrypt_entry create_vault key form s = (Inr attrs, t)"
proof -
  obtain em b where em: "encryptValue create_vault (json_text (form_metadata form)) key nerveMetadataAssociatedData (worker s) = (Inr em, b)"
    using create_encrypts by blast
  obtain ad where ad: "nerveEntryAssociatedData (form_metadata form) ''password'' = Inr ad"
    unfolding form_metadata_def nerveEntryAssociatedData_obj by blast
  obtain ep c where ep: "encryptValue create_vault (form_password form) key ad b = (Inr ep, c)"
    using create_encrypts by blast
  show ?thesis
    by (simp add: encrypt_entry_def Let_def encrypt_field_def run_simps em ad ep assms del: json_text.simps)
qed

lemma sample_creates: "\<exists>t. create_from_form create_vault filled_popup = (Inr (), t)"
proof -
  let ?p = create_vault and ?s = filled_popup
  let ?s1 = "setBusy ''createEntrySubmitButton'' True ?s" and ?form = "read_form create_vault filled_popup"
  have unl: "ensureUnlocked ?s = (Inr (), ?s)"
    by (simp add: ensureUnlocked_def run_simps isUnlocked_def) (simp add: filled_popup_def sample_open_def)
  obtain key where key: "nerveKey ?p ?s1 = Inr key"
    using create_key filled_key [of ?p] by (cases "nerveKey ?p sample_open") (simp_all add: nerveKey_setBusy)
  have nt: "form_notes ?form = []" by (simp add: read_form_def filled_popup_def)
  obtain attrs s2 where enc: "encrypt_entry ?p key ?form ?s1 = (Inr attrs, s2)" using create_encrypts_entry [OF nt] by blast
  have c2: "core s2 = core ?s" using keepsD [OF keeps_core_more(5) enc] by simp
  then have st: "st_settings s2 = st_settings sample_open" by (simp add: core_def filled_popup_def)
  obtain b where b: "createEntry ?p (st_settings s2) attrs (worker s2) = (Inr (JNum 1), b)"
    using create_posts [of "st_settings s2" attrs "worker s2"] by (auto simp: st sample_open_def)
  obtain s3 where s3: "reset_form createEntryForm (s2\<lparr>worker := b\<rparr>) = (Inr (), s3)" by (simp add: reset_form_def update_run)
  obtain s4 where s4: "prefillSuggestedWebsite ?p s3 = (Inr (), s4)" using prefill_total by blast
  have "st_entries s4 = []"
    using keepsD [OF keeps_core_popup(4) s4] keepsD [OF keeps_core_leaf(8) s3] c2 by (simp add: core_def filled_popup_def)
  from create_refreshes [OF this] obtain s5 where s5: "refreshNerveIndex ?p s4 = (Inr (), s5)" by blast
  show ?thesis
    by (simp add: create_from_form_def run_simps unl filled_form key enc b s3 s4 s5) (simp add: setFeedback_def update_run)
qed

theorem popup_create_roundtrip_witness:
  "\<exists>t key em ep. create_from_form create_vault filled_popup = (Inr (), t) \<and> nerveKey create_vault filled_popup = Inr key \<and>
     isClientPayload em \<and> isClientPayload ep \<and> form_title (read_form create_vault filled_popup) = ''Mail''"
proof -
  obtain t where t: "create_from_form create_vault filled_popup = (Inr (), t)" using sample_creates by blast
  from popup_create_roundtrip [OF create_gcm t] t filled_form(1) show ?thesis by blast
qed

section \<open>The list\<close>

text \<open>
  The markup of an entry's card (its angle brackets and quotes) is the same whatever the
  title, user name and website say: it depends only on the id, on whether there is a user
  name, on whether the website is a web address, and on the badge.
\<close>

theorem card_markup:
  assumes "js_get_opt e ''id'' = js_get_opt f ''id''"
    and "truthy (js_get_opt e ''login_username'') = truthy (js_get_opt f ''login_username'')"
    and "(safeWebsiteUrl p (js_get_opt e ''website'') = []) = (safeWebsiteUrl p (js_get_opt f ''website'') = [])"
    and "(0 < m) = (0 < n)"
  shows "filter html_special (renderEntryCard p canFill (e, m)) = filter html_special (renderEntryCard p canFill (f, n))"
  using assms
  unfolding markup_def [symmetric]
  by (simp add: renderEntryCard_def Let_def markup_element markup_link)

definition hostile_entry :: jsv where
  "hostile_entry =
     JObj [(''id'', JNum 1), (''title'', JStr ''<script>''), (''login_username'', JStr ''<b>''),
           (''website'', JStr ''https://shop.example'')]"

theorem card_markup_witness:
  "filter html_special (renderEntryCard sample_vault True (hostile_entry, 3)) =
   filter html_special (renderEntryCard sample_vault True (stored_entry, 2))"
proof -
  have i: "js_get_opt hostile_entry ''id'' = js_get_opt stored_entry ''id''"
    "js_get_opt hostile_entry ''website'' = js_get_opt stored_entry ''website''"
    "truthy (js_get_opt hostile_entry ''login_username'') = truthy (js_get_opt stored_entry ''login_username'')"
    by (simp_all add: hostile_entry_def stored_entry_def)
  show ?thesis by (rule card_markup [OF i(1) i(3)]) (simp_all add: i(2))
qed

end
