(* ===== verification/Options.thy ===== *)
theory Options
  imports Page
begin

text \<open>
  The settings page, \<^verbatim>\<open>clients/nerve-extension/options.js\<close>: connecting the extension through
  the website (the browser's web-auth window, or a pairing that is polled), testing the
  connection, signing out, and clearing the password session.
\<close>

section \<open>State\<close>

record options_page = page +
  os_settings :: settings

type_synonym 'a opt = "(options_page, 'a) io"

definition setStatus :: "string \<Rightarrow> string \<Rightarrow> unit opt" where
  "setStatus message type =
     update (\<lambda>s. s\<lparr>el_text := (el_text s)(''statusMessage'' := message),
                  el_class := (el_class s)(''statusMessage'' := ''feedback '' @ type)\<rparr>)"

definition currentServerUrl :: "options_page \<Rightarrow> string" where
  "currentServerUrl s = trim (el_value s ''serverUrl'')"

definition hasStoredSession :: "options_page \<Rightarrow> bool" where
  "hasStoredSession s \<longleftrightarrow> truthy (apiToken (os_settings s))"

definition connection_summary :: "options_page \<Rightarrow> string" where
  "connection_summary s =
     (let url = js_or (JStr (currentServerUrl s)) (serverUrl (os_settings s)) in
      if hasStoredSession s then
        (if truthy url then ''Signed in on this browser. Current server: '' @ to_str url
         else ''Signed in on this browser.'')
      else ''Not signed in on this browser yet.'')"

definition renderConnectionState :: "unit opt" where
  "renderConnectionState =
     seqc (bind (reads connection_summary) (set_text ''connectionSummary''))
     (seqc (update (\<lambda>s. setBusy ''testButton'' (\<not> hasStoredSession s) s))
       (update (\<lambda>s. setBusy ''signOutButton'' (\<not> hasStoredSession s) s)))"

definition set_settings :: "settings \<Rightarrow> unit opt" where
  "set_settings st = update (\<lambda>s. s\<lparr>os_settings := st\<rparr>)"

text \<open>\<^verbatim>\<open>state.settings = ...\<close>, saved and applied, as every handler does.\<close>

definition store_settings :: "platform \<Rightarrow> settings \<Rightarrow> unit opt" where
  "store_settings p st =
     seqc (set_settings st) (seqc (on_worker (saveSettings p st)) (apply_theme st))"

section \<open>URLs\<close>

text \<open>
  \<^verbatim>\<open>new URL(path, base)\<close> for a path that starts with a slash, and
  \<^verbatim>\<open>url.searchParams.set\<close> for names the URL does not have yet.
\<close>

definition url_at :: "platform \<Rightarrow> string \<Rightarrow> string \<Rightarrow> (string \<times> string) list \<Rightarrow> string result" where
  "url_at p base path params =
     (case url_of p base of
        None \<Rightarrow> Inl TypeError
      | Some u \<Rightarrow> Inr (url_text (u\<lparr>u_pathname := path, u_search := ''?'' @ params_text p params, u_hash := []\<rparr>)))"

definition websiteConnectUrl :: "platform \<Rightarrow> string \<Rightarrow> string \<Rightarrow> string \<Rightarrow> string result" where
  "websiteConnectUrl p server returnTo stateValue =
     url_at p server ''/account/nerve/extension/connect'' [(''return_to'', returnTo), (''state'', stateValue)]"

definition websitePairingUrl :: "platform \<Rightarrow> string \<Rightarrow> string \<Rightarrow> string \<Rightarrow> string \<Rightarrow> string result" where
  "websitePairingUrl p server pairingId pairingSecret stateValue =
     url_at p server ''/account/nerve/extension/connect''
       [(''pairing_id'', pairingId), (''pairing_secret'', pairingSecret), (''state'', stateValue)]"

definition usesLocalHttp :: "platform \<Rightarrow> string \<Rightarrow> bool" where
  "usesLocalHttp p server =
     (case url_of p server of
        None \<Rightarrow> False
      | Some u \<Rightarrow> u_protocol u = ''http:'' \<and> u_hostname u \<in> {''localhost'', ''127.0.0.1'', ''[::1]''})"

definition hex_byte :: "8 word \<Rightarrow> string" where
  "hex_byte b = [hex_digit (unat b div 16), hex_digit (unat b mod 16)]"

definition randomHex :: "platform \<Rightarrow> nat \<Rightarrow> string opt" where
  "randomHex p byteCount = bind (on_worker (random_bytes p byteCount)) (\<lambda>bytes. ret (concat (map hex_byte bytes)))"

definition randomState :: "platform \<Rightarrow> string opt" where
  "randomState p = randomHex p 16"

section \<open>The answer of the website\<close>

record connect_callback =
  cb_token :: jsv
  cb_username :: jsv
  cb_theme :: jsv

text \<open>The parameters are in the fragment; the first of a name counts.\<close>

definition url_fragment :: "url \<Rightarrow> string" where
  "url_fragment u = (if starts_with (u_hash u) ''#'' then tl (u_hash u) else u_hash u)"

definition parseConnectCallback :: "platform \<Rightarrow> string \<Rightarrow> string option \<Rightarrow> connect_callback option result" where
  "parseConnectCallback p link expectedState =
     (case url_of p link of
        None \<Rightarrow> Inr None
      | Some parsedUrl \<Rightarrow>
          (let params = map_of (params_of p (url_fragment parsedUrl));
               expected = (case expectedState of None \<Rightarrow> [] | Some e \<Rightarrow> e) in
           case params ''token'' of
             None \<Rightarrow> Inr None
           | Some token \<Rightarrow>
               if token = [] then Inr None
               else if expected \<noteq> [] \<and> params ''state'' \<noteq> Some expected then
                 Inl (Error ''Website connection state did not match. Try connecting again.'')
               else
                 (let themeText = (case params ''theme'' of None \<Rightarrow> ''null'' | Some t \<Rightarrow> if t = [] then ''null'' else t) in
                  Inr (Some
                    \<lparr>cb_token = JStr token,
                     cb_username = JStr (case params ''username'' of None \<Rightarrow> [] | Some u \<Rightarrow> u),
                     cb_theme = (case json_parse themeText of Inl _ \<Rightarrow> JNull | Inr v \<Rightarrow> v)\<rparr>))))"

section \<open>Pairing\<close>

definition poll_request :: "string \<Rightarrow> request" where
  "poll_request statusUrl =
     \<lparr>req_method = ''GET'', req_url = statusUrl, req_headers = [(''Accept'', ''application/json'')],
      req_body = NoBody, req_omit_credentials = False\<rparr>"

definition poll_answer :: "response \<Rightarrow> connect_callback option result" where
  "poll_answer response =
     (let payload = parseJson response in
      if \<not> res_ok response then
        Inl (Error (to_str (js_or (js_get_opt payload ''error'')
          (JStr (''Connection failed ('' @ show_int (res_status response) @ '').'')))))
      else if js_get_opt payload ''status'' = JStr ''connected'' \<and> truthy (js_get_opt payload ''token'') then
        Inr (Some
          \<lparr>cb_token = js_get_opt payload ''token'',
           cb_username = js_or (js_get_opt (js_get_opt payload ''user'') ''username'') (JStr []),
           cb_theme = js_or (js_get_opt (js_get_opt payload ''user'') ''theme'') JNull\<rparr>)
      else Inr None)"

text \<open>
  The loop: each turn waits, so that the clock passes the deadline after finitely many turns.
\<close>

function poll_loop :: "platform \<Rightarrow> string \<Rightarrow> int \<Rightarrow> background \<Rightarrow> connect_callback result \<times> background" where
  "poll_loop p statusUrl deadline b =
     (if \<not> clock b < deadline then (Inl (Error ''Website connection timed out. Try connecting again.''), b)
      else
        (let c = snd (delay p 1500 b);
             d = c\<lparr>net_log := net_log c @ [poll_request statusUrl]\<rparr> in
         case fetch_of p (net_log c) (poll_request statusUrl) of
           NetworkError \<Rightarrow> (Inl TypeError, d)
         | Response response \<Rightarrow>
             if res_status response = 202 then poll_loop p statusUrl deadline d
             else
               (case poll_answer response of
                  Inl e \<Rightarrow> (Inl e, d)
                | Inr (Some callback) \<Rightarrow> (Inr callback, d)
                | Inr None \<Rightarrow> poll_loop p statusUrl deadline d)))"
  by pat_completeness auto

termination
  by (relation "measure (\<lambda>(p, u, deadline, b). nat (deadline - clock b))") (auto simp: delay_def update_run)

declare poll_loop.simps [simp del]

definition pollPairingStatus :: "platform \<Rightarrow> string \<Rightarrow> string \<Rightarrow> string \<Rightarrow> connect_callback opt" where
  "pollPairingStatus p server pairingId pairingSecret =
     bind (reads (\<lambda>s. clock (worker s) + 5 * 60 * 1000)) (\<lambda>deadline.
     bind (lift (url_at p server (''/api/ext/v1/nerve/extension/connect/'' @ pairingId) [(''secret'', pairingSecret)]))
       (\<lambda>statusUrl. on_worker (poll_loop p statusUrl deadline)))"

definition launchPairingFlow :: "platform \<Rightarrow> string \<Rightarrow> string \<Rightarrow> connect_callback opt" where
  "launchPairingFlow p server flowState =
     bind (randomHex p 16) (\<lambda>pairingId.
     bind (randomHex p 32) (\<lambda>pairingSecret.
     bind (lift (websitePairingUrl p server pairingId pairingSecret flowState)) (\<lambda>connectUrl.
     seqc (effect (PageOpenTab connectUrl))
       (pollPairingStatus p server pairingId pairingSecret))))"

section \<open>Connecting\<close>

definition identityRedirectUrl :: "platform \<Rightarrow> string option" where
  "identityRedirectUrl p = identity_redirect p"

definition launchConnectFlow :: "platform \<Rightarrow> string \<Rightarrow> string opt" where
  "launchConnectFlow p link =
     (if has_api p ''identity.launchWebAuthFlow'' then
        (case web_auth p link of
           Inl lastError \<Rightarrow> raise (Error lastError)
         | Inr None \<Rightarrow> raise (Error ''Website connection was cancelled.'')
         | Inr (Some responseUrl) \<Rightarrow>
             if responseUrl = [] then raise (Error ''Website connection was cancelled.'') else ret responseUrl)
      else
        seqc (effect (PageOpenTab link))
          (raise (Error ''Finish the website approval, then return to this settings page.'')))"

definition shouldUsePairingFallback :: "platform \<Rightarrow> js_error \<Rightarrow> bool" where
  "shouldUsePairingFallback p error =
     str_includes_any (lower (error_message p error))
       [''authorization page could not be loaded'', ''could not be loaded'', ''failed to fetch'', ''network'']"

definition connectViaWebsite :: "platform \<Rightarrow> string \<Rightarrow> string \<Rightarrow> string \<Rightarrow> connect_callback opt" where
  "connectViaWebsite p server connectUrl flowState =
     (if usesLocalHttp p server then launchPairingFlow p server flowState
      else
        catch
          (bind (launchConnectFlow p connectUrl) (\<lambda>callbackUrl.
           bind (lift (parseConnectCallback p callbackUrl (Some flowState))) (\<lambda>callback.
           case callback of
             None \<Rightarrow> raise (Error ''Website did not return an extension token.'')
           | Some cb \<Rightarrow> ret cb)))
          (\<lambda>error.
             if shouldUsePairingFallback p error then
               seqc (setStatus ''Opening the website in a normal tab to finish connecting.'' ''info'')
                 (launchPairingFlow p server flowState)
             else raise error))"

definition connected_message :: "connect_callback \<Rightarrow> string" where
  "connected_message callback =
     ''Connected as '' @ to_str (js_or (cb_username callback) (JStr ''your account'')) @ ''.''"

definition statusError :: "platform \<Rightarrow> js_error \<Rightarrow> unit opt" where
  "statusError p e = setStatus (error_message p e) ''error''"

definition connect_body :: "platform \<Rightarrow> unit opt" where
  "connect_body p =
     bind (reads currentServerUrl) (\<lambda>server.
     bind (lift (normalizeServerUrl p (JStr server))) (\<lambda>normalizedServerUrl.
     bind (randomState p) (\<lambda>flowState.
     let returnTo = (case identityRedirectUrl p of
                       Some u \<Rightarrow> if u \<noteq> [] then u else extension_origin p @ ''options.html''
                     | None \<Rightarrow> extension_origin p @ ''options.html'') in
     bind (lift (websiteConnectUrl p normalizedServerUrl returnTo flowState)) (\<lambda>connectUrl.
     seqc (store_settings p \<lparr>serverUrl = JStr normalizedServerUrl, apiToken = JStr [], theme = Some JNull\<rparr>)
     (seqc (set_value ''serverUrl'' normalizedServerUrl)
     (seqc (update (setBusy ''connectButton'' True))
     (seqc (setStatus ''Continue in the website window to approve the extension.'' ''info'')
     (bind (connectViaWebsite p normalizedServerUrl connectUrl flowState) (\<lambda>callback.
     seqc (store_settings p \<lparr>serverUrl = JStr normalizedServerUrl, apiToken = cb_token callback, theme = Some (cb_theme callback)\<rparr>)
     (seqc renderConnectionState
       (setStatus (connected_message callback) ''success'')))))))))))"

definition handleConnect :: "platform \<Rightarrow> unit opt" where
  "handleConnect p = finally_do (catch (connect_body p) (statusError p)) (setBusy ''connectButton'' False)"

section \<open>Testing, signing out, clearing\<close>

definition test_body :: "platform \<Rightarrow> unit opt" where
  "test_body p =
     bind (reads currentServerUrl) (\<lambda>server.
     bind (lift (normalizeServerUrl p (JStr server))) (\<lambda>normalizedServerUrl.
     bind (reads hasStoredSession) (\<lambda>stored.
     if \<not> stored then raise (Error ''Sign in with your account first.'')
     else
       seqc (update (setBusy ''testButton'' True))
       (bind (reads (\<lambda>s. \<lparr>serverUrl = JStr normalizedServerUrl, apiToken = apiToken (os_settings s), theme = None\<rparr>)) (\<lambda>st.
        bind (on_worker (listEntries p st)) (\<lambda>data.
        bind (lift (js_get data ''theme'')) (\<lambda>dataTheme.
        bind (reads (\<lambda>s. case theme (os_settings s) of None \<Rightarrow> JUndef | Some v \<Rightarrow> v)) (\<lambda>oldTheme.
        seqc (store_settings p (st\<lparr>theme := Some (js_or dataTheme (js_or oldTheme JNull))\<rparr>))
        (seqc (set_value ''serverUrl'' normalizedServerUrl)
        (seqc renderConnectionState
          (setStatus (''Connected successfully. '' @
             (if truthy (js_get_opt data ''master_configured'') then ''encrypted data enabled''
              else ''encrypted data not enabled yet'') @ ''.'') ''success''))))))))))) "

definition handleTest :: "platform \<Rightarrow> unit opt" where
  "handleTest p = finally_do (catch (test_body p) (statusError p)) (setBusy ''testButton'' False)"

definition options_message :: "platform \<Rightarrow> string \<Rightarrow> jsv opt" where
  "options_message p type = runtimeMessage p ''options.html'' (JObj [(''type'', JStr type)])"

definition sign_out_body :: "platform \<Rightarrow> unit opt" where
  "sign_out_body p =
     bind (reads currentServerUrl) (\<lambda>server.
     bind (reads os_settings) (\<lambda>st.
     bind (if server \<noteq> [] then bind (lift (normalizeServerUrl p (JStr server))) (\<lambda>u. ret (JStr u)) else ret (serverUrl st))
       (\<lambda>normalizedServerUrl.
     seqc (update (setBusy ''signOutButton'' True))
     (seqc (if truthy (apiToken st) then seqc (on_worker (logoutWithAccount p st)) (ret ()) else ret ())
     (seqc (options_message p ''nerve:clear-session-passphrase'')
     (seqc (store_settings p \<lparr>serverUrl = normalizedServerUrl, apiToken = JStr [], theme = Some JNull\<rparr>)
     (seqc (set_value ''serverUrl'' (to_str normalizedServerUrl))
     (seqc renderConnectionState
       (setStatus ''Signed out successfully.'' ''success'')))))))))"

definition handleSignOut :: "platform \<Rightarrow> unit opt" where
  "handleSignOut p = finally_do (catch (sign_out_body p) (statusError p)) (setBusy ''signOutButton'' False)"

definition handleClearPassphrase :: "platform \<Rightarrow> unit opt" where
  "handleClearPassphrase p =
     finally_do
       (catch
         (seqc (update (setBusy ''clearPassphraseButton'' True))
         (seqc (options_message p ''nerve:clear-session-passphrase'')
           (setStatus ''Account-password session cleared.'' ''success'')))
         (statusError p))
       (setBusy ''clearPassphraseButton'' False)"

section \<open>Start\<close>

definition options_init :: "platform \<Rightarrow> string \<Rightarrow> string \<Rightarrow> unit opt" where
  "options_init p href pathname =
     bind (on_worker (getSettings p)) (\<lambda>st.
     seqc (set_settings st)
     (bind (lift (parseConnectCallback p href None)) (\<lambda>callback.
     seqc (case callback of
             None \<Rightarrow> ret ()
           | Some cb \<Rightarrow>
               let st' = \<lparr>serverUrl = serverUrl st, apiToken = cb_token cb, theme = Some (cb_theme cb)\<rparr> in
               seqc (set_settings st')
               (seqc (on_worker (saveSettings p st'))
               (seqc (effect (PageReplacedUrl pathname))
                 (setStatus (connected_message cb) ''success''))))
     (seqc (bind (reads os_settings) apply_theme)
     (seqc (bind (reads (\<lambda>s. to_str (serverUrl (os_settings s)))) (set_value ''serverUrl''))
       renderConnectionState)))))"

text \<open>The page's events: it is loaded at a URL, or one of its buttons is clicked.\<close>

datatype options_event =
    OptionsLoaded string string
  | ConnectClicked
  | TestClicked
  | SignOutClicked
  | ClearPassphraseClicked

definition options_handler :: "platform \<Rightarrow> options_event \<Rightarrow> unit opt" where
  "options_handler p e =
     (case e of
        OptionsLoaded href pathname \<Rightarrow> options_init p href pathname
      | ConnectClicked \<Rightarrow> handleConnect p
      | TestClicked \<Rightarrow> handleTest p
      | SignOutClicked \<Rightarrow> handleSignOut p
      | ClearPassphraseClicked \<Rightarrow> handleClearPassphrase p)"

end
