(* ===== verification/OptionsProps.thy ===== *)
theory OptionsProps
  imports Options PageProps
begin

text \<open>
  What the settings page guarantees: the pairing poll ends, after at most two hundred
  requests; a token is only stored from an answer that carries the flow's own random state
  or from the poll of a secret the page drew; signing out forgets the token and locks the
  worker.
\<close>

section \<open>The poll\<close>

lemma delay_clock: "clock (snd (delay p ms b)) \<ge> clock b + ms" "net_log (snd (delay p ms b)) = net_log b"
  by (simp_all add: delay_def update_run)

definition polled :: "platform \<Rightarrow> string \<Rightarrow> connect_callback result \<Rightarrow> bool" where
  "polled p statusUrl r \<longleftrightarrow>
     (case r of
        Inl _ \<Rightarrow> True
      | Inr cb \<Rightarrow> \<exists>log resp. fetch_of p log (poll_request statusUrl) = Response resp \<and> poll_answer resp = Inr (Some cb))"

lemma poll_loop_bound:
  "poll_loop p u deadline b = (r, c) \<Longrightarrow>
     \<exists>k. net_log c = net_log b @ replicate k (poll_request u) \<and> 1500 * int k \<le> max 0 (deadline - clock b) + 1499 \<and> polled p u r"
proof (induction p u deadline b arbitrary: r c rule: poll_loop.induct)
  case (1 p u deadline b)
  show ?case
  proof (cases "clock b < deadline")
    case False
    with "1.prems" show ?thesis by (intro exI [of _ 0]) (auto simp: poll_loop.simps polled_def)
  next
    case True
    define b1 where "b1 = snd (delay p 1500 b)"
    define d where "d = b1\<lparr>net_log := net_log b1 @ [poll_request u]\<rparr>"
    have b1: "clock b1 \<ge> clock b + 1500" "net_log b1 = net_log b"
      using delay_clock [where p = p and ms = 1500 and b = b] by (simp_all add: b1_def)
    have one: ?thesis if "c = d" "polled p u r"
      using that b1 True by (intro exI [of _ 1]) (simp add: d_def)
    have more: ?thesis if "\<exists>k. net_log c = net_log d @ replicate k (poll_request u) \<and>
        1500 * int k \<le> max 0 (deadline - clock d) + 1499 \<and> polled p u r"
    proof -
      from that obtain k where k: "net_log c = net_log d @ replicate k (poll_request u)"
        "1500 * int k \<le> max 0 (deadline - clock d) + 1499" "polled p u r" by blast
      have "clock d = clock b1" by (simp add: d_def)
      have "1500 * int (Suc k) \<le> max 0 (deadline - clock b) + 1499"
      proof (cases "clock d \<le> deadline")
        case True
        with k(2) b1(1) \<open>clock d = clock b1\<close> show ?thesis by simp
      next
        case False
        with k(2) have "k = 0" by simp
        with \<open>clock b < deadline\<close> show ?thesis by simp
      qed
      with k b1(2) show ?thesis by (intro exI [of _ "Suc k"]) (simp add: d_def)
    qed
    have step: "poll_loop p u deadline b =
        (case fetch_of p (net_log b1) (poll_request u) of
           NetworkError \<Rightarrow> (Inl TypeError, d)
         | Response resp \<Rightarrow>
             if res_status resp = 202 then poll_loop p u deadline d
             else (case poll_answer resp of Inl e \<Rightarrow> (Inl e, d) | Inr (Some cb) \<Rightarrow> (Inr cb, d)
                   | Inr None \<Rightarrow> poll_loop p u deadline d))"
      using True by (subst poll_loop.simps) (simp only: Let_def b1_def d_def simp_thms if_True if_False)
    show ?thesis
    proof (cases "fetch_of p (net_log b1) (poll_request u)")
      case NetworkError
      with "1.prems" step have "r = Inl TypeError" "c = d" by simp_all
      then show ?thesis by (intro one) (simp_all add: polled_def)
    next
      case (Response resp)
      note IH = "1.IH" [OF _ b1_def d_def Response, simplified True]
      show ?thesis
      proof (cases "res_status resp = 202 \<or> poll_answer resp = Inr None")
        case again: True
        with "1.prems" step Response have run: "poll_loop p u deadline d = (r, c)" by (auto split: if_splits)
        from again IH run show ?thesis by (intro more) blast
      next
        case False
        with "1.prems" step Response show ?thesis
          by (intro one) (auto simp: polled_def split: sum.splits option.splits)
      qed
    qed
  qed
qed

text \<open>
  C30: Waiting for a pairing ends: the loop is total, sends at most two hundred requests (five
  minutes, one every second and a half at most), all the same request without the account's
  token, and returns a token only from a successful answer that says connected.
\<close>

theorem poll_terminates:
  "\<exists>r c k. poll_loop p statusUrl (clock b + 5 * 60 * 1000) b = (r, c) \<and> k \<le> 200 \<and>
     net_log c = net_log b @ replicate k (poll_request statusUrl) \<and>
     (case r of
        Inl _ \<Rightarrow> True
      | Inr cb \<Rightarrow> \<exists>log resp. fetch_of p log (poll_request statusUrl) = Response resp \<and> res_ok resp \<and>
          js_get_opt (parseJson resp) ''status'' = JStr ''connected'' \<and>
          cb_token cb = js_get_opt (parseJson resp) ''token'' \<and> truthy (cb_token cb))"
proof -
  obtain r c where r: "poll_loop p statusUrl (clock b + 5 * 60 * 1000) b = (r, c)"
    by (cases "poll_loop p statusUrl (clock b + 5 * 60 * 1000) b")
  obtain k where k: "net_log c = net_log b @ replicate k (poll_request statusUrl)"
    "1500 * int k \<le> max 0 (clock b + 5 * 60 * 1000 - clock b) + 1499" "polled p statusUrl r"
    using poll_loop_bound [OF r] by blast
  from k(2) have "k \<le> 200" by simp
  with r k show ?thesis
    by (intro exI [of _ r] exI [of _ c] exI [of _ k])
      (fastforce simp: polled_def poll_answer_def Let_def split: sum.splits if_splits)
qed

section \<open>Where a token comes from\<close>

lemma length_hex: "length (concat (map (hex_byte \<circ> f) bs)) = 2 * length bs"
  by (induction bs) (simp_all add: hex_byte_def)

lemma randomHex_ok: "randomHex p n s = (Inr h, t) \<Longrightarrow> length h = 2 * n"
  by (auto simp: randomHex_def io_Inr on_worker_Inr random_bytes_run length_hex)

text \<open>The two ways a token can have reached the page.\<close>

definition from_website :: "platform \<Rightarrow> string \<Rightarrow> connect_callback \<Rightarrow> bool" where
  "from_website p flowState cb \<longleftrightarrow>
     (\<exists>link callbackUrl u token. web_auth p link = Inr (Some callbackUrl) \<and> url_of p callbackUrl = Some u \<and>
        map_of (params_of p (url_fragment u)) ''state'' = Some flowState \<and>
        map_of (params_of p (url_fragment u)) ''token'' = Some token \<and> token \<noteq> [] \<and> cb_token cb = JStr token)"

definition from_pairing :: "platform \<Rightarrow> string \<Rightarrow> connect_callback \<Rightarrow> bool" where
  "from_pairing p server cb \<longleftrightarrow>
     (\<exists>pairingId secret statusUrl log resp. length pairingId = 32 \<and> length secret = 64 \<and>
        url_at p server (''/api/ext/v1/nerve/extension/connect/'' @ pairingId) [(''secret'', secret)] = Inr statusUrl \<and>
        fetch_of p log (poll_request statusUrl) = Response resp \<and> poll_answer resp = Inr (Some cb))"

lemma pairing_origin:
  assumes "launchPairingFlow p server flowState s = (Inr cb, t)"
  shows "from_pairing p server cb"
proof -
  from assms obtain i s1 secret s2 url b c where i: "randomHex p 16 s = (Inr i, s1)" "randomHex p 32 s1 = (Inr secret, s2)"
    and u: "url_at p server (''/api/ext/v1/nerve/extension/connect/'' @ i) [(''secret'', secret)] = Inr url"
    and poll: "poll_loop p url (clock b + 5 * 60 * 1000) b = (Inr cb, c)"
    by (auto simp: launchPairingFlow_def pollPairingStatus_def io_Inr on_worker_Inr effect_def update_Inr)
  from poll_loop_bound [OF poll] have "polled p url (Inr cb)" by blast
  then obtain log resp where r: "fetch_of p log (poll_request url) = Response resp" "poll_answer resp = Inr (Some cb)"
    by (auto simp: polled_def)
  from randomHex_ok [OF i(1)] randomHex_ok [OF i(2)] u r show ?thesis
    unfolding from_pairing_def by fastforce
qed

lemma callback_origin:
  assumes "parseConnectCallback p link (Some flowState) = Inr (Some cb)" "flowState \<noteq> []"
  shows "\<exists>u token. url_of p link = Some u \<and> map_of (params_of p (url_fragment u)) ''state'' = Some flowState \<and>
    map_of (params_of p (url_fragment u)) ''token'' = Some token \<and> token \<noteq> [] \<and> cb_token cb = JStr token"
  using assms by (auto simp: parseConnectCallback_def Let_def split: option.splits if_splits)

lemma website_origin:
  assumes "connectViaWebsite p server link flowState s = (Inr cb, t)" "flowState \<noteq> []"
  shows "from_website p flowState cb \<or> from_pairing p server cb"
proof (cases "usesLocalHttp p server")
  case True
  with assms pairing_origin show ?thesis by (auto simp: connectViaWebsite_def)
next
  case False
  from assms(1) False consider
      (web) "bind (launchConnectFlow p link) (\<lambda>callbackUrl.
           bind (lift (parseConnectCallback p callbackUrl (Some flowState))) (\<lambda>callback.
           case callback of
             None \<Rightarrow> raise (Error ''Website did not return an extension token.'')
           | Some cb \<Rightarrow> ret cb)) s = (Inr cb, t)"
    | (fallback) s' where "launchPairingFlow p server flowState s' = (Inr cb, t)"
    by (auto simp: connectViaWebsite_def catch_eq_Inr io_Inr split: if_splits)
  then show ?thesis
  proof cases
    case web
    then obtain callbackUrl s1 where l: "launchConnectFlow p link s = (Inr callbackUrl, s1)"
      and c: "parseConnectCallback p callbackUrl (Some flowState) = Inr (Some cb)"
      by (auto simp: io_Inr split: option.splits)
    from l have "web_auth p link = Inr (Some callbackUrl)"
      by (auto simp: launchConnectFlow_def io_Inr split: sum.splits option.splits if_splits)
    with callback_origin [OF c assms(2)] show ?thesis unfolding from_website_def by blast
  next
    case fallback
    with pairing_origin show ?thesis by blast
  qed
qed

lemma store_settings_ok:
  "store_settings p st s = (Inr (), t) \<Longrightarrow>
     os_settings t = st \<and> (\<exists>b. saveSettings p st (worker s) = (Inr (), b) \<and> worker t = b)"
  by (auto simp: store_settings_def set_settings_def apply_theme_def io_Inr on_worker_Inr update_Inr)

lemma keeps_settings_render: "keeps os_settings renderConnectionState" "keeps worker renderConnectionState"
  "keeps os_settings (setStatus m ty)" "keeps worker (setStatus m ty)"
  "keeps os_settings (set_value i v)" "keeps worker (set_value i v)"
  unfolding renderConnectionState_def setStatus_def set_text_def set_value_def
  by (intro keeps_intros keeps_update; simp add: setBusy_def)+


definition flow_state :: string where
  "flow_state = concat (map (\<lambda>i. hex_byte (of_nat i)) [0 ..< 16])"

definition connect_platform :: platform where
  "connect_platform = (sample_platform JNull)\<lparr>
     web_auth := (\<lambda>_. Inr (Some ''https://nerve.example/'')),
     url_of := map_of ((''https://nerve.example/'', sample_url ''https:'' ''nerve.example'' ''/'') #
       (''https://vault.example'', sample_url ''https:'' ''vault.example'' ''/'') # sample_urls),
     params_of := (\<lambda>_. [(''token'', ''ekt_1''), (''state'', flow_state)])\<rparr>"

definition connect_page :: options_page where
  "connect_page =
     \<lparr>worker = sample_background, el_text = (\<lambda>_. []), el_class = (\<lambda>_. []), el_value = (\<lambda>_. ''https://vault.example/''),
      el_hidden = (\<lambda>_. True), el_disabled = (\<lambda>_. True), el_html = (\<lambda>_. []), css_vars = [], page_log = [], tab_messages = [],
      clipboard = [], os_settings = \<lparr>serverUrl = JStr [], apiToken = JStr [], theme = None\<rparr>\<rparr>"

lemma save_total: "storage_ok p \<Longrightarrow> \<exists>w'. saveSettings p \<lparr>serverUrl = JStr u, apiToken = JStr k, theme = Some th\<rparr> w = (Inr (), w')"
  by (cases "trim k = []")
    (simp_all add: saveSettings_def run_simps storage_run op_outcome_def getArea_def storage_ok_def Let_def)

lemma store_total: "storage_ok p \<Longrightarrow> \<exists>t. store_settings p \<lparr>serverUrl = JStr u, apiToken = JStr k, theme = Some th\<rparr> s = (Inr (), t)"
  using save_total [of p u k th "worker s"]
  by (auto simp: store_settings_def set_settings_def apply_theme_def run_simps)

lemma connect_storage: "storage_ok connect_platform"
  by (simp add: connect_platform_def storage_ok_def sample_platform_def)

lemma connect_random: "randomState connect_platform connect_page =
    (Inr flow_state, connect_page\<lparr>worker := sample_background\<lparr>random_used := 16\<rparr>\<rparr>)"
  by (simp add: randomState_def randomHex_def run_simps connect_page_def flow_state_def connect_platform_def sample_platform_def
      sample_background_def o_def)

lemma connect_server: "normalizeServerUrl connect_platform (JStr (trim ''https://vault.example/'')) = Inr ''https://vault.example''"
  by code_simp

lemma connect_urls:
  "url_of connect_platform ''https://vault.example'' = Some (sample_url ''https:'' ''vault.example'' ''/'')"
  "url_of connect_platform ''https://nerve.example/'' = Some (sample_url ''https:'' ''nerve.example'' ''/'')"
  by (simp_all add: connect_platform_def)

lemma connect_web: "connectViaWebsite connect_platform ''https://vault.example'' link flow_state s =
    (Inr \<lparr>cb_token = JStr ''ekt_1'', cb_username = JStr [], cb_theme = JNull\<rparr>, s)"
proof -
  have f: "has_api connect_platform n" "web_auth connect_platform x = Inr (Some ''https://nerve.example/'')"
    "params_of connect_platform q = [(''token'', ''ekt_1''), (''state'', flow_state)]" for n x q
    by (simp_all add: connect_platform_def sample_platform_def)
  have j: "json_parse ''null'' = Inr JNull" by code_simp
  have nl: "\<not> usesLocalHttp connect_platform ''https://vault.example''"
    by (simp add: usesLocalHttp_def connect_urls sample_url_def)
  show ?thesis
    by (simp add: connectViaWebsite_def nl run_simps launchConnectFlow_def f connect_urls parseConnectCallback_def Let_def j)
qed

lemma sample_connects: "is_ok (fst (connect_body connect_platform connect_page))"
proof -
  let ?p = connect_platform and ?s1 = "connect_page\<lparr>worker := sample_background\<lparr>random_used := 16\<rparr>\<rparr>"
  have server: "normalizeServerUrl ?p (JStr (currentServerUrl connect_page)) = Inr ''https://vault.example''"
    using connect_server by (simp add: currentServerUrl_def connect_page_def)
  obtain link where link: "\<And>r. websiteConnectUrl ?p ''https://vault.example'' r flow_state = Inr (link r)"
    by (simp add: websiteConnectUrl_def url_at_def connect_urls)
  have run: "\<exists>u. renderConnectionState s = (Inr (), u)" "\<exists>u. setStatus m ty s = (Inr (), u)"
    "\<exists>u. set_value i v s = (Inr (), u)" for s :: options_page and m ty i v
    by (simp_all add: renderConnectionState_def setStatus_def set_value_def set_text_def run_simps)
  obtain s2 where s2: "store_settings ?p \<lparr>serverUrl = JStr ''https://vault.example'', apiToken = JStr [], theme = Some JNull\<rparr> ?s1 = (Inr (), s2)"
    using store_total [OF connect_storage] by blast
  obtain s3 where s3: "set_value ''serverUrl'' ''https://vault.example'' s2 = (Inr (), s3)" using run by blast
  obtain s4 where s4: "setStatus ''Continue in the website window to approve the extension.'' ''info'' (setBusy ''connectButton'' True s3) = (Inr (), s4)"
    using run by blast
  obtain s5 where s5: "store_settings ?p \<lparr>serverUrl = JStr ''https://vault.example'', apiToken = JStr ''ekt_1'', theme = Some JNull\<rparr> s4 = (Inr (), s5)"
    using store_total [OF connect_storage] by blast
  obtain s6 where s6: "renderConnectionState s5 = (Inr (), s6)" using run by blast
  obtain s7 where s7: "setStatus m ''success'' s6 = (Inr (), s7 m)" for m by (simp add: setStatus_def update_run)
  show ?thesis
    by (simp add: connect_body_def bind_run seqc_run lift_run reads_run update_run server connect_random link s2 s3 s4 connect_web s5 s6 s7 Let_def)
qed


section \<open>Signing out\<close>

lemma keeps_saveSettings: "keeps session_vars (saveSettings p st)"
  unfolding saveSettings_def Let_def by (intro keeps_intros)

lemma sign_out_states:
  assumes "sign_out_body p s = (Inr (), t)"
  obtains u s1 reply s2 where "options_message p ''nerve:clear-session-passphrase'' s1 = (Inr reply, s2)"
    "saveSettings p \<lparr>serverUrl = u, apiToken = JStr [], theme = Some JNull\<rparr> (worker s2) = (Inr (), worker t)"
    "os_settings t = \<lparr>serverUrl = u, apiToken = JStr [], theme = Some JNull\<rparr>"
proof -
  from assms obtain u s1 reply s2 s3 s4 s5 where
    m: "options_message p ''nerve:clear-session-passphrase'' s1 = (Inr reply, s2)"
    and st: "store_settings p \<lparr>serverUrl = u, apiToken = JStr [], theme = Some JNull\<rparr> s2 = (Inr (), s3)"
    and last: "set_value ''serverUrl'' (to_str u) s3 = (Inr (), s4)" "renderConnectionState s4 = (Inr (), s5)"
      "setStatus ''Signed out successfully.'' ''success'' s5 = (Inr (), t)"
    unfolding sign_out_body_def bind_eq_Inr seqc_eq_Inr by (elim exE conjE) (simp add: that)
  have "os_settings t = os_settings s3" "worker t = worker s3"
    using keepsD [OF keeps_settings_render(5) last(1)] keepsD [OF keeps_settings_render(6) last(1)]
      keepsD [OF keeps_settings_render(1) last(2)] keepsD [OF keeps_settings_render(2) last(2)]
      keepsD [OF keeps_settings_render(3) last(3)] keepsD [OF keeps_settings_render(4) last(3)] by simp_all
  with store_settings_ok [OF st] show thesis by (intro that [OF m]) auto
qed

text \<open>
  Signing out, when it succeeds, leaves no token on the page or in the storage, no theme,
  and a locked worker; but the handler then enables the sign-out button again, although there
  is no session left to sign out of.
\<close>

theorem sign_out_complete:
  assumes "sign_out_body p s = (Inr (), t)"
  shows "\<not> hasStoredSession t \<and> session_locked (worker t) \<and> session_area (worker t) TOKEN_KEY = Some (JStr []) \<and>
    session_area (worker t) THEME_KEY = None \<and>
    (\<exists>u. handleSignOut p s = (Inr (), u) \<and> \<not> hasStoredSession u \<and> \<not> el_disabled u ''signOutButton'')"
proof -
  from assms obtain u s1 reply s2 where m: "options_message p ''nerve:clear-session-passphrase'' s1 = (Inr reply, s2)"
    and save: "saveSettings p \<lparr>serverUrl = u, apiToken = JStr [], theme = Some JNull\<rparr> (worker s2) = (Inr (), worker t)"
    and st: "os_settings t = \<lparr>serverUrl = u, apiToken = JStr [], theme = Some JNull\<rparr>" by (rule sign_out_states)
  have "session_locked (worker s2)" using m unfolding options_message_def by (rule clear_message_locks)
  moreover have "session_vars (worker t) = session_vars (worker s2)" by (rule keepsD [OF keeps_saveSettings save])
  ultimately have locked: "session_locked (worker t)" by (simp add: session_vars_def session_locked_def)
  have stored: "session_area (worker t) TOKEN_KEY = Some (JStr []) \<and> session_area (worker t) THEME_KEY = None"
    by (rule saveSettings_areas [OF save]) simp
  have "handleSignOut p s = (Inr (), setBusy ''signOutButton'' False t)"
    using assms by (simp add: handleSignOut_def finally_do_run catch_run)
  moreover have "hasStoredSession (setBusy b f t) = hasStoredSession t" for b f by (simp add: hasStoredSession_def setBusy_def)
  ultimately show ?thesis using st locked stored by (auto simp: hasStoredSession_def setBusy_def)
qed

definition signed_in_page :: options_page where
  "signed_in_page = connect_page\<lparr>el_value := (\<lambda>_. []),
     os_settings := \<lparr>serverUrl = JStr ''https://vault.example'', apiToken = JStr ''ekt_1'', theme = Some JNull\<rparr>\<rparr>"

lemma sample_signs_out: "\<exists>t. sign_out_body connect_platform signed_in_page = (Inr (), t)"
proof -
  let ?p = connect_platform and ?s = signed_in_page
  have server: "currentServerUrl ?s = []" "os_settings ?s =
      \<lparr>serverUrl = JStr ''https://vault.example'', apiToken = JStr ''ekt_1'', theme = Some JNull\<rparr>"
    by (simp_all add: signed_in_page_def currentServerUrl_def)
  have pat: "isPersonalAccessToken (JStr ''ekt_1'') = Inr True" by code_simp
  let ?s1 = "setBusy ''signOutButton'' True ?s"
  obtain c where c: "clearRuntimeSessionPassphrase ?p True (worker ?s1) = (Inr (), c)"
    using clear_total [OF connect_storage] by blast
  obtain reply where m: "options_message ?p ''nerve:clear-session-passphrase'' ?s1 = (Inr reply, ?s1\<lparr>worker := c\<rparr>)"
    using clear_message [OF c, of "''options.html''" "[]"] by (auto simp: options_message_def)
  obtain s2 where s2: "store_settings ?p \<lparr>serverUrl = JStr ''https://vault.example'', apiToken = JStr [], theme = Some JNull\<rparr>
      (?s1\<lparr>worker := c\<rparr>) = (Inr (), s2)"
    using store_total [OF connect_storage] by blast
  obtain s3 where s3: "set_value ''serverUrl'' ''https://vault.example'' s2 = (Inr (), s3)" by (simp add: set_value_def update_run)
  obtain s4 where s4: "renderConnectionState s3 = (Inr (), s4)" by (simp add: renderConnectionState_def set_text_def run_simps)
  obtain s5 where s5: "setStatus ''Signed out successfully.'' ''success'' s4 = (Inr (), s5)" by (simp add: setStatus_def update_run)
  have w: "(?s1\<lparr>worker := worker ?s1\<rparr>) = ?s1" by simp
  show ?thesis
    by (simp add: sign_out_body_def bind_run seqc_run lift_run reads_run update_run ret_run server on_worker_run logoutWithAccount_def
        pat w m s2 s3 s4 s5)
qed

theorem sign_out_complete_witness:
  "\<exists>t. sign_out_body connect_platform signed_in_page = (Inr (), t) \<and> hasStoredSession signed_in_page \<and>
     \<not> hasStoredSession t \<and> session_locked (worker t)"
proof -
  obtain t where t: "sign_out_body connect_platform signed_in_page = (Inr (), t)" using sample_signs_out by blast
  have "hasStoredSession signed_in_page" by (simp add: hasStoredSession_def signed_in_page_def)
  with sign_out_complete [OF t] t show ?thesis by (intro exI [of _ t] conjI) simp_all
qed

end
