(* ===== verification/Launcher.thy ===== *)
theory Launcher
  imports Page
begin

text \<open>
  The toolbar popup, \<^verbatim>\<open>clients/nerve-extension/launcher.js\<close>: it shows the state of the
  connection, opens the settings, the website or the manager page, and captures the current
  page into Kairo.  \<^verbatim>\<open>safeHost\<close> of this file only knows web addresses, as the one of
  \<^verbatim>\<open>lib/kairo_capture.js\<close> does.
\<close>

section \<open>State\<close>

record launcher = page +
  la_settings :: settings
  la_currentTab :: "tab option"
  la_action :: string

type_synonym 'a lau = "(launcher, 'a) io"

definition launcher_host :: "platform \<Rightarrow> tab option \<Rightarrow> string" where
  "launcher_host p t = kairo_safeHost p (to_str (tab_field tab_url t))"

definition capturableTab :: "platform \<Rightarrow> tab option \<Rightarrow> bool" where
  "capturableTab p t \<longleftrightarrow>
     truthy (tab_field tab_id t) \<and> truthy (tab_field tab_url t) \<and>
     (case url_of p (to_str (tab_field tab_url t)) of None \<Rightarrow> False | Some u \<Rightarrow> http_url u)"

section \<open>Rendering\<close>

definition renderState :: "string \<Rightarrow> string \<Rightarrow> string \<Rightarrow> string \<Rightarrow> unit lau" where
  "renderState title summary action button =
     seqc (update (\<lambda>s. s\<lparr>la_action := action\<rparr>))
     (seqc (set_text ''launcherTitle'' title)
     (seqc (set_text ''launcherSummary'' summary)
       (set_text ''primaryButton'' button)))"

definition launcher_renderCurrentSite :: "platform \<Rightarrow> unit lau" where
  "launcher_renderCurrentSite p =
     bind (reads (\<lambda>s. launcher_host p (la_currentTab s))) (\<lambda>host.
     set_text ''currentSiteLabel'' (if host \<noteq> [] then host else ''No fill target''))"

definition renderCaptureState :: "platform \<Rightarrow> bool \<Rightarrow> string \<Rightarrow> unit lau" where
  "renderCaptureState p enabled summary =
     bind (reads (\<lambda>s. capturableTab p (la_currentTab s))) (\<lambda>capturable.
     seqc (update (setBusy ''captureButton'' (\<not> enabled \<or> \<not> capturable)))
       (set_text ''captureSummary''
          (if summary \<noteq> [] then summary
           else if capturable then ''Selected text is saved as a note. Otherwise the page URL is saved.''
           else ''Open an http or https page before capturing.'')))"

definition launcher_setFeedback :: "string \<Rightarrow> string \<Rightarrow> unit lau" where
  "launcher_setFeedback message type =
     update (\<lambda>s. s\<lparr>el_text := (el_text s)(''feedback'' := message),
                  el_class := (el_class s)(''feedback'' := ''feedback launcher-feedback '' @ type)\<rparr>)"

section \<open>The state of the connection\<close>

definition launcher_connected :: "launcher \<Rightarrow> bool" where
  "launcher_connected s \<longleftrightarrow> truthy (serverUrl (la_settings s)) \<and> truthy (apiToken (la_settings s))"

definition refresh_body :: "platform \<Rightarrow> unit lau" where
  "refresh_body p =
     bind (reads la_settings) (\<lambda>st.
     bind (on_worker (listEntries p st)) (\<lambda>data.
     bind (lift (js_get data ''theme'')) (\<lambda>dataTheme.
     let st' = st\<lparr>theme := Some (js_or dataTheme (js_or (settings_theme st) JNull))\<rparr> in
     seqc (update (\<lambda>s. s\<lparr>la_settings := st'\<rparr>))
     (seqc (on_worker (saveSettings p st'))
     (seqc (apply_theme st')
     (if \<not> truthy (js_get_opt data ''master_configured'') then
        seqc (renderState ''Enable Account-Password Encryption''
                ''Set up encrypted data on Elektrine so your account password can unlock this browser.''
                ''encrypted-data'' ''Set up encryption'')
          (renderCaptureState p True [])
      else
        seqc (renderState ''Open Manager''
                ''Open the manager, then unlock Elektrine for this browser session.''
                ''manager'' ''Open manager'')
          (renderCaptureState p True [])))))))"

definition refreshStatus :: "platform \<Rightarrow> unit lau" where
  "refreshStatus p =
     bind (reads launcher_connected) (\<lambda>conn.
     if \<not> conn then
       seqc (renderState ''Connect Nerve''
               ''Connect your Elektrine account before using passwords in this browser.''
               ''settings'' ''Connect account'')
         (renderCaptureState p False ''Connect your account to capture into Kairo.'')
     else
       catch (refresh_body p)
         (\<lambda>error.
            seqc (renderState ''Connection Problem''
                    ''Open settings to check your server and sign-in session.''
                    ''settings'' ''Open Settings'')
            (seqc (renderCaptureState p False ''Fix the extension connection before capturing.'')
              (launcher_setFeedback (error_message p error) ''error''))))"

definition launcher_init :: "platform \<Rightarrow> unit lau" where
  "launcher_init p =
     seqc (update (\<lambda>s. s\<lparr>la_currentTab := active_tab p\<rparr>))
     (bind (on_worker (getSettings p)) (\<lambda>st.
     seqc (update (\<lambda>s. s\<lparr>la_settings := st\<rparr>))
     (seqc (apply_theme st)
     (seqc (launcher_renderCurrentSite p)
       (refreshStatus p)))))"

section \<open>Capturing\<close>

definition fallbackCapture :: "platform \<Rightarrow> tab option \<Rightarrow> capture" where
  "fallbackCapture p t =
     \<lparr>cap_url = js_or (tab_field tab_url t) (JStr []),
      cap_title = js_or (tab_field tab_title t)
        (js_or (JStr (launcher_host p t)) (JStr ''Captured page'')),
      cap_selectionText = JStr []\<rparr>"

text \<open>A property of the answered object replaces the one of the fallback, even when undefined.\<close>

definition own_or :: "jsv \<Rightarrow> string \<Rightarrow> jsv \<Rightarrow> jsv" where
  "own_or v k d =
     (case v of
        JObj ps \<Rightarrow> (case map_of ps k of None \<Rightarrow> d | Some x \<Rightarrow> x)
      | _ \<Rightarrow> d)"

definition merge_capture :: "jsv \<Rightarrow> capture \<Rightarrow> capture" where
  "merge_capture c fallback =
     \<lparr>cap_url = js_or (js_get_opt c ''url'') (cap_url fallback),
      cap_title = js_or (js_get_opt c ''title'') (cap_title fallback),
      cap_selectionText = own_or c ''selectionText'' (cap_selectionText fallback)\<rparr>"

definition getPageCapture :: "platform \<Rightarrow> tab option \<Rightarrow> capture lau" where
  "getPageCapture p t =
     (let fallback = fallbackCapture p t in
      catch
        (bind (sendMessageToTab p (tab_field tab_id t) (JObj [(''type'', JStr ''kairo:get-page-capture'')])) (\<lambda>response.
         if truthy (js_get_opt response ''ok'') \<and> truthy (js_get_opt response ''capture'') then
           ret (merge_capture (js_get_opt response ''capture'') fallback)
         else ret fallback))
        (\<lambda>_. ret fallback))"

definition capture_body :: "platform \<Rightarrow> unit lau" where
  "capture_body p =
     bind (reads launcher_connected) (\<lambda>conn.
     if \<not> conn then raise (Error ''Connect your Elektrine account before capturing.'')
     else
       bind (reads (\<lambda>s. capturableTab p (la_currentTab s))) (\<lambda>capturable.
       if \<not> capturable then raise (Error ''Open an http or https page before capturing.'')
       else
         seqc (update (setBusy ''captureButton'' True))
         (seqc (launcher_setFeedback ''Capturing to Kairo...'' ''info'')
         (bind (bind (reads la_currentTab) (getPageCapture p)) (\<lambda>capture.
          bind (reads (\<lambda>s. clock (worker s))) (\<lambda>now.
          bind (lift (kairoSourceAttrs p now capture)) (\<lambda>attrs.
          bind (bind (reads la_settings) (\<lambda>st. on_worker (createKairoSource p st attrs))) (\<lambda>data.
          let mode = (if truthy (cap_selectionText capture) then ''selection'' else ''page'');
              title = js_or (js_get_opt (js_get_opt data ''source'') ''title'')
                        (js_or (cap_title capture) (JStr ''Captured page'')) in
          launcher_setFeedback (''Saved '' @ mode @ '' to Kairo: '' @ to_str title) ''success'')))))))) "

definition handleCapture :: "platform \<Rightarrow> unit lau" where
  "handleCapture p =
     finally_do
       (catch (capture_body p) (\<lambda>error. launcher_setFeedback (kairoErrorMessage p error) ''error''))
       (setBusy ''captureButton'' False)"

section \<open>Opening pages\<close>

definition launcher_openOptionsPage :: "unit lau" where
  "launcher_openOptionsPage = seqc (effect PageOpenOptions) (effect PageClosed)"

definition launcher_openManagerPage :: "platform \<Rightarrow> unit lau" where
  "launcher_openManagerPage p =
     bind (reads (\<lambda>s. tab_field tab_id (la_currentTab s))) (\<lambda>tabId.
     let params = (if truthy tabId then [(''tabId'', to_str tabId)] else []) in
     seqc (effect (PageOpenTab (extension_origin p @ ''manager.html?'' @ params_text p params)))
       (effect PageClosed))"

definition launcher_openMasterPasswordSettings :: "unit lau" where
  "launcher_openMasterPasswordSettings =
     bind (reads (\<lambda>s. serverUrl (la_settings s))) (\<lambda>url.
     if \<not> truthy url then launcher_openOptionsPage
     else
       seqc (effect (PageOpenTab (strip_trailing_slashes (to_str url) @ ''/account/encrypted-data'')))
         (effect PageClosed))"

definition handlePrimaryAction :: "platform \<Rightarrow> unit lau" where
  "handlePrimaryAction p =
     bind (reads la_action) (\<lambda>action.
     if action = ''settings'' then launcher_openOptionsPage
     else if action = ''encrypted-data'' then launcher_openMasterPasswordSettings
     else launcher_openManagerPage p)"

text \<open>The page's events.\<close>

datatype launcher_event =
    LauncherLoaded
  | CaptureClicked
  | PrimaryClicked
  | OpenOptionsClicked

definition launcher_handler :: "platform \<Rightarrow> launcher_event \<Rightarrow> unit lau" where
  "launcher_handler p e =
     (case e of
        LauncherLoaded \<Rightarrow> launcher_init p
      | CaptureClicked \<Rightarrow> handleCapture p
      | PrimaryClicked \<Rightarrow> handlePrimaryAction p
      | OpenOptionsClicked \<Rightarrow> launcher_openOptionsPage)"

section \<open>What a capture sends\<close>

lemma keeps_log_leaf:
  "keeps (\<lambda>s. net_log (worker s)) (launcher_setFeedback m ty)"
  "keeps (\<lambda>s. net_log (worker s)) (getPageCapture p t)"
  "keeps (\<lambda>s. net_log (worker s)) (update (setBusy b f) :: unit lau)"
  unfolding launcher_setFeedback_def getPageCapture_def sendMessageToTab_def Let_def
  by (intro keeps_intros keeps_update; simp add: setBusy_def)+

lemma createKairoSource_log:
  assumes "createKairoSource p st attrs w = (r, t)"
  shows "net_log t = net_log w \<or>
    (\<exists>server token. net_log t = net_log w @
       [build_request server ''/api/ext/v1/kairo/sources''
          (no_options\<lparr>opt_method := ''POST'', opt_body := JObj [(''source'', attrs)]\<rparr>) token])"
  using send_request_log [OF assms [unfolded createKairoSource_def]] by blast

lemma capture_body_log:
  assumes "capture_body p s = (r, t)"
  shows "net_log (worker t) = net_log (worker s) \<or>
    launcher_connected s \<and> capturableTab p (la_currentTab s) \<and>
    (\<exists>server token attrs capture now. net_log (worker t) = net_log (worker s) @
       [build_request server ''/api/ext/v1/kairo/sources''
          (no_options\<lparr>opt_method := ''POST'', opt_body := JObj [(''source'', attrs)]\<rparr>) token] \<and>
       kairoSourceAttrs p now capture = Inr attrs)"
proof (cases "launcher_connected s \<and> capturableTab p (la_currentTab s)")
  case False
  with assms have "t = s" by (auto simp: capture_body_def run_simps split: if_splits)
  then show ?thesis by simp
next
  case True
  let ?s1 = "setBusy ''captureButton'' True s"
  obtain s2 where s2: "launcher_setFeedback ''Capturing to Kairo...'' ''info'' ?s1 = (Inr (), s2)"
    by (simp add: launcher_setFeedback_def update_run)
  obtain rc s3 where s3: "getPageCapture p (la_currentTab s2) s2 = (rc, s3)" by (cases "getPageCapture p (la_currentTab s2) s2")
  have log: "net_log (worker s3) = net_log (worker s)"
    using keepsD [OF keeps_log_leaf(2) s3] keepsD [OF keeps_log_leaf(1) s2] by (simp add: setBusy_def)
  show ?thesis
  proof (cases "\<exists>capture attrs. rc = Inr capture \<and> kairoSourceAttrs p (clock (worker s3)) capture = Inr attrs")
    case False
    with assms True s2 s3 have "t = s3" by (auto simp: capture_body_def run_simps split: sum.splits)
    with log show ?thesis by simp
  next
    case attrs: True
    then obtain capture attrs where a: "rc = Inr capture" "kairoSourceAttrs p (clock (worker s3)) capture = Inr attrs" by blast
    obtain rd b where b: "createKairoSource p (la_settings s3) attrs (worker s3) = (rd, b)"
      by (cases "createKairoSource p (la_settings s3) attrs (worker s3)")
    have "net_log (worker t) = net_log b"
      using assms True s2 s3 a b
      by (auto simp: capture_body_def run_simps Let_def launcher_setFeedback_def split: sum.splits)
    with createKairoSource_log [OF b] log a True show ?thesis by auto
  qed
qed

text \<open>
  A capture sends at most one request, and only when the account is connected and the
  tab shows a web page; it posts a source whose kind is \<^verbatim>\<open>text\<close> exactly when a selection was
  captured.  However it ends, the handler does not throw and the button is enabled again.
\<close>

theorem launcher_capture:
  "\<exists>t. handleCapture p s = (Inr (), t) \<and> \<not> el_disabled t ''captureButton'' \<and>
    (net_log (worker t) = net_log (worker s) \<or>
     launcher_connected s \<and> capturableTab p (la_currentTab s) \<and>
     (\<exists>server token attrs capture now. net_log (worker t) = net_log (worker s) @
          [build_request server ''/api/ext/v1/kairo/sources''
            (no_options\<lparr>opt_method := ''POST'', opt_body := JObj [(''source'', attrs)]\<rparr>) token] \<and>
        kairoSourceAttrs p now capture = Inr attrs \<and>
        (js_get_opt attrs ''source_type'' = JStr ''text'') = (normalizeSelection (cap_selectionText capture) \<noteq> [])))"
proof -
  obtain r t where body: "capture_body p s = (r, t)" by (cases "capture_body p s")
  obtain u where u: "handleCapture p s = (Inr (), u)" "worker u = worker t" "\<not> el_disabled u ''captureButton''"
    using body by (cases r) (auto simp: handleCapture_def run_simps launcher_setFeedback_def setBusy_def)
  have "kairoSourceAttrs p now capture = Inr attrs \<Longrightarrow>
      (js_get_opt attrs ''source_type'' = JStr ''text'') = (normalizeSelection (cap_selectionText capture) \<noteq> [])" for now capture attrs
    by (auto simp: kairoSourceAttrs_def Let_def res_bind_eq_Inr split: if_splits)
  note kind = this
  from capture_body_log [OF body] show ?thesis
  proof (elim disjE conjE exE)
    assume "net_log (worker t) = net_log (worker s)"
    with u show ?thesis by (intro exI [of _ u]) simp
  next
    fix server token attrs capture now
    assume sent: "launcher_connected s" "capturableTab p (la_currentTab s)"
      "net_log (worker t) = net_log (worker s) @ [build_request server ''/api/ext/v1/kairo/sources''
         (no_options\<lparr>opt_method := ''POST'', opt_body := JObj [(''source'', attrs)]\<rparr>) token]"
      "kairoSourceAttrs p now capture = Inr attrs"
    show ?thesis
      by (rule exI [of _ u], intro conjI u disjI2 sent(1,2), rule exI [of _ server], rule exI [of _ token],
          rule exI [of _ attrs], rule exI [of _ capture], rule exI [of _ now])
        (simp only: u(2) sent(3,4) kind [OF sent(4)])
  qed
qed

end
