(* ===== verification/ContentFields.thy ===== *)
theory ContentFields
  imports Complex_Main Ranking JsSort
begin

text \<open>
  The login fields of a page as \<^verbatim>\<open>clients/nerve-extension/content.js\<close> sees them: which inputs
  it considers, how it scores and ranks them, and which password and user name field it picks.
  A page is the list of its inputs in document order; an element is named by a number, so that
  the script's references stay valid while the page changes.  Text patterns without
  metacharacters are lists of alternatives.
\<close>

section \<open>The page\<close>

record rect =
  r_top :: rat
  r_right :: rat
  r_bottom :: rat
  r_left :: rat
  r_width :: rat
  r_height :: rat

text \<open>
  \<open>in_form\<close> is the form the input is nested in (what \<^verbatim>\<open>querySelectorAll\<close> finds) and
  \<open>form_owner\<close> the one it belongs to (\<^verbatim>\<open>field.form\<close>); \<open>nearby\<close> holds the attributes of the form
  and of the ancestors that \<^verbatim>\<open>looksLikeLoginField\<close> reads, \<open>None\<close> where there is none.
\<close>

record login_field =
  element_id :: nat
  form_owner :: "nat option"
  in_form :: "nat option"
  type_attr :: "string option"
  autocomplete :: string
  name_attr :: string
  id_attr :: string
  placeholder :: string
  aria_label :: "string option"
  nearby :: "string option list"
  is_disabled :: bool
  read_only :: bool
  visibility :: string
  display :: string
  bounding_rect :: rect
  field_value :: string

record page_doc =
  inputs :: "login_field list"
  forms :: "nat list"

datatype container = Document | Form nat

section \<open>Reading a field\<close>

definition normalizedFieldType :: "login_field \<Rightarrow> string" where
  "normalizedFieldType field =
     lower (case type_attr field of None \<Rightarrow> ''text'' | Some t \<Rightarrow> if t = [] then ''text'' else t)"

text \<open>\<^verbatim>\<open>field.type === "password"\<close> and the selector \<^verbatim>\<open>input[type="password"]\<close> agree.\<close>

definition is_password :: "login_field \<Rightarrow> bool" where
  "is_password field \<longleftrightarrow> normalizedFieldType field = ''password''"

definition isVisible :: "login_field \<Rightarrow> bool" where
  "isVisible field \<longleftrightarrow>
     visibility field \<noteq> ''hidden'' \<and> display field \<noteq> ''none'' \<and>
     r_width (bounding_rect field) > 0 \<and> r_height (bounding_rect field) > 0"

definition validField :: "login_field \<Rightarrow> bool" where
  "validField field \<longleftrightarrow> \<not> (is_disabled field \<or> read_only field) \<and> isVisible field"

definition password_key :: "login_field \<Rightarrow> string" where
  "password_key field = lower (name_attr field @ '' '' @ id_attr field @ '' '' @ placeholder field)"

definition loginFieldKey :: "login_field \<Rightarrow> string" where
  "loginFieldKey field =
     lower (name_attr field @ '' '' @ id_attr field @ '' '' @ placeholder field @ '' '' @
            (case aria_label field of None \<Rightarrow> [] | Some l \<Rightarrow> l))"

definition looksLikeLoginField :: "login_field \<Rightarrow> bool" where
  "looksLikeLoginField field \<longleftrightarrow>
     (let nearbyText = lower (join '' '' (concat (map (\<lambda>a. case a of None \<Rightarrow> [] | Some t \<Rightarrow> if t = [] then [] else [t])
                                (nearby field))))
      in str_includes_any nearbyText
           [''login'', ''signin'', ''sign-in'', ''auth'', ''account'', ''session'', ''continue'', ''next''])"

definition isUsernameLikeField :: "login_field \<Rightarrow> bool" where
  "isUsernameLikeField field \<longleftrightarrow>
     validField field \<and>
     normalizedFieldType field \<in> {''text'', ''email'', ''search'', ''tel'', ''url''} \<and>
     (lower (autocomplete field) = ''username'' \<or> lower (autocomplete field) = ''email'' \<or>
      str_includes_any (loginFieldKey field)
        [''user'', ''login'', ''email'', ''identifier'', ''account'', ''phone'', ''handle''] \<or>
      looksLikeLoginField field)"

section \<open>Scores\<close>

definition passwordFieldScore :: "login_field \<Rightarrow> int" where
  "passwordFieldScore field =
     (let complete = lower (autocomplete field); key = password_key field in
      (if complete = ''current-password'' then 40 else 0)
      - (if complete = ''new-password'' then 30 else 0)
      - (if str_includes_any key [''confirm'', ''repeat'', ''new''] then 20 else 0)
      + (if str_includes_any key [''pass'', ''login'', ''signin''] then 12 else 0))"

definition usernameFieldScore :: "login_field \<Rightarrow> int \<Rightarrow> int \<Rightarrow> int" where
  "usernameFieldScore field fieldIndex passwordIndex =
     (let complete = lower (autocomplete field);
          key = loginFieldKey field;
          type = normalizedFieldType field in
      (if complete = ''username'' then 40 else 0)
      + (if complete = ''email'' then 28 else 0)
      + (if type = ''email'' then 18 else 0)
      + (if str_includes_any key [''user'', ''login'', ''email'', ''identifier'', ''account''] then 20 else 0)
      + (if looksLikeLoginField field then 12 else 0)
      + (if fieldIndex \<ge> 0 \<and> passwordIndex \<ge> 0
         then max (18 - abs (passwordIndex - fieldIndex)) 0 + (if fieldIndex < passwordIndex then 14 else 0)
         else 0))"

definition rankPasswordCandidates :: "login_field list \<Rightarrow> login_field list" where
  "rankPasswordCandidates candidates = js_sort (by_score_desc passwordFieldScore) candidates"

section \<open>Finding fields\<close>

definition field_at :: "page_doc \<Rightarrow> nat \<Rightarrow> login_field option" where
  "field_at doc i = find (\<lambda>f. element_id f = i) (inputs doc)"

definition container_inputs :: "page_doc \<Rightarrow> container \<Rightarrow> login_field list" where
  "container_inputs doc c =
     (case c of Document \<Rightarrow> inputs doc | Form i \<Rightarrow> filter (\<lambda>f. in_form f = Some i) (inputs doc))"

definition visibleFields :: "page_doc \<Rightarrow> container \<Rightarrow> (login_field \<Rightarrow> bool) \<Rightarrow> login_field list" where
  "visibleFields doc c selector = filter validField (filter selector (container_inputs doc c))"

definition form_or_document :: "login_field \<Rightarrow> container" where
  "form_or_document field = (case form_owner field of None \<Rightarrow> Document | Some i \<Rightarrow> Form i)"

text \<open>\<^verbatim>\<open>orderedFields.indexOf(field)\<close>.\<close>

fun index_of :: "nat \<Rightarrow> login_field list \<Rightarrow> int" where
  "index_of i [] = - 1"
| "index_of i (f # fs) =
     (if element_id f = i then 0 else let k = index_of i fs in if k = - 1 then - 1 else k + 1)"

definition rankUsernameCandidates :: "page_doc \<Rightarrow> container \<Rightarrow> nat option \<Rightarrow> (login_field \<times> int) list" where
  "rankUsernameCandidates doc c passwordField =
     (let candidates = filter isUsernameLikeField
            (visibleFields doc c (\<lambda>f. normalizedFieldType f \<noteq> ''hidden'' \<and> \<not> is_password f));
          orderedFields = container_inputs doc c;
          passwordIndex = (case passwordField of None \<Rightarrow> - 1 | Some i \<Rightarrow> index_of i orderedFields)
      in js_sort (by_score_desc snd)
           (map (\<lambda>f. (f, usernameFieldScore f (index_of (element_id f) orderedFields) passwordIndex)) candidates))"

text \<open>What the script remembers of a login form; the fields are references.\<close>

record login_context =
  cx_field :: nat
  cx_form :: container
  cx_passwordField :: "nat option"
  cx_usernameField :: "nat option"

definition head_id :: "login_field list \<Rightarrow> nat option" where
  "head_id fs = (case fs of [] \<Rightarrow> None | f # _ \<Rightarrow> Some (element_id f))"

fun first_some :: "('a \<Rightarrow> 'b option) \<Rightarrow> 'a list \<Rightarrow> 'b option" where
  "first_some f [] = None"
| "first_some f (x # xs) = (case f x of None \<Rightarrow> first_some f xs | Some y \<Rightarrow> Some y)"

text \<open>The form of a context, the form of the active field, every form, the document.\<close>

definition uniqueContainers :: "page_doc \<Rightarrow> nat option \<Rightarrow> container option \<Rightarrow> container list" where
  "uniqueContainers doc activeField preferredForm =
     (let containers0 = (case preferredForm of None \<Rightarrow> [] | Some c \<Rightarrow> [c]);
          activeForm = Option.bind (Option.bind activeField (field_at doc)) form_owner;
          containers1 = (case activeForm of
              None \<Rightarrow> containers0
            | Some i \<Rightarrow> if Form i \<in> set containers0 then containers0 else containers0 @ [Form i])
      in foldl (\<lambda>cs i. if Form i \<in> set cs then cs else cs @ [Form i]) containers1 (forms doc) @ [Document])"

definition valid_ref :: "page_doc \<Rightarrow> (login_field \<Rightarrow> bool) \<Rightarrow> nat option \<Rightarrow> bool" where
  "valid_ref doc good r = (case Option.bind r (field_at doc) of None \<Rightarrow> False | Some f \<Rightarrow> good f)"

definition best_password :: "page_doc \<Rightarrow> container \<Rightarrow> nat option" where
  "best_password doc c = head_id (rankPasswordCandidates (visibleFields doc c is_password))"

definition findPasswordField :: "page_doc \<Rightarrow> nat option \<Rightarrow> login_context option \<Rightarrow> nat option" where
  "findPasswordField doc activeField preferred =
     (if valid_ref doc validField (Option.bind preferred cx_passwordField)
      then Option.bind preferred cx_passwordField
      else first_some (best_password doc) (uniqueContainers doc activeField (map_option cx_form preferred)))"

text \<open>\<^verbatim>\<open>findPasswordField({ form })\<close>.\<close>

definition findPasswordIn :: "page_doc \<Rightarrow> nat option \<Rightarrow> container \<Rightarrow> nat option" where
  "findPasswordIn doc activeField c = first_some (best_password doc) (uniqueContainers doc activeField (Some c))"

definition findUsernameField :: "page_doc \<Rightarrow> login_field \<Rightarrow> nat option" where
  "findUsernameField doc passwordField =
     head_id (map fst (rankUsernameCandidates doc (form_or_document passwordField) (Some (element_id passwordField))))"

definition findFillableUsernameField :: "page_doc \<Rightarrow> nat option \<Rightarrow> login_context option \<Rightarrow> nat option" where
  "findFillableUsernameField doc activeField preferred =
     (if valid_ref doc validField (Option.bind preferred cx_usernameField)
      then Option.bind preferred cx_usernameField
      else if valid_ref doc isUsernameLikeField (map_option cx_field preferred)
      then map_option cx_field preferred
      else first_some (\<lambda>c. head_id (map fst (rankUsernameCandidates doc c (Option.bind preferred cx_passwordField))))
             (uniqueContainers doc activeField (map_option cx_form preferred)))"

definition loginContextForField :: "page_doc \<Rightarrow> nat option \<Rightarrow> login_field \<Rightarrow> login_context option" where
  "loginContextForField doc activeField field =
     (if \<not> validField field then None
      else
        let form = form_or_document field;
            passwordField = (if is_password field then Some (element_id field) else findPasswordIn doc activeField form) in
        case Option.bind passwordField (field_at doc) of
          None \<Rightarrow>
            if isUsernameLikeField field then
              Some \<lparr>cx_field = element_id field, cx_form = form, cx_passwordField = None,
                    cx_usernameField = Some (element_id field)\<rparr>
            else None
        | Some pw \<Rightarrow>
            Some \<lparr>cx_field = element_id field, cx_form = form, cx_passwordField = Some (element_id pw),
                  cx_usernameField = findUsernameField doc pw\<rparr>)"

definition shouldStageSelectedEntry :: "page_doc \<Rightarrow> nat option \<Rightarrow> login_context option \<Rightarrow> bool" where
  "shouldStageSelectedEntry doc activeField context \<longleftrightarrow>
     Option.bind context cx_usernameField \<noteq> None \<and> findPasswordField doc activeField context = None"

definition looksLikePasswordChange :: "login_field list \<Rightarrow> bool" where
  "looksLikePasswordChange passwordFields \<longleftrightarrow>
     \<not> length passwordFields < 2 \<and>
     list_ex (\<lambda>f. str_includes_any (password_key f) [''new'', ''confirm'', ''repeat'', ''current'']) passwordFields"

section \<open>Filling\<close>

definition set_input :: "nat \<Rightarrow> string \<Rightarrow> page_doc \<Rightarrow> page_doc" where
  "set_input i v doc =
     doc\<lparr>inputs := map (\<lambda>f. if element_id f = i then f\<lparr>field_value := v\<rparr> else f) (inputs doc)\<rparr>"

record fill_result =
  filled_username :: bool
  filled_password :: bool
  focus_on :: nat

text \<open>
  The values \<^verbatim>\<open>fillCredentials\<close> writes; the field it then focuses is in the result, since the
  focus runs the script's own listener.
\<close>

definition fill_fields :: "page_doc \<Rightarrow> nat option \<Rightarrow> jsv \<Rightarrow> jsv \<Rightarrow> login_context option \<Rightarrow> (fill_result \<times> page_doc) result" where
  "fill_fields doc activeField username password preferred =
     (let passwordField = (case findPasswordField doc activeField preferred of
              Some i \<Rightarrow> Some i | None \<Rightarrow> findPasswordField doc activeField None) in
      case passwordField of
        None \<Rightarrow>
          (case findFillableUsernameField doc activeField preferred of
             None \<Rightarrow> Inl (Error ''No visible login field was found on this page.'')
           | Some u \<Rightarrow>
               Inr (\<lparr>filled_username = truthy username, filled_password = False, focus_on = u\<rparr>,
                    if truthy username then set_input u (to_str username) doc else doc))
      | Some i \<Rightarrow>
          if \<not> truthy password then Inl (Error ''The selected entry does not include a password.'')
          else
            (let usernameField =
                   (if \<not> truthy username then None
                    else case Option.bind (field_at doc i) (findUsernameField doc) of
                           Some u \<Rightarrow> Some u
                         | None \<Rightarrow> findFillableUsernameField doc activeField preferred);
                 doc1 = (case usernameField of None \<Rightarrow> doc | Some u \<Rightarrow> set_input u (to_str username) doc)
             in Inr (\<lparr>filled_username = (usernameField \<noteq> None), filled_password = True, focus_on = i\<rparr>,
                     set_input i (to_str password) doc1)))"

end
