(* ===== verification/ContentGeometry.thy ===== *)
theory ContentGeometry
  imports ContentFields
begin

text \<open>
  Where \<^verbatim>\<open>clients/nerve-extension/content.js\<close> puts its button and its popover, and how it takes
  over the look of the field.  Coordinates are exact rationals; a length is the number the
  source writes before \<^verbatim>\<open>px\<close>.
\<close>

section \<open>Numbers\<close>

definition clamp :: "rat \<Rightarrow> rat \<Rightarrow> rat \<Rightarrow> rat" where
  "clamp v lo hi = (if hi < lo then lo else min (max v lo) hi)"

text \<open>\<^verbatim>\<open>Math.round\<close>: halves are rounded up.\<close>

definition round_half_up :: "rat \<Rightarrow> rat" where
  "round_half_up x = of_int \<lfloor>x + 1 / 2\<rfloor>"

datatype parsed = NaN | Infinite bool | Finite rat

definition sign_split :: "string \<Rightarrow> bool \<times> string" where
  "sign_split s =
     (case s of
        c # t \<Rightarrow> if c = CHR ''-'' then (True, t) else if c = CHR ''+'' then (False, t) else (False, s)
      | [] \<Rightarrow> (False, s))"

definition exponent_of :: "string \<Rightarrow> int" where
  "exponent_of s =
     (case s of
        c # t \<Rightarrow>
          if lower_char c = CHR ''e'' then
            (case sign_split t of (neg, u) \<Rightarrow>
               let e = int (digits_val (takeWhile is_digit u)) in if neg then - e else e)
          else 0
      | [] \<Rightarrow> 0)"

definition scale10 :: "rat \<Rightarrow> int \<Rightarrow> rat" where
  "scale10 x e = (if e < 0 then x / 10 ^ nat (- e) else x * 10 ^ nat e)"

text \<open>\<^verbatim>\<open>Number.parseFloat\<close>: the longest decimal literal at the start of the text.\<close>

definition parse_float :: "string \<Rightarrow> parsed" where
  "parse_float s =
     (case sign_split (dropWhile is_space s) of (neg, u) \<Rightarrow>
        if starts_with u ''Infinity'' then Infinite neg
        else
          (let whole = takeWhile is_digit u;
               rest = dropWhile is_digit u;
               frac = (if rest \<noteq> [] \<and> hd rest = CHR ''.'' then takeWhile is_digit (tl rest) else []);
               after = (if rest \<noteq> [] \<and> hd rest = CHR ''.'' then dropWhile is_digit (tl rest) else rest)
           in if whole = [] \<and> frac = [] then NaN
              else
                (let x = scale10 (of_nat (digits_val (whole @ frac))) (exponent_of after - int (length frac))
                 in Finite (if neg then - x else x))))"

section \<open>The button\<close>

record position =
  p_top :: rat
  p_left :: rat

definition inlineButtonSize :: "rect \<Rightarrow> rat" where
  "inlineButtonSize rect = round_half_up (clamp (r_height rect - 8) 22 30)"

text \<open>
  An element found at a point: whether it is the field or inside it, whether it belongs to the
  script's own host, and whether it is, or is inside, something interactive.
\<close>

record point_element =
  pe_in_field :: bool
  pe_in_host :: bool
  pe_is_element :: bool
  pe_in_control :: bool

definition isInteractiveElement :: "point_element \<Rightarrow> bool" where
  "isInteractiveElement e \<longleftrightarrow> pe_is_element e \<and> pe_in_control e"

definition inlineButtonWouldCoverControl :: "(rat \<Rightarrow> rat \<Rightarrow> point_element list) \<Rightarrow> rat \<Rightarrow> rat \<Rightarrow> rat \<Rightarrow> bool" where
  "inlineButtonWouldCoverControl elementsFromPoint leftX topY sz =
     (let x = leftX + sz / 2; y = topY + sz / 2 in
      list_ex (\<lambda>e. if pe_in_field e then False else if pe_in_host e then False else isInteractiveElement e)
        (elementsFromPoint x y))"

definition inlineButtonPosition :: "(rat \<Rightarrow> rat \<Rightarrow> point_element list) \<Rightarrow> rect \<Rightarrow> rat \<Rightarrow> rect \<Rightarrow> position" where
  "inlineButtonPosition elementsFromPoint rect sz viewport =
     (let inset = max 4 (min 8 (round_half_up (r_height rect * (18 / 100))));
          centerTop = clamp (r_top rect + (r_height rect - sz) / 2) (r_top viewport + 6) (r_bottom viewport - sz - 6);
          insideLeft = r_right rect - sz - inset;
          outsideRight = r_right rect + 6;
          outsideLeft = r_left rect - sz - 6;
          canFitInside = (r_width rect \<ge> sz + inset * 2 + 48);
          canFitRight = (outsideRight + sz \<le> r_right viewport - 6);
          canFitLeft = (outsideLeft \<ge> r_left viewport + 6) in
      if canFitInside \<and> insideLeft \<ge> r_left viewport + 6 \<and> insideLeft + sz \<le> r_right viewport - 6 \<and>
         \<not> inlineButtonWouldCoverControl elementsFromPoint insideLeft centerTop sz
      then \<lparr>p_top = centerTop, p_left = insideLeft\<rparr>
      else if canFitRight then \<lparr>p_top = centerTop, p_left = outsideRight\<rparr>
      else if canFitLeft then \<lparr>p_top = centerTop, p_left = outsideLeft\<rparr>
      else \<lparr>p_top = centerTop, p_left = clamp insideLeft (r_left viewport + 6) (r_right viewport - sz - 6)\<rparr>)"

text \<open>The size and place of the button, or \<open>None\<close> where the field is outside the viewport.\<close>

definition placeInlineButton :: "(rat \<Rightarrow> rat \<Rightarrow> point_element list) \<Rightarrow> rect \<Rightarrow> rect \<Rightarrow> (rat \<times> position) option" where
  "placeInlineButton elementsFromPoint rect viewport =
     (if r_bottom rect \<le> r_top viewport \<or> r_top rect \<ge> r_bottom viewport \<or>
         r_right rect \<le> r_left viewport \<or> r_left rect \<ge> r_right viewport
      then None
      else
        let sz = inlineButtonSize rect in
        Some (sz, inlineButtonPosition elementsFromPoint rect sz viewport))"

section \<open>The popover\<close>

record popover_place =
  pop_width :: rat
  pop_position :: position

definition placePopover :: "rect \<Rightarrow> rat \<Rightarrow> rect \<Rightarrow> popover_place" where
  "placePopover rect offsetHeight viewport =
     (let popoverWidth = clamp (r_width rect) 280 (min 360 (r_width viewport - 16));
          popoverHeight = (if offsetHeight = 0 then 220 else offsetHeight);
          belowTop = r_bottom rect + 6;
          aboveTop = r_top rect - popoverHeight - 6;
          topY = (if belowTop + popoverHeight \<le> r_bottom viewport - 8 \<or> aboveTop < r_top viewport + 8
                 then min belowTop (r_bottom viewport - popoverHeight - 8) else aboveTop);
          leftX = clamp (r_left rect) (r_left viewport + 8) (r_right viewport - popoverWidth - 8)
      in \<lparr>pop_width = popoverWidth, pop_position = \<lparr>p_top = max topY (r_top viewport + 8), p_left = leftX\<rparr>\<rparr>)"

text \<open>The visual viewport where the browser has one, else the window.\<close>

record visual_viewport =
  vv_offsetTop :: rat
  vv_offsetLeft :: rat
  vv_width :: rat
  vv_height :: rat

definition viewportRect :: "visual_viewport option \<Rightarrow> rat \<Rightarrow> rat \<Rightarrow> rect" where
  "viewportRect viewport innerWidth innerHeight =
     (case viewport of
        None \<Rightarrow>
          \<lparr>r_top = 0, r_right = innerWidth, r_bottom = innerHeight, r_left = 0, r_width = innerWidth, r_height = innerHeight\<rparr>
      | Some v \<Rightarrow>
          \<lparr>r_top = vv_offsetTop v, r_right = vv_offsetLeft v + vv_width v, r_bottom = vv_offsetTop v + vv_height v,
           r_left = vv_offsetLeft v, r_width = vv_width v, r_height = vv_height v\<rparr>)"

section \<open>The look of the field\<close>

text \<open>\<^verbatim>\<open>/^rgba?\(([^)]+)\)$/i\<close>: the text between the parentheses.\<close>

definition rgba_body :: "string \<Rightarrow> string option" where
  "rgba_body v =
     (let l = lower v;
          n = (if starts_with l ''rgba('' then 5 else if starts_with l ''rgb('' then 4 else 0);
          body = butlast (drop n v)
      in if n > 0 \<and> length v > n + 1 \<and> last v = CHR '')'' \<and> CHR '')'' \<notin> set body then Some body else None)"

definition usableCssColor :: "string \<Rightarrow> bool" where
  "usableCssColor v =
     (if v = [] \<or> v = ''transparent'' then False
      else
        case rgba_body v of
          None \<Rightarrow> True
        | Some body \<Rightarrow>
            (let parts = map trim (split_by (\<lambda>c. c = CHR '','') body);
                 alpha = (if length parts \<ge> 4 then parse_float (parts ! 3) else Finite 1)
             in case alpha of NaN \<Rightarrow> True | Infinite neg \<Rightarrow> \<not> neg | Finite a \<Rightarrow> a > 8 / 100))"

definition normalizeFieldRadius :: "string \<Rightarrow> rat \<Rightarrow> rat" where
  "normalizeFieldRadius v sz =
     (case parse_float v of
        Finite radius \<Rightarrow> max 6 (min radius (round_half_up (sz * (45 / 100))))
      | _ \<Rightarrow> round_half_up (sz * (32 / 100)))"

record field_style =
  backgroundColor :: string
  color :: string
  borderTopColor :: string
  borderTopRightRadius :: string

record inline_style =
  inline_size :: rat
  inline_radius :: rat
  inline_bg :: string
  inline_border :: string
  inline_fg :: string
  inline_shadow :: string

definition applyInlineFieldStyle :: "field_style \<Rightarrow> rat \<Rightarrow> inline_style" where
  "applyInlineFieldStyle style sz =
     (let fieldBg = (if usableCssColor (backgroundColor style) then backgroundColor style else ''var(--field)'');
          fieldFg = (if usableCssColor (color style) then color style else ''var(--muted-strong)'');
          fieldBorder = (if usableCssColor (borderTopColor style) then borderTopColor style else ''var(--line)'')
      in \<lparr>inline_size = sz,
          inline_radius = normalizeFieldRadius (borderTopRightRadius style) sz,
          inline_bg = ''color-mix(in srgb, '' @ fieldBg @ '' 84%, var(--primary) 16%)'',
          inline_border = ''color-mix(in srgb, '' @ fieldBorder @ '' 72%, var(--primary) 28%)'',
          inline_fg = fieldFg,
          inline_shadow = ''0 1px 5px rgba(0, 0, 0, 0.16)''\<rparr>)"

section \<open>Bounds\<close>

lemma clamp_bounds: "lo \<le> hi \<Longrightarrow> lo \<le> clamp v lo hi \<and> clamp v lo hi \<le> hi"
  by (simp add: clamp_def min_def max_def)

lemma round_half_up_bounds: "of_int a \<le> x \<Longrightarrow> x \<le> of_int b \<Longrightarrow> of_int a \<le> round_half_up x \<and> round_half_up x \<le> of_int b"
  unfolding round_half_up_def of_int_le_iff
  by (intro conjI; simp add: le_floor_iff floor_le_iff)

lemma inlineButtonSize_bounds: "22 \<le> inlineButtonSize rect \<and> inlineButtonSize rect \<le> 30"
  using round_half_up_bounds [of 22 "clamp (r_height rect - 8) 22 30" 30] clamp_bounds [of 22 30 "r_height rect - 8"]
  by (simp add: inlineButtonSize_def)

text \<open>
  Whenever the inline button is shown, in a viewport of at least 42 by 42 pixels, it is
  between 22 and 30 pixels wide and lies wholly inside the viewport, six pixels from every
  edge, whichever of the four places is chosen.
\<close>

theorem inline_button_in_viewport:
  assumes "placeInlineButton elementsFromPoint rect viewport = Some (sz, pos)"
    and "r_top viewport + 42 \<le> r_bottom viewport" "r_left viewport + 42 \<le> r_right viewport"
  shows "22 \<le> sz \<and> sz \<le> 30 \<and>
    r_top viewport + 6 \<le> p_top pos \<and> p_top pos + sz \<le> r_bottom viewport - 6 \<and>
    r_left viewport + 6 \<le> p_left pos \<and> p_left pos + sz \<le> r_right viewport - 6"
proof -
  from assms(1) have vis: "r_right rect > r_left viewport" "r_left rect < r_right viewport"
    and sz: "sz = inlineButtonSize rect" and pos: "pos = inlineButtonPosition elementsFromPoint rect sz viewport"
    by (auto simp: placeInlineButton_def Let_def split: if_splits)
  have s: "22 \<le> sz" "sz \<le> 30" using inlineButtonSize_bounds [of rect] sz by simp_all
  then have "r_top viewport + 6 \<le> r_bottom viewport - sz - 6" "r_left viewport + 6 \<le> r_right viewport - sz - 6"
    using assms(2,3) by linarith+
  note c = clamp_bounds [OF this(1)] clamp_bounds [OF this(2)]
  show ?thesis
    using s vis c unfolding pos inlineButtonPosition_def Let_def
    by (auto simp: algebra_simps)
qed

theorem inline_button_in_viewport_witness:
  "\<exists>sz pos. placeInlineButton (\<lambda>_ _. [])
      \<lparr>r_top = 100, r_right = 400, r_bottom = 140, r_left = 100, r_width = 300, r_height = 40\<rparr>
      (viewportRect None 800 600) = Some (sz, pos) \<and> 22 \<le> sz \<and> p_left pos + sz \<le> 794"
proof -
  let ?v = "viewportRect None 800 600"
  have v: "r_top ?v + 42 \<le> r_bottom ?v" "r_left ?v + 42 \<le> r_right ?v" "r_right ?v = 800"
    by (simp_all add: viewportRect_def)
  obtain sz pos where r: "placeInlineButton (\<lambda>_ _. [])
      \<lparr>r_top = 100, r_right = 400, r_bottom = 140, r_left = 100, r_width = 300, r_height = 40\<rparr> ?v = Some (sz, pos)"
    by (simp add: placeInlineButton_def viewportRect_def Let_def)
  from inline_button_in_viewport [OF r v(1,2)] r v(3) show ?thesis by auto
qed

end
