(* ===== verification/ContentView.thy ===== *)
theory ContentView
  imports Html JsValue
begin

text \<open>
  What \<^verbatim>\<open>clients/nerve-extension/content.js\<close> shows in its popover and its banner, as a value
  with the HTML it is rendered to, and the messages it words.  The style sheet of the shadow
  root is not modelled; white space between elements is left out.
\<close>

section \<open>The popover\<close>

definition link_button :: "string \<Rightarrow> string \<Rightarrow> string \<Rightarrow> string" where
  "link_button cls action label =
     element ''button'' [(''class'', cls), (''data-action'', action), (''type'', ''button'')] label"

datatype popover =
    EmptyPopover
  | CheckingPopover
  | InlineState string string
  | NoMatchPopover
  | SuggestionsPopover "jsv list"

definition popover_header :: "string \<Rightarrow> string \<Rightarrow> string" where
  "popover_header title subtitle =
     element ''header'' []
       (element ''p'' [(''class'', ''nerve-title'')] title @ element ''p'' [(''class'', ''nerve-subtitle'')] subtitle)"

definition inline_state :: "string \<Rightarrow> string \<Rightarrow> string \<times> string \<times> string" where
  "inline_state status failure =
     (if status = ''locked'' then
        (''Elektrine fill'', ''Unlock Elektrine in the extension manager, then try again.'',
         link_button ''nerve-link'' ''open-manager'' ''Open manager'')
      else if status = ''disconnected'' then
        (''Elektrine fill'', ''Sign in to Elektrine in extension settings before inline fill can work.'',
         link_button ''nerve-link'' ''open-options'' ''Open settings'')
      else if status = ''unconfigured'' then
        (''Elektrine fill'', ''Set up account-password encryption in Elektrine before inline fill can work.'', [])
      else
        (''Elektrine error'', if failure \<noteq> [] then failure else ''Could not load nerve entries.'', []))"

definition renderInlineState :: "string \<Rightarrow> string \<Rightarrow> string \<Rightarrow> string" where
  "renderInlineState hostLabel status failure =
     (case inline_state status failure of (title, message, actions) \<Rightarrow>
        popover_header (escapeHtml title) (escapeHtml hostLabel) @
        element ''div'' [(''class'', ''nerve-state'')]
          (element ''p'' [] (escapeHtml message) @ element ''div'' [(''class'', ''nerve-state-actions'')] actions))"

definition renderSuggestionItem :: "jsv \<Rightarrow> string" where
  "renderSuggestionItem entry =
     element ''div'' [(''class'', ''nerve-item'')]
       (element ''div'' []
          (element ''p'' [(''class'', ''nerve-item-title'')] (escapeHtml (to_str (js_get_opt entry ''title''))) @
           element ''p'' [(''class'', ''nerve-item-meta'')]
             (escapeHtml (to_str (js_or (js_get_opt entry ''login_username'') (js_or (js_get_opt entry ''website'') (JStr [])))))) @
        element ''button''
          [(''class'', ''nerve-action''), (''data-action'', ''fill-entry''),
           (''data-entry-id'', to_str (js_get_opt entry ''id'')), (''type'', ''button'')] ''Fill'')"

definition popover_html :: "string \<Rightarrow> popover \<Rightarrow> string" where
  "popover_html hostLabel v =
     (case v of
        EmptyPopover \<Rightarrow> []
      | CheckingPopover \<Rightarrow> popover_header ''Elektrine fill'' ''Checking your nerve...''
      | InlineState status failure \<Rightarrow> renderInlineState hostLabel status failure
      | NoMatchPopover \<Rightarrow>
          popover_header ''Elektrine fill'' (escapeHtml hostLabel) @
          element ''div'' [(''class'', ''nerve-empty'')] (element ''p'' [] ''No matching nerve entries found for this page yet.'')
      | SuggestionsPopover entries \<Rightarrow>
          popover_header ''Elektrine fill'' (escapeHtml hostLabel) @
          element ''div'' [(''class'', ''nerve-list'')] (concat (map renderSuggestionItem entries)))"

section \<open>The banner\<close>

datatype banner =
    EmptyBanner
  | SaveBanner jsv
  | LockedBanner string
  | ConnectBanner
  | SetupBanner
  | StatusBanner string

definition banner_actions :: "string \<Rightarrow> string" where
  "banner_actions content = element ''div'' [(''class'', ''nerve-banner-actions'')] content"

definition is_update :: "jsv \<Rightarrow> bool" where
  "is_update pending \<longleftrightarrow> js_get_opt pending ''mode'' = JStr ''update''"

definition renderSavePrompt :: "jsv \<Rightarrow> string" where
  "renderSavePrompt pending =
     element ''h3'' [] (if is_update pending then ''Update password in Elektrine?'' else ''Save login to Elektrine?'') @
     element ''p'' [] (escapeHtml (to_str (js_get_opt pending ''website''))) @
     element ''label'' [(''for'', ''elektrine-save-title'')] ''Title'' @
     open_tag ''input'' [(''id'', ''elektrine-save-title''), (''value'', escapeAttribute (to_str (js_get_opt pending ''title'')))] @
     element ''label'' [(''for'', ''elektrine-save-username'')] ''Username'' @
     open_tag ''input'' [(''id'', ''elektrine-save-username''),
       (''value'', escapeAttribute (to_str (js_or (js_get_opt pending ''username'') (JStr []))))] @
     banner_actions
       (link_button ''primary'' ''save-pending'' (if is_update pending then ''Update'' else ''Save'') @
        link_button ''secondary'' ''dismiss-save'' ''Dismiss'')"

definition renderLockedPendingBanner :: "string \<Rightarrow> string" where
  "renderLockedPendingBanner failure =
     element ''h3'' [] ''Unlock Elektrine to save this login'' @
     element ''p'' []
       ''Your account is connected. Enter your account password to unlock encrypted data in this browser.'' @
     element ''label'' [(''for'', ''elektrine-unlock-password'')] ''Account password'' @
     open_tag ''input'' [(''id'', ''elektrine-unlock-password''), (''type'', ''password''), (''autocomplete'', ''current-password'')] @
     (if failure \<noteq> [] then element ''p'' [(''class'', ''nerve-banner-status'')] (escapeHtml failure) else []) @
     banner_actions (link_button ''primary'' ''unlock-pending'' ''Unlock'' @ link_button ''secondary'' ''dismiss-save'' ''Dismiss'')"

definition banner_html :: "banner \<Rightarrow> string" where
  "banner_html v =
     (case v of
        EmptyBanner \<Rightarrow> []
      | SaveBanner pending \<Rightarrow> renderSavePrompt pending
      | LockedBanner failure \<Rightarrow> renderLockedPendingBanner failure
      | ConnectBanner \<Rightarrow>
          element ''h3'' [] ''Connect Elektrine to save this login'' @
          element ''p'' [] ''Sign in from extension settings first, then come back and retry.'' @
          banner_actions (link_button ''primary'' ''open-options'' ''Open settings'' @
            link_button ''secondary'' ''dismiss-save'' ''Dismiss'')
      | SetupBanner \<Rightarrow>
          element ''h3'' [] ''Set up account-password encryption first'' @
          element ''p'' [] ''Set up encrypted data in Elektrine before saving logins from pages.'' @
          banner_actions (link_button ''secondary'' ''dismiss-save'' ''Dismiss'')
      | StatusBanner message \<Rightarrow>
          element ''h3'' [] ''Elektrine'' @ element ''p'' [(''class'', ''nerve-banner-status'')] (escapeHtml message))"

text \<open>Which banner a pending login gets in a session of the status given.\<close>

definition renderPendingBanner :: "jsv \<Rightarrow> jsv \<Rightarrow> banner" where
  "renderPendingBanner nerveStatus pending =
     (if nerveStatus = JStr ''ready'' then SaveBanner pending
      else if nerveStatus = JStr ''locked'' then LockedBanner []
      else if nerveStatus = JStr ''disconnected'' then ConnectBanner
      else SetupBanner)"

section \<open>Messages\<close>

definition successMessageForFill :: "bool \<Rightarrow> bool \<Rightarrow> string" where
  "successMessageForFill filledUsername staged =
     (if staged then
        (if filledUsername then ''Username filled. Elektrine will fill the password on the next step.''
         else ''Elektrine will fill the password on the next step.'')
      else if filledUsername then ''Filled from Elektrine.'' else ''Password filled from Elektrine.'')"

definition stagedFillBlockedMessage :: "string \<Rightarrow> string" where
  "stagedFillBlockedMessage status =
     (if status = ''locked'' then ''Unlock Elektrine in the extension manager to finish filling this sign-in.''
      else if status = ''disconnected'' then ''Sign in to Elektrine in extension settings to finish filling this sign-in.''
      else if status = ''unconfigured'' then ''Set up account-password encryption in Elektrine before using staged autofill.''
      else ''Elektrine could not finish this staged autofill.'')"

end
