(* ===== verification/ContentScript.thy ===== *)
theory ContentScript
  imports Page ContentFields ContentGeometry ContentView
begin

text \<open>
  The content script \<^verbatim>\<open>clients/nerve-extension/content.js\<close> as a state machine on one page: its
  button, popover and banner, the messages it exchanges with the worker, its timers, and the
  handlers of the page's events.  \<^verbatim>\<open>escapeHtml\<close>, \<^verbatim>\<open>safeHost\<close>, \<^verbatim>\<open>hostsRelated\<close> and the theme
  functions of the file are those of the other files again.
\<close>

section \<open>State\<close>

datatype timer = StagedTimer | PendingCheck | HideBannerTimer | FocusOutTimer

record page_location =
  loc_href :: string
  loc_protocol :: string
  loc_hostname :: string
  loc_origin :: string

record last_filled =
  lf_host :: string
  lf_username :: string
  lf_password :: jsv
  lf_filledAt :: int

text \<open>What the page's own active element and selection answer to \<^verbatim>\<open>selectedText\<close>.\<close>

record text_selection =
  sel_textarea :: bool
  sel_input :: bool
  sel_type :: string
  sel_start :: "int option"
  sel_end :: "int option"
  sel_value :: string

record content = page +
  ct_tab :: jsv
  ct_doc :: page_doc
  ct_location :: page_location
  ct_title :: string
  ct_focused :: "nat option"
  ct_hostFocused :: bool
  ct_selection :: "text_selection option"
  ct_windowSelection :: string
  ct_styles :: "nat \<Rightarrow> field_style"
  ct_points :: "rat \<Rightarrow> rat \<Rightarrow> point_element list"
  ct_viewport :: rect
  ct_popoverHeight :: rat
  ct_activeField :: "nat option"
  ct_activeContext :: "login_context option"
  ct_suggestionsContext :: "login_context option"
  ct_pendingBanner :: jsv
  ct_lastFilled :: "last_filled option"
  ct_timers :: "(int \<times> timer) list"
  ct_bound :: "nat list"
  ct_button :: "(position \<times> inline_style) option"
  ct_popover :: popover
  ct_popoverShown :: bool
  ct_popoverPlace :: "popover_place option"
  ct_banner :: banner
  ct_bannerShown :: bool

type_synonym 'a cts = "(content, 'a) io"

definition modify :: "(content \<Rightarrow> content) \<Rightarrow> unit cts" where
  "modify f = update f"

section \<open>Messages to the worker\<close>

definition content_sender :: "content \<Rightarrow> jsv" where
  "content_sender s =
     JObj [(''tab'', JObj [(''id'', ct_tab s)]), (''url'', JStr (loc_href (ct_location s)))]"

definition send_message :: "platform \<Rightarrow> string \<Rightarrow> (string \<times> jsv) list \<Rightarrow> jsv cts" where
  "send_message p type rest =
     bind (reads content_sender) (\<lambda>sender.
     bind (on_worker (post_message p (JObj ((''type'', JStr type) # rest)) sender)) (\<lambda>response.
     ret (js_or response (JObj [(''ok'', JBool False), (''error'', JStr ''No response from extension.'')]))))"

definition response_ok :: "jsv \<Rightarrow> bool" where
  "response_ok r \<longleftrightarrow> truthy (js_get_opt r ''ok'')"

text \<open>\<^verbatim>\<open>new Error(undefined)\<close> has an empty message.\<close>

definition error_text :: "jsv \<Rightarrow> string" where
  "error_text v = (if v = JUndef then [] else to_str v)"

definition hostLabel :: "content \<Rightarrow> string" where
  "hostLabel s = strip_www (loc_hostname (ct_location s))"

section \<open>Timers\<close>

definition set_timer :: "int \<Rightarrow> timer \<Rightarrow> unit cts" where
  "set_timer ms kind = modify (\<lambda>s. s\<lparr>ct_timers := ct_timers s @ [(clock (worker s) + ms, kind)]\<rparr>)"

definition scheduleStagedFillCheck :: "int \<Rightarrow> unit cts" where
  "scheduleStagedFillCheck delayMs =
     seqc (modify (\<lambda>s. s\<lparr>ct_timers := filter (\<lambda>t. snd t \<noteq> StagedTimer) (ct_timers s)\<rparr>))
       (set_timer delayMs StagedTimer)"

definition schedulePendingSaveCheck :: "unit cts" where
  "schedulePendingSaveCheck = seqc (set_timer 1200 PendingCheck) (set_timer 3200 PendingCheck)"

section \<open>Theme\<close>

definition inline_theme :: "jsv \<Rightarrow> (string \<times> string) list" where
  "inline_theme th =
     (let overrides = (case normalizeTheme th of None \<Rightarrow> [] | Some vs \<Rightarrow> vs);
          values = map_of DEFAULT_THEME_VALUES ++ map_of overrides
      in map (\<lambda>(themeKey, cssVar). (cssVar, the (values themeKey))) CSS_VAR_BY_THEME_KEY
         @ [(''--muted'', the (values ''color_base_content'') @ ''b3''),
            (''--muted-strong'', the (values ''color_base_content'') @ ''db'')])"

definition applyInlineTheme :: "jsv \<Rightarrow> unit cts" where
  "applyInlineTheme th = modify (\<lambda>s. s\<lparr>css_vars := inline_theme th\<rparr>)"

definition refreshInlineTheme :: "platform \<Rightarrow> unit cts" where
  "refreshInlineTheme p =
     catch
       (bind (send_message p ''nerve:get-theme'' []) (\<lambda>response.
        if response_ok response then applyInlineTheme (js_or (js_get_opt response ''theme'') JNull) else ret ()))
       (\<lambda>_. applyInlineTheme JNull)"

section \<open>The button and the popover\<close>

text \<open>An element that has left the document has an empty rectangle at the origin.\<close>

definition detached_rect :: rect where
  "detached_rect = \<lparr>r_top = 0, r_right = 0, r_bottom = 0, r_left = 0, r_width = 0, r_height = 0\<rparr>"

definition field_rect :: "page_doc \<Rightarrow> nat \<Rightarrow> rect" where
  "field_rect doc i = (case field_at doc i of None \<Rightarrow> detached_rect | Some f \<Rightarrow> bounding_rect f)"

definition positionPopover :: "unit cts" where
  "positionPopover =
     modify (\<lambda>s.
       case ct_activeField s of
         None \<Rightarrow> s
       | Some i \<Rightarrow>
           s\<lparr>ct_popoverPlace := Some (placePopover (field_rect (ct_doc s) i) (ct_popoverHeight s) (ct_viewport s))\<rparr>)"

definition set_popover :: "popover \<Rightarrow> unit cts" where
  "set_popover v = seqc (modify (\<lambda>s. s\<lparr>ct_popover := v\<rparr>)) positionPopover"

definition hidePopover :: "unit cts" where
  "hidePopover = modify (\<lambda>s. s\<lparr>ct_popoverShown := False, ct_popover := EmptyPopover\<rparr>)"

definition hideInlineButton :: "unit cts" where
  "hideInlineButton = seqc (modify (\<lambda>s. s\<lparr>ct_button := None\<rparr>)) hidePopover"

definition showInlineButton :: "login_field \<Rightarrow> unit cts" where
  "showInlineButton field =
     bind (reads (\<lambda>s. placeInlineButton (ct_points s) (bounding_rect field) (ct_viewport s))) (\<lambda>placed.
     case placed of
       None \<Rightarrow> hideInlineButton
     | Some (sz, position) \<Rightarrow>
         modify (\<lambda>s. s\<lparr>ct_button := Some (position, applyInlineFieldStyle (ct_styles s (element_id field)) sz)\<rparr>))"

definition updateInlineUiPosition :: "unit cts" where
  "updateInlineUiPosition =
     bind (reads (\<lambda>s. Option.bind (ct_activeField s) (field_at (ct_doc s)))) (\<lambda>active.
     case active of
       None \<Rightarrow> hideInlineButton
     | Some field \<Rightarrow>
         seqc (showInlineButton field)
         (bind (reads ct_popoverShown) (\<lambda>shown. if shown then positionPopover else ret ())))"

definition trimmed_value :: "page_doc \<Rightarrow> nat option \<Rightarrow> string" where
  "trimmed_value doc r = (case Option.bind r (field_at doc) of None \<Rightarrow> [] | Some f \<Rightarrow> trim (field_value f))"

definition suggestion_query :: "content \<Rightarrow> string" where
  "suggestion_query s =
     (let u = trimmed_value (ct_doc s) (Option.bind (ct_suggestionsContext s) cx_usernameField);
          f = trimmed_value (ct_doc s) (map_option cx_field (ct_suggestionsContext s)) in
      if u \<noteq> [] then u else f)"

text \<open>\<^verbatim>\<open>response.entries.length\<close> throws where there is no list.\<close>

definition show_suggestions :: "jsv \<Rightarrow> unit cts" where
  "show_suggestions response =
     (if \<not> response_ok response then set_popover (InlineState ''error'' (error_text (js_get_opt response ''error'')))
      else if js_get_opt response ''status'' \<noteq> JStr ''ready'' then
        set_popover (InlineState (to_str (js_get_opt response ''status'')) [])
      else
        (case js_get_opt response ''entries'' of
           JArr entries \<Rightarrow>
             set_popover (if entries = [] then NoMatchPopover else SuggestionsPopover entries)
         | _ \<Rightarrow> raise TypeError))"

definition renderSuggestions :: "platform \<Rightarrow> unit cts" where
  "renderSuggestions p =
     bind (reads suggestion_query) (\<lambda>query.
     seqc (set_popover CheckingPopover)
     (seqc (modify (\<lambda>s. s\<lparr>ct_popoverShown := True\<rparr>))
       (catch
          (bind (reads (\<lambda>s. loc_href (ct_location s))) (\<lambda>href.
           bind (send_message p ''nerve:get-suggestions'' [(''pageUrl'', JStr href), (''query'', JStr query)])
             show_suggestions))
          (\<lambda>e. set_popover (InlineState ''error'' (error_message p e))))))"

definition handleInlineButtonClick :: "platform \<Rightarrow> unit cts" where
  "handleInlineButtonClick p =
     bind (reads (\<lambda>s. (ct_suggestionsContext s, ct_popoverShown s))) (\<lambda>(context, shown).
     if context = None then ret ()
     else if shown then hidePopover
     else renderSuggestions p)"

section \<open>Focus\<close>

text \<open>The target is \<open>None\<close> where it is not an input element.\<close>

definition handleFocusIn :: "login_field option \<Rightarrow> unit cts" where
  "handleFocusIn target =
     (case target of
        None \<Rightarrow> ret ()
      | Some field \<Rightarrow>
          bind (reads (\<lambda>s. loginContextForField (ct_doc s) (ct_activeField s) field)) (\<lambda>context.
          case context of
            None \<Rightarrow> hideInlineButton
          | Some c \<Rightarrow>
              seqc (modify (\<lambda>s. s\<lparr>ct_activeField := Some (element_id field), ct_activeContext := Some c,
                                 ct_suggestionsContext := Some c\<rparr>))
              (seqc (showInlineButton field)
                (if is_password field then scheduleStagedFillCheck 0 else ret ()))))"

definition handleFocusOut :: "nat option \<Rightarrow> unit cts" where
  "handleFocusOut target =
     bind (reads ct_activeField) (\<lambda>active.
     if target = None \<or> target \<noteq> active then ret () else set_timer 0 FocusOutTimer)"

definition focusOutTimeout :: "unit cts" where
  "focusOutTimeout =
     bind (reads (\<lambda>s. (ct_hostFocused s, Option.bind (ct_focused s) (field_at (ct_doc s))))) (\<lambda>(onHost, active).
     if onHost then ret ()
     else
       bind (reads (\<lambda>s. Option.bind active (loginContextForField (ct_doc s) (ct_activeField s)))) (\<lambda>context.
       if context = None then
         seqc (modify (\<lambda>s. s\<lparr>ct_activeField := None, ct_activeContext := None, ct_suggestionsContext := None\<rparr>))
           hideInlineButton
       else ret ()))"

text \<open>\<^verbatim>\<open>field.focus()\<close> fires the two focus events when the focus moves.\<close>

definition move_focus :: "nat option \<Rightarrow> unit cts" where
  "move_focus target =
     bind (reads ct_focused) (\<lambda>old.
     if old = target then ret ()
     else
       seqc (modify (\<lambda>s. s\<lparr>ct_focused := target, ct_hostFocused := False\<rparr>))
       (seqc (handleFocusOut old)
       (bind (reads (\<lambda>s. Option.bind target (field_at (ct_doc s)))) handleFocusIn)))"

text \<open>The focus goes to an input of the script's own host.\<close>

definition focus_host :: "unit cts" where
  "focus_host = seqc (move_focus None) (modify (\<lambda>s. s\<lparr>ct_hostFocused := True\<rparr>))"

section \<open>The banner\<close>

text \<open>Rendering a banner gives its inputs their initial values.\<close>

definition banner_values :: "banner \<Rightarrow> (string \<times> string) list" where
  "banner_values v =
     (case v of
        SaveBanner pending \<Rightarrow>
          [(''elektrine-save-title'', to_str (js_get_opt pending ''title'')),
           (''elektrine-save-username'', to_str (js_or (js_get_opt pending ''username'') (JStr [])))]
      | LockedBanner _ \<Rightarrow> [(''elektrine-unlock-password'', [])]
      | _ \<Rightarrow> [])"

definition set_banner :: "banner \<Rightarrow> unit cts" where
  "set_banner v =
     modify (\<lambda>s. s\<lparr>ct_banner := v, ct_bannerShown := True,
       el_value := (\<lambda>i. case map_of (banner_values v) i of None \<Rightarrow> el_value s i | Some t \<Rightarrow> t)\<rparr>)"

text \<open>The banner that asks for the password also takes the focus.\<close>

definition show_banner :: "banner \<Rightarrow> unit cts" where
  "show_banner v =
     seqc (set_banner v) (case v of LockedBanner _ \<Rightarrow> focus_host | _ \<Rightarrow> ret ())"

definition showBannerStatus :: "string \<Rightarrow> unit cts" where
  "showBannerStatus message = set_banner (StatusBanner message)"

definition hideBanner :: "unit cts" where
  "hideBanner = modify (\<lambda>s. s\<lparr>ct_pendingBanner := JNull, ct_bannerShown := False, ct_banner := EmptyBanner\<rparr>)"

text \<open>\<^verbatim>\<open>querySelector(id)?.value\<close>: the value of an input of the banner, if the banner has it.\<close>

definition banner_value :: "content \<Rightarrow> string \<Rightarrow> string" where
  "banner_value s i = (case map_of (banner_values (ct_banner s)) i of None \<Rightarrow> [] | Some _ \<Rightarrow> el_value s i)"

definition password_field_now :: "content \<Rightarrow> nat option" where
  "password_field_now s = findPasswordField (ct_doc s) (ct_activeField s) None"

definition maybeShowPendingSavePrompt :: "platform \<Rightarrow> unit cts" where
  "maybeShowPendingSavePrompt p =
     bind (reads (\<lambda>s. JObj [(''url'', JStr (loc_href (ct_location s))),
                            (''hasVisiblePasswordField'', JBool (password_field_now s \<noteq> None))])) (\<lambda>page.
     bind (send_message p ''nerve:resolve-pending-save'' [(''page'', page)]) (\<lambda>response.
     if \<not> response_ok response \<or> js_get_opt response ''status'' \<noteq> JStr ''prompt'' then hideBanner
     else
       let pending = js_get_opt response ''pending'' in
       seqc (modify (\<lambda>s. s\<lparr>ct_pendingBanner := pending\<rparr>))
         (show_banner (renderPendingBanner (js_get_opt response ''nerveStatus'') pending))))"

definition save_payload :: "content \<Rightarrow> jsv" where
  "save_payload s =
     (let title = trim (banner_value s ''elektrine-save-title'');
          username = trim (banner_value s ''elektrine-save-username'');
          pending = ct_pendingBanner s in
      JObj [(''entryId'', js_get_opt pending ''entryId''),
            (''title'', js_or (JStr title) (js_or (js_get_opt pending ''title'') (JStr []))),
            (''username'', js_or (JStr username) (js_or (js_get_opt pending ''username'') (JStr []))),
            (''website'', js_or (js_get_opt pending ''website'') (JStr []))])"

definition handleSavePendingAction :: "platform \<Rightarrow> unit cts" where
  "handleSavePendingAction p =
     bind (reads save_payload) (\<lambda>payload.
     bind (send_message p ''nerve:save-pending'' [(''payload'', payload)]) (\<lambda>response.
     if \<not> response_ok response then
       showBannerStatus (to_str (js_or (js_get_opt response ''error'') (JStr ''Could not save login.'')))
     else
       seqc (showBannerStatus (if js_get_opt response ''mode'' = JStr ''update''
               then ''Password updated in Elektrine.'' else ''Login saved to Elektrine.''))
         (set_timer 1200 HideBannerTimer)))"

definition handleUnlockPendingAction :: "platform \<Rightarrow> unit cts" where
  "handleUnlockPendingAction p =
     bind (reads (\<lambda>s. banner_value s ''elektrine-unlock-password'')) (\<lambda>passphrase.
     if passphrase = [] then show_banner (LockedBanner ''Enter your account password.'')
     else
       seqc (update (setBusy ''unlock-pending'' True))
       (bind (send_message p ''nerve:unlock-session'' [(''passphrase'', JStr passphrase)]) (\<lambda>response.
        if \<not> response_ok response then
          show_banner (LockedBanner (to_str (js_or (js_get_opt response ''error'') (JStr ''Could not unlock Elektrine.''))))
        else handleSavePendingAction p)))"

definition dismissPendingSavePrompt :: "platform \<Rightarrow> unit cts" where
  "dismissPendingSavePrompt p = seqc (send_message p ''nerve:dismiss-pending-save'' []) hideBanner"

definition refreshLoginBindings :: "unit cts" where
  "refreshLoginBindings =
     modify (\<lambda>s. s\<lparr>ct_bound := ct_bound s @
       filter (\<lambda>i. i \<notin> set (ct_bound s) \<and> findPasswordIn (ct_doc s) (ct_activeField s) (Form i) \<noteq> None)
         (forms (ct_doc s))\<rparr>)"

section \<open>Filling\<close>

definition fillCredentials :: "jsv \<Rightarrow> login_context option \<Rightarrow> fill_result cts" where
  "fillCredentials payload preferredContext =
     bind (lift (js_get payload ''password'')) (\<lambda>password.
     bind (reads (\<lambda>s. fill_fields (ct_doc s) (ct_activeField s)
            (js_or (js_get_opt payload ''username'') (JStr [])) (js_or password (JStr [])) preferredContext)) (\<lambda>outcome.
     bind (lift outcome) (\<lambda>(result, doc).
     seqc (modify (\<lambda>s. s\<lparr>ct_doc := doc\<rparr>))
     (seqc (move_focus (Some (focus_on result)))
       (ret result)))))"

definition rememberFilledCredentials :: "jsv \<Rightarrow> unit cts" where
  "rememberFilledCredentials payload =
     bind (lift (js_get payload ''username'')) (\<lambda>u.
     bind (lift (map_sum id lower (trim_or_empty u))) (\<lambda>username.
     modify (\<lambda>s. s\<lparr>ct_lastFilled := Some
       \<lparr>lf_host = loc_hostname (ct_location s), lf_username = username,
        lf_password = js_or (js_get_opt payload ''password'') (JStr []), lf_filledAt = clock (worker s)\<rparr>\<rparr>)))"

definition stage_payload :: "content \<Rightarrow> jsv \<Rightarrow> (string \<times> jsv) list" where
  "stage_payload s entryId =
     [(''payload'', JObj [(''entryId'', entryId), (''pageUrl'', JStr (loc_href (ct_location s))),
                          (''website'', JStr (loc_origin (ct_location s)))])]"

definition stage_or_clear :: "platform \<Rightarrow> bool \<Rightarrow> jsv \<Rightarrow> jsv cts" where
  "stage_or_clear p stage entryId =
     bind (reads (\<lambda>s. stage_payload s entryId)) (\<lambda>payload.
     if stage then send_message p ''nerve:stage-entry-fill'' payload
     else send_message p ''nerve:clear-staged-fill'' [])"

definition fill_entry_body :: "platform \<Rightarrow> jsv \<Rightarrow> unit cts" where
  "fill_entry_body p entryId =
     bind (reads (\<lambda>s. loc_href (ct_location s))) (\<lambda>href.
     bind (send_message p ''nerve:fill-entry'' [(''entryId'', entryId), (''pageUrl'', JStr href)]) (\<lambda>response.
     if \<not> response_ok response then raise (Error (error_text (js_get_opt response ''error'')))
     else
       bind (reads (\<lambda>s. (ct_suggestionsContext s,
          shouldStageSelectedEntry (ct_doc s) (ct_activeField s) (ct_suggestionsContext s)))) (\<lambda>(context, shouldStage).
       bind (stage_or_clear p shouldStage entryId) (\<lambda>stagedResponse.
       if \<not> response_ok stagedResponse then raise (Error (error_text (js_get_opt stagedResponse ''error'')))
       else
         bind (fillCredentials (js_get_opt response ''credentials'') context) (\<lambda>result.
         seqc (if filled_password result then rememberFilledCredentials (js_get_opt response ''credentials'') else ret ())
         (seqc hidePopover
           (showBannerStatus (successMessageForFill (filled_username result) shouldStage))))))))"

definition handleFillEntryAction :: "platform \<Rightarrow> string \<Rightarrow> unit cts" where
  "handleFillEntryAction p dataId =
     (case parse_int_prefix dataId of
        None \<Rightarrow> ret ()
      | Some entryId \<Rightarrow>
          seqc (update (setBusy (''fill-entry:'' @ dataId) True))
          (finally_do
             (catch (fill_entry_body p (JNum entryId))
                (\<lambda>e. set_popover (InlineState ''error'' (error_message p e))))
             (setBusy (''fill-entry:'' @ dataId) False)))"

definition staged_context :: "content \<Rightarrow> login_field \<Rightarrow> login_context" where
  "staged_context s passwordField =
     (case loginContextForField (ct_doc s) (ct_activeField s) passwordField of
        Some c \<Rightarrow> c
      | None \<Rightarrow>
          \<lparr>cx_field = element_id passwordField, cx_form = form_or_document passwordField,
           cx_passwordField = Some (element_id passwordField),
           cx_usernameField = findUsernameField (ct_doc s) passwordField\<rparr>)"

definition maybeCompleteStagedFill :: "platform \<Rightarrow> unit cts" where
  "maybeCompleteStagedFill p =
     bind (reads (\<lambda>s. Option.bind (password_field_now s) (field_at (ct_doc s)))) (\<lambda>found.
     case found of
       None \<Rightarrow> ret ()
     | Some passwordField \<Rightarrow>
         bind (reads (\<lambda>s. loc_href (ct_location s))) (\<lambda>href.
         bind (send_message p ''nerve:resolve-staged-fill''
                 [(''page'', JObj [(''url'', JStr href), (''hasVisiblePasswordField'', JBool True)])]) (\<lambda>response.
         if \<not> response_ok response then ret ()
         else if js_get_opt response ''status'' \<in> {JStr ''none'', JStr ''waiting''} then ret ()
         else if js_get_opt response ''status'' \<noteq> JStr ''ready'' then
           showBannerStatus (stagedFillBlockedMessage (to_str (js_get_opt response ''status'')))
         else
           bind (reads (\<lambda>s. staged_context s passwordField)) (\<lambda>context.
           bind (fillCredentials (js_get_opt response ''credentials'') (Some context)) (\<lambda>result.
           if filled_password result then
             seqc (rememberFilledCredentials (js_get_opt response ''credentials''))
               (showBannerStatus (successMessageForFill (filled_username result) False))
           else ret ())))))"

section \<open>Submissions\<close>

text \<open>\<open>shouldSuppressSavePrompt\<close>: the login just filled is not offered for saving again.\<close>

definition shouldSuppressSavePrompt :: "platform \<Rightarrow> last_filled option \<Rightarrow> int \<Rightarrow> string \<Rightarrow> string \<Rightarrow> string \<Rightarrow> bool" where
  "shouldSuppressSavePrompt p lastFilled now submitUrl username password =
     (case lastFilled of
        None \<Rightarrow> False
      | Some lf \<Rightarrow>
          if \<not> truthy (lf_password lf) then False
          else if now - lf_filledAt lf > 2 * 60 * 1000 then False
          else if JStr password \<noteq> lf_password lf then False
          else
            (let submissionHost = safeHost p (JStr submitUrl) in
             if submissionHost \<noteq> [] \<and> lf_host lf \<noteq> [] \<and> \<not> hostsRelated submissionHost (lf_host lf) then False
             else
               (let submittedUsername = lower (trim username) in
                if lf_username lf \<noteq> [] \<and> submittedUsername \<noteq> [] \<and> lf_username lf \<noteq> submittedUsername then False
                else True)))"

definition captureSubmission :: "platform \<Rightarrow> content \<Rightarrow> nat \<Rightarrow> jsv option" where
  "captureSubmission p s form =
     (let passwordFields = visibleFields (ct_doc s) (Form form) is_password in
      if passwordFields = [] \<or> looksLikePasswordChange passwordFields then None
      else
        (case rankPasswordCandidates passwordFields of
           [] \<Rightarrow> None
         | passwordField # _ \<Rightarrow>
             if field_value passwordField = [] then None
             else
               (let href = loc_href (ct_location s);
                    username = trimmed_value (ct_doc s) (findUsernameField (ct_doc s) passwordField);
                    password = field_value passwordField in
                Some (JObj ([(''submitUrl'', JStr href),
                             (''website'', JStr (loc_origin (ct_location s))),
                             (''username'', JStr username),
                             (''password'', JStr password),
                             (''pageTitle'', JStr (if ct_title s \<noteq> [] then ct_title s else hostLabel s))] @
                  (if shouldSuppressSavePrompt p (ct_lastFilled s) (clock (worker s)) href username password
                   then [(''skipSave'', JBool True)] else []))))))"

definition handleFormSubmit :: "platform \<Rightarrow> nat option \<Rightarrow> unit cts" where
  "handleFormSubmit p target =
     (case target of
        None \<Rightarrow> ret ()
      | Some form \<Rightarrow>
          bind (reads (\<lambda>s. captureSubmission p s form)) (\<lambda>submission.
          case submission of
            None \<Rightarrow> ret ()
          | Some payload \<Rightarrow>
              bind (send_message p ''nerve:record-submission'' [(''payload'', payload)]) (\<lambda>response.
              if response_ok response \<and> truthy (js_get_opt response ''recorded'') then schedulePendingSaveCheck
              else ret ())))"

end
