(* ===== verification/ContentEvents.thy ===== *)
theory ContentEvents
  imports ContentScript
begin

text \<open>
  The content script's listeners: messages from the extension, clicks in its shadow root, the
  page's events and its timers, and the steps they make.
\<close>

section \<open>Capturing the page\<close>

definition textInputType :: "string \<Rightarrow> bool" where
  "textInputType type \<longleftrightarrow>
     lower type \<in> {[], ''email'', ''search'', ''tel'', ''text'', ''url''}"

definition selectionCapableField :: "text_selection \<Rightarrow> bool" where
  "selectionCapableField e \<longleftrightarrow> sel_textarea e \<or> (sel_input e \<and> textInputType (sel_type e))"

definition selectedText :: "content \<Rightarrow> string" where
  "selectedText s =
     (let whole = trim (ct_windowSelection s) in
      case ct_selection s of
        None \<Rightarrow> whole
      | Some e \<Rightarrow>
          if \<not> selectionCapableField e then whole
          else
            (let a = (case sel_start e of None \<Rightarrow> 0 | Some n \<Rightarrow> n);
                 b = (case sel_end e of None \<Rightarrow> 0 | Some n \<Rightarrow> n) in
             if b > a then trim (drop (nat a) (take (nat b) (sel_value e))) else whole))"

definition pageCapturePayload :: "content \<Rightarrow> jsv" where
  "pageCapturePayload s =
     JObj [(''url'', JStr (loc_href (ct_location s))),
           (''title'', js_or (JStr (ct_title s))
              (js_or (JStr (loc_hostname (ct_location s))) (JStr ''Captured page''))),
           (''selectionText'', JStr (selectedText s))]"

section \<open>Messages from the extension\<close>

definition handleSessionChanged :: "platform \<Rightarrow> jsv \<Rightarrow> unit cts" where
  "handleSessionChanged p status =
     seqc (refreshInlineTheme p)
       (if status = JStr ''locked'' then
          seqc (bind (reads ct_popoverShown) (\<lambda>shown.
                  if shown then set_popover (InlineState ''locked'' []) else ret ()))
            (bind (reads (\<lambda>s. truthy (ct_pendingBanner s))) (\<lambda>pending.
               if pending then maybeShowPendingSavePrompt p else ret ()))
        else
          seqc (scheduleStagedFillCheck 0)
          (seqc (maybeShowPendingSavePrompt p)
          (bind (reads (\<lambda>s. ct_popoverShown s \<and> ct_suggestionsContext s \<noteq> None)) (\<lambda>again.
             if again then renderSuggestions p else ret ()))))"

definition direct_fill :: "platform \<Rightarrow> jsv \<Rightarrow> jsv cts" where
  "direct_fill p message =
     (let payload = js_or (js_get_opt message ''payload'') (JObj []);
          entryId = js_get_opt payload ''entryId'' in
      bind (reads ct_activeContext) (\<lambda>context.
      bind (fillCredentials payload context) (\<lambda>result.
      bind (stage_or_clear p (\<not> filled_password result \<and> truthy entryId) entryId) (\<lambda>stagedResponse.
      if \<not> response_ok stagedResponse then raise (Error (error_text (js_get_opt stagedResponse ''error'')))
      else
        seqc (if filled_password result then rememberFilledCredentials payload else ret ())
          (ret (JObj
            [(''ok'', JBool True),
             (''result'', JObj [(''filled'', JObj [(''username'', JBool (filled_username result)),
                                                   (''password'', JBool (filled_password result))])]),
             (''staged'', JBool (\<not> filled_password result \<and> truthy entryId))]))))))"

definition error_reply :: "platform \<Rightarrow> js_error \<Rightarrow> jsv cts" where
  "error_reply p e = ret (JObj [(''ok'', JBool False), (''error'', JStr (error_message p e))])"

text \<open>The answer the listener sends, if the message is one of its own.\<close>

definition content_onMessage :: "platform \<Rightarrow> jsv \<Rightarrow> jsv option cts" where
  "content_onMessage p message =
     (let type = js_get_opt message ''type'' in
      if type = JStr ''nerve:session-changed'' then
        bind (catch (seqc (handleSessionChanged p (js_get_opt message ''status'')) (ret (JObj [(''ok'', JBool True)])))
                (error_reply p)) (\<lambda>r. ret (Some r))
      else if type = JStr ''kairo:get-page-capture'' then
        reads (\<lambda>s. Some (JObj [(''ok'', JBool True), (''capture'', pageCapturePayload s)]))
      else if type \<noteq> JStr ''fill_credentials'' then ret None
      else bind (catch (direct_fill p message) (error_reply p)) (\<lambda>r. ret (Some r)))"

section \<open>Clicks and keys\<close>

datatype click_target = InHost | OnInput nat | Elsewhere

definition handleDocumentClick :: "click_target \<Rightarrow> unit cts" where
  "handleDocumentClick target =
     bind (reads ct_activeField) (\<lambda>active.
     case target of
       InHost \<Rightarrow> ret ()
     | OnInput i \<Rightarrow> if active = Some i then ret () else hidePopover
     | Elsewhere \<Rightarrow> hidePopover)"

text \<open>The \<^verbatim>\<open>data-action\<close> and \<^verbatim>\<open>data-entry-id\<close> of the element clicked, if there is one.\<close>

definition handleShadowClick :: "platform \<Rightarrow> (string \<times> string) option \<Rightarrow> unit cts" where
  "handleShadowClick p target =
     (case target of
        None \<Rightarrow> ret ()
      | Some (action, dataId) \<Rightarrow>
          if action = ''fill-entry'' then handleFillEntryAction p dataId
          else if action = ''open-options'' then seqc (send_message p ''ui:open-options'' []) (ret ())
          else if action = ''open-manager'' then seqc (send_message p ''ui:open-manager'' []) (ret ())
          else if action = ''dismiss-save'' then dismissPendingSavePrompt p
          else if action = ''unlock-pending'' then handleUnlockPendingAction p
          else if action = ''save-pending'' then handleSavePendingAction p
          else ret ())"

definition has_unlock_button :: "content \<Rightarrow> bool" where
  "has_unlock_button s = (case ct_banner s of LockedBanner _ \<Rightarrow> True | _ \<Rightarrow> False)"

definition handleShadowKeydown :: "platform \<Rightarrow> string \<Rightarrow> string \<Rightarrow> unit cts" where
  "handleShadowKeydown p key targetId =
     (if key \<noteq> ''Enter'' \<or> targetId \<noteq> ''elektrine-unlock-password'' then ret ()
      else bind (reads has_unlock_button) (\<lambda>b. if b then handleUnlockPendingAction p else ret ()))"

section \<open>Start\<close>

definition isSupportedPage :: "page_location \<Rightarrow> bool" where
  "isSupportedPage l \<longleftrightarrow>
     loc_protocol l = ''https:'' \<or>
     (loc_protocol l = ''http:'' \<and> loc_hostname l \<in> {''localhost'', ''127.0.0.1'', ''::1''})"

definition content_initialize :: "platform \<Rightarrow> unit cts" where
  "content_initialize p =
     bind (reads (\<lambda>s. isSupportedPage (ct_location s))) (\<lambda>supported.
     if \<not> supported then ret ()
     else
       seqc (applyInlineTheme JNull)
       (seqc (refreshInlineTheme p)
       (seqc refreshLoginBindings
       (seqc (scheduleStagedFillCheck 0)
         (maybeShowPendingSavePrompt p)))))"

section \<open>Events\<close>

definition locationChange :: "unit cts" where
  "locationChange = seqc (scheduleStagedFillCheck 150) schedulePendingSaveCheck"

definition pageShow :: "platform \<Rightarrow> unit cts" where
  "pageShow p =
     seqc refreshLoginBindings
     (seqc (scheduleStagedFillCheck 150)
       (maybeShowPendingSavePrompt p))"

definition pageMutated :: "unit cts" where
  "pageMutated =
     seqc refreshLoginBindings
     (seqc updateInlineUiPosition
       (scheduleStagedFillCheck 180))"

definition run_timer :: "platform \<Rightarrow> timer \<Rightarrow> unit cts" where
  "run_timer p t =
     (case t of
        StagedTimer \<Rightarrow> catch (maybeCompleteStagedFill p) (\<lambda>_. ret ())
      | PendingCheck \<Rightarrow> maybeShowPendingSavePrompt p
      | HideBannerTimer \<Rightarrow> hideBanner
      | FocusOutTimer \<Rightarrow> focusOutTimeout)"

text \<open>
  What can happen on the page.  \<open>PageChanged\<close>, \<open>LocationChanged\<close>, \<open>Typed\<close> and \<open>TypedShadow\<close> are
  what the page and the user do; the script's own listener then runs, if it has one.
\<close>

datatype content_event =
    ExtensionMessage jsv
  | FocusMoved "nat option"
  | HostFocused
  | DocumentClick click_target
  | ButtonClick
  | ShadowClick "(string \<times> string) option"
  | ShadowKey string string
  | FormSubmit "nat option"
  | Scrolled
  | PageShown
  | PageChanged page_doc
  | LocationChanged page_location
  | Typed nat string
  | TypedShadow string string

definition content_handler :: "platform \<Rightarrow> content_event \<Rightarrow> unit cts" where
  "content_handler p e =
     (case e of
        ExtensionMessage m \<Rightarrow> seqc (content_onMessage p m) (ret ())
      | FocusMoved t \<Rightarrow> move_focus t
      | HostFocused \<Rightarrow> focus_host
      | DocumentClick t \<Rightarrow> handleDocumentClick t
      | ButtonClick \<Rightarrow> handleInlineButtonClick p
      | ShadowClick t \<Rightarrow> handleShadowClick p t
      | ShadowKey k i \<Rightarrow> handleShadowKeydown p k i
      | FormSubmit t \<Rightarrow> handleFormSubmit p t
      | Scrolled \<Rightarrow> updateInlineUiPosition
      | PageShown \<Rightarrow> pageShow p
      | PageChanged doc \<Rightarrow> seqc (modify (\<lambda>s. s\<lparr>ct_doc := doc\<rparr>)) pageMutated
      | LocationChanged l \<Rightarrow> seqc (modify (\<lambda>s. s\<lparr>ct_location := l\<rparr>)) locationChange
      | Typed i v \<Rightarrow> modify (\<lambda>s. s\<lparr>ct_doc := set_input i v (ct_doc s)\<rparr>)
      | TypedShadow i v \<Rightarrow> modify (\<lambda>s. s\<lparr>el_value := (el_value s)(i := v)\<rparr>))"

inductive content_step :: "platform \<Rightarrow> content \<Rightarrow> content \<Rightarrow> bool" for p where
  content_event: "content_handler p e s = (r, t) \<Longrightarrow> content_step p s t"
| content_timer: "ct_timers s = before @ (due, k) # after \<Longrightarrow> due \<le> clock (worker s) \<Longrightarrow>
    run_timer p k (s\<lparr>ct_timers := before @ after\<rparr>) = (r, t) \<Longrightarrow> content_step p s t"
| content_tick: "0 \<le> d \<Longrightarrow> content_step p s (s\<lparr>worker := (worker s)\<lparr>clock := clock (worker s) + d\<rparr>\<rparr>)"

inductive content_run :: "platform \<Rightarrow> content \<Rightarrow> content \<Rightarrow> bool" for p where
  content_started: "content_initialize p s = (r, t) \<Longrightarrow> content_run p s t"
| content_more: "content_run p s t \<Longrightarrow> content_step p t u \<Longrightarrow> content_run p s u"

end
