(* ===== verification/ContentFill.thy ===== *)
theory ContentFill
  imports ContentFields
begin

text \<open>
  Which fields \<^verbatim>\<open>clients/nerve-extension/content.js\<close> picks and what it writes into them: the
  choice of the password field, described without sorting, and the frame of a fill.
\<close>

section \<open>The best candidate\<close>

text \<open>The head of a list sorted by a score is the first element with the highest score.\<close>

definition first_best :: "('a \<Rightarrow> int) \<Rightarrow> 'a list \<Rightarrow> 'a \<Rightarrow> bool" where
  "first_best score xs x \<longleftrightarrow>
     (\<exists>before after. xs = before @ x # after \<and> list_all (\<lambda>y. score y < score x) before \<and>
        list_all (\<lambda>y. score y \<le> score x) after)"

lemma first_best_Nil [simp]: "\<not> first_best score [] x"
  by (simp add: first_best_def)

lemma first_best_in: "first_best score xs x \<Longrightarrow> x \<in> set xs"
  by (auto simp: first_best_def)

lemma first_best_max: "first_best score xs x \<Longrightarrow> y \<in> set xs \<Longrightarrow> score y \<le> score x"
  by (fastforce simp: first_best_def list_all_iff)

lemma first_best_step:
  "first_best score (y # ys) x \<longleftrightarrow>
     x = y \<and> list_all (\<lambda>z. score z \<le> score y) ys \<or> score y < score x \<and> first_best score ys x"
proof
  assume "first_best score (y # ys) x"
  then obtain before after where "y # ys = before @ x # after" "list_all (\<lambda>z. score z < score x) before"
    "list_all (\<lambda>z. score z \<le> score x) after"
    unfolding first_best_def by blast
  then show "x = y \<and> list_all (\<lambda>z. score z \<le> score y) ys \<or> score y < score x \<and> first_best score ys x"
    unfolding first_best_def by (cases before) auto
next
  assume "x = y \<and> list_all (\<lambda>z. score z \<le> score y) ys \<or> score y < score x \<and> first_best score ys x"
  then show "first_best score (y # ys) x"
  proof
    assume "x = y \<and> list_all (\<lambda>z. score z \<le> score y) ys"
    then show ?thesis unfolding first_best_def by (intro exI [of _ "[]"] exI [of _ ys]) simp
  next
    assume "score y < score x \<and> first_best score ys x"
    then obtain before after where "ys = before @ x # after" "list_all (\<lambda>z. score z < score x) (y # before)"
      "list_all (\<lambda>z. score z \<le> score x) after"
      unfolding first_best_def by auto
    then show ?thesis unfolding first_best_def by (intro exI [of _ "y # before"] exI [of _ after]) simp
  qed
qed

lemma first_best_Cons:
  "first_best score (y # ys) x \<longleftrightarrow>
     (if list_all (\<lambda>z. score z \<le> score y) ys then x = y else first_best score ys x \<and> score y < score x)"
  using first_best_in [of score ys x] by (auto simp: first_best_step list_all_iff not_le [symmetric])

lemma head_of_sort: "js_sort (by_score_desc score) xs = x # rest \<Longrightarrow> first_best score xs x"
proof (induction xs arbitrary: x rest)
  case (Cons y ys)
  have top: "z \<in> set ys \<Longrightarrow> score z \<le> score (hd (js_sort (by_score_desc score) ys))" for z
    using score_desc.hd_sort_least [of z ys score] by (simp add: by_score_desc_def)
  show ?case
  proof (cases "js_sort (by_score_desc score) ys")
    case Nil
    with Cons.prems show ?thesis by (simp add: first_best_Cons)
  next
    case (Cons z zs)
    note IH = Cons.IH [OF Cons]
    show ?thesis
    proof (cases "score z \<le> score y")
      case True
      with Cons.prems have "x = y" unfolding js_sort_simps Cons by (simp add: by_score_desc_def)
      moreover have "list_all (\<lambda>z. score z \<le> score y) ys"
        using top True Cons by (fastforce simp: list_all_iff)
      ultimately show ?thesis by (simp add: first_best_Cons)
    next
      case False
      with Cons.prems have "x = z" unfolding js_sort_simps Cons by (simp add: by_score_desc_def)
      moreover have "\<not> list_all (\<lambda>z. score z \<le> score y) ys"
        using False first_best_in [OF IH] by (auto simp: list_all_iff)
      ultimately show ?thesis using IH False by (simp add: first_best_Cons)
    qed
  qed
qed simp

lemma first_best_unique: "first_best score xs x \<Longrightarrow> first_best score xs y \<Longrightarrow> x = y"
  by (induction xs) (auto simp: first_best_Cons split: if_splits)

lemma best_by_sort: "first_best score xs x \<longleftrightarrow> (\<exists>rest. js_sort (by_score_desc score) xs = x # rest)"
proof
  assume b: "first_best score xs x"
  then obtain z zs where s: "js_sort (by_score_desc score) xs = z # zs"
    by (metis first_best_Nil js_sort_eq_Nil neq_Nil_conv)
  with head_of_sort [OF s] first_best_unique b show "\<exists>rest. js_sort (by_score_desc score) xs = x # rest" by metis
qed (auto dest: head_of_sort)

section \<open>The password field that is chosen\<close>

lemma best_password_eq:
  "best_password doc c = Some i \<longleftrightarrow>
     (\<exists>f. first_best passwordFieldScore (visibleFields doc c is_password) f \<and> element_id f = i)"
  unfolding best_password_def rankPasswordCandidates_def head_id_def best_by_sort
  by (auto split: list.splits)

lemma best_password_None: "best_password doc c = None \<longleftrightarrow> visibleFields doc c is_password = []"
  unfolding best_password_def rankPasswordCandidates_def head_id_def
  by (cases "js_sort (by_score_desc passwordFieldScore) (visibleFields doc c is_password)") auto

lemma first_some_split:
  "first_some f xs = Some y \<Longrightarrow> \<exists>before x after. xs = before @ x # after \<and> list_all (\<lambda>z. f z = None) before \<and> f x = Some y"
proof (induction xs)
  case (Cons a xs)
  show ?case
  proof (cases "f a")
    case None
    with Cons obtain before x after where "xs = before @ x # after" "list_all (\<lambda>z. f z = None) before" "f x = Some y"
      by auto
    with None show ?thesis by (intro exI [of _ "a # before"] exI [of _ x] exI [of _ after]) simp
  next
    case (Some b)
    with Cons.prems show ?thesis by (intro exI [of _ "[]"] exI [of _ a] exI [of _ xs]) simp
  qed
qed simp

lemma first_some_append: "list_all (\<lambda>z. f z = None) before \<Longrightarrow> f x = Some y \<Longrightarrow> first_some f (before @ x # after) = Some y"
  by (induction before) simp_all

lemma first_some_eq:
  "first_some f xs = Some y \<longleftrightarrow>
     (\<exists>before x after. xs = before @ x # after \<and> list_all (\<lambda>z. f z = None) before \<and> f x = Some y)"
  using first_some_split first_some_append by metis


section \<open>Valid references\<close>

definition distinct_ids :: "page_doc \<Rightarrow> bool" where
  "distinct_ids doc \<longleftrightarrow> distinct (map element_id (inputs doc))"

lemma field_at_Some: "field_at doc i = Some f \<Longrightarrow> f \<in> set (inputs doc) \<and> element_id f = i"
  by (auto simp: field_at_def find_Some_iff)

lemma find_distinct: "distinct (map g xs) \<Longrightarrow> x \<in> set xs \<Longrightarrow> find (\<lambda>y. g y = g x) xs = Some x"
  by (induction xs) (auto simp: image_iff)

lemma field_at_element: "distinct_ids doc \<Longrightarrow> f \<in> set (inputs doc) \<Longrightarrow> field_at doc (element_id f) = Some f"
  unfolding distinct_ids_def field_at_def by (rule find_distinct)

lemma visibleFields_sound:
  "f \<in> set (visibleFields doc c sel) \<Longrightarrow> f \<in> set (inputs doc) \<and> validField f \<and> sel f"
  by (auto simp: visibleFields_def container_inputs_def split: container.splits)

lemma best_password_sound:
  assumes "distinct_ids doc" "best_password doc c = Some i"
  shows "\<exists>f. field_at doc i = Some f \<and> validField f \<and> is_password f"
  using assms field_at_element visibleFields_sound unfolding best_password_eq
  by (metis first_best_in)

lemma findPasswordField_sound:
  assumes "distinct_ids doc" "findPasswordField doc a preferred = Some i"
  shows "\<exists>f. field_at doc i = Some f \<and> validField f \<and>
    (is_password f \<or> Option.bind preferred cx_passwordField = Some i)"
proof (cases "valid_ref doc validField (Option.bind preferred cx_passwordField)")
  case True
  with assms have "Option.bind preferred cx_passwordField = Some i" by (simp add: findPasswordField_def)
  with True show ?thesis by (auto simp: valid_ref_def split: option.splits)
next
  case False
  with assms(2) obtain c where "best_password doc c = Some i"
    by (auto simp: findPasswordField_def first_some_eq)
  from best_password_sound [OF assms(1) this] show ?thesis by blast
qed

lemma username_candidate_sound:
  assumes "distinct_ids doc" "head_id (map fst (rankUsernameCandidates doc c pw)) = Some i"
  shows "\<exists>f. field_at doc i = Some f \<and> isUsernameLikeField f"
proof -
  from assms(2) obtain f rest where r: "map fst (rankUsernameCandidates doc c pw) = f # rest" "element_id f = i"
    by (auto simp: head_id_def split: list.splits)
  then have "f \<in> fst ` set (rankUsernameCandidates doc c pw)" by (metis list.set_intros(1) set_map)
  then have "isUsernameLikeField f" "f \<in> set (inputs doc)"
    by (auto simp: rankUsernameCandidates_def Let_def dest: visibleFields_sound)
  with assms(1) r(2) field_at_element show ?thesis by blast
qed

lemma username_like_valid: "isUsernameLikeField f \<Longrightarrow> validField f \<and> \<not> is_password f"
  by (auto simp: isUsernameLikeField_def is_password_def)

lemma findUsernameField_sound:
  "distinct_ids doc \<Longrightarrow> findUsernameField doc f = Some i \<Longrightarrow> \<exists>f. field_at doc i = Some f \<and> isUsernameLikeField f"
  unfolding findUsernameField_def by (rule username_candidate_sound)

lemma findFillable_sound:
  assumes "distinct_ids doc" "findFillableUsernameField doc a preferred = Some i"
  shows "\<exists>f. field_at doc i = Some f \<and> validField f \<and>
    (isUsernameLikeField f \<or> Option.bind preferred cx_usernameField = Some i)"
proof -
  consider "valid_ref doc validField (Option.bind preferred cx_usernameField)" "Option.bind preferred cx_usernameField = Some i"
    | "valid_ref doc isUsernameLikeField (map_option cx_field preferred)" "map_option cx_field preferred = Some i"
    | c where "head_id (map fst (rankUsernameCandidates doc c (Option.bind preferred cx_passwordField))) = Some i"
    using assms(2) by (auto simp: findFillableUsernameField_def first_some_eq split: if_splits)
  then show ?thesis
  proof cases
    case 1
    then show ?thesis by (auto simp: valid_ref_def split: option.splits)
  next
    case 2
    then show ?thesis by (auto simp: valid_ref_def username_like_valid split: option.splits)
  next
    case 3
    then show ?thesis using username_candidate_sound [OF assms(1)] username_like_valid by blast
  qed
qed

section \<open>What a fill writes\<close>

definition write_field :: "nat option \<Rightarrow> jsv \<Rightarrow> login_field \<Rightarrow> login_field" where
  "write_field target v f = (if target = Some (element_id f) then f\<lparr>field_value := to_str v\<rparr> else f)"

lemma set_input_write: "inputs (set_input i (to_str v) doc) = map (write_field (Some i) v) (inputs doc)"
  by (simp add: set_input_def write_field_def)

lemma write_field_None [simp]: "write_field None v = id"
  by (simp add: write_field_def fun_eq_iff)

text \<open>Where the password may go, and where the user name may.\<close>

definition password_target :: "page_doc \<Rightarrow> login_context option \<Rightarrow> nat \<Rightarrow> bool" where
  "password_target doc preferred i \<longleftrightarrow>
     (\<exists>f. field_at doc i = Some f \<and> validField f \<and>
        (is_password f \<or> Option.bind preferred cx_passwordField = Some i))"

definition username_target :: "page_doc \<Rightarrow> login_context option \<Rightarrow> nat \<Rightarrow> bool" where
  "username_target doc preferred i \<longleftrightarrow>
     (\<exists>f. field_at doc i = Some f \<and> validField f \<and>
        (isUsernameLikeField f \<or> Option.bind preferred cx_usernameField = Some i))"

definition target_ok :: "(nat \<Rightarrow> bool) \<Rightarrow> nat option \<Rightarrow> bool" where
  "target_ok good r = (case r of None \<Rightarrow> True | Some i \<Rightarrow> good i)"

lemma target_ok_simps [simp]: "target_ok good None" "target_ok good (Some i) = good i"
  by (simp_all add: target_ok_def)

lemma fill_username_only:
  assumes "distinct_ids doc" "fill_fields doc a username password preferred = Inr (r, doc')"
    and "findPasswordField doc a preferred = None" "findPasswordField doc a None = None"
  obtains u where "username_target doc preferred u" "\<not> filled_password r"
    "filled_username r = truthy username" "focus_on r = u"
    "inputs doc' = map (write_field (if truthy username then Some u else None) username) (inputs doc)"
proof -
  from assms(2-4) obtain u where u: "findFillableUsernameField doc a preferred = Some u"
    by (auto simp: fill_fields_def Let_def split: option.splits)
  show ?thesis
  proof (rule that)
    show "username_target doc preferred u"
      unfolding username_target_def by (rule findFillable_sound [OF assms(1) u])
  qed (use assms(2-4) u in \<open>auto simp: fill_fields_def set_input_write\<close>)
qed

lemma fill_with_password:
  assumes "distinct_ids doc" "fill_fields doc a username password preferred = Inr (r, doc')"
    and "(case findPasswordField doc a preferred of Some i \<Rightarrow> Some i | None \<Rightarrow> findPasswordField doc a None) = Some i"
  obtains u where "password_target doc preferred i" "target_ok (username_target doc preferred) u"
    "truthy password" "filled_password r" "focus_on r = i" "filled_username r = (u \<noteq> None)"
    "u = None \<or> truthy username"
    "inputs doc' = map (write_field (Some i) password) (map (write_field u username) (inputs doc))"
proof -
  define u where "u = (if \<not> truthy username then None
    else case Option.bind (field_at doc i) (findUsernameField doc) of
           Some u \<Rightarrow> Some u | None \<Rightarrow> findFillableUsernameField doc a preferred)"
  from assms(2,3) have pw: "truthy password"
    by (auto simp: fill_fields_def split: if_splits)
  with assms(2,3) have r: "r = \<lparr>filled_username = (u \<noteq> None), filled_password = True, focus_on = i\<rparr>"
    and doc': "doc' = set_input i (to_str password) (case u of None \<Rightarrow> doc | Some u \<Rightarrow> set_input u (to_str username) doc)"
    unfolding u_def by (auto simp: fill_fields_def Let_def)
  have i: "password_target doc preferred i"
    using assms(3) findPasswordField_sound [OF assms(1)]
    unfolding password_target_def by (fastforce split: option.splits)
  have "target_ok (username_target doc preferred) u"
    using findUsernameField_sound [OF assms(1)] findFillable_sound [OF assms(1)] username_like_valid
    unfolding u_def username_target_def
    by (fastforce simp: target_ok_def bind_eq_Some_conv split: option.splits)
  moreover have "inputs doc' = map (write_field (Some i) password) (map (write_field u username) (inputs doc))"
    unfolding doc' set_input_write by (cases u) (simp_all add: set_input_write)
  ultimately show ?thesis
    using that [of u] i pw r unfolding u_def by (auto split: if_splits)
qed

text \<open>
  C20: A fill changes nothing but the values of at most two fields: the user name goes into a
  visible, enabled, writable field that looks like one for user names or is the one of the
  script's own context; the password, if at all, into such a field that is a password input
  or the context's password field; and the answer says which of the two was written.
\<close>

theorem fill_targets:
  assumes "distinct_ids doc"
    and "fill_fields doc activeField username password preferred = Inr (r, doc')"
  shows "\<exists>u pw. inputs doc' = map (write_field pw password) (map (write_field u username) (inputs doc)) \<and>
    target_ok (password_target doc preferred) pw \<and> target_ok (username_target doc preferred) u \<and>
    filled_password r = (pw \<noteq> None) \<and> filled_username r = (u \<noteq> None) \<and>
    (pw = None \<or> truthy password) \<and> (u = None \<or> truthy username) \<and>
    (pw = None \<or> pw = Some (focus_on r))"
proof (cases "case findPasswordField doc activeField preferred of
    Some i \<Rightarrow> Some i | None \<Rightarrow> findPasswordField doc activeField None")
  case None
  then have "findPasswordField doc activeField preferred = None" "findPasswordField doc activeField None = None"
    by (auto split: option.splits)
  from fill_username_only [OF assms this] obtain u where u: "username_target doc preferred u" "\<not> filled_password r"
    "filled_username r = truthy username"
    "inputs doc' = map (write_field (if truthy username then Some u else None) username) (inputs doc)" .
  then show ?thesis
    by (intro exI [of _ "if truthy username then Some u else None"] exI [of _ None]) auto
next
  case (Some i)
  from fill_with_password [OF assms Some] obtain u where "password_target doc preferred i"
    "target_ok (username_target doc preferred) u" "truthy password" "filled_password r" "focus_on r = i"
    "filled_username r = (u \<noteq> None)" "u = None \<or> truthy username"
    "inputs doc' = map (write_field (Some i) password) (map (write_field u username) (inputs doc))" .
  then show ?thesis by (intro exI [of _ u] exI [of _ "Some i"]) auto
qed

section \<open>A login form\<close>

definition sample_rect :: rect where
  "sample_rect = \<lparr>r_top = 10, r_right = 210, r_bottom = 40, r_left = 10, r_width = 200, r_height = 30\<rparr>"

definition sample_field :: "nat \<Rightarrow> string \<Rightarrow> string \<Rightarrow> login_field" where
  "sample_field i type name =
     \<lparr>element_id = i, form_owner = Some 0, in_form = Some 0, type_attr = Some type, autocomplete = [],
      name_attr = name, id_attr = [], placeholder = [], aria_label = None, nearby = [],
      is_disabled = False, read_only = False, visibility = ''visible'', display = ''block'',
      bounding_rect = sample_rect, field_value = []\<rparr>"

definition sample_page :: page_doc where
  "sample_page =
     \<lparr>inputs = [sample_field 1 ''text'' ''user'', sample_field 2 ''password'' ''pass'',
               (sample_field 3 ''password'' ''pass'')\<lparr>read_only := True\<rparr>], forms = [0]\<rparr>"

lemma sample_page_fill:
  "fill_fields sample_page None (JStr ''ann'') (JStr ''pw'') None =
     Inr (\<lparr>filled_username = True, filled_password = True, focus_on = 2\<rparr>,
          set_input 2 ''pw'' (set_input 1 ''ann'' sample_page))"
  by code_simp

theorem fill_targets_witness:
  "\<exists>u pw. inputs (set_input 2 ''pw'' (set_input 1 ''ann'' sample_page)) =
      map (write_field pw (JStr ''pw'')) (map (write_field u (JStr ''ann'')) (inputs sample_page)) \<and>
    target_ok (password_target sample_page None) pw \<and> pw = Some 2"
proof -
  have "distinct_ids sample_page" by code_simp
  from fill_targets [OF this sample_page_fill] show ?thesis by auto
qed

end
