(* ===== verification/ContentProps.thy ===== *)
theory ContentProps
  imports Vault ContentEvents ContentFill
begin

text \<open>
  The content script as a state machine: what every step keeps of its own state, and where the
  values it writes into the page's fields come from.
\<close>

section \<open>Frames\<close>

lemma keeps_modify: "(\<And>s. f (g s) = f s) \<Longrightarrow> keeps f (modify g)"
  unfolding modify_def by (rule keeps_update)

lemma maintains_modify: "(\<And>s. P s \<Longrightarrow> P (g s)) \<Longrightarrow> maintains P (modify g)"
  unfolding modify_def by (rule maintains_update)

lemma modify_run [run_simps]: "modify f s = (Inr (), f s)"
  by (simp add: modify_def update_run)

text \<open>The script's own state: its timers, its contexts, what it shows.\<close>

definition own_state where
  "own_state s =
     (ct_timers s, ct_activeField s, ct_activeContext s, ct_suggestionsContext s,
      ct_popoverShown s, ct_banner s, ct_bannerShown s)"

definition doc_and_own where
  "doc_and_own s = (ct_doc s, ct_focused s, own_state s)"

lemma keeps_own: "keeps doc_and_own m \<Longrightarrow> keeps own_state m"
  by (simp add: keeps_def doc_and_own_def)

lemma keeps_own_doc: "keeps doc_and_own m \<Longrightarrow> keeps ct_doc m"
  by (simp add: keeps_def doc_and_own_def)

lemma keeps_all_send [keeps_intros]: "keeps doc_and_own (send_message p ty rest)"
  unfolding send_message_def
  by (intro keeps_intros keeps_on_worker) (simp add: doc_and_own_def own_state_def)

lemma keeps_all_theme [keeps_intros]: "keeps doc_and_own (applyInlineTheme th)"
  unfolding applyInlineTheme_def by (rule keeps_modify) (simp add: doc_and_own_def own_state_def)

lemma keeps_all_refreshTheme [keeps_intros]: "keeps doc_and_own (refreshInlineTheme p)"
  unfolding refreshInlineTheme_def by (intro keeps_intros)

lemma keeps_all_position [keeps_intros]: "keeps doc_and_own positionPopover"
  unfolding positionPopover_def
  by (rule keeps_modify) (simp add: doc_and_own_def own_state_def split: option.split)

lemma keeps_all_set_popover [keeps_intros]: "keeps doc_and_own (set_popover v)"
  unfolding set_popover_def
  by (intro keeps_intros keeps_modify) (simp add: doc_and_own_def own_state_def)

lemma keeps_all_show_suggestions [keeps_intros]: "keeps doc_and_own (show_suggestions r)"
  unfolding show_suggestions_def
  by (intro keeps_intros) (auto intro!: keeps_intros split: jsv.split)

lemma keeps_all_busy [keeps_intros]: "keeps doc_and_own (update (setBusy b v))"
  by (rule keeps_update) (simp add: doc_and_own_def own_state_def setBusy_def)

lemma keeps_all_bindings [keeps_intros]: "keeps doc_and_own refreshLoginBindings"
  unfolding refreshLoginBindings_def by (rule keeps_modify) (simp add: doc_and_own_def own_state_def)

lemma keeps_all_remember [keeps_intros]: "keeps doc_and_own (rememberFilledCredentials c)"
  unfolding rememberFilledCredentials_def
  by (intro keeps_intros keeps_modify) (simp add: doc_and_own_def own_state_def)

lemma keeps_all_stage [keeps_intros]: "keeps doc_and_own (stage_or_clear p b i)"
  unfolding stage_or_clear_def by (intro keeps_intros)

section \<open>The invariant\<close>

definition content_inv where
  "content_inv s \<longleftrightarrow>
     length (filter (\<lambda>t. snd t = StagedTimer) (ct_timers s)) \<le> 1 \<and>
     ct_suggestionsContext s = ct_activeContext s \<and>
     ct_activeField s = map_option cx_field (ct_activeContext s) \<and>
     (ct_popoverShown s \<longrightarrow> ct_activeContext s \<noteq> None) \<and>
     (ct_bannerShown s \<longleftrightarrow> ct_banner s \<noteq> EmptyBanner)"

lemma own_inv: "own_state s = own_state t \<Longrightarrow> content_inv s = content_inv t"
  by (simp add: own_state_def content_inv_def)

lemma maintains_own: "keeps doc_and_own m \<Longrightarrow> maintains content_inv m"
  unfolding maintains_def keeps_def doc_and_own_def using own_inv by (metis prod.inject)

lemmas inv_kept [maintains_intros] =
  maintains_own [OF keeps_all_send] maintains_own [OF keeps_all_theme] maintains_own [OF keeps_all_refreshTheme]
  maintains_own [OF keeps_all_position] maintains_own [OF keeps_all_set_popover]
  maintains_own [OF keeps_all_busy] maintains_own [OF keeps_all_bindings]
  maintains_own [OF keeps_all_remember] maintains_own [OF keeps_all_stage]

lemma inv_set_timer [maintains_intros]: "k \<noteq> StagedTimer \<Longrightarrow> maintains content_inv (set_timer d k)"
  unfolding set_timer_def by (rule maintains_modify) (simp add: content_inv_def)

lemma inv_schedule [maintains_intros]: "maintains content_inv (scheduleStagedFillCheck d)"
  by (rule maintainsI) (auto simp: scheduleStagedFillCheck_def set_timer_def run_simps content_inv_def)

lemma inv_schedule_pending [maintains_intros]: "maintains content_inv schedulePendingSaveCheck"
  unfolding schedulePendingSaveCheck_def by (intro maintains_intros) simp_all

lemma inv_hidePopover [maintains_intros]: "maintains content_inv hidePopover"
  unfolding hidePopover_def by (rule maintains_modify) (simp add: content_inv_def)

lemma inv_hideInlineButton [maintains_intros]: "maintains content_inv hideInlineButton"
  unfolding hideInlineButton_def
  by (intro maintains_intros maintains_modify) (simp add: content_inv_def)

lemma inv_showInlineButton [maintains_intros]: "maintains content_inv (showInlineButton f)"
  unfolding showInlineButton_def
  by (intro maintains_intros) (auto intro!: maintains_modify maintains_intros simp: content_inv_def split: prod.split)

lemma inv_updatePosition [maintains_intros]: "maintains content_inv updateInlineUiPosition"
  unfolding updateInlineUiPosition_def by (intro maintains_intros)

lemma context_field: "loginContextForField doc a f = Some c \<Longrightarrow> cx_field c = element_id f"
  by (auto simp: loginContextForField_def Let_def split: if_splits option.splits)

lemma inv_focusIn [maintains_intros]: "maintains content_inv (handleFocusIn t)"
proof (cases t)
  case None
  then show ?thesis unfolding handleFocusIn_def by (simp add: maintains_intros)
next
  case (Some f)
  show ?thesis
  proof (rule maintainsI)
    fix s r u assume inv: "content_inv s" and run: "handleFocusIn t s = (r, u)"
    show "content_inv u"
    proof (cases "loginContextForField (ct_doc s) (ct_activeField s) f")
      case None
      with run Some have "hideInlineButton s = (r, u)" by (simp add: handleFocusIn_def run_simps)
      then show ?thesis by (rule maintainsD [OF inv_hideInlineButton inv])
    next
      case c: (Some c)
      let ?s = "s\<lparr>ct_activeField := Some (element_id f), ct_activeContext := Some c, ct_suggestionsContext := Some c\<rparr>"
      from run Some c have s: "seqc (showInlineButton f) (if is_password f then scheduleStagedFillCheck 0 else ret ()) ?s = (r, u)"
        by (simp add: handleFocusIn_def run_simps)
      have m: "maintains content_inv (seqc (showInlineButton f) (if is_password f then scheduleStagedFillCheck 0 else ret ()))"
        by (intro maintains_intros)
      have "content_inv ?s" using inv context_field [OF c] by (simp add: content_inv_def)
      from maintainsD [OF m this s] show ?thesis .
    qed
  qed
qed

lemma inv_focusOut [maintains_intros]: "maintains content_inv (handleFocusOut t)"
  unfolding handleFocusOut_def by (intro maintains_intros) simp

lemma inv_move_focus [maintains_intros]: "maintains content_inv (move_focus t)"
  unfolding move_focus_def by (intro maintains_intros maintains_modify) (simp add: content_inv_def)

lemma inv_focus_host [maintains_intros]: "maintains content_inv focus_host"
  unfolding focus_host_def by (intro maintains_intros maintains_modify) (simp add: content_inv_def)

text \<open>Clearing the contexts is safe only together with hiding the popover.\<close>

lemma inv_focusTimeout [maintains_intros]: "maintains content_inv focusOutTimeout"
proof (rule maintainsI)
  fix s r u assume inv: "content_inv s" and run: "focusOutTimeout s = (r, u)"
  let ?s = "s\<lparr>ct_activeField := None, ct_activeContext := None, ct_suggestionsContext := None\<rparr>"
  from run consider "u = s" | "hideInlineButton ?s = (r, u)"
    by (auto simp: focusOutTimeout_def run_simps split: if_splits)
  then show "content_inv u"
  proof cases
    case 2
    then have "u = ?s\<lparr>ct_button := None, ct_popoverShown := False, ct_popover := EmptyPopover\<rparr>"
      by (simp add: hideInlineButton_def hidePopover_def run_simps)
    with inv show ?thesis by (simp add: content_inv_def)
  qed (use inv in simp)
qed

lemma inv_set_banner [maintains_intros]: "v \<noteq> EmptyBanner \<Longrightarrow> maintains content_inv (set_banner v)"
  unfolding set_banner_def by (rule maintains_modify) (simp add: content_inv_def)

lemma inv_show_banner [maintains_intros]: "v \<noteq> EmptyBanner \<Longrightarrow> maintains content_inv (show_banner v)"
  unfolding show_banner_def by (intro maintains_intros) (auto intro!: maintains_intros split: banner.split)

lemma inv_bannerStatus [maintains_intros]: "maintains content_inv (showBannerStatus m)"
  unfolding showBannerStatus_def by (intro maintains_intros) simp

lemma inv_hideBanner [maintains_intros]: "maintains content_inv hideBanner"
  unfolding hideBanner_def by (rule maintains_modify) (simp add: content_inv_def)

lemma renderPendingBanner_nonempty [simp]: "renderPendingBanner n v \<noteq> EmptyBanner"
  by (simp add: renderPendingBanner_def)

lemma inv_pendingPrompt [maintains_intros]: "maintains content_inv (maybeShowPendingSavePrompt p)"
  unfolding maybeShowPendingSavePrompt_def
  by (intro maintains_intros maintains_modify) (simp_all add: content_inv_def)

lemma inv_savePending [maintains_intros]: "maintains content_inv (handleSavePendingAction p)"
  unfolding handleSavePendingAction_def by (intro maintains_intros) simp

lemma inv_unlockPending [maintains_intros]: "maintains content_inv (handleUnlockPendingAction p)"
  unfolding handleUnlockPendingAction_def by (intro maintains_intros) simp_all

lemma inv_dismiss [maintains_intros]: "maintains content_inv (dismissPendingSavePrompt p)"
  unfolding dismissPendingSavePrompt_def by (intro maintains_intros)

lemma inv_fillCredentials [maintains_intros]: "maintains content_inv (fillCredentials c x)"
  unfolding fillCredentials_def
  by (intro maintains_intros) (auto intro!: maintains_intros maintains_modify simp: content_inv_def split: prod.split)

text \<open>The popover is opened only for a login context.\<close>

lemma inv_renderSuggestions:
  assumes "content_inv s" "ct_activeContext s \<noteq> None" "renderSuggestions p s = (r, t)"
  shows "content_inv t"
proof -
  let ?P = "\<lambda>s. content_inv s \<and> ct_activeContext s \<noteq> None"
  have k: "maintains ?P m" if "keeps doc_and_own m" for m :: "'a cts"
    using that own_inv unfolding maintains_def keeps_def doc_and_own_def own_state_def
    by (metis (no_types, lifting) prod.inject)
  have "maintains ?P (renderSuggestions p)"
    unfolding renderSuggestions_def
    by (intro maintains_intros maintains_modify k keeps_all_send keeps_all_set_popover keeps_all_show_suggestions)
      (simp add: content_inv_def)
  from maintainsD [OF this _ assms(3)] assms(1,2) show ?thesis by blast
qed

lemma inv_suggestionsContext: "content_inv s \<Longrightarrow> ct_suggestionsContext s = ct_activeContext s"
  by (simp add: content_inv_def)

lemma inv_buttonClick [maintains_intros]: "maintains content_inv (handleInlineButtonClick p)"
proof (rule maintainsI)
  fix s r u assume inv: "content_inv s" and run: "handleInlineButtonClick p s = (r, u)"
  from run consider "u = s" | "hidePopover s = (r, u)"
    | "ct_suggestionsContext s \<noteq> None" "renderSuggestions p s = (r, u)"
    by (auto simp: handleInlineButtonClick_def run_simps split: if_splits)
  then show "content_inv u"
  proof cases
    case 2
    then show ?thesis by (rule maintainsD [OF inv_hidePopover inv])
  next
    case 3
    with inv show ?thesis by (simp add: inv_renderSuggestions inv_suggestionsContext)
  qed (use inv in simp)
qed

lemma inv_rerender [maintains_intros]:
  "maintains content_inv
     (bind (reads (\<lambda>s. ct_popoverShown s \<and> ct_suggestionsContext s \<noteq> None))
        (\<lambda>again. if again then renderSuggestions p else ret ()))"
  by (rule maintainsI)
    (auto simp: run_simps inv_suggestionsContext split: if_splits intro: inv_renderSuggestions)

lemma inv_sessionChanged [maintains_intros]: "maintains content_inv (handleSessionChanged p v)"
  unfolding handleSessionChanged_def by (rule maintains_intros | rule inv_rerender)+

lemma inv_fill_entry [maintains_intros]: "maintains content_inv (fill_entry_body p i)"
  unfolding fill_entry_body_def
  by (intro maintains_intros) (auto intro!: maintains_intros split: prod.split)

lemma inv_fillEntryAction [maintains_intros]: "maintains content_inv (handleFillEntryAction p i)"
  unfolding handleFillEntryAction_def
  by (intro maintains_intros maintains_finally) (simp add: content_inv_def setBusy_def)

lemma inv_stagedFill [maintains_intros]: "maintains content_inv (maybeCompleteStagedFill p)"
  unfolding maybeCompleteStagedFill_def by (intro maintains_intros)

lemma inv_formSubmit [maintains_intros]: "maintains content_inv (handleFormSubmit p f)"
  unfolding handleFormSubmit_def by (intro maintains_intros)

lemma inv_directFill [maintains_intros]: "maintains content_inv (direct_fill p m)"
  unfolding direct_fill_def by (intro maintains_intros)

lemma inv_errorReply [maintains_intros]: "maintains content_inv (error_reply p e)"
  unfolding error_reply_def by (intro maintains_intros)

lemma inv_onMessage [maintains_intros]: "maintains content_inv (content_onMessage p m)"
  unfolding content_onMessage_def by (intro maintains_intros)

lemma inv_clicks [maintains_intros]:
  "maintains content_inv (handleDocumentClick c)"
  "maintains content_inv (handleShadowClick p x)"
  "maintains content_inv (handleShadowKeydown p k i)"
proof -
  show "maintains content_inv (handleDocumentClick c)"
    unfolding handleDocumentClick_def by (cases c) (auto intro!: maintains_intros)
  show "maintains content_inv (handleShadowClick p x)"
    unfolding handleShadowClick_def
    by (intro maintains_intros) (auto intro!: maintains_intros split: prod.split)
  show "maintains content_inv (handleShadowKeydown p k i)"
    unfolding handleShadowKeydown_def by (intro maintains_intros)
qed

lemma inv_pageEvents [maintains_intros]:
  "maintains content_inv locationChange" "maintains content_inv (pageShow p)" "maintains content_inv pageMutated"
  unfolding locationChange_def pageShow_def pageMutated_def by (intro maintains_intros)+

lemma inv_run_timer: "maintains content_inv (run_timer p k)"
  unfolding run_timer_def by (cases k) (auto intro!: maintains_intros)

lemma inv_handler: "maintains content_inv (content_handler p e)"
  unfolding content_handler_def
  by (cases e) (auto intro!: maintains_intros maintains_modify simp: content_inv_def)

lemma inv_initialize: "maintains content_inv (content_initialize p)"
  unfolding content_initialize_def by (intro maintains_intros)

lemma inv_step: "content_step p s t \<Longrightarrow> content_inv s \<Longrightarrow> content_inv t"
proof (induction rule: content_step.induct)
  case (content_event e s r t)
  then show ?case using maintainsD [OF inv_handler] by blast
next
  case (content_timer s before due k after r t)
  have "content_inv (s\<lparr>ct_timers := before @ after\<rparr>)"
    using content_timer.hyps(1) content_timer.prems by (cases k) (simp_all add: content_inv_def)
  from maintainsD [OF inv_run_timer this content_timer.hyps(3)] show ?case .
qed (simp add: content_inv_def)

text \<open>
  C28: From a fresh page on, after every sequence of events and timers: at most one check for a
  staged fill is pending, the script's active field and its two contexts agree, the popover is
  open only for a login context, and a banner is shown exactly when there is one.
\<close>

theorem content_invariant:
  assumes "content_run p s t" and "ct_timers s = []" "ct_activeField s = None" "ct_activeContext s = None"
    and "ct_suggestionsContext s = None" "\<not> ct_popoverShown s" "\<not> ct_bannerShown s" "ct_banner s = EmptyBanner"
  shows "content_inv t"
  using assms
proof (induction rule: content_run.induct)
  case (content_started s r t)
  then have "content_inv s" by (simp add: content_inv_def)
  from maintainsD [OF inv_initialize this content_started.hyps] show ?case .
next
  case (content_more s t u)
  then show ?case using inv_step by blast
qed

section \<open>What leaves the page's fields alone\<close>

lemma keeps_doc [keeps_intros]:
  "keeps ct_doc (send_message p ty rest)" "keeps ct_doc (refreshInlineTheme p)" "keeps ct_doc (applyInlineTheme th)"
  "keeps ct_doc positionPopover" "keeps ct_doc (set_popover v)" "keeps ct_doc (show_suggestions x)"
  "keeps ct_doc (update (setBusy b v2))" "keeps ct_doc refreshLoginBindings"
  "keeps ct_doc (rememberFilledCredentials c)" "keeps ct_doc (stage_or_clear p d i)"
  by (rule keeps_own_doc; rule keeps_intros)+

lemma keeps_doc_timer [keeps_intros]:
  "keeps ct_doc (set_timer d k)" "keeps ct_doc (scheduleStagedFillCheck d)" "keeps ct_doc schedulePendingSaveCheck"
  unfolding set_timer_def scheduleStagedFillCheck_def schedulePendingSaveCheck_def
  by (intro keeps_intros keeps_modify; simp)+

lemma keeps_doc_button [keeps_intros]:
  "keeps ct_doc hidePopover" "keeps ct_doc hideInlineButton" "keeps ct_doc (showInlineButton f)"
  "keeps ct_doc updateInlineUiPosition"
proof -
  show p: "keeps ct_doc hidePopover" unfolding hidePopover_def by (rule keeps_modify) simp
  show b: "keeps ct_doc hideInlineButton"
    unfolding hideInlineButton_def by (intro keeps_intros keeps_modify p) simp
  show s: "keeps ct_doc (showInlineButton f)" for f
    unfolding showInlineButton_def
    by (intro keeps_intros) (auto intro!: keeps_modify b split: prod.split)
  show "keeps ct_doc updateInlineUiPosition"
    unfolding updateInlineUiPosition_def by (intro keeps_intros s b)
qed

lemma keeps_doc_focus [keeps_intros]:
  "keeps ct_doc (handleFocusIn f)" "keeps ct_doc (handleFocusOut g)" "keeps ct_doc focusOutTimeout"
  "keeps ct_doc (move_focus g)" "keeps ct_doc focus_host"
proof -
  show i: "keeps ct_doc (handleFocusIn f)" for f
    unfolding handleFocusIn_def by (intro keeps_intros keeps_modify) simp
  show o: "keeps ct_doc (handleFocusOut g)" for g
    unfolding handleFocusOut_def by (intro keeps_intros)
  show "keeps ct_doc focusOutTimeout"
    unfolding focusOutTimeout_def
    by (intro keeps_intros) (auto intro!: keeps_intros keeps_modify split: prod.split)
  show m: "keeps ct_doc (move_focus g)" for g
    unfolding move_focus_def by (intro keeps_intros keeps_modify i o) simp
  show "keeps ct_doc focus_host"
    unfolding focus_host_def by (intro keeps_intros keeps_modify m) simp
qed

lemma keeps_doc_banner [keeps_intros]:
  "keeps ct_doc (set_banner v)" "keeps ct_doc (show_banner v)" "keeps ct_doc (showBannerStatus m)" "keeps ct_doc hideBanner"
  "keeps ct_doc (maybeShowPendingSavePrompt p)" "keeps ct_doc (handleSavePendingAction p)"
  "keeps ct_doc (handleUnlockPendingAction p)" "keeps ct_doc (dismissPendingSavePrompt p)"
proof -
  show s: "keeps ct_doc (set_banner v)" for v
    unfolding set_banner_def by (rule keeps_modify) simp
  show b: "keeps ct_doc (show_banner v)" for v
    unfolding show_banner_def by (cases v) (auto intro!: keeps_intros s)
  show m: "keeps ct_doc (showBannerStatus m)" for m
    unfolding showBannerStatus_def by (rule s)
  show h: "keeps ct_doc hideBanner"
    unfolding hideBanner_def by (rule keeps_modify) simp
  show "keeps ct_doc (maybeShowPendingSavePrompt p)"
    unfolding maybeShowPendingSavePrompt_def by (intro keeps_intros keeps_modify h b) simp
  show a: "keeps ct_doc (handleSavePendingAction p)"
    unfolding handleSavePendingAction_def by (intro keeps_intros m)
  show "keeps ct_doc (handleUnlockPendingAction p)"
    unfolding handleUnlockPendingAction_def by (intro keeps_intros b a)
  show "keeps ct_doc (dismissPendingSavePrompt p)"
    unfolding dismissPendingSavePrompt_def by (intro keeps_intros h)
qed

lemma keeps_doc_popover [keeps_intros]:
  "keeps ct_doc (renderSuggestions p)" "keeps ct_doc (handleInlineButtonClick p)" "keeps ct_doc (handleSessionChanged p v)"
  "keeps ct_doc (handleFormSubmit p f)"
proof -
  show r: "keeps ct_doc (renderSuggestions p)"
    unfolding renderSuggestions_def by (intro keeps_intros keeps_modify) simp
  show "keeps ct_doc (handleInlineButtonClick p)"
    unfolding handleInlineButtonClick_def
    by (intro keeps_intros) (auto intro!: keeps_intros r split: prod.split)
  show "keeps ct_doc (handleSessionChanged p v)"
    unfolding handleSessionChanged_def by (intro keeps_intros r)
  show "keeps ct_doc (handleFormSubmit p f)"
    unfolding handleFormSubmit_def by (intro keeps_intros)
qed

lemma keeps_doc_events [keeps_intros]:
  "keeps ct_doc (handleDocumentClick c)" "keeps ct_doc (handleShadowKeydown p k i)"
  "keeps ct_doc (pageShow p)" "keeps ct_doc pageMutated" "keeps ct_doc locationChange"
proof -
  show "keeps ct_doc (handleDocumentClick c)"
    unfolding handleDocumentClick_def by (cases c) (auto intro!: keeps_intros)
qed (unfold handleShadowKeydown_def pageShow_def pageMutated_def locationChange_def, (intro keeps_intros)+)

section \<open>Where a fill comes from\<close>

text \<open>The document \<open>doc\<close> is the page of \<open>s\<close> filled with the credentials given.\<close>

definition fill_from :: "jsv \<Rightarrow> content \<Rightarrow> page_doc \<Rightarrow> bool" where
  "fill_from credentials s doc \<longleftrightarrow>
     (\<exists>context result. fill_fields (ct_doc s) (ct_activeField s)
        (js_or (js_get_opt credentials ''username'') (JStr []))
        (js_or (js_get_opt credentials ''password'') (JStr [])) context = Inr (result, doc))"

text \<open>The worker answers the message, sent from this tab and this URL, with the credentials given.\<close>

definition released :: "platform \<Rightarrow> (string \<times> jsv) list \<Rightarrow> content \<Rightarrow> jsv \<Rightarrow> jsv \<Rightarrow> bool" where
  "released p message s status credentials \<longleftrightarrow>
     (\<exists>reply b. onMessage p (JObj message) (content_sender s) (worker s) = (reply, b) \<and>
        response_ok reply \<and> js_get_opt reply ''status'' = status \<and> js_get_opt reply ''credentials'' = credentials)"

definition fill_request :: "content \<Rightarrow> int \<Rightarrow> (string \<times> jsv) list" where
  "fill_request s entryId =
     [(''type'', JStr ''nerve:fill-entry''), (''entryId'', JNum entryId), (''pageUrl'', JStr (loc_href (ct_location s)))]"

definition staged_request :: "content \<Rightarrow> (string \<times> jsv) list" where
  "staged_request s =
     [(''type'', JStr ''nerve:resolve-staged-fill''),
      (''page'', JObj [(''url'', JStr (loc_href (ct_location s))), (''hasVisiblePasswordField'', JBool True)])]"

lemma send_message_reply:
  "\<exists>response b. send_message p type rest s = (Inr response, s\<lparr>worker := b\<rparr>) \<and>
     (response_ok response \<longrightarrow>
        onMessage p (JObj ((''type'', JStr type) # rest)) (content_sender s) (worker s) = (response, b))"
proof -
  obtain reply b where "onMessage p (JObj ((''type'', JStr type) # rest)) (content_sender s) (worker s) = (reply, b)"
    by (cases "onMessage p (JObj ((''type'', JStr type) # rest)) (content_sender s) (worker s)")
  then show ?thesis
    by (intro exI [of _ "js_or reply (JObj [(''ok'', JBool False), (''error'', JStr ''No response from extension.'')])"]
        exI [of _ b])
      (simp add: send_message_def post_message_def run_simps response_ok_def js_or_def split: if_splits)
qed

lemma stage_or_clear_reply: "\<exists>response b. stage_or_clear p stage i s = (Inr response, s\<lparr>worker := b\<rparr>)"
proof -
  have "\<exists>response b. send_message p type rest s = (Inr response, s\<lparr>worker := b\<rparr>)" for type rest
    using send_message_reply [of p type rest s] by blast
  then show ?thesis by (cases stage) (simp_all add: stage_or_clear_def run_simps)
qed

lemma fillCredentials_filled:
  assumes "fillCredentials creds cx s = (r, t)" "js_get creds ''password'' = Inr v"
    and "fill_fields (ct_doc s) (ct_activeField s) (js_or (js_get_opt creds ''username'') (JStr []))
      (js_or v (JStr [])) cx = Inr (result, doc)"
  shows "ct_doc t = doc"
proof -
  obtain r' u where u: "move_focus (Some (focus_on result)) (s\<lparr>ct_doc := doc\<rparr>) = (r', u)"
    by (cases "move_focus (Some (focus_on result)) (s\<lparr>ct_doc := doc\<rparr>)")
  then have "ct_doc u = doc" using keepsD [OF keeps_doc_focus(4) u] by simp
  moreover have "t = u" using assms u by (cases r') (auto simp: fillCredentials_def run_simps)
  ultimately show ?thesis by simp
qed

lemma fillCredentials_doc:
  assumes "fillCredentials creds context s = (r, t)"
  shows "ct_doc t = ct_doc s \<or> fill_from creds s (ct_doc t)"
proof -
  let ?out = "fill_fields (ct_doc s) (ct_activeField s) (js_or (js_get_opt creds ''username'') (JStr []))
    (js_or (js_get_opt creds ''password'') (JStr [])) context"
  show ?thesis
  proof (cases "\<exists>v result doc. js_get creds ''password'' = Inr v \<and> ?out = Inr (result, doc)")
    case True
    then obtain v result doc where v: "js_get creds ''password'' = Inr v" "v = js_get_opt creds ''password''"
      and out: "?out = Inr (result, doc)"
      by (auto simp: js_get_def split: if_splits)
    with fillCredentials_filled [OF assms v(1)] have "ct_doc t = doc" by simp
    with out show ?thesis unfolding fill_from_def by blast
  next
    case False
    then have "t = s"
      using assms
      by (cases "js_get creds ''password''"; cases ?out)
        (auto simp: fillCredentials_def run_simps js_get_def split: if_splits)
    then show ?thesis by simp
  qed
qed

lemma fill_from_worker: "fill_from creds (s\<lparr>worker := b\<rparr>) doc = fill_from creds s doc"
  by (simp add: fill_from_def)

lemma bind_reads: "bind (reads f) g s = g (f s) s"
  by (simp add: bind_run reads_run)

lemma bind_ok: "m s = (Inr x, t) \<Longrightarrow> bind m f s = f x t"
  by (simp add: bind_run)

lemma fill_then:
  assumes "bind (fillCredentials creds cx) after s = (r, t)" and "\<And>x. keeps ct_doc (after x)"
  shows "\<exists>rf u. fillCredentials creds cx s = (rf, u) \<and> ct_doc t = ct_doc u"
proof -
  obtain rf u where u: "fillCredentials creds cx s = (rf, u)" by (cases "fillCredentials creds cx s")
  have "ct_doc t = ct_doc u"
  proof (cases rf)
    case (Inl e)
    with assms(1) u show ?thesis by (simp add: bind_run)
  next
    case (Inr x)
    with assms(1) u have "after x u = (r, t)" by (simp add: bind_run)
    from keepsD [OF assms(2) this] show ?thesis .
  qed
  with u show ?thesis by blast
qed

lemma fill_then_doc:
  assumes "bind (fillCredentials creds cx) after s = (r, t)" and "\<And>x. keeps ct_doc (after x)"
  shows "ct_doc t = ct_doc s \<or> fill_from creds s (ct_doc t)"
  using fill_then [OF assms] fillCredentials_doc by metis

lemma released_reply:
  assumes "onMessage p (JObj message) (content_sender s) (worker s) = (reply, b)" "response_ok reply"
  shows "released p message s (js_get_opt reply ''status'') (js_get_opt reply ''credentials'')"
  unfolding released_def using assms by blast

lemma fill_entry_doc:
  assumes "fill_entry_body p (JNum i) s = (r, t)"
  shows "ct_doc t = ct_doc s \<or>
    (\<exists>status creds. released p (fill_request s i) s status creds \<and> fill_from creds s (ct_doc t))"
proof -
  let ?m = "[(''entryId'', JNum i), (''pageUrl'', JStr (loc_href (ct_location s)))]"
  obtain resp b where a: "send_message p ''nerve:fill-entry'' ?m s = (Inr resp, s\<lparr>worker := b\<rparr>)"
    and rep: "response_ok resp \<Longrightarrow>
      onMessage p (JObj ((''type'', JStr ''nerve:fill-entry'') # ?m)) (content_sender s) (worker s) = (resp, b)"
    using send_message_reply [of p "''nerve:fill-entry''" ?m s] by blast
  show ?thesis
  proof (cases "response_ok resp")
    case False
    with assms a have "t = s\<lparr>worker := b\<rparr>"
      by (simp add: fill_entry_body_def bind_reads bind_ok [where m = "send_message p ''nerve:fill-entry'' ?m" and s = s, OF a] raise_run)
    then show ?thesis by simp
  next
    case True
    let ?s = "s\<lparr>worker := b\<rparr>"
    let ?stage = "shouldStageSelectedEntry (ct_doc ?s) (ct_activeField ?s) (ct_suggestionsContext ?s)"
    obtain staged b2 where st: "stage_or_clear p ?stage (JNum i) ?s = (Inr staged, ?s\<lparr>worker := b2\<rparr>)"
      using stage_or_clear_reply [of p ?stage "JNum i" ?s] by blast
    let ?creds = "js_get_opt resp ''credentials''"
    let ?after = "\<lambda>result. seqc (if filled_password result then rememberFilledCredentials ?creds else ret ())
         (seqc hidePopover (showBannerStatus (successMessageForFill (filled_username result) ?stage)))"
    have body: "fill_entry_body p (JNum i) s =
        (if \<not> response_ok staged then raise (Error (error_text (js_get_opt staged ''error'')))
         else bind (fillCredentials ?creds (ct_suggestionsContext ?s)) ?after) (?s\<lparr>worker := b2\<rparr>)"
      by (simp only: fill_entry_body_def bind_reads bind_ok [where m = "send_message p ''nerve:fill-entry'' ?m" and s = s, OF a] True not_True_eq_False if_False prod.case bind_ok [where m = "stage_or_clear p ?stage (JNum i)" and s = ?s, OF st])
    show ?thesis
    proof (cases "response_ok staged")
      case False
      with assms body have "t = ?s\<lparr>worker := b2\<rparr>" by (simp only: raise_run if_True not_False_eq_True prod.inject)
      then show ?thesis by simp
    next
      case ok: True
      have k: "keeps ct_doc (?after x)" for x by (intro keeps_intros)
      from assms body ok have "bind (fillCredentials ?creds (ct_suggestionsContext ?s)) ?after (?s\<lparr>worker := b2\<rparr>) = (r, t)"
        by (simp only: if_False not_True_eq_False)
      from fill_then_doc [OF this k] have "ct_doc t = ct_doc s \<or> fill_from ?creds s (ct_doc t)"
        by (simp add: fill_from_worker)
      moreover have "released p (fill_request s i) s (js_get_opt resp ''status'') ?creds"
        using released_reply [OF rep [OF True] True] by (simp only: fill_request_def)
      ultimately show ?thesis by blast
    qed
  qed
qed

lemma staged_fill_doc:
  assumes "maybeCompleteStagedFill p s = (r, t)"
  shows "ct_doc t = ct_doc s \<or>
    (\<exists>creds. released p (staged_request s) s (JStr ''ready'') creds \<and> fill_from creds s (ct_doc t))"
proof (cases "Option.bind (password_field_now s) (field_at (ct_doc s))")
  case None
  with assms show ?thesis by (simp add: maybeCompleteStagedFill_def bind_reads ret_run)
next
  case (Some field)
  let ?m = "[(''page'', JObj [(''url'', JStr (loc_href (ct_location s))), (''hasVisiblePasswordField'', JBool True)])]"
  obtain resp b where a: "send_message p ''nerve:resolve-staged-fill'' ?m s = (Inr resp, s\<lparr>worker := b\<rparr>)"
    and rep: "response_ok resp \<Longrightarrow>
      onMessage p (JObj ((''type'', JStr ''nerve:resolve-staged-fill'') # ?m)) (content_sender s) (worker s) = (resp, b)"
    using send_message_reply [of p "''nerve:resolve-staged-fill''" ?m s] by blast
  let ?s = "s\<lparr>worker := b\<rparr>"
  let ?creds = "js_get_opt resp ''credentials''"
  let ?after = "\<lambda>result. if filled_password result then
         seqc (rememberFilledCredentials ?creds) (showBannerStatus (successMessageForFill (filled_username result) False))
       else ret ()"
  have body: "maybeCompleteStagedFill p s =
     (if \<not> response_ok resp then ret ()
      else if js_get_opt resp ''status'' \<in> {JStr ''none'', JStr ''waiting''} then ret ()
      else if js_get_opt resp ''status'' \<noteq> JStr ''ready'' then
        showBannerStatus (stagedFillBlockedMessage (to_str (js_get_opt resp ''status'')))
      else bind (reads (\<lambda>s. staged_context s field)) (\<lambda>context. bind (fillCredentials ?creds (Some context)) ?after)) ?s"
    by (simp only: maybeCompleteStagedFill_def bind_reads Some option.case bind_ok [where m = "send_message p ''nerve:resolve-staged-fill'' ?m" and s = s, OF a])
  show ?thesis
  proof (cases "response_ok resp \<and> js_get_opt resp ''status'' = JStr ''ready''")
    case False
    let ?rest = "if \<not> response_ok resp then ret ()
      else if js_get_opt resp ''status'' \<in> {JStr ''none'', JStr ''waiting''} then ret ()
      else showBannerStatus (stagedFillBlockedMessage (to_str (js_get_opt resp ''status'')))"
    from assms body False have "?rest ?s = (r, t)" by (auto split: if_splits)
    moreover have "keeps ct_doc ?rest" by (intro keeps_intros)
    ultimately have "ct_doc t = ct_doc ?s" by (rule keepsD [rotated])
    then show ?thesis by simp
  next
    case True
    have k: "keeps ct_doc (?after x)" for x by (intro keeps_intros)
    from assms body True have "bind (fillCredentials ?creds (Some (staged_context ?s field))) ?after ?s = (r, t)"
      by (simp add: bind_reads)
    from fill_then_doc [OF this k] have "ct_doc t = ct_doc s \<or> fill_from ?creds s (ct_doc t)"
      by (simp add: fill_from_worker)
    moreover have "released p (staged_request s) s (JStr ''ready'') ?creds"
      using released_reply [OF rep] True by (simp only: staged_request_def)
    ultimately show ?thesis by blast
  qed
qed

lemma direct_fill_then:
  assumes "direct_fill p m s = (r, t)"
  shows "\<exists>rf u. fillCredentials (js_or (js_get_opt m ''payload'') (JObj [])) (ct_activeContext s) s = (rf, u) \<and>
    ct_doc t = ct_doc u"
proof -
  let ?payload = "js_or (js_get_opt m ''payload'') (JObj [])"
  let ?entry = "js_get_opt ?payload ''entryId''"
  let ?after = "\<lambda>result. bind (stage_or_clear p (\<not> filled_password result \<and> truthy ?entry) ?entry) (\<lambda>stagedResponse.
      if \<not> response_ok stagedResponse then raise (Error (error_text (js_get_opt stagedResponse ''error'')))
      else seqc (if filled_password result then rememberFilledCredentials ?payload else ret ())
          (ret (JObj
            [(''ok'', JBool True),
             (''result'', JObj [(''filled'', JObj [(''username'', JBool (filled_username result)),
                                                   (''password'', JBool (filled_password result))])]),
             (''staged'', JBool (\<not> filled_password result \<and> truthy ?entry))])))"
  have k: "keeps ct_doc (?after x)" for x by (intro keeps_intros)
  have "bind (fillCredentials ?payload (ct_activeContext s)) ?after s = (r, t)"
    using assms by (simp only: direct_fill_def Let_def bind_reads)
  from fill_then [OF this k] show ?thesis .
qed

lemma direct_fill_doc:
  assumes "direct_fill p m s = (r, t)"
  shows "ct_doc t = ct_doc s \<or> fill_from (js_get_opt m ''payload'') s (ct_doc t)"
  using direct_fill_then [OF assms] fillCredentials_doc
  by (metis (no_types, lifting) fill_from_def js_get_opt_or_empty)

text \<open>The events that may change what the page's fields hold.\<close>

definition page_event :: "content_event \<Rightarrow> bool" where
  "page_event e \<longleftrightarrow> (case e of PageChanged _ \<Rightarrow> True | Typed _ _ \<Rightarrow> True | _ \<Rightarrow> False)"

lemma on_message_doc:
  assumes "content_onMessage p m s = (r, t)"
  shows "ct_doc t = ct_doc s \<or>
    js_get_opt m ''type'' = JStr ''fill_credentials'' \<and> fill_from (js_get_opt m ''payload'') s (ct_doc t)"
proof (cases "js_get_opt m ''type'' = JStr ''fill_credentials''")
  case True
  obtain r' u where u: "direct_fill p m s = (r', u)" by (cases "direct_fill p m s")
  with assms True have "ct_doc t = ct_doc u"
    by (cases r') (auto simp: content_onMessage_def error_reply_def run_simps)
  with direct_fill_doc [OF u] True show ?thesis by simp
next
  case False
  let ?ty = "js_get_opt m ''type''"
  have "content_onMessage p m =
      (if ?ty = JStr ''nerve:session-changed'' then
         bind (catch (seqc (handleSessionChanged p (js_get_opt m ''status'')) (ret (JObj [(''ok'', JBool True)])))
           (error_reply p)) (\<lambda>r. ret (Some r))
       else if ?ty = JStr ''kairo:get-page-capture'' then
         reads (\<lambda>s. Some (JObj [(''ok'', JBool True), (''capture'', pageCapturePayload s)]))
       else ret None)"
    unfolding content_onMessage_def Let_def using False by simp
  moreover have "keeps ct_doc \<dots>"
    unfolding error_reply_def by (intro keeps_intros)
  ultimately have "keeps ct_doc (content_onMessage p m)" by simp
  from keepsD [OF this assms] show ?thesis by simp
qed

lemma fill_click_doc:
  assumes "handleFillEntryAction p dataId s = (r, t)"
  shows "ct_doc t = ct_doc s \<or>
    (\<exists>i status creds. released p (fill_request s i) s status creds \<and> fill_from creds s (ct_doc t))"
proof (cases "parse_int_prefix dataId")
  case None
  with assms show ?thesis by (simp add: handleFillEntryAction_def ret_run)
next
  case (Some i)
  let ?s = "setBusy (''fill-entry:'' @ dataId) True s"
  obtain rb u where u: "fill_entry_body p (JNum i) ?s = (rb, u)" by (cases "fill_entry_body p (JNum i) ?s")
  have h: "keeps ct_doc (set_popover (InlineState ''error'' (error_message p e)))" for e by (rule keeps_intros)
  have "ct_doc t = ct_doc u"
  proof (cases rb)
    case (Inl e)
    obtain re v where v: "set_popover (InlineState ''error'' (error_message p e)) u = (re, v)"
      by (cases "set_popover (InlineState ''error'' (error_message p e)) u")
    from assms Some u Inl v have "ct_doc t = ct_doc v"
      by (auto simp: handleFillEntryAction_def seqc_run update_run finally_do_run catch_run setBusy_def)
    with keepsD [OF h v] show ?thesis by simp
  next
    case (Inr x)
    with assms Some u show ?thesis
      by (auto simp: handleFillEntryAction_def seqc_run update_run finally_do_run catch_run setBusy_def)
  qed
  moreover have "released p (fill_request ?s i) ?s = released p (fill_request s i) s" "fill_from c ?s = fill_from c s"
    "ct_doc ?s = ct_doc s" for c
    by (simp_all add: released_def fill_request_def content_sender_def fill_from_def setBusy_def fun_eq_iff)
  ultimately show ?thesis using fill_entry_doc [OF u] by metis
qed

lemma shadow_click_doc:
  assumes "handleShadowClick p x s = (r, t)"
  shows "ct_doc t = ct_doc s \<or>
    (\<exists>i status creds. released p (fill_request s i) s status creds \<and> fill_from creds s (ct_doc t))"
proof (cases "\<exists>d. x = Some (''fill-entry'', d)")
  case True
  then obtain d where "x = Some (''fill-entry'', d)" by blast
  with assms have "handleFillEntryAction p d s = (r, t)" by (simp add: handleShadowClick_def)
  from fill_click_doc [OF this] show ?thesis .
next
  case False
  then have "keeps ct_doc (handleShadowClick p x)"
    unfolding handleShadowClick_def by (cases x) (auto intro!: keeps_intros split: prod.split)
  from keepsD [OF this assms] show ?thesis by simp
qed

lemma event_doc:
  assumes "content_handler p e s = (r, t)" "\<not> page_event e"
  shows "ct_doc t = ct_doc s \<or>
    (\<exists>m. e = ExtensionMessage m \<and> js_get_opt m ''type'' = JStr ''fill_credentials'' \<and>
       fill_from (js_get_opt m ''payload'') s (ct_doc t)) \<or>
    (\<exists>i status creds. released p (fill_request s i) s status creds \<and> fill_from creds s (ct_doc t))"
proof -
  have keep: "ct_doc t = ct_doc s" if "keeps ct_doc (content_handler p e)"
    using keepsD [OF that assms(1)] .
  show ?thesis
  proof (cases e)
    case (ExtensionMessage m)
    obtain r' u where u: "content_onMessage p m s = (r', u)" by (cases "content_onMessage p m s")
    with assms(1) ExtensionMessage have "u = t"
      by (cases r') (simp_all add: content_handler_def seqc_run ret_run)
    with on_message_doc [OF u] ExtensionMessage show ?thesis by auto
  next
    case (ShadowClick x)
    with assms(1) have "handleShadowClick p x s = (r, t)" by (simp add: content_handler_def)
    from shadow_click_doc [OF this] show ?thesis by blast
  next
    case (LocationChanged l)
    have "keeps ct_doc (content_handler p e)"
      unfolding LocationChanged content_handler_def content_event.case
      by (intro keeps_intros keeps_modify) simp
    with keep show ?thesis by simp
  next
    case (TypedShadow i v)
    have "keeps ct_doc (content_handler p e)"
      unfolding TypedShadow content_handler_def content_event.case by (intro keeps_modify) simp
    with keep show ?thesis by simp
  qed (use assms(2) in \<open>auto intro!: keep keeps_intros simp: content_handler_def page_event_def\<close>)
qed


section \<open>A page with a login form\<close>

definition sample_content :: content where
  "sample_content =
     \<lparr>worker = sample_background, el_text = (\<lambda>_. []), el_class = (\<lambda>_. []), el_value = (\<lambda>_. []),
      el_hidden = (\<lambda>_. True), el_disabled = (\<lambda>_. False), el_html = (\<lambda>_. []), css_vars = [], page_log = [],
      tab_messages = [], clipboard = [],
      ct_tab = JNum 7, ct_doc = sample_page,
      ct_location = \<lparr>loc_href = ''https://vault.example/login'', loc_protocol = ''https:'',
        loc_hostname = ''vault.example'', loc_origin = ''https://vault.example''\<rparr>,
      ct_title = ''Sign in'', ct_focused = None, ct_hostFocused = False, ct_selection = None,
      ct_windowSelection = [],
      ct_styles = (\<lambda>_. \<lparr>backgroundColor = ''white'', color = ''black'', borderTopColor = [], borderTopRightRadius = ''4px''\<rparr>),
      ct_points = (\<lambda>_ _. []), ct_viewport = viewportRect None 800 600, ct_popoverHeight = 0,
      ct_activeField = None, ct_activeContext = None, ct_suggestionsContext = None, ct_pendingBanner = JNull,
      ct_lastFilled = None, ct_timers = [], ct_bound = [], ct_button = None, ct_popover = EmptyPopover,
      ct_popoverShown = False, ct_popoverPlace = None, ct_banner = EmptyBanner, ct_bannerShown = False\<rparr>"

theorem content_invariant_witness:
  "\<exists>t u r. content_run sample_vault sample_content t \<and>
     content_handler sample_vault (FocusMoved (Some 2)) t = (r, u) \<and> content_inv u"
proof -
  obtain r0 t where t: "content_initialize sample_vault sample_content = (r0, t)"
    by (cases "content_initialize sample_vault sample_content")
  obtain r u where u: "content_handler sample_vault (FocusMoved (Some 2)) t = (r, u)"
    by (cases "content_handler sample_vault (FocusMoved (Some 2)) t")
  have run: "content_run sample_vault sample_content t" by (rule content_started [OF t])
  have "content_run sample_vault sample_content u" by (rule content_more [OF run content_event [OF u]])
  from content_invariant [OF this] have "content_inv u" by (simp add: sample_content_def)
  with run u show ?thesis by blast
qed

definition sample_fill_message :: jsv where
  "sample_fill_message = JObj [(''type'', JStr ''fill_credentials''),
     (''payload'', JObj [(''username'', JStr ''ann''), (''password'', JStr ''pw'')])]"


end
