(* ===== verification/Lease.thy ===== *)
theory Lease
  imports Machine
begin

text \<open>
  What the worker of \<^verbatim>\<open>clients/nerve-extension/background.js\<close> promises about the account
  password, as an abstract machine: a vault that is locked, or unlocked until a time.  Every
  step of the worker is a step of that machine.
\<close>

section \<open>Frames over a preorder\<close>

text \<open>
  Every run of \<open>m\<close>, however it ends, goes from a state to a related one.  For a preorder the
  computations with that property are closed under the control flow of the source.
\<close>

definition relates :: "('s \<Rightarrow> 's \<Rightarrow> bool) \<Rightarrow> ('s, 'a) io \<Rightarrow> bool" where
  "relates R m \<longleftrightarrow> (\<forall>s. R s (snd (m s)))"

lemma relatesD: "relates R m \<Longrightarrow> m s = (r, t) \<Longrightarrow> R s t"
  unfolding relates_def by (metis snd_conv)

lemma relatesI: "(\<And>s r t. m s = (r, t) \<Longrightarrow> R s t) \<Longrightarrow> relates R m"
  unfolding relates_def by (metis prod.collapse)

lemma relates_cases:
  "(b \<Longrightarrow> relates R m) \<Longrightarrow> (\<not> b \<Longrightarrow> relates R n) \<Longrightarrow> relates R (if b then m else n)"
  "(v = None \<Longrightarrow> relates R m1) \<Longrightarrow> (\<And>x. v = Some x \<Longrightarrow> relates R (n1 x)) \<Longrightarrow>
     relates R (case v of None \<Rightarrow> m1 | Some x \<Rightarrow> n1 x)"
  "(\<And>e. relates R (m2 e)) \<Longrightarrow> (\<And>x. relates R (n2 x)) \<Longrightarrow> relates R (case r of Inl e \<Rightarrow> m2 e | Inr x \<Rightarrow> n2 x)"
  "(\<And>x. relates R (n3 x)) \<Longrightarrow> relates R (let x = v3 in n3 x)"
  by (simp_all add: Let_def split: option.split sum.split)

locale preorder_frame =
  fixes R :: "'s \<Rightarrow> 's \<Rightarrow> bool"
  assumes related_refl: "R s s"
    and related_trans: "R s t \<Longrightarrow> R t u \<Longrightarrow> R s u"
begin

lemma pure: "relates R (ret x)" "relates R (raise e)" "relates R (lift r)" "relates R (reads f)"
  by (simp_all add: relates_def run_simps related_refl)

lemma update: "(\<And>s. R s (f s)) \<Longrightarrow> relates R (update f)"
  by (simp add: relates_def run_simps)

lemma bind: "relates R m \<Longrightarrow> (\<And>x. relates R (n x)) \<Longrightarrow> relates R (bind m n)"
  by (rule relatesI) (auto simp: bind_run split: prod.splits sum.splits dest: relatesD related_trans)

lemma seqc: "relates R m \<Longrightarrow> relates R n \<Longrightarrow> relates R (seqc m n)"
  by (simp add: seqc_def bind)

lemma catch: "relates R m \<Longrightarrow> (\<And>e. relates R (h e)) \<Longrightarrow> relates R (catch m h)"
  by (rule relatesI) (auto simp: catch_run split: prod.splits sum.splits dest: relatesD related_trans)

lemmas rules = pure bind seqc catch relates_cases

end

section \<open>The abstract vault\<close>

datatype vault = Locked | Unlocked jsv int

datatype vault_event = Idle | Use | Open jsv | Close | Lock

definition lease :: int where "lease = VAULT_SESSION_IDLE_TIMEOUT_MS"

text \<open>
  A use leaves the vault as it is, renews it before its end, or locks it; opening and closing
  can be refused.
\<close>

fun vault_step :: "vault_event \<Rightarrow> int \<Rightarrow> vault \<Rightarrow> vault \<Rightarrow> bool" where
  "vault_step Idle now v v' \<longleftrightarrow> v' = v"
| "vault_step Use now v v' \<longleftrightarrow> v' = v \<or> v' = Locked \<or>
     (case v of Locked \<Rightarrow> False | Unlocked pw end \<Rightarrow> now < end \<and> v' = Unlocked pw (now + lease))"
| "vault_step (Open pw) now v v' \<longleftrightarrow> v' = v \<or> v' = (if truthy pw then Unlocked pw (now + lease) else Locked)"
| "vault_step Close now v v' \<longleftrightarrow> v' = v \<or> v' = Locked"
| "vault_step Lock now v v' \<longleftrightarrow> v' = Locked"

text \<open>The worker's state as a vault, and its events as the vault's.\<close>

definition vault_of :: "background \<Rightarrow> vault" where
  "vault_of b =
     (if truthy (sessionPassphrase b) then Unlocked (sessionPassphrase b) (sessionPassphraseExpiresAt b) else Locked)"

definition string_or_empty :: "jsv \<Rightarrow> jsv" where
  "string_or_empty v = (if is_str v then v else JStr [])"

definition message_event :: "jsv \<Rightarrow> vault_event" where
  "message_event message =
     (let type = str_of (js_get_opt message ''type'') in
      if type = ''nerve:unlock-session'' then Open (js_get_opt message ''passphrase'')
      else if type = ''nerve:set-session-passphrase''
      then Open (string_or_empty (js_get_opt message ''passphrase''))
      else if type = ''nerve:clear-session-passphrase'' then Close else Use)"

definition vault_event_of :: "event \<Rightarrow> vault_event" where
  "vault_event_of e =
     (case e of
        Message message sender \<Rightarrow> message_event message
      | TimerFires \<Rightarrow> Lock
      | WorkerRestart \<Rightarrow> Lock
      | _ \<Rightarrow> Idle)"

section \<open>Uses\<close>

definition vault_uses :: "background \<Rightarrow> background \<Rightarrow> bool" where
  "vault_uses b c \<longleftrightarrow> session_inv b \<longrightarrow>
     session_inv c \<and> clock c = clock b \<and> vault_step Use (clock b) (vault_of b) (vault_of c)"

lemma lease_pos: "0 < lease"
  by (simp add: lease_def VAULT_SESSION_IDLE_TIMEOUT_MS_def)

lemma use_trans: "vault_step Use now u v \<Longrightarrow> vault_step Use now v w \<Longrightarrow> vault_step Use now u w"
  using lease_pos by (auto split: vault.splits)

interpretation uses: preorder_frame vault_uses
proof unfold_locales
  fix s t u
  show "vault_uses s s" by (simp add: vault_uses_def)
  show "vault_uses s t \<Longrightarrow> vault_uses t u \<Longrightarrow> vault_uses s u"
    unfolding vault_uses_def by (metis use_trans)
qed

lemma vault_of_cong: "session_vars b = session_vars c \<Longrightarrow> vault_of b = vault_of c"
  by (simp add: session_vars_def vault_of_def)

lemma uses_keeps: "keeps session_vars m \<Longrightarrow> relates vault_uses m"
proof (rule relatesI)
  fix s r t assume "keeps session_vars m" "m s = (r, t)"
  then have v: "session_vars t = session_vars s" by (rule keepsD)
  then have "clock t = clock s" by (simp add: session_vars_def)
  with session_inv_cong [OF v] vault_of_cong [OF v] show "vault_uses s t" by (simp add: vault_uses_def)
qed

lemma locked_vault: "session_locked b \<Longrightarrow> vault_of b = Locked"
  by (simp add: session_locked_def vault_of_def)

lemma uses_clear: "relates vault_uses (clearRuntimeSessionPassphrase p bc)"
  by (rule relatesI) (auto simp: vault_uses_def session_inv_def locked_vault dest!: clear_locks)

lemma uses_current: "relates vault_uses (currentSessionPassphrase p)"
  unfolding currentSessionPassphrase_def expireSessionPassphraseIfNeeded_def
  by (intro uses.rules uses_clear)

text \<open>Renewing is a use when the password has just been read.\<close>

lemma schedule_uses:
  assumes "session_armed b" "clock b < sessionPassphraseExpiresAt b"
    and "scheduleSessionPassphraseExpiry p b = (r, c)"
  shows "vault_uses b c"
proof -
  from assms(1) have t: "truthy (sessionPassphrase b)" by (simp add: session_armed_def)
  with schedule_arms [OF assms(3)] have c: "session_vars c = (sessionPassphrase b, clock b + VAULT_SESSION_IDLE_TIMEOUT_MS,
      Some (clock b + VAULT_SESSION_IDLE_TIMEOUT_MS), clock b)" "clock c = clock b"
    by auto
  then have "vault_of c = Unlocked (sessionPassphrase b) (clock b + lease)" "vault_of b = Unlocked (sessionPassphrase b) (sessionPassphraseExpiresAt b)"
    using t by (auto simp: vault_of_def session_vars_def lease_def)
  with assms(2) c(2) schedule_inv [OF assms(3)] show ?thesis
    by (auto simp: vault_uses_def session_inv_def)
qed

lemma uses_with_password:
  assumes "relates vault_uses m" "relates vault_uses n"
    and "\<And>key. relates vault_uses (after key)"
  shows "relates vault_uses
    (bind (currentSessionPassphrase p) (\<lambda>pw. if \<not> truthy pw then m
      else case key_of pw of Inl e \<Rightarrow> n | Inr key \<Rightarrow> seqc (scheduleSessionPassphraseExpiry p) (after key)))"
proof (rule relatesI)
  fix s r t
  let ?k = "\<lambda>pw. if \<not> truthy pw then m
      else case key_of pw of Inl e \<Rightarrow> n | Inr key \<Rightarrow> seqc (scheduleSessionPassphraseExpiry p) (after key)"
  assume run: "bind (currentSessionPassphrase p) ?k s = (r, t)"
  obtain rc u where u: "currentSessionPassphrase p s = (rc, u)" by (cases "currentSessionPassphrase p s")
  have su: "vault_uses s u" by (rule relatesD [OF uses_current u])
  show "vault_uses s t"
  proof (cases rc)
    case (Inl e)
    with run u su show ?thesis by (simp add: bind_run)
  next
    case (Inr pw)
    with run u have k: "?k pw u = (r, t)" by (simp add: bind_run)
    show ?thesis
    proof (cases "session_inv s \<and> truthy pw \<and> (\<exists>key. key_of pw = Inr key)")
      case False
      then consider "\<not> session_inv s" | "?k pw = m \<or> ?k pw = n" by (cases "key_of pw") auto
      then show ?thesis
      proof cases
        case 1
        then show ?thesis by (simp add: vault_uses_def)
      next
        case 2
        with k assms(1,2) have "vault_uses u t" by (auto dest: relatesD)
        with su show ?thesis by (rule uses.related_trans)
      qed
    next
      case True
      then obtain key where key: "key_of pw = Inr key" by blast
      from current_passphrase [of p s pw u] u Inr True
      have armed: "u = s" "clock s < sessionPassphraseExpiresAt s" "session_armed s" by auto
      obtain rs v where v: "scheduleSessionPassphraseExpiry p s = (rs, v)" by (cases "scheduleSessionPassphraseExpiry p s")
      have "rs = Inr ()" using schedule_arms [OF v] by simp
      with k key True armed v have "after key v = (r, t)" by (simp add: seqc_run)
      then have "vault_uses v t" by (rule relatesD [OF assms(3)])
      with schedule_uses [OF armed(3,2) v] show ?thesis by (rule uses.related_trans)
    qed
  qed
qed

lemma uses_getNerveSession: "relates vault_uses (getNerveSession p)"
  unfolding getNerveSession_def Let_def
  by (intro uses.rules uses_with_password uses_clear uses_keeps [OF keeps_settings] uses_keeps [OF keeps_calls(1)])

section \<open>Messages\<close>

lemmas uses_world = keeps_storage [THEN uses_keeps] keeps_fetch [THEN uses_keeps] keeps_pending [THEN uses_keeps]
  keeps_staged [THEN uses_keeps] keeps_settings [THEN uses_keeps] keeps_encryptValue [THEN uses_keeps]
  keeps_broadcast [THEN uses_keeps] keeps_calls [THEN uses_keeps] keeps_openManagerPage [THEN uses_keeps]
  keeps_loadEntryCredentials [THEN uses_keeps]

lemma uses_readers:
  "relates vault_uses (inlineState p)" "relates vault_uses (themeState p)"
  "relates vault_uses (suggestions p url q)" "relates vault_uses (fillEntry p i url)"
  "relates vault_uses (stageEntryFill p i payload)" "relates vault_uses (resolveStagedFill p i page)"
  "relates vault_uses (recordSubmission i payload)" "relates vault_uses (resolvePendingSave p i page)"
  "relates vault_uses (savePendingEntry p i payload)"
  unfolding inlineState_def themeState_def suggestions_def fillEntry_def stageEntryFill_def resolveStagedFill_def
    recordSubmission_def resolvePendingSave_def savePendingEntry_def Let_def
  by (intro uses.rules uses_getNerveSession uses_world)+

lemma uses_content:
  assumes "map_of (content_messages p message tabId) type = Some h" "type \<noteq> ''nerve:unlock-session''"
  shows "relates vault_uses h"
proof -
  define rest where "rest = butlast (content_messages p message tabId)"
  have all: "content_messages p message tabId =
      rest @ [(''nerve:unlock-session'', unlockSession p (js_get_opt message ''passphrase''))]"
    by (simp add: rest_def content_messages_def)
  have "list_all (\<lambda>kh. relates vault_uses (snd kh)) rest"
    unfolding rest_def content_messages_def butlast.simps
    by (simp only: list.distinct if_False if_True refl list.pred_inject snd_conv)
      (intro conjI TrueI uses.rules uses_readers uses_world)
  moreover have "(type, h) \<in> set (rest @ [(''nerve:unlock-session'', unlockSession p (js_get_opt message ''passphrase''))])"
    using map_of_SomeD [OF assms(1)] unfolding all .
  then have "(type, h) \<in> set rest" using assms(2) by (simp only: set_append Un_iff list.set insert_iff empty_iff prod.inject) blast
  ultimately show ?thesis by (auto simp: list_all_iff)
qed

lemma uses_page:
  assumes "map_of (page_messages p message) type = Some h"
    and "type \<noteq> ''nerve:set-session-passphrase''" "type \<noteq> ''nerve:clear-session-passphrase''"
  shows "relates vault_uses h"
  using assms
  by (auto simp: page_messages_def split: if_splits intro: uses.rules uses_current)

text \<open>The two messages that open the vault.\<close>

definition opens :: "jsv \<Rightarrow> 'a bg \<Rightarrow> bool" where
  "opens v m \<longleftrightarrow> (\<forall>b. vault_step (Open v) (clock b) (vault_of b) (vault_of (snd (m b))))"

lemma opensD: "opens v m \<Longrightarrow> m b = (r, c) \<Longrightarrow> vault_step (Open v) (clock b) (vault_of b) (vault_of c)"
  unfolding opens_def by (metis snd_conv)

lemma opensI: "(\<And>b r c. m b = (r, c) \<Longrightarrow> vault_step (Open v) (clock b) (vault_of b) (vault_of c)) \<Longrightarrow> opens v m"
  unfolding opens_def by (metis prod.collapse)

lemma opens_keeps: "keeps session_vars m \<Longrightarrow> opens v m"
  by (rule opensI) (auto dest!: keepsD vault_of_cong)

lemma opens_bind: "keeps session_vars m \<Longrightarrow> (\<And>x. opens v (n x)) \<Longrightarrow> opens v (bind m n)"
proof (rule opensI)
  fix b r c
  assume k: "keeps session_vars m" and n: "\<And>x. opens v (n x)" and run: "bind m n b = (r, c)"
  obtain rm d where d: "m b = (rm, d)" by (cases "m b")
  from keepsD [OF k d] have s: "clock d = clock b" "vault_of d = vault_of b"
    by (simp_all add: session_vars_def vault_of_def)
  show "vault_step (Open v) (clock b) (vault_of b) (vault_of c)"
  proof (cases rm)
    case (Inl e)
    with run d s show ?thesis by (simp add: bind_run)
  next
    case (Inr x)
    with run d have "n x d = (r, c)" by (simp add: bind_run)
    from opensD [OF n this] s show ?thesis by simp
  qed
qed

lemma opens_arm:
  assumes "storage_ok p" "keeps session_vars m"
  shows "opens v (arm p v m)"
proof (rule opensI)
  fix b r c
  assume run: "arm p v m b = (r, c)"
  let ?b = "b\<lparr>sessionPassphrase := v\<rparr>"
  obtain b1 where b1: "clearSessionPassphrase p ?b = (Inr (), b1)"
    using is_ok_unit [of "clearSessionPassphrase p ?b"] clearSessionPassphrase_ok [OF assms(1), of ?b] by (metis is_ok_simps(1))
  have v1: "session_vars b1 = session_vars ?b" by (rule keepsD [OF keeps_clearSessionPassphrase b1])
  obtain r2 b2 where b2: "scheduleSessionPassphraseExpiry p b1 = (r2, b2)" by (cases "scheduleSessionPassphraseExpiry p b1")
  note arms = schedule_arms [OF b2]
  have "r2 = Inr ()" using arms by (rule conjunct1)
  then have "m b2 = (r, c)" using run b1 b2 by (simp add: arm_def run_simps)
  then have "vault_of c = vault_of b2" by (rule vault_of_cong [OF keepsD [OF assms(2)]])
  moreover have "vault_of b2 = (if truthy v then Unlocked v (clock b + lease) else Locked)"
  proof -
    from v1 have "sessionPassphrase b1 = v" "clock b1 = clock b" by (simp_all add: session_vars_def)
    with arms locked_vault [of b2] show ?thesis
      by (cases "truthy v") (simp_all add: session_vars_def vault_of_def lease_def)
  qed
  ultimately show "vault_step (Open v) (clock b) (vault_of b) (vault_of c)" by simp
qed

lemma opens_cases:
  "(b \<Longrightarrow> opens v m) \<Longrightarrow> (\<not> b \<Longrightarrow> opens v n) \<Longrightarrow> opens v (if b then m else n)"
  "(\<And>e. opens v (m2 e)) \<Longrightarrow> (\<And>x. opens v (n2 x)) \<Longrightarrow> opens v (case r of Inl e \<Rightarrow> m2 e | Inr x \<Rightarrow> n2 x)"
  by (simp_all split: sum.split)

lemma opens_unlock: "storage_ok p \<Longrightarrow> opens v (unlockSession p v)"
  unfolding arm_unlock
  by (intro opens_bind opens_cases opens_arm keeps_intros) (intro opens_keeps keeps_intros)+

lemma opens_set: "storage_ok p \<Longrightarrow> opens (string_or_empty v) (setSessionPassphrase p v)"
  unfolding setSessionPassphrase_def arm_def [symmetric] string_or_empty_def by (intro opens_arm keeps_intros)

section \<open>The refinement\<close>

lemma lift_then_step:
  assumes "bind (lift r0) (\<lambda>_. h) b = (r, c)"
  shows "c = b \<or> h b = (r, c)"
  using assms by (cases r0) (auto simp: bind_run lift_run)

lemma content_only:
  "map_of (content_messages p message i) ''nerve:set-session-passphrase'' = None"
  "map_of (content_messages p message i) ''nerve:clear-session-passphrase'' = None"
  "map_of (content_messages p message i) ''nerve:unlock-session'' = Some (unlockSession p (js_get_opt message ''passphrase''))"
  by (simp_all add: content_messages_def)

lemma page_only:
  "map_of (page_messages p message) ''nerve:set-session-passphrase'' = Some (setSessionPassphrase p (js_get_opt message ''passphrase''))"
  "map_of (page_messages p message) ''nerve:clear-session-passphrase'' =
     Some (seqc (clearRuntimeSessionPassphrase p True) (ret [(''cleared'', JBool True)]))"
  by (simp_all add: page_messages_def)

lemma stays: "ev \<noteq> Lock \<Longrightarrow> vault_step ev now v v"
  by (cases ev) simp_all

lemma message_not_lock: "message_event message \<noteq> Lock"
  by (simp add: message_event_def Let_def)

lemma content_step_ok:
  assumes ok: "storage_ok p" and inv: "session_inv b" and h: "h b = (r, c)"
    and handler: "map_of (content_messages p message i) (str_of (js_get_opt message ''type'')) = Some h"
  shows "vault_step (message_event message) (clock b) (vault_of b) (vault_of c)"
proof (cases "str_of (js_get_opt message ''type'') = ''nerve:unlock-session''")
  case True
  with handler have u: "h = unlockSession p (js_get_opt message ''passphrase'')" by (simp only: content_only option.inject)
  from True have "message_event message = Open (js_get_opt message ''passphrase'')"
    by (simp only: message_event_def Let_def refl if_True)
  with opensD [OF opens_unlock [OF ok] h [unfolded u]] show ?thesis by simp
next
  case False
  have "str_of (js_get_opt message ''type'') \<noteq> ''nerve:set-session-passphrase''"
    "str_of (js_get_opt message ''type'') \<noteq> ''nerve:clear-session-passphrase''"
    using handler content_only by (metis option.distinct(1))+
  with False have "message_event message = Use" by (simp only: message_event_def Let_def if_False)
  with relatesD [OF uses_content [OF handler False] h] inv show ?thesis by (simp only: vault_uses_def)
qed

lemma page_step_ok:
  assumes ok: "storage_ok p" and inv: "session_inv b" and h: "h b = (r, c)"
    and "str_of (js_get_opt message ''type'') \<noteq> ''nerve:unlock-session''"
    and handler: "map_of (page_messages p message) (str_of (js_get_opt message ''type'')) = Some h"
  shows "vault_step (message_event message) (clock b) (vault_of b) (vault_of c)"
proof -
  let ?type = "str_of (js_get_opt message ''type'')"
  consider (set) "?type = ''nerve:set-session-passphrase''" | (clear) "?type = ''nerve:clear-session-passphrase''"
    | (get) "?type \<noteq> ''nerve:set-session-passphrase''" "?type \<noteq> ''nerve:clear-session-passphrase''" by blast
  then show ?thesis
  proof cases
    case set
    with handler have u: "h = setSessionPassphrase p (js_get_opt message ''passphrase'')" by (simp only: page_only option.inject)
    from set have "message_event message = Open (string_or_empty (js_get_opt message ''passphrase''))"
      by (simp add: message_event_def)
    with opensD [OF opens_set [OF ok] h [unfolded u]] show ?thesis by simp
  next
    case clear
    with handler have u: "h = seqc (clearRuntimeSessionPassphrase p True) (ret [(''cleared'', JBool True)])"
      by (simp only: page_only option.inject)
    have "vault_of c = Locked"
      using h [unfolded u] by (auto simp: seqc_run ret_run split: prod.splits sum.splits dest!: clear_locks locked_vault)
    moreover have "message_event message = Close" using clear by (simp add: message_event_def)
    ultimately show ?thesis by simp
  next
    case get
    with assms(4) have "message_event message = Use" by (simp only: message_event_def Let_def if_False)
    with relatesD [OF uses_page [OF handler get] h] inv show ?thesis by (simp only: vault_uses_def)
  qed
qed

lemma handleMessage_step:
  assumes ok: "storage_ok p" and inv: "session_inv b" and run: "handleMessage p message sender b = (r, c)"
  shows "vault_step (message_event message) (clock b) (vault_of b) (vault_of c)"
proof -
  let ?type = "str_of (js_get_opt message ''type'')" and ?tab = "js_get_opt (js_get_opt sender ''tab'') ''id''"
  note same = stays [OF message_not_lock]
  show ?thesis
  proof (cases "?type = ''ui:open-options''")
    case True
    with run have "seqc (update (\<lambda>b. b\<lparr>ui_log := ui_log b @ [OpenOptionsPage]\<rparr>)) (ret [(''opened'', JBool True)]) b = (r, c)"
      by (simp only: handleMessage_def Let_def refl if_True)
    then have "session_vars c = session_vars b" by (auto simp: run_simps session_vars_def)
    then have "vault_of c = vault_of b" by (rule vault_of_cong)
    with same show ?thesis by simp
  next
    case other: False
    show ?thesis
    proof (cases "map_of (content_messages p message ?tab) ?type")
      case (Some h)
      with run other have "bind (lift (assertContentScriptSender p sender)) (\<lambda>_. h) b = (r, c)"
        by (simp only: handleMessage_def Let_def if_False option.case)
      from lift_then_step [OF this] content_step_ok [OF ok inv _ Some] same show ?thesis by auto
    next
      case none: None
      show ?thesis
      proof (cases "map_of (page_messages p message) ?type")
        case None
        with run other none have "raise (Error ''Unsupported message type.'') b = (r, c)"
          by (simp only: handleMessage_def Let_def if_False option.case)
        with same show ?thesis by (simp add: raise_run)
      next
        case (Some h)
        with run other none have "bind (lift (assertExtensionPageSender p sender)) (\<lambda>_. h) b = (r, c)"
          by (simp only: handleMessage_def Let_def if_False option.case)
        moreover have "?type \<noteq> ''nerve:unlock-session''" using none content_only(3) by (metis option.distinct(1))
        ultimately show ?thesis using lift_then_step page_step_ok [OF ok inv _ _ Some] same by metis
      qed
    qed
  qed
qed

lemma message_event_or: "message_event (js_or message (JObj [])) = message_event message"
  unfolding message_event_def js_get_opt_or_empty ..

lemma onMessage_step:
  assumes "storage_ok p" "session_inv b" "onMessage p message sender b = (reply, c)"
  shows "vault_step (message_event message) (clock b) (vault_of b) (vault_of c)"
proof -
  obtain r where "handleMessage p (js_or message (JObj [])) sender b = (r, c)"
    using assms(3) by (cases "handleMessage p (js_or message (JObj [])) sender b") (auto simp: onMessage_def split: sum.splits)
  from handleMessage_step [OF assms(1,2) this] show ?thesis by (simp only: message_event_or)
qed



end
