(* ===== verification/SiteCrypto.thy ===== *)
theory SiteCrypto
  imports Crypto
begin

text \<open>
  \<^verbatim>\<open>apps/elektrine/assets/js/hooks/vault_crypto.js\<close>: the web application's side of the
  cryptography the extension's \<^verbatim>\<open>lib/crypto.js\<close> reads: wrapping of the master data key under
  a secret, the feature keys, encrypted values and the recovery code.  The constants, the
  base64 loops, \<^verbatim>\<open>stableJson\<close> and \<^verbatim>\<open>deriveWrappingKey\<close> are the same text in both files and are
  shared here; what differs, the checks on a payload's shape, has definitions of its own.
  The lemmas show that what one side writes the other side reads.
\<close>

section \<open>Wrapping\<close>

definition MIN_PASSPHRASE_LENGTH :: nat where "MIN_PASSPHRASE_LENGTH = 14"

definition wrapped_payload :: "bytes \<Rightarrow> bytes \<Rightarrow> bytes \<Rightarrow> jsv" where
  "wrapped_payload salt iv ciphertext =
     JObj [(''version'', JNum VERSION),
           (''algorithm'', JStr ALGORITHM),
           (''kdf'', JStr KDF),
           (''iterations'', JNum PBKDF2_ITERATIONS),
           (''salt'', JStr (bytesToBase64 salt)),
           (''iv'', JStr (bytesToBase64 iv)),
           (''ciphertext'', JStr (bytesToBase64 ciphertext))]"

definition encrypt_op :: "platform \<Rightarrow> bytes \<Rightarrow> bytes \<Rightarrow> bytes option \<Rightarrow> bytes \<Rightarrow> bytes result" where
  "encrypt_op p key iv ad plaintext =
     (case gcm_encrypt p key iv ad plaintext of None \<Rightarrow> Inl OperationError | Some c \<Rightarrow> Inr c)"

definition wrapWithSecret :: "platform \<Rightarrow> bytes \<Rightarrow> string \<Rightarrow> ('a world_scheme, jsv) io" where
  "wrapWithSecret p plaintextBytes secret =
     bind (random_bytes p 16) (\<lambda>salt.
     bind (random_bytes p 12) (\<lambda>iv.
     bind (lift (deriveWrappingKey p secret salt PBKDF2_ITERATIONS)) (\<lambda>key.
     bind (lift (encrypt_op p key iv None plaintextBytes)) (\<lambda>ciphertext.
     ret (wrapped_payload salt iv ciphertext)))))"

text \<open>
  \<^verbatim>\<open>Number(payload.iterations)\<close> as WebCrypto takes it: an \<^verbatim>\<open>unsigned long\<close> whose range is
  enforced.  No shape is checked first: a property that is missing reaches \<^verbatim>\<open>atob\<close> as the text
  \<^verbatim>\<open>undefined\<close>.
\<close>

definition kdf_iterations :: "jsv \<Rightarrow> int result" where
  "kdf_iterations v =
     (case js_to_num v of
        None \<Rightarrow> Inl TypeError
      | Some n \<Rightarrow> if 0 \<le> n \<and> n < 2 ^ 32 then Inr n else Inl TypeError)"

definition base64_property :: "jsv \<Rightarrow> string \<Rightarrow> bytes result" where
  "base64_property payload key = res_bind (js_get payload key) (\<lambda>v. base64ToBytes (to_str v))"

definition site_unwrapWithSecret :: "platform \<Rightarrow> jsv \<Rightarrow> string \<Rightarrow> bytes result" where
  "site_unwrapWithSecret p payload secret =
     res_bind (base64_property payload ''salt'') (\<lambda>salt.
     res_bind (base64_property payload ''iv'') (\<lambda>iv.
     res_bind (base64_property payload ''ciphertext'') (\<lambda>ciphertext.
     res_bind (kdf_iterations (js_get_opt payload ''iterations'')) (\<lambda>iterations.
     res_bind (deriveWrappingKey p secret salt iterations) (\<lambda>key.
     decrypt_op p key iv None ciphertext)))))"

section \<open>The master data key and the feature keys\<close>

definition generateMdk :: "platform \<Rightarrow> ('a world_scheme, bytes) io" where
  "generateMdk p = random_bytes p 32"

definition site_deriveFeatureKey :: "platform \<Rightarrow> bytes \<Rightarrow> string \<Rightarrow> bytes result" where
  "site_deriveFeatureKey p mdkBytes feature =
     (case hkdf_key p mdkBytes (encode_text (HKDF_PREFIX @ feature)) of
        None \<Rightarrow> Inl OperationError
      | Some key \<Rightarrow> Inr key)"

definition deriveFeatureHmacKey :: "platform \<Rightarrow> bytes \<Rightarrow> string \<Rightarrow> bytes result" where
  "deriveFeatureHmacKey p mdkBytes feature =
     (case hkdf_key p mdkBytes (encode_text (HKDF_PREFIX @ feature @ '':hmac'')) of
        None \<Rightarrow> Inl OperationError
      | Some key \<Rightarrow> Inr key)"

section \<open>Values\<close>

definition site_encryptValue :: "platform \<Rightarrow> string \<Rightarrow> bytes \<Rightarrow> jsv \<Rightarrow> ('a world_scheme, jsv) io" where
  "site_encryptValue p plaintext key associatedData =
     bind (random_bytes p 12) (\<lambda>iv.
     bind (lift (encrypt_op p key iv (aesGcmParams associatedData) (encode_text plaintext))) (\<lambda>ciphertext.
     ret (JObj [(''version'', JNum VERSION),
                (''algorithm'', JStr ALGORITHM),
                (''iv'', JStr (bytesToBase64 iv)),
                (''ciphertext'', JStr (bytesToBase64 ciphertext))])))"

definition site_decryptValue :: "platform \<Rightarrow> jsv \<Rightarrow> bytes \<Rightarrow> jsv \<Rightarrow> string result" where
  "site_decryptValue p payload key associatedData =
     res_bind (base64_property payload ''iv'') (\<lambda>iv.
     res_bind (base64_property payload ''ciphertext'') (\<lambda>ciphertext.
     res_bind (decrypt_op p key iv (aesGcmParams associatedData) ciphertext) (\<lambda>plaintext.
     Inr (decode_text plaintext))))"

text \<open>
  \<^verbatim>\<open>b.toString(16).padStart(2, "0")\<close>, and the hexadecimal text of an HMAC; \<open>hmac\<close> is
  WebCrypto's HMAC-SHA256 under a key.
\<close>

definition hex_text :: "nat \<Rightarrow> string" where
  "hex_text n = (if n < 16 then [hex_digit n] else [hex_digit (n div 16), hex_digit (n mod 16)])"

definition pad_start :: "nat \<Rightarrow> char \<Rightarrow> string \<Rightarrow> string" where
  "pad_start n c s = replicate (n - length s) c @ s"

definition hmacHex :: "(bytes \<Rightarrow> bytes \<Rightarrow> bytes) \<Rightarrow> string \<Rightarrow> bytes \<Rightarrow> string" where
  "hmacHex hmac message hmacKey =
     concat (map (\<lambda>b. pad_start 2 (CHR ''0'') (hex_text (unat b))) (hmac hmacKey (encode_text message)))"

section \<open>The recovery code\<close>

unbundle bit_operations_syntax

definition RECOVERY_ALPHABET :: string where
  "RECOVERY_ALPHABET = ''ABCDEFGHJKLMNPQRSTUVWXYZ23456789''"

definition recovery_pair :: "8 word \<Rightarrow> string" where
  "recovery_pair byte =
     [RECOVERY_ALPHABET ! unat (byte AND 31), RECOVERY_ALPHABET ! unat (drop_bit 3 byte AND 31)]"

definition recovery_letters :: "bytes \<Rightarrow> string" where
  "recovery_letters bs = foldl (\<lambda>out byte. out @ recovery_pair byte) [] bs"

text \<open>\<^verbatim>\<open>out.match(/.{1,4}/g)\<close>, for text without line breaks.\<close>

fun groups4 :: "string \<Rightarrow> string list" where
  "groups4 s = (if s = [] then [] else take 4 s # groups4 (drop 4 s))"

declare groups4.simps [simp del]

definition recovery_text :: "bytes \<Rightarrow> string" where
  "recovery_text bs = join ''-'' (groups4 (recovery_letters bs))"

definition generateRecoveryCode :: "platform \<Rightarrow> ('a world_scheme, string) io" where
  "generateRecoveryCode p = bind (random_bytes p 32) (\<lambda>bs. ret (recovery_text bs))"

definition upper_char :: "char \<Rightarrow> char" where
  "upper_char c =
     (if (97::nat) \<le> of_char c \<and> of_char c \<le> (122::nat) then char_of (of_char c - (32::nat)) else c)"

definition code_char :: "char \<Rightarrow> bool" where
  "code_char c \<longleftrightarrow> is_upper c \<or> is_digit c"

definition normalizeRecoveryCode :: "string \<Rightarrow> string" where
  "normalizeRecoveryCode value = filter code_char (map upper_char value)"

section \<open>What one side writes, the other side reads\<close>

lemma wrapWithSecret_run:
  "wrapWithSecret p m secret w =
     (let salt = map (random_byte p) [random_used w ..< random_used w + 16];
          iv = map (random_byte p) [random_used w + 16 ..< random_used w + 28];
          w' = w\<lparr>random_used := random_used w + 28\<rparr> in
      (res_bind (deriveWrappingKey p secret salt PBKDF2_ITERATIONS) (\<lambda>key.
       res_bind (encrypt_op p key iv None m) (\<lambda>c. Inr (wrapped_payload salt iv c))), w'))"
  by (simp add: wrapWithSecret_def run_simps Let_def add.commute [of "random_used w" 28] split: sum.split)

lemma wrapWithSecret_ok:
  assumes "wrapWithSecret p m secret w = (Inr payload, t)"
  obtains salt iv c key where "payload = wrapped_payload salt iv c" "length salt = 16" "length iv = 12"
    "pbkdf2_key p (encode_text secret) salt PBKDF2_ITERATIONS = Some key" "gcm_encrypt p key iv None m = Some c"
proof -
  let ?salt = "map (random_byte p) [random_used w ..< random_used w + 16]"
    and ?iv = "map (random_byte p) [random_used w + 16 ..< random_used w + 28]"
  from assms obtain key c where "payload = wrapped_payload ?salt ?iv c"
    "pbkdf2_key p (encode_text secret) ?salt PBKDF2_ITERATIONS = Some key" "gcm_encrypt p key ?iv None m = Some c"
    by (auto simp: wrapWithSecret_run Let_def res_bind_eq_Inr deriveWrappingKey_def encrypt_op_def split: option.splits)
  then show thesis using that [of ?salt ?iv c key] by simp
qed

lemma wrapWithSecret_frame: "wrapWithSecret p m secret w = (r, t) \<Longrightarrow> t = w\<lparr>random_used := random_used w + 28\<rparr>"
  by (auto simp: wrapWithSecret_run Let_def)

lemma wrapped_payload_shape [simp]: "isWrappedPayload (wrapped_payload salt iv c)"
  by (simp add: isWrappedPayload_def isClientPayload_def wrapped_payload_def)

lemma wrapped_payload_fields [simp]:
  "js_get (wrapped_payload salt iv c) ''salt'' = Inr (JStr (btoa salt))"
  "js_get (wrapped_payload salt iv c) ''iv'' = Inr (JStr (btoa iv))"
  "js_get (wrapped_payload salt iv c) ''ciphertext'' = Inr (JStr (btoa c))"
  "js_get_opt (wrapped_payload salt iv c) ''salt'' = JStr (btoa salt)"
  "js_get_opt (wrapped_payload salt iv c) ''iv'' = JStr (btoa iv)"
  "js_get_opt (wrapped_payload salt iv c) ''ciphertext'' = JStr (btoa c)"
  "js_get_opt (wrapped_payload salt iv c) ''iterations'' = JNum PBKDF2_ITERATIONS"
  by (simp_all add: wrapped_payload_def js_get_def)

lemma wrapped_keys_plain:
  "array_index ''version'' = None" "array_index ''algorithm'' = None" "array_index ''kdf'' = None"
  "array_index ''iterations'' = None" "array_index ''salt'' = None" "array_index ''iv'' = None"
  "array_index ''ciphertext'' = None"
  by code_simp+

lemma wrapped_payload_json [simp]: "json_ok (wrapped_payload salt iv c)"
  by (simp add: wrapped_payload_def obj_ok_fresh wrapped_keys_plain)

lemma client_payload_json [simp]: "json_ok (client_payload iv c)"
  by (simp add: client_payload_def obj_ok_fresh wrapped_keys_plain)

lemma kdf_iterations_own [simp]: "kdf_iterations (JNum PBKDF2_ITERATIONS) = Inr PBKDF2_ITERATIONS"
  by (simp add: kdf_iterations_def PBKDF2_ITERATIONS_def)

text \<open>The extension and the web application unwrap what the web application wrapped.\<close>

lemma unwrap_wrapped:
  assumes "gcm_correct p" "wrapWithSecret p m secret w = (Inr payload, t)"
  shows "isWrappedPayload payload \<and> json_ok payload \<and> unwrapWithSecret p payload secret = Inr m \<and>
    site_unwrapWithSecret p payload secret = Inr m"
proof -
  from assms(2) obtain salt iv c key where p: "payload = wrapped_payload salt iv c"
    and key: "pbkdf2_key p (encode_text secret) salt PBKDF2_ITERATIONS = Some key" and c: "gcm_encrypt p key iv None m = Some c"
    by (rule wrapWithSecret_ok)
  from assms(1) c have "gcm_decrypt p key iv None c = Some m" by (auto simp: gcm_correct_def)
  with key show ?thesis
    by (simp add: p unwrapWithSecret_def site_unwrapWithSecret_def base64_property_def atob_btoa deriveWrappingKey_def decrypt_op_def)
qed

text \<open>A payload the extension accepts means the same to the web application.\<close>

lemma site_unwrap_agrees:
  assumes "isWrappedPayload payload" "kdf_iterations (js_get_opt payload ''iterations'') = Inr n"
  shows "site_unwrapWithSecret p payload secret = unwrapWithSecret p payload secret"
proof -
  from assms(1) obtain a b c i where f: "js_get_opt payload ''salt'' = JStr a" "js_get_opt payload ''iv'' = JStr b"
    "js_get_opt payload ''ciphertext'' = JStr c" "js_get_opt payload ''iterations'' = JNum i" and t: "truthy payload"
    by (auto simp: isWrappedPayload_def isClientPayload_def elim!: is_str.elims is_num.elims)
  have g: "js_get payload k = Inr (js_get_opt payload k)" for k using t by (cases payload) (auto simp: js_get_def)
  have "n = i" using assms(2) f(4) by (auto simp: kdf_iterations_def split: if_splits)
  then show ?thesis
    using assms by (simp add: site_unwrapWithSecret_def unwrapWithSecret_def base64_property_def g f)
qed

lemma site_deriveFeatureKey_eq: "site_deriveFeatureKey = deriveFeatureKey"
  by (simp add: fun_eq_iff site_deriveFeatureKey_def deriveFeatureKey_def)

lemma site_encryptValue_eq: "site_encryptValue p s key ad w = encryptValue p s key ad w"
  by (simp add: site_encryptValue_def encryptValue_def client_payload_def run_simps encrypt_op_def
      split: option.split)

lemma site_decryptValue_agrees:
  assumes "isClientPayload payload"
  shows "site_decryptValue p payload key ad = decryptValue p payload key ad"
proof -
  from assms obtain b c where f: "js_get_opt payload ''iv'' = JStr b" "js_get_opt payload ''ciphertext'' = JStr c"
    by (auto simp: isClientPayload_def elim!: is_str.elims)
  have g: "js_get payload k = Inr (js_get_opt payload k)" for k
    using assms by (cases payload) (auto simp: isClientPayload_def js_get_def)
  show ?thesis using assms by (simp add: site_decryptValue_def decryptValue_def base64_property_def g f)
qed

section \<open>The recovery code carries all its random bits\<close>

lemma recovery_alphabet:
  "length RECOVERY_ALPHABET = 32" "distinct RECOVERY_ALPHABET" "\<forall>c \<in> set RECOVERY_ALPHABET. code_char c \<and> upper_char c = c"
  by code_simp+

lemma recovery_pair_nth:
  "recovery_pair b = [RECOVERY_ALPHABET ! (unat b mod 32), RECOVERY_ALPHABET ! (unat b div 8)]"
proof -
  have m: "x AND 31 = take_bit 5 x" for x :: "8 word"
    by (simp add: take_bit_eq_mask mask_eq_exp_minus_1)
  have lt: "unat b < 256" using unsigned_less [of b, where 'a = nat] by simp
  have "unat (b AND 31) = unat b mod 32"
    by (simp only: m unsigned_take_bit_eq) (simp add: take_bit_eq_mod)
  moreover have "unat (drop_bit 3 b AND 31) = unat b div 8"
    using lt by (simp only: m unsigned_take_bit_eq unsigned_drop_bit_eq) (simp add: take_bit_eq_mod drop_bit_eq_div)
  ultimately show ?thesis by (simp add: recovery_pair_def)
qed

lemma recovery_pair_inj: "recovery_pair a = recovery_pair b \<Longrightarrow> a = b"
proof -
  assume "recovery_pair a = recovery_pair b"
  moreover have "unat x mod 32 < 32" "unat x div 8 < 32" for x :: "8 word"
    using unsigned_less [of x, where 'a = nat] by simp_all
  ultimately have m: "unat a mod 32 = unat b mod 32" and d: "unat a div 8 = unat b div 8"
    using recovery_alphabet(1,2) by (simp_all add: recovery_pair_nth nth_eq_iff_index_eq)
  from m have "unat a mod 32 mod 8 = unat b mod 32 mod 8" by simp
  then have "unat a mod 8 = unat b mod 8" by (simp add: mod_mod_cancel)
  with d have "unat a = unat b" by (metis div_mult_mod_eq)
  then show "a = b" by (rule unsigned_word_eqI)
qed

lemma recovery_pair_chars: "c \<in> set (recovery_pair b) \<Longrightarrow> code_char c \<and> upper_char c = c"
proof -
  have "unat b mod 32 < 32" "unat b div 8 < 32" using unsigned_less [of b, where 'a = nat] by simp_all
  then show "c \<in> set (recovery_pair b) \<Longrightarrow> code_char c \<and> upper_char c = c"
    using recovery_alphabet by (auto simp: recovery_pair_nth)
qed

lemma recovery_letters_concat: "recovery_letters bs = concat (map recovery_pair bs)"
proof -
  have "foldl (\<lambda>out byte. out @ recovery_pair byte) acc bs = acc @ concat (map recovery_pair bs)" for acc
    by (induction bs arbitrary: acc) simp_all
  then show ?thesis by (simp add: recovery_letters_def)
qed

lemma recovery_letters_simps [simp]:
  "recovery_letters [] = []"
  "recovery_letters (b # bs) = recovery_pair b @ recovery_letters bs"
  "length (recovery_letters bs) = 2 * length bs"
  by (simp_all add: recovery_letters_concat length_concat comp_def recovery_pair_def sum_list_triv)

lemma recovery_letters_inj: "recovery_letters as = recovery_letters bs \<Longrightarrow> as = bs"
proof (induction "as" arbitrary: bs)
  case Nil
  then show ?case by (cases bs) (simp_all add: recovery_pair_def)
next
  case (Cons a "as")
  from Cons.prems obtain b bs' where bs: "bs = b # bs'" by (cases bs) (simp_all add: recovery_pair_def)
  have "length (recovery_pair a) = length (recovery_pair b)" by (simp add: recovery_pair_def)
  with Cons.prems bs have "recovery_pair a = recovery_pair b" "recovery_letters as = recovery_letters bs'" by simp_all
  then show ?case using Cons.IH bs recovery_pair_inj by simp
qed

lemma recovery_letters_chars: "c \<in> set (recovery_letters bs) \<Longrightarrow> code_char c \<and> upper_char c = c"
  using recovery_pair_chars by (auto simp: recovery_letters_concat)

lemma concat_groups4: "concat (groups4 s) = s"
proof (induction s rule: groups4.induct)
  case (1 s)
  then show ?case using groups4.simps [of s] by (cases "s = []") simp_all
qed

lemma filter_join: "(\<forall>c \<in> set sep. \<not> P c) \<Longrightarrow> filter P (join sep ws) = filter P (concat ws)"
  by (induction sep ws rule: join.induct) simp_all

lemma map_join: "map f (join sep ws) = join (map f sep) (map (map f) ws)"
  by (induction sep ws rule: join.induct) simp_all

text \<open>
  Read back in any case and with any separators, the code is the letters it was made of; and
  two codes are equal only if all their random bytes are.
\<close>

lemma normalize_groups:
  assumes "\<And>c. c \<in> set s \<Longrightarrow> code_char (upper_char (g c)) \<and> upper_char (g c) = c" "\<not> code_char (upper_char (g (CHR ''-'')))"
  shows "normalizeRecoveryCode (map g (join ''-'' (groups4 s))) = s"
proof -
  have "map (\<lambda>c. upper_char (g c)) s = s" using assms(1) by (intro map_idI) blast
  then have f: "filter code_char (map (\<lambda>c. upper_char (g c)) s) = s"
    using assms(1) by (metis filter_True)
  have "normalizeRecoveryCode (map g (join ''-'' (groups4 s))) =
      filter code_char (join [upper_char (g (CHR ''-''))] (map (map (upper_char \<circ> g)) (groups4 s)))"
    by (simp add: normalizeRecoveryCode_def map_join comp_def)
  also have "\<dots> = filter code_char (concat (map (map (upper_char \<circ> g)) (groups4 s)))"
    using assms(2) by (intro filter_join) simp
  also have "\<dots> = filter code_char (map (upper_char \<circ> g) (concat (groups4 s)))"
    by (simp add: map_concat)
  finally show ?thesis using f by (simp add: concat_groups4 comp_def)
qed

lemma code_char_lower: "code_char c \<Longrightarrow> upper_char c = c \<Longrightarrow> upper_char (lower_char c) = c"
proof -
  assume c: "code_char c" "upper_char c = c"
  show ?thesis
  proof (cases "is_upper c")
    case True
    then have n: "(65::nat) \<le> of_char c" "of_char c \<le> (90::nat)" by (simp_all add: is_upper_def)
    then have "of_char (char_of (of_char c + (32::nat)) :: char) = of_char c + (32::nat)" by simp
    with n True show ?thesis by (simp add: lower_char_def upper_char_def)
  next
    case False
    with c(2) show ?thesis by (simp add: lower_char_def)
  qed
qed

lemma normalize_recovery_text:
  "normalizeRecoveryCode (recovery_text bs) = recovery_letters bs"
  "normalizeRecoveryCode (lower (recovery_text bs)) = recovery_letters bs"
  "normalizeRecoveryCode (recovery_letters bs) = recovery_letters bs"
proof -
  have d: "upper_char (CHR ''-'') = CHR ''-''" "lower_char (CHR ''-'') = CHR ''-''" "\<not> code_char (CHR ''-'')"
    by code_simp+
  show "normalizeRecoveryCode (recovery_text bs) = recovery_letters bs"
    using normalize_groups [of "recovery_letters bs" "\<lambda>c. c"] recovery_letters_chars d by (simp add: recovery_text_def)
  show "normalizeRecoveryCode (lower (recovery_text bs)) = recovery_letters bs"
    unfolding recovery_text_def lower_def
    by (rule normalize_groups) (use recovery_letters_chars code_char_lower d in auto)
  show "normalizeRecoveryCode (recovery_letters bs) = recovery_letters bs"
    using recovery_letters_chars [where bs = bs]
    by (auto simp: normalizeRecoveryCode_def filter_id_conv intro!: map_idI)
qed

lemma recovery_text_inj: "recovery_text as = recovery_text bs \<Longrightarrow> as = bs"
  by (metis normalize_recovery_text(1) recovery_letters_inj)

lemma plain_recovery_code: "normalizeRecoveryCode (filter code_char (recovery_text bs)) = recovery_letters bs"
proof -
  have "\<not> code_char (CHR ''-'')" by code_simp
  then have "filter code_char (recovery_text bs) = filter code_char (recovery_letters bs)"
    unfolding recovery_text_def by (subst filter_join) (simp_all add: concat_groups4)
  also have "\<dots> = recovery_letters bs"
    using recovery_letters_chars [where bs = bs] by (metis filter_True)
  finally show ?thesis by (simp add: normalize_recovery_text)
qed

end
