(* ===== verification/SiteSession.thy ===== *)
theory SiteSession
  imports SiteCrypto
begin

text \<open>
  \<^verbatim>\<open>apps/elektrine/assets/js/hooks/vault_session.js\<close>: the unlocked master data key of one
  browser tab, kept in the module and, best effort, in \<^verbatim>\<open>sessionStorage\<close>, with the feature keys
  derived from it on demand.  A listener is known by a number; what it does, given the new
  state, is the argument \<open>L\<close> of the operations that notify.  \<open>tab_store_fault\<close> says which
  accesses to \<^verbatim>\<open>sessionStorage\<close> throw.
\<close>

section \<open>State\<close>

record tab_storage =
  has_session_storage :: bool
  tab_store_fault :: "nat \<Rightarrow> bool"

record site = world +
  tab_items :: "string \<rightharpoonup> string"
  tab_ops :: nat
  mdk :: "bytes option"
  featureKeys :: "string \<rightharpoonup> bytes"
  featureHmacKeys :: "string \<rightharpoonup> bytes"
  listeners :: "nat list"

type_synonym ('s, 'a) web = "('s site_scheme, 'a) io"

type_synonym 's listener = "nat \<Rightarrow> bool \<Rightarrow> ('s, unit) web"

definition SESSION_KEY :: string where "SESSION_KEY = ''elektrine:vault-session:mdk''"

section \<open>Storage\<close>

text \<open>
  One access to \<^verbatim>\<open>sessionStorage\<close>: nothing where the page has none, an exception where the
  browser throws.
\<close>

definition tab_access :: "tab_storage \<Rightarrow> ('s site_scheme \<Rightarrow> 'a \<times> 's site_scheme) \<Rightarrow> ('s, 'a option) web" where
  "tab_access br f =
     (if \<not> has_session_storage br then ret None
      else
        bind (reads tab_ops) (\<lambda>n.
        seqc (update (\<lambda>s. s\<lparr>tab_ops := n + 1\<rparr>))
          (if tab_store_fault br n then raise TypeError
           else bind (reads f) (\<lambda>(x, t). seqc (update (\<lambda>_. t)) (ret (Some x))))))"

definition tab_get :: "tab_storage \<Rightarrow> string \<Rightarrow> ('s, string option) web" where
  "tab_get br key =
     bind (tab_access br (\<lambda>s. (tab_items s key, s))) (\<lambda>r. ret (Option.bind r (\<lambda>v. v)))"

definition tab_set :: "tab_storage \<Rightarrow> string \<Rightarrow> string \<Rightarrow> ('s, unit) web" where
  "tab_set br key value =
     seqc (tab_access br (\<lambda>s. ((), s\<lparr>tab_items := (tab_items s)(key \<mapsto> value)\<rparr>))) (ret ())"

definition tab_remove :: "tab_storage \<Rightarrow> string \<Rightarrow> ('s, unit) web" where
  "tab_remove br key =
     seqc (tab_access br (\<lambda>s. ((), s\<lparr>tab_items := (tab_items s)(key := None)\<rparr>))) (ret ())"

definition clearStoredMdk :: "tab_storage \<Rightarrow> ('s, unit) web" where
  "clearStoredMdk br = catch (tab_remove br SESSION_KEY) (\<lambda>_. ret ())"

definition storeMdk :: "tab_storage \<Rightarrow> bytes \<Rightarrow> ('s, unit) web" where
  "storeMdk br mdkBytes = catch (tab_set br SESSION_KEY (bytesToBase64 mdkBytes)) (\<lambda>_. ret ())"

definition readStoredMdk :: "tab_storage \<Rightarrow> ('s, bytes option) web" where
  "readStoredMdk br =
     catch
       (bind (tab_get br SESSION_KEY) (\<lambda>value.
        case value of
          None \<Rightarrow> ret None
        | Some v \<Rightarrow>
            if v = [] then ret None
            else bind (lift (base64ToBytes v)) (\<lambda>bytes. ret (if length bytes = 32 then Some bytes else None))))
       (\<lambda>_. seqc (clearStoredMdk br) (ret None))"

section \<open>Operations\<close>

definition site_isUnlocked :: "'s site_scheme \<Rightarrow> bool" where
  "site_isUnlocked s \<longleftrightarrow> mdk s \<noteq> None"

definition notify :: "'s listener \<Rightarrow> ('s, unit) web" where
  "notify L =
     bind (reads (\<lambda>s. (site_isUnlocked s, listeners s))) (\<lambda>(unlocked, fns).
     all_settled (map (\<lambda>fn. L fn unlocked) fns))"

definition forget_derived :: "('s, unit) web" where
  "forget_derived = update (\<lambda>s. s\<lparr>featureKeys := (\<lambda>_. None), featureHmacKeys := (\<lambda>_. None)\<rparr>)"

definition site_unlock :: "tab_storage \<Rightarrow> 's listener \<Rightarrow> bytes \<Rightarrow> ('s, unit) web" where
  "site_unlock br L mdkBytes =
     seqc (update (\<lambda>s. s\<lparr>mdk := Some mdkBytes\<rparr>))
     (seqc (storeMdk br mdkBytes)
     (seqc forget_derived
       (notify L)))"

definition site_lock :: "tab_storage \<Rightarrow> 's listener \<Rightarrow> ('s, unit) web" where
  "site_lock br L =
     seqc (update (\<lambda>s. s\<lparr>mdk := None\<rparr>))
     (seqc (clearStoredMdk br)
     (seqc forget_derived
       (notify L)))"

definition subscribe :: "nat \<Rightarrow> ('s, unit) web" where
  "subscribe fn = update (\<lambda>s. s\<lparr>listeners := (if fn \<in> set (listeners s) then listeners s else listeners s @ [fn])\<rparr>)"

definition unsubscribe :: "nat \<Rightarrow> ('s, unit) web" where
  "unsubscribe fn = update (\<lambda>s. s\<lparr>listeners := filter (\<lambda>g. g \<noteq> fn) (listeners s)\<rparr>)"

text \<open>
  The keys of a feature.  The derivation is awaited between the test of the cache and its
  update: \<open>key_start\<close> runs up to the \<^verbatim>\<open>await\<close> and answers either the cached key or the
  master data key the derivation runs on, \<open>key_finish\<close> is the rest; \<^verbatim>\<open>featureKey\<close> and
  \<^verbatim>\<open>featureHmacKey\<close> are the two runs of this text, on the two caches.
\<close>

datatype key_kind = AesKey | HmacKey

definition cached_key :: "key_kind \<Rightarrow> string \<Rightarrow> 's site_scheme \<Rightarrow> bytes option" where
  "cached_key k feature s = (case k of AesKey \<Rightarrow> featureKeys s feature | HmacKey \<Rightarrow> featureHmacKeys s feature)"

definition cache_key :: "key_kind \<Rightarrow> string \<Rightarrow> bytes \<Rightarrow> 's site_scheme \<Rightarrow> 's site_scheme" where
  "cache_key k feature key s =
     (case k of
        AesKey \<Rightarrow> s\<lparr>featureKeys := (featureKeys s)(feature \<mapsto> key)\<rparr>
      | HmacKey \<Rightarrow> s\<lparr>featureHmacKeys := (featureHmacKeys s)(feature \<mapsto> key)\<rparr>)"

definition derive_key :: "platform \<Rightarrow> key_kind \<Rightarrow> bytes \<Rightarrow> string \<Rightarrow> bytes result" where
  "derive_key p k m feature =
     (case k of AesKey \<Rightarrow> site_deriveFeatureKey p m feature | HmacKey \<Rightarrow> deriveFeatureHmacKey p m feature)"

definition key_start :: "key_kind \<Rightarrow> string \<Rightarrow> ('s, bytes + bytes) web" where
  "key_start k feature =
     bind (reads (\<lambda>s. (mdk s, cached_key k feature s))) (\<lambda>(m, cached).
     case m of
       None \<Rightarrow> raise (Error ''vault-locked'')
     | Some m \<Rightarrow> ret (case cached of Some key \<Rightarrow> Inl key | None \<Rightarrow> Inr m))"

definition key_finish :: "platform \<Rightarrow> key_kind \<Rightarrow> string \<Rightarrow> bytes \<Rightarrow> ('s, bytes) web" where
  "key_finish p k feature m =
     bind (lift (derive_key p k m feature)) (\<lambda>key.
     seqc (update (cache_key k feature key))
       (ret key))"

definition feature_key :: "platform \<Rightarrow> key_kind \<Rightarrow> string \<Rightarrow> ('s, bytes) web" where
  "feature_key p k feature =
     bind (key_start k feature) (\<lambda>r.
     case r of Inl key \<Rightarrow> ret key | Inr m \<Rightarrow> key_finish p k feature m)"

definition featureKey :: "platform \<Rightarrow> string \<Rightarrow> ('s, bytes) web" where
  "featureKey p feature = feature_key p AesKey feature"

definition featureHmacKey :: "platform \<Rightarrow> string \<Rightarrow> ('s, bytes) web" where
  "featureHmacKey p feature = feature_key p HmacKey feature"

text \<open>
  A new document of the tab: the module is evaluated again, the tab's storage stays.
\<close>

definition new_document :: "tab_storage \<Rightarrow> ('s, unit) web" where
  "new_document br =
     seqc (update (\<lambda>s. s\<lparr>mdk := None, featureKeys := (\<lambda>_. None), featureHmacKeys := (\<lambda>_. None), listeners := []\<rparr>))
     (bind (readStoredMdk br) (\<lambda>m. update (\<lambda>s. s\<lparr>mdk := m\<rparr>)))"

text \<open>A computation that, when it throws, has not changed a component of the state.\<close>

definition keeps_failing :: "('s \<Rightarrow> 'c) \<Rightarrow> ('s, 'a) io \<Rightarrow> bool" where
  "keeps_failing f m \<longleftrightarrow> (\<forall>s e t. m s = (Inl e, t) \<longrightarrow> f t = f s)"

lemma keeps_failing_bind: "keeps f m \<Longrightarrow> (\<And>x. keeps_failing f (n x)) \<Longrightarrow> keeps_failing f (bind m n)"
  unfolding keeps_failing_def by (auto simp: bind_eq_Inl dest: keepsD)

lemma keeps_failing_seqc: "keeps f m \<Longrightarrow> keeps_failing f n \<Longrightarrow> keeps_failing f (seqc m n)"
  by (simp add: seqc_def keeps_failing_bind)

section \<open>Effects\<close>

text \<open>The state after a best-effort write of the stored key; \<open>None\<close> removes it.\<close>

definition tab_written :: "tab_storage \<Rightarrow> string option \<Rightarrow> 's site_scheme \<Rightarrow> 's site_scheme" where
  "tab_written br v s =
     (if \<not> has_session_storage br then s
      else if tab_store_fault br (tab_ops s) then s\<lparr>tab_ops := tab_ops s + 1\<rparr>
      else s\<lparr>tab_ops := tab_ops s + 1, tab_items := (tab_items s)(SESSION_KEY := v)\<rparr>)"

definition tab_works :: "tab_storage \<Rightarrow> 's site_scheme \<Rightarrow> bool" where
  "tab_works br s \<longleftrightarrow> has_session_storage br \<and> \<not> tab_store_fault br (tab_ops s)"

lemma tab_access_run [run_simps]:
  "tab_access br f s =
     (if \<not> has_session_storage br then (Inr None, s)
      else if tab_store_fault br (tab_ops s) then (Inl TypeError, s\<lparr>tab_ops := tab_ops s + 1\<rparr>)
      else (case f (s\<lparr>tab_ops := tab_ops s + 1\<rparr>) of (x, t) \<Rightarrow> (Inr (Some x), t)))"
  by (simp add: tab_access_def run_simps split: prod.split)

lemma storeMdk_run [run_simps]: "storeMdk br m s = (Inr (), tab_written br (Some (bytesToBase64 m)) s)"
  by (simp add: storeMdk_def tab_set_def run_simps tab_written_def)

lemma clearStoredMdk_run [run_simps]: "clearStoredMdk br s = (Inr (), tab_written br None s)"
  by (simp add: clearStoredMdk_def tab_remove_def run_simps tab_written_def)

lemma tab_written_fields [simp]:
  "mdk (tab_written br v s) = mdk s" "featureKeys (tab_written br v s) = featureKeys s"
  "featureHmacKeys (tab_written br v s) = featureHmacKeys s" "listeners (tab_written br v s) = listeners s"
  by (simp_all add: tab_written_def)

lemma tab_written_items:
  "tab_items (tab_written br v s) = (if tab_works br s then (tab_items s)(SESSION_KEY := v) else tab_items s)"
  by (simp add: tab_written_def tab_works_def)

lemma tab_works_same [simp]:
  "tab_works br (s\<lparr>mdk := m\<rparr>) = tab_works br s"
  "tab_works br (s\<lparr>mdk := m, featureKeys := k, featureHmacKeys := h, listeners := l\<rparr>) = tab_works br s"
  by (simp_all add: tab_works_def)

text \<open>What the module itself keeps of the session; a listener reads it and does not write it.\<close>

definition session_core :: "'s site_scheme \<Rightarrow> bytes option \<times> (string \<rightharpoonup> string)" where
  "session_core s = (mdk s, tab_items s)"

definition heeds :: "'s listener \<Rightarrow> bool" where
  "heeds L \<longleftrightarrow> (\<forall>i u. keeps session_core (L i u))"

lemma notify_run: "\<exists>t. notify L s = (Inr (), t)"
  by (simp add: notify_def run_simps all_settled_ok)

lemma notify_core: "heeds L \<Longrightarrow> keeps session_core (notify L)"
  unfolding notify_def heeds_def
  by (intro keeps_intros) (auto split: prod.split intro!: keeps_all_settled)

lemma site_unlock_effect:
  assumes "heeds L"
  obtains t where "site_unlock br L m s = (Inr (), t)" "mdk t = Some m"
    "tab_items t = (if tab_works br s then (tab_items s)(SESSION_KEY \<mapsto> bytesToBase64 m) else tab_items s)"
proof -
  let ?s = "(tab_written br (Some (bytesToBase64 m)) (s\<lparr>mdk := Some m\<rparr>))\<lparr>featureKeys := (\<lambda>_. None), featureHmacKeys := (\<lambda>_. None)\<rparr>"
  obtain t where t: "notify L ?s = (Inr (), t)" using notify_run by blast
  have run: "site_unlock br L m s = (Inr (), t)"
    using t by (simp add: site_unlock_def forget_derived_def run_simps)
  have "session_core t = session_core ?s" by (rule keepsD [OF notify_core [OF assms] t])
  then have "mdk t = Some m" "tab_items t = tab_items (tab_written br (Some (bytesToBase64 m)) (s\<lparr>mdk := Some m\<rparr>))"
    by (simp_all add: session_core_def)
  with run show thesis using that by (simp add: tab_written_items)
qed

lemma site_lock_effect:
  assumes "heeds L"
  obtains t where "site_lock br L s = (Inr (), t)" "mdk t = None"
    "tab_items t = (if tab_works br s then (tab_items s)(SESSION_KEY := None) else tab_items s)"
proof -
  let ?s = "(tab_written br None (s\<lparr>mdk := None\<rparr>))\<lparr>featureKeys := (\<lambda>_. None), featureHmacKeys := (\<lambda>_. None)\<rparr>"
  obtain t where t: "notify L ?s = (Inr (), t)" using notify_run by blast
  have run: "site_lock br L s = (Inr (), t)"
    using t by (simp add: site_lock_def forget_derived_def run_simps)
  have "session_core t = session_core ?s" by (rule keepsD [OF notify_core [OF assms] t])
  then have "mdk t = None" "tab_items t = tab_items (tab_written br None (s\<lparr>mdk := None\<rparr>))"
    by (simp_all add: session_core_def)
  with run show thesis using that by (simp add: tab_written_items)
qed

text \<open>What a new document finds.\<close>

definition stored_mdk :: "string option \<Rightarrow> bytes option" where
  "stored_mdk v =
     (case v of
        None \<Rightarrow> None
      | Some v \<Rightarrow>
          if v = [] then None
          else (case base64ToBytes v of Inl _ \<Rightarrow> None | Inr bytes \<Rightarrow> if length bytes = 32 then Some bytes else None))"

lemma readStoredMdk_result:
  "\<exists>t. readStoredMdk br s = (Inr (if tab_works br s then stored_mdk (tab_items s SESSION_KEY) else None), t)"
proof (cases "tab_works br s")
  case False
  then show ?thesis
    by (auto simp: readStoredMdk_def tab_get_def run_simps tab_works_def)
next
  case True
  then have w: "has_session_storage br" "\<not> tab_store_fault br (tab_ops s)" by (simp_all add: tab_works_def)
  show ?thesis
  proof (cases "tab_items s SESSION_KEY")
    case None
    with w show ?thesis by (simp add: readStoredMdk_def tab_get_def run_simps tab_works_def stored_mdk_def)
  next
    case (Some v)
    with w show ?thesis
      by (cases "base64ToBytes v")
        (auto simp: readStoredMdk_def tab_get_def run_simps tab_works_def stored_mdk_def simp del: base64ToBytes_atob)
  qed
qed

lemma new_document_mdk:
  "new_document br s = (r, t) \<Longrightarrow>
   r = Inr () \<and> mdk t = (if tab_works br s then stored_mdk (tab_items s SESSION_KEY) else None)"
proof -
  let ?s = "s\<lparr>mdk := None, featureKeys := (\<lambda>_. None), featureHmacKeys := (\<lambda>_. None), listeners := []\<rparr>"
  obtain u where u: "readStoredMdk br ?s = (Inr (if tab_works br ?s then stored_mdk (tab_items ?s SESSION_KEY) else None), u)"
    using readStoredMdk_result by blast
  assume "new_document br s = (r, t)"
  with u show ?thesis by (auto simp: new_document_def run_simps)
qed

lemma stored_mdk_own: "stored_mdk (Some (bytesToBase64 m)) = (if length m = 32 then Some m else None)"
proof -
  have "atob [] = Inr []" by code_simp
  then have "btoa m = [] \<Longrightarrow> m = []" using atob_btoa [of m] by simp
  then show ?thesis by (auto simp: stored_mdk_def atob_btoa)
qed

section \<open>Properties\<close>

text \<open>
  What the next document of the tab starts with.  After unlocking, the master data key is
  there again, provided the tab's storage works and the key has 32 bytes; where the storage
  throws, the old content decides.  Locking always forgets the key in this document, and the
  next document is locked too exactly if the removal went through: when it throws, the error
  is dropped and the next document reads the key back.
\<close>

theorem session_restore:
  assumes "heeds L" "has_session_storage br" "\<not> tab_store_fault br (tab_ops t)"
    and "site_unlock br L m s = (r1, t) \<or> site_lock br L s = (r1, t)" "new_document br t = (r2, u)"
  shows "(site_unlock br L m s = (r1, t) \<longrightarrow> mdk t = Some m \<and>
       mdk u = (if \<not> tab_store_fault br (tab_ops s) then (if length m = 32 then Some m else None)
                else stored_mdk (tab_items s SESSION_KEY))) \<and>
    (site_lock br L s = (r1, t) \<longrightarrow> mdk t = None \<and>
       mdk u = (if \<not> tab_store_fault br (tab_ops s) then None else stored_mdk (tab_items s SESSION_KEY)))"
proof -
  have u: "mdk u = stored_mdk (tab_items t SESSION_KEY)"
    using new_document_mdk [OF assms(5)] assms(2,3) by (simp add: tab_works_def)
  obtain t1 where t1: "site_unlock br L m s = (Inr (), t1)" "mdk t1 = Some m"
    "tab_items t1 = (if tab_works br s then (tab_items s)(SESSION_KEY \<mapsto> bytesToBase64 m) else tab_items s)"
    by (rule site_unlock_effect [OF assms(1)])
  obtain t2 where t2: "site_lock br L s = (Inr (), t2)" "mdk t2 = None"
    "tab_items t2 = (if tab_works br s then (tab_items s)(SESSION_KEY := None) else tab_items s)"
    by (rule site_lock_effect [OF assms(1)])
  have n: "stored_mdk None = None" by (simp add: stored_mdk_def)
  have "mdk t = Some m \<and> mdk u = (if \<not> tab_store_fault br (tab_ops s) then (if length m = 32 then Some m else None)
                else stored_mdk (tab_items s SESSION_KEY))" if "site_unlock br L m s = (r1, t)"
  proof -
    have "t1 = t" using that t1(1) by simp
    with t1 u assms(2) stored_mdk_own [of m] show ?thesis by (simp add: tab_works_def)
  qed
  moreover have "mdk t = None \<and> mdk u = (if \<not> tab_store_fault br (tab_ops s) then None else stored_mdk (tab_items s SESSION_KEY))"
    if "site_lock br L s = (r1, t)"
  proof -
    have "t2 = t" using that t2(1) by simp
    with t2 u assms(2) n show ?thesis by (simp add: tab_works_def)
  qed
  ultimately show ?thesis by blast
qed

text \<open>A tab whose second storage operation fails.\<close>

definition sample_site :: site where
  "sample_site = world.extend sample_world
     \<lparr>tab_items = (\<lambda>_. None), tab_ops = 0, mdk = None, featureKeys = (\<lambda>_. None), featureHmacKeys = (\<lambda>_. None), listeners = []\<rparr>"

definition sample_store :: "nat \<Rightarrow> tab_storage" where
  "sample_store n = \<lparr>has_session_storage = True, tab_store_fault = (\<lambda>k. k = n)\<rparr>"

lemma heeds_nothing: "heeds (\<lambda>_ _. ret ())"
  by (simp add: heeds_def keeps_ret)

lemma sample_unlock:
  obtains s where "site_unlock (sample_store 1) (\<lambda>_ _. ret ()) (replicate 32 5) sample_site = (Inr (), s)"
    "tab_ops s = 1" "listeners s = []" "tab_items s SESSION_KEY = Some (bytesToBase64 (replicate 32 5))"
proof -
  have none: "listeners sample_site = []" "tab_ops sample_site = 0"
    by (simp_all add: sample_site_def world.extend_def)
  show thesis
    by (rule that [of "snd (site_unlock (sample_store 1) (\<lambda>_ _. ret ()) (replicate 32 5) sample_site)"])
      (simp_all add: site_unlock_def forget_derived_def notify_def run_simps none tab_written_def sample_store_def)
qed

theorem session_restore_witness:
  "\<exists>s t r u. site_unlock (sample_store 1) (\<lambda>_ _. ret ()) (replicate 32 5) sample_site = (Inr (), s) \<and>
     site_lock (sample_store 1) (\<lambda>_ _. ret ()) s = (Inr (), t) \<and> new_document (sample_store 1) t = (r, u) \<and>
     mdk t = None \<and> mdk u = Some (replicate 32 5)"
proof -
  let ?L = "\<lambda>_ _. ret () :: (unit, unit) web" and ?br = "sample_store 1"
  obtain s where s: "site_unlock ?br ?L (replicate 32 5) sample_site = (Inr (), s)" "tab_ops s = 1" "listeners s = []"
    "tab_items s SESSION_KEY = Some (bytesToBase64 (replicate 32 5))" by (rule sample_unlock)
  obtain t where t: "site_lock ?br ?L s = (Inr (), t)" "tab_ops t = 2"
    using s(2,3) by (simp add: site_lock_def forget_derived_def notify_def run_simps tab_written_def sample_store_def)
  obtain r u where u: "new_document ?br t = (r, u)" by (cases "new_document ?br t")
  have "has_session_storage ?br" "\<not> tab_store_fault ?br (tab_ops t)" "tab_store_fault ?br (tab_ops s)"
    using s(2) t(2) by (simp_all add: sample_store_def)
  with session_restore [OF heeds_nothing, of ?br t "replicate 32 5" s "Inr ()" r u] t(1) u s(4)
  have "mdk t = None \<and> mdk u = Some (replicate 32 5)" by (simp add: stored_mdk_own del: bytesToBase64_btoa)
  with s(1) t(1) u show ?thesis by blast
qed

end
