(* ===== verification/SiteElement.thy ===== *)
theory SiteElement
  imports SiteSession
begin

text \<open>
  What the hooks of the encrypted-data pages share
  (\<^verbatim>\<open>apps/elektrine/assets/js/hooks/vault_hooks.js\<close> and \<^verbatim>\<open>nerve_hooks.js\<close>): the element a hook is
  mounted on, the small accessors both files repeat, and what the session's listeners may
  change.  Elements are known by the selector the code finds them with; a map answers
  \<open>None\<close> for a selector that finds nothing.
\<close>

section \<open>State\<close>

record hook_element = site +
  in_value :: "string \<rightharpoonup> string"
  out_text :: "string \<rightharpoonup> string"
  el_hid :: "string \<rightharpoonup> bool"
  status_label :: "string \<rightharpoonup> string"
  el_dataset :: "string \<rightharpoonup> string"

type_synonym 's element_ops = "('s hook_element_scheme, unit) io"

type_synonym 's element_listener = "nat \<Rightarrow> bool \<Rightarrow> ('s hook_element_scheme, unit) io"

text \<open>\<^verbatim>\<open>if (el) el.x = value\<close>, and \<^verbatim>\<open>label || fallback\<close> for a property that may be missing or empty.\<close>

definition assign :: "'b \<Rightarrow> 'a \<Rightarrow> ('a \<rightharpoonup> 'b) \<Rightarrow> ('a \<rightharpoonup> 'b)" where
  "assign v sel m = (if m sel = None then m else m(sel \<mapsto> v))"

definition text_or :: "string option \<Rightarrow> string \<Rightarrow> string" where
  "text_or v fallback = (case v of Some s \<Rightarrow> if s = [] then fallback else s | None \<Rightarrow> fallback)"

text \<open>
  \<^verbatim>\<open>s.length\<close> counts UTF-16 units: one for every encoded character, two for those of four
  bytes.
\<close>

definition utf16_length :: "string \<Rightarrow> nat" where
  "utf16_length s =
     length (filter (\<lambda>c. (of_char c :: nat) < 128 \<or> 192 \<le> (of_char c :: nat)) s) +
     length (filter (\<lambda>c. 240 \<le> (of_char c :: nat)) s)"

section \<open>The element\<close>

definition setError :: "string \<Rightarrow> 's element_ops" where
  "setError message = update (\<lambda>s. s\<lparr>out_text := assign message ''[data-vault-error]'' (out_text s)\<rparr>)"

definition value_of :: "string \<Rightarrow> 's hook_element_scheme \<Rightarrow> string" where
  "value_of selector s = (case in_value s selector of Some v \<Rightarrow> v | None \<Rightarrow> [])"

definition setValue :: "string \<Rightarrow> string \<Rightarrow> 's element_ops" where
  "setValue selector v = update (\<lambda>s. s\<lparr>in_value := assign v selector (in_value s)\<rparr>)"

definition setText :: "string \<Rightarrow> string \<Rightarrow> 's element_ops" where
  "setText selector v = update (\<lambda>s. s\<lparr>out_text := assign v selector (out_text s)\<rparr>)"

definition setHidden :: "string \<Rightarrow> bool \<Rightarrow> 's element_ops" where
  "setHidden selector h = update (\<lambda>s. s\<lparr>el_hid := assign h selector (el_hid s)\<rparr>)"

definition parse_dataset :: "string \<Rightarrow> 's hook_element_scheme \<Rightarrow> jsv" where
  "parse_dataset key s =
     (case el_dataset s key of
        None \<Rightarrow> JNull
      | Some raw \<Rightarrow> if raw = [] then JNull else (case json_parse raw of Inl _ \<Rightarrow> JNull | Inr v \<Rightarrow> v))"

definition wrappedDek :: "'s hook_element_scheme \<Rightarrow> jsv" where
  "wrappedDek s = parse_dataset ''vaultWrappedDek'' s"

section \<open>What the listeners may change\<close>

text \<open>
  A listener leaves the session, its storage and the inputs of this element alone.
\<close>

definition page_core :: "'s hook_element_scheme \<Rightarrow> (bytes option \<times> (string \<rightharpoonup> string)) \<times> (string \<rightharpoonup> string)" where
  "page_core s = (session_core s, in_value s)"

definition considerate :: "'s element_listener \<Rightarrow> bool" where
  "considerate L \<longleftrightarrow> (\<forall>i u. keeps page_core (L i u))"

lemma keeps_element_update:
  "keeps page_core (setText sel v)" "keeps page_core (setHidden sel h)" "keeps page_core (setError m)"
  unfolding setHidden_def setText_def setError_def
  by (intro keeps_update; simp add: page_core_def session_core_def)+

lemma considerate_heeds: "considerate L \<Longrightarrow> heeds L"
proof -
  assume "considerate L"
  then have "page_core (snd (L i u s)) = page_core s" for i u s by (auto simp: considerate_def keeps_def)
  then show "heeds L" by (simp add: heeds_def keeps_def page_core_def)
qed

lemma notify_considerate: "considerate L \<Longrightarrow> keeps page_core (notify L)"
  unfolding notify_def considerate_def
  by (intro keeps_intros) (auto split: prod.split intro!: keeps_all_settled)

lemma unlock_page:
  assumes "considerate L"
  obtains t where "site_unlock br L m s = (Inr (), t)" "mdk t = Some m" "in_value t = in_value s"
proof -
  let ?s = "(tab_written br (Some (bytesToBase64 m)) (s\<lparr>mdk := Some m\<rparr>))\<lparr>featureKeys := (\<lambda>_. None), featureHmacKeys := (\<lambda>_. None)\<rparr>"
  obtain t where t: "notify L ?s = (Inr (), t)" using notify_run by blast
  have run: "site_unlock br L m s = (Inr (), t)"
    using t by (simp add: site_unlock_def forget_derived_def run_simps)
  have "page_core t = page_core ?s" by (rule keepsD [OF notify_considerate [OF assms] t])
  then have "mdk t = Some m" "in_value t = in_value s"
    by (simp_all add: page_core_def session_core_def tab_written_def)
  with run show thesis by (rule that)
qed

section \<open>Wrapped keys as text\<close>

text \<open>
  The two inputs a form posts: the master data key wrapped under the password and under the
  normalized recovery code, as text that parses back.
\<close>

definition wraps :: "platform \<Rightarrow> string \<Rightarrow> string \<Rightarrow> bytes \<Rightarrow> bool" where
  "wraps p secret raw m \<longleftrightarrow>
     (\<exists>payload. json_parse raw = Inr payload \<and> isWrappedPayload payload \<and>
        unwrapWithSecret p payload secret = Inr m \<and> site_unwrapWithSecret p payload secret = Inr m)"

lemma wraps_own:
  assumes "gcm_correct p" "wrapWithSecret p m secret w = (Inr payload, t)"
  shows "wraps p secret (json_text payload) m"
  using unwrap_wrapped [OF assms] json_parse_text [of payload] by (auto simp: wraps_def)

lemma assign_other [simp]: "sel' \<noteq> sel \<Longrightarrow> assign v sel m sel' = m sel'"
  by (simp add: assign_def)

lemma assign_same: "m sel \<noteq> None \<Longrightarrow> assign v sel m sel = Some v"
  by (simp add: assign_def)

lemma setter_runs [run_simps]:
  "setValue sel v s = (Inr (), s\<lparr>in_value := assign v sel (in_value s)\<rparr>)"
  "setText sel v s = (Inr (), s\<lparr>out_text := assign v sel (out_text s)\<rparr>)"
  "setHidden sel h s = (Inr (), s\<lparr>el_hid := assign h sel (el_hid s)\<rparr>)"
  "setError m s = (Inr (), s\<lparr>out_text := assign m ''[data-vault-error]'' (out_text s)\<rparr>)"
  by (simp_all add: setValue_def setText_def setHidden_def setError_def update_run)

end
