(* ===== verification/SiteVault.thy ===== *)
theory SiteVault
  imports SiteElement
begin

text \<open>
  \<^verbatim>\<open>VaultManager\<close> of \<^verbatim>\<open>apps/elektrine/assets/js/hooks/vault_hooks.js\<close>: setting up, unlocking and
  recovering the account's encrypted data in the browser.
\<close>

section \<open>State\<close>

record vault_page = hook_element +
  status_badge :: bool
  reset_disabled :: "bool option"
  form_flag :: "string \<rightharpoonup> string"
  form_posts :: "(string \<times> (string \<rightharpoonup> string)) list"
  hook_bound :: bool

type_synonym 's vault_ops = "('s vault_page_scheme, unit) io"

type_synonym 's vault_listener = "nat \<Rightarrow> bool \<Rightarrow> ('s vault_page_scheme, unit) io"

section \<open>The element\<close>

definition setRecoveryError :: "string \<Rightarrow> 's vault_ops" where
  "setRecoveryError message =
     update (\<lambda>s. s\<lparr>out_text := assign message ''[data-vault-recovery-error]'' (out_text s)\<rparr>)"

lemma setRecoveryError_run [run_simps]:
  "setRecoveryError m s = (Inr (), s\<lparr>out_text := assign m ''[data-vault-recovery-error]'' (out_text s)\<rparr>)"
  by (simp add: setRecoveryError_def update_run)

definition vault_renderState :: "'s vault_ops" where
  "vault_renderState =
     bind (reads site_isUnlocked) (\<lambda>unlocked.
     seqc (update (\<lambda>s.
         if out_text s ''[data-vault-status]'' = None then s
         else s\<lparr>out_text := (out_text s)(''[data-vault-status]'' \<mapsto>
                  (if unlocked then text_or (status_label s ''unlockedLabel'') ''Unlocked''
                   else text_or (status_label s ''lockedLabel'') ''Locked'')),
                status_badge := unlocked\<rparr>))
     (seqc (setHidden ''[data-vault-locked-section]'' unlocked)
       (setHidden ''[data-vault-unlocked-section]'' (\<not> unlocked))))"

definition renderResetState :: "'s vault_ops" where
  "renderResetState =
     update (\<lambda>s.
       case (in_value s ''[data-vault-reset-confirm]'', reset_disabled s) of
         (Some v, Some _) \<Rightarrow> s\<lparr>reset_disabled := Some (trim v \<noteq> ''RESET ENCRYPTED DATA'')\<rparr>
       | _ \<Rightarrow> s)"

definition accountPasswordMode :: "'s vault_page_scheme \<Rightarrow> bool" where
  "accountPasswordMode s \<longleftrightarrow> el_dataset s ''vaultSecretMode'' = Some ''account_password''"

definition wrappedRecoveryDek :: "'s vault_page_scheme \<Rightarrow> jsv" where
  "wrappedRecoveryDek s = parse_dataset ''vaultWrappedDekRecovery'' s"

section \<open>Setting up, recovering, unlocking\<close>

definition confirmed_value :: "string \<Rightarrow> string \<Rightarrow> 's vault_page_scheme \<Rightarrow> string" where
  "confirmed_value selector passphrase s = (case in_value s selector of Some v \<Rightarrow> v | None \<Rightarrow> passphrase)"

text \<open>What \<^verbatim>\<open>setup\<close> and \<^verbatim>\<open>recover\<close> say of the password typed, before they do anything.\<close>

definition passphrase_problem :: "'s vault_page_scheme \<Rightarrow> string \<Rightarrow> string \<Rightarrow> string option" where
  "passphrase_problem s passphrase confirm =
     (if passphrase = [] then Some ''Enter your current password.''
      else if \<not> accountPasswordMode s \<and> utf16_length passphrase < MIN_PASSPHRASE_LENGTH then
        Some (''Use at least '' @ show_nat MIN_PASSPHRASE_LENGTH @ '' characters.'')
      else if passphrase \<noteq> confirm then Some ''Passwords do not match.''
      else None)"

text \<open>The end of both flows: the form's inputs, the session, the recovery code shown.\<close>

definition publish_keys :: "tab_storage \<Rightarrow> 's vault_listener \<Rightarrow> string \<times> string \<Rightarrow> string \<Rightarrow> string \<times> string \<Rightarrow> jsv \<Rightarrow> jsv \<Rightarrow> bytes \<Rightarrow> string \<Rightarrow> 's vault_ops" where
  "publish_keys br L inputs output sections wrapped wrappedRecovery m code =
     seqc (setValue (fst inputs) (json_text wrapped))
     (seqc (setValue (snd inputs) (json_text wrappedRecovery))
     (seqc (site_unlock br L m)
     (seqc (setText output code)
     (seqc (setHidden (fst sections) False)
       (setHidden (snd sections) True)))))"

text \<open>A new recovery code, and the master data key wrapped under the password and under the code.\<close>

definition make_keys :: "platform \<Rightarrow> bytes \<Rightarrow> string \<Rightarrow> (string \<Rightarrow> jsv \<Rightarrow> jsv \<Rightarrow> 's vault_ops) \<Rightarrow> 's vault_ops" where
  "make_keys p m passphrase f =
     bind (generateRecoveryCode p) (\<lambda>code.
     bind (wrapWithSecret p m passphrase) (\<lambda>wrapped.
     bind (wrapWithSecret p m (normalizeRecoveryCode code)) (\<lambda>wrappedRecovery.
     f code wrapped wrappedRecovery)))"

definition setup_keys :: "platform \<Rightarrow> tab_storage \<Rightarrow> 's vault_listener \<Rightarrow> string \<Rightarrow> 's vault_ops" where
  "setup_keys p br L passphrase =
     bind (generateMdk p) (\<lambda>m.
     make_keys p m passphrase (\<lambda>code wrapped wrappedRecovery.
       publish_keys br L (''[data-vault-wrapped-dek-input]'', ''[data-vault-wrapped-dek-recovery-input]'')
         ''[data-vault-recovery-output]'' (''[data-vault-recovery-panel]'', ''[data-vault-setup]'')
         wrapped wrappedRecovery m code))"

definition vault_setup :: "platform \<Rightarrow> tab_storage \<Rightarrow> 's vault_listener \<Rightarrow> 's vault_ops" where
  "vault_setup p br L =
     seqc (setError [])
     (bind (reads (value_of ''[data-vault-setup-input]'')) (\<lambda>passphrase.
      bind (reads (\<lambda>s. passphrase_problem s passphrase (confirmed_value ''[data-vault-setup-confirm]'' passphrase s))) (\<lambda>problem.
      case problem of
        Some message \<Rightarrow> setError message
      | None \<Rightarrow>
          catch (setup_keys p br L passphrase)
            (\<lambda>_. setError ''Could not set up encryption in this browser.''))))"

definition recover_keys :: "platform \<Rightarrow> tab_storage \<Rightarrow> 's vault_listener \<Rightarrow> jsv \<Rightarrow> string \<Rightarrow> string \<Rightarrow> 's vault_ops" where
  "recover_keys p br L wrapped recoveryCode passphrase =
     bind (lift (site_unwrapWithSecret p wrapped recoveryCode)) (\<lambda>m.
     make_keys p m passphrase (\<lambda>code wrappedNew wrappedRecovery.
       publish_keys br L
         (''[data-vault-recovery-wrapped-dek-input]'', ''[data-vault-recovery-wrapped-dek-recovery-input]'')
         ''[data-vault-recovery-new-output]'' (''[data-vault-recovery-new-panel]'', ''[data-vault-recovery]'')
         wrappedNew wrappedRecovery m code))"

definition vault_recover :: "platform \<Rightarrow> tab_storage \<Rightarrow> 's vault_listener \<Rightarrow> 's vault_ops" where
  "vault_recover p br L =
     seqc (setRecoveryError [])
     (bind (reads (\<lambda>s. normalizeRecoveryCode (value_of ''[data-vault-recovery-code]'' s))) (\<lambda>recoveryCode.
      bind (reads (value_of ''[data-vault-recovery-new-input]'')) (\<lambda>passphrase.
      bind (reads wrappedRecoveryDek) (\<lambda>wrapped.
      if \<not> truthy wrapped then setRecoveryError ''No recovery key found.''
      else if recoveryCode = [] then setRecoveryError ''Enter your recovery code.''
      else
        bind (reads (\<lambda>s. passphrase_problem s passphrase (confirmed_value ''[data-vault-recovery-new-confirm]'' passphrase s))) (\<lambda>problem.
        case problem of
          Some message \<Rightarrow> setRecoveryError message
        | None \<Rightarrow>
            catch (recover_keys p br L wrapped recoveryCode passphrase)
              (\<lambda>_. setRecoveryError ''Recovery code is incorrect or cannot unlock this account.''))))))"

definition vault_unlock :: "platform \<Rightarrow> tab_storage \<Rightarrow> 's vault_listener \<Rightarrow> 's vault_ops" where
  "vault_unlock p br L =
     seqc (setError [])
     (bind (reads (value_of ''[data-vault-unlock-input]'')) (\<lambda>passphrase.
      bind (reads wrappedDek) (\<lambda>wrapped.
      if \<not> truthy wrapped then setError ''No encrypted data key found.''
      else
        catch
          (bind (lift (site_unwrapWithSecret p wrapped passphrase)) (\<lambda>m.
           seqc (site_unlock br L m)
             (setValue ''[data-vault-unlock-input]'' [])))
          (\<lambda>_. setError ''Incorrect password.''))))"

section \<open>Events\<close>

text \<open>
  \<^verbatim>\<open>requestSubmit()\<close> fires a submit event, which \<^verbatim>\<open>handleSubmit\<close> of this hook sees first: it
  prevents the default, and sets up or recovers instead, unless the form is flagged.  A
  submission that is not prevented posts the values of the page's inputs.
\<close>

definition setup_form :: string where "setup_form = ''[data-vault-setup-form]''"
definition recovery_form :: string where "recovery_form = ''[data-vault-recovery-form]''"

definition post_form :: "string \<Rightarrow> 's vault_ops" where
  "post_form form = update (\<lambda>s. s\<lparr>form_posts := form_posts s @ [(form, in_value s)]\<rparr>)"

definition handleSubmit :: "platform \<Rightarrow> tab_storage \<Rightarrow> 's vault_listener \<Rightarrow> string \<Rightarrow> 's vault_ops" where
  "handleSubmit p br L form =
     bind (reads (\<lambda>s. form_flag s form)) (\<lambda>flag.
     if form = setup_form then
       (if flag = Some ''true'' then post_form form else vault_setup p br L)
     else if form = recovery_form then
       (if flag = Some ''true'' then post_form form else vault_recover p br L)
     else post_form form)"

definition finish_form :: "platform \<Rightarrow> tab_storage \<Rightarrow> 's vault_listener \<Rightarrow> string \<Rightarrow> 's vault_ops" where
  "finish_form p br L form =
     bind (reads (\<lambda>s. form_flag s form)) (\<lambda>flag.
     if flag = None then ret ()
     else
       seqc (update (\<lambda>s. s\<lparr>form_flag := (form_flag s)(form \<mapsto> ''true'')\<rparr>))
         (handleSubmit p br L form))"

definition finishSetup :: "platform \<Rightarrow> tab_storage \<Rightarrow> 's vault_listener \<Rightarrow> 's vault_ops" where
  "finishSetup p br L = finish_form p br L setup_form"

definition finishRecovery :: "platform \<Rightarrow> tab_storage \<Rightarrow> 's vault_listener \<Rightarrow> 's vault_ops" where
  "finishRecovery p br L = finish_form p br L recovery_form"

text \<open>\<open>within sel\<close> is \<^verbatim>\<open>event.target.closest(sel)\<close>.\<close>

definition handleClick :: "platform \<Rightarrow> tab_storage \<Rightarrow> 's vault_listener \<Rightarrow> (string \<Rightarrow> bool) \<Rightarrow> 's vault_ops" where
  "handleClick p br L within =
     (if within ''[data-vault-setup]'' then vault_setup p br L
      else if within ''[data-vault-setup-finish]'' then finishSetup p br L
      else if within ''[data-vault-unlock]'' then vault_unlock p br L
      else if within ''[data-vault-lock]'' then site_lock br L
      else if within ''[data-vault-reset-button]'' then site_lock br L
      else if within ''[data-vault-recovery]'' then vault_recover p br L
      else if within ''[data-vault-recovery-finish]'' then finishRecovery p br L
      else ret ())"

definition handleInput :: "(string \<Rightarrow> bool) \<Rightarrow> 's vault_ops" where
  "handleInput within = (if within ''[data-vault-reset-confirm]'' then renderResetState else ret ())"

text \<open>The subscription of this hook is number 0; the other listeners are \<open>others\<close>.\<close>

definition vault_listener :: "'s vault_listener \<Rightarrow> 's vault_listener" where
  "vault_listener others i unlocked = (if i = 0 then vault_renderState else others i unlocked)"

definition vault_bind :: "'s vault_ops" where
  "vault_bind =
     bind (reads hook_bound) (\<lambda>bound.
     if bound then ret ()
     else seqc (update (\<lambda>s. s\<lparr>hook_bound := True\<rparr>)) renderResetState)"

definition vault_mounted :: "'s vault_ops" where
  "vault_mounted = seqc (subscribe 0) (seqc vault_bind vault_renderState)"

definition vault_updated :: "'s vault_ops" where
  "vault_updated = seqc vault_renderState renderResetState"

definition vault_destroyed :: "'s vault_ops" where
  "vault_destroyed = unsubscribe 0"

section \<open>What the listeners may change\<close>

lemma keeps_page_update:
  "keeps page_core (setText sel v)" "keeps page_core (setHidden sel h)" "keeps page_core (setError m)"
  "keeps page_core vault_renderState"
  unfolding vault_renderState_def setHidden_def setText_def setError_def
  by (intro keeps_intros keeps_update; simp add: page_core_def session_core_def)+

lemma considerate_vault: "considerate others \<Longrightarrow> considerate (vault_listener others)"
  by (simp add: considerate_def vault_listener_def keeps_page_update)

section \<open>What setting up leaves on the page\<close>

definition has_inputs :: "string \<times> string \<Rightarrow> 's vault_page_scheme \<Rightarrow> bool" where
  "has_inputs inputs s \<longleftrightarrow> fst inputs \<noteq> snd inputs \<and> in_value s (fst inputs) \<noteq> None \<and> in_value s (snd inputs) \<noteq> None"

lemma publish_keys_ok:
  assumes "considerate L" "has_inputs inputs s"
  shows "\<exists>t. publish_keys br L inputs output sections wrapped wrappedRecovery m code s = (Inr (), t) \<and>
    mdk t = Some m \<and> in_value t (fst inputs) = Some (json_text wrapped) \<and>
    in_value t (snd inputs) = Some (json_text wrappedRecovery) \<and>
    (out_text t output \<noteq> None \<longrightarrow> out_text t output = Some code)"
proof -
  let ?s = "s\<lparr>in_value := assign (json_text wrappedRecovery) (snd inputs) (assign (json_text wrapped) (fst inputs) (in_value s))\<rparr>"
  obtain t where t: "site_unlock br L m ?s = (Inr (), t)" "mdk t = Some m" "in_value t = in_value ?s"
    by (rule unlock_page [OF assms(1)])
  show ?thesis
    using assms(2) t by (simp add: publish_keys_def run_simps assign_same has_inputs_def) (simp add: assign_def)
qed

text \<open>
  A flow is refused when it shows a message and leaves the session and the inputs as they
  were; it is done when the session holds a master data key that both posted texts open to.
\<close>

definition refused :: "string \<Rightarrow> 's vault_page_scheme \<Rightarrow> 's vault_page_scheme \<Rightarrow> bool" where
  "refused sel s t \<longleftrightarrow>
     (\<exists>message. message \<noteq> [] \<and> out_text t sel = Some message) \<and> mdk t = mdk s \<and> tab_items t = tab_items s \<and> in_value t = in_value s"

definition keys_published :: "platform \<Rightarrow> string \<times> string \<Rightarrow> string \<Rightarrow> string \<Rightarrow> bytes \<Rightarrow> bytes \<Rightarrow> 's vault_page_scheme \<Rightarrow> bool" where
  "keys_published p inputs output passphrase m bs t \<longleftrightarrow>
     mdk t = Some m \<and> length bs = 32 \<and>
     (\<exists>raw. in_value t (fst inputs) = Some raw \<and> wraps p passphrase raw m) \<and>
     (\<exists>raw. in_value t (snd inputs) = Some raw \<and> wraps p (recovery_letters bs) raw m) \<and>
     (out_text t output \<noteq> None \<longrightarrow> out_text t output = Some (recovery_text bs))"

lemma make_keys_outcome:
  assumes "gcm_correct p" "considerate L" "has_inputs inputs s"
    and "make_keys p m passphrase (\<lambda>code w wr. publish_keys br L inputs output sections w wr m code) s = (r, t)"
  shows "(\<exists>e n. r = Inl e \<and> t = s\<lparr>random_used := n\<rparr>) \<or>
    (r = Inr () \<and> (\<exists>bs. keys_published p inputs output passphrase m bs t))"
proof -
  let ?bs = "map (random_byte p) [random_used s ..< random_used s + 32]" and ?s = "s\<lparr>random_used := random_used s + 32\<rparr>"
  have code: "generateRecoveryCode p s = (Inr (recovery_text ?bs), ?s)" by (simp add: generateRecoveryCode_def run_simps)
  obtain x s1 where w: "wrapWithSecret p m passphrase ?s = (x, s1)" by (cases "wrapWithSecret p m passphrase ?s")
  obtain y s2 where wr: "wrapWithSecret p m (normalizeRecoveryCode (recovery_text ?bs)) s1 = (y, s2)"
    by (cases "wrapWithSecret p m (normalizeRecoveryCode (recovery_text ?bs)) s1")
  have s1: "s1 = s\<lparr>random_used := random_used s + 60\<rparr>" using wrapWithSecret_frame [OF w] by simp
  have s2: "s2 = s\<lparr>random_used := random_used s + 88\<rparr>" using wrapWithSecret_frame [OF wr] s1 by simp
  show ?thesis
  proof (cases x)
    case (Inl e)
    with assms(4) code w s1 show ?thesis by (auto simp: make_keys_def run_simps)
  next
    case x: (Inr wrapped)
    show ?thesis
    proof (cases y)
      case (Inl e)
      with assms(4) code w wr x s2 show ?thesis by (auto simp: make_keys_def run_simps)
    next
      case y: (Inr wrappedRecovery)
      have "has_inputs inputs s2" using assms(3) s2 by (simp add: has_inputs_def)
      then obtain u where u: "publish_keys br L inputs output sections wrapped wrappedRecovery m (recovery_text ?bs) s2 = (Inr (), u)"
        "mdk u = Some m" "in_value u (fst inputs) = Some (json_text wrapped)"
        "in_value u (snd inputs) = Some (json_text wrappedRecovery)"
        "out_text u output \<noteq> None \<longrightarrow> out_text u output = Some (recovery_text ?bs)"
        using publish_keys_ok [OF assms(2)] by blast
      have "r = Inr () \<and> t = u"
        using assms(4) code w wr x y u(1) by (simp add: make_keys_def run_simps)
      moreover have "wraps p passphrase (json_text wrapped) m"
        "wraps p (recovery_letters ?bs) (json_text wrappedRecovery) m"
        using wraps_own [OF assms(1) w [unfolded x]] wraps_own [OF assms(1) wr [unfolded y]]
        by (simp_all add: normalize_recovery_text)
      ultimately have "keys_published p inputs output passphrase m ?bs t"
        using u(2-5) by (auto simp: keys_published_def)
      with \<open>r = Inr () \<and> t = u\<close> show ?thesis by blast
    qed
  qed
qed

lemma refusedI:
  "message \<noteq> [] \<Longrightarrow> out_text s sel \<noteq> None \<Longrightarrow> mdk u = mdk s \<Longrightarrow> tab_items u = tab_items s \<Longrightarrow> in_value u = in_value s \<Longrightarrow>
   out_text u sel \<noteq> None \<Longrightarrow> refused sel s (u\<lparr>out_text := assign message sel (out_text u)\<rparr>)"
  by (auto simp: refused_def assign_def)

lemma passphrase_problem_text: "passphrase_problem s pass conf = Some m \<Longrightarrow> m \<noteq> []"
  by (auto simp: passphrase_problem_def split: if_splits)

lemma passphrase_problem_None:
  "passphrase_problem s pass conf = None \<Longrightarrow> pass \<noteq> [] \<and> conf = pass \<and> (accountPasswordMode s \<or> 14 \<le> utf16_length pass)"
  by (auto simp: passphrase_problem_def MIN_PASSPHRASE_LENGTH_def split: if_splits)

text \<open>A password the flow accepts: not empty, confirmed, and long enough where it is not the account's.\<close>

definition accepted_value :: "string \<Rightarrow> string \<Rightarrow> 's vault_page_scheme \<Rightarrow> bool" where
  "accepted_value sel confirm s \<longleftrightarrow>
     value_of sel s \<noteq> [] \<and> confirmed_value confirm (value_of sel s) s = value_of sel s \<and>
     (accountPasswordMode s \<or> 14 \<le> utf16_length (value_of sel s))"

definition setup_inputs :: "string \<times> string" where
  "setup_inputs = (''[data-vault-wrapped-dek-input]'', ''[data-vault-wrapped-dek-recovery-input]'')"

definition recovery_inputs :: "string \<times> string" where
  "recovery_inputs = (''[data-vault-recovery-wrapped-dek-input]'', ''[data-vault-recovery-wrapped-dek-recovery-input]'')"

lemma setup_outcome:
  assumes "gcm_correct p" "considerate L" "has_inputs setup_inputs s" "out_text s ''[data-vault-error]'' \<noteq> None"
    and "vault_setup p br L s = (r, t)"
  shows "r = Inr () \<and> (refused ''[data-vault-error]'' s t \<or>
    (\<exists>m bs. length m = 32 \<and> accepted_value ''[data-vault-setup-input]'' ''[data-vault-setup-confirm]'' s \<and>
       keys_published p setup_inputs ''[data-vault-recovery-output]'' (value_of ''[data-vault-setup-input]'' s) m bs t))"
proof -
  let ?s = "s\<lparr>out_text := assign [] ''[data-vault-error]'' (out_text s)\<rparr>"
    and ?pass = "value_of ''[data-vault-setup-input]'' s"
  have err: "out_text ?s ''[data-vault-error]'' \<noteq> None" using assms(4) by (simp add: assign_same)
  have same: "value_of sel ?s = value_of sel s" "confirmed_value sel x ?s = confirmed_value sel x s" for sel x
    by (simp_all add: value_of_def confirmed_value_def)
  have prob: "passphrase_problem ?s x y = passphrase_problem s x y" for x y
    by (simp add: passphrase_problem_def accountPasswordMode_def)
  show ?thesis
  proof (cases "passphrase_problem s ?pass (confirmed_value ''[data-vault-setup-confirm]'' ?pass s)")
    case (Some m)
    with assms(5) have "r = Inr ()" "t = ?s\<lparr>out_text := assign m ''[data-vault-error]'' (out_text ?s)\<rparr>"
      by (simp_all add: vault_setup_def run_simps same prob)
    with refusedI [OF passphrase_problem_text [OF Some] assms(4), of ?s] err show ?thesis by simp
  next
    case None
    let ?m = "map (random_byte p) [random_used s ..< random_used s + 32]" and ?s1 = "?s\<lparr>random_used := random_used s + 32\<rparr>"
    obtain x u where x: "setup_keys p br L ?pass ?s = (x, u)" by (cases "setup_keys p br L ?pass ?s")
    then have k: "make_keys p ?m ?pass (\<lambda>code wrapped wrappedRecovery.
       publish_keys br L setup_inputs ''[data-vault-recovery-output]'' (''[data-vault-recovery-panel]'', ''[data-vault-setup]'')
         wrapped wrappedRecovery ?m code) ?s1 = (x, u)"
      by (simp add: setup_keys_def generateMdk_def run_simps setup_inputs_def)
    have "has_inputs setup_inputs ?s1" using assms(3) by (simp add: has_inputs_def)
    from make_keys_outcome [OF assms(1,2) this k] show ?thesis
    proof (elim disjE exE conjE)
      fix e n
      assume "x = Inl e" "u = ?s1\<lparr>random_used := n\<rparr>"
      with assms(5) None x have "r = Inr ()"
        "t = u\<lparr>out_text := assign ''Could not set up encryption in this browser.'' ''[data-vault-error]'' (out_text u)\<rparr>"
        by (simp_all add: vault_setup_def run_simps same prob)
      moreover have "refused ''[data-vault-error]'' s (u\<lparr>out_text := assign ''Could not set up encryption in this browser.'' ''[data-vault-error]'' (out_text u)\<rparr>)"
        by (rule refusedI [OF _ assms(4)]) (use \<open>u = _\<close> err in simp_all)
      ultimately show ?thesis by blast
    next
      fix bs
      assume "x = Inr ()" and kp: "keys_published p setup_inputs ''[data-vault-recovery-output]'' ?pass ?m bs u"
      with assms(5) None x have "r = Inr () \<and> t = u" by (simp add: vault_setup_def run_simps same prob)
      moreover have "accepted_value ''[data-vault-setup-input]'' ''[data-vault-setup-confirm]'' s"
        using passphrase_problem_None [OF None] by (simp add: accepted_value_def)
      moreover have "length ?m = 32" by simp
      ultimately show ?thesis using kp by blast
    qed
  qed
qed

lemma recover_outcome:
  assumes "gcm_correct p" "considerate L" "has_inputs recovery_inputs s" "out_text s ''[data-vault-recovery-error]'' \<noteq> None"
    and "vault_recover p br L s = (r, t)"
  shows "r = Inr () \<and> (refused ''[data-vault-recovery-error]'' s t \<or>
    (\<exists>m bs. site_unwrapWithSecret p (wrappedRecoveryDek s) (normalizeRecoveryCode (value_of ''[data-vault-recovery-code]'' s)) = Inr m \<and>
       accepted_value ''[data-vault-recovery-new-input]'' ''[data-vault-recovery-new-confirm]'' s \<and>
       keys_published p recovery_inputs ''[data-vault-recovery-new-output]'' (value_of ''[data-vault-recovery-new-input]'' s) m bs t))"
proof -
  let ?err = "''[data-vault-recovery-error]''"
  let ?s = "s\<lparr>out_text := assign [] ?err (out_text s)\<rparr>"
    and ?pass = "value_of ''[data-vault-recovery-new-input]'' s"
    and ?code = "normalizeRecoveryCode (value_of ''[data-vault-recovery-code]'' s)"
  let ?problem = "if \<not> truthy (wrappedRecoveryDek s) then Some ''No recovery key found.''
     else if ?code = [] then Some ''Enter your recovery code.''
     else passphrase_problem s ?pass (confirmed_value ''[data-vault-recovery-new-confirm]'' ?pass s)"
  have err: "out_text ?s ?err \<noteq> None" using assms(4) by (simp add: assign_same)
  have same: "value_of sel ?s = value_of sel s" "confirmed_value sel x ?s = confirmed_value sel x s"
    "wrappedRecoveryDek ?s = wrappedRecoveryDek s" for sel x
    by (simp_all add: value_of_def confirmed_value_def wrappedRecoveryDek_def parse_dataset_def)
  have prob: "passphrase_problem ?s x y = passphrase_problem s x y" for x y
    by (simp add: passphrase_problem_def accountPasswordMode_def)
  have run: "vault_recover p br L s =
      (case ?problem of
         Some m \<Rightarrow> setRecoveryError m ?s
       | None \<Rightarrow> catch (recover_keys p br L (wrappedRecoveryDek s) ?code ?pass)
           (\<lambda>_. setRecoveryError ''Recovery code is incorrect or cannot unlock this account.'') ?s)"
    by (simp add: vault_recover_def run_simps same prob split: option.split)
  show ?thesis
  proof (cases ?problem)
    case (Some m)
    then have "m \<noteq> []" using passphrase_problem_text by (auto split: if_splits)
    moreover have "r = Inr ()" "t = ?s\<lparr>out_text := assign m ?err (out_text ?s)\<rparr>"
      using assms(5) Some by (simp_all add: run run_simps)
    ultimately show ?thesis using refusedI [OF _ assms(4), of m ?s] err by simp
  next
    case None
    then have acc: "accepted_value ''[data-vault-recovery-new-input]'' ''[data-vault-recovery-new-confirm]'' s"
      using passphrase_problem_None by (simp add: accepted_value_def split: if_splits)
    let ?handler = "\<lambda>_. setRecoveryError ''Recovery code is incorrect or cannot unlock this account.''"
    have fail: ?thesis if "recover_keys p br L (wrappedRecoveryDek s) ?code ?pass ?s = (Inl e, ?s\<lparr>random_used := n\<rparr>)" for e n
    proof -
      let ?u = "?s\<lparr>random_used := n\<rparr>"
      have "r = Inr ()" "t = ?u\<lparr>out_text := assign ''Recovery code is incorrect or cannot unlock this account.'' ?err (out_text ?u)\<rparr>"
        using assms(5) None that by (simp_all add: run run_simps)
      moreover have "refused ?err s (?u\<lparr>out_text := assign ''Recovery code is incorrect or cannot unlock this account.'' ?err (out_text ?u)\<rparr>)"
        by (rule refusedI [OF _ assms(4)]) (use err in simp_all)
      ultimately show ?thesis by blast
    qed
    show ?thesis
    proof (cases "site_unwrapWithSecret p (wrappedRecoveryDek s) ?code")
      case (Inl e)
      then have "recover_keys p br L (wrappedRecoveryDek s) ?code ?pass ?s = (Inl e, ?s\<lparr>random_used := random_used s\<rparr>)"
        by (simp add: recover_keys_def run_simps)
      then show ?thesis by (rule fail)
    next
      case (Inr m)
      obtain x u where k: "make_keys p m ?pass (\<lambda>code wrapped wrappedRecovery.
         publish_keys br L recovery_inputs ''[data-vault-recovery-new-output]''
           (''[data-vault-recovery-new-panel]'', ''[data-vault-recovery]'') wrapped wrappedRecovery m code) ?s = (x, u)"
        by fastforce
      then have x: "recover_keys p br L (wrappedRecoveryDek s) ?code ?pass ?s = (x, u)"
        by (simp add: recover_keys_def run_simps Inr recovery_inputs_def)
      have "has_inputs recovery_inputs ?s" using assms(3) by (simp add: has_inputs_def)
      from make_keys_outcome [OF assms(1,2) this k] show ?thesis
      proof (elim disjE exE conjE)
        fix e n
        assume "x = Inl e" "u = ?s\<lparr>random_used := n\<rparr>"
        then show ?thesis using x by (intro fail) simp
      next
        fix bs
        assume "x = Inr ()" and kp: "keys_published p recovery_inputs ''[data-vault-recovery-new-output]'' ?pass m bs u"
        with assms(5) None x have "r = Inr () \<and> t = u" by (simp add: run run_simps)
        with kp acc Inr show ?thesis by blast
      qed
    qed
  qed
qed

lemma unlock_outcome:
  assumes "considerate L" "out_text s ''[data-vault-error]'' \<noteq> None" "vault_unlock p br L s = (r, t)"
  shows "r = Inr () \<and>
    (if truthy (wrappedDek s) then
       (case site_unwrapWithSecret p (wrappedDek s) (value_of ''[data-vault-unlock-input]'' s) of
          Inl _ \<Rightarrow> refused ''[data-vault-error]'' s t
        | Inr m \<Rightarrow> mdk t = Some m \<and> value_of ''[data-vault-unlock-input]'' t = [])
     else refused ''[data-vault-error]'' s t)"
proof -
  let ?err = "''[data-vault-error]''"
  let ?s = "s\<lparr>out_text := assign [] ?err (out_text s)\<rparr>"
  have err: "out_text ?s ?err \<noteq> None" using assms(2) by (simp add: assign_same)
  have same: "value_of sel ?s = value_of sel s" "wrappedDek ?s = wrappedDek s" for sel
    by (simp_all add: value_of_def wrappedDek_def parse_dataset_def)
  have shown: "refused ?err s (?s\<lparr>out_text := assign m ?err (out_text ?s)\<rparr>)" if "m \<noteq> []" for m
    by (rule refusedI [OF that assms(2)]) (use err in simp_all)
  show ?thesis
  proof (cases "truthy (wrappedDek s)")
    case False
    with assms(3) shown [of "''No encrypted data key found.''"] show ?thesis
      by (auto simp: vault_unlock_def run_simps same)
  next
    case True
    show ?thesis
    proof (cases "site_unwrapWithSecret p (wrappedDek s) (value_of ''[data-vault-unlock-input]'' s)")
      case (Inl e)
      with True assms(3) shown [of "''Incorrect password.''"] show ?thesis
        by (auto simp: vault_unlock_def run_simps same)
    next
      case (Inr m)
      obtain u where u: "site_unlock br L m ?s = (Inr (), u)" "mdk u = Some m" by (rule unlock_page [OF assms(1)])
      with True Inr assms(3) have "r = Inr () \<and> t = u\<lparr>in_value := assign [] ''[data-vault-unlock-input]'' (in_value u)\<rparr>"
        by (auto simp: vault_unlock_def run_simps same)
      with True Inr u(2) show ?thesis by (simp add: value_of_def assign_def split: option.split)
    qed
  qed
qed

lemma wraps_dataset:
  assumes "wraps p secret raw m" "el_dataset u key = Some raw"
  shows "truthy (parse_dataset key u) \<and> site_unwrapWithSecret p (parse_dataset key u) secret = Inr m"
proof -
  have "\<not> is_ok (json_parse [])" by code_simp
  then have "raw \<noteq> []" using assms(1) by (auto simp: wraps_def)
  with assms show ?thesis by (auto simp: wraps_def parse_dataset_def isWrappedPayload_def isClientPayload_def)
qed

lemma unlock_with:
  assumes "considerate L" "wraps p secret raw m" "el_dataset u ''vaultWrappedDek'' = Some raw"
    "out_text u ''[data-vault-error]'' \<noteq> None" "value_of ''[data-vault-unlock-input]'' u = secret"
  shows "mdk (snd (vault_unlock p br L u)) = Some m"
proof -
  obtain r t where run: "vault_unlock p br L u = (r, t)" by (cases "vault_unlock p br L u")
  with unlock_outcome [OF assms(1,4) run] wraps_dataset [OF assms(2,3)] assms(5) show ?thesis
    by (simp add: wrappedDek_def)
qed

lemma recover_with:
  assumes "gcm_correct p" "considerate L" "wraps p (normalizeRecoveryCode typed) raw m"
    "el_dataset u ''vaultWrappedDekRecovery'' = Some raw" "value_of ''[data-vault-recovery-code]'' u = typed"
    "out_text u ''[data-vault-recovery-error]'' \<noteq> None" "has_inputs recovery_inputs u"
  shows "refused ''[data-vault-recovery-error]'' u (snd (vault_recover p br L u)) \<or>
     (\<exists>bs. keys_published p recovery_inputs ''[data-vault-recovery-new-output]''
        (value_of ''[data-vault-recovery-new-input]'' u) m bs (snd (vault_recover p br L u)))"
proof -
  obtain r t where run: "vault_recover p br L u = (r, t)" by (cases "vault_recover p br L u")
  have "site_unwrapWithSecret p (wrappedRecoveryDek u) (normalizeRecoveryCode (value_of ''[data-vault-recovery-code]'' u)) = Inr m"
    using wraps_dataset [OF assms(3,4)] assms(5) by (simp add: wrappedRecoveryDek_def)
  with recover_outcome [OF assms(1,2,7,6) run] run show ?thesis by auto
qed

section \<open>Properties\<close>

text \<open>
  C8: Setting up encryption either is refused, with a message and nothing changed, or the password
  was acceptable and the session holds a new 32-byte master data key.  Then what the form posts
  opens to that key everywhere: the extension unwraps the first text with the password; a later
  page of the site that is given the first text unlocks with the password; one that is given
  the second text and the recovery code shown, in capital or small letters or without its
  hyphens, unwraps the same key, and if it recovers, wraps that key again under the password
  typed there.
\<close>

theorem setup_opens_everywhere:
  assumes "gcm_correct p" "considerate L" "has_inputs setup_inputs s" "out_text s ''[data-vault-error]'' \<noteq> None"
    and "vault_setup p br L s = (r, t)"
  shows "r = Inr () \<and> (refused ''[data-vault-error]'' s t \<or>
    (\<exists>m code wrapped recovery. length m = 32 \<and> mdk t = Some m \<and>
       accepted_value ''[data-vault-setup-input]'' ''[data-vault-setup-confirm]'' s \<and>
       in_value t (fst setup_inputs) = Some wrapped \<and> in_value t (snd setup_inputs) = Some recovery \<and>
       (out_text t ''[data-vault-recovery-output]'' \<noteq> None \<longrightarrow> out_text t ''[data-vault-recovery-output]'' = Some code) \<and>
       (\<exists>payload. json_parse wrapped = Inr payload \<and>
          unwrapWithSecret p payload (value_of ''[data-vault-setup-input]'' s) = Inr m) \<and>
       (\<forall>u. el_dataset u ''vaultWrappedDek'' = Some wrapped \<longrightarrow> out_text u ''[data-vault-error]'' \<noteq> None \<longrightarrow>
          value_of ''[data-vault-unlock-input]'' u = value_of ''[data-vault-setup-input]'' s \<longrightarrow>
          mdk (snd (vault_unlock p br L u)) = Some m) \<and>
       (\<forall>u. \<forall>typed \<in> {code, lower code, filter code_char code}.
          el_dataset u ''vaultWrappedDekRecovery'' = Some recovery \<longrightarrow> value_of ''[data-vault-recovery-code]'' u = typed \<longrightarrow>
          out_text u ''[data-vault-recovery-error]'' \<noteq> None \<longrightarrow> has_inputs recovery_inputs u \<longrightarrow>
          refused ''[data-vault-recovery-error]'' u (snd (vault_recover p br L u)) \<or>
          (\<exists>bs. keys_published p recovery_inputs ''[data-vault-recovery-new-output]''
             (value_of ''[data-vault-recovery-new-input]'' u) m bs (snd (vault_recover p br L u))))))"
proof -
  have plain: "normalizeRecoveryCode (filter code_char (recovery_text bs)) = recovery_letters bs" for bs
    by (simp add: plain_recovery_code)
  show ?thesis
    using setup_outcome [OF assms]
  proof (elim conjE disjE exE)
    fix m bs
    assume r: "r = Inr ()" and m: "length m = 32"
      and acc: "accepted_value ''[data-vault-setup-input]'' ''[data-vault-setup-confirm]'' s"
      and kp: "keys_published p setup_inputs ''[data-vault-recovery-output]'' (value_of ''[data-vault-setup-input]'' s) m bs t"
    from kp obtain wrapped recovery where w: "in_value t (fst setup_inputs) = Some wrapped"
        "wraps p (value_of ''[data-vault-setup-input]'' s) wrapped m"
      and rec: "in_value t (snd setup_inputs) = Some recovery" "wraps p (recovery_letters bs) recovery m"
      by (auto simp: keys_published_def)
    have typed: "normalizeRecoveryCode typed = recovery_letters bs"
      if "typed \<in> {recovery_text bs, lower (recovery_text bs), filter code_char (recovery_text bs)}" for typed
      using that normalize_recovery_text plain by auto
    have open_it: "\<exists>payload. json_parse wrapped = Inr payload \<and>
          unwrapWithSecret p payload (value_of ''[data-vault-setup-input]'' s) = Inr m"
      using w(2) by (auto simp: wraps_def)
    have all_unlock: "\<forall>u. el_dataset u ''vaultWrappedDek'' = Some wrapped \<longrightarrow> out_text u ''[data-vault-error]'' \<noteq> None \<longrightarrow>
          value_of ''[data-vault-unlock-input]'' u = value_of ''[data-vault-setup-input]'' s \<longrightarrow>
          mdk (snd (vault_unlock p br L u)) = Some m"
      by (intro allI impI) (rule unlock_with [OF assms(2) w(2)])
    have all_recover: "\<forall>u. \<forall>typed \<in> {recovery_text bs, lower (recovery_text bs), filter code_char (recovery_text bs)}.
          el_dataset u ''vaultWrappedDekRecovery'' = Some recovery \<longrightarrow> value_of ''[data-vault-recovery-code]'' u = typed \<longrightarrow>
          out_text u ''[data-vault-recovery-error]'' \<noteq> None \<longrightarrow> has_inputs recovery_inputs u \<longrightarrow>
          refused ''[data-vault-recovery-error]'' u (snd (vault_recover p br L u)) \<or>
          (\<exists>bs. keys_published p recovery_inputs ''[data-vault-recovery-new-output]''
             (value_of ''[data-vault-recovery-new-input]'' u) m bs (snd (vault_recover p br L u)))"
    proof (intro allI ballI impI)
      fix u :: "'a vault_page_scheme" and typed
      assume ty: "typed \<in> {recovery_text bs, lower (recovery_text bs), filter code_char (recovery_text bs)}"
        and u: "el_dataset u ''vaultWrappedDekRecovery'' = Some recovery" "value_of ''[data-vault-recovery-code]'' u = typed"
          "out_text u ''[data-vault-recovery-error]'' \<noteq> None" "has_inputs recovery_inputs u"
      have "wraps p (normalizeRecoveryCode typed) recovery m" using rec(2) by (simp only: typed [OF ty])
      then show "refused ''[data-vault-recovery-error]'' u (snd (vault_recover p br L u)) \<or>
          (\<exists>bs. keys_published p recovery_inputs ''[data-vault-recovery-new-output]''
             (value_of ''[data-vault-recovery-new-input]'' u) m bs (snd (vault_recover p br L u)))"
        by (rule recover_with [OF assms(1,2) _ u])
    qed
    have kt: "mdk t = Some m" "out_text t ''[data-vault-recovery-output]'' \<noteq> None \<longrightarrow>
        out_text t ''[data-vault-recovery-output]'' = Some (recovery_text bs)"
      using kp by (simp_all add: keys_published_def)
    show ?thesis
      by (rule conjI, rule r, rule disjI2, rule exI [of _ m], rule exI [of _ "recovery_text bs"], rule exI [of _ wrapped],
          rule exI [of _ recovery]) (intro conjI m kt acc w(1) rec(1) open_it all_unlock all_recover)
  qed simp
qed

text \<open>A page on which setting up succeeds.\<close>

definition setup_page :: vault_page where
  "setup_page = site.extend sample_site
     \<lparr>in_value = [''[data-vault-setup-input]'' \<mapsto> ''correct horse battery'', ''[data-vault-setup-confirm]'' \<mapsto> ''correct horse battery'',
        ''[data-vault-wrapped-dek-input]'' \<mapsto> [], ''[data-vault-wrapped-dek-recovery-input]'' \<mapsto> []],
      out_text = [''[data-vault-error]'' \<mapsto> [], ''[data-vault-recovery-output]'' \<mapsto> []],
      el_hid = (\<lambda>_. None), status_label = (\<lambda>_. None), el_dataset = (\<lambda>_. None), status_badge = False,
      reset_disabled = None, form_flag = (\<lambda>_. None), form_posts = [], hook_bound = True\<rparr>"

lemma setup_page_fields:
  "value_of ''[data-vault-setup-input]'' setup_page = ''correct horse battery''"
  "confirmed_value ''[data-vault-setup-confirm]'' x setup_page = ''correct horse battery''"
  "has_inputs setup_inputs setup_page" "out_text setup_page ''[data-vault-error]'' \<noteq> None"
  "mdk setup_page = None"
  by (simp_all add: setup_page_def site.extend_def value_of_def confirmed_value_def has_inputs_def setup_inputs_def sample_site_def world.extend_def)

lemma considerate_nothing: "considerate (\<lambda>_ _. ret ())"
  by (simp add: considerate_def keeps_ret)

lemma sample_wrap: "\<exists>c. wrapWithSecret (sample_platform v) m secret w = (Inr c, w\<lparr>random_used := random_used w + 28\<rparr>)"
  by (simp add: wrapWithSecret_run Let_def deriveWrappingKey_def encrypt_op_def) (simp add: sample_platform_def)

lemma sample_make_keys:
  "\<exists>code wrapped wrappedRecovery n. make_keys (sample_platform v) m pass f s = f code wrapped wrappedRecovery (s\<lparr>random_used := n\<rparr>)"
proof -
  let ?p = "sample_platform v"
  let ?s = "s\<lparr>random_used := random_used s + 32\<rparr>"
  obtain code where c: "generateRecoveryCode ?p s = (Inr code, ?s)" by (simp add: generateRecoveryCode_def run_simps)
  obtain w where w: "wrapWithSecret ?p m pass ?s = (Inr w, ?s\<lparr>random_used := random_used ?s + 28\<rparr>)" using sample_wrap by blast
  let ?s1 = "?s\<lparr>random_used := random_used ?s + 28\<rparr>"
  obtain wr where wr: "wrapWithSecret ?p m (normalizeRecoveryCode code) ?s1 = (Inr wr, ?s1\<lparr>random_used := random_used ?s1 + 28\<rparr>)"
    using sample_wrap by blast
  have "make_keys ?p m pass f s = f code w wr (s\<lparr>random_used := 88 + random_used s\<rparr>)"
    using c w wr by (simp add: make_keys_def run_simps)
  then show ?thesis by blast
qed

lemma sample_setup:
  obtains t m where "vault_setup (sample_platform v) br (vault_listener (\<lambda>_ _. ret ())) setup_page = (Inr (), t)" "mdk t = Some m"
proof -
  let ?L = "vault_listener (\<lambda>_ _. ret ()) :: unit vault_listener" and ?p = "sample_platform v"
  let ?s = "setup_page\<lparr>out_text := assign [] ''[data-vault-error]'' (out_text setup_page)\<rparr>"
  let ?m = "map (random_byte ?p) [random_used setup_page ..< random_used setup_page + 32]"
  have ok: "passphrase_problem ?s ''correct horse battery'' ''correct horse battery'' = None"
  proof -
    have "\<not> utf16_length ''correct horse battery'' < MIN_PASSPHRASE_LENGTH" by code_simp
    then show ?thesis by (simp add: passphrase_problem_def)
  qed
  have v: "value_of sel ?s = value_of sel setup_page" "confirmed_value sel x ?s = confirmed_value sel x setup_page" for sel x
    by (simp_all add: value_of_def confirmed_value_def)
  let ?f = "\<lambda>code w wr. publish_keys br ?L setup_inputs ''[data-vault-recovery-output]'' (''[data-vault-recovery-panel]'', ''[data-vault-setup]'')
        w wr ?m code"
  let ?s1 = "?s\<lparr>random_used := random_used setup_page + 32\<rparr>"
  obtain code w wr n where mk: "make_keys ?p ?m ''correct horse battery'' ?f ?s1 = ?f code w wr (?s1\<lparr>random_used := n\<rparr>)"
    using sample_make_keys by blast
  have "has_inputs setup_inputs (?s1\<lparr>random_used := n\<rparr>)" using setup_page_fields(3) by (simp add: has_inputs_def)
  from publish_keys_ok [OF considerate_vault [OF considerate_nothing] this] obtain t where
    t: "?f code w wr (?s1\<lparr>random_used := n\<rparr>) = (Inr (), t)" "mdk t = Some ?m" by blast
  have "setup_keys ?p br ?L ''correct horse battery'' ?s = make_keys ?p ?m ''correct horse battery'' ?f ?s1"
    by (simp add: setup_keys_def generateMdk_def run_simps setup_inputs_def)
  then have sk: "setup_keys ?p br ?L ''correct horse battery'' ?s = (Inr (), t)" using mk t(1) by simp
  have "vault_setup ?p br ?L setup_page = (Inr (), t)"
    using sk by (simp add: vault_setup_def run_simps v setup_page_fields ok)
  then show thesis using t(2) by (rule that)
qed

theorem setup_opens_everywhere_witness:
  "\<exists>t m wrapped payload. vault_setup (sample_platform JNull) (sample_store 9) (vault_listener (\<lambda>_ _. ret ())) setup_page = (Inr (), t) \<and>
     length m = 32 \<and> mdk t = Some m \<and> in_value t (fst setup_inputs) = Some wrapped \<and> json_parse wrapped = Inr payload \<and>
     unwrapWithSecret (sample_platform JNull) payload ''correct horse battery'' = Inr m"
proof -
  obtain t m where t: "vault_setup (sample_platform JNull) (sample_store 9) (vault_listener (\<lambda>_ _. ret ())) setup_page = (Inr (), t)"
    and m: "mdk t = Some m" by (rule sample_setup)
  have "\<not> refused ''[data-vault-error]'' setup_page t"
    using m by (simp add: refused_def setup_page_fields)
  with setup_opens_everywhere [OF sample_gcm_correct considerate_vault [OF considerate_nothing] setup_page_fields(3,4) t]
  show ?thesis using t unfolding setup_page_fields by blast
qed

end
