(* ===== verification/SiteNerve.thy ===== *)
theory SiteNerve
  imports SiteElement
begin

text \<open>
  The password entries of the web application
  (\<^verbatim>\<open>apps/elektrine/assets/js/hooks/nerve_hooks.js\<close>): unlocking, showing the decrypted rows,
  saving an entry, revealing one and generating a password.  The inputs of the entry form are
  known by their name, the other elements by their selector.
\<close>

section \<open>State\<close>

record nerve_row =
  row_metadata :: string
  row_outputs :: "string \<rightharpoonup> string"

record secret_row =
  secret_hidden :: bool
  secret_password :: "string option"
  secret_notes :: "string option"
  notes_hidden :: "bool option"

record nerve_page = hook_element +
  nerve_rows :: "nerve_row list"
  secret_rows :: "string \<rightharpoonup> secret_row"
  password_type :: string
  has_form :: bool
  entry_posts :: "(string \<rightharpoonup> string) list"
  secret_requests :: "string list"

type_synonym 's nerve_ops = "('s nerve_page_scheme, unit) io"

type_synonym 's nerve_listener = "nat \<Rightarrow> bool \<Rightarrow> ('s nerve_page_scheme, unit) io"

definition SITE_PASSWORD_LENGTH :: nat where "SITE_PASSWORD_LENGTH = 24"

definition PASSWORD_ALPHABET :: string where
  "PASSWORD_ALPHABET = ''ABCDEFGHJKLMNPQRSTUVWXYZabcdefghijkmnpqrstuvwxyz23456789!@#$%^&*-_''"

definition metadataAad :: jsv where
  "metadataAad = JObj [(''purpose'', JStr ''elektrine-nerve-metadata'')]"

definition entryAad :: "jsv \<Rightarrow> string \<Rightarrow> jsv result" where
  "entryAad metadata field =
     res_bind (res_bind (js_get metadata ''title'') trim_or_empty) (\<lambda>title.
     res_bind (res_bind (js_get metadata ''login_username'') trim_or_empty) (\<lambda>username.
     res_bind (res_bind (js_get metadata ''website'') trim_or_empty) (\<lambda>website.
     Inr (JObj [(''purpose'', JStr ''elektrine-nerve-entry''),
                (''field'', JStr field),
                (''title'', JStr title),
                (''login_username'', JStr username),
                (''website'', JStr website)]))))"

section \<open>Unlocking and showing the rows\<close>

definition nerve_unlock :: "platform \<Rightarrow> tab_storage \<Rightarrow> 's nerve_listener \<Rightarrow> 's nerve_ops" where
  "nerve_unlock p br L =
     seqc (setError [])
     (bind (reads wrappedDek) (\<lambda>wrapped.
      if \<not> truthy wrapped then setError ''Set up account-password encryption first.''
      else
        catch
          (bind (reads (value_of ''[data-vault-unlock-input]'')) (\<lambda>secret.
           bind (lift (site_unwrapWithSecret p wrapped secret)) (\<lambda>m.
           seqc (site_unlock br L m)
             (setValue ''[data-vault-unlock-input]'' []))))
          (\<lambda>_. setError ''Incorrect account password. If you just reset it, recover encrypted data at /account/encrypted-data.'')))"

definition nerve_key :: "platform \<Rightarrow> ('s nerve_page_scheme, bytes) io" where
  "nerve_key p = featureKey p ''nerve''"

definition decryptMetadata :: "platform \<Rightarrow> string \<Rightarrow> bytes \<Rightarrow> jsv result" where
  "decryptMetadata p raw key =
     (if raw = [] then Inr (JObj [])
      else
        res_bind (json_parse raw) (\<lambda>payload.
        res_bind (site_decryptValue p payload key metadataAad) json_parse))"

definition row_text :: "string \<Rightarrow> jsv \<Rightarrow> (string \<rightharpoonup> string) \<Rightarrow> (string \<rightharpoonup> string)" where
  "row_text selector text outputs = (if is_str text then assign (str_of text) selector outputs else outputs)"

definition decrypt_row :: "platform \<Rightarrow> bytes \<Rightarrow> nerve_row \<Rightarrow> nerve_row" where
  "decrypt_row p key row =
     (case decryptMetadata p (row_metadata row) key of
        Inl _ \<Rightarrow> row
      | Inr metadata \<Rightarrow>
          if metadata = JNull then row
          else row\<lparr>row_outputs :=
            row_text ''[data-nerve-website-output]'' (js_get_opt metadata ''website'')
              (row_text ''[data-nerve-username-output]'' (js_get_opt metadata ''login_username'')
                (row_text ''[data-nerve-title-output]'' (js_get_opt metadata ''title'') (row_outputs row)))\<rparr>)"

definition decryptVisibleMetadata :: "platform \<Rightarrow> 's nerve_ops" where
  "decryptVisibleMetadata p =
     catch
       (bind (nerve_key p) (\<lambda>key. update (\<lambda>s. s\<lparr>nerve_rows := map (decrypt_row p key) (nerve_rows s)\<rparr>)))
       (\<lambda>_. ret ())"

definition onLockChange :: "platform \<Rightarrow> 's nerve_ops" where
  "onLockChange p =
     bind (reads site_isUnlocked) (\<lambda>unlocked.
     seqc (update (\<lambda>s. s\<lparr>out_text :=
         assign (if unlocked then text_or (status_label s ''unlockedLabel'') ''Unlocked.''
                 else text_or (status_label s ''lockedLabel'') ''Locked.'') ''[data-vault-status]'' (out_text s)\<rparr>))
       (if unlocked then decryptVisibleMetadata p else ret ()))"

definition nerve_listener :: "platform \<Rightarrow> 's nerve_listener \<Rightarrow> 's nerve_listener" where
  "nerve_listener p others i unlocked = (if i = 1 then onLockChange p else others i unlocked)"

section \<open>Saving an entry\<close>

definition form_entry :: "'s nerve_page_scheme \<Rightarrow> jsv" where
  "form_entry s =
     JObj [(''title'', JStr (value_of ''entry[title]'' s)),
           (''login_username'', JStr (value_of ''entry[login_username]'' s)),
           (''website'', JStr (value_of ''entry[website]'' s))]"

definition setPayload :: "string \<Rightarrow> jsv \<Rightarrow> 's nerve_ops" where
  "setPayload selector payload = setValue selector (if truthy payload then json_text payload else [])"

text \<open>
  \<^verbatim>\<open>form.requestSubmit()\<close>: without a form it throws; the browser posts the named inputs unless
  its constraint validation, \<open>valid\<close>, finds fault with them.
\<close>

definition posted_inputs :: "string list" where
  "posted_inputs =
     [''entry[title]'', ''entry[login_username]'', ''entry[website]'', ''[data-nerve-encrypted-metadata]'',
      ''[data-nerve-encrypted-password]'', ''[data-nerve-encrypted-notes]'']"

definition request_submit :: "((string \<rightharpoonup> string) \<Rightarrow> bool) \<Rightarrow> 's nerve_ops" where
  "request_submit valid =
     bind (reads has_form) (\<lambda>form.
     if \<not> form then raise TypeError
     else update (\<lambda>s.
       if valid (in_value s) then s\<lparr>entry_posts := entry_posts s @ [in_value s |` set posted_inputs]\<rparr> else s))"

definition encrypt_form :: "platform \<Rightarrow> ((string \<rightharpoonup> string) \<Rightarrow> bool) \<Rightarrow> jsv \<Rightarrow> string \<Rightarrow> string \<Rightarrow> 's nerve_ops" where
  "encrypt_form p valid metadata password notes =
     bind (nerve_key p) (\<lambda>key.
     bind (site_encryptValue p (json_text metadata) key metadataAad) (\<lambda>encryptedMetadata.
     seqc (setPayload ''[data-nerve-encrypted-metadata]'' encryptedMetadata)
     (bind (lift (entryAad metadata ''password'')) (\<lambda>aad.
     bind (site_encryptValue p password key aad) (\<lambda>encryptedPassword.
     seqc (setPayload ''[data-nerve-encrypted-password]'' encryptedPassword)
     (bind (if notes = [] then ret JNull
            else bind (lift (entryAad metadata ''notes'')) (site_encryptValue p notes key)) (\<lambda>encryptedNotes.
     seqc (setPayload ''[data-nerve-encrypted-notes]'' encryptedNotes)
     (seqc (setValue ''[data-nerve-password-input]'' [])
     (seqc (setValue ''[data-nerve-notes-input]'' [])
       (request_submit valid))))))))))"

definition saveEntry :: "platform \<Rightarrow> ((string \<rightharpoonup> string) \<Rightarrow> bool) \<Rightarrow> 's nerve_ops" where
  "saveEntry p valid =
     seqc (setError [])
     (bind (reads site_isUnlocked) (\<lambda>unlocked.
      if \<not> unlocked then setError ''Enter your account password first.''
      else
        bind (reads (\<lambda>s. (form_entry s, value_of ''[data-nerve-password-input]'' s, value_of ''[data-nerve-notes-input]'' s)))
          (\<lambda>(metadata, password, notes).
        if password = [] then setError ''A password is required.''
        else
          catch (encrypt_form p valid metadata password notes)
            (\<lambda>_. setError ''Could not encrypt this entry.''))))"

section \<open>Revealing an entry\<close>

text \<open>
  The reply of the server to \<^verbatim>\<open>load_secret\<close>; the row is that of the button, where it has one.
\<close>

definition update_secret :: "string \<Rightarrow> (secret_row \<Rightarrow> secret_row) \<Rightarrow> 's nerve_ops" where
  "update_secret i f = update (\<lambda>s. s\<lparr>secret_rows := (secret_rows s)(i := map_option f (secret_rows s i))\<rparr>)"

definition toggleReveal :: "string \<Rightarrow> 's nerve_ops" where
  "toggleReveal i =
     bind (reads (\<lambda>s. (secret_rows s i, site_isUnlocked s))) (\<lambda>(row, unlocked).
     case row of
       None \<Rightarrow> ret ()
     | Some row \<Rightarrow>
         if \<not> secret_hidden row then update_secret i (\<lambda>r. r\<lparr>secret_hidden := True\<rparr>)
         else if \<not> unlocked then setError ''Enter your account password first.''
         else update (\<lambda>s. s\<lparr>secret_requests := secret_requests s @ [i]\<rparr>))"

definition reveal_field :: "platform \<Rightarrow> jsv \<Rightarrow> bytes \<Rightarrow> jsv \<Rightarrow> string \<Rightarrow> string result" where
  "reveal_field p payload key metadata field =
     res_bind (json_parse (to_str payload)) (\<lambda>parsed.
     res_bind (entryAad metadata field) (\<lambda>aad.
     site_decryptValue p parsed key aad))"

definition showSecret :: "platform \<Rightarrow> string \<Rightarrow> nat option \<Rightarrow> jsv \<Rightarrow> 's nerve_ops" where
  "showSecret p i row reply =
     (if \<not> truthy reply \<or> js_get_opt reply ''status'' \<noteq> JStr ''ok'' then ret ()
      else
        catch
          (bind (nerve_key p) (\<lambda>key.
           bind (reads (\<lambda>s. (case row of Some k \<Rightarrow> row_metadata (nerve_rows s ! k) | None \<Rightarrow> [], secret_rows s i))) (\<lambda>(raw, secret).
           bind (lift (decryptMetadata p raw key)) (\<lambda>metadata.
           seqc
             (if truthy (js_get_opt reply ''encrypted_password'') \<and> Option.bind secret secret_password \<noteq> None then
                bind (lift (reveal_field p (js_get_opt reply ''encrypted_password'') key metadata ''password'')) (\<lambda>password.
                update_secret i (\<lambda>r. r\<lparr>secret_password := Some password\<rparr>))
              else ret ())
           (seqc
             (if truthy (js_get_opt reply ''encrypted_notes'') \<and> Option.bind secret secret_notes \<noteq> None then
                bind (lift (reveal_field p (js_get_opt reply ''encrypted_notes'') key metadata ''notes'')) (\<lambda>notes.
                update_secret i (\<lambda>r. r\<lparr>secret_notes := Some notes, notes_hidden := map_option (\<lambda>_. False) (notes_hidden r)\<rparr>))
              else ret ())
             (update_secret i (\<lambda>r. r\<lparr>secret_hidden := False\<rparr>)))))))
          (\<lambda>_. setError ''Could not decrypt this entry.''))"

section \<open>Generating a password\<close>

definition password_char :: "8 word \<Rightarrow> char" where
  "password_char b = PASSWORD_ALPHABET ! (unat b mod length PASSWORD_ALPHABET)"

definition setPasswordVisible :: "bool \<Rightarrow> 's nerve_ops" where
  "setPasswordVisible visible =
     update (\<lambda>s.
       if in_value s ''[data-nerve-password-input]'' = None then s
       else s\<lparr>password_type := (if visible then ''text'' else ''password''),
              el_hid := assign (\<not> visible) ''[data-nerve-eye-hide]'' (assign visible ''[data-nerve-eye-show]'' (el_hid s))\<rparr>)"

definition site_generatePassword :: "platform \<Rightarrow> 's nerve_ops" where
  "site_generatePassword p =
     bind (random_bytes p SITE_PASSWORD_LENGTH) (\<lambda>bytes.
     seqc (setValue ''[data-nerve-password-input]'' (map password_char bytes))
       (setPasswordVisible True))"

definition togglePasswordVisibility :: "'s nerve_ops" where
  "togglePasswordVisibility =
     bind (reads (\<lambda>s. in_value s ''[data-nerve-password-input]'' \<noteq> None \<and> password_type s = ''password'')) setPasswordVisible"

section \<open>Events\<close>

definition nerve_click :: "platform \<Rightarrow> tab_storage \<Rightarrow> ((string \<rightharpoonup> string) \<Rightarrow> bool) \<Rightarrow> 's nerve_listener \<Rightarrow> (string \<Rightarrow> bool) \<Rightarrow> string option \<Rightarrow> 's nerve_ops" where
  "nerve_click p br valid L within reveal =
     (if within ''[data-vault-unlock]'' then nerve_unlock p br L
      else if within ''[data-vault-lock]'' then site_lock br L
      else if within ''[data-nerve-toggle-password]'' then togglePasswordVisibility
      else if within ''[data-nerve-generate]'' then site_generatePassword p
      else if within ''[data-nerve-entry-submit]'' then saveEntry p valid
      else (case reveal of Some i \<Rightarrow> toggleReveal i | None \<Rightarrow> ret ()))"

definition nerve_mounted :: "platform \<Rightarrow> 's nerve_ops" where
  "nerve_mounted p = seqc (subscribe 1) (onLockChange p)"

definition nerve_destroyed :: "'s nerve_ops" where
  "nerve_destroyed = unsubscribe 1"

section \<open>Lemmas\<close>

lemma aad_same: "metadataAad = nerveMetadataAssociatedData" "entryAad = nerveEntryAssociatedData"
  by (simp_all add: fun_eq_iff metadataAad_def nerveMetadataAssociatedData_def entryAad_def nerveEntryAssociatedData_def)

lemma alphabet_length: "length PASSWORD_ALPHABET = 66" "distinct PASSWORD_ALPHABET"
  by code_simp+

lemma byte_residue_count:
  assumes "i < 66"
  shows "card {b :: 8 word. unat b mod 66 = i} = (if i < 58 then 4 else 3)"
proof -
  have small: "unat (b :: 8 word) < 256" for b using unsigned_less [of b, where 'a = nat] by simp
  have undo: "unat (word_of_nat n :: 8 word) = n" if "n < 256" for n
    using that by (simp add: unat_of_nat)
  have "bij_betw (unat :: 8 word \<Rightarrow> nat) {b. unat b mod 66 = i} {n. n < 256 \<and> n mod 66 = i}"
    by (rule bij_betw_byWitness [where f' = word_of_nat]) (auto simp: small undo)
  then have "card {b :: 8 word. unat b mod 66 = i} = card {n. n < 256 \<and> n mod 66 = i}"
    by (rule bij_betw_same_card)
  also have "{n. n < 256 \<and> n mod 66 = i} = (\<lambda>q. 66 * q + i) ` {..< (if i < 58 then 4 else 3)}"
  proof (intro set_eqI iffI)
    fix n
    assume "n \<in> {n. n < 256 \<and> n mod 66 = i}"
    then have "n < 256" "n mod 66 = i" by simp_all
    then have "n = 66 * (n div 66) + i" using mult_div_mod_eq [of 66 n] by simp
    with \<open>n < 256\<close> have "n div 66 < (if i < 58 then 4 else 3)" by (simp split: if_splits)
    with \<open>n = _\<close> show "n \<in> (\<lambda>q. 66 * q + i) ` {..< (if i < 58 then 4 else 3)}" by blast
  next
    fix n
    assume "n \<in> (\<lambda>q. 66 * q + i) ` {..< (if i < 58 then 4 else 3 :: nat)}"
    with assms show "n \<in> {n. n < 256 \<and> n mod 66 = i}" by (auto split: if_splits)
  qed
  also have "card \<dots> = (if i < 58 then 4 else 3)"
    by (subst card_image) (auto simp: inj_on_def)
  finally show ?thesis .
qed

section \<open>Properties\<close>

text \<open>
  The site's generator fills the input with 24 characters of its alphabet, each chosen by one
  random byte; but the choice is skewed: of the 256 bytes, four choose each of the first 58
  characters and only three each of the last eight, and no class of characters is sure to
  occur.
\<close>

theorem site_password_skew:
  assumes "i < length PASSWORD_ALPHABET" "in_value s ''[data-nerve-password-input]'' \<noteq> None"
  shows "length PASSWORD_ALPHABET = 66 \<and>
    card {b. password_char b = PASSWORD_ALPHABET ! i} = (if i < 58 then 4 else 3) \<and>
    (\<exists>t password. site_generatePassword p s = (Inr (), t) \<and> in_value t ''[data-nerve-password-input]'' = Some password \<and>
       length password = 24 \<and> set password \<subseteq> set PASSWORD_ALPHABET \<and> password_type t = ''text'' \<and>
       ((\<forall>k. random_byte p k = 0) \<longrightarrow> password = replicate 24 (CHR ''A'')))"
proof -
  have i: "i < 66" using assms(1) by (simp add: alphabet_length)
  have eq: "password_char b = PASSWORD_ALPHABET ! i \<longleftrightarrow> unat b mod 66 = i" for b
    using i alphabet_length by (simp add: password_char_def nth_eq_iff_index_eq)
  let ?bytes = "map (random_byte p) [random_used s ..< random_used s + 24]"
  have len: "SITE_PASSWORD_LENGTH = 24" by (simp add: SITE_PASSWORD_LENGTH_def)
  obtain t where t: "site_generatePassword p s = (Inr (), t)" "in_value t ''[data-nerve-password-input]'' = Some (map password_char ?bytes)"
    "password_type t = ''text''"
    using assms(2) by (simp add: site_generatePassword_def setPasswordVisible_def run_simps setter_runs len assign_def)
  have chars: "set (map password_char ?bytes) \<subseteq> set PASSWORD_ALPHABET"
    using alphabet_length by (auto simp: password_char_def)
  have zero: "map password_char ?bytes = replicate 24 (CHR ''A'')" if "\<forall>k. random_byte p k = 0"
  proof -
    have "password_char 0 = CHR ''A''" by (simp add: password_char_def PASSWORD_ALPHABET_def)
    then show ?thesis using that by (simp add: map_replicate_const comp_def)
  qed
  have count: "card {b. password_char b = PASSWORD_ALPHABET ! i} = (if i < 58 then 4 else 3)"
    using byte_residue_count [OF i] by (simp only: eq)
  show ?thesis
    by (intro conjI alphabet_length(1) count exI [of _ t] exI [of _ "map password_char ?bytes"] t chars impI zero) simp_all
qed

definition blank_nerve_page :: nerve_page where
  "blank_nerve_page = site.extend sample_site
     \<lparr>in_value = [''[data-nerve-password-input]'' \<mapsto> []], out_text = (\<lambda>_. None), el_hid = (\<lambda>_. None), status_label = (\<lambda>_. None),
      el_dataset = (\<lambda>_. None), nerve_rows = [], secret_rows = (\<lambda>_. None), password_type = ''password'', has_form = True,
      entry_posts = [], secret_requests = []\<rparr>"

theorem site_password_skew_witness:
  "card {b. password_char b = CHR ''A''} = 4 \<and> card {b. password_char b = CHR ''_''} = 3"
proof -
  have n: "PASSWORD_ALPHABET ! 0 = CHR ''A''" "PASSWORD_ALPHABET ! 65 = CHR ''_''" "0 < length PASSWORD_ALPHABET"
    "65 < length PASSWORD_ALPHABET"
    by (simp_all add: PASSWORD_ALPHABET_def)
  have i: "in_value blank_nerve_page ''[data-nerve-password-input]'' \<noteq> None"
    by (simp add: blank_nerve_page_def site.extend_def)
  from site_password_skew [OF n(3) i] site_password_skew [OF n(4) i] show ?thesis by (simp add: n(1,2))
qed

end
