(* ===== verification/SiteRace.thy ===== *)
theory SiteRace
  imports SiteSession
begin

text \<open>
  One document of the web application as a state machine: requests for feature keys and the
  derivations they start (\<^verbatim>\<open>featureKey\<close> and \<^verbatim>\<open>featureHmacKey\<close> of
  \<^verbatim>\<open>hooks/vault_session.js\<close> wait for WebCrypto between testing the cache and filling it),
  unlocking, locking and leaving for a new document.  A key in the cache always comes from a
  master data key this document held; it comes from the current one as long as no unlock or
  lock overtakes a derivation, and one example shows that this proviso is needed.
\<close>

section \<open>Steps\<close>

type_synonym derivation = "key_kind \<times> string \<times> bytes"

type_synonym 's tab_state = "'s site_scheme \<times> derivation list"

datatype session_event =
    Asked key_kind string
  | Derived nat
  | Unlocked bytes
  | Locked
  | NewDocument

fun session_step :: "platform \<Rightarrow> tab_storage \<Rightarrow> 's listener \<Rightarrow> session_event \<Rightarrow> 's tab_state \<Rightarrow> 's tab_state" where
  "session_step p br L (Asked k feature) (s, pending) =
     (case key_start k feature s of
        (Inr (Inr m), t) \<Rightarrow> (t, pending @ [(k, feature, m)])
      | (_, t) \<Rightarrow> (t, pending))"
| "session_step p br L (Derived i) (s, pending) =
     (if i < length pending then
        (case pending ! i of (k, feature, m) \<Rightarrow>
           (snd (key_finish p k feature m s), take i pending @ drop (i + 1) pending))
      else (s, pending))"
| "session_step p br L (Unlocked m) (s, pending) = (snd (site_unlock br L m s), pending)"
| "session_step p br L Locked (s, pending) = (snd (site_lock br L s), pending)"
| "session_step p br L NewDocument (s, pending) = (snd (new_document br s), [])"

fun session_run :: "platform \<Rightarrow> tab_storage \<Rightarrow> 's listener \<Rightarrow> session_event list \<Rightarrow> 's tab_state \<Rightarrow> 's tab_state" where
  "session_run p br L [] st = st"
| "session_run p br L (ev # evs) st = session_run p br L evs (session_step p br L ev st)"

text \<open>No unlock and no lock while a derivation runs.\<close>

fun calm :: "platform \<Rightarrow> tab_storage \<Rightarrow> 's listener \<Rightarrow> session_event list \<Rightarrow> 's tab_state \<Rightarrow> bool" where
  "calm p br L [] st = True"
| "calm p br L (ev # evs) st =
     ((case ev of Unlocked _ \<Rightarrow> snd st = [] | Locked \<Rightarrow> snd st = [] | _ \<Rightarrow> True) \<and>
      calm p br L evs (session_step p br L ev st))"

section \<open>Coherent caches\<close>

text \<open>Every cached key and every running derivation belongs to the current master data key.\<close>

definition key_of :: "platform \<Rightarrow> bytes option \<Rightarrow> key_kind \<Rightarrow> string \<Rightarrow> bytes \<Rightarrow> bool" where
  "key_of p m k feature key \<longleftrightarrow> (\<exists>m'. m = Some m' \<and> derive_key p k m' feature = Inr key)"

definition coherent :: "platform \<Rightarrow> 's tab_state \<Rightarrow> bool" where
  "coherent p st \<longleftrightarrow>
     (\<forall>k feature key. cached_key k feature (fst st) = Some key \<longrightarrow> key_of p (mdk (fst st)) k feature key) \<and>
     (\<forall>(k, feature, m) \<in> set (snd st). mdk (fst st) = Some m)"

text \<open>A listener that leaves the module's state alone.\<close>

definition key_vars :: "'s site_scheme \<Rightarrow> bytes option \<times> (string \<rightharpoonup> bytes) \<times> (string \<rightharpoonup> bytes)" where
  "key_vars s = (mdk s, featureKeys s, featureHmacKeys s)"

definition quiet :: "'s listener \<Rightarrow> bool" where
  "quiet L \<longleftrightarrow> (\<forall>i u. keeps key_vars (L i u))"

lemma cached_key_same: "key_vars s = key_vars t \<Longrightarrow> cached_key k f s = cached_key k f t"
  by (cases k) (simp_all add: cached_key_def key_vars_def)

lemma notify_quiet: "quiet L \<Longrightarrow> notify L s = (r, t) \<Longrightarrow> key_vars t = key_vars s"
proof -
  assume "quiet L"
  then have "keeps key_vars (notify L)"
    unfolding notify_def quiet_def
    by (intro keeps_intros) (auto split: prod.split intro!: keeps_all_settled)
  then show "notify L s = (r, t) \<Longrightarrow> key_vars t = key_vars s" by (rule keepsD)
qed

lemma site_unlock_vars:
  assumes "quiet L"
  shows "key_vars (snd (site_unlock br L m s)) = (Some m, (\<lambda>_. None), (\<lambda>_. None))"
proof -
  let ?s = "(tab_written br (Some (bytesToBase64 m)) (s\<lparr>mdk := Some m\<rparr>))\<lparr>featureKeys := (\<lambda>_. None), featureHmacKeys := (\<lambda>_. None)\<rparr>"
  obtain t where t: "notify L ?s = (Inr (), t)" using notify_run by blast
  with notify_quiet [OF assms t] show ?thesis
    by (simp add: site_unlock_def forget_derived_def run_simps key_vars_def)
qed

lemma site_lock_vars:
  assumes "quiet L"
  shows "key_vars (snd (site_lock br L s)) = (None, (\<lambda>_. None), (\<lambda>_. None))"
proof -
  let ?s = "(tab_written br None (s\<lparr>mdk := None\<rparr>))\<lparr>featureKeys := (\<lambda>_. None), featureHmacKeys := (\<lambda>_. None)\<rparr>"
  obtain t where t: "notify L ?s = (Inr (), t)" using notify_run by blast
  with notify_quiet [OF assms t] show ?thesis
    by (simp add: site_lock_def forget_derived_def run_simps key_vars_def)
qed

definition caches :: "'s site_scheme \<Rightarrow> (string \<rightharpoonup> bytes) \<times> (string \<rightharpoonup> bytes)" where
  "caches s = (featureKeys s, featureHmacKeys s)"

lemma keeps_tab_access:
  assumes "\<And>s. caches (snd (f s)) = caches s"
  shows "keeps caches (tab_access br f)"
proof (rule keepsI)
  fix s r t
  assume run: "tab_access br f s = (r, t)"
  let ?s = "s\<lparr>tab_ops := tab_ops s + 1\<rparr>"
  obtain x u where u: "f ?s = (x, u)" by (cases "f ?s")
  have same: "caches ?s = caches s" by (simp add: caches_def)
  with assms [of ?s] u have "caches u = caches s" by simp
  with run u same show "caches t = caches s" by (simp add: tab_access_run split: if_splits)
qed

lemma keeps_readStoredMdk: "keeps caches (readStoredMdk br)"
  unfolding readStoredMdk_def clearStoredMdk_def tab_get_def tab_remove_def
  by (intro keeps_intros keeps_tab_access) (simp_all add: caches_def)

lemma new_document_caches: "caches (snd (new_document br s)) = ((\<lambda>_. None), (\<lambda>_. None))"
proof -
  let ?s = "s\<lparr>mdk := None, featureKeys := (\<lambda>_. None), featureHmacKeys := (\<lambda>_. None), listeners := []\<rparr>"
  obtain m t where t: "readStoredMdk br ?s = (Inr m, t)" using readStoredMdk_result by blast
  have "caches t = caches ?s" by (rule keepsD [OF keeps_readStoredMdk t])
  with t show ?thesis by (simp add: new_document_def run_simps caches_def)
qed

lemma no_cached_key:
  "caches s = ((\<lambda>_. None), (\<lambda>_. None)) \<Longrightarrow> cached_key k f s = None"
  by (cases k) (simp_all add: caches_def cached_key_def)

lemma key_start_cases:
  "key_start k feature s =
     (case mdk s of
        None \<Rightarrow> (Inl (Error ''vault-locked''), s)
      | Some m \<Rightarrow> (Inr (case cached_key k feature s of Some key \<Rightarrow> Inl key | None \<Rightarrow> Inr m), s))"
  by (simp add: key_start_def run_simps split: option.split)

lemma key_finish_run:
  "key_finish p k feature m s =
     (case derive_key p k m feature of
        Inl e \<Rightarrow> (Inl e, s)
      | Inr key \<Rightarrow> (Inr key, cache_key k feature key s))"
  by (simp add: key_finish_def run_simps split: sum.split)

lemma cached_cache_key:
  "cached_key k f (cache_key k' f' key s) = (if k = k' \<and> f = f' then Some key else cached_key k f s)"
  by (cases k; cases k') (auto simp: cached_key_def cache_key_def)

lemma mdk_cache_key [simp]: "mdk (cache_key k f key s) = mdk s"
  by (cases k) (simp_all add: cache_key_def)

lemma step_coherent:
  assumes "quiet L" "coherent p st" "case ev of Unlocked _ \<Rightarrow> snd st = [] | Locked \<Rightarrow> snd st = [] | _ \<Rightarrow> True"
  shows "coherent p (session_step p br L ev st)"
proof -
  obtain s pending where st: "st = (s, pending)" by (cases st)
  show ?thesis
  proof (cases ev)
    case (Asked k feature)
    with assms(2) st show ?thesis
      by (auto simp: key_start_cases coherent_def split: option.splits)
  next
    case (Derived i)
    show ?thesis
    proof (cases "i < length pending")
      case True
      obtain k f m where d: "pending ! i = (k, f, m)" by (cases "pending ! i")
      have sub: "set (take i pending @ drop (i + 1) pending) \<subseteq> set pending"
        using set_take_subset set_drop_subset by (metis Un_least set_append)
      have "(k, f, m) \<in> set pending" using True d nth_mem by metis
      with assms(2) st have m: "mdk s = Some m" by (auto simp: coherent_def)
      with assms(2) st Derived True d sub show ?thesis
        by (auto simp: coherent_def key_finish_run cached_cache_key key_of_def split: sum.split)
    next
      case False
      with assms(2) st Derived show ?thesis by simp
    qed
  next
    case (Unlocked m)
    with assms(3) st have "pending = []" by simp
    moreover have "caches (snd (site_unlock br L m s)) = ((\<lambda>_. None), (\<lambda>_. None))"
      using site_unlock_vars [OF assms(1), of br m s] by (simp add: key_vars_def caches_def)
    ultimately show ?thesis using st Unlocked by (simp add: coherent_def no_cached_key)
  next
    case Locked
    with assms(3) st have "pending = []" by simp
    moreover have "caches (snd (site_lock br L s)) = ((\<lambda>_. None), (\<lambda>_. None))"
      using site_lock_vars [OF assms(1), of br s] by (simp add: key_vars_def caches_def)
    ultimately show ?thesis using st Locked by (simp add: coherent_def no_cached_key)
  next
    case NewDocument
    then show ?thesis using st by (simp add: coherent_def no_cached_key [OF new_document_caches])
  qed
qed

lemma run_coherent:
  "quiet L \<Longrightarrow> coherent p st \<Longrightarrow> calm p br L evs st \<Longrightarrow> coherent p (session_run p br L evs st)"
proof (induction evs arbitrary: st)
  case Nil
  then show ?case by simp
next
  case (Cons ev evs)
  then show ?case using step_coherent [OF Cons.prems(1,2)] by (auto simp only: session_run.simps calm.simps)
qed

section \<open>Properties\<close>

text \<open>
  C32: In a document that starts with empty caches, whatever is asked for, derived, unlocked,
  locked or left, as long as no unlock and no lock overtakes a derivation: every key the session
  holds or answers is the one derived from the current master data key, and a locked session
  holds none and answers none.
\<close>

theorem session_keys_current:
  assumes "quiet L" "caches s = ((\<lambda>_. None), (\<lambda>_. None))" "calm p br L evs (s, [])"
    and "session_run p br L evs (s, []) = (t, pending)"
  shows "(\<forall>k feature key. cached_key k feature t = Some key \<longrightarrow>
       (\<exists>m. mdk t = Some m \<and> derive_key p k m feature = Inr key)) \<and>
    (\<forall>k feature. fst (feature_key p k feature t) =
       (case mdk t of None \<Rightarrow> Inl (Error ''vault-locked'') | Some m \<Rightarrow> derive_key p k m feature))"
proof -
  have "coherent p (s, [])" by (simp add: coherent_def no_cached_key [OF assms(2)])
  from run_coherent [OF assms(1) this assms(3)] have c: "cached_key k feature t = Some key \<Longrightarrow> key_of p (mdk t) k feature key" for k feature key
    by (simp add: assms(4) coherent_def)
  have "fst (feature_key p k feature t) =
      (case mdk t of None \<Rightarrow> Inl (Error ''vault-locked'') | Some m \<Rightarrow> derive_key p k m feature)" for k feature
  proof (cases "mdk t")
    case None
    then show ?thesis by (simp add: feature_key_def run_simps key_start_cases)
  next
    case (Some m)
    show ?thesis
    proof (cases "cached_key k feature t")
      case None
      with Some show ?thesis
        by (simp add: feature_key_def run_simps key_start_cases key_finish_run split: sum.split)
    next
      case (Some key)
      with c [OF Some] \<open>mdk t = Some m\<close> show ?thesis
        by (simp add: feature_key_def run_simps key_start_cases key_of_def)
    qed
  qed
  with c show ?thesis by (simp add: key_of_def)
qed

text \<open>
  Without that proviso the cache can be wrong: a derivation that a lock overtakes leaves
  its key in the locked session, and one that the unlock of another master data key overtakes
  makes the session answer the old feature key under the new master data key.
\<close>

theorem session_key_race:
  assumes "quiet L" "derive_key p k m1 feature = Inr key"
  shows "(let t = fst (session_run p br L [Unlocked m1, Asked k feature, Locked, Derived 0] (s, [])) in
      mdk t = None \<and> cached_key k feature t = Some key) \<and>
    (let t = fst (session_run p br L [Unlocked m1, Asked k feature, Unlocked m2, Derived 0] (s, [])) in
      mdk t = Some m2 \<and> fst (feature_key p k feature t) = Inr key)"
proof -
  let ?s1 = "snd (site_unlock br L m1 s)"
  have s1: "mdk ?s1 = Some m1" "cached_key k feature ?s1 = None"
    using site_unlock_vars [OF assms(1), of br m1 s] by (simp_all add: key_vars_def no_cached_key caches_def)
  have l: "mdk (snd (site_lock br L ?s1)) = None"
    using site_lock_vars [OF assms(1), of br ?s1] by (simp add: key_vars_def)
  have u: "mdk (snd (site_unlock br L m2 ?s1)) = Some m2"
    using site_unlock_vars [OF assms(1), of br m2 ?s1] by (simp add: key_vars_def)
  show ?thesis
    by (simp add: key_start_cases s1 key_finish_run assms(2) cached_cache_key l u feature_key_def run_simps)
qed

section \<open>Examples\<close>

lemma quiet_nothing: "quiet (\<lambda>_ _. ret ())"
  by (simp add: quiet_def keeps_ret)

lemma sample_caches: "caches sample_site = ((\<lambda>_. None), (\<lambda>_. None))"
  by (simp add: caches_def sample_site_def world.extend_def)

lemma sample_derive: "derive_key (sample_platform v) AesKey m feature = Inr (m @ encode_text (HKDF_PREFIX @ feature))"
  by (simp add: derive_key_def site_deriveFeatureKey_def sample_platform_def)

theorem session_keys_current_witness:
  "\<exists>t pending. session_run (sample_platform JNull) (sample_store 9) (\<lambda>_ _. ret ())
       [Unlocked [1], Asked AesKey ''nerve'', Derived 0, Unlocked [2]] (sample_site, []) = (t, pending) \<and>
     fst (feature_key (sample_platform JNull) AesKey ''nerve'' t) = Inr ([2] @ encode_text (HKDF_PREFIX @ ''nerve''))"
proof -
  let ?L = "\<lambda>_ _. ret () :: (unit, unit) web" and ?br = "sample_store 9" and ?p = "sample_platform JNull"
  let ?evs = "[Unlocked [1], Asked AesKey ''nerve'', Derived 0, Unlocked [2]]"
  obtain t pending where run: "session_run ?p ?br ?L ?evs (sample_site, []) = (t, pending)"
    by (cases "session_run ?p ?br ?L ?evs (sample_site, [])")
  let ?s1 = "snd (site_unlock ?br ?L [1] sample_site)"
  have s1: "mdk ?s1 = Some [1]" "cached_key AesKey ''nerve'' ?s1 = None"
    using site_unlock_vars [OF quiet_nothing, of ?br "[1]" sample_site] by (simp_all add: key_vars_def no_cached_key caches_def)
  have calm: "calm ?p ?br ?L ?evs (sample_site, [])"
    by (simp add: key_start_cases s1)
  have "mdk t = Some [2]"
    using run site_unlock_vars [OF quiet_nothing, of ?br "[2]"] by (auto simp: key_start_cases s1 key_vars_def)
  moreover note session_keys_current [OF quiet_nothing sample_caches calm run]
  ultimately show ?thesis using run by (simp add: sample_derive)
qed

theorem session_key_race_witness:
  "fst (feature_key (sample_platform JNull) AesKey ''nerve''
      (fst (session_run (sample_platform JNull) (sample_store 9) (\<lambda>_ _. ret ())
        [Unlocked [1], Asked AesKey ''nerve'', Unlocked [2], Derived 0] (sample_site, [])))) = Inr ([1] @ encode_text (HKDF_PREFIX @ ''nerve'')) \<and>
   derive_key (sample_platform JNull) AesKey [2] ''nerve'' \<noteq> Inr ([1] @ encode_text (HKDF_PREFIX @ ''nerve''))"
  using session_key_race [OF quiet_nothing sample_derive, where br = "sample_store 9" and s = sample_site and ?m2.0 = "[2]"]
  by (simp add: Let_def sample_derive)

end
