(* ===== verification/SiteBridge.thy ===== *)
theory SiteBridge
  imports SiteNerve SiteRace PopupEntry
begin

text \<open>
  The web application and the extension together: an entry saved on the site
  (\<^verbatim>\<open>saveEntry\<close> of \<^verbatim>\<open>hooks/nerve_hooks.js\<close>) opens in the extension's worker and in the site's
  own reveal, under the feature key both derive from the account's master data key.
\<close>

section \<open>Saving an entry\<close>

lemma keeps_posts_set [keeps_intros]:
  "keeps entry_posts (setValue sel v)" "keeps entry_posts (setPayload sel payload)"
  by (simp_all add: setPayload_def setValue_def keeps_def update_def)

lemma keeps_posts_encrypt [keeps_intros]: "keeps entry_posts (site_encryptValue p v key ad)"
  by (rule keepsI) (auto simp: site_encryptValue_eq dest: encryptValue_frame)

lemma keeps_posts_key [keeps_intros]: "keeps entry_posts (nerve_key p)"
proof -
  have c: "keeps entry_posts (update (cache_key k f key))" for k f key
    by (cases k) (simp_all add: keeps_def update_def cache_key_def)
  show ?thesis
    unfolding nerve_key_def featureKey_def feature_key_def key_start_def key_finish_def
    by (intro keeps_intros c) (auto split: prod.split intro!: keeps_intros)
qed

lemma request_submit_failing: "keeps_failing entry_posts (request_submit valid)"
  by (auto simp: keeps_failing_def request_submit_def run_simps split: if_splits)

lemma encrypt_form_failing: "keeps_failing entry_posts (encrypt_form p valid metadata password notes)"
  unfolding encrypt_form_def
  by (intro keeps_failing_bind keeps_failing_seqc keeps_intros request_submit_failing)

text \<open>The feature key of a coherent session is the extension's.\<close>

lemma coherent_key:
  assumes "coherent p (s, [])" "nerve_key p s = (Inr key, t)"
  shows "(\<exists>m. mdk s = Some m \<and> deriveFeatureKey p m FEATURE = Inr key) \<and> in_value t = in_value s \<and> has_form t = has_form s"
proof (cases "mdk s")
  case None
  with assms(2) show ?thesis by (simp add: nerve_key_def featureKey_def feature_key_def run_simps key_start_cases)
next
  case (Some m)
  show ?thesis
  proof (cases "cached_key AesKey ''nerve'' s")
    case None
    with Some assms(2) show ?thesis
      by (auto simp: nerve_key_def featureKey_def feature_key_def run_simps key_start_cases key_finish_run derive_key_def
          site_deriveFeatureKey_eq FEATURE_def cache_key_def split: sum.splits)
  next
    case (Some k)
    with assms(1) \<open>mdk s = Some m\<close> have "derive_key p AesKey m ''nerve'' = Inr k"
      by (auto simp: coherent_def key_of_def)
    with Some assms(2) \<open>mdk s = Some m\<close> show ?thesis
      by (auto simp: nerve_key_def featureKey_def feature_key_def run_simps key_start_cases derive_key_def
          site_deriveFeatureKey_eq FEATURE_def)
  qed
qed

text \<open>One encrypted field of the form, as it is posted.\<close>

definition sealed :: "platform \<Rightarrow> bytes \<Rightarrow> jsv \<Rightarrow> string \<Rightarrow> jsv \<Rightarrow> bool" where
  "sealed p key ad plain payload \<longleftrightarrow>
     isClientPayload payload \<and> json_ok payload \<and> decryptValue p payload key ad = Inr plain"

lemma encrypt_sealed:
  assumes "gcm_correct p" "site_encryptValue p v key ad w = (Inr payload, t)"
  shows "sealed p key ad v payload \<and> t = w\<lparr>random_used := random_used w + 12\<rparr> \<and> truthy payload"
proof -
  have run: "encryptValue p v key ad w = (Inr payload, t)" using assms(2) by (simp only: site_encryptValue_eq)
  from encryptValue_ok [OF run] obtain iv c where "payload = client_payload iv c" by blast
  then have "json_ok payload" "truthy payload" by (simp_all add: client_payload_def obj_ok_fresh wrapped_keys_plain)
  with decryptValue_encryptValue [OF assms(1) run] encryptValue_frame [OF run] show ?thesis by (simp add: sealed_def)
qed

text \<open>A saved form: what is encrypted, what is posted, what is left on the page.\<close>

definition input_names :: "string set" where
  "input_names = set posted_inputs \<union> {''[data-nerve-password-input]'', ''[data-nerve-notes-input]''}"

lemma setPayload_run [run_simps]:
  "setPayload sel payload s =
     (Inr (), s\<lparr>in_value := assign (if truthy payload then json_text payload else []) sel (in_value s)\<rparr>)"
  by (simp add: setPayload_def run_simps)

lemma encrypt_form_steps:
  assumes "encrypt_form p valid metadata password notes s = (Inr (), t)"
  obtains key s1 em s2 adp ep s3 en s4 where "nerve_key p s = (Inr key, s1)"
    "site_encryptValue p (json_text metadata) key metadataAad s1 = (Inr em, s2)"
    "entryAad metadata ''password'' = Inr adp"
    "site_encryptValue p password key adp (snd (setPayload ''[data-nerve-encrypted-metadata]'' em s2)) = (Inr ep, s3)"
    "(if notes = [] then ret JNull else bind (lift (entryAad metadata ''notes'')) (site_encryptValue p notes key))
       (snd (setPayload ''[data-nerve-encrypted-password]'' ep s3)) = (Inr en, s4)"
    "request_submit valid (snd (setValue ''[data-nerve-notes-input]'' [] (snd (setValue ''[data-nerve-password-input]'' []
       (snd (setPayload ''[data-nerve-encrypted-notes]'' en s4)))))) = (Inr (), t)"
proof -
  from assms obtain key s1 where 1: "nerve_key p s = (Inr key, s1)" and r1: "(bind (site_encryptValue p (json_text metadata) key metadataAad) (\<lambda>encryptedMetadata.
     seqc (setPayload ''[data-nerve-encrypted-metadata]'' encryptedMetadata)
     (bind (lift (entryAad metadata ''password'')) (\<lambda>aad.
     bind (site_encryptValue p password key aad) (\<lambda>encryptedPassword.
     seqc (setPayload ''[data-nerve-encrypted-password]'' encryptedPassword)
     (bind (if notes = [] then ret JNull
            else bind (lift (entryAad metadata ''notes'')) (site_encryptValue p notes key)) (\<lambda>encryptedNotes.
     seqc (setPayload ''[data-nerve-encrypted-notes]'' encryptedNotes)
     (seqc (setValue ''[data-nerve-password-input]'' [])
     (seqc (setValue ''[data-nerve-notes-input]'' [])
       (request_submit valid)))))))))) s1 = (Inr (), t)"
    unfolding encrypt_form_def bind_eq_Inr [of "nerve_key p"] by blast
  from r1 obtain em s2 where 2: "site_encryptValue p (json_text metadata) key metadataAad s1 = (Inr em, s2)"
    unfolding bind_eq_Inr [of "site_encryptValue p (json_text metadata) key metadataAad"] by blast
  from r1 2 obtain adp where 3: "entryAad metadata ''password'' = Inr adp"
    by (cases "entryAad metadata ''password''") (simp_all add: bind_run seqc_run lift_run setPayload_run)
  let ?s2 = "snd (setPayload ''[data-nerve-encrypted-metadata]'' em s2)"
  from r1 2 3 obtain ep s3 where 4: "site_encryptValue p password key adp ?s2 = (Inr ep, s3)"
    by (cases "site_encryptValue p password key adp ?s2"; cases "fst (site_encryptValue p password key adp ?s2)")
      (simp_all add: bind_run seqc_run lift_run setPayload_run)
  let ?s3 = "snd (setPayload ''[data-nerve-encrypted-password]'' ep s3)"
  let ?n = "if notes = [] then ret JNull else bind (lift (entryAad metadata ''notes'')) (site_encryptValue p notes key)"
  from r1 2 3 4 obtain en s4 where 5: "?n ?s3 = (Inr en, s4)"
    by (cases "?n ?s3"; cases "fst (?n ?s3)") (simp_all add: bind_run [of "site_encryptValue p _ key _"] bind_run [of "lift _"] bind_run [of ?n] seqc_run lift_run setPayload_run)
  show thesis
    by (rule that [OF 1 2 3 4 5])
      (use r1 2 3 4 5 in \<open>simp add: bind_run [of "site_encryptValue p _ key _"] bind_run [of "lift _"] bind_run [of ?n] seqc_run lift_run setPayload_run setter_runs(1)\<close>)
qed

lemma seal_notes:
  assumes "gcm_correct p"
    and "(if notes = [] then ret JNull else bind (lift (entryAad metadata ''notes'')) (site_encryptValue p notes key)) w = (Inr en, t)"
  shows "(\<exists>n. t = w\<lparr>random_used := n\<rparr>) \<and> (notes = [] \<and> en = JNull \<or>
    notes \<noteq> [] \<and> truthy en \<and> (\<exists>adn. entryAad metadata ''notes'' = Inr adn \<and> sealed p key adn notes en))"
proof (cases "notes = []")
  case True
  with assms(2) show ?thesis by (auto simp: ret_run intro: exI [of _ "random_used w"])
next
  case False
  with assms(2) obtain adn where "entryAad metadata ''notes'' = Inr adn" "site_encryptValue p notes key adn w = (Inr en, t)"
    by (auto simp: bind_eq_Inr lift_run)
  with encrypt_sealed [OF assms(1)] False show ?thesis by blast
qed

definition form_values :: "jsv \<Rightarrow> jsv \<Rightarrow> string \<Rightarrow> (string \<rightharpoonup> string) \<Rightarrow> (string \<rightharpoonup> string)" where
  "form_values em ep notes vals =
     vals(''[data-nerve-encrypted-metadata]'' \<mapsto> json_text em, ''[data-nerve-encrypted-password]'' \<mapsto> json_text ep,
       ''[data-nerve-encrypted-notes]'' \<mapsto> notes, ''[data-nerve-password-input]'' \<mapsto> [], ''[data-nerve-notes-input]'' \<mapsto> [])"

lemma assign_values:
  assumes "\<forall>i \<in> input_names. vals i \<noteq> None"
  shows "assign [] ''[data-nerve-notes-input]'' (assign [] ''[data-nerve-password-input]''
      (assign n ''[data-nerve-encrypted-notes]'' (assign (json_text ep) ''[data-nerve-encrypted-password]''
        (assign (json_text em) ''[data-nerve-encrypted-metadata]'' vals)))) = form_values em ep n vals"
  using assms by (auto simp: assign_def form_values_def input_names_def posted_inputs_def)

lemma encrypt_form_ok:
  assumes "gcm_correct p" "coherent p (s, [])" "\<forall>i \<in> input_names. in_value s i \<noteq> None"
    and "encrypt_form p valid metadata password notes s = (Inr (), t)"
  shows "\<exists>m key em ep en adp. mdk s = Some m \<and> deriveFeatureKey p m FEATURE = Inr key \<and>
    sealed p key metadataAad (json_text metadata) em \<and>
    entryAad metadata ''password'' = Inr adp \<and> sealed p key adp password ep \<and>
    (notes = [] \<and> en = JNull \<or>
     notes \<noteq> [] \<and> truthy en \<and> (\<exists>adn. entryAad metadata ''notes'' = Inr adn \<and> sealed p key adn notes en)) \<and>
    in_value t = form_values em ep (if truthy en then json_text en else []) (in_value s) \<and>
    entry_posts t = entry_posts s @ (if valid (in_value t) then [in_value t |` set posted_inputs] else [])"
proof -
  obtain key s1 em s2 adp ep s3 en s4 where steps: "nerve_key p s = (Inr key, s1)"
    "site_encryptValue p (json_text metadata) key metadataAad s1 = (Inr em, s2)"
    "entryAad metadata ''password'' = Inr adp"
    "site_encryptValue p password key adp (snd (setPayload ''[data-nerve-encrypted-metadata]'' em s2)) = (Inr ep, s3)"
    "(if notes = [] then ret JNull else bind (lift (entryAad metadata ''notes'')) (site_encryptValue p notes key))
       (snd (setPayload ''[data-nerve-encrypted-password]'' ep s3)) = (Inr en, s4)"
    "request_submit valid (snd (setValue ''[data-nerve-notes-input]'' [] (snd (setValue ''[data-nerve-password-input]'' []
       (snd (setPayload ''[data-nerve-encrypted-notes]'' en s4)))))) = (Inr (), t)"
    by (rule encrypt_form_steps [OF assms(4)])
  have key: "\<exists>m. mdk s = Some m \<and> deriveFeatureKey p m FEATURE = Inr key" "in_value s1 = in_value s"
    using coherent_key [OF assms(2) steps(1)] by simp_all
  have posts: "entry_posts s1 = entry_posts s" by (rule keepsD [OF keeps_posts_key steps(1)])
  note em = encrypt_sealed [OF assms(1) steps(2)] and ep = encrypt_sealed [OF assms(1) steps(4)]
  from seal_notes [OF assms(1) steps(5)] obtain n where
    s4: "s4 = (snd (setPayload ''[data-nerve-encrypted-password]'' ep s3))\<lparr>random_used := n\<rparr>"
    and en: "notes = [] \<and> en = JNull \<or>
     notes \<noteq> [] \<and> truthy en \<and> (\<exists>adn. entryAad metadata ''notes'' = Inr adn \<and> sealed p key adn notes en)" by blast
  let ?u = "snd (setValue ''[data-nerve-notes-input]'' [] (snd (setValue ''[data-nerve-password-input]'' []
       (snd (setPayload ''[data-nerve-encrypted-notes]'' en s4)))))"
  have u: "in_value ?u = form_values em ep (if truthy en then json_text en else []) (in_value s)" "entry_posts ?u = entry_posts s"
    using em ep posts key(2) by (simp_all add: s4 setPayload_run setter_runs assign_values [OF assms(3)])
  have t: "in_value t = in_value ?u \<and> entry_posts t = entry_posts ?u @ (if valid (in_value ?u) then [in_value ?u |` set posted_inputs] else [])"
    using steps(6) unfolding request_submit_def bind_run reads_run by (auto simp: raise_run update_run split: if_splits)
  have tv: "in_value t = form_values em ep (if truthy en then json_text en else []) (in_value s)"
    using t u(1) by (simp only:)
  have tp: "entry_posts t = entry_posts s @ (if valid (in_value t) then [in_value t |` set posted_inputs] else [])"
    using t u(2) by (simp only:)
  from key(1) obtain m where m: "mdk s = Some m" "deriveFeatureKey p m FEATURE = Inr key" by blast
  show ?thesis
    by (rule exI [of _ m], rule exI [of _ key], rule exI [of _ em], rule exI [of _ ep], rule exI [of _ en], rule exI [of _ adp])
      (intro conjI m em [THEN conjunct1] ep [THEN conjunct1] steps(3) en tv tp)
qed

section \<open>Opening it in the extension\<close>

lemma sealed_opens:
  assumes em: "sealed p key metadataAad (json_text md) em"
    and md: "md = JObj [(''title'', JStr title), (''login_username'', JStr user), (''website'', JStr site)]" and title: "title \<noteq> []"
    and ep: "entryAad md ''password'' = Inr adp" "sealed p key adp password ep"
    and en: "notes = [] \<and> en = JNull \<or>
      notes \<noteq> [] \<and> truthy en \<and> (\<exists>adn. entryAad md ''notes'' = Inr adn \<and> sealed p key adn notes en)"
  shows "entry_credentials p (Background.hydrateEntryMetadata p key (new_entry_attrs em ep en)) key =
    Inr (JObj [(''username'', JStr user), (''password'', JStr password), (''notes'', JStr notes)])"
proof -
  let ?entry = "JObj [(''title'', JStr title), (''login_username'', JStr user), (''website'', JStr site),
          (''encrypted_metadata'', em), (''encrypted_password'', ep), (''encrypted_notes'', en)]"
  have em': "isClientPayload em" "decryptValue p em key nerveMetadataAssociatedData = Inr (json_text md)"
    using em by (simp_all add: sealed_def aad_same)
  have h: "Background.hydrateEntryMetadata p key (new_entry_attrs em ep en) = ?entry"
    by (rule hydrate_new_entry) (use em' title in \<open>simp_all add: md del: json_text.simps\<close>)
  have same: "nerveEntryAssociatedData ?entry f = entryAad md f" for f
    by (simp add: aad_same md nerveEntryAssociatedData_def)
  have "decrypt_field p ?entry key ''encrypted_password'' ''password'' = Inr password"
    using ep by (simp add: decrypt_field_def same sealed_def)
  moreover have "(if truthy en then decrypt_field p ?entry key ''encrypted_notes'' ''notes'' else Inr []) = Inr notes"
    using en by (auto simp: decrypt_field_def same sealed_def)
  ultimately show ?thesis
    unfolding h by (simp add: entry_credentials_def js_get_def js_or_def)
qed

lemma save_steps:
  assumes "saveEntry p valid s = (r, t)" "entry_posts t \<noteq> entry_posts s"
  shows "encrypt_form p valid (form_entry s) (value_of ''[data-nerve-password-input]'' s) (value_of ''[data-nerve-notes-input]'' s)
      (s\<lparr>out_text := assign [] ''[data-vault-error]'' (out_text s)\<rparr>) = (Inr (), t) \<and> r = Inr () \<and>
    value_of ''[data-nerve-password-input]'' s \<noteq> []"
proof -
  let ?s = "s\<lparr>out_text := assign [] ''[data-vault-error]'' (out_text s)\<rparr>"
  let ?f = "encrypt_form p valid (form_entry s) (value_of ''[data-nerve-password-input]'' s) (value_of ''[data-nerve-notes-input]'' s)"
  have same: "form_entry ?s = form_entry s" "value_of sel ?s = value_of sel s" "site_isUnlocked ?s = site_isUnlocked s" for sel
    by (simp_all add: form_entry_def value_of_def site_isUnlocked_def)
  have run: "saveEntry p valid s =
      (if \<not> site_isUnlocked s then setError ''Enter your account password first.'' ?s
       else if value_of ''[data-nerve-password-input]'' s = [] then setError ''A password is required.'' ?s
       else catch ?f (\<lambda>_. setError ''Could not encrypt this entry.'') ?s)"
    by (simp add: saveEntry_def seqc_run bind_run reads_run setter_runs same)
  obtain x u where x: "?f ?s = (x, u)" by (cases "?f ?s")
  have "x = Inr ()"
  proof (cases x)
    case (Inl e)
    with x encrypt_form_failing have "entry_posts u = entry_posts ?s" unfolding keeps_failing_def by blast
    with assms run x Inl show ?thesis by (auto simp: catch_run setter_runs split: if_splits)
  next
    case (Inr y)
    then show ?thesis by simp
  qed
  with assms run x show ?thesis by (auto simp: catch_run setter_runs split: if_splits)
qed

section \<open>Properties\<close>

text \<open>
  C13: An entry the site saves opens in the extension.  What the form posts is the named inputs
  only: title, user name and website as typed, but not the password and not the notes, which
  are cleared on the page.  The posted payloads are JSON texts; the extension, with the feature key it derives from the same master
  data key, decrypts the stored entry to the user name, the password and the notes typed,
  whatever spaces surround the title, the user name and the website.
\<close>

theorem site_entry_roundtrip:
  assumes "gcm_correct p" "coherent p (s, [])" "\<forall>i \<in> input_names. in_value s i \<noteq> None"
    and "value_of ''entry[title]'' s \<noteq> []" "saveEntry p valid s = (r, t)" "entry_posts t \<noteq> entry_posts s"
  shows "\<exists>m key em ep en post. mdk s = Some m \<and> deriveFeatureKey p m FEATURE = Inr key \<and>
    entry_posts t = entry_posts s @ [post] \<and> dom post \<subseteq> set posted_inputs \<and>
    (\<forall>i \<in> {''entry[title]'', ''entry[login_username]'', ''entry[website]''}. post i = in_value s i) \<and>
    post ''[data-nerve-encrypted-metadata]'' = Some (json_text em) \<and> json_parse (json_text em) = Inr em \<and>
    post ''[data-nerve-encrypted-password]'' = Some (json_text ep) \<and> json_parse (json_text ep) = Inr ep \<and>
    (if value_of ''[data-nerve-notes-input]'' s = [] then post ''[data-nerve-encrypted-notes]'' = Some [] \<and> en = JNull
     else post ''[data-nerve-encrypted-notes]'' = Some (json_text en) \<and> json_parse (json_text en) = Inr en) \<and>
    entry_credentials p (Background.hydrateEntryMetadata p key (new_entry_attrs em ep en)) key =
      Inr (JObj [(''username'', JStr (value_of ''entry[login_username]'' s)),
                 (''password'', JStr (value_of ''[data-nerve-password-input]'' s)),
                 (''notes'', JStr (value_of ''[data-nerve-notes-input]'' s))]) \<and>
    value_of ''[data-nerve-password-input]'' t = [] \<and> value_of ''[data-nerve-notes-input]'' t = []"
proof -
  let ?pw = "value_of ''[data-nerve-password-input]'' s" and ?notes = "value_of ''[data-nerve-notes-input]'' s"
  let ?s = "s\<lparr>out_text := assign [] ''[data-vault-error]'' (out_text s)\<rparr>"
  have "cached_key k f ?s = cached_key k f s" for k f
    by (rule cached_key_same) (simp add: key_vars_def)
  then have "coherent p (?s, [])" using assms(2) by (simp add: coherent_def)
  moreover have "\<forall>i \<in> input_names. in_value ?s i \<noteq> None" using assms(3) by simp
  moreover note save_steps [OF assms(5,6), THEN conjunct1]
  ultimately have "\<exists>m key em ep en adp. mdk ?s = Some m \<and> deriveFeatureKey p m FEATURE = Inr key \<and>
    sealed p key metadataAad (json_text (form_entry s)) em \<and>
    entryAad (form_entry s) ''password'' = Inr adp \<and> sealed p key adp ?pw ep \<and>
    (?notes = [] \<and> en = JNull \<or>
     ?notes \<noteq> [] \<and> truthy en \<and> (\<exists>adn. entryAad (form_entry s) ''notes'' = Inr adn \<and> sealed p key adn ?notes en)) \<and>
    in_value t = form_values em ep (if truthy en then json_text en else []) (in_value ?s) \<and>
    entry_posts t = entry_posts ?s @ (if valid (in_value t) then [in_value t |` set posted_inputs] else [])"
    by (rule encrypt_form_ok [OF assms(1)])
  then obtain m key em ep en adp where k: "mdk ?s = Some m" "deriveFeatureKey p m FEATURE = Inr key"
    and em: "sealed p key metadataAad (json_text (form_entry s)) em"
    and ep: "entryAad (form_entry s) ''password'' = Inr adp" "sealed p key adp ?pw ep"
    and en: "?notes = [] \<and> en = JNull \<or>
      ?notes \<noteq> [] \<and> truthy en \<and> (\<exists>adn. entryAad (form_entry s) ''notes'' = Inr adn \<and> sealed p key adn ?notes en)"
    and vals: "in_value t = form_values em ep (if truthy en then json_text en else []) (in_value ?s)"
    and posts: "entry_posts t = entry_posts ?s @ (if valid (in_value t) then [in_value t |` set posted_inputs] else [])"
    by (elim exE conjE) (rule that)
  let ?post = "in_value t |` set posted_inputs"
  have post: "entry_posts t = entry_posts s @ [?post]" using posts assms(6) by (simp split: if_splits)
  have opens: "entry_credentials p (Background.hydrateEntryMetadata p key (new_entry_attrs em ep en)) key =
      Inr (JObj [(''username'', JStr (value_of ''entry[login_username]'' s)), (''password'', JStr ?pw), (''notes'', JStr ?notes)])"
    by (rule sealed_opens [OF em form_entry_def assms(4) ep en])
  have texts: "?post ''[data-nerve-encrypted-metadata]'' = Some (json_text em)" "?post ''[data-nerve-encrypted-password]'' = Some (json_text ep)"
    "?post ''[data-nerve-encrypted-notes]'' = Some (if truthy en then json_text en else [])"
    "\<forall>i \<in> {''entry[title]'', ''entry[login_username]'', ''entry[website]''}. ?post i = in_value s i"
    "value_of ''[data-nerve-password-input]'' t = []" "value_of ''[data-nerve-notes-input]'' t = []"
    by (simp_all add: vals form_values_def posted_inputs_def value_of_def restrict_map_def del: json_text.simps)
  have parse: "json_parse (json_text em) = Inr em" "json_parse (json_text ep) = Inr ep"
    using em ep(2) json_parse_text by (simp_all add: sealed_def)
  have nts: "if ?notes = [] then ?post ''[data-nerve-encrypted-notes]'' = Some [] \<and> en = JNull
     else ?post ''[data-nerve-encrypted-notes]'' = Some (json_text en) \<and> json_parse (json_text en) = Inr en"
    using en texts(3) json_parse_text [of en] by (auto simp: sealed_def)
  have mk: "mdk s = Some m" using k(1) by simp
  have dom: "dom ?post \<subseteq> set posted_inputs" by (auto simp: restrict_map_def split: if_splits)
  show ?thesis
    by (rule exI [of _ m], rule exI [of _ key], rule exI [of _ em], rule exI [of _ ep], rule exI [of _ en], rule exI [of _ ?post])
      (intro conjI mk k(2) post dom texts parse nts opens)
qed

text \<open>An unlocked session with a filled form.\<close>

definition filled_page :: nerve_page where
  "filled_page = site.extend (sample_site\<lparr>mdk := Some [1, 2]\<rparr>)
     \<lparr>in_value = [''entry[title]'' \<mapsto> '' Shop'', ''entry[login_username]'' \<mapsto> ''ann'', ''entry[website]'' \<mapsto> ''https://shop.example'',
        ''[data-nerve-encrypted-metadata]'' \<mapsto> [], ''[data-nerve-encrypted-password]'' \<mapsto> [], ''[data-nerve-encrypted-notes]'' \<mapsto> [],
        ''[data-nerve-password-input]'' \<mapsto> ''hunter2'', ''[data-nerve-notes-input]'' \<mapsto> []],
      out_text = [''[data-vault-error]'' \<mapsto> []], el_hid = (\<lambda>_. None), status_label = (\<lambda>_. None), el_dataset = (\<lambda>_. None),
      nerve_rows = [], secret_rows = (\<lambda>_. None), password_type = ''password'', has_form = True, entry_posts = [],
      secret_requests = []\<rparr>"

lemma filled_page_fields:
  "coherent p (filled_page, [])" "\<forall>i \<in> input_names. in_value filled_page i \<noteq> None"
  "value_of ''entry[title]'' filled_page \<noteq> []" "entry_posts filled_page = []" "mdk filled_page = Some [1, 2]"
  "value_of ''entry[login_username]'' filled_page = ''ann''" "value_of ''[data-nerve-password-input]'' filled_page = ''hunter2''"
  "value_of ''[data-nerve-notes-input]'' filled_page = []"
  by (simp_all add: filled_page_def site.extend_def sample_site_def world.extend_def coherent_def cached_key_def input_names_def
      posted_inputs_def value_of_def split: key_kind.split)

lemma sample_site_encrypt:
  "\<exists>iv c. site_encryptValue (sample_platform v) x k a w = (Inr (client_payload iv c), w\<lparr>random_used := random_used w + 12\<rparr>)"
  by (simp add: site_encryptValue_eq encryptValue_run Let_def) (simp add: sample_platform_def, blast)

lemma filled_page_saves:
  "entry_posts (snd (saveEntry (sample_platform v) (\<lambda>_. True) filled_page)) \<noteq> []"
proof -
  let ?p = "sample_platform v" and ?s = "filled_page\<lparr>out_text := assign [] ''[data-vault-error]'' (out_text filled_page)\<rparr>"
  let ?md = "form_entry filled_page"
  have locked: "site_isUnlocked ?s" "form_entry ?s = ?md" "value_of sel ?s = value_of sel filled_page" for sel
    by (simp_all add: site_isUnlocked_def filled_page_fields form_entry_def value_of_def)
  have "mdk ?s = Some [1, 2]" "cached_key AesKey ''nerve'' ?s = None"
    by (simp_all add: filled_page_fields(5)) (simp add: filled_page_def site.extend_def sample_site_def world.extend_def cached_key_def)
  then obtain key s1 where 1: "nerve_key ?p ?s = (Inr key, s1)" "has_form s1 = has_form filled_page"
    by (simp add: nerve_key_def featureKey_def feature_key_def run_simps key_start_cases key_finish_run sample_derive cache_key_def)
  obtain em s2 where 2: "site_encryptValue ?p (json_text ?md) key metadataAad s1 = (Inr em, s2)" "has_form s2 = has_form s1"
    using sample_site_encrypt [of v "json_text ?md" key metadataAad s1] by fastforce
  obtain adp where 3: "entryAad ?md ''password'' = Inr adp"
    by (simp add: entryAad_def form_entry_def)
  let ?s2 = "s2\<lparr>in_value := assign (if truthy em then json_text em else []) ''[data-nerve-encrypted-metadata]'' (in_value s2)\<rparr>"
  obtain ep s3 where 4: "site_encryptValue ?p ''hunter2'' key adp ?s2 = (Inr ep, s3)" "has_form s3 = has_form s2"
    using sample_site_encrypt [of v "''hunter2''" key adp ?s2] by fastforce
  have "has_form filled_page" by (simp add: filled_page_def site.extend_def)
  with 1 2 3 4 show ?thesis
    by (simp add: saveEntry_def encrypt_form_def request_submit_def bind_run seqc_run catch_run reads_run setter_runs setPayload_run
        lift_run ret_run update_run raise_run locked filled_page_fields)
qed

theorem site_entry_roundtrip_witness:
  "\<exists>t key em ep. saveEntry (sample_platform JNull) (\<lambda>_. True) filled_page = (Inr (), t) \<and>
     deriveFeatureKey (sample_platform JNull) [1, 2] FEATURE = Inr key \<and>
     entry_credentials (sample_platform JNull) (Background.hydrateEntryMetadata (sample_platform JNull) key (new_entry_attrs em ep JNull)) key =
       Inr (JObj [(''username'', JStr ''ann''), (''password'', JStr ''hunter2''), (''notes'', JStr [])]) \<and>
     value_of ''[data-nerve-password-input]'' t = []"
proof -
  obtain r t where run: "saveEntry (sample_platform JNull) (\<lambda>_. True) filled_page = (r, t)"
    by (cases "saveEntry (sample_platform JNull) (\<lambda>_. True) filled_page")
  have posts: "entry_posts t \<noteq> entry_posts filled_page"
    using filled_page_saves [of JNull] run filled_page_fields(4) by simp
  note save_steps [OF run posts]
  with site_entry_roundtrip [OF sample_gcm_correct filled_page_fields(1-3) run posts] run
  show ?thesis unfolding filled_page_fields(5-8) by auto
qed

end
