(* ===== verification/MailboxCrypto.thy ===== *)
theory MailboxCrypto
  imports SiteSession
begin

text \<open>
  \<^verbatim>\<open>apps/elektrine/assets/js/hooks/mailbox_private_crypto.js\<close>: the keys of the private mailbox.
  A mailbox's RSA key is wrapped under a passphrase (scrypt) or under the email key of the
  shared vault session; a verifier wrapped the same way tells whether the secret is right.
  scrypt (the package \<^verbatim>\<open>@noble/hashes\<close>) and RSA (WebCrypto) are the parameter
  \<open>mailbox_platform\<close>; \<open>None\<close> is a rejection.
\<close>

section \<open>State\<close>

record mailbox_platform =
  scrypt_key :: "bytes \<Rightarrow> bytes \<Rightarrow> jsv \<Rightarrow> jsv \<Rightarrow> jsv \<Rightarrow> bytes option"
  rsa_keypair :: "nat \<Rightarrow> (bytes \<times> bytes) option"
  import_pkcs8 :: "bytes \<Rightarrow> bytes option"
  rsa_decrypt :: "bytes \<Rightarrow> bytes \<Rightarrow> bytes option"

record mailbox = site +
  importedPrivateKeys :: "string \<rightharpoonup> bytes"
  mailbox_events :: "(string \<times> string) list"
  mailbox_notices :: "(string \<times> string) list"

type_synonym ('s, 'a) mail = "('s mailbox_scheme, 'a) io"

definition MASTER_MODE :: string where "MASTER_MODE = ''master''"
definition MASTER_FEATURE :: string where "MASTER_FEATURE = ''email''"
definition VERIFY_TEXT :: string where "VERIFY_TEXT = ''elektrine-private-mailbox-v1''"
definition MESSAGE_AAD :: bytes where "MESSAGE_AAD = encode_text ''ElektrineMailboxStorageV1''"
definition ATTACHMENT_AAD :: bytes where "ATTACHMENT_AAD = encode_text ''ElektrineMailboxAttachmentV1''"

section \<open>Helpers\<close>

text \<open>\<^verbatim>\<open>encoder.encode(undefined)\<close> is empty.\<close>

definition encodedStableJson :: "jsv \<Rightarrow> bytes" where
  "encodedStableJson v = (case stableJson v of None \<Rightarrow> [] | Some s \<Rightarrow> encode_text s)"

definition parsePayload :: "string option \<Rightarrow> jsv" where
  "parsePayload raw =
     (case raw of
        None \<Rightarrow> JNull
      | Some s \<Rightarrow> if s = [] then JNull else (case json_parse s of Inl _ \<Rightarrow> JNull | Inr v \<Rightarrow> v))"

definition isValidUnlockMode :: "jsv \<Rightarrow> bool" where
  "isValidUnlockMode v \<longleftrightarrow> v = JStr ''account_password'' \<or> v = JStr ''separate_passphrase''"

definition isKnownUnlockMode :: "jsv \<Rightarrow> bool" where
  "isKnownUnlockMode v \<longleftrightarrow> isValidUnlockMode v \<or> v = JStr MASTER_MODE"

fun unlockModeFromPayload :: "jsv list \<Rightarrow> jsv" where
  "unlockModeFromPayload [] = JNull"
| "unlockModeFromPayload (payload # payloads) =
     (if \<not> truthy payload \<or> \<not> is_obj_type payload then unlockModeFromPayload payloads
      else
        let unlockMode = js_or (js_get_opt payload ''unlock_mode'') (js_get_opt payload ''unlockMode'') in
        if isKnownUnlockMode unlockMode then unlockMode else unlockModeFromPayload payloads)"

definition mail_notify :: "string \<Rightarrow> string \<Rightarrow> ('s, unit) mail" where
  "mail_notify message type = update (\<lambda>s. s\<lparr>mailbox_notices := mailbox_notices s @ [(message, type)]\<rparr>)"

definition getStoredPrivateKey :: "'s mailbox_scheme \<Rightarrow> string \<Rightarrow> bytes option" where
  "getStoredPrivateKey s mailboxId = (if mailboxId = [] then None else importedPrivateKeys s mailboxId)"

definition storePrivateKey :: "string \<Rightarrow> bytes \<Rightarrow> ('s, unit) mail" where
  "storePrivateKey mailboxId key =
     update (\<lambda>s. if mailboxId = [] then s
       else s\<lparr>importedPrivateKeys := (importedPrivateKeys s)(mailboxId \<mapsto> key)\<rparr>)"

definition clearPrivateKey :: "string \<Rightarrow> ('s, unit) mail" where
  "clearPrivateKey mailboxId =
     update (\<lambda>s. if mailboxId = [] then s
       else s\<lparr>importedPrivateKeys := (importedPrivateKeys s)(mailboxId := None)\<rparr>)"

definition dispatchMailboxEvent :: "string \<Rightarrow> string \<Rightarrow> ('s, unit) mail" where
  "dispatchMailboxEvent event mailboxId = update (\<lambda>s. s\<lparr>mailbox_events := mailbox_events s @ [(event, mailboxId)]\<rparr>)"

fun chunks :: "nat \<Rightarrow> string \<Rightarrow> string list" where
  "chunks n s = (if s = [] \<or> n = 0 then [] else take n s # chunks n (drop n s))"

declare chunks.simps [simp del]

definition chunkString :: "string \<Rightarrow> nat \<Rightarrow> string" where
  "chunkString value n = join [CHR 0x0A] (chunks n value)"

definition bytesToPem :: "bytes \<Rightarrow> string \<Rightarrow> string" where
  "bytesToPem bytes label =
     ''-----BEGIN '' @ label @ ''-----'' @ [CHR 0x0A] @ chunkString (bytesToBase64 bytes) 64 @ [CHR 0x0A] @
     ''-----END '' @ label @ ''-----''"

section \<open>Wrapping under a passphrase\<close>

definition scrypt_wrapping_key :: "mailbox_platform \<Rightarrow> string \<Rightarrow> bytes \<Rightarrow> jsv \<Rightarrow> bytes result" where
  "scrypt_wrapping_key mp passphrase salt params =
     (case scrypt_key mp (encode_text passphrase) salt (js_get_opt params ''n'') (js_get_opt params ''r'') (js_get_opt params ''p'') of
        None \<Rightarrow> Inl OperationError
      | Some key \<Rightarrow> Inr key)"

definition DEFAULT_SCRYPT :: jsv where
  "DEFAULT_SCRYPT = JObj [(''n'', JNum 16384), (''r'', JNum 8), (''p'', JNum 1)]"

definition keyWrapAADContext :: "jsv \<Rightarrow> string \<Rightarrow> jsv" where
  "keyWrapAADContext unlockMode kind =
     JObj [(''purpose'', JStr ''elektrine-private-mailbox-key-wrap''),
           (''version'', JNum 2),
           (''kind'', JStr kind),
           (''algorithm'', JStr ''AES-GCM''),
           (''kdf'', JStr ''scrypt''),
           (''unlock_mode'', unlockMode)]"

definition wrapParams :: "jsv \<Rightarrow> bytes option" where
  "wrapParams payload =
     (case js_to_num (js_get_opt payload ''version'') of
        Some n \<Rightarrow> if 2 \<le> n then Some (encodedStableJson (js_get_opt payload ''aad_context'')) else None
      | None \<Rightarrow> None)"

definition scrypt_payload :: "jsv \<Rightarrow> string \<Rightarrow> bytes \<Rightarrow> bytes \<Rightarrow> bytes \<Rightarrow> jsv" where
  "scrypt_payload unlockMode kind salt iv ciphertext =
     JObj ([(''version'', JNum 2),
            (''algorithm'', JStr ''AES-GCM''),
            (''kdf'', JStr ''scrypt''),
            (''aad_context'', keyWrapAADContext unlockMode kind),
            (''n'', js_get_opt DEFAULT_SCRYPT ''n''),
            (''r'', js_get_opt DEFAULT_SCRYPT ''r''),
            (''p'', js_get_opt DEFAULT_SCRYPT ''p''),
            (''salt'', JStr (bytesToBase64 salt)),
            (''iv'', JStr (bytesToBase64 iv)),
            (''ciphertext'', JStr (bytesToBase64 ciphertext))] @
           (if isValidUnlockMode unlockMode then [(''unlock_mode'', unlockMode)] else []))"

definition wrapBytes :: "platform \<Rightarrow> mailbox_platform \<Rightarrow> bytes \<Rightarrow> string \<Rightarrow> jsv \<Rightarrow> string \<Rightarrow> ('s, jsv) mail" where
  "wrapBytes p mp bytes passphrase unlockMode kind =
     bind (random_bytes p 16) (\<lambda>salt.
     bind (random_bytes p 12) (\<lambda>iv.
     bind (lift (scrypt_wrapping_key mp passphrase salt DEFAULT_SCRYPT)) (\<lambda>key.
     bind (lift (encrypt_op p key iv (Some (encodedStableJson (keyWrapAADContext unlockMode kind))) bytes)) (\<lambda>ciphertext.
     ret (scrypt_payload unlockMode kind salt iv ciphertext)))))"

definition unwrapBytes :: "platform \<Rightarrow> mailbox_platform \<Rightarrow> jsv \<Rightarrow> string \<Rightarrow> bytes result" where
  "unwrapBytes p mp payload passphrase =
     res_bind (base64_property payload ''salt'') (\<lambda>salt.
     res_bind (base64_property payload ''iv'') (\<lambda>iv.
     res_bind (base64_property payload ''ciphertext'') (\<lambda>ciphertext.
     res_bind (scrypt_wrapping_key mp passphrase salt payload) (\<lambda>key.
     decrypt_op p key iv (wrapParams payload) ciphertext))))"

section \<open>Wrapping under the shared vault\<close>

definition masterEmailKey :: "platform \<Rightarrow> ('s, bytes) mail" where
  "masterEmailKey p = featureKey p MASTER_FEATURE"

definition masterAADContext :: "string \<Rightarrow> jsv" where
  "masterAADContext kind =
     JObj [(''purpose'', JStr ''elektrine-private-mailbox-key-wrap''),
           (''version'', JNum 2),
           (''kind'', JStr kind),
           (''algorithm'', JStr ''AES-GCM''),
           (''kdf'', JStr MASTER_MODE),
           (''unlock_mode'', JStr MASTER_MODE)]"

definition master_payload :: "string \<Rightarrow> bytes \<Rightarrow> bytes \<Rightarrow> jsv" where
  "master_payload kind iv ciphertext =
     JObj [(''version'', JNum 2),
           (''algorithm'', JStr ''AES-GCM''),
           (''kdf'', JStr MASTER_MODE),
           (''unlock_mode'', JStr MASTER_MODE),
           (''aad_context'', masterAADContext kind),
           (''iv'', JStr (bytesToBase64 iv)),
           (''ciphertext'', JStr (bytesToBase64 ciphertext))]"

definition wrapBytesWithMasterKey :: "platform \<Rightarrow> bytes \<Rightarrow> string \<Rightarrow> ('s, jsv) mail" where
  "wrapBytesWithMasterKey p bytes kind =
     bind (masterEmailKey p) (\<lambda>key.
     bind (random_bytes p 12) (\<lambda>iv.
     bind (lift (encrypt_op p key iv (Some (encodedStableJson (masterAADContext kind))) bytes)) (\<lambda>ciphertext.
     ret (master_payload kind iv ciphertext))))"

definition unwrapBytesWithMasterKey :: "platform \<Rightarrow> jsv \<Rightarrow> ('s, bytes) mail" where
  "unwrapBytesWithMasterKey p payload =
     bind (masterEmailKey p) (\<lambda>key.
     lift
       (res_bind (base64_property payload ''iv'') (\<lambda>iv.
        res_bind (base64_property payload ''ciphertext'') (\<lambda>ciphertext.
        decrypt_op p key iv (wrapParams payload) ciphertext))))"

section \<open>The key pair and envelopes\<close>

definition generateMailboxKeypair :: "mailbox_platform \<Rightarrow> ('s, string \<times> bytes) mail" where
  "generateMailboxKeypair mp =
     bind (reads random_used) (\<lambda>n.
     seqc (update (\<lambda>s. s\<lparr>random_used := n + 1\<rparr>))
       (case rsa_keypair mp n of
          None \<Rightarrow> raise OperationError
        | Some (publicKey, privateKey) \<Rightarrow> ret (bytesToPem publicKey ''PUBLIC KEY'', privateKey)))"

definition envelopeAAD :: "jsv \<Rightarrow> bytes \<Rightarrow> bytes" where
  "envelopeAAD envelope fallbackAAD =
     (case js_to_num (js_get_opt envelope ''version'') of
        Some n \<Rightarrow>
          if 2 \<le> n \<and> truthy (js_get_opt envelope ''aad_context'')
          then encodedStableJson (js_get_opt envelope ''aad_context'') else fallbackAAD
      | None \<Rightarrow> fallbackAAD)"

text \<open>The answer is null where the mailbox is locked.\<close>

definition decryptEnvelope :: "platform \<Rightarrow> mailbox_platform \<Rightarrow> jsv \<Rightarrow> string \<Rightarrow> bytes \<Rightarrow> 's mailbox_scheme \<Rightarrow> jsv result" where
  "decryptEnvelope p mp envelope mailboxId aad s =
     (case getStoredPrivateKey s mailboxId of
        None \<Rightarrow> Inr JNull
      | Some privateKey \<Rightarrow>
          res_bind (base64_property envelope ''encrypted_key'') (\<lambda>wrappedKey.
          res_bind (case rsa_decrypt mp privateKey wrappedKey of None \<Rightarrow> Inl OperationError | Some k \<Rightarrow> Inr k) (\<lambda>contentKey.
          res_bind (base64_property envelope ''ciphertext'') (\<lambda>ciphertext.
          res_bind (base64_property envelope ''tag'') (\<lambda>tag.
          res_bind (base64_property envelope ''iv'') (\<lambda>iv.
          res_bind (decrypt_op p contentKey iv (Some (envelopeAAD envelope aad)) (ciphertext @ tag)) (\<lambda>plaintext.
          json_parse (decode_text plaintext))))))))"

definition decryptMessagePayload :: "platform \<Rightarrow> mailbox_platform \<Rightarrow> jsv \<Rightarrow> string \<Rightarrow> 's mailbox_scheme \<Rightarrow> jsv result" where
  "decryptMessagePayload p mp envelope mailboxId s = decryptEnvelope p mp envelope mailboxId MESSAGE_AAD s"

definition decryptAttachmentPayload :: "platform \<Rightarrow> mailbox_platform \<Rightarrow> jsv \<Rightarrow> string \<Rightarrow> 's mailbox_scheme \<Rightarrow> jsv result" where
  "decryptAttachmentPayload p mp envelope mailboxId s = decryptEnvelope p mp envelope mailboxId ATTACHMENT_AAD s"

section \<open>Unlocking\<close>

definition unwrapMailboxPrivateKey :: "platform \<Rightarrow> mailbox_platform \<Rightarrow> jsv \<Rightarrow> jsv \<Rightarrow> string \<Rightarrow> bytes result" where
  "unwrapMailboxPrivateKey p mp wrappedKeyPayload verifierPayload passphrase =
     res_bind (unwrapBytes p mp verifierPayload passphrase) (\<lambda>verifierBytes.
     if decode_text verifierBytes \<noteq> VERIFY_TEXT then Inl (Error ''invalid-passphrase'')
     else unwrapBytes p mp wrappedKeyPayload passphrase)"

definition importAndStorePrivateKey :: "mailbox_platform \<Rightarrow> string \<Rightarrow> bytes \<Rightarrow> ('s, unit) mail" where
  "importAndStorePrivateKey mp mailboxId privateKeyBytes =
     (case import_pkcs8 mp privateKeyBytes of
        None \<Rightarrow> raise OperationError
      | Some privateKey \<Rightarrow>
          seqc (storePrivateKey mailboxId privateKey)
            (dispatchMailboxEvent ''elektrine:private-mailbox-unlocked'' mailboxId))"

definition unlockMailbox :: "platform \<Rightarrow> mailbox_platform \<Rightarrow> string \<Rightarrow> jsv \<Rightarrow> jsv \<Rightarrow> string \<Rightarrow> ('s, unit) mail" where
  "unlockMailbox p mp mailboxId wrappedKeyPayload verifierPayload passphrase =
     bind (lift (unwrapMailboxPrivateKey p mp wrappedKeyPayload verifierPayload passphrase)) (\<lambda>privateKeyBytes.
     importAndStorePrivateKey mp mailboxId privateKeyBytes)"

definition unlockMailboxWithMaster :: "platform \<Rightarrow> mailbox_platform \<Rightarrow> string \<Rightarrow> jsv \<Rightarrow> jsv \<Rightarrow> ('s, unit) mail" where
  "unlockMailboxWithMaster p mp mailboxId wrappedKeyPayload verifierPayload =
     bind (unwrapBytesWithMasterKey p verifierPayload) (\<lambda>verifierBytes.
     if decode_text verifierBytes \<noteq> VERIFY_TEXT then raise (Error ''invalid-master-key'')
     else
       bind (unwrapBytesWithMasterKey p wrappedKeyPayload) (\<lambda>privateKeyBytes.
       importAndStorePrivateKey mp mailboxId privateKeyBytes))"

definition lockedStatusText :: "jsv \<Rightarrow> string" where
  "lockedStatusText unlockMode =
     (if unlockMode = JStr MASTER_MODE then ''Mailbox locked. Enter your account password to continue.''
      else if unlockMode = JStr ''account_password'' then ''Mailbox locked. Enter your account password to continue.''
      else ''Mailbox locked.'')"

definition unlockSecretLabel :: "jsv \<Rightarrow> string" where
  "unlockSecretLabel unlockMode =
     (if unlockMode = JStr MASTER_MODE then ''account password''
      else if unlockMode = JStr ''account_password'' then ''account password'' else ''mailbox passphrase'')"

definition unlockSecretPlaceholder :: "jsv \<Rightarrow> string" where
  "unlockSecretPlaceholder unlockMode =
     (if unlockMode = JStr MASTER_MODE then ''Account password''
      else if unlockMode = JStr ''account_password'' then ''Account password'' else ''Mailbox passphrase'')"

text \<open>A field that may be replaced: its value, the value last put there, and the caller's matcher.\<close>

record replaceable =
  field_value :: string
  last_applied :: "string option"

definition maybeSetValue :: "replaceable option \<Rightarrow> string \<Rightarrow> (string \<Rightarrow> bool) option \<Rightarrow> replaceable option" where
  "maybeSetValue field nextValue matcher =
     map_option (\<lambda>f.
       let currentValue = field_value f;
           shouldReplace = trim currentValue = [] \<or> Some currentValue = last_applied f \<or>
             (case matcher of Some m \<Rightarrow> m currentValue | None \<Rightarrow> False) in
       if \<not> shouldReplace then f else \<lparr>field_value = nextValue, last_applied = Some nextValue\<rparr>) field"

section \<open>Round trips\<close>

text \<open>Both kinds of wrapping as JSON: the keys of the payloads are plain and distinct.\<close>

lemma mail_keys_plain:
  "array_index ''aad_context'' = None" "array_index ''n'' = None" "array_index ''r'' = None" "array_index ''p'' = None"
  "array_index ''unlock_mode'' = None" "array_index ''kind'' = None" "array_index ''purpose'' = None"
  by code_simp+

definition mode_value :: "jsv \<Rightarrow> bool" where
  "mode_value v \<longleftrightarrow> v = JNull \<or> is_str v"

lemma scrypt_payload_json: "mode_value unlockMode \<Longrightarrow> json_ok (scrypt_payload unlockMode kind salt iv c)"
  by (cases unlockMode) (simp_all add: scrypt_payload_def keyWrapAADContext_def mode_value_def isValidUnlockMode_def DEFAULT_SCRYPT_def
      obj_ok_fresh wrapped_keys_plain mail_keys_plain)

lemma master_payload_json: "json_ok (master_payload kind iv c)"
  by (simp add: master_payload_def masterAADContext_def obj_ok_fresh wrapped_keys_plain mail_keys_plain)

lemma scrypt_payload_fields:
  "js_get (scrypt_payload unlockMode kind salt iv c) ''salt'' = Inr (JStr (btoa salt))"
  "js_get (scrypt_payload unlockMode kind salt iv c) ''iv'' = Inr (JStr (btoa iv))"
  "js_get (scrypt_payload unlockMode kind salt iv c) ''ciphertext'' = Inr (JStr (btoa c))"
  "js_get_opt (scrypt_payload unlockMode kind salt iv c) ''version'' = JNum 2"
  "js_get_opt (scrypt_payload unlockMode kind salt iv c) ''aad_context'' = keyWrapAADContext unlockMode kind"
  "js_get_opt (scrypt_payload unlockMode kind salt iv c) ''n'' = js_get_opt DEFAULT_SCRYPT ''n''"
  "js_get_opt (scrypt_payload unlockMode kind salt iv c) ''r'' = js_get_opt DEFAULT_SCRYPT ''r''"
  "js_get_opt (scrypt_payload unlockMode kind salt iv c) ''p'' = js_get_opt DEFAULT_SCRYPT ''p''"
  "truthy (scrypt_payload unlockMode kind salt iv c)"
  by (simp_all add: scrypt_payload_def js_get_def)

lemma wrapBytes_run:
  "wrapBytes p mp m secret mode kind w =
     (let salt = map (random_byte p) [random_used w ..< random_used w + 16];
          iv = map (random_byte p) [random_used w + 16 ..< random_used w + 28] in
      (res_bind (scrypt_wrapping_key mp secret salt DEFAULT_SCRYPT) (\<lambda>key.
       res_bind (encrypt_op p key iv (Some (encodedStableJson (keyWrapAADContext mode kind))) m) (\<lambda>c.
       Inr (scrypt_payload mode kind salt iv c))), w\<lparr>random_used := random_used w + 28\<rparr>))"
  by (simp add: wrapBytes_def run_simps Let_def add.commute [of "random_used w" 28] split: sum.split)

text \<open>What is wrapped under a passphrase opens under it; the kind is not compared with anything.\<close>

lemma unwrap_wrapBytes:
  assumes "gcm_correct p" "wrapBytes p mp m secret mode kind w = (Inr payload, t)"
  shows "unwrapBytes p mp payload secret = Inr m \<and> truthy payload \<and> (mode_value mode \<longrightarrow> json_ok payload) \<and>
    t = w\<lparr>random_used := random_used w + 28\<rparr>"
proof -
  from assms(2) obtain salt iv key c where pl: "payload = scrypt_payload mode kind salt iv c"
    and key: "scrypt_wrapping_key mp secret salt DEFAULT_SCRYPT = Inr key"
    and c: "gcm_encrypt p key iv (Some (encodedStableJson (keyWrapAADContext mode kind))) m = Some c"
    and t: "t = w\<lparr>random_used := random_used w + 28\<rparr>"
    by (auto simp: wrapBytes_run Let_def res_bind_eq_Inr encrypt_op_def split: option.splits)
  have key': "scrypt_wrapping_key mp secret salt payload = Inr key"
    using key by (simp add: pl scrypt_wrapping_key_def scrypt_payload_fields)
  have "wrapParams payload = Some (encodedStableJson (keyWrapAADContext mode kind))"
    by (simp add: wrapParams_def pl scrypt_payload_fields)
  with assms(1) c key' have "unwrapBytes p mp payload secret = Inr m"
    by (simp add: unwrapBytes_def base64_property_def pl scrypt_payload_fields atob_btoa decrypt_op_def gcm_correct_def)
  with t show ?thesis by (simp add: pl scrypt_payload_fields scrypt_payload_json)
qed

end
