(* ===== verification/MailboxStorage.thy ===== *)
theory MailboxStorage
  imports MailboxCrypto SiteElement
begin

text \<open>
  The hook \<^verbatim>\<open>MailboxPrivateStorage\<close>
  (\<^verbatim>\<open>apps/elektrine/assets/js/hooks/mailbox_private_storage_hooks.js\<close>): setting up, unlocking and
  locking a private mailbox, by a passphrase or through the shared vault session, and what
  its panels show.
\<close>

section \<open>State\<close>

text \<open>What \<^verbatim>\<open>captureElements\<close> reads from the element.\<close>

record captured =
  mailboxId :: string
  configured :: bool
  wrappedKeyPayload :: jsv
  verifierPayload :: jsv
  unlockMode :: jsv
  masterConfigured :: bool
  masterWrappedDek :: jsv

record panel = mailbox +
  panel_data :: "string \<rightharpoonup> string"
  panel_value :: "string \<rightharpoonup> string"
  panel_captured :: captured
  panel_status :: string
  panel_open :: bool
  panel_hidden :: "string \<rightharpoonup> bool"
  panel_required :: "string \<rightharpoonup> bool"
  panel_placeholder :: string
  panel_master_error :: string
  autoUnlockSuppressed :: bool
  autoUnlockFailed :: bool
  panel_form :: bool
  panel_posts :: "(string \<rightharpoonup> string) list"

type_synonym 's panel_ops = "('s panel_scheme, unit) io"

type_synonym 's panel_listener = "nat \<Rightarrow> bool \<Rightarrow> ('s panel_scheme, unit) io"

section \<open>Reading the element\<close>

definition panel_capture :: "(string \<rightharpoonup> string) \<Rightarrow> captured" where
  "panel_capture data =
     (let wrapped = parsePayload (data ''privateMailboxWrappedKey'');
          verifier = parsePayload (data ''privateMailboxVerifier'');
          mode = (case data ''privateMailboxUnlockMode'' of Some m \<Rightarrow> JStr m | None \<Rightarrow> JUndef) in
      \<lparr>mailboxId = (case data ''privateMailboxId'' of Some i \<Rightarrow> i | None \<Rightarrow> []),
       configured = (data ''privateMailboxConfigured'' = Some ''true''),
       wrappedKeyPayload = wrapped,
       verifierPayload = verifier,
       unlockMode = js_or (js_or (if isKnownUnlockMode mode then mode else JNull)
                             (unlockModeFromPayload [wrapped, verifier]))
                      (JStr ''separate_passphrase''),
       masterConfigured = (data ''privateMailboxMasterConfigured'' = Some ''true''),
       masterWrappedDek = parsePayload (data ''privateMailboxMasterWrappedDek'')\<rparr>)"

definition captureElements :: "'s panel_ops" where
  "captureElements =
     update (\<lambda>s. let c = panel_capture (panel_data s) in
       s\<lparr>panel_captured := c, panel_placeholder := unlockSecretPlaceholder (unlockMode c)\<rparr>)"

definition panel_input :: "string \<Rightarrow> 's panel_scheme \<Rightarrow> string" where
  "panel_input sel s = (case panel_value s sel of Some v \<Rightarrow> v | None \<Rightarrow> [])"

definition set_input_value :: "string \<Rightarrow> string \<Rightarrow> 's panel_ops" where
  "set_input_value sel v = update (\<lambda>s. s\<lparr>panel_value := assign v sel (panel_value s)\<rparr>)"

section \<open>Rendering\<close>

definition show_panels :: "string \<Rightarrow> bool \<Rightarrow> 's panel_ops" where
  "show_panels text unlocked = update (\<lambda>s. s\<lparr>panel_status := text, panel_open := unlocked\<rparr>)"

definition has_unlocked_key :: "'s panel_scheme \<Rightarrow> bool" where
  "has_unlocked_key s \<longleftrightarrow>
     mailboxId (panel_captured s) \<noteq> [] \<and> getStoredPrivateKey s (mailboxId (panel_captured s)) \<noteq> None"

definition autoUnlockPending :: "'s panel_scheme \<Rightarrow> bool" where
  "autoUnlockPending s \<longleftrightarrow>
     \<not> autoUnlockSuppressed s \<and> \<not> autoUnlockFailed s \<and> configured (panel_captured s) \<and>
     unlockMode (panel_captured s) = JStr MASTER_MODE \<and> truthy (wrappedKeyPayload (panel_captured s)) \<and>
     truthy (verifierPayload (panel_captured s)) \<and> site_isUnlocked s"

definition renderLockState :: "'s panel_ops" where
  "renderLockState =
     bind (reads (\<lambda>s. (has_unlocked_key s, configured (panel_captured s), autoUnlockPending s, unlockMode (panel_captured s))))
       (\<lambda>(unlocked, conf, pending, mode).
     if unlocked then show_panels ''Mailbox unlocked in memory for this tab.'' True
     else if \<not> conf then show_panels ''Private storage not configured.'' False
     else if pending then show_panels (''Unlocking private mailbox'' @ [CHR 0xE2, CHR 0x80, CHR 0xA6]) True
     else show_panels (lockedStatusText mode) False)"

definition currentSetupMode :: "'s panel_scheme \<Rightarrow> jsv" where
  "currentSetupMode s =
     (case panel_value s ''[data-private-mailbox-setup-mode]'' of
        Some v \<Rightarrow> if isKnownUnlockMode (JStr v) then JStr v else JStr ''account_password''
      | None \<Rightarrow> JStr ''account_password'')"

definition toggle_fields :: "string \<Rightarrow> string list \<Rightarrow> bool \<Rightarrow> 's panel_scheme \<Rightarrow> 's panel_scheme" where
  "toggle_fields section inputs h s =
     (if panel_hidden s section = None then s
      else s\<lparr>panel_hidden := (panel_hidden s)(section \<mapsto> h),
             panel_required := foldr (\<lambda>i r. assign (\<not> h) i r) inputs (panel_required s)\<rparr>)"

definition renderSetupModeState :: "'s panel_ops" where
  "renderSetupModeState =
     bind (reads (\<lambda>s. (currentSetupMode s, masterConfigured (panel_captured s) \<and> \<not> site_isUnlocked s)))
       (\<lambda>(mode, unlockable).
     update
       (toggle_fields ''masterUnlockFields'' [] (\<not> (mode = JStr MASTER_MODE \<and> unlockable)) \<circ>
        toggle_fields ''masterFields'' [] (mode \<noteq> JStr MASTER_MODE) \<circ>
        toggle_fields ''customPassphraseFields'' [''setupPassphraseInput'', ''setupConfirmInput''] (mode \<noteq> JStr ''separate_passphrase'') \<circ>
        toggle_fields ''accountPasswordFields'' [''setupAccountPasswordInput''] (mode \<noteq> JStr ''account_password'')))"

definition setMasterError :: "string \<Rightarrow> 's panel_ops" where
  "setMasterError message = update (\<lambda>s. s\<lparr>panel_master_error := message\<rparr>)"

section \<open>Unlocking\<close>

text \<open>
  The automatic unlock through the vault: up to the end of the decryption, and the import of
  the key that follows it.
\<close>

definition may_auto_unlock :: "'s panel_scheme \<Rightarrow> bool" where
  "may_auto_unlock s \<longleftrightarrow>
     \<not> (autoUnlockSuppressed s \<or> \<not> configured (panel_captured s) \<or> mailboxId (panel_captured s) = [] \<or>
        \<not> truthy (wrappedKeyPayload (panel_captured s)) \<or> \<not> truthy (verifierPayload (panel_captured s)) \<or>
        getStoredPrivateKey s (mailboxId (panel_captured s)) \<noteq> None)"

definition set_failed :: "bool \<Rightarrow> 's panel_ops" where
  "set_failed b = update (\<lambda>s. s\<lparr>autoUnlockFailed := b\<rparr>)"

definition set_suppressed :: "bool \<Rightarrow> 's panel_ops" where
  "set_suppressed b = update (\<lambda>s. s\<lparr>autoUnlockSuppressed := b\<rparr>)"

text \<open>
  In the mode of the account password there is never a cached password to try:
  \<^verbatim>\<open>getCachedLoginPassword\<close> answers null.
\<close>

definition maybeAutoUnlock :: "platform \<Rightarrow> mailbox_platform \<Rightarrow> 's panel_ops" where
  "maybeAutoUnlock p mp =
     bind (reads (\<lambda>s. (may_auto_unlock s \<and> unlockMode (panel_captured s) = JStr MASTER_MODE \<and> site_isUnlocked s, panel_captured s)))
       (\<lambda>(go, c).
     if \<not> go then ret ()
     else
       catch
         (seqc (unlockMailboxWithMaster p mp (mailboxId c) (wrappedKeyPayload c) (verifierPayload c))
           (seqc (set_failed False) renderLockState))
         (\<lambda>_. seqc (set_failed True) renderLockState))"

definition onVaultChange :: "platform \<Rightarrow> mailbox_platform \<Rightarrow> 's panel_ops" where
  "onVaultChange p mp =
     seqc renderSetupModeState
     (bind (reads (\<lambda>s. (site_isUnlocked s, panel_captured s))) (\<lambda>(unlocked, c).
      if unlocked then seqc (set_failed False) (seqc renderLockState (maybeAutoUnlock p mp))
      else if unlockMode c = JStr MASTER_MODE \<and> mailboxId c \<noteq> []
      then seqc (clearPrivateKey (mailboxId c)) renderLockState
      else ret ()))"

text \<open>This hook's subscription is number 2.\<close>

definition mailbox_listener :: "platform \<Rightarrow> mailbox_platform \<Rightarrow> 's panel_listener \<Rightarrow> 's panel_listener" where
  "mailbox_listener p mp others i unlocked = (if i = 2 then onVaultChange p mp else others i unlocked)"

text \<open>The selector of the account password's input: the dedicated one, or the mailbox's own.\<close>

definition masterPassphraseInput :: "'s panel_scheme \<Rightarrow> string option" where
  "masterPassphraseInput s =
     (if panel_value s ''[data-private-mailbox-master-unlock-input]'' \<noteq> None then Some ''[data-private-mailbox-master-unlock-input]''
      else if panel_value s ''[data-private-mailbox-passphrase]'' \<noteq> None then Some ''[data-private-mailbox-passphrase]''
      else None)"

definition clear_input :: "string option \<Rightarrow> 's panel_ops" where
  "clear_input sel = (case sel of Some i \<Rightarrow> set_input_value i [] | None \<Rightarrow> ret ())"

definition open_vault :: "platform \<Rightarrow> tab_storage \<Rightarrow> 's panel_listener \<Rightarrow> jsv \<Rightarrow> string \<Rightarrow> 's panel_ops" where
  "open_vault p br L wrapped passphrase =
     bind (lift (site_unwrapWithSecret p wrapped passphrase)) (\<lambda>m. site_unlock br L m)"

definition handleMasterVaultUnlock :: "platform \<Rightarrow> tab_storage \<Rightarrow> 's panel_listener \<Rightarrow> 's panel_ops" where
  "handleMasterVaultUnlock p br L =
     bind (reads (\<lambda>s. (masterPassphraseInput s, masterWrappedDek (panel_captured s)))) (\<lambda>(input, dek).
     bind (reads (\<lambda>s. (case input of Some i \<Rightarrow> panel_input i s | None \<Rightarrow> []))) (\<lambda>passphrase.
     if \<not> truthy dek then setMasterError ''Set up account-password encrypted data first.''
     else if trim passphrase = [] then setMasterError ''Enter your account password.''
     else
       catch
         (seqc (open_vault p br L dek passphrase) (seqc (clear_input input) (setMasterError [])))
         (\<lambda>_. setMasterError ''Incorrect account password. If you just reset it, recover encrypted data at /account/encrypted-data.'')))"

definition unlock_by_master :: "platform \<Rightarrow> mailbox_platform \<Rightarrow> captured \<Rightarrow> 's panel_ops" where
  "unlock_by_master p mp c =
     catch
       (seqc (unlockMailboxWithMaster p mp (mailboxId c) (wrappedKeyPayload c) (verifierPayload c))
       (seqc (set_suppressed False)
       (seqc renderLockState
         (mail_notify ''Mailbox unlocked for this tab.'' ''success''))))
       (\<lambda>_. mail_notify ''This mailbox was wrapped with an older encrypted-data key. Reset private mailbox storage in Account Settings, then set it up again.'' ''error'')"

text \<open>Unlocking the vault first, where it is locked; the answer says whether to go on.\<close>

definition inline_vault_unlock :: "platform \<Rightarrow> tab_storage \<Rightarrow> 's panel_listener \<Rightarrow> ('s panel_scheme, bool) io" where
  "inline_vault_unlock p br L =
     bind (reads (\<lambda>s. (site_isUnlocked s, masterPassphraseInput s, masterWrappedDek (panel_captured s)))) (\<lambda>(unlocked, input, dek).
     bind (reads (\<lambda>s. (case input of Some i \<Rightarrow> panel_input i s | None \<Rightarrow> []))) (\<lambda>passphrase.
     if unlocked then ret True
     else if \<not> truthy dek then seqc (mail_notify ''Set up account-password encrypted data first.'' ''error'') (ret False)
     else if trim passphrase = [] then
       seqc (mail_notify ''Enter your account password to unlock this mailbox.'' ''error'') (ret False)
     else
       catch
         (seqc (open_vault p br L dek passphrase) (seqc (clear_input input) (ret True)))
         (\<lambda>_. seqc (mail_notify ''Incorrect account password. If you just reset it, recover encrypted data at /account/encrypted-data.'' ''error'')
               (ret False))))"

definition unlock_by_passphrase :: "platform \<Rightarrow> mailbox_platform \<Rightarrow> captured \<Rightarrow> 's panel_ops" where
  "unlock_by_passphrase p mp c =
     bind (reads (panel_input ''[data-private-mailbox-passphrase]'')) (\<lambda>passphrase.
     if trim passphrase = [] then
       mail_notify (''Enter your '' @ unlockSecretLabel (unlockMode c) @ '' first.'') ''error''
     else
       catch
         (seqc (unlockMailbox p mp (mailboxId c) (wrappedKeyPayload c) (verifierPayload c) passphrase)
         (seqc (set_suppressed False)
         (seqc (set_input_value ''[data-private-mailbox-passphrase]'' [])
         (seqc renderLockState
           (mail_notify ''Mailbox unlocked for this tab.'' ''success'')))))
         (\<lambda>_. mail_notify (''Could not unlock the mailbox. Check your '' @ unlockSecretLabel (unlockMode c) @ '' and try again.'') ''error''))"

definition handleUnlock :: "platform \<Rightarrow> mailbox_platform \<Rightarrow> tab_storage \<Rightarrow> 's panel_listener \<Rightarrow> 's panel_ops" where
  "handleUnlock p mp br L =
     bind (reads panel_captured) (\<lambda>c.
     if mailboxId c = [] \<or> \<not> truthy (wrappedKeyPayload c) \<or> \<not> truthy (verifierPayload c) then
       mail_notify ''Private mailbox storage is not configured yet.'' ''error''
     else if unlockMode c = JStr MASTER_MODE then
       bind (inline_vault_unlock p br L) (\<lambda>go. if go then unlock_by_master p mp c else ret ())
     else unlock_by_passphrase p mp c)"

definition mailbox_handleLock :: "'s panel_ops" where
  "mailbox_handleLock =
     bind (reads (\<lambda>s. mailboxId (panel_captured s))) (\<lambda>i.
     if i = [] then ret ()
     else
       seqc (clearPrivateKey i)
       (seqc (set_suppressed True)
       (seqc (dispatchMailboxEvent ''elektrine:private-mailbox-locked'' i)
       (seqc (set_input_value ''[data-private-mailbox-passphrase]'' [])
         renderLockState))))"

section \<open>Setting up\<close>

text \<open>
  The three inputs of the set-up form; a page with a form has them.  \<^verbatim>\<open>requestSubmit\<close> posts the
  inputs unless the browser's validation, \<open>valid\<close>, refuses.
\<close>

definition WRAPPED_KEY_INPUT :: string where "WRAPPED_KEY_INPUT = ''[data-private-mailbox-wrapped-key-input]''"
definition PUBLIC_KEY_INPUT :: string where "PUBLIC_KEY_INPUT = ''[data-private-mailbox-public-key-input]''"
definition VERIFIER_INPUT :: string where "VERIFIER_INPUT = ''[data-private-mailbox-verifier-input]''"

definition must_set :: "string \<Rightarrow> string \<Rightarrow> 's panel_ops" where
  "must_set sel v =
     bind (reads (\<lambda>s. panel_value s sel)) (\<lambda>old. if old = None then raise TypeError else set_input_value sel v)"

definition submit_setup :: "((string \<rightharpoonup> string) \<Rightarrow> bool) \<Rightarrow> jsv \<Rightarrow> string \<Rightarrow> jsv \<Rightarrow> 's panel_ops" where
  "submit_setup valid wrapped publicKeyPem verifier =
     seqc (must_set WRAPPED_KEY_INPUT (json_text wrapped))
     (seqc (must_set PUBLIC_KEY_INPUT publicKeyPem)
     (seqc (must_set VERIFIER_INPUT (json_text verifier))
       (update (\<lambda>s. if valid (panel_value s) then s\<lparr>panel_posts := panel_posts s @ [panel_value s]\<rparr> else s))))"

definition setup_by_master :: "platform \<Rightarrow> mailbox_platform \<Rightarrow> ((string \<rightharpoonup> string) \<Rightarrow> bool) \<Rightarrow> 's panel_ops" where
  "setup_by_master p mp valid =
     bind (generateMailboxKeypair mp) (\<lambda>(pem, privateKey).
     bind (wrapBytesWithMasterKey p privateKey ''private_key'') (\<lambda>wrapped.
     bind (wrapBytesWithMasterKey p (encode_text VERIFY_TEXT) ''verifier'') (\<lambda>verifier.
     submit_setup valid wrapped pem verifier)))"

definition setup_by_secret :: "platform \<Rightarrow> mailbox_platform \<Rightarrow> ((string \<rightharpoonup> string) \<Rightarrow> bool) \<Rightarrow> jsv \<Rightarrow> string \<Rightarrow> 's panel_ops" where
  "setup_by_secret p mp valid mode secret =
     bind (generateMailboxKeypair mp) (\<lambda>(pem, privateKey).
     bind (wrapBytes p mp privateKey secret mode ''private_key'') (\<lambda>wrapped.
     bind (wrapBytes p mp (encode_text VERIFY_TEXT) secret mode ''verifier'') (\<lambda>verifier.
     submit_setup valid wrapped pem verifier)))"

definition secret_problem :: "jsv \<Rightarrow> string \<Rightarrow> string \<Rightarrow> string \<Rightarrow> string option" where
  "secret_problem mode accountPassword passphrase confirmation =
     (if mode = JStr ''account_password'' then
        (if trim accountPassword = [] then Some ''Enter your current password to enable private mailbox storage.'' else None)
      else if utf16_length passphrase < 12 then Some ''Use a mailbox passphrase with at least 12 characters.''
      else if passphrase \<noteq> confirmation then Some ''Mailbox passphrase confirmation does not match.''
      else None)"

definition handleSetup :: "platform \<Rightarrow> mailbox_platform \<Rightarrow> ((string \<rightharpoonup> string) \<Rightarrow> bool) \<Rightarrow> 's panel_ops" where
  "handleSetup p mp valid =
     bind (reads (\<lambda>s. (currentSetupMode s, panel_captured s, panel_form s, site_isUnlocked s))) (\<lambda>(mode, c, form, unlocked).
     bind (reads (\<lambda>s. (panel_input ''[data-private-mailbox-account-password]'' s, panel_input ''[data-private-mailbox-setup-passphrase]'' s,
         panel_input ''[data-private-mailbox-setup-passphrase-confirm]'' s))) (\<lambda>(accountPassword, passphrase, confirmation).
     if \<not> form \<or> mailboxId c = [] then mail_notify ''Mailbox setup is unavailable right now.'' ''error''
     else if mode = JStr MASTER_MODE then
       (if \<not> unlocked then
          mail_notify (if masterConfigured c then ''Enter your account password above first, then enable private storage.''
                       else ''Set up account-password encrypted data first.'') ''error''
        else catch (setup_by_master p mp valid) (\<lambda>_. mail_notify ''Could not generate mailbox keys.'' ''error''))
     else
       (case secret_problem mode accountPassword passphrase confirmation of
          Some message \<Rightarrow> mail_notify message ''error''
        | None \<Rightarrow>
            catch
              (setup_by_secret p mp valid mode (if mode = JStr ''account_password'' then accountPassword else passphrase))
              (\<lambda>_. mail_notify ''Could not generate mailbox keys in this browser.'' ''error''))))"

section \<open>Events\<close>

datatype mailbox_event =
    UnlockClicked
  | LockClicked
  | SetupClicked
  | MasterUnlockClicked
  | SetupModeChanged
  | VaultOpened bytes
  | VaultClosed
  | PanelUpdated "string \<rightharpoonup> string"

definition panel_mounted :: "platform \<Rightarrow> mailbox_platform \<Rightarrow> 's panel_ops" where
  "panel_mounted p mp =
     seqc captureElements (seqc (subscribe 2) (seqc renderLockState (seqc renderSetupModeState (maybeAutoUnlock p mp))))"

definition panel_updated :: "platform \<Rightarrow> mailbox_platform \<Rightarrow> (string \<rightharpoonup> string) \<Rightarrow> 's panel_ops" where
  "panel_updated p mp data =
     seqc (update (\<lambda>s. s\<lparr>panel_data := data\<rparr>))
     (seqc captureElements (seqc renderLockState (seqc renderSetupModeState (maybeAutoUnlock p mp))))"

definition panel_destroyed :: "'s panel_ops" where
  "panel_destroyed = unsubscribe 2"

fun mailbox_handler :: "platform \<Rightarrow> mailbox_platform \<Rightarrow> tab_storage \<Rightarrow> ((string \<rightharpoonup> string) \<Rightarrow> bool) \<Rightarrow> 's panel_listener \<Rightarrow> mailbox_event \<Rightarrow> 's panel_ops" where
  "mailbox_handler p mp br valid L UnlockClicked = handleUnlock p mp br L"
| "mailbox_handler p mp br valid L LockClicked = mailbox_handleLock"
| "mailbox_handler p mp br valid L SetupClicked = handleSetup p mp valid"
| "mailbox_handler p mp br valid L MasterUnlockClicked = handleMasterVaultUnlock p br L"
| "mailbox_handler p mp br valid L SetupModeChanged = renderSetupModeState"
| "mailbox_handler p mp br valid L (VaultOpened m) = site_unlock br L m"
| "mailbox_handler p mp br valid L VaultClosed = site_lock br L"
| "mailbox_handler p mp br valid L (PanelUpdated data) = panel_updated p mp data"

end
