(* ===== verification/MailboxLock.thy ===== *)
theory MailboxLock
  imports MailboxStorage
begin

text \<open>
  What the mailbox's panels show and which keys it holds, after any sequence of clicks, vault
  changes and updates: the panels are open exactly while the mailbox's key is in memory or an
  automatic unlock is under way, and a mailbox that is unlocked through the vault does not
  hold its key while the vault is locked.
\<close>

section \<open>The invariant\<close>

definition panel_consistent :: "'s panel_scheme \<Rightarrow> bool" where
  "panel_consistent s \<longleftrightarrow> panel_open s = (has_unlocked_key s \<or> autoUnlockPending s)"

definition vault_bound :: "'s panel_scheme \<Rightarrow> bool" where
  "vault_bound s \<longleftrightarrow>
     (unlockMode (panel_captured s) = JStr MASTER_MODE \<and> has_unlocked_key s \<longrightarrow> site_isUnlocked s)"

definition panel_wired :: "'s panel_scheme \<Rightarrow> bool" where
  "panel_wired s \<longleftrightarrow> 2 \<in> set (listeners s) \<and> (configured (panel_captured s) \<longrightarrow> mailboxId (panel_captured s) \<noteq> [])"

definition panel_inv :: "'s panel_scheme \<Rightarrow> bool" where
  "panel_inv s \<longleftrightarrow> panel_consistent s \<and> vault_bound s \<and> panel_wired s"

text \<open>What the invariant reads.\<close>

definition panel_view ::
    "'s panel_scheme \<Rightarrow> (string \<rightharpoonup> bytes) \<times> bytes option \<times> captured \<times> bool \<times> bool \<times> bool \<times> nat list" where
  "panel_view s =
     (importedPrivateKeys s, mdk s, panel_captured s, panel_open s, autoUnlockSuppressed s, autoUnlockFailed s, listeners s)"

lemma panel_view_inv:
  assumes "panel_view t = panel_view s"
  shows "has_unlocked_key t = has_unlocked_key s" "autoUnlockPending t = autoUnlockPending s" "site_isUnlocked t = site_isUnlocked s"
    "panel_consistent t = panel_consistent s" "vault_bound t = vault_bound s" "panel_wired t = panel_wired s" "panel_inv t = panel_inv s"
proof -
  have v: "importedPrivateKeys t = importedPrivateKeys s" "mdk t = mdk s" "panel_captured t = panel_captured s" "panel_open t = panel_open s"
    "autoUnlockSuppressed t = autoUnlockSuppressed s" "autoUnlockFailed t = autoUnlockFailed s" "listeners t = listeners s"
    using assms by (simp_all add: panel_view_def)
  show k: "has_unlocked_key t = has_unlocked_key s" and p: "autoUnlockPending t = autoUnlockPending s" and u: "site_isUnlocked t = site_isUnlocked s"
    by (simp_all add: has_unlocked_key_def autoUnlockPending_def getStoredPrivateKey_def site_isUnlocked_def v)
  show c: "panel_consistent t = panel_consistent s" by (simp add: panel_consistent_def k p v)
  show b: "vault_bound t = vault_bound s" by (simp add: vault_bound_def k u v)
  show w: "panel_wired t = panel_wired s" by (simp add: panel_wired_def v)
  show "panel_inv t = panel_inv s" by (simp add: panel_inv_def c b w)
qed

lemma keeps_view_inv: "keeps panel_view m \<Longrightarrow> maintains panel_inv m"
  by (rule maintainsI) (drule (1) keepsD, drule panel_view_inv(7), simp)

section \<open>Rendering\<close>

definition status_of :: "'s panel_scheme \<Rightarrow> string" where
  "status_of s =
     (if has_unlocked_key s then ''Mailbox unlocked in memory for this tab.''
      else if \<not> configured (panel_captured s) then ''Private storage not configured.''
      else if autoUnlockPending s then ''Unlocking private mailbox'' @ [CHR 0xE2, CHR 0x80, CHR 0xA6]
      else lockedStatusText (unlockMode (panel_captured s)))"

definition rendered :: "'s panel_scheme \<Rightarrow> 's panel_scheme" where
  "rendered s = s\<lparr>panel_status := status_of s, panel_open := (has_unlocked_key s \<or> autoUnlockPending s)\<rparr>"

lemma show_panels_run: "show_panels text b s = (Inr (), s\<lparr>panel_status := text, panel_open := b\<rparr>)"
  by (simp add: show_panels_def update_run)

lemma pending_configured: "autoUnlockPending s \<Longrightarrow> configured (panel_captured s)"
  by (simp add: autoUnlockPending_def)

lemma renderLockState_run [run_simps]: "renderLockState s = (Inr (), rendered s)"
proof -
  have run: "renderLockState s =
     (if has_unlocked_key s then show_panels ''Mailbox unlocked in memory for this tab.'' True
      else if \<not> configured (panel_captured s) then show_panels ''Private storage not configured.'' False
      else if autoUnlockPending s then show_panels (''Unlocking private mailbox'' @ [CHR 0xE2, CHR 0x80, CHR 0xA6]) True
      else show_panels (lockedStatusText (unlockMode (panel_captured s))) False) s"
    unfolding renderLockState_def bind_run reads_run by (simp only: sum.case prod.case)
  show ?thesis
    unfolding run rendered_def status_of_def using pending_configured [of s]
    by (cases "has_unlocked_key s"; cases "configured (panel_captured s)"; cases "autoUnlockPending s") (simp_all add: show_panels_run)
qed

lemma rendered_fields [simp]:
  "importedPrivateKeys (rendered s) = importedPrivateKeys s" "mdk (rendered s) = mdk s"
  "panel_captured (rendered s) = panel_captured s" "listeners (rendered s) = listeners s"
  "autoUnlockSuppressed (rendered s) = autoUnlockSuppressed s" "autoUnlockFailed (rendered s) = autoUnlockFailed s"
  "tab_items (rendered s) = tab_items s" "featureKeys (rendered s) = featureKeys s"
  "panel_open (rendered s) = (has_unlocked_key s \<or> autoUnlockPending s)"
  by (simp_all add: rendered_def)

lemma rendered_same:
  "has_unlocked_key (rendered s) = has_unlocked_key s" "autoUnlockPending (rendered s) = autoUnlockPending s"
  "site_isUnlocked (rendered s) = site_isUnlocked s"
  by (simp_all add: has_unlocked_key_def autoUnlockPending_def getStoredPrivateKey_def site_isUnlocked_def)

lemma rendered_inv: "vault_bound s \<Longrightarrow> panel_wired s \<Longrightarrow> panel_inv (rendered s)"
  by (simp add: panel_inv_def panel_consistent_def vault_bound_def panel_wired_def rendered_same)

lemma keeps_view_setters [keeps_intros]:
  "keeps panel_view (set_input_value sel v)" "keeps panel_view (mail_notify m ty)" "keeps panel_view (setMasterError e)"
  "keeps panel_view (clear_input sel')" "keeps panel_view (dispatchMailboxEvent ev i)" "keeps panel_view (must_set sel v)"
  by (simp_all add: set_input_value_def mail_notify_def setMasterError_def clear_input_def dispatchMailboxEvent_def must_set_def
      keeps_def panel_view_def run_simps split: option.split)

lemma toggle_fields_view [simp]: "panel_view (toggle_fields section inputs h s) = panel_view s"
  by (simp add: toggle_fields_def panel_view_def)

lemma keeps_renderSetup [keeps_intros]: "keeps panel_view renderSetupModeState"
  by (simp add: renderSetupModeState_def keeps_def run_simps)

lemma renderSetup_run: "\<exists>t. renderSetupModeState s = (Inr (), t) \<and> panel_view t = panel_view s"
  by (simp add: renderSetupModeState_def run_simps)

section \<open>Storing a key\<close>

definition key_stored :: "string \<Rightarrow> 's panel_scheme \<Rightarrow> 's panel_scheme \<Rightarrow> bool" where
  "key_stored i s t \<longleftrightarrow>
     (\<exists>k. panel_view t = panel_view (if i = [] then s else s\<lparr>importedPrivateKeys := (importedPrivateKeys s)(i \<mapsto> k)\<rparr>))"

lemma import_outcome:
  "importAndStorePrivateKey mp i b s = (r, t) \<Longrightarrow>
   (case r of Inl _ \<Rightarrow> panel_view t = panel_view s | Inr _ \<Rightarrow> key_stored i s t)"
  by (cases "import_pkcs8 mp b")
    (auto simp: importAndStorePrivateKey_def storePrivateKey_def dispatchMailboxEvent_def run_simps key_stored_def panel_view_def)

lemma keeps_view_cache: "keeps panel_view (update (cache_key k f key))"
  by (cases k) (simp_all add: keeps_def update_def cache_key_def panel_view_def)

lemma keeps_masterEmailKey [keeps_intros]: "keeps panel_view (masterEmailKey p)"
  unfolding masterEmailKey_def featureKey_def feature_key_def key_start_def key_finish_def
  by (intro keeps_intros keeps_view_cache) (auto split: prod.split intro!: keeps_intros)

lemma keeps_unwrap_master [keeps_intros]: "keeps panel_view (unwrapBytesWithMasterKey p payload)"
  unfolding unwrapBytesWithMasterKey_def by (intro keeps_intros)

lemma masterEmailKey_unlocked: "masterEmailKey p s = (Inr key, t) \<Longrightarrow> site_isUnlocked s"
  by (cases "mdk s") (auto simp: masterEmailKey_def featureKey_def feature_key_def key_start_def run_simps site_isUnlocked_def)

lemma unlock_master_outcome:
  assumes "unlockMailboxWithMaster p mp i w v s = (r, t)"
  shows "case r of Inl _ \<Rightarrow> panel_view t = panel_view s | Inr _ \<Rightarrow> key_stored i s t \<and> site_isUnlocked s"
proof -
  obtain x s1 where 1: "unwrapBytesWithMasterKey p v s = (x, s1)" by (cases "unwrapBytesWithMasterKey p v s")
  have v1: "panel_view s1 = panel_view s" by (rule keepsD [OF keeps_unwrap_master 1])
  show ?thesis
  proof (cases x)
    case (Inl e)
    with assms 1 v1 show ?thesis by (auto simp: unlockMailboxWithMaster_def bind_run)
  next
    case (Inr vb)
    from 1 Inr obtain key s0 where "masterEmailKey p s = (Inr key, s0)"
      by (cases "masterEmailKey p s"; cases "fst (masterEmailKey p s)") (auto simp: unwrapBytesWithMasterKey_def bind_run)
    then have unl: "site_isUnlocked s" by (rule masterEmailKey_unlocked)
    show ?thesis
    proof (cases "decode_text vb = VERIFY_TEXT")
      case False
      with assms 1 Inr v1 show ?thesis by (auto simp: unlockMailboxWithMaster_def bind_run raise_run)
    next
      case True
      obtain y s2 where 2: "unwrapBytesWithMasterKey p w s1 = (y, s2)" by (cases "unwrapBytesWithMasterKey p w s1")
      have v2: "panel_view s2 = panel_view s" using keepsD [OF keeps_unwrap_master 2] v1 by simp
      show ?thesis
      proof (cases y)
        case (Inl e)
        with assms 1 2 Inr True v2 show ?thesis by (auto simp: unlockMailboxWithMaster_def bind_run)
      next
        case (Inr b)
        have run: "importAndStorePrivateKey mp i b s2 = (r, t)"
          using assms 1 2 Inr True \<open>x = Inr vb\<close> by (simp add: unlockMailboxWithMaster_def bind_run)
        from import_outcome [OF run] v2 unl show ?thesis
          by (cases r) (auto simp: key_stored_def panel_view_def split: if_splits)
      qed
    qed
  qed
qed

lemma unlock_passphrase_outcome:
  assumes "unlockMailbox p mp i w v secret s = (r, t)"
  shows "case r of Inl _ \<Rightarrow> panel_view t = panel_view s | Inr _ \<Rightarrow> key_stored i s t"
proof (cases "unwrapMailboxPrivateKey p mp w v secret")
  case (Inl e)
  with assms show ?thesis by (auto simp: unlockMailbox_def bind_run lift_run)
next
  case (Inr b)
  with assms have "importAndStorePrivateKey mp i b s = (r, t)" by (simp add: unlockMailbox_def bind_run lift_run)
  then show ?thesis by (rule import_outcome)
qed

lemma key_stored_wired:
  assumes "key_stored (mailboxId (panel_captured s)) s t"
  shows "panel_wired t = panel_wired s" "panel_captured t = panel_captured s" "mdk t = mdk s"
    "site_isUnlocked t = site_isUnlocked s"
proof -
  show c: "panel_captured t = panel_captured s" and m: "mdk t = mdk s"
    using assms by (auto simp: key_stored_def panel_view_def split: if_splits)
  have "listeners t = listeners s" using assms by (auto simp: key_stored_def panel_view_def split: if_splits)
  then show "panel_wired t = panel_wired s" by (simp add: panel_wired_def c)
  show "site_isUnlocked t = site_isUnlocked s" by (simp add: site_isUnlocked_def m)
qed

lemma key_stored_bound:
  assumes "key_stored (mailboxId (panel_captured s)) s t" "unlockMode (panel_captured s) = JStr MASTER_MODE \<longrightarrow> site_isUnlocked s"
  shows "vault_bound t"
  using assms(2) key_stored_wired [OF assms(1)] by (simp add: vault_bound_def)

section \<open>The automatic unlock\<close>

lemma flag_fields [simp]:
  "vault_bound (s\<lparr>autoUnlockFailed := b\<rparr>) = vault_bound s" "panel_wired (s\<lparr>autoUnlockFailed := b\<rparr>) = panel_wired s"
  "vault_bound (s\<lparr>autoUnlockSuppressed := b\<rparr>) = vault_bound s" "panel_wired (s\<lparr>autoUnlockSuppressed := b\<rparr>) = panel_wired s"
  by (simp_all add: vault_bound_def panel_wired_def has_unlocked_key_def getStoredPrivateKey_def site_isUnlocked_def)

lemma panel_invD: "panel_inv s \<Longrightarrow> vault_bound s" "panel_inv s \<Longrightarrow> panel_wired s"
  by (simp_all add: panel_inv_def)

lemma maybeAutoUnlock_outcome:
  assumes "maybeAutoUnlock p mp s = (r, t)" "panel_inv s"
  shows "r = Inr () \<and> panel_inv t \<and> mdk t = mdk s \<and> panel_captured t = panel_captured s"
proof (cases "may_auto_unlock s \<and> unlockMode (panel_captured s) = JStr MASTER_MODE \<and> site_isUnlocked s")
  case False
  with assms show ?thesis by (auto simp: maybeAutoUnlock_def bind_run reads_run ret_run)
next
  case True
  let ?c = "panel_captured s"
  obtain x u where u: "unlockMailboxWithMaster p mp (mailboxId ?c) (wrappedKeyPayload ?c) (verifierPayload ?c) s = (x, u)"
    by (cases "unlockMailboxWithMaster p mp (mailboxId ?c) (wrappedKeyPayload ?c) (verifierPayload ?c) s")
  note out = unlock_master_outcome [OF u]
  show ?thesis
  proof (cases x)
    case (Inl e)
    with out have v: "panel_view u = panel_view s" by simp
    have t: "r = Inr ()" "t = rendered (u\<lparr>autoUnlockFailed := True\<rparr>)"
      using assms(1) True u Inl by (simp_all add: maybeAutoUnlock_def run_simps set_failed_def)
    have "vault_bound u" "panel_wired u" using panel_view_inv(5,6) [OF v] panel_invD [OF assms(2)] by simp_all
    then have "panel_inv t" unfolding t(2) by (intro rendered_inv) simp_all
    with t v show ?thesis by (simp add: panel_view_def)
  next
    case (Inr y)
    with out have k: "key_stored (mailboxId ?c) s u" "site_isUnlocked s" by simp_all
    have t: "r = Inr ()" "t = rendered (u\<lparr>autoUnlockFailed := False\<rparr>)"
      using assms(1) True u Inr by (simp_all add: maybeAutoUnlock_def run_simps set_failed_def)
    have "vault_bound u" by (rule key_stored_bound [OF k(1)]) (simp add: k(2))
    moreover have "panel_wired u" using key_stored_wired(1) [OF k(1)] panel_invD(2) [OF assms(2)] by simp
    ultimately have "panel_inv t" unfolding t(2) by (intro rendered_inv) simp_all
    with t key_stored_wired(2,3) [OF k(1)] show ?thesis by simp
  qed
qed

section \<open>The vault opens and closes\<close>

definition indifferent :: "'s panel_listener \<Rightarrow> bool" where
  "indifferent others \<longleftrightarrow> (\<forall>i u. keeps panel_view (others i u))"

lemma onVaultChange_unlocked:
  assumes "onVaultChange p mp s = (r, t)" "site_isUnlocked s" "vault_bound s" "panel_wired s"
  shows "r = Inr () \<and> panel_inv t \<and> mdk t = mdk s \<and> panel_captured t = panel_captured s"
proof -
  obtain s1 where 1: "renderSetupModeState s = (Inr (), s1)" "panel_view s1 = panel_view s" using renderSetup_run by blast
  let ?s2 = "rendered (s1\<lparr>autoUnlockFailed := False\<rparr>)"
  have unl: "site_isUnlocked s1" using assms(2) panel_view_inv(3) [OF 1(2)] by simp
  have inv: "panel_inv ?s2"
    using assms(3,4) panel_view_inv(5,6) [OF 1(2)] by (intro rendered_inv) simp_all
  have "maybeAutoUnlock p mp ?s2 = (r, t)"
    using assms(1) 1(1) unl by (simp add: onVaultChange_def run_simps set_failed_def)
  from maybeAutoUnlock_outcome [OF this inv] 1(2) show ?thesis by (simp add: panel_view_def)
qed

text \<open>After the vault is locked and before this hook has heard of it.\<close>

definition vault_gone :: "'s panel_scheme \<Rightarrow> bool" where
  "vault_gone s \<longleftrightarrow> \<not> site_isUnlocked s \<and> panel_wired s \<and>
     (unlockMode (panel_captured s) \<noteq> JStr MASTER_MODE \<or> \<not> configured (panel_captured s) \<longrightarrow> panel_consistent s)"

lemma onVaultChange_locked:
  assumes "onVaultChange p mp s = (r, t)" "vault_gone s"
  shows "r = Inr () \<and> panel_inv t \<and> mdk t = mdk s \<and> panel_captured t = panel_captured s"
proof -
  obtain s1 where 1: "renderSetupModeState s = (Inr (), s1)" "panel_view s1 = panel_view s" using renderSetup_run by blast
  have locked: "\<not> site_isUnlocked s1" "panel_wired s1" "panel_captured s1 = panel_captured s" "mdk s1 = mdk s"
    using assms(2) panel_view_inv(3,6) [OF 1(2)] 1(2) by (simp_all add: vault_gone_def panel_view_def)
  show ?thesis
  proof (cases "unlockMode (panel_captured s) = JStr MASTER_MODE \<and> mailboxId (panel_captured s) \<noteq> []")
    case True
    let ?i = "mailboxId (panel_captured s)"
    let ?u = "s1\<lparr>importedPrivateKeys := (importedPrivateKeys s1)(?i := None)\<rparr>"
    have t: "r = Inr ()" "t = rendered ?u"
      using assms(1) 1(1) locked True by (simp_all add: onVaultChange_def run_simps clearPrivateKey_def)
    have "vault_bound ?u" using locked by (simp add: vault_bound_def has_unlocked_key_def getStoredPrivateKey_def)
    moreover have "panel_wired ?u" using locked by (simp add: panel_wired_def)
    ultimately have "panel_inv t" unfolding t(2) by (rule rendered_inv)
    with t locked show ?thesis by simp
  next
    case False
    have t: "r = Inr ()" "t = s1"
      using assms(1) 1(1) locked False by (auto simp: onVaultChange_def run_simps)
    have none: "mailboxId (panel_captured s) = [] \<longrightarrow> \<not> configured (panel_captured s) \<and> \<not> has_unlocked_key s"
      using assms(2) by (auto simp: vault_gone_def panel_wired_def has_unlocked_key_def)
    have "panel_consistent s" using assms(2) False none by (auto simp: vault_gone_def)
    moreover have "vault_bound s" using False none by (auto simp: vault_bound_def)
    ultimately have "panel_inv s" using assms(2) by (simp add: panel_inv_def vault_gone_def)
    then have "panel_inv t" using t(2) panel_view_inv(7) [OF 1(2)] by simp
    with t locked show ?thesis by simp
  qed
qed

text \<open>Listeners run one after the other; one of them turns \<open>A\<close> into \<open>I\<close>, the others change neither.\<close>

lemma all_settled_step: "snd (all_settled (m # ms) s) = snd (all_settled ms (snd (m s)))"
  by (cases "m s"; cases "fst (m s)") (auto simp: run_simps)

lemma listeners_keep:
  assumes "\<And>i s. I s \<Longrightarrow> I (snd (L i s))"
  shows "I s \<Longrightarrow> I (snd (all_settled (map L ids) s))"
proof (induction ids arbitrary: s)
  case Nil
  then show ?case by (simp add: ret_run)
next
  case (Cons i ids)
  show ?case
    unfolding list.map all_settled_step by (rule Cons.IH) (rule assms [OF Cons.prems])
qed

lemma listeners_reach:
  assumes "\<And>i s. I s \<Longrightarrow> I (snd (L i s))" "\<And>i s. A s \<Longrightarrow> A (snd (L i s))" "\<And>s. A s \<Longrightarrow> I (snd (L k s))"
  shows "A s \<Longrightarrow> k \<in> set ids \<Longrightarrow> I (snd (all_settled (map L ids) s))"
proof (induction ids arbitrary: s)
  case Nil
  then show ?case by simp
next
  case (Cons i ids)
  show ?case
  proof (cases "i = k")
    case True
    show ?thesis
      unfolding list.map all_settled_step
      by (rule listeners_keep [where I = I and L = L]) (erule assms(1), simp only: True assms(3) [OF Cons.prems(1)])
  next
    case False
    then have "k \<in> set ids" using Cons.prems(2) by simp
    then show ?thesis
      unfolding list.map all_settled_step by (intro Cons.IH assms(2) [OF Cons.prems(1)])
  qed
qed

definition opened :: "bytes option \<Rightarrow> captured \<Rightarrow> 's panel_scheme \<Rightarrow> bool" where
  "opened m c s \<longleftrightarrow> mdk s = m \<and> panel_captured s = c"

lemma notify_view:
  assumes "indifferent others" "i \<noteq> 2"
  shows "panel_view (snd (mailbox_listener p mp others i u s)) = panel_view s"
  using assms by (simp add: mailbox_listener_def indifferent_def keeps_def)

lemma notify_unlocked:
  assumes "indifferent others" "site_isUnlocked s" "vault_bound s" "panel_wired s" "notify (mailbox_listener p mp others) s = (r, t)"
  shows "panel_inv t \<and> mdk t = mdk s \<and> panel_captured t = panel_captured s"
proof -
  let ?A = "\<lambda>x. site_isUnlocked x \<and> vault_bound x \<and> panel_wired x \<and> opened (mdk s) (panel_captured s) x"
  let ?I = "\<lambda>x. ?A x \<and> panel_inv x"
  let ?L = "\<lambda>i. mailbox_listener p mp others i True"
  have two: "?I (snd (?L 2 x))" if "?A x" for x
  proof -
    obtain r' t' where run: "onVaultChange p mp x = (r', t')" by (cases "onVaultChange p mp x")
    have o: "panel_inv t' \<and> mdk t' = mdk x \<and> panel_captured t' = panel_captured x"
      using onVaultChange_unlocked [OF run] that by blast
    have "site_isUnlocked t'" using o that by (simp add: site_isUnlocked_def)
    with o that run panel_invD [of t'] show ?thesis by (simp add: mailbox_listener_def opened_def)
  qed
  have other: "(?A x \<longrightarrow> ?A (snd (?L i x))) \<and> (?I x \<longrightarrow> ?I (snd (?L i x)))" if "i \<noteq> 2" for i x
  proof -
    note v = notify_view [OF assms(1) that, of p mp True x]
    have "mdk (snd (?L i x)) = mdk x" "panel_captured (snd (?L i x)) = panel_captured x"
      using v by (simp_all add: panel_view_def)
    with panel_view_inv(3,5,6,7) [OF v] show ?thesis by (simp add: opened_def)
  qed
  have A: "?A (snd (?L i x))" if "?A x" for i x using two [OF that] other [of i x] that by (cases "i = 2") auto
  have I: "?I (snd (?L i x))" if "?I x" for i x using two [of x] other [of i x] that by (cases "i = 2") auto
  have "?I (snd (all_settled (map ?L (listeners s)) s))"
    by (rule listeners_reach [of ?I ?L ?A 2]) (use I A two assms in \<open>auto simp: opened_def panel_wired_def\<close>)
  moreover have "t = snd (all_settled (map ?L (listeners s)) s)"
    using assms(2,5) by (simp add: notify_def bind_run reads_run)
  ultimately show ?thesis by (simp add: opened_def)
qed

lemma notify_locked:
  assumes "indifferent others" "vault_gone s" "notify (mailbox_listener p mp others) s = (r, t)"
  shows "panel_inv t \<and> mdk t = mdk s \<and> panel_captured t = panel_captured s"
proof -
  let ?A = "\<lambda>x. vault_gone x \<and> opened (mdk s) (panel_captured s) x"
  let ?I = "\<lambda>x. ?A x \<and> panel_inv x"
  let ?L = "\<lambda>i. mailbox_listener p mp others i False"
  have two: "?I (snd (?L 2 x))" if "?A x" for x
  proof -
    obtain r' t' where run: "onVaultChange p mp x = (r', t')" by (cases "onVaultChange p mp x")
    have o: "panel_inv t' \<and> mdk t' = mdk x \<and> panel_captured t' = panel_captured x"
      using onVaultChange_locked [OF run] that by blast
    have "vault_gone t'" using o that by (simp add: vault_gone_def panel_inv_def site_isUnlocked_def)
    with o that run show ?thesis by (simp add: mailbox_listener_def opened_def)
  qed
  have other: "(?A x \<longrightarrow> ?A (snd (?L i x))) \<and> (?I x \<longrightarrow> ?I (snd (?L i x)))" if "i \<noteq> 2" for i x
  proof -
    note v = notify_view [OF assms(1) that, of p mp False x]
    have "mdk (snd (?L i x)) = mdk x" "panel_captured (snd (?L i x)) = panel_captured x"
      using v by (simp_all add: panel_view_def)
    with panel_view_inv(3,4,6,7) [OF v] show ?thesis by (simp add: opened_def vault_gone_def)
  qed
  have A: "?A (snd (?L i x))" if "?A x" for i x using two [OF that] other [of i x] that by (cases "i = 2") auto
  have I: "?I (snd (?L i x))" if "?I x" for i x using two [of x] other [of i x] that by (cases "i = 2") auto
  have "?I (snd (all_settled (map ?L (listeners s)) s))"
    by (rule listeners_reach [of ?I ?L ?A 2]) (use I A two assms in \<open>auto simp: opened_def vault_gone_def panel_wired_def\<close>)
  moreover have "t = snd (all_settled (map ?L (listeners s)) s)"
    using assms(2,3) by (simp add: notify_def bind_run reads_run vault_gone_def)
  ultimately show ?thesis by (simp add: opened_def)
qed

lemma written_panel:
  "importedPrivateKeys (tab_written br v s) = importedPrivateKeys s" "panel_captured (tab_written br v s) = panel_captured s"
  "panel_open (tab_written br v s) = panel_open s" "autoUnlockSuppressed (tab_written br v s) = autoUnlockSuppressed s"
  "autoUnlockFailed (tab_written br v s) = autoUnlockFailed s"
  by (simp_all add: tab_written_def)

lemma site_unlock_inv:
  assumes "indifferent others" "panel_inv s" "site_unlock br (mailbox_listener p mp others) m s = (r, t)"
  shows "r = Inr () \<and> panel_inv t \<and> mdk t = Some m \<and> panel_captured t = panel_captured s"
proof -
  let ?s = "(tab_written br (Some (bytesToBase64 m)) (s\<lparr>mdk := Some m\<rparr>))\<lparr>featureKeys := (\<lambda>_. None), featureHmacKeys := (\<lambda>_. None)\<rparr>"
  obtain u where u: "notify (mailbox_listener p mp others) ?s = (Inr (), u)" using notify_run by blast
  have rt: "r = Inr ()" "t = u"
    using u assms(3) by (simp_all add: site_unlock_def forget_derived_def run_simps)
  have f: "mdk ?s = Some m" "panel_captured ?s = panel_captured s" "listeners ?s = listeners s"
    by (simp_all add: written_panel)
  have "site_isUnlocked ?s" by (simp add: site_isUnlocked_def)
  moreover from this have "vault_bound ?s" by (simp add: vault_bound_def)
  moreover have "panel_wired ?s" using panel_invD(2) [OF assms(2)] f by (simp add: panel_wired_def)
  ultimately show ?thesis using notify_unlocked [OF assms(1) _ _ _ u] rt f by simp
qed

lemma site_lock_inv:
  assumes "indifferent others" "panel_inv s" "site_lock br (mailbox_listener p mp others) s = (r, t)"
  shows "r = Inr () \<and> panel_inv t \<and> mdk t = None \<and> panel_captured t = panel_captured s"
proof -
  let ?s = "(tab_written br None (s\<lparr>mdk := None\<rparr>))\<lparr>featureKeys := (\<lambda>_. None), featureHmacKeys := (\<lambda>_. None)\<rparr>"
  obtain u where u: "notify (mailbox_listener p mp others) ?s = (Inr (), u)" using notify_run by blast
  have rt: "r = Inr ()" "t = u"
    using u assms(3) by (simp_all add: site_lock_def forget_derived_def run_simps)
  have f: "mdk ?s = None" "panel_captured ?s = panel_captured s" "listeners ?s = listeners s" "panel_open ?s = panel_open s"
    "has_unlocked_key ?s = has_unlocked_key s"
    by (simp_all add: written_panel has_unlocked_key_def getStoredPrivateKey_def)
  have "panel_consistent ?s" if "unlockMode (panel_captured s) \<noteq> JStr MASTER_MODE \<or> \<not> configured (panel_captured s)"
    using assms(2) that by (auto simp: panel_inv_def panel_consistent_def f autoUnlockPending_def)
  moreover have "panel_wired ?s" using panel_invD(2) [OF assms(2)] f by (simp add: panel_wired_def)
  ultimately have "vault_gone ?s" by (simp add: vault_gone_def f site_isUnlocked_def)
  then show ?thesis using notify_locked [OF assms(1) _ u] rt f by simp
qed

section \<open>The handlers\<close>

definition same_panel :: "'s panel_scheme \<Rightarrow> 's panel_scheme \<Rightarrow> bool" where
  "same_panel s t \<longleftrightarrow> panel_captured t = panel_captured s"

lemma open_vault_outcome:
  assumes "indifferent others" "panel_inv s" "open_vault p br (mailbox_listener p mp others) wrapped passphrase s = (r, t)"
  shows "panel_inv t \<and> panel_captured t = panel_captured s \<and> (r = Inr () \<longrightarrow> site_isUnlocked t)"
proof (cases "site_unwrapWithSecret p wrapped passphrase")
  case (Inl e)
  with assms(2,3) show ?thesis by (auto simp: open_vault_def bind_run lift_run)
next
  case (Inr m)
  then have "site_unlock br (mailbox_listener p mp others) m s = (r, t)"
    using assms(3) by (simp add: open_vault_def bind_run lift_run)
  from site_unlock_inv [OF assms(1,2) this] show ?thesis by (simp add: site_isUnlocked_def)
qed

lemma view_same:
  assumes "panel_view t = panel_view s"
  shows "panel_inv t = panel_inv s \<and> vault_bound t = vault_bound s \<and> panel_wired t = panel_wired s \<and> panel_captured t = panel_captured s"
  using panel_view_inv [OF assms] assms by (simp add: panel_view_def)

lemma quiet_updates:
  "panel_view (s\<lparr>mailbox_notices := n\<rparr>) = panel_view s" "panel_view (s\<lparr>panel_value := v\<rparr>) = panel_view s"
  "panel_view (s\<lparr>panel_master_error := e\<rparr>) = panel_view s" "panel_view (s\<lparr>mailbox_events := ev\<rparr>) = panel_view s"
  by (simp_all add: panel_view_def)

lemmas quiet_same [simp] =
  quiet_updates(1) [THEN view_same, THEN conjunct1] quiet_updates(2) [THEN view_same, THEN conjunct1]
  quiet_updates(3) [THEN view_same, THEN conjunct1] quiet_updates(4) [THEN view_same, THEN conjunct1]
  quiet_updates(2) [THEN view_same, THEN conjunct2, THEN conjunct1]
  quiet_updates(2) [THEN view_same, THEN conjunct2, THEN conjunct2, THEN conjunct1]
  quiet_updates(4) [THEN view_same, THEN conjunct2, THEN conjunct1]
  quiet_updates(4) [THEN view_same, THEN conjunct2, THEN conjunct2, THEN conjunct1]

lemma quiet_runs:
  "mail_notify m ty s = (Inr (), s\<lparr>mailbox_notices := mailbox_notices s @ [(m, ty)]\<rparr>)"
  "set_input_value sel v s = (Inr (), s\<lparr>panel_value := assign v sel (panel_value s)\<rparr>)"
  "setMasterError e s = (Inr (), s\<lparr>panel_master_error := e\<rparr>)"
  "set_suppressed b s = (Inr (), s\<lparr>autoUnlockSuppressed := b\<rparr>)"
  "dispatchMailboxEvent ev i s = (Inr (), s\<lparr>mailbox_events := mailbox_events s @ [(ev, i)]\<rparr>)"
  by (simp_all add: mail_notify_def set_input_value_def setMasterError_def set_suppressed_def dispatchMailboxEvent_def update_run)

lemma clear_input_run: "\<exists>v. clear_input sel s = (Inr (), s\<lparr>panel_value := v\<rparr>)"
  by (cases sel) (auto simp: clear_input_def quiet_runs ret_run intro: exI [of _ "panel_value s"])

lemma inline_vault_outcome:
  assumes "indifferent others" "panel_inv s" "inline_vault_unlock p br (mailbox_listener p mp others) s = (r, t)"
  shows "panel_inv t \<and> panel_captured t = panel_captured s"
proof -
  let ?dek = "masterWrappedDek (panel_captured s)" and ?in = "masterPassphraseInput s"
  let ?pass = "case ?in of Some i \<Rightarrow> panel_input i s | None \<Rightarrow> []"
  obtain x u where u: "open_vault p br (mailbox_listener p mp others) ?dek ?pass s = (x, u)"
    by (cases "open_vault p br (mailbox_listener p mp others) ?dek ?pass s")
  obtain v where v: "clear_input ?in u = (Inr (), u\<lparr>panel_value := v\<rparr>)" using clear_input_run by blast
  from open_vault_outcome [OF assms(1,2) u] assms(2,3) u v show ?thesis
    by (cases x) (auto simp: inline_vault_unlock_def bind_run seqc_run catch_run reads_run ret_run quiet_runs split: if_splits)
qed

lemma by_master_inv:
  assumes "panel_inv s" "unlock_by_master p mp (panel_captured s) s = (r, t)"
  shows "panel_inv t"
proof -
  let ?c = "panel_captured s"
  obtain x u where u: "unlockMailboxWithMaster p mp (mailboxId ?c) (wrappedKeyPayload ?c) (verifierPayload ?c) s = (x, u)"
    by (cases "unlockMailboxWithMaster p mp (mailboxId ?c) (wrappedKeyPayload ?c) (verifierPayload ?c) s")
  note out = unlock_master_outcome [OF u]
  show ?thesis
  proof (cases x)
    case (Inl e)
    with out assms(1) have "panel_inv u" using panel_view_inv(7) by auto
    with assms(2) u Inl show ?thesis
      by (auto simp: unlock_by_master_def seqc_run catch_run quiet_runs)
  next
    case (Inr y)
    with out have k: "key_stored (mailboxId ?c) s u" "site_isUnlocked s" by simp_all
    have "vault_bound u" by (rule key_stored_bound [OF k(1)]) (simp add: k(2))
    moreover have "panel_wired u" using key_stored_wired(1) [OF k(1)] panel_invD(2) [OF assms(1)] by simp
    ultimately have "panel_inv (rendered (u\<lparr>autoUnlockSuppressed := False\<rparr>))" by (intro rendered_inv) simp_all
    with assms(2) u Inr show ?thesis
      by (auto simp: unlock_by_master_def seqc_run catch_run quiet_runs renderLockState_run)
  qed
qed

lemma by_passphrase_inv:
  assumes "panel_inv s" "unlockMode (panel_captured s) \<noteq> JStr MASTER_MODE" "unlock_by_passphrase p mp (panel_captured s) s = (r, t)"
  shows "panel_inv t"
proof -
  let ?c = "panel_captured s" and ?pass = "panel_input ''[data-private-mailbox-passphrase]'' s"
  obtain x u where u: "unlockMailbox p mp (mailboxId ?c) (wrappedKeyPayload ?c) (verifierPayload ?c) ?pass s = (x, u)"
    by (cases "unlockMailbox p mp (mailboxId ?c) (wrappedKeyPayload ?c) (verifierPayload ?c) ?pass s")
  note out = unlock_passphrase_outcome [OF u]
  show ?thesis
  proof (cases x)
    case (Inl e)
    with out assms(1) have "panel_inv u" using panel_view_inv(7) by auto
    with assms(1,3) u Inl show ?thesis
      by (auto simp: unlock_by_passphrase_def bind_run reads_run seqc_run catch_run quiet_runs split: if_splits)
  next
    case (Inr y)
    with out have k: "key_stored (mailboxId ?c) s u" by simp
    have "vault_bound u" by (rule key_stored_bound [OF k]) (simp add: assms(2))
    moreover have "panel_wired u" using key_stored_wired(1) [OF k] panel_invD(2) [OF assms(1)] by simp
    ultimately have "panel_inv (rendered (u\<lparr>autoUnlockSuppressed := False, panel_value := v\<rparr>))" for v
      by (intro rendered_inv) simp_all
    with assms(1,3) u Inr show ?thesis
      by (auto simp: unlock_by_passphrase_def bind_run reads_run seqc_run catch_run quiet_runs renderLockState_run split: if_splits)
  qed
qed

lemma handleUnlock_inv:
  assumes "indifferent others" "panel_inv s" "handleUnlock p mp br (mailbox_listener p mp others) s = (r, t)"
  shows "panel_inv t"
proof -
  let ?c = "panel_captured s"
  let ?no = "mailboxId ?c = [] \<or> \<not> truthy (wrappedKeyPayload ?c) \<or> \<not> truthy (verifierPayload ?c)"
  obtain x u where u: "inline_vault_unlock p br (mailbox_listener p mp others) s = (x, u)"
    by (cases "inline_vault_unlock p br (mailbox_listener p mp others) s")
  have ui: "panel_inv u" "panel_captured u = ?c" using inline_vault_outcome [OF assms(1,2) u] by simp_all
  consider "?no" | "\<not> ?no" "unlockMode ?c = JStr MASTER_MODE" | "\<not> ?no" "unlockMode ?c \<noteq> JStr MASTER_MODE" by blast
  then show ?thesis
  proof cases
    case 1
    with assms(2,3) show ?thesis by (auto simp: handleUnlock_def bind_run reads_run quiet_runs)
  next
    case 2
    then have run: "bind (inline_vault_unlock p br (mailbox_listener p mp others)) (\<lambda>go. if go then unlock_by_master p mp ?c else ret ()) s = (r, t)"
      using assms(3) by (simp add: handleUnlock_def bind_run [of "reads _"] reads_run)
    show ?thesis
    proof (cases "x = Inr True")
      case True
      with run u have "unlock_by_master p mp (panel_captured u) u = (r, t)" by (simp add: bind_run ui(2))
      then show ?thesis by (rule by_master_inv [OF ui(1)])
    next
      case False
      with run u ui(1) show ?thesis by (cases x) (auto simp: bind_run ret_run)
    qed
  next
    case 3
    with assms(3) have "unlock_by_passphrase p mp ?c s = (r, t)" by (simp add: handleUnlock_def bind_run reads_run)
    then show ?thesis using by_passphrase_inv [OF assms(2)] 3 by blast
  qed
qed

lemma mailbox_handleLock_inv:
  assumes "panel_inv s" "mailbox_handleLock s = (r, t)"
  shows "panel_inv t"
proof (cases "mailboxId (panel_captured s) = []")
  case True
  with assms show ?thesis by (simp add: mailbox_handleLock_def bind_run reads_run ret_run)
next
  case False
  let ?i = "mailboxId (panel_captured s)"
  let ?s = "s\<lparr>importedPrivateKeys := (importedPrivateKeys s)(?i := None), autoUnlockSuppressed := True\<rparr>"
  have "vault_bound ?s" by (simp add: vault_bound_def has_unlocked_key_def getStoredPrivateKey_def)
  moreover have "panel_wired ?s" using panel_invD(2) [OF assms(1)] by (simp add: panel_wired_def)
  ultimately have "panel_inv (rendered (?s\<lparr>mailbox_events := ev, panel_value := v\<rparr>))" for ev v
    by (intro rendered_inv) simp_all
  with assms(2) False show ?thesis
    by (auto simp: mailbox_handleLock_def clearPrivateKey_def bind_run reads_run seqc_run update_run quiet_runs renderLockState_run)
qed

lemma handleMasterVaultUnlock_inv:
  assumes "indifferent others" "panel_inv s" "handleMasterVaultUnlock p br (mailbox_listener p mp others) s = (r, t)"
  shows "panel_inv t"
proof -
  let ?dek = "masterWrappedDek (panel_captured s)" and ?in = "masterPassphraseInput s"
  let ?pass = "case ?in of Some i \<Rightarrow> panel_input i s | None \<Rightarrow> []"
  obtain x u where u: "open_vault p br (mailbox_listener p mp others) ?dek ?pass s = (x, u)"
    by (cases "open_vault p br (mailbox_listener p mp others) ?dek ?pass s")
  obtain v where v: "clear_input ?in u = (Inr (), u\<lparr>panel_value := v\<rparr>)" using clear_input_run by blast
  from open_vault_outcome [OF assms(1,2) u] assms(2,3) u v show ?thesis
    by (cases x) (auto simp: handleMasterVaultUnlock_def bind_run seqc_run catch_run reads_run quiet_runs split: if_splits)
qed

lemma keeps_view_random: "keeps panel_view (random_bytes p n)"
  by (simp add: keeps_def random_bytes_run panel_view_def)

lemma keeps_view_wrap [keeps_intros]:
  "keeps panel_view (wrapBytes p mp b secret mode kind)" "keeps panel_view (wrapBytesWithMasterKey p b kind)"
  unfolding wrapBytes_def wrapBytesWithMasterKey_def by (intro keeps_intros keeps_view_random)+

lemma keeps_view_keypair [keeps_intros]: "keeps panel_view (generateMailboxKeypair mp)"
  unfolding generateMailboxKeypair_def
  by (intro keeps_intros keeps_update) (auto simp: panel_view_def split: prod.split intro!: keeps_intros)

lemma keeps_view_submit [keeps_intros]: "keeps panel_view (submit_setup valid w pem v)"
  unfolding submit_setup_def by (intro keeps_intros keeps_update) (simp add: panel_view_def)

lemma keeps_view_setup [keeps_intros]:
  "keeps panel_view (setup_by_master p mp valid)" "keeps panel_view (setup_by_secret p mp valid mode secret)"
  unfolding setup_by_master_def setup_by_secret_def
  by (intro keeps_intros; (auto split: prod.split intro!: keeps_intros)?)+

lemma keeps_tuple [keeps_intros]: "(\<And>a b. keeps f (m a b)) \<Longrightarrow> keeps f (case x of (a, b) \<Rightarrow> m a b)"
  by (cases x) simp

lemma handleSetup_view: "keeps panel_view (handleSetup p mp valid)"
  unfolding handleSetup_def by (intro keeps_intros)

text \<open>An update that shows the same mailbox in the same mode.\<close>

definition shows_mailbox :: "string \<Rightarrow> jsv \<Rightarrow> (string \<rightharpoonup> string) \<Rightarrow> bool" where
  "shows_mailbox i mode data \<longleftrightarrow>
     mailboxId (panel_capture data) = i \<and> unlockMode (panel_capture data) = mode \<and> (configured (panel_capture data) \<longrightarrow> i \<noteq> [])"

lemma captured_inv:
  assumes "vault_bound s" "2 \<in> set (listeners s)" "configured (panel_captured s) \<longrightarrow> mailboxId (panel_captured s) \<noteq> []"
    and "seqc renderLockState (seqc renderSetupModeState (maybeAutoUnlock p mp)) s = (r, t)"
  shows "panel_inv t \<and> panel_captured t = panel_captured s"
proof -
  have inv: "panel_inv (rendered s)" using assms(1-3) by (intro rendered_inv) (simp_all add: panel_wired_def)
  obtain s1 where 1: "renderSetupModeState (rendered s) = (Inr (), s1)" "panel_view s1 = panel_view (rendered s)"
    using renderSetup_run by blast
  have inv1: "panel_inv s1" using inv panel_view_inv(7) [OF 1(2)] by simp
  have "maybeAutoUnlock p mp s1 = (r, t)" using assms(4) 1(1) by (simp add: seqc_run renderLockState_run)
  from maybeAutoUnlock_outcome [OF this inv1] 1(2) show ?thesis by (simp add: panel_view_def)
qed

lemma captureElements_run:
  "captureElements s = (Inr (), s\<lparr>panel_captured := panel_capture (panel_data s), panel_placeholder := unlockSecretPlaceholder (unlockMode (panel_capture (panel_data s)))\<rparr>)"
  by (simp add: captureElements_def update_run Let_def)

lemma updated_inv:
  assumes "panel_inv s" "shows_mailbox (mailboxId (panel_captured s)) (unlockMode (panel_captured s)) data"
    and "panel_updated p mp data s = (r, t)"
  shows "panel_inv t \<and> panel_captured t = panel_capture data"
proof -
  let ?s = "s\<lparr>panel_data := data, panel_captured := panel_capture data, panel_placeholder := unlockSecretPlaceholder (unlockMode (panel_capture data))\<rparr>"
  have run: "seqc renderLockState (seqc renderSetupModeState (maybeAutoUnlock p mp)) ?s = (r, t)"
    using assms(3) by (simp add: panel_updated_def seqc_run [of "update _"] seqc_run [of captureElements] captureElements_run update_run)
  have "vault_bound ?s"
    using panel_invD(1) [OF assms(1)] assms(2)
    by (simp add: vault_bound_def shows_mailbox_def has_unlocked_key_def getStoredPrivateKey_def site_isUnlocked_def)
  moreover have "2 \<in> set (listeners ?s)" using panel_invD(2) [OF assms(1)] by (simp add: panel_wired_def)
  moreover have "configured (panel_captured ?s) \<longrightarrow> mailboxId (panel_captured ?s) \<noteq> []"
    using assms(2) by (simp add: shows_mailbox_def)
  ultimately have "panel_inv t \<and> panel_captured t = panel_captured ?s" using captured_inv [OF _ _ _ run] by blast
  then show ?thesis by simp
qed

section \<open>Runs\<close>

fun mailbox_run ::
    "platform \<Rightarrow> mailbox_platform \<Rightarrow> tab_storage \<Rightarrow> ((string \<rightharpoonup> string) \<Rightarrow> bool) \<Rightarrow> 's panel_listener \<Rightarrow> mailbox_event list \<Rightarrow>
     's panel_scheme \<Rightarrow> 's panel_scheme" where
  "mailbox_run p mp br valid L [] s = s"
| "mailbox_run p mp br valid L (ev # evs) s = mailbox_run p mp br valid L evs (snd (mailbox_handler p mp br valid L ev s))"

fun event_shows :: "string \<Rightarrow> jsv \<Rightarrow> mailbox_event \<Rightarrow> bool" where
  "event_shows i mode (PanelUpdated data) = shows_mailbox i mode data"
| "event_shows i mode ev = True"

lemma handler_inv:
  assumes "indifferent others" "panel_inv s" "mailboxId (panel_captured s) = i" "unlockMode (panel_captured s) = mode" "event_shows i mode ev"
    and run: "mailbox_handler p mp br valid (mailbox_listener p mp others) ev s = (r, t)"
  shows "panel_inv t"
proof (cases ev)
  case UnlockClicked
  then show ?thesis using run by (intro handleUnlock_inv [OF assms(1,2)]) (simp only: mailbox_handler.simps)
next
  case LockClicked
  then show ?thesis using run by (intro mailbox_handleLock_inv [OF assms(2)]) (simp only: mailbox_handler.simps)
next
  case SetupClicked
  then have "handleSetup p mp valid s = (r, t)" using run by (simp only: mailbox_handler.simps)
  then have "panel_view t = panel_view s" by (rule keepsD [OF handleSetup_view])
  from panel_view_inv(7) [OF this] show ?thesis using assms(2) by (simp only: simp_thms)
next
  case MasterUnlockClicked
  then show ?thesis using run by (intro handleMasterVaultUnlock_inv [OF assms(1,2)]) (simp only: mailbox_handler.simps)
next
  case SetupModeChanged
  then have "renderSetupModeState s = (r, t)" using run by (simp only: mailbox_handler.simps)
  then have "panel_view t = panel_view s" by (rule keepsD [OF keeps_renderSetup])
  from panel_view_inv(7) [OF this] show ?thesis using assms(2) by (simp only: simp_thms)
next
  case (VaultOpened m)
  then have "site_unlock br (mailbox_listener p mp others) m s = (r, t)" using run by (simp only: mailbox_handler.simps)
  from site_unlock_inv [OF assms(1,2) this] show ?thesis by (elim conjE)
next
  case VaultClosed
  then have "site_lock br (mailbox_listener p mp others) s = (r, t)" using run by (simp only: mailbox_handler.simps)
  from site_lock_inv [OF assms(1,2) this] show ?thesis by (elim conjE)
next
  case (PanelUpdated data)
  then have run': "panel_updated p mp data s = (r, t)" using run by (simp only: mailbox_handler.simps)
  have "shows_mailbox (mailboxId (panel_captured s)) (unlockMode (panel_captured s)) data"
    using assms(3-5) PanelUpdated by (simp only: event_shows.simps)
  from updated_inv [OF assms(2) this run'] show ?thesis by (elim conjE)
qed

text \<open>Only an update reads the element again.\<close>

lemma keeps_captured_view: "keeps panel_view m \<Longrightarrow> keeps panel_captured m"
  unfolding keeps_def panel_view_def by simp

lemma keeps_captured_leaf:
  "keeps panel_captured (importAndStorePrivateKey mp i b)" "keeps panel_captured (clearPrivateKey i)"
  "keeps panel_captured renderLockState" "keeps panel_captured (set_failed b')" "keeps panel_captured (set_suppressed b')"
  by (simp_all add: keeps_def importAndStorePrivateKey_def storePrivateKey_def clearPrivateKey_def renderLockState_run set_failed_def
      set_suppressed_def quiet_runs update_run seqc_run raise_run split: option.split)

lemmas captured_intros = keeps_intros keeps_captured_leaf keeps_view_setters [THEN keeps_captured_view]
  keeps_renderSetup [THEN keeps_captured_view] keeps_unwrap_master [THEN keeps_captured_view]

lemma keeps_captured_unlocks:
  "keeps panel_captured (unlockMailboxWithMaster p mp i w v)" "keeps panel_captured (unlockMailbox p mp i w v secret)"
  unfolding unlockMailboxWithMaster_def unlockMailbox_def by (intro captured_intros)+

lemma keeps_captured_vault:
  "keeps panel_captured (maybeAutoUnlock p mp)" "keeps panel_captured (onVaultChange p mp)"
  unfolding maybeAutoUnlock_def onVaultChange_def by (intro captured_intros keeps_captured_unlocks)+

lemma keeps_captured_notify: "indifferent others \<Longrightarrow> keeps panel_captured (notify (mailbox_listener p mp others))"
  unfolding notify_def
  by (intro keeps_intros keeps_all_settled)
    (auto simp: mailbox_listener_def indifferent_def intro: keeps_captured_vault keeps_captured_view)

lemma keeps_captured_tab: "keeps panel_captured (storeMdk br m)" "keeps panel_captured (clearStoredMdk br)"
  by (simp_all add: keeps_def storeMdk_run clearStoredMdk_run written_panel)

lemma keeps_captured_session:
  assumes "indifferent others"
  shows "keeps panel_captured (site_unlock br (mailbox_listener p mp others) m)"
    "keeps panel_captured (site_lock br (mailbox_listener p mp others))"
  unfolding site_unlock_def site_lock_def forget_derived_def
  by (intro keeps_intros keeps_update keeps_captured_tab keeps_captured_notify [OF assms]; simp)+

lemma keeps_captured_handlers:
  assumes "indifferent others"
  shows "keeps panel_captured (handleUnlock p mp br (mailbox_listener p mp others))"
    "keeps panel_captured (handleMasterVaultUnlock p br (mailbox_listener p mp others))"
    "keeps panel_captured mailbox_handleLock"
  unfolding handleUnlock_def handleMasterVaultUnlock_def mailbox_handleLock_def inline_vault_unlock_def unlock_by_master_def
    unlock_by_passphrase_def open_vault_def
  by (intro captured_intros keeps_captured_unlocks keeps_captured_session [OF assms])+

lemma handler_captured:
  assumes "indifferent others" "panel_inv s" "mailboxId (panel_captured s) = i" "unlockMode (panel_captured s) = mode" "event_shows i mode ev"
    and run: "mailbox_handler p mp br valid (mailbox_listener p mp others) ev s = (r, t)"
  shows "mailboxId (panel_captured t) = i \<and> unlockMode (panel_captured t) = mode"
proof (cases "\<exists>data. ev = PanelUpdated data")
  case True
  then obtain data where ev: "ev = PanelUpdated data" by blast
  then have run': "panel_updated p mp data s = (r, t)" using run by (simp only: mailbox_handler.simps)
  have sh: "shows_mailbox i mode data" using assms(5) ev by (simp only: event_shows.simps)
  then have "shows_mailbox (mailboxId (panel_captured s)) (unlockMode (panel_captured s)) data" using assms(3,4) by (simp only: )
  from updated_inv [OF assms(2) this run'] have "panel_captured t = panel_capture data" by (elim conjE)
  with sh show ?thesis by (simp only: shows_mailbox_def)
next
  case False
  then have "keeps panel_captured (mailbox_handler p mp br valid (mailbox_listener p mp others) ev)"
    by (cases ev; simp only: mailbox_handler.simps;
      (intro keeps_captured_handlers [OF assms(1)] keeps_captured_session [OF assms(1)] keeps_captured_view handleSetup_view keeps_renderSetup)?; blast?)
  from keepsD [OF this run] have "panel_captured t = panel_captured s" .
  with assms(3,4) show ?thesis by (simp only: )
qed

lemma run_inv:
  assumes "indifferent others"
  shows "panel_inv s \<Longrightarrow> mailboxId (panel_captured s) = i \<Longrightarrow> unlockMode (panel_captured s) = mode \<Longrightarrow>
    (\<forall>ev \<in> set evs. event_shows i mode ev) \<Longrightarrow> u = mailbox_run p mp br valid (mailbox_listener p mp others) evs s \<Longrightarrow>
    panel_inv u \<and> mailboxId (panel_captured u) = i \<and> unlockMode (panel_captured u) = mode"
proof (induction evs arbitrary: s)
  case Nil
  then show ?case by (simp only: mailbox_run.simps)
next
  case (Cons ev evs)
  obtain r t where run: "mailbox_handler p mp br valid (mailbox_listener p mp others) ev s = (r, t)"
    by (cases "mailbox_handler p mp br valid (mailbox_listener p mp others) ev s")
  have sh: "event_shows i mode ev" and rest: "\<forall>ev \<in> set evs. event_shows i mode ev" using Cons.prems(4) by simp_all
  note i = handler_inv [OF assms Cons.prems(1-3) sh run] and c = handler_captured [OF assms Cons.prems(1-3) sh run]
  have "u = mailbox_run p mp br valid (mailbox_listener p mp others) evs t"
    using Cons.prems(5) unfolding mailbox_run.simps run by (simp only: snd_conv)
  with c show ?case by (intro Cons.IH [OF i _ _ rest]) (simp_all only: simp_thms)
qed

lemma mounted_inv:
  assumes "shows_mailbox i mode (panel_data s)" "importedPrivateKeys s i = None \<or> mode \<noteq> JStr MASTER_MODE \<or> site_isUnlocked s"
    and "panel_mounted p mp s = (r, t)"
  shows "panel_inv t \<and> panel_captured t = panel_capture (panel_data s)"
proof -
  let ?c = "panel_capture (panel_data s)"
  let ?s = "s\<lparr>panel_captured := ?c, panel_placeholder := unlockSecretPlaceholder (unlockMode ?c),
     listeners := (if 2 \<in> set (listeners s) then listeners s else listeners s @ [2])\<rparr>"
  have run: "seqc renderLockState (seqc renderSetupModeState (maybeAutoUnlock p mp)) ?s = (r, t)"
    using assms(3) by (simp add: panel_mounted_def subscribe_def seqc_run [of "update _"] seqc_run [of captureElements] captureElements_run update_run cong: if_cong)
  have "vault_bound ?s"
    using assms(1,2) by (auto simp: vault_bound_def shows_mailbox_def has_unlocked_key_def getStoredPrivateKey_def site_isUnlocked_def)
  moreover have "2 \<in> set (listeners ?s)" by simp
  moreover have "configured (panel_captured ?s) \<longrightarrow> mailboxId (panel_captured ?s) \<noteq> []"
    using assms(1) by (simp add: shows_mailbox_def)
  ultimately have "panel_inv t \<and> panel_captured t = panel_captured ?s" using captured_inv [OF _ _ _ run] by blast
  then show ?thesis by simp
qed

text \<open>A mailbox whose page leaves before the vault is locked: nobody listens on its behalf.\<close>

lemma lock_unheard:
  assumes "indifferent others" "\<forall>i u. keeps panel_data (others i u)" "2 \<notin> set (listeners s)"
    and "site_lock br (mailbox_listener p mp others) s = (r, t)"
  shows "mdk t = None \<and> importedPrivateKeys t = importedPrivateKeys s \<and> panel_data t = panel_data s"
proof -
  let ?s = "(tab_written br None (s\<lparr>mdk := None\<rparr>))\<lparr>featureKeys := (\<lambda>_. None), featureHmacKeys := (\<lambda>_. None)\<rparr>"
  let ?ms = "map (\<lambda>i. mailbox_listener p mp others i False) (listeners s)"
  have "notify (mailbox_listener p mp others) ?s = all_settled ?ms ?s"
    by (simp add: notify_def bind_run reads_run site_isUnlocked_def)
  moreover obtain u where u: "all_settled ?ms ?s = (Inr (), u)" by (rule exE [OF all_settled_ok [of ?ms ?s]])
  ultimately have t: "t = u"
    using assms(4) by (simp add: site_lock_def forget_derived_def run_simps)
  have other: "\<exists>i. m = others i False" if "m \<in> set ?ms" for m
    using that assms(3) by (auto simp: mailbox_listener_def)
  have k: "keeps panel_view (all_settled ?ms)" "keeps panel_data (all_settled ?ms)"
    using assms(1,2) by (auto simp: indifferent_def intro!: keeps_all_settled dest!: other)
  from keepsD [OF k(1) u] keepsD [OF k(2) u] show ?thesis unfolding t by (simp add: panel_view_def written_panel) (simp add: tab_written_def)
qed

end
