(* ===== verification/MailboxProps.thy ===== *)
theory MailboxProps
  imports MailboxLock
begin

text \<open>
  The properties of the private mailbox: what its panels show after any events, the keys that
  stay behind when its page leaves, and that what a set-up posts opens under the same secret.
\<close>

section \<open>Round trips through the form\<close>

lemma parsePayload_text: "json_ok v \<Longrightarrow> parsePayload (Some (json_text v)) = v"
  using json_text_first [of v] by (auto simp: parsePayload_def json_parse_text)

lemma must_set_run:
  "must_set sel v s =
     (if panel_value s sel = None then (Inl TypeError, s) else (Inr (), s\<lparr>panel_value := (panel_value s)(sel \<mapsto> v)\<rparr>))"
  by (cases "panel_value s sel") (simp_all add: must_set_def set_input_value_def bind_run reads_run raise_run update_run assign_def)

lemma setup_inputs_distinct:
  "WRAPPED_KEY_INPUT \<noteq> PUBLIC_KEY_INPUT" "WRAPPED_KEY_INPUT \<noteq> VERIFIER_INPUT" "PUBLIC_KEY_INPUT \<noteq> VERIFIER_INPUT"
  by (simp_all add: WRAPPED_KEY_INPUT_def PUBLIC_KEY_INPUT_def VERIFIER_INPUT_def)

definition posted :: "(string \<rightharpoonup> string) \<Rightarrow> jsv \<Rightarrow> string \<Rightarrow> jsv \<Rightarrow> bool" where
  "posted post wrapped pem verifier \<longleftrightarrow>
     post WRAPPED_KEY_INPUT = Some (json_text wrapped) \<and> post PUBLIC_KEY_INPUT = Some pem \<and>
     post VERIFIER_INPUT = Some (json_text verifier)"

lemma submit_setup_outcome:
  assumes "submit_setup valid wrapped pem verifier s = (r, t)" "panel_posts t = panel_posts s @ [post]"
  shows "posted post wrapped pem verifier"
proof -
  note w = setup_inputs_distinct setup_inputs_distinct [symmetric]
  let ?v = "(panel_value s)(WRAPPED_KEY_INPUT \<mapsto> json_text wrapped, PUBLIC_KEY_INPUT \<mapsto> pem, VERIFIER_INPUT \<mapsto> json_text verifier)"
  have run: "submit_setup valid wrapped pem verifier s =
      (if panel_value s WRAPPED_KEY_INPUT = None then (Inl TypeError, s)
       else if panel_value s PUBLIC_KEY_INPUT = None then
         (Inl TypeError, s\<lparr>panel_value := (panel_value s)(WRAPPED_KEY_INPUT \<mapsto> json_text wrapped)\<rparr>)
       else if panel_value s VERIFIER_INPUT = None then
         (Inl TypeError, s\<lparr>panel_value := (panel_value s)(WRAPPED_KEY_INPUT \<mapsto> json_text wrapped, PUBLIC_KEY_INPUT \<mapsto> pem)\<rparr>)
       else (Inr (), if valid ?v then s\<lparr>panel_value := ?v, panel_posts := panel_posts s @ [?v]\<rparr> else s\<lparr>panel_value := ?v\<rparr>))"
    by (simp add: submit_setup_def seqc_run must_set_run update_run w)
  have "posted ?v wrapped pem verifier" by (simp add: posted_def w)
  moreover have "post = ?v" using assms unfolding run by (auto split: if_splits)
  ultimately show ?thesis by (simp only: )
qed

lemma generateMailboxKeypair_run:
  "generateMailboxKeypair mp s =
     ((case rsa_keypair mp (random_used s) of None \<Rightarrow> Inl OperationError | Some (pub, priv) \<Rightarrow> Inr (bytesToPem pub ''PUBLIC KEY'', priv)),
      s\<lparr>random_used := random_used s + 1\<rparr>)"
  by (simp add: generateMailboxKeypair_def run_simps split: option.split prod.split)

section \<open>A set-up by a secret\<close>

definition tells_mode :: "jsv \<Rightarrow> jsv \<Rightarrow> bool" where
  "tells_mode mode payload \<longleftrightarrow>
     js_get_opt payload ''unlock_mode'' = mode \<and> is_obj_type payload \<and> truthy payload"

lemma valid_mode_value: "isValidUnlockMode mode \<Longrightarrow> mode_value mode"
  by (auto simp: isValidUnlockMode_def mode_value_def)

lemma wrapBytes_tells:
  "wrapBytes p mp m secret mode kind s = (Inr payload, t) \<Longrightarrow> isValidUnlockMode mode \<Longrightarrow> tells_mode mode payload"
  by (auto simp: wrapBytes_run Let_def res_bind_eq_Inr tells_mode_def scrypt_payload_def)

lemma setup_by_secret_outcome:
  assumes "gcm_correct p" "setup_by_secret p mp valid mode secret s = (r, t)" "panel_posts t = panel_posts s @ [post]"
  obtains pub priv wrapped verifier where "rsa_keypair mp (random_used s) = Some (pub, priv)"
    "posted post wrapped (bytesToPem pub ''PUBLIC KEY'') verifier"
    "unwrapBytes p mp wrapped secret = Inr priv" "unwrapBytes p mp verifier secret = Inr (encode_text VERIFY_TEXT)"
    "isValidUnlockMode mode \<longrightarrow> json_ok wrapped \<and> json_ok verifier \<and> tells_mode mode wrapped \<and> tells_mode mode verifier"
proof (cases "rsa_keypair mp (random_used s)")
  case None
  with assms(2,3) show ?thesis by (auto simp: setup_by_secret_def bind_run generateMailboxKeypair_run)
next
  case (Some kp)
  obtain pub priv where kp: "kp = (pub, priv)" by (cases kp)
  let ?s1 = "s\<lparr>random_used := random_used s + 1\<rparr>" and ?pem = "bytesToPem pub ''PUBLIC KEY''"
  obtain x s2 where w: "wrapBytes p mp priv secret mode ''private_key'' ?s1 = (x, s2)" by (cases "wrapBytes p mp priv secret mode ''private_key'' ?s1")
  have p2: "panel_posts s2 = panel_posts s" using w by (auto simp: wrapBytes_run Let_def)
  show ?thesis
  proof (cases x)
    case (Inl e)
    with assms(2,3) Some kp w p2 show ?thesis by (auto simp: setup_by_secret_def bind_run generateMailboxKeypair_run)
  next
    case (Inr wrapped)
    obtain y s3 where v: "wrapBytes p mp (encode_text VERIFY_TEXT) secret mode ''verifier'' s2 = (y, s3)"
      by (cases "wrapBytes p mp (encode_text VERIFY_TEXT) secret mode ''verifier'' s2")
    have p3: "panel_posts s3 = panel_posts s" using v p2 by (auto simp: wrapBytes_run Let_def)
    show ?thesis
    proof (cases y)
      case (Inl e)
      with assms(2,3) Some kp w v p3 \<open>x = Inr wrapped\<close> show ?thesis by (auto simp: setup_by_secret_def bind_run generateMailboxKeypair_run)
    next
      case (Inr verifier)
      have "submit_setup valid wrapped ?pem verifier s3 = (r, t)"
        using assms(2) Some kp w v Inr \<open>x = Inr wrapped\<close> by (simp add: setup_by_secret_def bind_run generateMailboxKeypair_run)
      then have "posted post wrapped ?pem verifier" by (rule submit_setup_outcome) (simp add: assms(3) p3)
      with that [OF _ this] wrapBytes_tells [OF w [unfolded \<open>x = Inr wrapped\<close>]] wrapBytes_tells [OF v [unfolded Inr]] unwrap_wrapBytes [OF assms(1) w [unfolded \<open>x = Inr wrapped\<close>]] unwrap_wrapBytes [OF assms(1) v [unfolded Inr]] Some kp
      show ?thesis by (simp add: valid_mode_value)
    qed
  qed
qed

section \<open>A set-up through the vault\<close>

lemma masterEmailKey_run:
  "masterEmailKey p s =
     (case mdk s of
        None \<Rightarrow> (Inl (Error ''vault-locked''), s)
      | Some m \<Rightarrow>
          (case featureKeys s MASTER_FEATURE of
             Some k \<Rightarrow> (Inr k, s)
           | None \<Rightarrow>
               (case site_deriveFeatureKey p m MASTER_FEATURE of
                  Inl e \<Rightarrow> (Inl e, s)
                | Inr k \<Rightarrow> (Inr k, s\<lparr>featureKeys := (featureKeys s)(MASTER_FEATURE \<mapsto> k)\<rparr>))))"
  by (simp add: masterEmailKey_def featureKey_def feature_key_def key_start_def key_finish_def derive_key_def cached_key_def cache_key_def
      run_simps split: option.split sum.split)

lemma masterEmailKey_cached:
  assumes "masterEmailKey p s = (Inr k, t)" "mdk u = mdk t" "featureKeys u = featureKeys t"
  shows "masterEmailKey p u = (Inr k, u)"
  using assms unfolding masterEmailKey_run by (auto split: option.splits sum.splits)

lemma masterEmailKey_fst:
  assumes "mdk u = mdk s" "featureKeys u = featureKeys s"
  shows "fst (masterEmailKey p u) = fst (masterEmailKey p s)"
  using assms unfolding masterEmailKey_run by (simp split: option.split sum.split)

definition opens_with :: "platform \<Rightarrow> bytes \<Rightarrow> jsv \<Rightarrow> bytes \<Rightarrow> bool" where
  "opens_with p key payload m \<longleftrightarrow>
     res_bind (base64_property payload ''iv'') (\<lambda>iv.
     res_bind (base64_property payload ''ciphertext'') (\<lambda>ciphertext.
     decrypt_op p key iv (wrapParams payload) ciphertext)) = Inr m"

lemma unwrap_opens: "masterEmailKey p w = (Inr key, w') \<Longrightarrow> opens_with p key payload m \<Longrightarrow> unwrapBytesWithMasterKey p payload w = (Inr m, w')"
  by (simp add: unwrapBytesWithMasterKey_def opens_with_def bind_run lift_run)

lemma master_payload_fields:
  "js_get (master_payload kind iv c) ''iv'' = Inr (JStr (btoa iv))" "js_get (master_payload kind iv c) ''ciphertext'' = Inr (JStr (btoa c))"
  "js_get_opt (master_payload kind iv c) ''version'' = JNum 2"
  "js_get_opt (master_payload kind iv c) ''aad_context'' = masterAADContext kind" "truthy (master_payload kind iv c)"
  by (simp_all add: master_payload_def js_get_def)

lemma master_payload_opens:
  assumes "gcm_correct p" "gcm_encrypt p key iv (Some (encodedStableJson (masterAADContext kind))) m = Some c"
  shows "opens_with p key (master_payload kind iv c) m"
  using assms by (simp add: opens_with_def wrapParams_def base64_property_def master_payload_fields atob_btoa decrypt_op_def gcm_correct_def)

lemma master_payload_tells: "tells_mode (JStr MASTER_MODE) (master_payload kind iv c)"
  by (simp add: tells_mode_def master_payload_def)

lemma wrap_master_outcome:
  assumes "gcm_correct p" "wrapBytesWithMasterKey p m kind s = (x, t)"
  shows "panel_posts t = panel_posts s \<and>
    (\<forall>payload. x = Inr payload \<longrightarrow>
       (\<exists>key s1. masterEmailKey p s = (Inr key, s1) \<and> mdk t = mdk s1 \<and> featureKeys t = featureKeys s1 \<and> opens_with p key payload m \<and> json_ok payload \<and>
          tells_mode (JStr MASTER_MODE) payload))"
proof -
  obtain k s1 where k: "masterEmailKey p s = (k, s1)" by (cases "masterEmailKey p s")
  then have p1: "panel_posts s1 = panel_posts s" by (auto simp: masterEmailKey_run split: option.splits sum.splits)
  show ?thesis
  proof (cases k)
    case (Inl e)
    with assms(2) k p1 show ?thesis by (auto simp: wrapBytesWithMasterKey_def bind_run)
  next
    case (Inr key)
    let ?iv = "map (random_byte p) [random_used s1 ..< random_used s1 + 12]"
    from assms(2) k Inr have run: "x = res_bind (encrypt_op p key ?iv (Some (encodedStableJson (masterAADContext kind))) m) (\<lambda>c. Inr (master_payload kind ?iv c))"
      "t = s1\<lparr>random_used := random_used s1 + 12\<rparr>"
      by (auto simp: wrapBytesWithMasterKey_def run_simps split: sum.splits)
    have "\<exists>c. gcm_encrypt p key ?iv (Some (encodedStableJson (masterAADContext kind))) m = Some c \<and> payload = master_payload kind ?iv c"
      if "x = Inr payload" for payload
      using run(1) that by (auto simp: res_bind_eq_Inr encrypt_op_def split: option.splits)
    with master_payload_opens [OF assms(1)] k Inr run(2) p1 show ?thesis by (auto simp: master_payload_json master_payload_tells)
  qed
qed

lemma setup_by_master_outcome:
  assumes "gcm_correct p" "setup_by_master p mp valid s = (r, t)" "panel_posts t = panel_posts s @ [post]"
  obtains pub priv wrapped verifier key where "rsa_keypair mp (random_used s) = Some (pub, priv)"
    "posted post wrapped (bytesToPem pub ''PUBLIC KEY'') verifier" "fst (masterEmailKey p s) = Inr key"
    "opens_with p key wrapped priv" "opens_with p key verifier (encode_text VERIFY_TEXT)" "json_ok wrapped" "json_ok verifier"
    "tells_mode (JStr MASTER_MODE) wrapped" "tells_mode (JStr MASTER_MODE) verifier"
proof (cases "rsa_keypair mp (random_used s)")
  case None
  with assms(2,3) show ?thesis by (auto simp: setup_by_master_def bind_run generateMailboxKeypair_run)
next
  case (Some kp)
  obtain pub priv where kp: "kp = (pub, priv)" by (cases kp)
  let ?s1 = "s\<lparr>random_used := random_used s + 1\<rparr>" and ?pem = "bytesToPem pub ''PUBLIC KEY''"
  obtain x s2 where w: "wrapBytesWithMasterKey p priv ''private_key'' ?s1 = (x, s2)" by (cases "wrapBytesWithMasterKey p priv ''private_key'' ?s1")
  note wo = wrap_master_outcome [OF assms(1) w]
  show ?thesis
  proof (cases x)
    case (Inl e)
    with assms(2,3) Some kp w wo show ?thesis by (auto simp: setup_by_master_def bind_run generateMailboxKeypair_run)
  next
    case (Inr wrapped)
    with wo obtain key s' where k: "masterEmailKey p ?s1 = (Inr key, s')" "mdk s2 = mdk s'" "featureKeys s2 = featureKeys s'"
      and ow: "opens_with p key wrapped priv" "json_ok wrapped" "tells_mode (JStr MASTER_MODE) wrapped" by blast
    obtain y s3 where v: "wrapBytesWithMasterKey p (encode_text VERIFY_TEXT) ''verifier'' s2 = (y, s3)"
      by (cases "wrapBytesWithMasterKey p (encode_text VERIFY_TEXT) ''verifier'' s2")
    note vo = wrap_master_outcome [OF assms(1) v]
    show ?thesis
    proof (cases y)
      case (Inl e)
      with assms(2,3) Some kp w v wo vo \<open>x = Inr wrapped\<close> show ?thesis by (auto simp: setup_by_master_def bind_run generateMailboxKeypair_run)
    next
      case (Inr verifier)
      with vo obtain key' s'' where k': "masterEmailKey p s2 = (Inr key', s'')" and ov: "opens_with p key' verifier (encode_text VERIFY_TEXT)" "json_ok verifier"
          "tells_mode (JStr MASTER_MODE) verifier"
        by blast
      have "key' = key" using k' masterEmailKey_cached [OF k] by simp
      have "submit_setup valid wrapped ?pem verifier s3 = (r, t)"
        using assms(2) Some kp w v Inr \<open>x = Inr wrapped\<close> by (simp add: setup_by_master_def bind_run generateMailboxKeypair_run)
      then have "posted post wrapped ?pem verifier" by (rule submit_setup_outcome) (use assms(3) wo vo in simp)
      moreover have "fst (masterEmailKey p s) = Inr key" using k(1) masterEmailKey_fst [of ?s1 s p] by simp
      ultimately show ?thesis using that Some kp ow ov \<open>key' = key\<close> by blast
    qed
  qed
qed

section \<open>Properties\<close>

text \<open>The secret the set-up form asks for in the chosen mode.\<close>

definition setup_secret :: "'s panel_scheme \<Rightarrow> string" where
  "setup_secret s =
     (if currentSetupMode s = JStr ''account_password'' then panel_input ''[data-private-mailbox-account-password]'' s
      else panel_input ''[data-private-mailbox-setup-passphrase]'' s)"

lemma currentSetupMode_known: "isKnownUnlockMode (currentSetupMode s)"
  by (simp add: currentSetupMode_def isKnownUnlockMode_def isValidUnlockMode_def split: option.split)

lemma tells_mode_payload: "tells_mode mode payload \<Longrightarrow> isKnownUnlockMode mode \<Longrightarrow> unlockModeFromPayload [payload, v] = mode"
  by (auto simp: tells_mode_def isKnownUnlockMode_def isValidUnlockMode_def js_or_def MASTER_MODE_def)

lemma catch_notify_posts:
  assumes "catch m (\<lambda>_. mail_notify text ty) s = (r, t)" "panel_posts t = q"
  obtains r' u where "m s = (r', u)" "panel_posts u = q"
  using assms by (cases "m s"; cases "fst (m s)") (auto simp: catch_run quiet_runs)

lemma handleSetup_cases:
  assumes "handleSetup p mp valid s = (r, t)" "panel_posts t = panel_posts s @ [post]"
  shows "if currentSetupMode s = JStr MASTER_MODE
    then site_isUnlocked s \<and> (\<exists>r' u. setup_by_master p mp valid s = (r', u) \<and> panel_posts u = panel_posts s @ [post])
    else (\<exists>r' u. setup_by_secret p mp valid (currentSetupMode s) (setup_secret s) s = (r', u) \<and> panel_posts u = panel_posts s @ [post])"
proof -
  let ?c = "panel_captured s" and ?mode = "currentSetupMode s"
  let ?problem = "secret_problem ?mode (panel_input ''[data-private-mailbox-account-password]'' s)
    (panel_input ''[data-private-mailbox-setup-passphrase]'' s) (panel_input ''[data-private-mailbox-setup-passphrase-confirm]'' s)"
  have quiet: "panel_posts u \<noteq> panel_posts s @ [post]" if "mail_notify m ty s = (r', u)" for m ty r' u
    using that by (auto simp: quiet_runs)
  have run: "(if \<not> panel_form s \<or> mailboxId ?c = [] then mail_notify ''Mailbox setup is unavailable right now.'' ''error''
     else if ?mode = JStr MASTER_MODE then
       (if \<not> site_isUnlocked s then
          mail_notify (if masterConfigured ?c then ''Enter your account password above first, then enable private storage.''
                       else ''Set up account-password encrypted data first.'') ''error''
        else catch (setup_by_master p mp valid) (\<lambda>_. mail_notify ''Could not generate mailbox keys.'' ''error''))
     else
       (case ?problem of
          Some message \<Rightarrow> mail_notify message ''error''
        | None \<Rightarrow>
            catch
              (setup_by_secret p mp valid ?mode (setup_secret s))
              (\<lambda>_. mail_notify ''Could not generate mailbox keys in this browser.'' ''error''))) s = (r, t)"
    using assms(1) by (simp only: handleSetup_def bind_run reads_run sum.case prod.case setup_secret_def)
  then have form: "panel_form s" "mailboxId ?c \<noteq> []" using quiet assms(2) by (auto split: if_splits)
  show ?thesis
  proof (cases "?mode = JStr MASTER_MODE")
    case True
    with run form quiet assms(2) have unl: "site_isUnlocked s" by (auto split: if_splits)
    with True run form have "catch (setup_by_master p mp valid) (\<lambda>_. mail_notify ''Could not generate mailbox keys.'' ''error'') s = (r, t)" by simp
    from catch_notify_posts [OF this assms(2)] unl True show ?thesis by metis
  next
    case False
    with run form quiet assms(2) have "?problem = None" by (auto split: option.splits)
    with False run form
    have "catch (setup_by_secret p mp valid ?mode (setup_secret s)) (\<lambda>_. mail_notify ''Could not generate mailbox keys in this browser.'' ''error'') s = (r, t)"
      by simp
    from catch_notify_posts [OF this assms(2)] False show ?thesis by metis
  qed
qed

lemma known_not_master: "isKnownUnlockMode mode \<Longrightarrow> mode \<noteq> JStr MASTER_MODE \<Longrightarrow> isValidUnlockMode mode"
  by (simp add: isKnownUnlockMode_def)

lemma posted_payloads:
  assumes "posted post wrapped pem verifier" "json_ok wrapped" "json_ok verifier"
  shows "parsePayload (post WRAPPED_KEY_INPUT) = wrapped" "parsePayload (post VERIFIER_INPUT) = verifier" "post PUBLIC_KEY_INPUT = Some pem"
  using assms by (simp_all add: posted_def parsePayload_text)

lemma opened_unlock:
  assumes "unwrapBytes p mp wrapped secret = Inr priv" "unwrapBytes p mp verifier secret = Inr (encode_text VERIFY_TEXT)"
  shows "unlockMailbox p mp i wrapped verifier secret u = importAndStorePrivateKey mp i priv u"
  by (simp add: unlockMailbox_def unwrapMailboxPrivateKey_def bind_run lift_run assms)

lemma opened_unlock_master:
  assumes "fst (masterEmailKey p u) = Inr key" "opens_with p key wrapped priv" "opens_with p key verifier (encode_text VERIFY_TEXT)"
  shows "unlockMailboxWithMaster p mp i wrapped verifier u = importAndStorePrivateKey mp i priv (snd (masterEmailKey p u))"
proof -
  obtain u' where k: "masterEmailKey p u = (Inr key, u')" using assms(1) by (cases "masterEmailKey p u") auto
  have k': "masterEmailKey p u' = (Inr key, u')" by (rule masterEmailKey_cached [OF k]) simp_all
  show ?thesis
    by (simp add: unlockMailboxWithMaster_def bind_run unwrap_opens [OF k assms(3)] unwrap_opens [OF k' assms(2)] k)
qed

text \<open>
  C14: What a set-up posts opens the mailbox again.  When the set-up form is submitted, in any of
  the three modes, the payloads read back from what was posted carry the mode that was chosen,
  and unlocking with the secret that was typed, or through a vault that gives the same email
  key, imports exactly the private key whose public half was posted.
\<close>

theorem mailbox_setup_unlocks:
  assumes "gcm_correct p" "handleSetup p mp valid s = (r, t)" "panel_posts t = panel_posts s @ [post]"
    and "w = parsePayload (post WRAPPED_KEY_INPUT)" "v = parsePayload (post VERIFIER_INPUT)"
  shows "\<exists>pub priv. rsa_keypair mp (random_used s) = Some (pub, priv) \<and>
    post PUBLIC_KEY_INPUT = Some (bytesToPem pub ''PUBLIC KEY'') \<and>
    truthy w \<and> truthy v \<and> unlockModeFromPayload [w, v] = currentSetupMode s \<and>
    (if currentSetupMode s = JStr MASTER_MODE then
       site_isUnlocked s \<and>
       (\<forall>u i. fst (masterEmailKey p u) = fst (masterEmailKey p s) \<longrightarrow>
          unlockMailboxWithMaster p mp i w v u = importAndStorePrivateKey mp i priv (snd (masterEmailKey p u)))
     else (\<forall>u i. unlockMailbox p mp i w v (setup_secret s) u = importAndStorePrivateKey mp i priv u))"
proof (cases "currentSetupMode s = JStr MASTER_MODE")
  case True
  from handleSetup_cases [OF assms(2,3)] obtain r' u where unl: "site_isUnlocked s"
    and run: "setup_by_master p mp valid s = (r', u)" "panel_posts u = panel_posts s @ [post]" unfolding if_P [OF True] by blast
  obtain pub priv wrapped verifier key where
    o: "rsa_keypair mp (random_used s) = Some (pub, priv)" "posted post wrapped (bytesToPem pub ''PUBLIC KEY'') verifier"
      "fst (masterEmailKey p s) = Inr key" "opens_with p key wrapped priv" "opens_with p key verifier (encode_text VERIFY_TEXT)"
      "json_ok wrapped" "json_ok verifier" "tells_mode (JStr MASTER_MODE) wrapped" "tells_mode (JStr MASTER_MODE) verifier"
    by (rule setup_by_master_outcome [OF assms(1) run])
  note pp = posted_payloads [OF o(2,6,7)]
  have eq: "w = wrapped" "v = verifier" using pp(1,2) assms(4,5) by simp_all
  have "unlockModeFromPayload [wrapped, verifier] = JStr MASTER_MODE"
    by (rule tells_mode_payload [OF o(8)]) (simp add: isKnownUnlockMode_def)
  then have mode: "unlockModeFromPayload [wrapped, verifier] = currentSetupMode s" by (simp only: True)
  have truthy: "truthy wrapped" "truthy verifier" using o(8,9) by (simp_all add: tells_mode_def)
  have opens: "\<forall>u i. fst (masterEmailKey p u) = fst (masterEmailKey p s) \<longrightarrow>
      unlockMailboxWithMaster p mp i wrapped verifier u = importAndStorePrivateKey mp i priv (snd (masterEmailKey p u))"
    by (intro allI impI) (rule opened_unlock_master [OF _ o(4,5)], simp only: o(3))
  show ?thesis
    unfolding eq if_P [OF True]
    by (rule exI [of _ pub], rule exI [of _ priv]) (intro conjI o(1) pp(3) truthy mode unl opens)
next
  case False
  from handleSetup_cases [OF assms(2,3)] obtain r' u where
    run: "setup_by_secret p mp valid (currentSetupMode s) (setup_secret s) s = (r', u)" "panel_posts u = panel_posts s @ [post]"
    unfolding if_not_P [OF False] by blast
  have mode: "isValidUnlockMode (currentSetupMode s)" by (rule known_not_master [OF currentSetupMode_known False])
  obtain pub priv wrapped verifier where
    o: "rsa_keypair mp (random_used s) = Some (pub, priv)" "posted post wrapped (bytesToPem pub ''PUBLIC KEY'') verifier"
      "unwrapBytes p mp wrapped (setup_secret s) = Inr priv" "unwrapBytes p mp verifier (setup_secret s) = Inr (encode_text VERIFY_TEXT)"
      "json_ok wrapped" "json_ok verifier" "tells_mode (currentSetupMode s) wrapped" "tells_mode (currentSetupMode s) verifier"
    by (rule setup_by_secret_outcome [OF assms(1) run]) (rule that, assumption+, simp_all only: mode simp_thms)
  note pp = posted_payloads [OF o(2,5,6)]
  have eq: "w = wrapped" "v = verifier" using pp(1,2) assms(4,5) by simp_all
  have mode': "unlockModeFromPayload [wrapped, verifier] = currentSetupMode s" by (rule tells_mode_payload [OF o(7) currentSetupMode_known])
  have truthy: "truthy wrapped" "truthy verifier" using o(7,8) by (simp_all add: tells_mode_def)
  have opens: "\<forall>u i. unlockMailbox p mp i wrapped verifier (setup_secret s) u = importAndStorePrivateKey mp i priv u"
    by (intro allI opened_unlock o(3,4))
  show ?thesis
    unfolding eq if_not_P [OF False]
    by (rule exI [of _ pub], rule exI [of _ priv]) (intro conjI o(1) pp(3) truthy mode' opens)
qed


text \<open>
  C33: The key of a mailbox outlives the vault that opened it.  The hook stops listening when its
  page leaves, so a vault that is locked afterwards does not take the key away: the next page
  of the mailbox shows it unlocked, and its messages decrypt as before, although the vault is
  locked.
\<close>

theorem mailbox_outlives_vault:
  assumes "indifferent others" "\<forall>i u. keeps panel_data (others i u)"
    and "panel_destroyed s = (r1, s1)" "site_lock br (mailbox_listener p mp others) s1 = (r2, s2)" "panel_mounted p mp s2 = (r3, t)"
    and "i = mailboxId (panel_capture (panel_data s))" "configured (panel_capture (panel_data s))" "i \<noteq> []"
  shows "\<not> site_isUnlocked t \<and> importedPrivateKeys t = importedPrivateKeys s \<and>
    panel_open t = (importedPrivateKeys s i \<noteq> None) \<and>
    decryptMessagePayload p mp envelope i t = decryptMessagePayload p mp envelope i s"
proof -
  have s1: "2 \<notin> set (listeners s1)" "importedPrivateKeys s1 = importedPrivateKeys s" "panel_data s1 = panel_data s"
    using assms(3) by (auto simp: panel_destroyed_def unsubscribe_def update_run)
  from lock_unheard [OF assms(1,2) s1(1) assms(4)] s1
  have s2: "mdk s2 = None" "importedPrivateKeys s2 = importedPrivateKeys s" "panel_data s2 = panel_data s" by simp_all
  let ?c = "panel_capture (panel_data s)"
  let ?s = "s2\<lparr>panel_captured := ?c, panel_placeholder := unlockSecretPlaceholder (unlockMode ?c),
     listeners := (if 2 \<in> set (listeners s2) then listeners s2 else listeners s2 @ [2])\<rparr>"
  obtain s3 where s3: "renderSetupModeState (rendered ?s) = (Inr (), s3)" "panel_view s3 = panel_view (rendered ?s)"
    using renderSetup_run by blast
  have "mdk s3 = None" using s3(2) s2(1) by (simp add: panel_view_def)
  then have "maybeAutoUnlock p mp s3 = (Inr (), s3)" by (simp add: maybeAutoUnlock_def bind_run reads_run ret_run site_isUnlocked_def)
  then have "t = s3"
    using assms(5) s3(1) s2(3)
    by (simp add: panel_mounted_def subscribe_def seqc_run captureElements_run update_run renderLockState_run cong: if_cong)
  then have v: "panel_view t = panel_view (rendered ?s)" using s3(2) by simp
  then have k: "importedPrivateKeys t = importedPrivateKeys s" "mdk t = None" and open_t: "panel_open t = panel_open (rendered ?s)"
    using s2 by (simp_all add: panel_view_def)
  have "panel_open (rendered ?s) = (importedPrivateKeys s i \<noteq> None)"
    using s2 assms(6-8) by (simp add: has_unlocked_key_def getStoredPrivateKey_def autoUnlockPending_def site_isUnlocked_def)
  with k open_t show ?thesis
    by (simp add: site_isUnlocked_def decryptMessagePayload_def decryptEnvelope_def getStoredPrivateKey_def)
qed

section \<open>Examples\<close>

definition sample_mail :: mailbox_platform where
  "sample_mail =
     \<lparr>scrypt_key = (\<lambda>secret salt n r p. Some (secret @ salt)), rsa_keypair = (\<lambda>n. Some ([1], [2])), import_pkcs8 = Some,
      rsa_decrypt = (\<lambda>key c. Some c)\<rparr>"

definition sample_panel :: panel where
  "sample_panel = site.extend sample_site
     \<lparr>importedPrivateKeys = [''7'' \<mapsto> [2]], mailbox_events = [], mailbox_notices = [],
      panel_data = [''privateMailboxId'' \<mapsto> ''7'', ''privateMailboxConfigured'' \<mapsto> ''true'', ''privateMailboxUnlockMode'' \<mapsto> ''master''],
      panel_value = [''[data-private-mailbox-setup-mode]'' \<mapsto> ''separate_passphrase'',
        ''[data-private-mailbox-setup-passphrase]'' \<mapsto> ''correct horse battery'',
        ''[data-private-mailbox-setup-passphrase-confirm]'' \<mapsto> ''correct horse battery'',
        WRAPPED_KEY_INPUT \<mapsto> [], PUBLIC_KEY_INPUT \<mapsto> [], VERIFIER_INPUT \<mapsto> []],
      panel_captured = panel_capture [''privateMailboxId'' \<mapsto> ''7''],
      panel_status = [], panel_open = False, panel_hidden = (\<lambda>_. None), panel_required = (\<lambda>_. None), panel_placeholder = [],
      panel_master_error = [], autoUnlockSuppressed = False, autoUnlockFailed = False, panel_form = True, panel_posts = []\<rparr>"

lemma sample_panel_fields:
  "panel_form sample_panel" "panel_posts sample_panel = []" "random_used sample_panel = 0" "mdk sample_panel = None"
  "importedPrivateKeys sample_panel = [''7'' \<mapsto> [2]]"
  "panel_data sample_panel = [''privateMailboxId'' \<mapsto> ''7'', ''privateMailboxConfigured'' \<mapsto> ''true'', ''privateMailboxUnlockMode'' \<mapsto> ''master'']"
  "panel_captured sample_panel = panel_capture [''privateMailboxId'' \<mapsto> ''7'']"
  by (simp_all add: sample_panel_def site.extend_def sample_site_def world.extend_def sample_world_def)

lemma sample_panel_inputs:
  "currentSetupMode sample_panel = JStr ''separate_passphrase''"
  "panel_input ''[data-private-mailbox-setup-passphrase]'' sample_panel = ''correct horse battery''"
  "panel_input ''[data-private-mailbox-setup-passphrase-confirm]'' sample_panel = ''correct horse battery''"
  by (simp_all add: sample_panel_def site.extend_def currentSetupMode_def panel_input_def WRAPPED_KEY_INPUT_def PUBLIC_KEY_INPUT_def
      VERIFIER_INPUT_def isKnownUnlockMode_def isValidUnlockMode_def)

lemma sample_panel_set: "panel_value sample_panel WRAPPED_KEY_INPUT \<noteq> None" "panel_value sample_panel PUBLIC_KEY_INPUT \<noteq> None"
  "panel_value sample_panel VERIFIER_INPUT \<noteq> None"
  by (simp_all add: sample_panel_def site.extend_def)

lemma sample_mailbox: "mailboxId (panel_capture [''privateMailboxId'' \<mapsto> ''7'']) = ''7''"
  by (simp add: panel_capture_def Let_def)

lemma sample_wrapBytes: "\<exists>c. wrapBytes (sample_platform v) sample_mail m secret mode kind s = (Inr c, s\<lparr>random_used := random_used s + 28\<rparr>)"
  by (simp add: wrapBytes_run Let_def scrypt_wrapping_key_def encrypt_op_def sample_mail_def) (simp add: sample_platform_def)

lemma sample_submit:
  assumes "panel_value s = panel_value sample_panel"
  obtains t post where "submit_setup (\<lambda>_. True) w pem v s = (Inr (), t)" "panel_posts t = panel_posts s @ [post]"
proof -
  note w = setup_inputs_distinct setup_inputs_distinct [symmetric]
  show thesis
    by (rule that [of "snd (submit_setup (\<lambda>_. True) w pem v s)"])
      (simp_all add: submit_setup_def seqc_run must_set_run update_run w assms sample_panel_set)
qed

lemma sample_setup_runs:
  obtains t post where "handleSetup (sample_platform v) sample_mail (\<lambda>_. True) sample_panel = (Inr (), t)" "panel_posts t = [post]"
proof -
  let ?p = "sample_platform v" and ?s = sample_panel
  let ?mode = "JStr ''separate_passphrase''" and ?secret = "''correct horse battery''"
  let ?s1 = "?s\<lparr>random_used := 1\<rparr>"
  obtain w where w: "wrapBytes ?p sample_mail [2] ?secret ?mode ''private_key'' ?s1 = (Inr w, ?s1\<lparr>random_used := random_used ?s1 + 28\<rparr>)"
    using sample_wrapBytes by blast
  let ?s2 = "?s1\<lparr>random_used := random_used ?s1 + 28\<rparr>"
  obtain x where x: "wrapBytes ?p sample_mail (encode_text VERIFY_TEXT) ?secret ?mode ''verifier'' ?s2 =
      (Inr x, ?s2\<lparr>random_used := random_used ?s2 + 28\<rparr>)"
    using sample_wrapBytes by blast
  let ?s3 = "?s2\<lparr>random_used := random_used ?s2 + 28\<rparr>" and ?pem = "bytesToPem [1] ''PUBLIC KEY''"
  have "panel_value ?s3 = panel_value ?s" by simp
  then obtain t post where t: "submit_setup (\<lambda>_. True) w ?pem x ?s3 = (Inr (), t)" "panel_posts t = panel_posts ?s3 @ [post]"
    by (rule sample_submit)
  have kp: "generateMailboxKeypair sample_mail ?s = (Inr (?pem, [2]), ?s1)"
    by (simp add: generateMailboxKeypair_run sample_panel_fields) (simp add: sample_mail_def)
  have run: "setup_by_secret ?p sample_mail (\<lambda>_. True) ?mode ?secret ?s = (Inr (), t)"
    unfolding setup_by_secret_def by (simp only: bind_run kp w x t(1) sum.case prod.case)
  have "\<not> utf16_length ?secret < 12" by code_simp
  then have ok: "secret_problem ?mode a ?secret ?secret = None" for a by (simp add: secret_problem_def)
  have "?mode \<noteq> JStr MASTER_MODE" "?mode \<noteq> JStr ''account_password''" by (simp_all add: MASTER_MODE_def)
  then have "handleSetup ?p sample_mail (\<lambda>_. True) ?s = (Inr (), t)"
    by (simp add: handleSetup_def bind_run reads_run sample_panel_inputs sample_panel_fields sample_mailbox ok catch_run run)
  then show thesis using t(2) by (intro that) (simp_all add: sample_panel_fields)
qed

theorem mailbox_setup_unlocks_witness:
  "\<exists>t post. handleSetup (sample_platform JNull) sample_mail (\<lambda>_. True) sample_panel = (Inr (), t) \<and> panel_posts t = [post] \<and>
     (\<forall>(u :: panel) i. unlockMailbox (sample_platform JNull) sample_mail i (parsePayload (post WRAPPED_KEY_INPUT)) (parsePayload (post VERIFIER_INPUT))
        ''correct horse battery'' u = importAndStorePrivateKey sample_mail i [2] u)"
proof -
  obtain t post where t: "handleSetup (sample_platform JNull) sample_mail (\<lambda>_. True) sample_panel = (Inr (), t)" "panel_posts t = [post]"
    by (rule sample_setup_runs)
  have "panel_posts t = panel_posts sample_panel @ [post]" by (simp add: t(2) sample_panel_fields)
  note u = mailbox_setup_unlocks [OF sample_gcm_correct t(1) this refl refl]
  have "currentSetupMode sample_panel \<noteq> JStr MASTER_MODE" by (simp add: sample_panel_inputs MASTER_MODE_def)
  note u = u [unfolded if_not_P [OF this]]
  have s: "setup_secret sample_panel = ''correct horse battery''" by (simp add: setup_secret_def sample_panel_inputs)
  have priv: "rsa_keypair sample_mail (random_used sample_panel) = Some (pub, priv) \<Longrightarrow> priv = [2]" for pub priv
    by (simp add: sample_mail_def)
  from u [unfolded s] priv t show ?thesis by metis
qed

text \<open>A page with no other listeners, on which the vault is opened and closed again.\<close>

lemma indifferent_nothing: "indifferent (\<lambda>_ _. ret ())"
  by (simp add: indifferent_def keeps_ret)

lemma sample_shows:
  "shows_mailbox ''7'' (JStr MASTER_MODE) (panel_data sample_panel)" "configured (panel_capture (panel_data sample_panel))"
  "mailboxId (panel_capture (panel_data sample_panel)) = ''7''"
  by (simp_all add: sample_panel_fields shows_mailbox_def panel_capture_def Let_def parsePayload_def isKnownUnlockMode_def MASTER_MODE_def js_or_def)


theorem mailbox_outlives_vault_witness:
  "\<exists>s1 s2 r t. panel_destroyed (sample_panel\<lparr>mdk := Some [1]\<rparr>) = (Inr (), s1) \<and>
     site_lock (sample_store 9) (mailbox_listener (sample_platform JNull) sample_mail (\<lambda>_ _. ret ())) s1 = (Inr (), s2) \<and>
     panel_mounted (sample_platform JNull) sample_mail s2 = (r, t) \<and>
     \<not> site_isUnlocked t \<and> panel_open t \<and> importedPrivateKeys t ''7'' = Some [2]"
proof -
  let ?p = "sample_platform JNull" and ?s = "sample_panel\<lparr>mdk := Some [1]\<rparr>"
  let ?L = "mailbox_listener ?p sample_mail (\<lambda>_ _. ret ()) :: unit panel_listener" and ?br = "sample_store 9"
  obtain s1 where s1: "panel_destroyed ?s = (Inr (), s1)" by (simp add: panel_destroyed_def unsubscribe_def update_run)
  obtain s2 where s2: "site_lock ?br ?L s1 = (Inr (), s2)"
    using notify_run by (auto simp: site_lock_def forget_derived_def run_simps)
  obtain r t where t: "panel_mounted ?p sample_mail s2 = (r, t)" by (cases "panel_mounted ?p sample_mail s2")
  have d: "panel_data ?s = panel_data sample_panel" "importedPrivateKeys ?s = importedPrivateKeys sample_panel" by simp_all
  have "\<not> site_isUnlocked t \<and> importedPrivateKeys t = importedPrivateKeys ?s \<and> panel_open t = (importedPrivateKeys ?s ''7'' \<noteq> None) \<and>
      decryptMessagePayload ?p sample_mail JNull ''7'' t = decryptMessagePayload ?p sample_mail JNull ''7'' ?s"
    by (rule mailbox_outlives_vault [OF indifferent_nothing _ s1 s2 t]) (simp_all only: d sample_shows keeps_ret simp_thms, simp)
  then have "\<not> site_isUnlocked t" "panel_open t" "importedPrivateKeys t ''7'' = Some [2]"
    unfolding d sample_panel_fields by simp_all
  with s1 s2 t show ?thesis by blast
qed

end
