(* ===== verification/MailboxAuth.thy ===== *)
theory MailboxAuth
  imports MailboxProps SiteVault
begin

text \<open>
  The form that changes the account password
  (\<^verbatim>\<open>apps/elektrine/assets/js/hooks/mailbox_private_auth_forms.js\<close> and
  \<^verbatim>\<open>mailbox_private_auth_payloads.js\<close>): before the change is sent, the master data key of the vault
  and the key of the private mailbox are wrapped again under the new password.  What is sent
  opens with the new password; an edit of the form while the keys are being wrapped is sent with
  keys wrapped under the password of before.
\<close>

section \<open>State\<close>

text \<open>
  The form: its \<^verbatim>\<open>dataset\<close>, its inputs by name, and what was submitted.  The form of the log-in
  page only hands the password to \<^verbatim>\<open>cacheLoginPassword\<close>, which drops it.
\<close>

record auth_form = mailbox +
  form_data :: "string \<rightharpoonup> string"
  form_fields :: "string \<rightharpoonup> string"
  auth_posts :: "(string \<rightharpoonup> string) list"

type_synonym 's auth_ops = "('s auth_form_scheme, unit) io"

definition CURRENT_PASSWORD :: string where "CURRENT_PASSWORD = ''user[current_password]''"
definition NEW_PASSWORD :: string where "NEW_PASSWORD = ''user[password]''"
definition WRAPPED_DEK :: string where "WRAPPED_DEK = ''user[vault_wrapped_dek]''"
definition WRAPPED_DEK_RECOVERY :: string where "WRAPPED_DEK_RECOVERY = ''user[vault_wrapped_dek_recovery]''"
definition WRAPPED_MAILBOX_KEY :: string where "WRAPPED_MAILBOX_KEY = ''user[private_mailbox_wrapped_private_key]''"
definition MAILBOX_VERIFIER :: string where "MAILBOX_VERIFIER = ''user[private_mailbox_verifier]''"
definition MAILBOX_UNLOCK_MODE :: string where "MAILBOX_UNLOCK_MODE = ''user[private_mailbox_unlock_mode]''"

section \<open>Reading the form\<close>

record password_update =
  vaultConfigured :: bool
  configured :: bool
  unlockMode :: string
  shouldRewrapMailbox :: bool
  currentPassword :: string
  newPassword :: string
  vaultWrappedDek :: jsv
  vaultWrappedDekRecovery :: jsv
  wrappedKeyPayload :: jsv
  verifierPayload :: jsv

definition field_text :: "'s auth_form_scheme \<Rightarrow> string \<Rightarrow> string" where
  "field_text s name = (case form_fields s name of Some v \<Rightarrow> v | None \<Rightarrow> [])"

definition readPasswordUpdateContext :: "'s auth_form_scheme \<Rightarrow> password_update" where
  "readPasswordUpdateContext s =
     (let vault = (form_data s ''vaultConfigured'' = Some ''true'');
          conf = (form_data s ''privateMailboxConfigured'' = Some ''true'');
          mode = text_or (form_data s ''privateMailboxUnlockMode'') ''separate_passphrase'' in
      \<lparr>vaultConfigured = vault,
       configured = conf,
       unlockMode = mode,
       shouldRewrapMailbox = (conf \<and> mode = ''account_password''),
       currentPassword = field_text s CURRENT_PASSWORD,
       newPassword = field_text s NEW_PASSWORD,
       vaultWrappedDek = parsePayload (form_data s ''vaultWrappedDek''),
       vaultWrappedDekRecovery = parsePayload (form_data s ''vaultWrappedDekRecovery''),
       wrappedKeyPayload = parsePayload (form_data s ''privateMailboxWrappedKey''),
       verifierPayload = parsePayload (form_data s ''privateMailboxVerifier'')\<rparr>)"

text \<open>Which of the inputs that are to be filled in exist.\<close>

definition readVaultFields :: "'s auth_form_scheme \<Rightarrow> bool \<times> bool" where
  "readVaultFields s = (form_fields s WRAPPED_DEK \<noteq> None, form_fields s WRAPPED_DEK_RECOVERY \<noteq> None)"

definition readMailboxFields :: "'s auth_form_scheme \<Rightarrow> bool \<times> bool \<times> bool" where
  "readMailboxFields s =
     (form_fields s WRAPPED_MAILBOX_KEY \<noteq> None, form_fields s MAILBOX_VERIFIER \<noteq> None, form_fields s MAILBOX_UNLOCK_MODE \<noteq> None)"

definition shouldHandlePasswordUpdate :: "password_update \<Rightarrow> bool" where
  "shouldHandlePasswordUpdate c \<longleftrightarrow> vaultConfigured c \<or> (configured c \<and> unlockMode c = ''account_password'')"

definition passwordUpdateValidationError :: "password_update \<Rightarrow> bool \<times> bool \<Rightarrow> bool \<times> bool \<times> bool \<Rightarrow> string option" where
  "passwordUpdateValidationError c vaultFields mailboxFields =
     (case (vaultFields, mailboxFields) of ((dek, recovery), (wrappedKey, verifier, mode)) \<Rightarrow>
        if vaultConfigured c \<and> (\<not> truthy (vaultWrappedDek c) \<or> \<not> truthy (vaultWrappedDekRecovery c)) then
          Some ''Encrypted data update is unavailable. Reload and try again.''
        else if vaultConfigured c \<and> (\<not> dek \<or> \<not> recovery) then
          Some ''Encrypted data update fields are missing. Reload and try again.''
        else if shouldRewrapMailbox c \<and> (\<not> truthy (wrappedKeyPayload c) \<or> \<not> truthy (verifierPayload c)) then
          Some ''Private mailbox rewrap data is unavailable. Reload and try again.''
        else if shouldRewrapMailbox c \<and> (\<not> wrappedKey \<or> \<not> verifier \<or> \<not> mode) then
          Some ''Private mailbox password update fields are missing. Reload and try again.''
        else None)"

section \<open>The submission\<close>

definition set_field :: "string \<Rightarrow> string \<Rightarrow> 's auth_ops" where
  "set_field name v =
     bind (reads (\<lambda>s. form_fields s name)) (\<lambda>old.
     if old = None then raise TypeError else update (\<lambda>s. s\<lparr>form_fields := (form_fields s)(name \<mapsto> v)\<rparr>))"

text \<open>The browser submits the inputs as they are.\<close>

definition native_submit :: "'s auth_ops" where
  "native_submit = update (\<lambda>s. s\<lparr>auth_posts := auth_posts s @ [form_fields s]\<rparr>)"

definition rewrap_flag :: string where
  "rewrap_flag = ''privateMailboxRewrapSubmitting''"

text \<open>
  The handler up to its first \<^verbatim>\<open>await\<close>: it lets the submission pass, refuses it, or takes it over
  with what it read from the form.
\<close>

definition password_start :: "('s auth_form_scheme, password_update option) io" where
  "password_start =
     bind (reads (\<lambda>s. (form_data s rewrap_flag, readPasswordUpdateContext s, readVaultFields s, readMailboxFields s)))
       (\<lambda>(flag, c, vaultFields, mailboxFields).
     if flag = Some ''true'' \<or> \<not> shouldHandlePasswordUpdate c \<or> trim (currentPassword c) = [] \<or> trim (newPassword c) = [] then
       seqc native_submit (ret None)
     else
       (case passwordUpdateValidationError c vaultFields mailboxFields of
          Some message \<Rightarrow> seqc (mail_notify message ''error'') (ret None)
        | None \<Rightarrow> ret (Some c)))"

definition rewrap_vault :: "platform \<Rightarrow> password_update \<Rightarrow> 's auth_ops" where
  "rewrap_vault p c =
     (if \<not> vaultConfigured c then ret ()
      else
        bind (lift (site_unwrapWithSecret p (vaultWrappedDek c) (currentPassword c))) (\<lambda>m.
        bind (wrapWithSecret p m (newPassword c)) (\<lambda>wrapped.
        seqc (set_field WRAPPED_DEK (json_text wrapped))
          (set_field WRAPPED_DEK_RECOVERY (json_text (vaultWrappedDekRecovery c))))))"

definition rewrap_mailbox :: "platform \<Rightarrow> mailbox_platform \<Rightarrow> password_update \<Rightarrow> 's auth_ops" where
  "rewrap_mailbox p mp c =
     (if \<not> shouldRewrapMailbox c then ret ()
      else
        bind (lift (unwrapMailboxPrivateKey p mp (wrappedKeyPayload c) (verifierPayload c) (currentPassword c))) (\<lambda>privateKeyBytes.
        bind (wrapBytes p mp privateKeyBytes (newPassword c) (JStr ''account_password'') ''private_key'') (\<lambda>nextWrappedKey.
        bind (wrapBytes p mp (encode_text VERIFY_TEXT) (newPassword c) (JStr ''account_password'') ''verifier'') (\<lambda>nextVerifier.
        seqc (set_field WRAPPED_MAILBOX_KEY (json_text nextWrappedKey))
        (seqc (set_field MAILBOX_VERIFIER (json_text nextVerifier))
          (set_field MAILBOX_UNLOCK_MODE ''account_password''))))))"

text \<open>
  \<^verbatim>\<open>submitFormPreservingEvents\<close> asks the browser to submit the form again: where the browser's
  validation accepts the inputs, the handler runs once more, finds the flag and lets it pass.
\<close>

definition request_form_submit :: "((string \<rightharpoonup> string) \<Rightarrow> bool) \<Rightarrow> 's auth_ops" where
  "request_form_submit valid =
     bind (reads form_fields) (\<lambda>inputs.
     if valid inputs then bind password_start (\<lambda>_. ret ()) else ret ())"

definition password_finish :: "platform \<Rightarrow> mailbox_platform \<Rightarrow> ((string \<rightharpoonup> string) \<Rightarrow> bool) \<Rightarrow> password_update \<Rightarrow> 's auth_ops" where
  "password_finish p mp valid c =
     catch
       (seqc (rewrap_vault p c)
       (seqc (rewrap_mailbox p mp c)
       (seqc (update (\<lambda>s. s\<lparr>form_data := (form_data s)(rewrap_flag \<mapsto> ''true'')\<rparr>))
         (request_form_submit valid))))
       (\<lambda>_. mail_notify ''Could not update encrypted data for the new password. Check your current password and try again.'' ''error'')"

definition password_submit :: "platform \<Rightarrow> mailbox_platform \<Rightarrow> ((string \<rightharpoonup> string) \<Rightarrow> bool) \<Rightarrow> 's auth_ops" where
  "password_submit p mp valid =
     bind password_start (\<lambda>taken.
     case taken of None \<Rightarrow> ret () | Some c \<Rightarrow> password_finish p mp valid c)"

section \<open>What is wrapped again\<close>

definition rewritten :: "string set" where
  "rewritten = {WRAPPED_DEK, WRAPPED_DEK_RECOVERY, WRAPPED_MAILBOX_KEY, MAILBOX_VERIFIER, MAILBOX_UNLOCK_MODE}"

definition auth_frame :: "'s auth_form_scheme \<Rightarrow> (string \<rightharpoonup> string) list \<times> (string \<times> string) list \<times> (string \<rightharpoonup> string) \<times> (string \<rightharpoonup> string)" where
  "auth_frame s = (auth_posts s, mailbox_notices s, form_data s, form_fields s |` (- rewritten))"

definition REWRAP_FAILED :: "string \<times> string" where
  "REWRAP_FAILED = (''Could not update encrypted data for the new password. Check your current password and try again.'', ''error'')"

text \<open>Nothing was sent: the user was told so, or the browser refused the inputs.\<close>

definition not_sent :: "((string \<rightharpoonup> string) \<Rightarrow> bool) \<Rightarrow> 's auth_form_scheme \<Rightarrow> 's auth_form_scheme \<Rightarrow> bool" where
  "not_sent valid s t \<longleftrightarrow>
     auth_posts t = auth_posts s \<and> (mailbox_notices t = mailbox_notices s @ [REWRAP_FAILED] \<or> \<not> valid (form_fields t))"

definition vault_rewrapped :: "platform \<Rightarrow> password_update \<Rightarrow> (string \<rightharpoonup> string) \<Rightarrow> bool" where
  "vault_rewrapped p c sent \<longleftrightarrow>
     (vaultConfigured c \<longrightarrow>
       (\<exists>m wrapped. site_unwrapWithSecret p (vaultWrappedDek c) (currentPassword c) = Inr m \<and>
          sent WRAPPED_DEK = Some wrapped \<and> wraps p (newPassword c) wrapped m \<and>
          sent WRAPPED_DEK_RECOVERY = Some (json_text (vaultWrappedDekRecovery c))))"

definition mailbox_rewrapped :: "platform \<Rightarrow> mailbox_platform \<Rightarrow> password_update \<Rightarrow> (string \<rightharpoonup> string) \<Rightarrow> bool" where
  "mailbox_rewrapped p mp c sent \<longleftrightarrow>
     (shouldRewrapMailbox c \<longrightarrow>
       (\<exists>priv. unwrapMailboxPrivateKey p mp (wrappedKeyPayload c) (verifierPayload c) (currentPassword c) = Inr priv \<and>
          unwrapMailboxPrivateKey p mp (parsePayload (sent WRAPPED_MAILBOX_KEY)) (parsePayload (sent MAILBOX_VERIFIER)) (newPassword c) = Inr priv \<and>
          sent MAILBOX_UNLOCK_MODE = Some ''account_password''))"

lemma field_names:
  "distinct [WRAPPED_DEK, WRAPPED_DEK_RECOVERY, WRAPPED_MAILBOX_KEY, MAILBOX_VERIFIER, MAILBOX_UNLOCK_MODE]"
  "CURRENT_PASSWORD \<notin> rewritten" "NEW_PASSWORD \<notin> rewritten"
  by (simp_all add: rewritten_def CURRENT_PASSWORD_def NEW_PASSWORD_def WRAPPED_DEK_def WRAPPED_DEK_RECOVERY_def WRAPPED_MAILBOX_KEY_def
      MAILBOX_VERIFIER_def MAILBOX_UNLOCK_MODE_def)

lemma set_field_run:
  "set_field name v s =
     (if form_fields s name = None then (Inl TypeError, s) else (Inr (), s\<lparr>form_fields := (form_fields s)(name \<mapsto> v)\<rparr>))"
  by (cases "form_fields s name") (simp_all add: set_field_def bind_run reads_run raise_run update_run)

lemma keeps_frame_set: "name \<in> rewritten \<Longrightarrow> keeps auth_frame (set_field name v)"
  by (auto simp: keeps_def set_field_run auth_frame_def restrict_map_def fun_eq_iff)

lemma keeps_frame_wrap [keeps_intros]:
  "keeps auth_frame (wrapWithSecret p m secret)" "keeps auth_frame (wrapBytes p mp m secret mode kind)"
  by (auto simp: keeps_def wrapWithSecret_run wrapBytes_run Let_def auth_frame_def)

lemma keeps_frame_rewrap: "keeps auth_frame (rewrap_vault p c)" "keeps auth_frame (rewrap_mailbox p mp c)"
  unfolding rewrap_vault_def rewrap_mailbox_def
  by (intro keeps_intros keeps_frame_set; simp add: rewritten_def)+

lemma rewrap_vault_outcome:
  assumes "gcm_correct p" "rewrap_vault p c s = (Inr x, t)"
  shows "vault_rewrapped p c (form_fields t)"
proof (cases "vaultConfigured c")
  case False
  then show ?thesis by (simp add: vault_rewrapped_def)
next
  case True
  from assms(2) True obtain m w s1 where
    m: "site_unwrapWithSecret p (vaultWrappedDek c) (currentPassword c) = Inr m"
    and w: "wrapWithSecret p m (newPassword c) s = (Inr w, s1)"
    and set: "seqc (set_field WRAPPED_DEK (json_text w)) (set_field WRAPPED_DEK_RECOVERY (json_text (vaultWrappedDekRecovery c))) s1 = (Inr x, t)"
    by (auto simp: rewrap_vault_def bind_eq_Inr lift_run)
  from set field_names(1)
  have "form_fields t WRAPPED_DEK = Some (json_text w)" "form_fields t WRAPPED_DEK_RECOVERY = Some (json_text (vaultWrappedDekRecovery c))"
    by (auto simp: seqc_run set_field_run split: if_splits)
  with m wraps_own [OF assms(1) w] show ?thesis by (auto simp: vault_rewrapped_def)
qed

lemma account_mode: "mode_value (JStr ''account_password'')"
  by (simp add: mode_value_def)

lemma rewrap_mailbox_outcome:
  assumes "gcm_correct p" "rewrap_mailbox p mp c s = (Inr x, t)"
  shows "mailbox_rewrapped p mp c (form_fields t)"
proof (cases "shouldRewrapMailbox c")
  case False
  then show ?thesis by (simp add: mailbox_rewrapped_def)
next
  case True
  from assms(2) True obtain priv w s1 v s2 where
    priv: "unwrapMailboxPrivateKey p mp (wrappedKeyPayload c) (verifierPayload c) (currentPassword c) = Inr priv"
    and w: "wrapBytes p mp priv (newPassword c) (JStr ''account_password'') ''private_key'' s = (Inr w, s1)"
    and v: "wrapBytes p mp (encode_text VERIFY_TEXT) (newPassword c) (JStr ''account_password'') ''verifier'' s1 = (Inr v, s2)"
    and set: "seqc (set_field WRAPPED_MAILBOX_KEY (json_text w)) (seqc (set_field MAILBOX_VERIFIER (json_text v))
      (set_field MAILBOX_UNLOCK_MODE ''account_password'')) s2 = (Inr x, t)"
    by (auto simp: rewrap_mailbox_def bind_eq_Inr lift_run)
  from set field_names(1)
  have f: "form_fields t WRAPPED_MAILBOX_KEY = Some (json_text w)" "form_fields t MAILBOX_VERIFIER = Some (json_text v)"
    "form_fields t MAILBOX_UNLOCK_MODE = Some ''account_password''"
    by (auto simp: seqc_run set_field_run split: if_splits)
  have "json_text j \<noteq> []" for j using json_text_first [of j] by auto
  then have parse: "parsePayload (Some (json_text w)) = w" "parsePayload (Some (json_text v)) = v"
    using unwrap_wrapBytes [OF assms(1) w] unwrap_wrapBytes [OF assms(1) v] account_mode by (simp_all add: parsePayload_def json_parse_text)
  have "unwrapMailboxPrivateKey p mp w v (newPassword c) = Inr priv"
    using unwrap_wrapBytes [OF assms(1) w] unwrap_wrapBytes [OF assms(1) v] by (simp add: unwrapMailboxPrivateKey_def)
  with priv f parse show ?thesis by (auto simp: mailbox_rewrapped_def)
qed

lemma rewrap_mailbox_vault_fields:
  "rewrap_mailbox p mp c s = (Inr x, t) \<Longrightarrow>
   form_fields t WRAPPED_DEK = form_fields s WRAPPED_DEK \<and> form_fields t WRAPPED_DEK_RECOVERY = form_fields s WRAPPED_DEK_RECOVERY"
  using field_names(1)
  by (auto simp: rewrap_mailbox_def bind_eq_Inr seqc_run set_field_run wrapBytes_run Let_def ret_run lift_run split: if_splits)

lemma request_form_submit_run:
  assumes "form_data s rewrap_flag = Some ''true''"
  shows "request_form_submit valid s =
    (Inr (), if valid (form_fields s) then s\<lparr>auth_posts := auth_posts s @ [form_fields s]\<rparr> else s)"
  using assms by (simp add: request_form_submit_def password_start_def native_submit_def bind_run reads_run seqc_run update_run ret_run)

lemma finish_outcome:
  assumes "gcm_correct p" "password_finish p mp valid c s = (r, t)"
  shows "r = Inr () \<and> (not_sent valid s t \<or>
    (\<exists>post. auth_posts t = auth_posts s @ [post] \<and> valid post \<and> vault_rewrapped p c post \<and> mailbox_rewrapped p mp c post \<and>
       post |` (- rewritten) = form_fields s |` (- rewritten)))"
proof -
  let ?text = "''Could not update encrypted data for the new password. Check your current password and try again.''"
  let ?rest = "seqc (update (\<lambda>s. s\<lparr>form_data := (form_data s)(rewrap_flag \<mapsto> ''true'')\<rparr>)) (request_form_submit valid)"
  have quiet: "not_sent valid s u" if "mail_notify ?text ''error'' v = (r', u)" "auth_posts v = auth_posts s" "mailbox_notices v = mailbox_notices s" for r' u v
    using that by (auto simp: mail_notify_def update_run not_sent_def REWRAP_FAILED_def)
  have notify_ok: "fst (mail_notify ?text ''error'' v) = Inr ()" for v by (simp add: mail_notify_def update_run)
  obtain x1 s1 where 1: "rewrap_vault p c s = (x1, s1)" by (cases "rewrap_vault p c s")
  have f1: "auth_frame s1 = auth_frame s" by (rule keepsD [OF keeps_frame_rewrap(1) 1])
  show ?thesis
  proof (cases x1)
    case (Inl e)
    then have "mail_notify ?text ''error'' s1 = (r, t)" using assms(2) 1 by (simp add: password_finish_def catch_run seqc_run)
    with quiet [OF this] notify_ok [of s1] f1 show ?thesis by (simp add: auth_frame_def)
  next
    case (Inr y1)
    obtain x2 s2 where 2: "rewrap_mailbox p mp c s1 = (x2, s2)" by (cases "rewrap_mailbox p mp c s1")
    have f2: "auth_frame s2 = auth_frame s" using keepsD [OF keeps_frame_rewrap(2) 2] f1 by simp
    show ?thesis
    proof (cases x2)
      case (Inl e)
      then have "mail_notify ?text ''error'' s2 = (r, t)" using assms(2) 1 2 \<open>x1 = Inr y1\<close> by (simp add: password_finish_def catch_run seqc_run)
      with quiet [OF this] notify_ok [of s2] f2 show ?thesis by (simp add: auth_frame_def)
    next
      case (Inr y2)
      let ?s3 = "s2\<lparr>form_data := (form_data s2)(rewrap_flag \<mapsto> ''true'')\<rparr>"
      have flag: "form_data ?s3 rewrap_flag = Some ''true''" by simp
      have rt: "r = Inr ()" "t = (if valid (form_fields s2) then ?s3\<lparr>auth_posts := auth_posts s2 @ [form_fields s2]\<rparr> else ?s3)"
        using assms(2) 1 2 Inr \<open>x1 = Inr y1\<close> request_form_submit_run [OF flag, of valid]
        by (auto simp: password_finish_def catch_run seqc_run update_run)
      have v: "vault_rewrapped p c (form_fields s2)"
        using rewrap_vault_outcome [OF assms(1) 1 [unfolded \<open>x1 = Inr y1\<close>]] rewrap_mailbox_vault_fields [OF 2 [unfolded Inr]]
        by (simp add: vault_rewrapped_def)
      have m: "mailbox_rewrapped p mp c (form_fields s2)" by (rule rewrap_mailbox_outcome [OF assms(1) 2 [unfolded Inr]])
      show ?thesis using rt v m f2 by (auto simp: auth_frame_def not_sent_def)
    qed
  qed
qed

lemma start_outcome:
  assumes "password_start s = (Inr (Some c), t)"
  shows "t = s \<and> c = readPasswordUpdateContext s \<and> form_data s rewrap_flag \<noteq> Some ''true'' \<and> shouldHandlePasswordUpdate c \<and>
    trim (newPassword c) \<noteq> [] \<and> trim (currentPassword c) \<noteq> []"
  using assms
  by (auto simp: password_start_def bind_run reads_run native_submit_def seqc_run update_run ret_run mail_notify_def split: if_splits option.splits)

lemma context_passwords:
  "newPassword (readPasswordUpdateContext s) = field_text s NEW_PASSWORD"
  "currentPassword (readPasswordUpdateContext s) = field_text s CURRENT_PASSWORD"
  by (simp_all add: readPasswordUpdateContext_def Let_def)

section \<open>Properties\<close>

text \<open>
  C18: A change of the account password keeps the encrypted data readable.  When the handler takes a
  submission over, then either nothing is sent, because a key did not open or
  the browser refused the inputs, or what is sent holds the password that was
  typed, and, where the vault is set up, its master data key wrapped under that password, with
  the recovery copy unchanged, and, where the mailbox opens with the account password, a
  wrapped mailbox key and a verifier that open with it to the same private key.
\<close>

theorem password_change_rewraps:
  assumes "gcm_correct p" "password_start s = (Inr (Some c), s1)" "password_submit p mp valid s = (r, t)"
  shows "r = Inr () \<and> newPassword c = field_text s NEW_PASSWORD \<and>
    (not_sent valid s t \<or>
     (\<exists>post. auth_posts t = auth_posts s @ [post] \<and> post NEW_PASSWORD = form_fields s NEW_PASSWORD \<and>
        vault_rewrapped p c post \<and> mailbox_rewrapped p mp c post))"
proof -
  note st = start_outcome [OF assms(2)]
  from assms(2,3) st have "password_finish p mp valid c s = (r, t)" by (simp add: password_submit_def bind_run)
  from finish_outcome [OF assms(1) this] field_names(3) st show ?thesis
    by (auto simp: context_passwords dest: fun_cong [of _ _ NEW_PASSWORD])
qed

text \<open>
  An edit during the wrapping is sent with keys of before.  The keys are wrapped under the
  password that was read when the form was submitted; the browser then sends the inputs as
  they are.  Where the new password was edited in between, the password that is sent is the
  edited one, and the keys that are sent with it are wrapped under the other one.
\<close>

theorem password_change_race:
  assumes "gcm_correct p" "password_start s = (Inr (Some c), s1)"
    and "s2 = s1\<lparr>form_fields := (form_fields s1)(NEW_PASSWORD \<mapsto> edited)\<rparr>" "password_finish p mp valid c s2 = (r, t)"
  shows "not_sent valid s t \<or>
    (\<exists>post. auth_posts t = auth_posts s @ [post] \<and> post NEW_PASSWORD = Some edited \<and>
       newPassword c = field_text s NEW_PASSWORD \<and> vault_rewrapped p c post \<and> mailbox_rewrapped p mp c post)"
proof -
  note st = start_outcome [OF assms(2)]
  from finish_outcome [OF assms(1,4)] show ?thesis
  proof (elim conjE disjE exE)
    assume "not_sent valid s2 t"
    then show ?thesis using st assms(3) by (simp add: not_sent_def)
  next
    fix post
    assume p: "auth_posts t = auth_posts s2 @ [post]" "vault_rewrapped p c post" "mailbox_rewrapped p mp c post"
      and same: "post |` (- rewritten) = form_fields s2 |` (- rewritten)"
    have "post NEW_PASSWORD = form_fields s2 NEW_PASSWORD" using fun_cong [OF same, of NEW_PASSWORD] field_names(3) by simp
    then have "post NEW_PASSWORD = Some edited" using assms(3) by simp
    with p st assms(3) show ?thesis by (auto simp: context_passwords)
  qed
qed

section \<open>Examples\<close>

text \<open>A form for an account whose vault and mailbox were set up with the password \<open>cur\<close>.\<close>

definition sample_auth :: "jsv \<Rightarrow> jsv \<Rightarrow> jsv \<Rightarrow> auth_form" where
  "sample_auth dek wrappedKey verifier = site.extend sample_site
     \<lparr>importedPrivateKeys = (\<lambda>_. None), mailbox_events = [], mailbox_notices = [],
      form_data = [''vaultConfigured'' \<mapsto> ''true'', ''vaultWrappedDek'' \<mapsto> json_text dek, ''vaultWrappedDekRecovery'' \<mapsto> ''true'',
        ''privateMailboxConfigured'' \<mapsto> ''true'', ''privateMailboxUnlockMode'' \<mapsto> ''account_password'',
        ''privateMailboxWrappedKey'' \<mapsto> json_text wrappedKey, ''privateMailboxVerifier'' \<mapsto> json_text verifier],
      form_fields = [CURRENT_PASSWORD \<mapsto> ''cur'', NEW_PASSWORD \<mapsto> ''new'', WRAPPED_DEK \<mapsto> [], WRAPPED_DEK_RECOVERY \<mapsto> [],
        WRAPPED_MAILBOX_KEY \<mapsto> [], MAILBOX_VERIFIER \<mapsto> [], MAILBOX_UNLOCK_MODE \<mapsto> ''account_password''],
      auth_posts = []\<rparr>"

definition sample_context :: "jsv \<Rightarrow> jsv \<Rightarrow> jsv \<Rightarrow> password_update" where
  "sample_context dek wrappedKey verifier =
     \<lparr>vaultConfigured = True, configured = True, unlockMode = ''account_password'', shouldRewrapMailbox = True,
      currentPassword = ''cur'', newPassword = ''new'', vaultWrappedDek = dek, vaultWrappedDekRecovery = JBool True,
      wrappedKeyPayload = wrappedKey, verifierPayload = verifier\<rparr>"

lemma sample_auth_fields:
  "form_fields (sample_auth d w v) = [CURRENT_PASSWORD \<mapsto> ''cur'', NEW_PASSWORD \<mapsto> ''new'', WRAPPED_DEK \<mapsto> [], WRAPPED_DEK_RECOVERY \<mapsto> [],
     WRAPPED_MAILBOX_KEY \<mapsto> [], MAILBOX_VERIFIER \<mapsto> [], MAILBOX_UNLOCK_MODE \<mapsto> ''account_password'']"
  "auth_posts (sample_auth d w v) = []" "mailbox_notices (sample_auth d w v) = []"
  by (simp_all add: sample_auth_def site.extend_def)

lemma sample_parse: "json_ok j \<Longrightarrow> parsePayload (Some (json_text j)) = j" "parsePayload (Some ''true'') = JBool True"
proof -
  show *: "parsePayload (Some (json_text j)) = j" if "json_ok j" for j using that by (rule parsePayload_text)
  show "parsePayload (Some ''true'') = JBool True" using * [of "JBool True"] by simp
qed

lemma sample_start:
  assumes "json_ok d" "json_ok w" "json_ok v" "truthy d" "truthy w" "truthy v"
  shows "password_start (sample_auth d w v) = (Inr (Some (sample_context d w v)), sample_auth d w v)"
proof -
  let ?s = "sample_auth d w v"
  have data: "form_data ?s = [''vaultConfigured'' \<mapsto> ''true'', ''vaultWrappedDek'' \<mapsto> json_text d, ''vaultWrappedDekRecovery'' \<mapsto> ''true'',
        ''privateMailboxConfigured'' \<mapsto> ''true'', ''privateMailboxUnlockMode'' \<mapsto> ''account_password'',
        ''privateMailboxWrappedKey'' \<mapsto> json_text w, ''privateMailboxVerifier'' \<mapsto> json_text v]"
    by (simp add: sample_auth_def site.extend_def)
  have c: "readPasswordUpdateContext ?s = sample_context d w v"
    by (simp add: readPasswordUpdateContext_def Let_def data sample_parse assms text_or_def field_text_def sample_auth_fields sample_context_def
        CURRENT_PASSWORD_def NEW_PASSWORD_def WRAPPED_DEK_def WRAPPED_DEK_RECOVERY_def WRAPPED_MAILBOX_KEY_def MAILBOX_VERIFIER_def MAILBOX_UNLOCK_MODE_def)
  have f: "readVaultFields ?s = (True, True)" "readMailboxFields ?s = (True, True, True)"
    using field_names(1) by (simp_all add: readVaultFields_def readMailboxFields_def sample_auth_fields)
  have t: "trim ''cur'' \<noteq> []" "trim ''new'' \<noteq> []" by code_simp+
  show ?thesis
    by (simp add: password_start_def bind_run reads_run c f data rewrap_flag_def ret_run)
      (simp add: sample_context_def shouldHandlePasswordUpdate_def passwordUpdateValidationError_def t assms ret_run)
qed

lemma sample_rewrap_vault:
  assumes "site_unwrapWithSecret (sample_platform a) d ''cur'' = Inr m" "form_fields s WRAPPED_DEK \<noteq> None" "form_fields s WRAPPED_DEK_RECOVERY \<noteq> None"
  shows "\<exists>n y. rewrap_vault (sample_platform a) (sample_context d w v) s = (Inr (), s\<lparr>random_used := n,
    form_fields := (form_fields s)(WRAPPED_DEK \<mapsto> y, WRAPPED_DEK_RECOVERY \<mapsto> ''true'')\<rparr>)"
proof -
  obtain x where "wrapWithSecret (sample_platform a) m ''new'' s = (Inr x, s\<lparr>random_used := random_used s + 28\<rparr>)" using sample_wrap by blast
  then show ?thesis
    using assms field_names(1) by (auto simp: rewrap_vault_def sample_context_def bind_run seqc_run lift_run set_field_run intro!: exI)
qed

lemma sample_rewrap_mailbox:
  assumes "unwrapMailboxPrivateKey (sample_platform a) sample_mail w v ''cur'' = Inr m" "form_fields s WRAPPED_MAILBOX_KEY \<noteq> None"
    "form_fields s MAILBOX_VERIFIER \<noteq> None" "form_fields s MAILBOX_UNLOCK_MODE \<noteq> None"
  shows "\<exists>t. rewrap_mailbox (sample_platform a) sample_mail (sample_context d w v) s = (Inr (), t)"
proof -
  obtain x where x: "wrapBytes (sample_platform a) sample_mail m ''new'' (JStr ''account_password'') ''private_key'' s = (Inr x, s\<lparr>random_used := random_used s + 28\<rparr>)"
    using sample_wrapBytes by blast
  obtain y where "wrapBytes (sample_platform a) sample_mail (encode_text VERIFY_TEXT) ''new'' (JStr ''account_password'') ''verifier'' (s\<lparr>random_used := random_used s + 28\<rparr>) =
     (Inr y, s\<lparr>random_used := random_used s + 28, random_used := random_used (s\<lparr>random_used := random_used s + 28\<rparr>) + 28\<rparr>)"
    using sample_wrapBytes by blast
  with x show ?thesis
    using assms field_names(1) by (auto simp: rewrap_mailbox_def sample_context_def bind_run seqc_run lift_run set_field_run)
qed

lemma sample_account:
  obtains d w v m where "json_ok d" "json_ok w" "json_ok v" "truthy d" "truthy w" "truthy v"
    "site_unwrapWithSecret (sample_platform a) d ''cur'' = Inr m" "unwrapMailboxPrivateKey (sample_platform a) sample_mail w v ''cur'' = Inr [2]"
proof -
  let ?p = "sample_platform a" and ?s = sample_panel
  obtain d t where d: "wrapWithSecret ?p [9] ''cur'' ?s = (Inr d, t)" using sample_wrap by blast
  obtain salt iv c where "d = wrapped_payload salt iv c" using wrapWithSecret_ok [OF d] by blast
  then have "json_ok d" "truthy d" by (simp_all add: wrapped_payload_def obj_ok_fresh wrapped_keys_plain)
  moreover obtain m where "site_unwrapWithSecret ?p d ''cur'' = Inr m" using unwrap_wrapped [OF sample_gcm_correct d] by blast
  moreover obtain w t1 where w: "wrapBytes ?p sample_mail [2] ''cur'' (JStr ''account_password'') ''private_key'' ?s = (Inr w, t1)"
    using sample_wrapBytes by blast
  moreover obtain v t2 where v: "wrapBytes ?p sample_mail (encode_text VERIFY_TEXT) ''cur'' (JStr ''account_password'') ''verifier'' ?s = (Inr v, t2)"
    using sample_wrapBytes by blast
  moreover note unwrap_wrapBytes [OF sample_gcm_correct w] unwrap_wrapBytes [OF sample_gcm_correct v]
  ultimately show thesis using account_mode by (intro that [of d w v m]) (simp_all add: unwrapMailboxPrivateKey_def)
qed

text \<open>Both keys open with the current password, and every input is there: the form is sent.\<close>

lemma sample_finish:
  assumes m: "site_unwrapWithSecret (sample_platform a) d ''cur'' = Inr m" and pk: "unwrapMailboxPrivateKey (sample_platform a) sample_mail w v ''cur'' = Inr k"
    and there: "\<forall>name \<in> rewritten. form_fields s name \<noteq> None"
  shows "\<exists>t. password_finish (sample_platform a) sample_mail (\<lambda>_. True) (sample_context d w v) s = (Inr (), t) \<and> mailbox_notices t = mailbox_notices s"
proof -
  let ?p = "sample_platform a" and ?c = "sample_context d w v"
  have w: "form_fields s WRAPPED_DEK \<noteq> None" "form_fields s WRAPPED_DEK_RECOVERY \<noteq> None" using there by (auto simp: rewritten_def)
  obtain n y where 1: "rewrap_vault ?p ?c s = (Inr (), s\<lparr>random_used := n,
      form_fields := (form_fields s)(WRAPPED_DEK \<mapsto> y, WRAPPED_DEK_RECOVERY \<mapsto> ''true'')\<rparr>)"
    using sample_rewrap_vault [OF m w] by blast
  let ?s1 = "s\<lparr>random_used := n, form_fields := (form_fields s)(WRAPPED_DEK \<mapsto> y, WRAPPED_DEK_RECOVERY \<mapsto> ''true'')\<rparr>"
  have "form_fields ?s1 WRAPPED_MAILBOX_KEY \<noteq> None" "form_fields ?s1 MAILBOX_VERIFIER \<noteq> None" "form_fields ?s1 MAILBOX_UNLOCK_MODE \<noteq> None"
    using there by (auto simp: rewritten_def)
  from sample_rewrap_mailbox [OF pk this] obtain s2 where 2: "rewrap_mailbox ?p sample_mail ?c ?s1 = (Inr (), s2)" by blast
  have f: "mailbox_notices s2 = mailbox_notices s" using keepsD [OF keeps_frame_rewrap(2) 2] by (simp add: auth_frame_def)
  let ?s3 = "s2\<lparr>form_data := (form_data s2)(rewrap_flag \<mapsto> ''true'')\<rparr>"
  have "form_data ?s3 rewrap_flag = Some ''true''" by simp
  from request_form_submit_run [OF this, of "\<lambda>_. True"]
  have "password_finish ?p sample_mail (\<lambda>_. True) ?c s = (Inr (), ?s3\<lparr>auth_posts := auth_posts ?s3 @ [form_fields ?s3]\<rparr>)"
    by (simp add: password_finish_def catch_run seqc_run update_run 1 2)
  then show ?thesis using f by simp
qed

lemma sample_inputs_there: "\<forall>name \<in> rewritten. form_fields (sample_auth d w v) name \<noteq> None"
  by (simp add: rewritten_def sample_auth_fields)

theorem password_change_rewraps_witness:
  "\<exists>d w v t post. password_submit (sample_platform JNull) sample_mail (\<lambda>_. True) (sample_auth d w v) = (Inr (), t) \<and>
     auth_posts t = [post] \<and> post NEW_PASSWORD = Some ''new'' \<and>
     unwrapMailboxPrivateKey (sample_platform JNull) sample_mail (parsePayload (post WRAPPED_MAILBOX_KEY)) (parsePayload (post MAILBOX_VERIFIER)) ''new'' = Inr [2]"
proof -
  let ?p = "sample_platform JNull"
  obtain d w v m where ok: "json_ok d" "json_ok w" "json_ok v" "truthy d" "truthy w" "truthy v"
    and m: "site_unwrapWithSecret ?p d ''cur'' = Inr m" and pk: "unwrapMailboxPrivateKey ?p sample_mail w v ''cur'' = Inr [2]"
    by (rule sample_account)
  let ?s = "sample_auth d w v" and ?c = "sample_context d w v"
  note start = sample_start [OF ok]
  obtain t where fin: "password_finish ?p sample_mail (\<lambda>_. True) ?c ?s = (Inr (), t)" and n: "mailbox_notices t = mailbox_notices ?s"
    using sample_finish [OF m pk sample_inputs_there [of d w v]] by blast
  have t: "password_submit ?p sample_mail (\<lambda>_. True) ?s = (Inr (), t)" "mailbox_notices t = []"
    using start fin n by (simp_all add: password_submit_def bind_run sample_auth_fields)
  have "\<not> not_sent (\<lambda>_. True) ?s t" using t(2) by (simp add: not_sent_def sample_auth_fields)
  with password_change_rewraps [OF sample_gcm_correct start t(1)] obtain post where
    post: "auth_posts t = auth_posts ?s @ [post]" "post NEW_PASSWORD = form_fields ?s NEW_PASSWORD" "mailbox_rewrapped ?p sample_mail ?c post"
    by blast
  have "unwrapMailboxPrivateKey ?p sample_mail (parsePayload (post WRAPPED_MAILBOX_KEY)) (parsePayload (post MAILBOX_VERIFIER)) ''new'' = Inr [2]"
    using post(3) pk by (auto simp: mailbox_rewrapped_def sample_context_def)
  moreover have "post NEW_PASSWORD = Some ''new''"
    using post(2) field_names(3) by (simp add: sample_auth_fields CURRENT_PASSWORD_def NEW_PASSWORD_def WRAPPED_DEK_def WRAPPED_DEK_RECOVERY_def
        WRAPPED_MAILBOX_KEY_def MAILBOX_VERIFIER_def MAILBOX_UNLOCK_MODE_def)
  moreover have "auth_posts t = [post]" using post(1) by (simp add: sample_auth_fields)
  ultimately show ?thesis using t(1) by blast
qed

theorem password_change_race_witness:
  "\<exists>d w v t post wrapped m. password_start (sample_auth d w v) = (Inr (Some (sample_context d w v)), sample_auth d w v) \<and>
     password_finish (sample_platform JNull) sample_mail (\<lambda>_. True) (sample_context d w v)
       ((sample_auth d w v)\<lparr>form_fields := (form_fields (sample_auth d w v))(NEW_PASSWORD \<mapsto> ''other'')\<rparr>) = (Inr (), t) \<and>
     auth_posts t = [post] \<and> post NEW_PASSWORD = Some ''other'' \<and>
     post WRAPPED_DEK = Some wrapped \<and> wraps (sample_platform JNull) ''new'' wrapped m"
proof -
  let ?p = "sample_platform JNull"
  obtain d w v m where ok: "json_ok d" "json_ok w" "json_ok v" "truthy d" "truthy w" "truthy v"
    and m: "site_unwrapWithSecret ?p d ''cur'' = Inr m" and pk: "unwrapMailboxPrivateKey ?p sample_mail w v ''cur'' = Inr [2]"
    by (rule sample_account)
  let ?s = "sample_auth d w v" and ?c = "sample_context d w v"
  let ?s2 = "?s\<lparr>form_fields := (form_fields ?s)(NEW_PASSWORD \<mapsto> ''other'')\<rparr>"
  note start = sample_start [OF ok]
  have there: "\<forall>name \<in> rewritten. form_fields ?s2 name \<noteq> None" using sample_inputs_there [of d w v] by simp
  obtain t where t: "password_finish ?p sample_mail (\<lambda>_. True) ?c ?s2 = (Inr (), t)" and n: "mailbox_notices t = mailbox_notices ?s2"
    using sample_finish [OF m pk there] by blast
  have "\<not> not_sent (\<lambda>_. True) ?s t" using n by (simp add: not_sent_def sample_auth_fields)
  with password_change_race [OF sample_gcm_correct start refl t] obtain post where
    post: "auth_posts t = auth_posts ?s @ [post]" "post NEW_PASSWORD = Some ''other''" "vault_rewrapped ?p ?c post"
    by blast
  from post(3) obtain wrapped m' where "post WRAPPED_DEK = Some wrapped" "wraps ?p ''new'' wrapped m'"
    by (auto simp: vault_rewrapped_def sample_context_def)
  moreover have "auth_posts t = [post]" using post(1) by (simp add: sample_auth_fields)
  ultimately show ?thesis using start t post(2) by blast
qed

end
