(* ===== verification/ChatCrypto.thy ===== *)
theory ChatCrypto
  imports Crypto JsSort
begin

text \<open>
  \<^verbatim>\<open>apps/elektrine/assets/js/hooks/chat_e2ee_crypto.js\<close>: canonical JSON, the device list and its
  hash, key imports, the payloads that are hashed and signed, the words a message can be found
  by, and the storage of secrets.  Hashing, signatures, RSA and the randomness of the browser
  are the parameter \<open>chat_platform\<close>; \<open>None\<close> is a rejection.
\<close>

section \<open>Platform and state\<close>

text \<open>
  The \<open>n\<close> of \<open>rsa_pair\<close>, \<open>ec_pair\<close>, \<open>random_uuid\<close> and of the encryption and signing operations is the
  randomness they draw; \<open>idb_fault n\<close> is the error of the \<open>n\<close>-th operation of IndexedDB;
  \<open>chat_reply\<close> is what the server answers to the last of the events pushed so far.
\<close>

record chat_platform =
  sha256 :: "bytes \<Rightarrow> bytes"
  hmac_sign :: "bytes \<Rightarrow> bytes \<Rightarrow> bytes"
  random_uuid :: "nat \<Rightarrow> string option"
  rsa_pair :: "nat \<Rightarrow> (bytes \<times> bytes) option"
  ec_pair :: "nat \<Rightarrow> (bytes \<times> bytes) option"
  rsa_public :: "bytes \<Rightarrow> bytes option"
  rsa_private :: "bytes \<Rightarrow> bytes option"
  ec_public :: "bytes \<Rightarrow> bytes option"
  ec_private :: "bytes \<Rightarrow> bytes option"
  oaep_encrypt :: "bytes \<Rightarrow> nat \<Rightarrow> bytes \<Rightarrow> bytes option"
  oaep_decrypt :: "bytes \<Rightarrow> bytes \<Rightarrow> bytes option"
  ec_sign :: "bytes \<Rightarrow> nat \<Rightarrow> bytes \<Rightarrow> bytes option"
  ec_verify :: "bytes \<Rightarrow> bytes \<Rightarrow> bytes \<Rightarrow> bool"
  user_agent :: string
  crypto_ok :: bool
  idb_fault :: "nat \<Rightarrow> js_error option"
  chat_reply :: "(string \<times> jsv) list \<Rightarrow> jsv"

record vault_store = world +
  idb :: "string \<rightharpoonup> jsv"
  idb_ops :: nat
  local_items :: "string \<rightharpoonup> string"

type_synonym ('s, 'a) store_io = "('s vault_store_scheme, 'a) io"

text \<open>
  A \<^verbatim>\<open>CryptoKey\<close> is opaque to the program, which only keeps it in IndexedDB and hands it back to
  WebCrypto: an object that holds the key's bytes.
\<close>

definition crypto_key :: "bytes \<Rightarrow> jsv" where
  "crypto_key b = JObj [(''CryptoKey'', JStr (btoa b))]"

definition key_bytes :: "jsv \<Rightarrow> bytes result" where
  "key_bytes v =
     (case js_get_opt v ''CryptoKey'' of JStr s \<Rightarrow> (case atob s of Inl _ \<Rightarrow> Inl TypeError | Inr b \<Rightarrow> Inr b) | _ \<Rightarrow> Inl TypeError)"

lemma key_bytes_own [simp]: "key_bytes (crypto_key b) = Inr b"
  by (simp add: key_bytes_def crypto_key_def atob_btoa)

definition of_option :: "'a option \<Rightarrow> 'a result" where
  "of_option x = (case x of None \<Rightarrow> Inl OperationError | Some y \<Rightarrow> Inr y)"

section \<open>Constants and JSON\<close>

definition CHAT_E2EE_STORAGE_PREFIX :: string where
  "CHAT_E2EE_STORAGE_PREFIX = ''elektrine:chat-e2ee:v1''"

definition CHAT_E2EE_MAX_DEVICES :: nat where
  "CHAT_E2EE_MAX_DEVICES = 64"

definition chat_parseJson :: "string option \<Rightarrow> jsv \<Rightarrow> jsv" where
  "chat_parseJson value fallback =
     (case value of
        None \<Rightarrow> fallback
      | Some s \<Rightarrow> if s = [] then fallback else (case json_parse s of Inl _ \<Rightarrow> fallback | Inr v \<Rightarrow> v))"

fun stableJsonValue :: "jsv \<Rightarrow> jsv" where
  "stableJsonValue (JArr xs) = JArr (map stableJsonValue xs)"
| "stableJsonValue (JObj ps) = JObj (sorted_object (map (\<lambda>(key, v). (key, stableJsonValue v)) ps))"
| "stableJsonValue v = v"

text \<open>\<^verbatim>\<open>stableJson\<close> of a value that is not undefined.\<close>

definition chat_stableJson :: "jsv \<Rightarrow> string" where
  "chat_stableJson value = json_text (stableJsonValue value)"

section \<open>Storage\<close>

text \<open>One transaction on the object store, unless it fails.\<close>

definition idb_access :: "chat_platform \<Rightarrow> ('s vault_store_scheme \<Rightarrow> 'a \<times> 's vault_store_scheme) \<Rightarrow> ('s, 'a) store_io" where
  "idb_access cp f =
     bind (reads idb_ops) (\<lambda>n.
     seqc (update (\<lambda>s. s\<lparr>idb_ops := n + 1\<rparr>))
       (case idb_fault cp n of
          Some e \<Rightarrow> raise e
        | None \<Rightarrow> (\<lambda>s. case f s of (x, t) \<Rightarrow> (Inr x, t))))"

definition secureStorageGet :: "chat_platform \<Rightarrow> string \<Rightarrow> ('s, jsv) store_io" where
  "secureStorageGet cp key = idb_access cp (\<lambda>s. (case idb s key of None \<Rightarrow> JNull | Some v \<Rightarrow> v, s))"

definition secureStorageSet :: "chat_platform \<Rightarrow> string \<Rightarrow> jsv \<Rightarrow> ('s, unit) store_io" where
  "secureStorageSet cp key v = idb_access cp (\<lambda>s. ((), s\<lparr>idb := (idb s)(key \<mapsto> v)\<rparr>))"

definition secureStorageDelete :: "chat_platform \<Rightarrow> string \<Rightarrow> ('s, unit) store_io" where
  "secureStorageDelete cp key = idb_access cp (\<lambda>s. ((), s\<lparr>idb := (idb s)(key := None)\<rparr>))"

definition local_remove :: "string \<Rightarrow> ('s, unit) store_io" where
  "local_remove key = update (\<lambda>s. s\<lparr>local_items := (local_items s)(key := None)\<rparr>)"

section \<open>Encodings and randomness\<close>

definition bytesToBase64Url :: "bytes \<Rightarrow> string" where
  "bytesToBase64Url bytes =
     rev (dropWhile (\<lambda>c. c = CHR ''='')
       (rev (map (\<lambda>c. if c = CHR ''+'' then CHR ''-'' else if c = CHR ''/'' then CHR ''_'' else c) (bytesToBase64 bytes))))"

definition draw :: "(nat \<Rightarrow> 'a) \<Rightarrow> ('s world_scheme, 'a) io" where
  "draw f = bind (reads random_used) (\<lambda>n. seqc (update (\<lambda>s. s\<lparr>random_used := n + 1\<rparr>)) (ret (f n)))"

definition randomId :: "platform \<Rightarrow> chat_platform \<Rightarrow> string \<Rightarrow> ('s world_scheme, string) io" where
  "randomId p cp prefix =
     bind (draw (random_uuid cp)) (\<lambda>uuid.
     case uuid of
       Some u \<Rightarrow> ret (prefix @ u)
     | None \<Rightarrow> bind (random_bytes p 18) (\<lambda>bytes. ret (prefix @ bytesToBase64Url bytes)))"

definition sha256Base64Url :: "chat_platform \<Rightarrow> string \<Rightarrow> string" where
  "sha256Base64Url cp value = bytesToBase64Url (sha256 cp (encode_text value))"

section \<open>Words to search by\<close>

definition stopWords :: "string list" where
  "stopWords =
     [''the'', ''and'', ''for'', ''are'', ''but'', ''not'', ''you'', ''all'', ''can'', ''had'', ''her'', ''was'',
      ''one'', ''our'', ''out'', ''day'', ''get'', ''has'', ''him'', ''his'', ''how'', ''man'', ''new'', ''now'',
      ''old'', ''see'', ''two'', ''way'', ''who'', ''boy'', ''did'', ''its'', ''let'', ''put'', ''say'', ''she'',
      ''too'', ''use'']"

text \<open>\<^verbatim>\<open>[a-z0-9_]\<close>.\<close>

definition word_char :: "char \<Rightarrow> bool" where
  "word_char c \<longleftrightarrow> is_digit c \<or> c = CHR ''_'' \<or> ((97::nat) \<le> of_char c \<and> of_char c \<le> (122::nat))"

text \<open>\<^verbatim>\<open>lower.match(/#[a-z0-9_]+/g)\<close>.\<close>

function hashtags :: "string \<Rightarrow> string list" where
  "hashtags [] = []"
| "hashtags (c # s) =
     (if c = CHR ''#'' \<and> takeWhile word_char s \<noteq> []
      then (c # takeWhile word_char s) # hashtags (dropWhile word_char s)
      else hashtags s)"
  by pat_completeness auto
termination by (relation "measure length") (auto simp: length_dropWhile_le le_imp_less_Suc)

text \<open>\<^verbatim>\<open>new Set(xs)\<close> enumerates its elements in the order of their first occurrence.\<close>

definition js_unique :: "'a list \<Rightarrow> 'a list" where
  "js_unique xs = rev (remdups (rev xs))"

definition extractSearchKeywords :: "string \<Rightarrow> string list" where
  "extractSearchKeywords text =
     (let low = lower text;
          blanked = map (\<lambda>c. if word_char c \<or> is_space c \<or> c = CHR ''#'' then c else CHR '' '') low;
          words = filter (\<lambda>w. 3 \<le> length w \<and> w \<notin> set stopWords) (split_by is_space blanked) in
      js_unique (hashtags low @ words))"

section \<open>The device list\<close>

text \<open>\<^verbatim>\<open>Number(v)\<close> where it is an integer, for decimal numerals.\<close>

fun js_number :: "jsv \<Rightarrow> int option" where
  "js_number (JNum n) = Some n"
| "js_number JNull = Some 0"
| "js_number (JBool b) = Some (if b then 1 else 0)"
| "js_number JUndef = None"
| "js_number (JObj ps) = None"
| "js_number v =
     (let t = trim (to_str v) in
      if t = [] then Some 0
      else if list_all is_digit t then Some (int (digits_val t))
      else if tl t \<noteq> [] \<and> list_all is_digit (tl t) \<and> hd t = CHR ''-'' then Some (- int (digits_val (tl t)))
      else if tl t \<noteq> [] \<and> list_all is_digit (tl t) \<and> hd t = CHR ''+'' then Some (int (digits_val (tl t)))
      else None)"

definition stable_device :: "jsv \<Rightarrow> jsv result" where
  "stable_device device =
     res_bind (js_get device ''user_id'') (\<lambda>userId. Inr
      (JObj [(''user_id'', case js_number userId of Some n \<Rightarrow> JNum n | None \<Rightarrow> JNull),
             (''recipient_handle'', js_or (js_get_opt device ''recipient_handle'') JNull),
             (''origin_domain'', js_or (js_get_opt device ''origin_domain'') JNull),
             (''device_id'', JStr (to_str (js_or (js_get_opt device ''device_id'') (JStr [])))),
             (''public_key'', js_or (js_get_opt device ''public_key'') (JObj [])),
             (''fingerprint'', js_or (js_get_opt device ''fingerprint'') JNull),
             (''signing_public_key'', js_or (js_get_opt device ''signing_public_key'') JNull),
             (''device_signature'', js_or (js_get_opt device ''device_signature'') JNull)]))"

text \<open>A handle is text.\<close>

definition device_owner :: "jsv \<Rightarrow> string" where
  "device_owner d =
     (if truthy (js_get_opt d ''recipient_handle'') then to_str (js_get_opt d ''recipient_handle'')
      else to_str (js_get_opt d ''user_id''))"

definition compare_devices :: "platform \<Rightarrow> jsv \<Rightarrow> jsv \<Rightarrow> int" where
  "compare_devices p left right =
     (if device_owner left \<noteq> device_owner right then collate p (device_owner left) (device_owner right)
      else collate p (to_str (js_get_opt left ''device_id'')) (to_str (js_get_opt right ''device_id'')))"

text \<open>\<^verbatim>\<open>[...devices]\<close> of something that is not an array throws.\<close>

definition stableDevices :: "platform \<Rightarrow> jsv \<Rightarrow> jsv list result" where
  "stableDevices p devices =
     (case devices of
        JArr ds \<Rightarrow> res_bind (map_result stable_device ds) (\<lambda>ss. Inr (js_sort (compare_devices p) ss))
      | _ \<Rightarrow> Inl TypeError)"

definition devicesHash :: "platform \<Rightarrow> chat_platform \<Rightarrow> jsv \<Rightarrow> string result" where
  "devicesHash p cp devices = res_bind (stableDevices p devices) (\<lambda>ss. Inr (sha256Base64Url cp (json_text (JArr ss))))"

section \<open>Keys\<close>

definition import_spki :: "(bytes \<Rightarrow> bytes option) \<Rightarrow> string \<Rightarrow> js_error \<Rightarrow> jsv \<Rightarrow> bytes result" where
  "import_spki importer algorithm e payload =
     (let key = js_get_opt payload ''key'' in
      if \<not> truthy key \<or> js_get_opt payload ''algorithm'' \<noteq> JStr algorithm then Inl e
      else res_bind (base64ToBytes (to_str key)) (\<lambda>bytes. of_option (importer bytes)))"

definition importRsaPublicKey :: "chat_platform \<Rightarrow> jsv \<Rightarrow> bytes result" where
  "importRsaPublicKey cp payload = import_spki (rsa_public cp) ''RSA-OAEP-SHA256'' (Error ''Invalid chat public key'') payload"

definition importEcdsaPublicKey :: "chat_platform \<Rightarrow> jsv \<Rightarrow> bytes result" where
  "importEcdsaPublicKey cp payload = import_spki (ec_public cp) ''ECDSA-P256-SHA256'' (Error ''Invalid chat signing key'') payload"

definition importRsaPrivateKey :: "chat_platform \<Rightarrow> jsv \<Rightarrow> jsv result" where
  "importRsaPrivateKey cp v =
     res_bind (base64ToBytes (to_str v)) (\<lambda>bytes. res_bind (of_option (rsa_private cp bytes)) (\<lambda>k. Inr (crypto_key k)))"

definition importEcdsaPrivateKey :: "chat_platform \<Rightarrow> jsv \<Rightarrow> jsv result" where
  "importEcdsaPrivateKey cp v =
     res_bind (base64ToBytes (to_str v)) (\<lambda>bytes. res_bind (of_option (ec_private cp bytes)) (\<lambda>k. Inr (crypto_key k)))"

section \<open>What is hashed and signed\<close>

definition key_payload :: "string \<Rightarrow> jsv \<Rightarrow> jsv" where
  "key_payload algorithm key =
     (if truthy (js_get_opt key ''key'') then key
      else if truthy key then JObj [(''version'', JNum 1), (''algorithm'', JStr algorithm), (''key'', key)]
      else JNull)"

definition signingPublicKeyPayload :: "jsv \<Rightarrow> jsv" where
  "signingPublicKeyPayload device = key_payload ''ECDSA-P256-SHA256'' (js_get_opt device ''signing_public_key'')"

definition devicePublicKeyPayload :: "jsv \<Rightarrow> jsv" where
  "devicePublicKeyPayload device = key_payload ''RSA-OAEP-SHA256'' (js_get_opt device ''public_key'')"

definition device_fields :: "jsv \<Rightarrow> (string \<times> jsv) list" where
  "device_fields device =
     [(''purpose'', JStr ''elektrine-chat-e2ee-device''),
      (''version'', JNum 1),
      (''device_id'', JStr (to_str (js_or (js_get_opt device ''device_id'') (JStr [])))),
      (''key_algorithm'', js_or (js_get_opt device ''key_algorithm'') (JStr ''RSA-OAEP-SHA256'')),
      (''public_key'', devicePublicKeyPayload device),
      (''signing_public_key'', signingPublicKeyPayload device)]"

definition deviceFingerprintPayload :: "jsv \<Rightarrow> jsv" where
  "deviceFingerprintPayload device = JObj (device_fields device)"

definition deviceSignaturePayload :: "jsv \<Rightarrow> string \<Rightarrow> jsv" where
  "deviceSignaturePayload device fingerprint = JObj (obj_spread (device_fields device) [(''fingerprint'', JStr fingerprint)])"

end
