(* ===== verification/ChatKeys.thy ===== *)
theory ChatKeys
  imports ChatCrypto SiteCrypto
begin

text \<open>
  The keys of the hook \<^verbatim>\<open>ChatE2EE\<close> (\<^verbatim>\<open>apps/elektrine/assets/js/hooks/chat_e2ee_hook.js\<close>): the device of
  this browser, the trust in the devices of the others, the key of a conversation, and the
  encryption and decryption of messages.
\<close>

section \<open>State\<close>

text \<open>
  \<open>chat_data\<close> is the element's \<^verbatim>\<open>dataset\<close>; the server's replies to the pushed events that the code
  waits for are \<open>chat_reply\<close>.
\<close>

record prepared_key =
  pk_keyUid :: string
  pk_hash :: string
  pk_keyPackages :: "jsv list"

record chat = vault_store +
  chat_data :: "string \<rightharpoonup> string"
  chat_pushes :: "(string \<times> jsv) list"
  cachedDevice :: "jsv option"
  rawConversationKeyCache :: "string \<rightharpoonup> bytes"
  preparedConversationKey :: "prepared_key option"
  preparingDeviceCount :: nat
  unavailableConversationKeys :: "string set"
  sentPlaintexts :: "(string \<times> string) list"
  e2ee_status :: string
  e2ee_notices :: "(string \<times> string) list"

type_synonym ('s, 'a) chat_io = "('s chat_scheme, 'a) io"

section \<open>The element\<close>

definition positive_id :: "string option \<Rightarrow> int option" where
  "positive_id v =
     (case v of
        None \<Rightarrow> None
      | Some s \<Rightarrow> (case js_number (JStr s) of Some n \<Rightarrow> if 0 < n then Some n else None | None \<Rightarrow> None))"

definition chat_userId :: "'s chat_scheme \<Rightarrow> int option" where
  "chat_userId s = positive_id (chat_data s ''userId'')"

definition conversationId :: "'s chat_scheme \<Rightarrow> int option" where
  "conversationId s = positive_id (chat_data s ''conversationId'')"

definition chat_devices :: "'s chat_scheme \<Rightarrow> jsv" where
  "chat_devices s = chat_parseJson (chat_data s ''chatE2eeDevices'') (JArr [])"

definition id_text :: "int option \<Rightarrow> string" where
  "id_text i = (case i of Some n \<Rightarrow> show_int n | None \<Rightarrow> ''null'')"

definition user_prefix :: "'s chat_scheme \<Rightarrow> string" where
  "user_prefix s = CHAT_E2EE_STORAGE_PREFIX @ '':user:'' @ id_text (chat_userId s)"

definition deviceStorageKey :: "'s chat_scheme \<Rightarrow> string" where
  "deviceStorageKey s = user_prefix s @ '':device''"

definition rawKeyStorageKey :: "'s chat_scheme \<Rightarrow> int \<Rightarrow> string \<Rightarrow> string" where
  "rawKeyStorageKey s c keyUid = user_prefix s @ '':conversation:'' @ show_int c @ '':key:'' @ keyUid"

definition rawConversationKeyCacheKey :: "int \<Rightarrow> string \<Rightarrow> string" where
  "rawConversationKeyCacheKey c keyUid = show_int c @ '':'' @ keyUid"

definition activeKeyStorageKey :: "'s chat_scheme \<Rightarrow> int \<Rightarrow> string" where
  "activeKeyStorageKey s c = user_prefix s @ '':conversation:'' @ show_int c @ '':active-key''"

definition keyListStorageKey :: "'s chat_scheme \<Rightarrow> int \<Rightarrow> string" where
  "keyListStorageKey s c = user_prefix s @ '':conversation:'' @ show_int c @ '':keys''"

definition enabledStorageKey :: "'s chat_scheme \<Rightarrow> int \<Rightarrow> string" where
  "enabledStorageKey s c = user_prefix s @ '':conversation:'' @ show_int c @ '':enabled''"

definition deviceTrustStorageKey :: "jsv \<Rightarrow> string" where
  "deviceTrustStorageKey device =
     (let owner =
        (if truthy (js_get_opt device ''recipient_handle'')
         then ''remote:'' @ to_str (js_or (js_get_opt device ''origin_domain'') (JStr [])) @ '':'' @ to_str (js_get_opt device ''recipient_handle'')
         else ''local:'' @ to_str (js_or (js_get_opt device ''user_id'') (JStr []))) in
      CHAT_E2EE_STORAGE_PREFIX @ '':trust:'' @ owner @ '':device:'' @ to_str (js_get_opt device ''device_id''))"

section \<open>Secrets\<close>

definition loadSecureJson :: "chat_platform \<Rightarrow> string \<Rightarrow> ('s, jsv) chat_io" where
  "loadSecureJson cp key =
     bind (catch (secureStorageGet cp key) (\<lambda>_. ret JNull)) (\<lambda>stored.
     if truthy stored then ret stored
     else
       bind (reads (\<lambda>s. chat_parseJson (local_items s key) JNull)) (\<lambda>storedJson.
       if truthy storedJson then seqc (secureStorageSet cp key storedJson) (seqc (local_remove key) (ret storedJson))
       else ret storedJson))"

text \<open>
  \<^verbatim>\<open>Promise.all\<close> over promises that were all started: a rejection does not stop the others.
\<close>

fun promise_all :: "('s, 'a) io list \<Rightarrow> ('s, 'a list) io" where
  "promise_all [] = ret []"
| "promise_all (m # ms) =
     (\<lambda>s. case m s of (r, t) \<Rightarrow>
       (case promise_all ms t of (rs, u) \<Rightarrow> (res_bind r (\<lambda>x. res_bind rs (\<lambda>xs. Inr (x # xs))), u)))"

section \<open>The device of this browser\<close>

definition deviceFingerprint :: "chat_platform \<Rightarrow> jsv \<Rightarrow> string" where
  "deviceFingerprint cp device = sha256Base64Url cp (chat_stableJson (deviceFingerprintPayload device))"

definition signed_text :: "jsv \<Rightarrow> string \<Rightarrow> bytes" where
  "signed_text device fingerprint = encode_text (chat_stableJson (deviceSignaturePayload device fingerprint))"

definition signDeviceFingerprint :: "chat_platform \<Rightarrow> jsv \<Rightarrow> string \<Rightarrow> ('s, string) chat_io" where
  "signDeviceFingerprint cp device fingerprint =
     bind (lift (if truthy (js_get_opt device ''signing_private_key_crypto'') then Inr (js_get_opt device ''signing_private_key_crypto'')
                 else importEcdsaPrivateKey cp (js_get_opt device ''signing_private_key''))) (\<lambda>signingKey.
     bind (lift (key_bytes signingKey)) (\<lambda>key.
     bind (draw (\<lambda>n. ec_sign cp key n (signed_text device fingerprint))) (\<lambda>signature.
     bind (lift (of_option signature)) (\<lambda>bytes. ret (bytesToBase64 bytes)))))"

fun obj_props :: "jsv \<Rightarrow> (string \<times> jsv) list" where
  "obj_props (JObj ps) = ps"
| "obj_props v = []"

text \<open>\<^verbatim>\<open>migrated.to = await import(migrated.from); delete migrated.from\<close>, where only \<^verbatim>\<open>from\<close> is set.\<close>

definition migrate_key :: "(jsv \<Rightarrow> jsv result) \<Rightarrow> string \<Rightarrow> string \<Rightarrow> (string \<times> jsv) list \<times> bool \<Rightarrow> ((string \<times> jsv) list \<times> bool) result" where
  "migrate_key importer to_name from_name st =
     (case st of (ps, changed) \<Rightarrow>
        if \<not> truthy (obj_get to_name ps) \<and> truthy (obj_get from_name ps)
        then res_bind (importer (obj_get from_name ps)) (\<lambda>k. Inr (obj_del from_name (obj_set to_name k ps), True))
        else Inr (ps, changed))"

definition store_device :: "chat_platform \<Rightarrow> jsv \<Rightarrow> ('s, unit) chat_io" where
  "store_device cp device =
     bind (reads deviceStorageKey) (\<lambda>key. seqc (secureStorageSet cp key device) (local_remove key))"

definition migrateDevicePrivateKeys :: "chat_platform \<Rightarrow> jsv \<Rightarrow> ('s, jsv) chat_io" where
  "migrateDevicePrivateKeys cp device =
     bind (lift (res_bind (migrate_key (importRsaPrivateKey cp) ''private_key_crypto'' ''private_key'' (obj_props device, False))
       (migrate_key (importEcdsaPrivateKey cp) ''signing_private_key_crypto'' ''signing_private_key''))) (\<lambda>(ps, changed).
     if changed then seqc (store_device cp (JObj ps)) (ret (JObj ps)) else ret (JObj ps))"

definition has_trust_material :: "jsv \<Rightarrow> bool" where
  "has_trust_material device \<longleftrightarrow>
     truthy (js_get_opt device ''signing_private_key_crypto'') \<and> truthy (js_get_opt device ''signing_public_key'') \<and>
     truthy (js_get_opt device ''fingerprint'') \<and> truthy (js_get_opt device ''device_signature'')"

definition upgradeDeviceTrustMaterial :: "chat_platform \<Rightarrow> jsv \<Rightarrow> ('s, jsv) chat_io" where
  "upgradeDeviceTrustMaterial cp device0 =
     bind (migrateDevicePrivateKeys cp device0) (\<lambda>device.
     if has_trust_material device then ret device
     else
       bind (bind (draw (ec_pair cp)) (\<lambda>pair. lift (of_option pair))) (\<lambda>(publicKey, privateKey).
       bind (lift (importEcdsaPrivateKey cp (JStr (bytesToBase64 privateKey)))) (\<lambda>signingKey.
       let upgraded = obj_spread (obj_props device)
             [(''signing_public_key'', JStr (bytesToBase64 publicKey)), (''signing_private_key_crypto'', signingKey)];
           fingerprint = deviceFingerprint cp (JObj upgraded);
           upgraded' = obj_set ''fingerprint'' (JStr fingerprint) upgraded in
       bind (signDeviceFingerprint cp (JObj upgraded') fingerprint) (\<lambda>signature.
       let device' = JObj (obj_set ''device_signature'' (JStr signature) upgraded') in
       seqc (store_device cp device') (ret device')))))"

text \<open>\<^verbatim>\<open>navigator.userAgent || "browser"\<close>, at most 80 characters of it.\<close>

definition deviceLabel :: "chat_platform \<Rightarrow> string" where
  "deviceLabel cp =
     (let userAgent = (if user_agent cp = [] then ''browser'' else user_agent cp) in
      if 80 < length userAgent then take 80 userAgent else userAgent)"

definition loadOrCreateDevice :: "platform \<Rightarrow> chat_platform \<Rightarrow> ('s, jsv) chat_io" where
  "loadOrCreateDevice p cp =
     bind (reads deviceStorageKey) (\<lambda>key.
     bind (loadSecureJson cp key) (\<lambda>stored.
     if truthy (js_get_opt stored ''device_id'') \<and>
        (truthy (js_get_opt stored ''private_key_crypto'') \<or> truthy (js_get_opt stored ''private_key'')) \<and>
        truthy (js_get_opt stored ''public_key'') then
       bind (upgradeDeviceTrustMaterial cp stored) (\<lambda>upgraded.
       seqc (update (\<lambda>s. s\<lparr>cachedDevice := Some upgraded\<rparr>)) (ret upgraded))
     else
       bind (bind (draw (rsa_pair cp)) (\<lambda>pair. lift (of_option pair))) (\<lambda>(publicKey, privateKey).
       bind (randomId p cp ''web-'') (\<lambda>deviceId.
       bind (lift (importRsaPrivateKey cp (JStr (bytesToBase64 privateKey)))) (\<lambda>privateKeyCrypto.
       bind (upgradeDeviceTrustMaterial cp
         (JObj [(''device_id'', JStr deviceId),
                (''public_key'', JStr (bytesToBase64 publicKey)),
                (''private_key_crypto'', privateKeyCrypto),
                (''key_algorithm'', JStr ''RSA-OAEP-SHA256''),
                (''label'', JStr (deviceLabel cp))])) (\<lambda>device.
       seqc (secureStorageSet cp key device)
       (seqc (update (\<lambda>s. s\<lparr>cachedDevice := Some device\<rparr>))
         (ret device))))))))"

section \<open>Trust\<close>

definition signature_of :: "jsv \<Rightarrow> jsv" where
  "signature_of device =
     js_or (js_get_opt (js_get_opt device ''device_signature'') ''signature'') (js_get_opt device ''device_signature'')"

definition verifiedDeviceFingerprint :: "chat_platform \<Rightarrow> jsv \<Rightarrow> string result" where
  "verifiedDeviceFingerprint cp device =
     (let computed = deviceFingerprint cp device;
          advertised = js_or (js_get_opt device ''fingerprint'') (JStr computed) in
      if advertised \<noteq> JStr computed then Inl (Error ''untrusted_device'')
      else
        let keyPayload = signingPublicKeyPayload device; signature = signature_of device in
        if truthy keyPayload \<and> truthy signature then
          res_bind (importEcdsaPublicKey cp keyPayload) (\<lambda>key.
          res_bind (base64ToBytes (to_str signature)) (\<lambda>bytes.
          if ec_verify cp key bytes (signed_text device computed) then Inr computed
          else Inl (Error ''untrusted_device'')))
        else Inr computed)"

definition ensureDeviceTrusted :: "platform \<Rightarrow> chat_platform \<Rightarrow> jsv \<Rightarrow> ('s, unit) chat_io" where
  "ensureDeviceTrusted p cp device =
     bind (lift (verifiedDeviceFingerprint cp device)) (\<lambda>fingerprint.
     bind (loadSecureJson cp (deviceTrustStorageKey device)) (\<lambda>trusted.
     let known = js_get_opt trusted ''fingerprint'' in
     if truthy known \<and> known \<noteq> JStr fingerprint then raise (Error ''untrusted_device'')
     else if \<not> truthy known then
       bind (reads clock) (\<lambda>now.
       seqc (secureStorageSet cp (deviceTrustStorageKey device)
              (JObj [(''fingerprint'', JStr fingerprint), (''device_id'', js_get_opt device ''device_id''), (''trusted_at'', JStr (iso_time p now))]))
         (local_remove (deviceTrustStorageKey device)))
     else ret ()))"

definition ensureDevicesTrusted :: "platform \<Rightarrow> chat_platform \<Rightarrow> jsv \<Rightarrow> ('s, unit) chat_io" where
  "ensureDevicesTrusted p cp devices =
     bind (lift (stableDevices p devices)) (\<lambda>ds. bind (promise_all (map (ensureDeviceTrusted p cp) ds)) (\<lambda>_. ret ()))"

end
