(* ===== verification/ChatMessages.thy ===== *)
theory ChatMessages
  imports ChatKeys
begin

text \<open>
  The conversation key and the messages of \<^verbatim>\<open>ChatE2EE\<close>: which key a message is encrypted with, for
  whom it is wrapped, what is sent to the server, and how a message is opened.
\<close>

section \<open>Stored conversation keys\<close>

text \<open>
  \<^verbatim>\<open>const bytes = base64ToBytes(stored)\<close> of a key that an older version of the program left in
  storage: it moves into memory.
\<close>

definition cache_raw_key :: "string \<Rightarrow> bytes \<Rightarrow> ('s, unit) chat_io" where
  "cache_raw_key cacheKey bytes =
     update (\<lambda>s. s\<lparr>rawConversationKeyCache := (rawConversationKeyCache s)(cacheKey \<mapsto> bytes)\<rparr>)"

definition loadRawConversationKey :: "chat_platform \<Rightarrow> int \<Rightarrow> string \<Rightarrow> ('s, bytes option) chat_io" where
  "loadRawConversationKey cp c keyUid =
     bind (reads (\<lambda>s. (rawKeyStorageKey s c keyUid, rawConversationKeyCache s (rawConversationKeyCacheKey c keyUid)))) (\<lambda>(storageKey, cached).
     let cacheKey = rawConversationKeyCacheKey c keyUid in
     case cached of
       Some bytes \<Rightarrow> ret (Some bytes)
     | None \<Rightarrow>
         bind (catch (secureStorageGet cp storageKey) (\<lambda>_. ret JNull)) (\<lambda>key.
         if truthy key then
           bind (lift (base64ToBytes (to_str key))) (\<lambda>bytes.
           seqc (cache_raw_key cacheKey bytes)
           (seqc (secureStorageDelete cp storageKey)
             (ret (Some bytes))))
         else
           bind (reads (\<lambda>s. local_items s storageKey)) (\<lambda>storedKey.
           case storedKey of
             None \<Rightarrow> ret None
           | Some v \<Rightarrow>
               if v = [] then ret None
               else
                 bind (lift (base64ToBytes v)) (\<lambda>bytes.
                 seqc (local_remove storageKey)
                 (seqc (cache_raw_key cacheKey bytes)
                   (ret (Some bytes)))))))"

fun arr_items :: "jsv \<Rightarrow> jsv list" where
  "arr_items (JArr xs) = xs"
| "arr_items v = []"

definition storeRawConversationKey :: "chat_platform \<Rightarrow> int \<Rightarrow> string \<Rightarrow> bytes \<Rightarrow> ('s, unit) chat_io" where
  "storeRawConversationKey cp c keyUid rawKeyBytes =
     seqc (cache_raw_key (rawConversationKeyCacheKey c keyUid) rawKeyBytes)
     (bind (reads (\<lambda>s. (rawKeyStorageKey s c keyUid, keyListStorageKey s c))) (\<lambda>(storageKey, listKey).
      seqc (secureStorageDelete cp storageKey)
      (seqc (local_remove storageKey)
      (bind (loadSecureJson cp listKey) (\<lambda>stored.
       let keyUids = arr_items stored in
       if JStr keyUid \<in> set keyUids then ret ()
       else seqc (secureStorageSet cp listKey (JArr (keyUids @ [JStr keyUid]))) (local_remove listKey))))))"

definition storeActiveConversationKey :: "chat_platform \<Rightarrow> int \<Rightarrow> string \<Rightarrow> string \<Rightarrow> jsv \<Rightarrow> ('s, unit) chat_io" where
  "storeActiveConversationKey cp c keyUid devicesHashValue packagesSentHash =
     bind (reads (\<lambda>s. activeKeyStorageKey s c)) (\<lambda>key.
     seqc (secureStorageSet cp key
       (JObj [(''key_uid'', JStr keyUid), (''devices_hash'', JStr devicesHashValue), (''packages_sent_hash'', packagesSentHash)]))
       (local_remove key))"

definition markPackagesSent :: "chat_platform \<Rightarrow> string \<Rightarrow> string \<Rightarrow> ('s, unit) chat_io" where
  "markPackagesSent cp keyUid devicesHashValue =
     bind (reads conversationId) (\<lambda>c.
     case c of
       None \<Rightarrow> ret ()
     | Some c \<Rightarrow> catch (storeActiveConversationKey cp c keyUid devicesHashValue (JStr devicesHashValue)) (\<lambda>_. ret ()))"

section \<open>The key of a conversation\<close>

record conversation_key =
  ck_keyUid :: string
  ck_rawKeyBytes :: bytes
  ck_packagesNeeded :: bool
  ck_hash :: string

definition new_conversation_key :: "platform \<Rightarrow> chat_platform \<Rightarrow> int \<Rightarrow> string \<Rightarrow> ('s, conversation_key) chat_io" where
  "new_conversation_key p cp c hash =
     bind (randomId p cp ''key-'') (\<lambda>keyUid.
     bind (random_bytes p 32) (\<lambda>rawKeyBytes.
     seqc (storeRawConversationKey cp c keyUid rawKeyBytes)
     (seqc (storeActiveConversationKey cp c keyUid hash JNull)
       (ret \<lparr>ck_keyUid = keyUid, ck_rawKeyBytes = rawKeyBytes, ck_packagesNeeded = True, ck_hash = hash\<rparr>))))"

text \<open>The key uid of a stored record is text.\<close>

definition conversationKeyForDevices :: "platform \<Rightarrow> chat_platform \<Rightarrow> int \<Rightarrow> jsv \<Rightarrow> ('s, conversation_key) chat_io" where
  "conversationKeyForDevices p cp c devices =
     bind (lift (devicesHash p cp devices)) (\<lambda>hash.
     bind (reads (\<lambda>s. activeKeyStorageKey s c)) (\<lambda>key.
     bind (loadSecureJson cp key) (\<lambda>activeKey.
     let uid = js_get_opt activeKey ''key_uid'' in
     if truthy uid \<and> js_get_opt activeKey ''devices_hash'' = JStr hash then
       bind (loadRawConversationKey cp c (to_str uid)) (\<lambda>raw.
       case raw of
         Some rawKeyBytes \<Rightarrow>
           ret \<lparr>ck_keyUid = to_str uid, ck_rawKeyBytes = rawKeyBytes,
                ck_packagesNeeded = (js_get_opt activeKey ''packages_sent_hash'' \<noteq> JStr hash), ck_hash = hash\<rparr>
       | None \<Rightarrow> new_conversation_key p cp c hash)
     else new_conversation_key p cp c hash)))"

section \<open>Wrapping the key\<close>

definition wrap_for_device :: "chat_platform \<Rightarrow> bytes \<Rightarrow> jsv \<Rightarrow> ('s, jsv) chat_io" where
  "wrap_for_device cp rawKeyBytes device =
     bind (lift (importRsaPublicKey cp (js_get_opt device ''public_key''))) (\<lambda>publicKey.
     bind (bind (draw (\<lambda>n. oaep_encrypt cp publicKey n rawKeyBytes)) (\<lambda>c. lift (of_option c))) (\<lambda>encryptedKey.
     ret (JObj
       ((if is_num (js_get_opt device ''user_id'') then [(''user_id'', js_get_opt device ''user_id'')] else []) @
        (if truthy (js_get_opt device ''recipient_handle'') then [(''recipient_handle'', js_get_opt device ''recipient_handle'')] else []) @
        (if truthy (js_get_opt device ''origin_domain'') then [(''origin_domain'', js_get_opt device ''origin_domain'')] else []) @
        [(''device_id'', js_get_opt device ''device_id''),
         (''wrapped_key'', JObj
           [(''version'', JNum 1),
            (''key_algorithm'', JStr ''RSA-OAEP-SHA256''),
            (''encrypted_key'', JStr (bytesToBase64 encryptedKey))])]))))"

definition wrapConversationKey :: "platform \<Rightarrow> chat_platform \<Rightarrow> bytes \<Rightarrow> jsv \<Rightarrow> ('s, jsv list) chat_io" where
  "wrapConversationKey p cp rawKeyBytes devices =
     bind (lift (stableDevices p devices)) (\<lambda>ds. promise_all (map (wrap_for_device cp rawKeyBytes) ds))"

definition searchTokensForKey :: "chat_platform \<Rightarrow> bytes \<Rightarrow> string \<Rightarrow> string list" where
  "searchTokensForKey cp rawKeyBytes text =
     js_unique (map (\<lambda>keyword. bytesToBase64 (hmac_sign cp rawKeyBytes (encode_text (''chat-search:v1:'' @ keyword))))
       (extractSearchKeywords text))"

section \<open>Encrypting\<close>

definition preparation_message :: "nat \<Rightarrow> string" where
  "preparation_message deviceCount =
     ''Preparing encryption keys for '' @ show_nat deviceCount @ '' device'' @ (if deviceCount = 1 then [] else ''s'') @ ''...''"

definition package_list :: "jsv list \<Rightarrow> jsv list \<Rightarrow> (string \<times> jsv) list" where
  "package_list localKeyPackages federatedKeyPackages =
     (if federatedKeyPackages \<noteq> [] then [(''federated_key_packages'', JArr federatedKeyPackages)] else []) @
     (if localKeyPackages \<noteq> [] then [(''local_key_packages'', JArr localKeyPackages)] else [])"

definition make_packages :: "platform \<Rightarrow> chat_platform \<Rightarrow> jsv \<Rightarrow> conversation_key \<Rightarrow> ('s, jsv list) chat_io" where
  "make_packages p cp devices k =
     finally_do
       (seqc (update (\<lambda>s. s\<lparr>preparingDeviceCount := length (arr_items devices), e2ee_status := preparation_message (length (arr_items devices))\<rparr>))
       (bind (wrapConversationKey p cp (ck_rawKeyBytes k) devices) (\<lambda>keyPackages.
        seqc (update (\<lambda>s. s\<lparr>preparedConversationKey :=
                 Some \<lparr>pk_keyUid = ck_keyUid k, pk_hash = ck_hash k, pk_keyPackages = keyPackages\<rparr>\<rparr>))
          (ret keyPackages))))
       (\<lambda>s. s\<lparr>preparingDeviceCount := 0\<rparr>)"

text \<open>The packages for a key that the others do not have yet: those prepared, or new ones.\<close>

definition key_packages_for :: "platform \<Rightarrow> chat_platform \<Rightarrow> jsv \<Rightarrow> conversation_key \<Rightarrow> ('s, jsv list) chat_io" where
  "key_packages_for p cp devices k =
     (if \<not> ck_packagesNeeded k then ret []
      else
        bind (reads preparedConversationKey) (\<lambda>prepared.
        case prepared of
          Some pk \<Rightarrow>
            if pk_keyUid pk = ck_keyUid k \<and> pk_hash pk = ck_hash k then ret (pk_keyPackages pk)
            else make_packages p cp devices k
        | None \<Rightarrow> make_packages p cp devices k))"

definition encrypted_payload :: "string \<Rightarrow> bytes \<Rightarrow> bytes \<Rightarrow> jsv list \<Rightarrow> jsv" where
  "encrypted_payload keyUid iv ciphertext keyPackages =
     JObj ([(''version'', JNum 1),
            (''content_algorithm'', JStr ''AES-256-GCM''),
            (''key_uid'', JStr keyUid),
            (''iv'', JStr (bytesToBase64 iv)),
            (''ciphertext'', JStr (bytesToBase64 ciphertext))] @
           package_list (filter (\<lambda>kp. is_num (js_get_opt kp ''user_id'')) keyPackages)
             (filter (\<lambda>kp. truthy (js_get_opt kp ''recipient_handle'')) keyPackages))"

record encrypted_message =
  em_keyUid :: string
  em_devicesHash :: "string option"
  em_payload :: jsv

definition message_payload :: "jsv \<Rightarrow> jsv list \<Rightarrow> string list \<Rightarrow> jsv" where
  "message_payload encrypted keyPackages tokens =
     JObj [(''encrypted_payload'', encrypted),
           (''key_packages'', JArr (filter (\<lambda>kp. is_num (js_get_opt kp ''user_id'')) keyPackages)),
           (''search_index'', JArr (map JStr tokens))]"

text \<open>
  The conversation is that of the element; \<^verbatim>\<open>encryptMessage\<close> runs only where there is one, and
  no preparation of packages is under way.
\<close>

definition encryptMessage :: "platform \<Rightarrow> chat_platform \<Rightarrow> int \<Rightarrow> string \<Rightarrow> ('s, encrypted_message) chat_io" where
  "encryptMessage p cp c content =
     bind (reads chat_devices) (\<lambda>devices.
     seqc (ensureDevicesTrusted p cp devices)
     (bind (conversationKeyForDevices p cp c devices) (\<lambda>k.
      bind (random_bytes p 12) (\<lambda>iv.
      bind (lift (encrypt_op p (ck_rawKeyBytes k) iv None (encode_text content))) (\<lambda>ciphertext.
      bind (key_packages_for p cp devices k) (\<lambda>keyPackages.
      ret \<lparr>em_keyUid = ck_keyUid k,
           em_devicesHash = (if ck_packagesNeeded k then Some (ck_hash k) else None),
           em_payload = message_payload (encrypted_payload (ck_keyUid k) iv ciphertext keyPackages) keyPackages
             (searchTokensForKey cp (ck_rawKeyBytes k) content)\<rparr>))))))"

section \<open>Decrypting\<close>

text \<open>\<^verbatim>\<open>decryptWrappedConversationKey\<close>.\<close>

definition decryptWrappedConversationKey :: "chat_platform \<Rightarrow> jsv \<Rightarrow> jsv \<Rightarrow> bytes result" where
  "decryptWrappedConversationKey cp device wrappedKey =
     res_bind (if truthy (js_get_opt device ''private_key_crypto'') then Inr (js_get_opt device ''private_key_crypto'')
               else importRsaPrivateKey cp (js_get_opt device ''private_key'')) (\<lambda>privateKey.
     res_bind (base64_property wrappedKey ''encrypted_key'') (\<lambda>bytes.
     res_bind (key_bytes privateKey) (\<lambda>key. of_option (oaep_decrypt cp key bytes))))"

definition inline_packages :: "jsv \<Rightarrow> jsv list" where
  "inline_packages payload =
     (let get = (\<lambda>a b. arr_items (js_or (js_get_opt payload a) (js_get_opt payload b))) in
      get ''local_key_packages'' ''localKeyPackages'' @ get ''key_packages'' ''keyPackages'' @
      get ''federated_key_packages'' ''federatedKeyPackages'')"

definition inlineKeyPackageForDevice :: "jsv \<Rightarrow> jsv \<Rightarrow> jsv" where
  "inlineKeyPackageForDevice payload deviceId =
     (case find (\<lambda>kp. js_get_opt kp ''device_id'' = deviceId) (inline_packages payload) of
        Some kp \<Rightarrow> kp
      | None \<Rightarrow> JUndef)"

text \<open>\<^verbatim>\<open>pushEvent\<close> and the server's reply to it.\<close>

definition push_reply :: "chat_platform \<Rightarrow> string \<Rightarrow> jsv \<Rightarrow> ('s, jsv) chat_io" where
  "push_reply cp event payload =
     bind (reads chat_pushes) (\<lambda>log.
     seqc (update (\<lambda>s. s\<lparr>chat_pushes := log @ [(event, payload)]\<rparr>))
       (ret (chat_reply cp (log @ [(event, payload)]))))"

definition wrapped_key_reply :: "jsv \<Rightarrow> jsv result" where
  "wrapped_key_reply reply =
     (if truthy (js_get_opt reply ''ok'') \<and> truthy (js_get_opt reply ''wrapped_key'') then Inr (js_get_opt reply ''wrapped_key'')
      else Inl (Error (if truthy (js_get_opt reply ''error'') then to_str (js_get_opt reply ''error'') else ''Wrapped key not found'')))"

text \<open>The key for this device that the server keeps; the conversation's key is then current.\<close>

definition fetch_conversation_key :: "platform \<Rightarrow> chat_platform \<Rightarrow> int \<Rightarrow> string \<Rightarrow> jsv \<Rightarrow> ('s, bytes) chat_io" where
  "fetch_conversation_key p cp c keyUid device =
     bind (push_reply cp ''chat_e2ee_key''
       (JObj [(''conversation_id'', JNum c), (''device_id'', js_get_opt device ''device_id''), (''key_uid'', JStr keyUid)])) (\<lambda>reply.
     bind (lift (wrapped_key_reply reply)) (\<lambda>wrappedKey.
     bind (lift (decryptWrappedConversationKey cp device wrappedKey)) (\<lambda>rawKeyBytes.
     seqc (storeRawConversationKey cp c keyUid rawKeyBytes)
     (bind (reads chat_devices) (\<lambda>devices.
      bind (lift (devicesHash p cp devices)) (\<lambda>hash.
      seqc (storeActiveConversationKey cp c keyUid hash (JStr hash))
        (ret rawKeyBytes)))))))"

definition request_conversation_key :: "platform \<Rightarrow> chat_platform \<Rightarrow> int \<Rightarrow> string \<Rightarrow> jsv \<Rightarrow> ('s, bytes) chat_io" where
  "request_conversation_key p cp c keyUid payload =
     bind (loadOrCreateDevice p cp) (\<lambda>device.
     let inline = inlineKeyPackageForDevice payload (js_get_opt device ''device_id'') in
     if truthy (js_get_opt (js_get_opt inline ''wrapped_key'') ''encrypted_key'') then
       bind (lift (decryptWrappedConversationKey cp device (js_get_opt inline ''wrapped_key''))) (\<lambda>rawKeyBytes.
       seqc (storeRawConversationKey cp c keyUid rawKeyBytes)
         (ret rawKeyBytes))
     else fetch_conversation_key p cp c keyUid device)"

definition rawConversationKey :: "platform \<Rightarrow> chat_platform \<Rightarrow> int \<Rightarrow> string \<Rightarrow> jsv \<Rightarrow> ('s, bytes) chat_io" where
  "rawConversationKey p cp c keyUid payload =
     bind (loadRawConversationKey cp c keyUid) (\<lambda>stored.
     case stored of
       Some bytes \<Rightarrow> ret bytes
     | None \<Rightarrow>
         let cacheKey = rawConversationKeyCacheKey c keyUid in
         bind (reads (\<lambda>s. cacheKey \<in> unavailableConversationKeys s)) (\<lambda>unavailable.
         if unavailable then raise (Error ''key_not_found'')
         else
           catch (request_conversation_key p cp c keyUid payload)
             (\<lambda>e. seqc
               (if e = Error ''key_not_found''
                then update (\<lambda>s. s\<lparr>unavailableConversationKeys := insert cacheKey (unavailableConversationKeys s)\<rparr>)
                else ret ())
               (raise e))))"

text \<open>The text of a message under its conversation's key.\<close>

definition open_payload :: "platform \<Rightarrow> bytes \<Rightarrow> jsv \<Rightarrow> string result" where
  "open_payload p rawKeyBytes payload =
     res_bind (base64_property payload ''iv'') (\<lambda>iv.
     res_bind (base64_property payload ''ciphertext'') (\<lambda>ciphertext.
     res_bind (decrypt_op p rawKeyBytes iv None ciphertext) (\<lambda>plaintext.
     Inr (decode_text plaintext))))"

end
