(* ===== verification/ChatHook.thy ===== *)
theory ChatHook
  imports ChatMessages
begin

text \<open>
  The hook \<^verbatim>\<open>ChatE2EE\<close> itself (\<^verbatim>\<open>apps/elektrine/assets/js/hooks/chat_e2ee_hook.js\<close>, with the texts of
  \<^verbatim>\<open>chat_e2ee_messages.js\<close>): whether encrypted chat is possible and switched on, what the form, the
  toggle and the status line show, sending, searching, and the messages on the page.
\<close>

section \<open>Texts\<close>

definition waitingForMemberKeysMessage :: "int list \<Rightarrow> jsv list \<Rightarrow> string" where
  "waitingForMemberKeysMessage memberIds devices =
     (let deviceUserIds = filter (\<lambda>i. 0 < i) (List.map_filter (\<lambda>d. js_number (js_get_opt d ''user_id'')) devices);
          missingCount = length (filter (\<lambda>i. i \<notin> set deviceUserIds) memberIds) in
      if missingCount \<le> 1
      then ''Waiting for one active member to register encryption keys. They need to open this chat once.''
      else ''Waiting for '' @ show_nat missingCount @ '' active members to register encryption keys. They need to open this chat once.'')"

definition chatE2EEUnavailableLabel :: "string \<Rightarrow> bool \<Rightarrow> string" where
  "chatE2EEUnavailableLabel status setupRequired =
     (if setupRequired then ''Setting up this browser''
      else if status = ''registering_device'' then ''Registering this browser''
      else if status = ''waiting_for_remote_keys'' then ''Waiting for remote keys''
      else if status = ''waiting_for_member_keys'' then ''Waiting for member keys''
      else if status = ''too_many_devices'' then ''Too many devices''
      else if status = ''not_applicable'' then ''Encrypted chat not supported here''
      else ''Encrypted chat not ready'')"

definition chatE2EEUnavailableTitle :: "string \<Rightarrow> bool \<Rightarrow> string" where
  "chatE2EEUnavailableTitle status setupRequired =
     (if setupRequired then ''This browser is still registering its own encryption keys. Encrypted sending will unlock automatically.''
      else if status = ''registering_device'' then ''This browser is registering an encryption device. Try again in a moment.''
      else if status = ''waiting_for_remote_keys'' then ''The remote participant has not advertised compatible chat encryption keys yet.''
      else if status = ''waiting_for_member_keys'' then ''Every active member needs at least one registered chat encryption device.''
      else if status = ''too_many_devices'' then ''This conversation has too many devices for the simple E2EE mode.''
      else if status = ''not_applicable'' then ''Optional client-side E2EE is currently supported for DMs and groups.''
      else ''Encrypted chat is not ready for this conversation yet.'')"

definition encryptedSubmitBlockedMessage :: "string \<Rightarrow> bool \<Rightarrow> string" where
  "encryptedSubmitBlockedMessage content hasUploads =
     (if content = [] then ''Type a message before sending encrypted chat.''
      else if hasUploads then ''Encrypted chat only supports plain text right now. Remove attachments or turn encrypted chat off.''
      else ''Encrypted chat only supports plain text right now. Turn it off to use commands.'')"

definition encryptedSendFailureMessage :: "jsv \<Rightarrow> string" where
  "encryptedSendFailureMessage e =
     (if e = JStr ''missing_key_packages'' then ''Encrypted chat keys were not ready. Wait for the chat to finish key setup, then try again.''
      else if e = JStr ''invalid_key_recipient'' then ''Encrypted chat keys changed while sending. Wait for the chat to resync, then try again.''
      else if e = JStr ''invalid_key_package'' \<or> e = JStr ''invalid_encrypted_payload'' then
        ''This encrypted message could not be sent because its encrypted payload was invalid.''
      else if e = JStr ''no_conversation'' then ''Select a chat before sending an encrypted message.''
      else if e = JStr ''blocked'' then ''This message was not sent because one of you has blocked the other.''
      else if e = JStr ''privacy_restricted'' then ''This message was not sent because this user is not accepting direct messages.''
      else ''Encrypted message could not be sent. Make sure everyone has opened this chat so their keys can register, then try again.'')"

definition untrustedDeviceMessage :: string where
  "untrustedDeviceMessage =
     ''Encrypted chat was paused because a participant device key changed. Turn encrypted chat off and verify the participant before continuing.''"

section \<open>State\<close>

text \<open>
  An element that shows a message: its \<^verbatim>\<open>dataset\<close> and its text.  \<open>typed_shared\<close> says that the text
  area has its \<^verbatim>\<open>phx-change\<close> attribute, with which LiveView sends every change of it to the
  server; \<open>plain_submits\<close> are the texts the form sent as they were typed.
\<close>

record message_element =
  me_payload :: "string option"
  me_conversationId :: "string option"
  me_keyUid :: "string option"
  me_decrypted :: "string option"
  me_text :: string
  me_shown :: bool

record toggle_view =
  tv_disabled :: bool
  tv_on :: bool
  tv_title :: string
  tv_label :: string

record pending_send =
  ps_message :: encrypted_message
  ps_payload :: jsv

record chat_page = chat +
  message_text :: "string option"
  typed_shared :: bool
  files_disabled :: bool
  has_uploads :: bool
  message_loading :: bool
  submit_disabled :: "bool option"
  toggle :: "toggle_view option"
  message_elements :: "message_element list"
  lastTypingAt :: int
  lastDeviceRegistrationAt :: int
  currentConversationId :: "int option"
  pending_sends :: "(nat \<times> pending_send) list"
  sends_made :: nat
  plain_submits :: "string list"

type_synonym ('s, 'a) page_io = "('s chat_page_scheme, 'a) io"

section \<open>Whether encrypted chat is ready\<close>

definition serverE2EEReady :: "'s chat_scheme \<Rightarrow> bool" where
  "serverE2EEReady s \<longleftrightarrow> chat_data s ''chatE2eeReady'' = Some ''true''"

definition localDevice :: "'s chat_scheme \<Rightarrow> jsv" where
  "localDevice s = (if chat_userId s = None then JNull else case cachedDevice s of None \<Rightarrow> JNull | Some d \<Rightarrow> d)"

definition localDeviceAdvertised :: "'s chat_scheme \<Rightarrow> bool" where
  "localDeviceAdvertised s \<longleftrightarrow>
     (let deviceId = js_get_opt (localDevice s) ''device_id'' in
      truthy deviceId \<and> chat_userId s \<noteq> None \<and>
      list_ex (\<lambda>d. js_number (js_get_opt d ''user_id'') = chat_userId s \<and> js_get_opt d ''device_id'' = deviceId) (arr_items (chat_devices s)))"

definition localDeviceSetupRequired :: "chat_platform \<Rightarrow> 's chat_scheme \<Rightarrow> bool" where
  "localDeviceSetupRequired cp s \<longleftrightarrow>
     crypto_ok cp \<and> chat_userId s \<noteq> None \<and> conversationId s \<noteq> None \<and> \<not> localDeviceAdvertised s"

definition e2eeStatus :: "'s chat_scheme \<Rightarrow> string" where
  "e2eeStatus s = (case chat_data s ''chatE2eeStatus'' of Some v \<Rightarrow> if v = [] then ''unknown'' else v | None \<Rightarrow> ''unknown'')"

definition memberIds :: "'s chat_scheme \<Rightarrow> int list" where
  "memberIds s = filter (\<lambda>i. 0 < i) (List.map_filter js_number (arr_items (chat_parseJson (chat_data s ''chatE2eeMemberIds'') (JArr []))))"

definition e2eeCapable :: "chat_platform \<Rightarrow> 's chat_scheme \<Rightarrow> bool" where
  "e2eeCapable cp s \<longleftrightarrow>
     crypto_ok cp \<and> serverE2EEReady s \<and> conversationId s \<noteq> None \<and>
     0 < length (arr_items (chat_devices s)) \<and> length (arr_items (chat_devices s)) \<le> CHAT_E2EE_MAX_DEVICES \<and> localDeviceAdvertised s"

definition e2eeEnabled :: "'s chat_scheme \<Rightarrow> bool" where
  "e2eeEnabled s \<longleftrightarrow>
     (case conversationId s of
        None \<Rightarrow> False
      | Some c \<Rightarrow> chat_userId s \<noteq> None \<and> local_items s (enabledStorageKey s c) = Some ''true'')"

definition e2eeReady :: "chat_platform \<Rightarrow> 's chat_scheme \<Rightarrow> bool" where
  "e2eeReady cp s \<longleftrightarrow> e2eeCapable cp s \<and> e2eeEnabled s"

definition setE2EEEnabled :: "bool \<Rightarrow> ('s, unit) chat_io" where
  "setE2EEEnabled enabled =
     bind (reads (\<lambda>s. (conversationId s, chat_userId s))) (\<lambda>(c, u).
     case c of
       None \<Rightarrow> ret ()
     | Some c \<Rightarrow>
         if u = None then ret ()
         else
           seqc (update (\<lambda>s. s\<lparr>local_items := (local_items s)(enabledStorageKey s c \<mapsto> (if enabled then ''true'' else ''false''))\<rparr>))
             (if enabled then ret () else update (\<lambda>s. s\<lparr>preparedConversationKey := None, preparingDeviceCount := 0\<rparr>)))"

section \<open>What the page shows\<close>

definition notifyE2EE :: "string \<Rightarrow> string \<Rightarrow> ('s, unit) chat_io" where
  "notifyE2EE message type = update (\<lambda>s. s\<lparr>e2ee_notices := e2ee_notices s @ [(message, type)]\<rparr>)"

text \<open>An empty status hides its element.\<close>

definition setE2EEStatusMessage :: "string \<Rightarrow> ('s, unit) chat_io" where
  "setE2EEStatusMessage message = update (\<lambda>s. s\<lparr>e2ee_status := message\<rparr>)"

definition set_submit :: "bool \<Rightarrow> ('s, unit) page_io" where
  "set_submit b = update (\<lambda>s. s\<lparr>submit_disabled := map_option (\<lambda>_. b) (submit_disabled s)\<rparr>)"

text \<open>No preparation of keys is under way between two events.\<close>

definition submit_blocked :: "chat_platform \<Rightarrow> string \<Rightarrow> 's chat_page_scheme \<Rightarrow> bool" where
  "submit_blocked cp typed s =
     (if message_loading s then True
      else if \<not> e2eeCapable cp s then trim typed = [] \<and> \<not> has_uploads s
      else if \<not> e2eeReady cp s then trim typed = [] \<and> \<not> has_uploads s
      else trim typed = [] \<or> has_uploads s)"

definition syncEncryptedSubmitButton :: "chat_platform \<Rightarrow> ('s, unit) page_io" where
  "syncEncryptedSubmitButton cp =
     bind (reads message_text) (\<lambda>typed.
     case typed of
       None \<Rightarrow> ret ()
     | Some t \<Rightarrow> bind (reads (submit_blocked cp t)) set_submit)"

definition updateInputMode :: "chat_platform \<Rightarrow> ('s, unit) page_io" where
  "updateInputMode cp =
     bind (reads (\<lambda>s. (message_text s, e2eeReady cp s))) (\<lambda>(typed, encryptedMode).
     if typed = None then ret ()
     else
       seqc (update (\<lambda>s. s\<lparr>typed_shared := \<not> encryptedMode, files_disabled := encryptedMode\<rparr>))
       (seqc (if encryptedMode then set_submit False else ret ())
         (syncEncryptedSubmitButton cp)))"

definition toggle_of :: "chat_platform \<Rightarrow> 's chat_scheme \<Rightarrow> toggle_view" where
  "toggle_of cp s =
     (let capable = e2eeCapable cp s; enabled = (capable \<and> e2eeEnabled s) in
      \<lparr>tv_disabled = \<not> capable,
       tv_on = enabled,
       tv_title =
         (if capable
          then (if enabled then ''Encrypted chat is ready and enabled for this browser.''
                else ''Encrypted chat is ready. Click to turn it on for this browser.'')
          else chatE2EEUnavailableTitle (e2eeStatus s) (localDeviceSetupRequired cp s)),
       tv_label =
         (if capable then (if enabled then ''Encrypted chat on'' else ''Encrypted chat ready'')
          else chatE2EEUnavailableLabel (e2eeStatus s) (localDeviceSetupRequired cp s))\<rparr>)"

definition updateToggleState :: "chat_platform \<Rightarrow> ('s, unit) page_io" where
  "updateToggleState cp = update (\<lambda>s. s\<lparr>toggle := map_option (\<lambda>_. toggle_of cp s) (toggle s)\<rparr>)"

definition status_of_chat :: "chat_platform \<Rightarrow> 's chat_scheme \<Rightarrow> string" where
  "status_of_chat cp s =
     (if conversationId s = None \<or> chat_userId s = None then []
      else if \<not> crypto_ok cp then
        ''Encrypted chat is unavailable because this browser does not support the required crypto APIs.''
      else if e2eeCapable cp s then
        (if e2eeEnabled s then ''Ready: encrypted messages will be encrypted before they leave this browser.''
         else ''Ready: click the encrypted chat button to turn encrypted sending on for this browser.'')
      else if localDeviceSetupRequired cp s then
        (if truthy (js_get_opt (localDevice s) ''device_id'')
         then ''Registering this browser for encrypted chat. Encrypted sending will unlock automatically.''
         else ''Generating this browser'' @ [CHR 0x27] @ ''s encrypted chat keys. Encrypted sending will unlock automatically.'')
      else if e2eeStatus s = ''registering_device'' then
        ''Generating and registering this browser'' @ [CHR 0x27] @ ''s chat encryption keys...''
      else if e2eeStatus s = ''waiting_for_remote_keys'' then
        ''Waiting for the other side to register encryption keys. Ask them to open this chat, then try again.''
      else if e2eeStatus s = ''waiting_for_member_keys'' then waitingForMemberKeysMessage (memberIds s) (arr_items (chat_devices s))
      else if e2eeStatus s = ''too_many_devices'' then
        ''Encrypted chat is unavailable because this conversation has too many active devices.''
      else [])"

definition updateStatusMessage :: "chat_platform \<Rightarrow> ('s, unit) chat_io" where
  "updateStatusMessage cp = bind (reads (status_of_chat cp)) setE2EEStatusMessage"

definition refresh_view :: "chat_platform \<Rightarrow> ('s, unit) page_io" where
  "refresh_view cp = seqc (updateInputMode cp) (seqc (updateToggleState cp) (updateStatusMessage cp))"

section \<open>Preparing the key packages\<close>

definition prepare_packages :: "platform \<Rightarrow> chat_platform \<Rightarrow> int \<Rightarrow> ('s, unit) chat_io" where
  "prepare_packages p cp c =
     bind (reads chat_devices) (\<lambda>devices.
     seqc (ensureDevicesTrusted p cp devices)
     (bind (conversationKeyForDevices p cp c devices) (\<lambda>k.
      if \<not> ck_packagesNeeded k then
        update (\<lambda>s. s\<lparr>preparedConversationKey := Some \<lparr>pk_keyUid = ck_keyUid k, pk_hash = ck_hash k, pk_keyPackages = []\<rparr>\<rparr>)
      else bind (key_packages_for p cp devices k) (\<lambda>_. ret ()))))"

definition untrusted_or :: "string \<Rightarrow> js_error \<Rightarrow> string" where
  "untrusted_or message e = (if e = Error ''untrusted_device'' then untrustedDeviceMessage else message)"

definition prepareConversationKeyPackages :: "platform \<Rightarrow> chat_platform \<Rightarrow> ('s, unit) page_io" where
  "prepareConversationKeyPackages p cp =
     bind (reads (\<lambda>s. (e2eeReady cp s, conversationId s))) (\<lambda>(ready, c).
     if \<not> ready then ret ()
     else
       seqc
         (catch (prepare_packages p cp (the c))
           (\<lambda>e. let message = untrusted_or ''Could not prepare encrypted chat keys. Try turning encrypted chat off and on again.'' e in
             seqc (setE2EEStatusMessage message) (notifyE2EE message ''error'')))
       (seqc (update (\<lambda>s. s\<lparr>preparingDeviceCount := 0\<rparr>))
       (seqc (syncEncryptedSubmitButton cp)
         (updateStatusMessage cp))))"

definition maybePrepareEnabledConversationKey :: "platform \<Rightarrow> chat_platform \<Rightarrow> ('s, unit) page_io" where
  "maybePrepareEnabledConversationKey p cp =
     bind (reads (\<lambda>s. e2eeReady cp s \<and> preparedConversationKey s = None)) (\<lambda>go.
     if go then prepareConversationKeyPackages p cp else ret ())"

section \<open>The toggle\<close>

definition handleToggle :: "platform \<Rightarrow> chat_platform \<Rightarrow> ('s, unit) page_io" where
  "handleToggle p cp =
     bind (reads (\<lambda>s. (e2eeCapable cp s, e2eeEnabled s, chatE2EEUnavailableTitle (e2eeStatus s) (localDeviceSetupRequired cp s))))
       (\<lambda>(capable, enabled, title).
     if \<not> capable then seqc (updateStatusMessage cp) (notifyE2EE title ''warning'')
     else
       seqc (setE2EEEnabled (\<not> enabled))
       (seqc (refresh_view cp)
         (if \<not> enabled then prepareConversationKeyPackages p cp else ret ())))"

text \<open>
  An emoji put in at the selection; in encrypted mode the text stays on the page, and the server
  is only told to close the picker.
\<close>

definition handleEncryptedEmojiInsert :: "chat_platform \<Rightarrow> string \<Rightarrow> nat \<Rightarrow> nat \<Rightarrow> ('s, unit) page_io" where
  "handleEncryptedEmojiInsert cp emoji selStart selEnd =
     bind (reads message_text) (\<lambda>typed.
     case typed of
       None \<Rightarrow> ret ()
     | Some t \<Rightarrow>
         if emoji = [] then ret ()
         else
           seqc (update (\<lambda>s. s\<lparr>message_text := Some (take selStart t @ emoji @ drop selEnd t)\<rparr>))
           (seqc (syncEncryptedSubmitButton cp)
             (update (\<lambda>s. s\<lparr>chat_pushes := chat_pushes s @ [(''toggle_emoji_picker'', JObj [])]\<rparr>))))"

section \<open>Registering this browser's device\<close>

definition registration_payload :: "jsv \<Rightarrow> jsv" where
  "registration_payload device =
     JObj [(''device_id'', js_get_opt device ''device_id''),
           (''public_key'', JObj [(''version'', JNum 1), (''algorithm'', JStr ''RSA-OAEP-SHA256''), (''key'', js_get_opt device ''public_key'')]),
           (''key_algorithm'', JStr ''RSA-OAEP-SHA256''),
           (''fingerprint'', js_get_opt device ''fingerprint''),
           (''signing_public_key'', JObj [(''version'', JNum 1), (''algorithm'', JStr ''ECDSA-P256-SHA256''), (''key'', js_get_opt device ''signing_public_key'')]),
           (''device_signature'', JObj [(''version'', JNum 1), (''algorithm'', JStr ''ECDSA-P256-SHA256''), (''signature'', js_get_opt device ''device_signature'')]),
           (''label'', js_get_opt device ''label'')]"

definition register_device :: "platform \<Rightarrow> chat_platform \<Rightarrow> ('s, unit) page_io" where
  "register_device p cp =
     bind (loadOrCreateDevice p cp) (\<lambda>device.
     bind (push_reply cp ''register_chat_encryption_device'' (registration_payload device)) (\<lambda>reply.
     if truthy (js_get_opt reply ''ok'') then
       seqc (update (\<lambda>s. s\<lparr>lastDeviceRegistrationAt := clock s\<rparr>)) (updateStatusMessage cp)
     else
       let message = ''Could not register this browser for encrypted chat. Try refreshing the chat.'' in
       seqc (setE2EEStatusMessage message) (notifyE2EE message ''error'')))"

definition ensureDeviceRegistered :: "platform \<Rightarrow> chat_platform \<Rightarrow> ('s, unit) page_io" where
  "ensureDeviceRegistered p cp =
     bind (reads (\<lambda>s. (chat_userId s, clock s - lastDeviceRegistrationAt s))) (\<lambda>(u, age).
     if \<not> crypto_ok cp \<or> u = None \<or> age < 300000 then ret ()
     else
       catch (register_device p cp)
         (\<lambda>_. let message = ''Could not set up encrypted chat keys in this browser. Try refreshing the chat.'' in
           seqc (setE2EEStatusMessage message) (notifyE2EE message ''error'')))"

section \<open>Texts this page has sent\<close>

definition sentPlaintextCacheKey :: "jsv \<Rightarrow> string option" where
  "sentPlaintextCacheKey payload =
     (let uid = js_get_opt payload ''key_uid''; ciphertext = js_get_opt payload ''ciphertext'' in
      if \<not> truthy uid \<or> \<not> truthy ciphertext then None else Some (to_str uid @ '':'' @ to_str ciphertext))"

text \<open>\<^verbatim>\<open>Map.set\<close> keeps the place of a key that is there.\<close>

fun map_put :: "'k \<Rightarrow> 'v \<Rightarrow> ('k \<times> 'v) list \<Rightarrow> ('k \<times> 'v) list" where
  "map_put k v [] = [(k, v)]"
| "map_put k v ((k', v') # m) = (if k' = k then (k', v) # m else (k', v') # map_put k v m)"

definition map_drop :: "'k \<Rightarrow> ('k \<times> 'v) list \<Rightarrow> ('k \<times> 'v) list" where
  "map_drop k m = filter (\<lambda>(k', v'). k' \<noteq> k) m"

definition put_plaintext :: "string \<Rightarrow> string \<Rightarrow> (string \<times> string) list \<Rightarrow> (string \<times> string) list" where
  "put_plaintext key plaintext m =
     (let m' = map_put key plaintext m in if 50 < length m' then tl m' else m')"

definition cacheSentPlaintext :: "jsv \<Rightarrow> string \<Rightarrow> ('s, unit) chat_io" where
  "cacheSentPlaintext payload plaintext =
     (case sentPlaintextCacheKey payload of
        None \<Rightarrow> ret ()
      | Some key \<Rightarrow>
          if plaintext = [] then ret ()
          else update (\<lambda>s. s\<lparr>sentPlaintexts := put_plaintext key plaintext (sentPlaintexts s)\<rparr>))"

definition forgetSentPlaintext :: "jsv \<Rightarrow> ('s, unit) chat_io" where
  "forgetSentPlaintext payload =
     (case sentPlaintextCacheKey payload of
        None \<Rightarrow> ret ()
      | Some key \<Rightarrow> update (\<lambda>s. s\<lparr>sentPlaintexts := map_drop key (sentPlaintexts s)\<rparr>))"

definition sentPlaintextForPayload :: "jsv \<Rightarrow> 's chat_scheme \<Rightarrow> string option" where
  "sentPlaintextForPayload payload s =
     (case sentPlaintextCacheKey payload of None \<Rightarrow> None | Some key \<Rightarrow> map_of (sentPlaintexts s) key)"

section \<open>Sending\<close>

text \<open>Where the hook does not take the submission over, LiveView sends the form.\<close>

definition plain_submit :: "string \<Rightarrow> ('s, unit) page_io" where
  "plain_submit typed = update (\<lambda>s. s\<lparr>plain_submits := plain_submits s @ [typed]\<rparr>)"

definition send_problem :: "string \<Rightarrow> string \<Rightarrow> ('s, unit) page_io" where
  "send_problem message type =
     seqc (setE2EEStatusMessage message) (seqc (notifyE2EE message type) (set_submit False))"

definition push_message :: "encrypted_message \<Rightarrow> ('s, unit) page_io" where
  "push_message em =
     update (\<lambda>s. s\<lparr>chat_pushes := chat_pushes s @ [(''send_client_encrypted_message'', em_payload em)],
       pending_sends := (sends_made s, \<lparr>ps_message = em, ps_payload = js_get_opt (em_payload em) ''encrypted_payload''\<rparr>) # pending_sends s,
       sends_made := sends_made s + 1\<rparr>)"

definition send_encrypted :: "platform \<Rightarrow> chat_platform \<Rightarrow> int \<Rightarrow> string \<Rightarrow> ('s, unit) page_io" where
  "send_encrypted p cp c content =
     catch
       (seqc (setE2EEStatusMessage ''Encrypting and sending message...'')
       (bind (encryptMessage p cp c content) (\<lambda>em.
        seqc (cacheSentPlaintext (js_get_opt (em_payload em) ''encrypted_payload'') content)
          (push_message em))))
       (\<lambda>e. send_problem (untrusted_or
          ''Could not encrypt this message. Make sure everyone has opened this chat so their keys can register, then try again.'' e) ''error'')"

definition chat_handleSubmit :: "platform \<Rightarrow> chat_platform \<Rightarrow> ('s, unit) page_io" where
  "chat_handleSubmit p cp =
     bind (reads (\<lambda>s. (message_text s, e2eeReady cp s, has_uploads s, conversationId s))) (\<lambda>(typed, ready, uploads, c).
     case typed of
       None \<Rightarrow> ret ()
     | Some t \<Rightarrow>
         if \<not> ready then plain_submit t
         else
           let content = trim t in
           seqc (set_submit True)
             (if content = [] \<or> starts_with content ''/'' \<or> uploads
              then send_problem (encryptedSubmitBlockedMessage content uploads) ''warning''
              else send_encrypted p cp (the c) content))"

text \<open>The first of the server's reply and the timeout settles a send.\<close>

definition send_timeout :: "nat \<Rightarrow> ('s, unit) page_io" where
  "send_timeout i =
     bind (reads (\<lambda>s. map_of (pending_sends s) i)) (\<lambda>pending.
     case pending of
       None \<Rightarrow> ret ()
     | Some ps \<Rightarrow>
         seqc (update (\<lambda>s. s\<lparr>pending_sends := map_drop i (pending_sends s)\<rparr>))
         (seqc (forgetSentPlaintext (ps_payload ps))
           (send_problem ''Encrypted chat send timed out. Check your connection and try again.'' ''error'')))"

definition send_accepted :: "chat_platform \<Rightarrow> encrypted_message \<Rightarrow> ('s, unit) page_io" where
  "send_accepted cp em =
     seqc (case em_devicesHash em of None \<Rightarrow> ret () | Some hash \<Rightarrow> markPackagesSent cp (em_keyUid em) hash)
     (seqc (update (\<lambda>s. s\<lparr>message_text := map_option (\<lambda>_. []) (message_text s)\<rparr>))
     (seqc (syncEncryptedSubmitButton cp)
       (updateStatusMessage cp)))"

definition send_reply :: "chat_platform \<Rightarrow> nat \<Rightarrow> jsv \<Rightarrow> ('s, unit) page_io" where
  "send_reply cp i reply =
     bind (reads (\<lambda>s. map_of (pending_sends s) i)) (\<lambda>pending.
     case pending of
       None \<Rightarrow> ret ()
     | Some ps \<Rightarrow>
         seqc (update (\<lambda>s. s\<lparr>pending_sends := map_drop i (pending_sends s)\<rparr>))
           (if truthy (js_get_opt reply ''ok'') then send_accepted cp (ps_message ps)
            else
              seqc (forgetSentPlaintext (ps_payload ps))
                (send_problem (encryptedSendFailureMessage (js_get_opt reply ''error'')) ''error'')))"

section \<open>Searching and typing\<close>

definition pushTypingEvent :: "string \<Rightarrow> ('s, unit) page_io" where
  "pushTypingEvent v =
     bind (reads (\<lambda>s. (clock s, lastTypingAt s))) (\<lambda>(now, last).
     if trim v = [] \<or> now - last < 2000 then ret ()
     else update (\<lambda>s. s\<lparr>lastTypingAt := now, chat_pushes := chat_pushes s @ [(''chat_typing'', JObj [])]\<rparr>))"

definition known_key_tokens :: "chat_platform \<Rightarrow> int \<Rightarrow> string \<Rightarrow> jsv \<Rightarrow> ('s, string list) chat_io" where
  "known_key_tokens cp c query keyUid =
     bind (loadRawConversationKey cp c (to_str keyUid)) (\<lambda>raw.
     ret (case raw of None \<Rightarrow> [] | Some rawKeyBytes \<Rightarrow> searchTokensForKey cp rawKeyBytes query))"

definition searchTokensForKnownKeys :: "chat_platform \<Rightarrow> string \<Rightarrow> ('s, string list) chat_io" where
  "searchTokensForKnownKeys cp query =
     bind (reads conversationId) (\<lambda>c.
     case c of
       None \<Rightarrow> ret []
     | Some c \<Rightarrow>
         bind (reads (\<lambda>s. keyListStorageKey s c)) (\<lambda>listKey.
         bind (loadSecureJson cp listKey) (\<lambda>stored.
         bind (promise_all (map (known_key_tokens cp c query) (arr_items stored))) (\<lambda>tokenSets.
         ret (js_unique (concat tokenSets))))))"

text \<open>What the timer of \<^verbatim>\<open>scheduleEncryptedSearch\<close> does, 150 ms after the last change of the query.\<close>

definition encrypted_search :: "chat_platform \<Rightarrow> string \<Rightarrow> ('s, unit) chat_io" where
  "encrypted_search cp query =
     bind (reads conversationId) (\<lambda>c.
     if c = None \<or> length (trim query) < 2 then ret ()
     else
       bind (searchTokensForKnownKeys cp query) (\<lambda>tokens.
       if tokens = [] then ret ()
       else update (\<lambda>s. s\<lparr>chat_pushes := chat_pushes s @
         [(''search_messages'', JObj [(''query'', JStr query), (''search_tokens'', JArr (map JStr tokens))])]\<rparr>)))"

section \<open>Messages on the page\<close>

definition message_conversation :: "message_element \<Rightarrow> 's chat_scheme \<Rightarrow> int option" where
  "message_conversation el s =
     (let own = (case me_conversationId el of
          Some v \<Rightarrow> if v = [] then conversationId s else js_number (JStr v)
        | None \<Rightarrow> conversationId s) in
      if own = Some 0 then None else own)"

definition show_message :: "string \<Rightarrow> string option \<Rightarrow> message_element \<Rightarrow> message_element" where
  "show_message text decrypted el = el\<lparr>me_text := text, me_decrypted := decrypted, me_shown := True\<rparr>"

definition decryptMessageElement :: "platform \<Rightarrow> chat_platform \<Rightarrow> message_element \<Rightarrow> ('s, message_element) chat_io" where
  "decryptMessageElement p cp el =
     (let payload = chat_parseJson (me_payload el) JNull;
          uid = js_or (js_get_opt payload ''key_uid'') (case me_keyUid el of None \<Rightarrow> JUndef | Some k \<Rightarrow> JStr k) in
      bind (reads (\<lambda>s. (message_conversation el s, sentPlaintextForPayload payload s))) (\<lambda>(conversation, sent).
      case sent of
        Some text \<Rightarrow> ret (show_message text (Some ''true'') el)
      | None \<Rightarrow>
          (case conversation of
             None \<Rightarrow> ret (el\<lparr>me_shown := True\<rparr>)
           | Some c \<Rightarrow>
               if \<not> truthy payload \<or> \<not> truthy uid then ret (el\<lparr>me_shown := True\<rparr>)
               else
                 catch
                   (bind (rawConversationKey p cp c (to_str uid) payload) (\<lambda>rawKeyBytes.
                    bind (lift (open_payload p rawKeyBytes payload)) (\<lambda>text.
                    ret (show_message text (Some ''true'') el))))
                   (\<lambda>_. ret (show_message ''Encrypted message'' (Some ''failed'') el)))))"

fun decrypt_elements :: "platform \<Rightarrow> chat_platform \<Rightarrow> message_element list \<Rightarrow> ('s, message_element list) chat_io" where
  "decrypt_elements p cp [] = ret []"
| "decrypt_elements p cp (el # els) =
     bind (if me_decrypted el = Some ''true'' \<or> me_decrypted el = Some ''failed'' then ret el else decryptMessageElement p cp el) (\<lambda>el'.
     bind (decrypt_elements p cp els) (\<lambda>els'. ret (el' # els')))"

definition decryptVisibleMessages :: "platform \<Rightarrow> chat_platform \<Rightarrow> ('s, unit) page_io" where
  "decryptVisibleMessages p cp =
     bind (reads (\<lambda>s. (conversationId s, message_elements s))) (\<lambda>(c, els).
     if \<not> crypto_ok cp \<or> c = None then ret ()
     else bind (decrypt_elements p cp els) (\<lambda>els'. update (\<lambda>s. s\<lparr>message_elements := els'\<rparr>)))"

section \<open>The life of the hook\<close>

definition resetConversationKeyCacheIfChanged :: "('s, unit) page_io" where
  "resetConversationKeyCacheIfChanged =
     update (\<lambda>s. if currentConversationId s = conversationId s then s
       else s\<lparr>currentConversationId := conversationId s, preparedConversationKey := None, preparingDeviceCount := 0\<rparr>)"

text \<open>
  A new hook object starts without the raw keys an earlier one cached.
  The registration of the device, the animation frames after which the view is drawn again and
  the decryption of messages run on their own; they are events below.
\<close>

definition chat_mounted :: "platform \<Rightarrow> chat_platform \<Rightarrow> ('s, unit) page_io" where
  "chat_mounted p cp =
     seqc (update (\<lambda>s. s\<lparr>lastTypingAt := 0, lastDeviceRegistrationAt := 0, unavailableConversationKeys := {}, sentPlaintexts := [],
        preparedConversationKey := None, preparingDeviceCount := 0, cachedDevice := None, rawConversationKeyCache := (\<lambda>_. None), currentConversationId := conversationId s\<rparr>))
     (seqc (refresh_view cp)
       (maybePrepareEnabledConversationKey p cp))"

definition chat_updated :: "platform \<Rightarrow> chat_platform \<Rightarrow> ('s, unit) page_io" where
  "chat_updated p cp =
     seqc resetConversationKeyCacheIfChanged (seqc (refresh_view cp) (maybePrepareEnabledConversationKey p cp))"

datatype chat_event =
    Mounted
  | Patched "string \<rightharpoonup> string" "message_element list"
  | DeviceRegistration
  | AnimationFrames
  | MessagesChanged
  | Typed string
  | ToggleClicked
  | EmojiClicked string nat nat
  | Submitted
  | SendReplied nat jsv
  | SendTimedOut nat
  | PlaintextExpired string
  | SearchTimer string
  | TypingNoted string
  | TimePassed nat

fun chat_handler :: "platform \<Rightarrow> chat_platform \<Rightarrow> chat_event \<Rightarrow> ('s, unit) page_io" where
  "chat_handler p cp Mounted = chat_mounted p cp"
| "chat_handler p cp (Patched data els) =
     seqc (update (\<lambda>s. s\<lparr>chat_data := data, message_elements := els\<rparr>)) (chat_updated p cp)"
| "chat_handler p cp DeviceRegistration = ensureDeviceRegistered p cp"
| "chat_handler p cp AnimationFrames = refresh_view cp"
| "chat_handler p cp MessagesChanged = decryptVisibleMessages p cp"
| "chat_handler p cp (Typed v) =
     seqc (update (\<lambda>s. s\<lparr>message_text := map_option (\<lambda>_. v) (message_text s)\<rparr>)) (syncEncryptedSubmitButton cp)"
| "chat_handler p cp ToggleClicked = handleToggle p cp"
| "chat_handler p cp (EmojiClicked emoji i j) =
     bind (reads (e2eeReady cp)) (\<lambda>ready. if ready then handleEncryptedEmojiInsert cp emoji i j else ret ())"
| "chat_handler p cp Submitted = chat_handleSubmit p cp"
| "chat_handler p cp (SendReplied i reply) = send_reply cp i reply"
| "chat_handler p cp (SendTimedOut i) = send_timeout i"
| "chat_handler p cp (PlaintextExpired key) = update (\<lambda>s. s\<lparr>sentPlaintexts := map_drop key (sentPlaintexts s)\<rparr>)"
| "chat_handler p cp (SearchTimer query) = encrypted_search cp query"
| "chat_handler p cp (TypingNoted v) = pushTypingEvent v"
| "chat_handler p cp (TimePassed ms) = update (\<lambda>s. s\<lparr>clock := clock s + int ms\<rparr>)"

fun chat_run :: "platform \<Rightarrow> chat_platform \<Rightarrow> chat_event list \<Rightarrow> 's chat_page_scheme \<Rightarrow> 's chat_page_scheme" where
  "chat_run p cp [] s = s"
| "chat_run p cp (ev # evs) s = chat_run p cp evs (snd (chat_handler p cp ev s))"

end
