(* ===== verification/ChatProps.thy ===== *)
theory ChatProps
  imports ChatHook
begin

text \<open>
  What the encrypted chat keeps: a ready chat sends no text as it was typed, the fingerprint of a
  device stays the one that was seen first, and the page remembers at most fifty texts it sent.
\<close>

section \<open>What the keys' operations leave alone\<close>

lemma idb_access_run [run_simps]:
  "idb_access cp f s =
     (case idb_fault cp (idb_ops s) of
        Some e \<Rightarrow> (Inl e, s\<lparr>idb_ops := idb_ops s + 1\<rparr>)
      | None \<Rightarrow> (case f (s\<lparr>idb_ops := idb_ops s + 1\<rparr>) of (x, t) \<Rightarrow> (Inr x, t)))"
  by (simp add: idb_access_def run_simps split: option.split prod.split)

lemma secure_runs [run_simps]:
  "secureStorageGet cp key s =
     (case idb_fault cp (idb_ops s) of
        Some e \<Rightarrow> (Inl e, s\<lparr>idb_ops := idb_ops s + 1\<rparr>)
      | None \<Rightarrow> (Inr (case idb s key of None \<Rightarrow> JNull | Some v \<Rightarrow> v), s\<lparr>idb_ops := idb_ops s + 1\<rparr>))"
  "secureStorageSet cp key v s =
     (case idb_fault cp (idb_ops s) of
        Some e \<Rightarrow> (Inl e, s\<lparr>idb_ops := idb_ops s + 1\<rparr>)
      | None \<Rightarrow> (Inr (), s\<lparr>idb_ops := idb_ops s + 1, idb := (idb s)(key \<mapsto> v)\<rparr>))"
  "secureStorageDelete cp key s =
     (case idb_fault cp (idb_ops s) of
        Some e \<Rightarrow> (Inl e, s\<lparr>idb_ops := idb_ops s + 1\<rparr>)
      | None \<Rightarrow> (Inr (), s\<lparr>idb_ops := idb_ops s + 1, idb := (idb s)(key := None)\<rparr>))"
  by (simp_all add: secureStorageGet_def secureStorageSet_def secureStorageDelete_def run_simps split: option.split)

lemma draw_run [run_simps]: "draw f s = (Inr (f (random_used s)), s\<lparr>random_used := random_used s + 1\<rparr>)"
  by (simp add: draw_def run_simps)

text \<open>
  \<open>pinned k fp\<close>: the record of trust under \<open>k\<close> names the fingerprint \<open>fp\<close>.
\<close>

definition calm_store :: "chat_platform \<Rightarrow> bool" where
  "calm_store cp \<longleftrightarrow> (\<forall>n. idb_fault cp n = None)"

definition trust_key :: "string \<Rightarrow> bool" where
  "trust_key k \<longleftrightarrow> (\<exists>rest. k = CHAT_E2EE_STORAGE_PREFIX @ '':trust:'' @ rest)"

definition pinned :: "string \<Rightarrow> jsv \<Rightarrow> 's chat_scheme \<Rightarrow> bool" where
  "pinned k fp s \<longleftrightarrow> (\<exists>v. idb s k = Some v \<and> js_get_opt v ''fingerprint'' = fp)"

definition page_frame :: "'s chat_page_scheme \<Rightarrow> string list \<times> (string \<times> string) list" where
  "page_frame s = (plain_submits s, sentPlaintexts s)"

text \<open>What the operations on keys maintain, whatever the storage does.\<close>

definition undisturbed :: "chat_platform \<Rightarrow> string \<Rightarrow> jsv \<Rightarrow> string list \<times> (string \<times> string) list \<Rightarrow> 's chat_page_scheme \<Rightarrow> bool" where
  "undisturbed cp k fp c s \<longleftrightarrow>
     (calm_store cp \<and> trust_key k \<and> truthy fp \<longrightarrow> pinned k fp s) \<and> page_frame s = c"

lemma maintains_promise_all [maintains_intros]: "(\<And>m. m \<in> set ms \<Longrightarrow> maintains P m) \<Longrightarrow> maintains P (promise_all ms)"
proof (induction ms)
  case Nil
  then show ?case by (simp add: maintains_ret)
next
  case (Cons m ms)
  then have m: "maintains P m" and ms: "maintains P (promise_all ms)" by simp_all
  show ?case
  proof (rule maintainsI)
    fix s r t
    assume "P s" and run: "promise_all (m # ms) s = (r, t)"
    obtain r1 s1 where 1: "m s = (r1, s1)" by (cases "m s")
    obtain r2 s2 where 2: "promise_all ms s1 = (r2, s2)" by (cases "promise_all ms s1")
    have "P s2" by (rule maintainsD [OF ms maintainsD [OF m \<open>P s\<close> 1] 2])
    then show "P t" using run 1 2 by simp
  qed
qed

lemma maintains_pair [maintains_intros]: "(\<And>a b. maintains P (m a b)) \<Longrightarrow> maintains P (case x of (a, b) \<Rightarrow> m a b)"
  by (cases x) simp

lemma maintains_bind_reads: "(\<And>s0. maintains P (n (g s0))) \<Longrightarrow> maintains P (bind (reads g) n)"
  by (simp add: maintains_def bind_run reads_run)

lemma maintains_bind_reads2:
  "(\<And>s0. maintains P (n (g s0) (h s0))) \<Longrightarrow> maintains P (bind (reads (\<lambda>s. (g s, h s))) (\<lambda>(a, b). n a b))"
  by (simp add: maintains_def bind_run reads_run)

lemma key_kinds:
  "trust_key k \<Longrightarrow> user_prefix s @ rest \<noteq> k" "\<not> trust_key (user_prefix s @ rest)" "trust_key (deviceTrustStorageKey d)"
  by (auto simp: trust_key_def user_prefix_def deviceTrustStorageKey_def Let_def)

lemmas user_keys = deviceStorageKey_def rawKeyStorageKey_def activeKeyStorageKey_def keyListStorageKey_def

lemma undisturbed_leaf [maintains_intros]:
  "maintains (undisturbed cp k fp c) (secureStorageGet cp key)" "maintains (undisturbed cp k fp c) (local_remove key)"
  "maintains (undisturbed cp k fp c) (draw g)" "maintains (undisturbed cp k fp c) (random_bytes p n)"
  "maintains (undisturbed cp k fp c) (cache_raw_key ck b)" "maintains (undisturbed cp k fp c) (push_reply cp ev pl)"
  "maintains (undisturbed cp k fp c) (setE2EEStatusMessage m)" "maintains (undisturbed cp k fp c) (notifyE2EE m ty)"
  "maintains (undisturbed cp k fp c) (set_submit b')"
  by (simp_all add: maintains_def undisturbed_def pinned_def page_frame_def run_simps local_remove_def cache_raw_key_def push_reply_def
      setE2EEStatusMessage_def notifyE2EE_def set_submit_def split: option.split)

lemma undisturbed_set:
  "\<not> trust_key key \<Longrightarrow> maintains (undisturbed cp k fp c) (secureStorageSet cp key v)"
  "\<not> trust_key key \<Longrightarrow> maintains (undisturbed cp k fp c) (secureStorageDelete cp key)"
  by (auto simp: maintains_def undisturbed_def pinned_def page_frame_def run_simps split: option.split)

lemma truthy_member: "truthy (js_get_opt v key) \<Longrightarrow> truthy v"
  by (cases v) simp_all

lemma calm_runs:
  assumes "calm_store cp"
  shows "secureStorageGet cp key s = (Inr (case idb s key of None \<Rightarrow> JNull | Some v \<Rightarrow> v), s\<lparr>idb_ops := idb_ops s + 1\<rparr>)"
    "secureStorageSet cp key v s = (Inr (), s\<lparr>idb_ops := idb_ops s + 1, idb := (idb s)(key \<mapsto> v)\<rparr>)"
    "secureStorageDelete cp key s = (Inr (), s\<lparr>idb_ops := idb_ops s + 1, idb := (idb s)(key := None)\<rparr>)"
  using assms by (simp_all add: secure_runs calm_store_def)

text \<open>Loading: the record of IndexedDB, or what is moved over from \<^verbatim>\<open>localStorage\<close>.\<close>

definition loaded :: "string \<Rightarrow> 's vault_store_scheme \<Rightarrow> jsv" where
  "loaded key s =
     (let v = (case idb s key of None \<Rightarrow> JNull | Some v \<Rightarrow> v) in
      if truthy v then v else chat_parseJson (local_items s key) JNull)"

definition after_load :: "string \<Rightarrow> 's vault_store_scheme \<Rightarrow> 's vault_store_scheme" where
  "after_load key s =
     (if truthy (case idb s key of None \<Rightarrow> JNull | Some v \<Rightarrow> v) \<or> \<not> truthy (chat_parseJson (local_items s key) JNull)
      then s\<lparr>idb_ops := idb_ops s + 1\<rparr>
      else s\<lparr>idb_ops := idb_ops s + 2, idb := (idb s)(key \<mapsto> chat_parseJson (local_items s key) JNull),
             local_items := (local_items s)(key := None)\<rparr>)"

lemma load_run:
  assumes "calm_store cp"
  shows "loadSecureJson cp key s = (Inr (loaded key s), after_load key s)"
proof -
  let ?v = "case idb s key of None \<Rightarrow> JNull | Some v \<Rightarrow> v" and ?j = "chat_parseJson (local_items s key) JNull"
  show ?thesis
    by (cases "truthy ?v"; cases "truthy ?j")
      (simp_all add: loadSecureJson_def bind_run catch_run seqc_run reads_run ret_run calm_runs [OF assms] local_remove_def update_run
        loaded_def after_load_def Let_def)
qed

lemma frame_load: "keeps page_frame (loadSecureJson cp key)"
  unfolding loadSecureJson_def
  by (intro keeps_intros) (auto simp: keeps_def page_frame_def run_simps local_remove_def split: option.split)

lemma undisturbed_load [maintains_intros]: "maintains (undisturbed cp k fp c) (loadSecureJson cp key)"
proof (rule maintainsI)
  fix s r t
  assume u: "undisturbed cp k fp c s" and run: "loadSecureJson cp key s = (r, t)"
  have "page_frame t = c" using keepsD [OF frame_load run] u by (simp add: undisturbed_def)
  moreover have "pinned k fp t" if "calm_store cp" "trust_key k" "truthy fp"
  proof -
    from u that obtain v where v: "idb s k = Some v" "js_get_opt v ''fingerprint'' = fp" by (auto simp: undisturbed_def pinned_def)
    then have "truthy v" using that(3) truthy_member by blast
    then have "idb (after_load key s) k = Some v" using v by (auto simp: after_load_def)
    then show ?thesis using run load_run [OF that(1), of key s] v(2) by (simp add: pinned_def)
  qed
  ultimately show "undisturbed cp k fp c t" by (simp add: undisturbed_def)
qed

lemma undisturbed_device [maintains_intros]:
  "maintains (undisturbed cp k fp c) (randomId p cp pre)" "maintains (undisturbed cp k fp c) (signDeviceFingerprint cp d fp')"
  "maintains (undisturbed cp k fp c) (store_device cp d)"
  unfolding randomId_def signDeviceFingerprint_def store_device_def user_keys
  by (intro maintains_bind_reads maintains_intros undisturbed_set key_kinds)+

lemma undisturbed_migrate [maintains_intros]: "maintains (undisturbed cp k fp c) (migrateDevicePrivateKeys cp d)"
  unfolding migrateDevicePrivateKeys_def by (intro maintains_intros)

lemma undisturbed_upgrade [maintains_intros]: "maintains (undisturbed cp k fp c) (upgradeDeviceTrustMaterial cp d)"
  unfolding upgradeDeviceTrustMaterial_def by (intro maintains_intros)

lemma undisturbed_cached [maintains_intros]: "maintains (undisturbed cp k fp c) (update (\<lambda>s. s\<lparr>cachedDevice := d\<rparr>))"
  by (rule maintains_update) (simp add: undisturbed_def pinned_def page_frame_def)

lemma undisturbed_own_device [maintains_intros]: "maintains (undisturbed cp k fp c) (loadOrCreateDevice p cp)"
  unfolding loadOrCreateDevice_def deviceStorageKey_def
  by (intro maintains_bind_reads maintains_intros undisturbed_set key_kinds)

lemma trusted_record:
  assumes "calm_store cp" "pinned k fp s" "truthy fp" "k = deviceTrustStorageKey d" "ensureDeviceTrusted p cp d s = (r, t)"
  shows "pinned k fp t \<and> (r = Inr () \<longrightarrow> verifiedDeviceFingerprint cp d = Inr (str_of fp) \<and> fp = JStr (str_of fp))"
proof -
  from assms(2) obtain v where v: "idb s k = Some v" "js_get_opt v ''fingerprint'' = fp" by (auto simp: pinned_def)
  then have tv: "truthy v" using assms(3) truthy_member by blast
  have l: "loaded k s = v" "after_load k s = s\<lparr>idb_ops := idb_ops s + 1\<rparr>"
    using v tv by (simp_all add: loaded_def after_load_def Let_def)
  show ?thesis
  proof (cases "verifiedDeviceFingerprint cp d")
    case (Inl e)
    with assms show ?thesis by (auto simp: ensureDeviceTrusted_def bind_run lift_run)
  next
    case (Inr f)
    have l1: "loadSecureJson cp (deviceTrustStorageKey d) s = (Inr v, s\<lparr>idb_ops := idb_ops s + 1\<rparr>)"
      using load_run [OF assms(1), of k s] l assms(4) by simp
    have "ensureDeviceTrusted p cp d s =
        (if fp \<noteq> JStr f then Inl (Error ''untrusted_device'') else Inr (), s\<lparr>idb_ops := idb_ops s + 1\<rparr>)"
      using assms(3)
      by (cases "fp = JStr f") (simp_all add: ensureDeviceTrusted_def bind_run lift_run Inr l1 v(2) Let_def raise_run ret_run)
    then show ?thesis using assms(5) v Inr by (auto simp: pinned_def split: if_splits)
  qed
qed

lemma frame_trusted: "keeps page_frame (ensureDeviceTrusted p cp d)"
  unfolding ensureDeviceTrusted_def
  by (intro keeps_intros frame_load) (auto simp: keeps_def page_frame_def run_simps local_remove_def split: option.split)

lemma undisturbed_load_at: "undisturbed cp k fp c s \<Longrightarrow> loadSecureJson cp key s = (r, t) \<Longrightarrow> undisturbed cp k fp c t"
  by (rule maintainsD [OF undisturbed_load])

lemma other_record:
  assumes "k \<noteq> deviceTrustStorageKey d" "calm_store cp" "pinned k fp s" "ensureDeviceTrusted p cp d s = (r, t)"
  shows "pinned k fp t"
proof (cases "verifiedDeviceFingerprint cp d")
  case (Inl e)
  with assms(3,4) show ?thesis by (auto simp: ensureDeviceTrusted_def bind_run lift_run)
next
  case (Inr f)
  let ?k = "deviceTrustStorageKey d"
  have p: "pinned k fp (after_load ?k s)" using assms(1,3) by (auto simp: pinned_def after_load_def)
  then have "pinned k fp ((after_load ?k s)\<lparr>idb_ops := n, idb := (idb (after_load ?k s))(?k \<mapsto> v), local_items := l\<rparr>)" for n v l
    using assms(1) by (simp add: pinned_def)
  with p show ?thesis
    using assms(4) Inr load_run [OF assms(2), of ?k s]
    by (auto simp: ensureDeviceTrusted_def bind_run lift_run Let_def raise_run ret_run reads_run seqc_run calm_runs [OF assms(2)] local_remove_def
        update_run split: if_splits)
qed

lemma undisturbed_trusted [maintains_intros]: "maintains (undisturbed cp k fp c) (ensureDeviceTrusted p cp d)"
proof (rule maintainsI)
  fix s r t
  assume u: "undisturbed cp k fp c s" and run: "ensureDeviceTrusted p cp d s = (r, t)"
  have "page_frame t = c" using keepsD [OF frame_trusted run] u by (simp add: undisturbed_def)
  moreover have "pinned k fp t" if "calm_store cp" "trust_key k" "truthy fp"
  proof -
    have p: "pinned k fp s" using u that by (simp add: undisturbed_def)
    show ?thesis
      using trusted_record [OF that(1) p that(3) _ run] other_record [OF _ that(1) p run] by (cases "k = deviceTrustStorageKey d") blast+
  qed
  ultimately show "undisturbed cp k fp c t" by (simp add: undisturbed_def)
qed

lemma undisturbed_trust_all [maintains_intros]: "maintains (undisturbed cp k fp c) (ensureDevicesTrusted p cp ds)"
  unfolding ensureDevicesTrusted_def by (intro maintains_intros) (auto intro: undisturbed_trusted)

lemma undisturbed_raw [maintains_intros]:
  "maintains (undisturbed cp k fp c) (loadRawConversationKey cp i uid)" "maintains (undisturbed cp k fp c) (storeRawConversationKey cp i uid b)"
  "maintains (undisturbed cp k fp c) (storeActiveConversationKey cp i uid h ph)"
  unfolding loadRawConversationKey_def storeRawConversationKey_def storeActiveConversationKey_def user_keys
  by (intro maintains_bind_reads2 maintains_bind_reads maintains_intros undisturbed_set key_kinds)+

lemma undisturbed_mark [maintains_intros]: "maintains (undisturbed cp k fp c) (markPackagesSent cp uid h)"
  unfolding markPackagesSent_def by (intro maintains_intros)

lemma undisturbed_conversation [maintains_intros]:
  "maintains (undisturbed cp k fp c) (new_conversation_key p cp i h)"
  "maintains (undisturbed cp k fp c) (conversationKeyForDevices p cp i ds)"
  unfolding conversationKeyForDevices_def new_conversation_key_def by (intro maintains_intros)+

lemma undisturbed_prepared:
  "maintains (undisturbed cp k fp c) (update (\<lambda>s. s\<lparr>preparedConversationKey := pk\<rparr>))"
  "maintains (undisturbed cp k fp c) (update (\<lambda>s. s\<lparr>preparingDeviceCount := n\<rparr>))"
  "maintains (undisturbed cp k fp c) (update (\<lambda>s. s\<lparr>preparingDeviceCount := n, e2ee_status := m\<rparr>))"
  "maintains (undisturbed cp k fp c) (update (\<lambda>s. s\<lparr>unavailableConversationKeys := insert x (unavailableConversationKeys s)\<rparr>))"
  by (rule maintains_update; simp add: undisturbed_def pinned_def page_frame_def)+

lemma undisturbed_wrap [maintains_intros]:
  "maintains (undisturbed cp k fp c) (wrapConversationKey p cp b ds)" 
  unfolding wrapConversationKey_def
  by (intro maintains_intros) (auto simp: wrap_for_device_def intro!: maintains_intros)

lemma undisturbed_packages [maintains_intros]: "maintains (undisturbed cp k fp c) (key_packages_for p cp ds ck)"
  unfolding key_packages_for_def make_packages_def
  by (intro maintains_intros maintains_finally undisturbed_prepared) (simp_all add: undisturbed_def pinned_def page_frame_def)

lemma undisturbed_encrypt [maintains_intros]: "maintains (undisturbed cp k fp c) (encryptMessage p cp i content)"
  unfolding encryptMessage_def by (intro maintains_intros)

lemma undisturbed_fetch [maintains_intros]:
  "maintains (undisturbed cp k fp c) (fetch_conversation_key p cp i uid d)"
  unfolding fetch_conversation_key_def by (intro maintains_intros)

lemma undisturbed_receive [maintains_intros]:
  "maintains (undisturbed cp k fp c) (request_conversation_key p cp i uid pl)" "maintains (undisturbed cp k fp c) (rawConversationKey p cp i uid pl)"
  unfolding rawConversationKey_def request_conversation_key_def by (intro maintains_intros undisturbed_prepared)+

lemma undisturbed_elements [maintains_intros]:
  "maintains (undisturbed cp k fp c) (decryptMessageElement p cp el)" "maintains (undisturbed cp k fp c) (decrypt_elements p cp els)"
proof -
  show *: "maintains (undisturbed cp k fp c) (decryptMessageElement p cp el)" for el
    unfolding decryptMessageElement_def by (intro maintains_intros)
  show "maintains (undisturbed cp k fp c) (decrypt_elements p cp els)"
    by (induction els) (auto intro!: maintains_intros *)
qed

lemma undisturbed_search [maintains_intros]: "maintains (undisturbed cp k fp c) (searchTokensForKnownKeys cp q)"
  unfolding searchTokensForKnownKeys_def
  by (intro maintains_intros) (auto simp: known_key_tokens_def intro!: maintains_intros)

section \<open>What the handlers leave alone\<close>

lemma undisturbed_update:
  "(\<And>s. idb (f s) = idb s) \<Longrightarrow> (\<And>s. page_frame (f s) = page_frame s) \<Longrightarrow> maintains (undisturbed cp k fp c) (update f)"
  by (simp add: maintains_def update_run undisturbed_def pinned_def)

lemma undisturbed_view [maintains_intros]:
  "maintains (undisturbed cp k fp c) (syncEncryptedSubmitButton cp')" "maintains (undisturbed cp k fp c) (updateInputMode cp')"
  "maintains (undisturbed cp k fp c) (updateToggleState cp')" "maintains (undisturbed cp k fp c) (updateStatusMessage cp')"
  "maintains (undisturbed cp k fp c) (refresh_view cp')"
  unfolding refresh_view_def syncEncryptedSubmitButton_def updateInputMode_def updateToggleState_def updateStatusMessage_def
  by (intro maintains_intros undisturbed_update; simp add: page_frame_def)+

lemma undisturbed_enabled [maintains_intros]: "maintains (undisturbed cp k fp c) (setE2EEEnabled b)"
  unfolding setE2EEEnabled_def by (intro maintains_intros undisturbed_update) (simp_all add: page_frame_def)

lemma undisturbed_prepare [maintains_intros]:
  "maintains (undisturbed cp k fp c) (prepare_packages p cp i)" "maintains (undisturbed cp k fp c) (prepareConversationKeyPackages p cp)"
  "maintains (undisturbed cp k fp c) (maybePrepareEnabledConversationKey p cp)"
  unfolding maybePrepareEnabledConversationKey_def prepareConversationKeyPackages_def prepare_packages_def
  by (intro maintains_intros undisturbed_update; simp add: page_frame_def)+

lemma undisturbed_toggle [maintains_intros]:
  "maintains (undisturbed cp k fp c) (handleToggle p cp)" "maintains (undisturbed cp k fp c) (handleEncryptedEmojiInsert cp e i j)"
  unfolding handleToggle_def handleEncryptedEmojiInsert_def
  by (intro maintains_intros undisturbed_update; simp add: page_frame_def)+

lemma undisturbed_register [maintains_intros]:
  "maintains (undisturbed cp k fp c) (register_device p cp)" "maintains (undisturbed cp k fp c) (ensureDeviceRegistered p cp)"
  unfolding ensureDeviceRegistered_def register_device_def
  by (intro maintains_intros undisturbed_update; simp add: page_frame_def)+

lemma undisturbed_searching [maintains_intros]:
  "maintains (undisturbed cp k fp c) (encrypted_search cp q)" "maintains (undisturbed cp k fp c) (pushTypingEvent v)"
  unfolding encrypted_search_def pushTypingEvent_def
  by (intro maintains_intros undisturbed_update; simp add: page_frame_def)+

lemma undisturbed_visible [maintains_intros]: "maintains (undisturbed cp k fp c) (decryptVisibleMessages p cp)"
  unfolding decryptVisibleMessages_def by (intro maintains_intros undisturbed_update) (simp_all add: page_frame_def)

lemma undisturbed_updated [maintains_intros]: "maintains (undisturbed cp k fp c) (chat_updated p cp)"
  unfolding chat_updated_def resetConversationKeyCacheIfChanged_def
  by (intro maintains_intros undisturbed_update) (simp_all add: page_frame_def)

lemma undisturbed_marking [maintains_intros]: "maintains (undisturbed cp k fp c) (send_accepted cp em)"
  unfolding send_accepted_def by (intro maintains_intros undisturbed_update) (simp_all add: page_frame_def)

lemma undisturbed_push [maintains_intros]:
  "maintains (undisturbed cp k fp c) (push_message em)" "maintains (undisturbed cp k fp c) (send_problem m ty)"
  unfolding push_message_def send_problem_def by (intro maintains_intros undisturbed_update; simp add: page_frame_def)+

section \<open>Pins and the memory of sent texts\<close>

definition chat_kept :: "chat_platform \<Rightarrow> string \<Rightarrow> jsv \<Rightarrow> 's chat_page_scheme \<Rightarrow> bool" where
  "chat_kept cp k fp s \<longleftrightarrow>
     (calm_store cp \<and> trust_key k \<and> truthy fp \<longrightarrow> pinned k fp s) \<and> length (sentPlaintexts s) \<le> 50"

lemma kept_undisturbed: "(\<And>c. maintains (undisturbed cp k fp c) m) \<Longrightarrow> maintains (chat_kept cp k fp) m"
proof (rule maintainsI)
  fix s r t
  assume u: "\<And>c. maintains (undisturbed cp k fp c) m" and "chat_kept cp k fp s" "m s = (r, t)"
  moreover from this have "undisturbed cp k fp (page_frame s) s" by (simp add: undisturbed_def chat_kept_def)
  ultimately have "undisturbed cp k fp (page_frame s) t" by (blast dest: maintainsD [OF u])
  then show "chat_kept cp k fp t" using \<open>chat_kept cp k fp s\<close> by (simp add: undisturbed_def chat_kept_def page_frame_def)
qed

lemma frame_undisturbed: "(\<And>c. maintains (undisturbed cp [] JNull c) m) \<Longrightarrow> keeps page_frame m"
proof (rule keepsI)
  fix s r t
  assume u: "\<And>c. maintains (undisturbed cp [] JNull c) m" and run: "m s = (r, t)"
  have "undisturbed cp [] JNull (page_frame s) s" by (simp add: undisturbed_def)
  then show "page_frame t = page_frame s" using maintainsD [OF u _ run] by (simp add: undisturbed_def)
qed

lemma kept_update:
  "(\<And>s. idb (f s) = idb s) \<Longrightarrow> (\<And>s. length (sentPlaintexts s) \<le> 50 \<Longrightarrow> length (sentPlaintexts (f s)) \<le> 50) \<Longrightarrow>
   maintains (chat_kept cp k fp) (update f)"
  by (simp add: maintains_def update_run chat_kept_def pinned_def)

lemma map_put_length: "length (map_put k v m) \<le> Suc (length m)"
  by (induction k v m rule: map_put.induct) auto

lemma put_plaintext_length: "length m \<le> 50 \<Longrightarrow> length (put_plaintext k v m) \<le> 50"
  using map_put_length [of k v m] by (auto simp: put_plaintext_def Let_def)

lemma map_drop_length: "length m \<le> n \<Longrightarrow> length (map_drop k m) \<le> n"
  unfolding map_drop_def by (rule order_trans [OF length_filter_le])

lemma kept_sent [maintains_intros]:
  "maintains (chat_kept cp k fp) (cacheSentPlaintext pl content)" "maintains (chat_kept cp k fp) (forgetSentPlaintext pl)"
  unfolding cacheSentPlaintext_def forgetSentPlaintext_def
  by (intro maintains_intros kept_update; simp add: put_plaintext_length map_drop_length)+

lemma kept_send: "maintains (chat_kept cp k fp) (send_encrypted p cp i content)"
  unfolding send_encrypted_def
  by (intro maintains_catch maintains_seqc maintains_bind kept_sent; rule kept_undisturbed; intro maintains_intros)

lemma kept_submit: "maintains (chat_kept cp k fp) (chat_handleSubmit p cp)"
proof -
  have *: "maintains (chat_kept cp k fp) (set_submit b)" "maintains (chat_kept cp k fp) (send_problem m ty)"
    "maintains (chat_kept cp k fp) (plain_submit x)" for b m ty x
    by (rule kept_undisturbed; intro maintains_intros)+ (simp add: plain_submit_def kept_update)
  show ?thesis unfolding chat_handleSubmit_def by (intro maintains_intros * kept_send)
qed

lemma kept_settled:
  "maintains (chat_kept cp k fp) (send_timeout i)" "maintains (chat_kept cp k fp) (send_reply cp i reply)"
proof -
  have *: "maintains (chat_kept cp k fp) (send_problem m ty)" "maintains (chat_kept cp k fp) (send_accepted cp em)" for m ty em
    by (rule kept_undisturbed; intro maintains_intros)+
  show "maintains (chat_kept cp k fp) (send_timeout i)" "maintains (chat_kept cp k fp) (send_reply cp i reply)"
    unfolding send_timeout_def send_reply_def by (intro maintains_intros * kept_update; simp)+
qed

lemma kept_mounted: "maintains (chat_kept cp k fp) (chat_mounted p cp)"
proof -
  have *: "maintains (chat_kept cp k fp) (refresh_view cp)" "maintains (chat_kept cp k fp) (maybePrepareEnabledConversationKey p cp)"
    by (rule kept_undisturbed; intro maintains_intros)+
  show ?thesis unfolding chat_mounted_def by (intro maintains_intros * kept_update) simp_all
qed

lemma undisturbed_handler:
  assumes "case ev of Mounted \<Rightarrow> False | Submitted \<Rightarrow> False | SendReplied i r \<Rightarrow> False | SendTimedOut i \<Rightarrow> False | PlaintextExpired key \<Rightarrow> False
    | _ \<Rightarrow> True"
  shows "maintains (undisturbed cp k fp c) (chat_handler p cp ev)"
  using assms by (cases ev) (auto intro!: maintains_intros undisturbed_update simp: page_frame_def)

lemma kept_handler: "maintains (chat_kept cp k fp) (chat_handler p cp ev)"
proof (cases ev)
  case Mounted
  then show ?thesis by (simp add: kept_mounted)
next
  case Submitted
  then show ?thesis by (simp add: kept_submit)
next
  case (SendReplied i r)
  then show ?thesis by (simp add: kept_settled)
next
  case (SendTimedOut i)
  then show ?thesis by (simp add: kept_settled)
next
  case (PlaintextExpired key)
  then show ?thesis by (simp add: kept_update map_drop_length)
qed (rule kept_undisturbed, rule undisturbed_handler, simp)+

lemma kept_run: "chat_kept cp k fp s \<Longrightarrow> chat_kept cp k fp (chat_run p cp evs s)"
proof (induction evs arbitrary: s)
  case (Cons ev evs)
  then show ?case using maintainsD [OF kept_handler Cons.prems prod.collapse [symmetric], of p ev] by simp
qed simp

text \<open>
  The fingerprint that this browser has recorded for another participant's device stays: no
  event changes it, and a device that now shows another key sends nothing in its place.  The
  hook never remembers more than fifty texts it sent.
\<close>

theorem chat_pins_stay:
  assumes "calm_store cp" "trust_key k" "truthy fp" "pinned k fp s" "length (sentPlaintexts s) \<le> 50"
  shows "pinned k fp (chat_run p cp evs s) \<and> length (sentPlaintexts (chat_run p cp evs s)) \<le> 50"
  using kept_run [of cp k fp s p evs] assms by (simp add: chat_kept_def)

section \<open>What leaves the page as it was typed\<close>

lemma keeps_plain: "(\<And>c. maintains (undisturbed cp [] JNull c) m) \<Longrightarrow> keeps plain_submits m"
  using frame_undisturbed [of cp m] by (simp add: keeps_def page_frame_def)

lemma plain_sent [keeps_intros]:
  "keeps plain_submits (cacheSentPlaintext pl content)" "keeps plain_submits (forgetSentPlaintext pl)"
  unfolding cacheSentPlaintext_def forgetSentPlaintext_def by (intro keeps_intros keeps_update; simp)+

lemma plain_page [keeps_intros]:
  "keeps plain_submits (refresh_view cp)" "keeps plain_submits (maybePrepareEnabledConversationKey p cp)"
  "keeps plain_submits (send_problem m ty)" "keeps plain_submits (send_accepted cp em)" "keeps plain_submits (set_submit b)"
  "keeps plain_submits (encryptMessage p cp i content)" "keeps plain_submits (push_message em)"
  "keeps plain_submits (setE2EEStatusMessage m)"
  by (rule keeps_plain [where cp = cp]; intro maintains_intros)+

lemma plain_handlers:
  "keeps plain_submits (chat_mounted p cp)" "keeps plain_submits (send_timeout i)" "keeps plain_submits (send_reply cp i reply)"
  "keeps plain_submits (send_encrypted p cp c content)"
  unfolding chat_mounted_def send_timeout_def send_reply_def send_encrypted_def
  by (intro keeps_intros keeps_update; simp)+

lemma plain_other: "ev \<noteq> Submitted \<Longrightarrow> keeps plain_submits (chat_handler p cp ev)"
proof (cases ev)
  case Mounted
  then show ?thesis by (simp add: plain_handlers)
next
  case (SendReplied i r)
  then show ?thesis by (simp add: plain_handlers)
next
  case (SendTimedOut i)
  then show ?thesis by (simp add: plain_handlers)
next
  case (PlaintextExpired key)
  then show ?thesis by (simp add: keeps_update)
qed (rule keeps_plain [where cp = cp], rule undisturbed_handler, simp)+


text \<open>
  C35: Encrypted chat fails open.  When the server's next patch of the page says that encrypted chat
  is not ready, a conversation in which it was switched on sends the next text as it was typed, and
  its text area shares every change again; the switch in \<^verbatim>\<open>localStorage\<close> stays on.
\<close>

theorem chat_downgrade:
  assumes "message_text s = Some typed" "e2eeEnabled s" "data ''chatE2eeReady'' \<noteq> Some ''true''"
    "data ''conversationId'' = chat_data s ''conversationId''" "data ''userId'' = chat_data s ''userId''"
  shows "let t = chat_run p cp [Patched data els, Submitted] s in
    plain_submits t = plain_submits s @ [typed] \<and> typed_shared t \<and> e2eeEnabled t"
proof -
  have nr: "\<not> e2eeReady cp t" if "chat_data t = data" for t :: "'a chat_page_scheme"
    using assms(3) that by (simp add: e2eeReady_def e2eeCapable_def serverE2EEReady_def)
  let ?s1 = "s\<lparr>chat_data := data, message_elements := els\<rparr>"
  have en: "e2eeEnabled t" if "chat_data t = data" "local_items t = local_items s" for t :: "'a chat_page_scheme"
    using assms(2,4,5) that
    by (simp add: e2eeEnabled_def conversationId_def chat_userId_def enabledStorageKey_def user_prefix_def split: option.splits)
  show ?thesis
    using assms(1)
    by (simp add: Let_def chat_updated_def resetConversationKeyCacheIfChanged_def refresh_view_def updateInputMode_def syncEncryptedSubmitButton_def
        updateToggleState_def updateStatusMessage_def setE2EEStatusMessage_def set_submit_def maybePrepareEnabledConversationKey_def
        chat_handleSubmit_def plain_submit_def run_simps nr en)
qed

section \<open>Keys that changed\<close>

definition sent_frame :: "'s chat_page_scheme \<Rightarrow> (string \<times> jsv) list \<times> nat" where
  "sent_frame s = (chat_pushes s, sends_made s)"

lemma sent_trusted: "keeps sent_frame (ensureDeviceTrusted p cp d)"
  unfolding ensureDeviceTrusted_def loadSecureJson_def
  by (intro keeps_intros) (auto simp: keeps_def sent_frame_def run_simps local_remove_def split: option.split)

lemma keeps_promise_all: "(\<And>m. m \<in> set ms \<Longrightarrow> keeps f m) \<Longrightarrow> keeps f (promise_all ms)"
proof (induction ms)
  case (Cons m ms)
  then have m: "keeps f m" and ms: "keeps f (promise_all ms)" by simp_all
  show ?case
  proof (rule keepsI)
    fix s r t
    assume run: "promise_all (m # ms) s = (r, t)"
    obtain r1 s1 where 1: "m s = (r1, s1)" by (cases "m s")
    obtain r2 s2 where 2: "promise_all ms s1 = (r2, s2)" by (cases "promise_all ms s1")
    show "f t = f s" using run 1 2 keepsD [OF m 1] keepsD [OF ms 2] by simp
  qed
qed (simp add: keeps_ret)

text \<open>One computation that rejects in every state that the others lead to makes the whole reject.\<close>

lemma promise_all_rejects:
  assumes "\<And>m. m \<in> set ms \<Longrightarrow> maintains P m" "m \<in> set ms" "\<And>s. P s \<Longrightarrow> \<exists>e t. m s = (Inl e, t)" "P s"
  shows "\<exists>e t. promise_all ms s = (Inl e, t)"
  using assms
proof (induction ms arbitrary: s)
  case (Cons m' ms)
  obtain r1 s1 where 1: "m' s = (r1, s1)" by (cases "m' s")
  obtain r2 s2 where 2: "promise_all ms s1 = (r2, s2)" by (cases "promise_all ms s1")
  have "P s1" using Cons.prems 1 by (meson list.set_intros(1) maintainsD)
  show ?case
  proof (cases "m = m'")
    case True
    then obtain e t where "m' s = (Inl e, t)" using Cons.prems by blast
    then show ?thesis by (simp split: prod.split)
  next
    case False
    then have "\<exists>e t. promise_all ms s1 = (Inl e, t)" using Cons \<open>P s1\<close> by simp
    then show ?thesis using 1 by (cases r1) auto
  qed
qed simp

lemma ensure_rejects:
  assumes "calm_store cp" "stableDevices p devices = Inr ds" "d \<in> set ds" "pinned (deviceTrustStorageKey d) fp s" "truthy fp"
    "\<nexists>f. verifiedDeviceFingerprint cp d = Inr f \<and> fp = JStr f"
  shows "\<exists>e t. ensureDevicesTrusted p cp devices s = (Inl e, t) \<and> sent_frame t = sent_frame s"
proof -
  let ?k = "deviceTrustStorageKey d"
  let ?P = "undisturbed cp ?k fp (page_frame s)"
  have "?P s" using assms(4) by (simp add: undisturbed_def)
  moreover have "\<exists>e t. ensureDeviceTrusted p cp d u = (Inl e, t)" if "?P u" for u
  proof -
    obtain r t where run: "ensureDeviceTrusted p cp d u = (r, t)" by (cases "ensureDeviceTrusted p cp d u")
    have "pinned ?k fp u" using that assms(1,5) key_kinds(3) by (simp add: undisturbed_def)
    from trusted_record [OF assms(1) this assms(5) refl run] assms(6) show ?thesis using run by (cases r) auto
  qed
  ultimately obtain e t where run: "promise_all (map (ensureDeviceTrusted p cp) ds) s = (Inl e, t)"
    using promise_all_rejects [of "map (ensureDeviceTrusted p cp) ds" ?P "ensureDeviceTrusted p cp d" s] assms(3) undisturbed_trusted by fastforce
  have "keeps sent_frame (promise_all (map (ensureDeviceTrusted p cp) ds))"
    by (rule keeps_promise_all) (auto intro: sent_trusted)
  from this run have "sent_frame t = sent_frame s" by (rule keepsD)
  with run show ?thesis by (simp add: ensureDevicesTrusted_def assms(2) bind_run lift_run)
qed

lemma sent_leaf:
  "keeps sent_frame (setE2EEStatusMessage m)" "keeps sent_frame (send_problem m ty)" "keeps sent_frame (set_submit b)"
  "keeps sent_frame (plain_submit x)"
  unfolding send_problem_def notifyE2EE_def setE2EEStatusMessage_def set_submit_def plain_submit_def
  by (intro keeps_intros keeps_update; simp add: sent_frame_def)+

lemma submit_rejects:
  assumes "calm_store cp" "stableDevices p (chat_devices s) = Inr ds" "d \<in> set ds" "pinned (deviceTrustStorageKey d) fp s" "truthy fp"
    "\<nexists>f. verifiedDeviceFingerprint cp d = Inr f \<and> fp = JStr f"
  shows "sent_frame (snd (chat_handleSubmit p cp s)) = sent_frame s"
proof -
  have send: "sent_frame (snd (send_encrypted p cp c content u)) = sent_frame u"
    if "chat_data u = chat_data s" "idb u = idb s" for c content and u :: "'a chat_page_scheme"
  proof -
    let ?u = "u\<lparr>e2ee_status := ''Encrypting and sending message...''\<rparr>"
    have "\<exists>e t. ensureDevicesTrusted p cp (chat_devices ?u) ?u = (Inl e, t) \<and> sent_frame t = sent_frame ?u"
      by (rule ensure_rejects [OF assms(1) _ assms(3) _ assms(5,6)]) (use assms(2,4) that in \<open>simp_all add: chat_devices_def pinned_def\<close>)
    then obtain e t where t: "ensureDevicesTrusted p cp (chat_devices u) ?u = (Inl e, t)" "sent_frame t = sent_frame u"
      by (auto simp: chat_devices_def sent_frame_def)
    have "chat_devices ?u = chat_devices u" by (simp add: chat_devices_def)
    then have "encryptMessage p cp c content ?u = (Inl e, t)" using t(1) by (simp add: encryptMessage_def bind_run seqc_run reads_run)
    moreover have "sent_frame (snd (send_problem m ty t)) = sent_frame t" for m ty
      by (rule keepsD [OF sent_leaf(2) prod.collapse [symmetric]])
    ultimately show ?thesis
      using t(2) by (simp add: send_encrypted_def catch_run seqc_run bind_run setE2EEStatusMessage_def update_run keeps_def)
  qed
  show ?thesis
  proof (cases "message_text s")
    case None
    then show ?thesis by (simp add: chat_handleSubmit_def bind_run reads_run ret_run)
  next
    case (Some typed)
    have "sent_frame (s\<lparr>submit_disabled := b\<rparr>) = sent_frame s" for b by (simp add: sent_frame_def)
    moreover have "sent_frame (snd (send_problem m ty t)) = sent_frame t" "sent_frame (snd (plain_submit x t)) = sent_frame t"
      for m ty x and t :: "'a chat_page_scheme"
      by (rule keepsD [OF sent_leaf(2) prod.collapse [symmetric]], rule keepsD [OF sent_leaf(4) prod.collapse [symmetric]])
    ultimately show ?thesis
      using Some send
      by (simp add: chat_handleSubmit_def bind_run reads_run Let_def seqc_run set_submit_def update_run)
  qed
qed


section \<open>Examples\<close>

definition sample_chat_platform :: chat_platform where
  "sample_chat_platform =
     \<lparr>sha256 = (\<lambda>b. [1]), hmac_sign = (\<lambda>k b. k), random_uuid = (\<lambda>n. Some ''u''), rsa_pair = (\<lambda>n. Some ([7], [7])), ec_pair = (\<lambda>n. Some ([8], [8])),
      rsa_public = Some, rsa_private = Some, ec_public = Some, ec_private = Some, oaep_encrypt = (\<lambda>k n m. Some (k @ m)),
      oaep_decrypt = (\<lambda>k c. if take (length k) c = k then Some (drop (length k) c) else None), ec_sign = (\<lambda>k n m. Some k), ec_verify = (\<lambda>k s m. s = k),
      user_agent = [], crypto_ok = True, idb_fault = (\<lambda>n. None),
      chat_reply = (\<lambda>log. JObj [(''ok'', JBool True), (''wrapped_key'', JObj [(''encrypted_key'', JStr (btoa [7, 9]))])])\<rparr>"

definition sample_device :: jsv where
  "sample_device = JObj [(''user_id'', JNum 4), (''recipient_handle'', JNull), (''origin_domain'', JNull), (''device_id'', JStr ''d''),
     (''public_key'', JObj []), (''fingerprint'', JNull), (''signing_public_key'', JNull), (''device_signature'', JNull)]"

definition sample_data :: "string \<rightharpoonup> string" where
  "sample_data = [''conversationId'' \<mapsto> ''5'', ''userId'' \<mapsto> ''1'', ''chatE2eeReady'' \<mapsto> ''true'',
     ''chatE2eeDevices'' \<mapsto> ''['' @ json_text (JObj [(''user_id'', JNum 4), (''device_id'', JStr ''d'')]) @ '']'']"

definition sample_chat :: chat_page where
  "sample_chat = world.extend sample_world
     \<lparr>idb = [CHAT_E2EE_STORAGE_PREFIX @ '':trust:local:4:device:d'' \<mapsto> JObj [(''fingerprint'', JStr ''seen'')]], idb_ops = 0,
      local_items = [CHAT_E2EE_STORAGE_PREFIX @ '':user:1:conversation:5:enabled'' \<mapsto> ''true''],
      chat_data = sample_data, chat_pushes = [], cachedDevice = None, rawConversationKeyCache = (\<lambda>_. None), preparedConversationKey = None,
      preparingDeviceCount = 0, unavailableConversationKeys = {}, sentPlaintexts = [], e2ee_status = [], e2ee_notices = [],
      message_text = Some ''hello'', typed_shared = False, files_disabled = True, has_uploads = False, message_loading = False,
      submit_disabled = Some False, toggle = None, message_elements = [], lastTypingAt = 0, lastDeviceRegistrationAt = 0,
      currentConversationId = Some 5, pending_sends = [], sends_made = 0, plain_submits = []\<rparr>"

lemma sample_chat_fields [simp]:
  "idb sample_chat = [CHAT_E2EE_STORAGE_PREFIX @ '':trust:local:4:device:d'' \<mapsto> JObj [(''fingerprint'', JStr ''seen'')]]"
  "local_items sample_chat = [CHAT_E2EE_STORAGE_PREFIX @ '':user:1:conversation:5:enabled'' \<mapsto> ''true'']"
  "chat_data sample_chat = sample_data" "message_text sample_chat = Some ''hello''" "sentPlaintexts sample_chat = []"
  "idb_ops sample_chat = 0" "random_used sample_chat = 0"
  by (simp_all add: sample_chat_def world.defs sample_world_def)

lemma sample_ids: "conversationId sample_chat = Some 5" "chat_userId sample_chat = Some 1"
  by (simp_all add: conversationId_def chat_userId_def sample_data_def) code_simp+

lemma sample_trust_key: "deviceTrustStorageKey sample_device = CHAT_E2EE_STORAGE_PREFIX @ '':trust:local:4:device:d''"
  by code_simp

lemma sample_devices: "stableDevices p (chat_parseJson (sample_data ''chatE2eeDevices'') (JArr [])) = Inr [sample_device]"
proof -
  have "chat_parseJson (sample_data ''chatE2eeDevices'') (JArr []) = JArr [JObj [(''user_id'', JNum 4), (''device_id'', JStr ''d'')]]"
    by code_simp
  then show ?thesis
    by (simp add: stableDevices_def stable_device_def js_get_def sample_device_def)
qed

lemma sample_calm: "calm_store sample_chat_platform"
  by (simp add: calm_store_def sample_chat_platform_def)

lemma sample_fingerprint: "verifiedDeviceFingerprint sample_chat_platform sample_device = Inr ''AQ''"
  by code_simp

theorem chat_pins_stay_witness:
  "pinned (CHAT_E2EE_STORAGE_PREFIX @ '':trust:local:4:device:d'') (JStr ''seen'')
     (chat_run (sample_platform JNull) sample_chat_platform [Mounted, ToggleClicked, Submitted] sample_chat)"
  by (rule chat_pins_stay [THEN conjunct1]) (auto simp: sample_calm trust_key_def pinned_def)


theorem chat_downgrade_witness:
  "plain_submits (chat_run (sample_platform JNull) sample_chat_platform
       [Patched (sample_data(''chatE2eeReady'' := None)) [], Submitted] sample_chat) = plain_submits sample_chat @ [''hello'']"
proof -
  have "e2eeEnabled sample_chat"
    by (simp add: e2eeEnabled_def sample_ids enabledStorageKey_def user_prefix_def id_text_def) code_simp
  then show ?thesis
    using chat_downgrade [of sample_chat "''hello''" "sample_data(''chatE2eeReady'' := None)" "sample_platform JNull" sample_chat_platform "[]"]
    by (simp add: Let_def)
qed

end
