(* ===== verification/ChatLaws.thy ===== *)
theory ChatLaws
  imports ChatProps
begin

text \<open>
  How the keys of the encrypted chat reach the devices they are for: the hash of a device list
  does not depend on its order, a wrapped key opens the message for each device of the list, and
  two ways in which a key or a fingerprint is taken over that the others do not agree with.
\<close>

section \<open>The order of devices\<close>

context comparator
begin

text \<open>Two lists of the same elements sort alike where only equal elements tie.\<close>

lemma sort_permuted:
  assumes "mset xs = mset ys" "\<And>a b. a \<in> set xs \<Longrightarrow> b \<in> set xs \<Longrightarrow> cmp a b \<le> 0 \<Longrightarrow> cmp b a \<le> 0 \<Longrightarrow> a = b"
  shows "js_sort cmp xs = js_sort cmp ys"
proof -
  have unique: "us = vs"
    if "mset us = mset vs" "sorted_wrt (\<lambda>a b. cmp a b \<le> 0) us" "sorted_wrt (\<lambda>a b. cmp a b \<le> 0) vs" "set us \<subseteq> set xs" for us vs
    using that
  proof (induction us arbitrary: vs)
    case (Cons u us)
    then obtain v vs' where vs: "vs = v # vs'" by (cases vs) auto
    have sets: "insert u (set us) = insert v (set vs')" using Cons.prems(1) vs by (metis list.simps(15) mset_eq_setD)
    have "cmp u v \<le> 0" "cmp v u \<le> 0"
      using sets Cons.prems(2,3) vs cmp_total by (auto simp: set_eq_iff) (metis cmp_total)+
    moreover have "u \<in> set xs" "v \<in> set xs" using Cons.prems(4) sets by auto
    ultimately have "u = v" using assms(2) by blast
    with Cons vs show ?case by simp
  qed simp
  show ?thesis
    by (rule unique) (use assms(1) in \<open>simp_all add: sorted_sort\<close>)
qed

end

definition collates :: "platform \<Rightarrow> bool" where
  "collates p \<longleftrightarrow> comparator (collate p) \<and> (\<forall>a b. collate p a b \<le> 0 \<and> collate p b a \<le> 0 \<longrightarrow> a = b)"

definition device_key :: "jsv \<Rightarrow> string \<times> string" where
  "device_key d = (device_owner d, to_str (js_get_opt d ''device_id''))"

lemma compare_devices_key:
  "compare_devices p a b =
     (if fst (device_key a) \<noteq> fst (device_key b) then collate p (fst (device_key a)) (fst (device_key b))
      else collate p (snd (device_key a)) (snd (device_key b)))"
  by (simp add: compare_devices_def device_key_def)

lemma compare_devices_comparator:
  assumes "collates p"
  shows "comparator (compare_devices p)"
proof -
  have total: "collate p x y \<le> 0 \<or> collate p y x \<le> 0" and trans: "collate p x y \<le> 0 \<Longrightarrow> collate p y z \<le> 0 \<Longrightarrow> collate p x z \<le> 0"
    and antisym: "collate p x y \<le> 0 \<Longrightarrow> collate p y x \<le> 0 \<Longrightarrow> x = y" for x y z
    using assms unfolding collates_def comparator_def by blast+
  show ?thesis
  proof
    show "compare_devices p a b \<le> 0 \<or> compare_devices p b a \<le> 0" for a b
      using total by (simp add: compare_devices_key)
    show "compare_devices p a c \<le> 0" if "compare_devices p a b \<le> 0" "compare_devices p b c \<le> 0" for a b c
    proof (cases "fst (device_key a) = fst (device_key b) \<or> fst (device_key b) = fst (device_key c)")
      case True
      then show ?thesis using that trans by (auto simp: compare_devices_key split: if_splits)
    next
      case False
      then have "collate p (fst (device_key a)) (fst (device_key b)) \<le> 0" "collate p (fst (device_key b)) (fst (device_key c)) \<le> 0"
        using that by (auto simp: compare_devices_key split: if_splits)
      then show ?thesis using False trans antisym by (auto simp: compare_devices_key)
    qed
  qed
qed

lemma compare_devices_tie:
  assumes "collates p" "compare_devices p a b \<le> 0" "compare_devices p b a \<le> 0"
  shows "device_key a = device_key b"
proof -
  have antisym: "collate p x y \<le> 0 \<Longrightarrow> collate p y x \<le> 0 \<Longrightarrow> x = y" for x y using assms(1) unfolding collates_def by blast
  show ?thesis
  proof (cases "fst (device_key a) = fst (device_key b)")
    case True
    then show ?thesis using assms(2,3) antisym by (auto simp: compare_devices_key intro: prod_eqI)
  next
    case False
    then show ?thesis using assms(2,3) antisym [of "fst (device_key a)"] by (auto simp: compare_devices_key)
  qed
qed

lemma map_result_mset:
  "map_result f xs = Inr ys \<Longrightarrow> mset xs = mset xs' \<Longrightarrow> \<exists>ys'. map_result f xs' = Inr ys' \<and> mset ys' = mset ys"
proof -
  assume m: "map_result f xs = Inr ys" and perm: "mset xs = mset xs'"
  have ys: "ys = map (\<lambda>x. projr (f x)) xs" and ok: "\<forall>x \<in> set xs. f x = Inr (projr (f x))"
    using m by (induction xs arbitrary: ys) (auto simp: res_bind_eq_Inr)
  have "\<forall>x \<in> set xs'. f x = Inr (projr (f x))" using ok perm by (metis mset_eq_setD)
  then have "map_result f xs' = Inr (map (\<lambda>x. projr (f x)) xs')" by (intro map_result_total) blast
  with ys perm show ?thesis by (metis mset_map)
qed


section \<open>A message and the devices it is for\<close>

lemma promise_all_Inr:
  "promise_all (map f xs) s = (Inr ys, t) \<Longrightarrow> list_all2 (\<lambda>x y. \<exists>u v. f x u = (Inr y, v)) xs ys"
proof (induction xs arbitrary: s ys t)
  case (Cons x xs)
  obtain r1 s1 where 1: "f x s = (r1, s1)" by (cases "f x s")
  obtain r2 s2 where 2: "promise_all (map f xs) s1 = (r2, s2)" by (cases "promise_all (map f xs) s1")
  from Cons.prems 1 2 obtain y ys' where ys: "r1 = Inr y" "r2 = Inr ys'" "ys = y # ys'" by (auto simp: res_bind_eq_Inr)
  have "list_all2 (\<lambda>x y. \<exists>u v. f x u = (Inr y, v)) xs ys'" by (rule Cons.IH) (use 2 ys in simp)
  then show ?case using 1 ys by auto
qed (simp add: ret_run)

text \<open>The package that \<^verbatim>\<open>wrapConversationKey\<close> makes for a device.\<close>

definition package_of :: "jsv \<Rightarrow> bytes \<Rightarrow> jsv \<Rightarrow> bool" where
  "package_of d c kp \<longleftrightarrow>
     js_get_opt kp ''device_id'' = js_get_opt d ''device_id'' \<and>
     js_get_opt (js_get_opt kp ''wrapped_key'') ''encrypted_key'' = JStr (bytesToBase64 c) \<and>
     is_num (js_get_opt kp ''user_id'') = is_num (js_get_opt d ''user_id'') \<and>
     truthy (js_get_opt kp ''recipient_handle'') = truthy (js_get_opt d ''recipient_handle'')"

lemma wrap_for_device_Inr:
  assumes "wrap_for_device cp raw d u = (Inr kp, v)"
  shows "\<exists>pk n c. importRsaPublicKey cp (js_get_opt d ''public_key'') = Inr pk \<and> oaep_encrypt cp pk n raw = Some c \<and> package_of d c kp"
proof -
  obtain pk where pk: "importRsaPublicKey cp (js_get_opt d ''public_key'') = Inr pk"
    using assms by (cases "importRsaPublicKey cp (js_get_opt d ''public_key'')") (auto simp: wrap_for_device_def bind_run lift_run)
  obtain c where c: "oaep_encrypt cp pk (random_used u) raw = Some c"
    using assms pk by (cases "oaep_encrypt cp pk (random_used u) raw") (auto simp: wrap_for_device_def bind_run lift_run draw_run of_option_def)
  have "package_of d c kp"
    using assms pk c
    by (cases "is_num (js_get_opt d ''user_id'')"; cases "truthy (js_get_opt d ''recipient_handle'')"; cases "truthy (js_get_opt d ''origin_domain'')")
      (auto simp: wrap_for_device_def bind_run lift_run draw_run of_option_def ret_run package_of_def)
  with pk c show ?thesis by blast
qed

lemma inline_of_payload:
  "inline_packages (encrypted_payload uid iv c kps) =
     filter (\<lambda>kp. is_num (js_get_opt kp ''user_id'')) kps @ filter (\<lambda>kp. truthy (js_get_opt kp ''recipient_handle'')) kps"
proof -
  let ?l = "filter (\<lambda>kp. is_num (js_get_opt kp ''user_id'')) kps" and ?f = "filter (\<lambda>kp. truthy (js_get_opt kp ''recipient_handle'')) kps"
  show ?thesis
    by (cases ?l; cases ?f) (simp_all add: inline_packages_def encrypted_payload_def package_list_def js_or_def)
qed

lemma find_only: "x \<in> set xs \<Longrightarrow> P x \<Longrightarrow> (\<And>y. y \<in> set xs \<Longrightarrow> P y \<Longrightarrow> y = x) \<Longrightarrow> find P xs = Some x"
proof (induction xs)
  case (Cons a xs)
  show ?case
  proof (cases "P a")
    case True
    with Cons.prems(3) [of a] show ?thesis by simp
  next
    case False
    have "x \<in> set xs" using False Cons.prems(1,2) by auto
    moreover have "y = x" if "y \<in> set xs" "P y" for y by (rule Cons.prems(3)) (simp_all add: that)
    ultimately have "find P xs = Some x" using Cons.prems(2) by (intro Cons.IH)
    with False show ?thesis by simp
  qed
qed simp

lemma package_found:
  assumes "list_all2 (\<lambda>d kp. \<exists>c. Q d c \<and> package_of d c kp) ds kps" "distinct (map (\<lambda>d. js_get_opt d ''device_id'') ds)" "d \<in> set ds"
    "is_num (js_get_opt d ''user_id'') \<or> truthy (js_get_opt d ''recipient_handle'')"
  shows "\<exists>kp c. inlineKeyPackageForDevice (encrypted_payload uid iv ct kps) (js_get_opt d ''device_id'') = kp \<and> Q d c \<and> package_of d c kp"
proof -
  from assms(3) obtain i where i: "i < length ds" "d = ds ! i" by (auto simp: in_set_conv_nth)
  have len: "length kps = length ds" using assms(1) by (simp add: list_all2_lengthD)
  have pk: "\<exists>c. Q (ds ! j) c \<and> package_of (ds ! j) c (kps ! j)" if "j < length ds" for j
    using list_all2_nthD [OF assms(1) that] .
  obtain c where c: "Q d c" "package_of d c (kps ! i)" using pk i by blast
  let ?P = "\<lambda>kp. js_get_opt kp ''device_id'' = js_get_opt d ''device_id''"
  have only: "kp = kps ! i" if "kp \<in> set kps" "?P kp" for kp
  proof -
    from that(1) len obtain j where j: "j < length ds" "kp = kps ! j" by (auto simp: in_set_conv_nth)
    then have "js_get_opt (ds ! j) ''device_id'' = js_get_opt (ds ! i) ''device_id''" using pk [OF j(1)] that(2) i(2) by (auto simp: package_of_def)
    then have "j = i" using assms(2) i(1) j(1) by (simp add: distinct_conv_nth) blast
    with j show ?thesis by simp
  qed
  have "find ?P (inline_packages (encrypted_payload uid iv ct kps)) = Some (kps ! i)"
    unfolding inline_of_payload
    by (rule find_only) (use i len c(2) assms(4) only in \<open>auto simp: package_of_def\<close>)
  with c show ?thesis by (auto simp: inlineKeyPackageForDevice_def)
qed

text \<open>\<open>oaep_matches cp pk sk\<close>: what is encrypted with the public key, the private key decrypts.\<close>

definition oaep_matches :: "chat_platform \<Rightarrow> bytes \<Rightarrow> bytes \<Rightarrow> bool" where
  "oaep_matches cp pk sk \<longleftrightarrow> (\<forall>n m c. oaep_encrypt cp pk n m = Some c \<longrightarrow> oaep_decrypt cp sk c = Some m)"


section \<open>A key that others do not use\<close>

definition knows_key :: "(string \<rightharpoonup> string) \<Rightarrow> string \<Rightarrow> bytes \<Rightarrow> 's chat_scheme \<Rightarrow> bool" where
  "knows_key data ck raw s \<longleftrightarrow> chat_data s = data \<and> rawConversationKeyCache s ck = Some raw"

lemma store_raw_knows:
  assumes "storeRawConversationKey cp c uid raw s = (r, t)"
  shows "knows_key (chat_data s) (rawConversationKeyCacheKey c uid) raw t"
proof -
  let ?P = "knows_key (chat_data s) (rawConversationKeyCacheKey c uid) raw"
  have leaf: "maintains ?P (secureStorageGet cp k)" "maintains ?P (secureStorageSet cp k v)" "maintains ?P (secureStorageDelete cp k)"
    "maintains ?P (local_remove k)" for k v
    by (auto simp: maintains_def knows_key_def secure_runs local_remove_def update_run split: option.split)
  have "maintains ?P (loadSecureJson cp k)" for k unfolding loadSecureJson_def by (intro maintains_intros leaf)
  then have rest: "maintains ?P (bind (reads (\<lambda>s. (rawKeyStorageKey s c uid, keyListStorageKey s c))) (\<lambda>(storageKey, listKey).
      seqc (secureStorageDelete cp storageKey)
      (seqc (local_remove storageKey)
      (bind (loadSecureJson cp listKey) (\<lambda>stored.
       let keyUids = arr_items stored in
       if JStr uid \<in> set keyUids then ret ()
       else seqc (secureStorageSet cp listKey (JArr (keyUids @ [JStr uid]))) (local_remove listKey))))))"
    by (intro maintains_intros leaf)
  let ?s = "s\<lparr>rawConversationKeyCache := (rawConversationKeyCache s)(rawConversationKeyCacheKey c uid \<mapsto> raw)\<rparr>"
  have "?P ?s" by (simp add: knows_key_def)
  from maintainsD [OF rest this] assms show ?thesis
    by (simp add: storeRawConversationKey_def seqc_run cache_raw_key_def update_run)
qed

lemma store_active_run:
  assumes "calm_store cp"
  shows "storeActiveConversationKey cp c uid h ph s = (Inr (),
    s\<lparr>idb_ops := idb_ops s + 1,
      idb := (idb s)(activeKeyStorageKey s c \<mapsto> JObj [(''key_uid'', JStr uid), (''devices_hash'', JStr h), (''packages_sent_hash'', ph)]),
      local_items := (local_items s)(activeKeyStorageKey s c := None)\<rparr>)"
  by (simp add: storeActiveConversationKey_def bind_run seqc_run reads_run calm_runs [OF assms] local_remove_def update_run)

text \<open>
  C36: Reading an old message can turn the conversation back to its old key.  A key that is fetched
  from the server for a message on the page becomes the conversation's active key, recorded as sent
  to the devices of now; the next message is then encrypted with it and carries no key packages,
  so a device that joined after the key cannot read it and one that has left still can.
\<close>

theorem chat_old_key_reused:
  assumes "calm_store cp" "uid \<noteq> []" "fetch_conversation_key p cp c uid own s = (Inr raw, t)"
  shows "\<exists>u h. devicesHash p cp (chat_devices t) = Inr h \<and>
    conversationKeyForDevices p cp c (chat_devices t) t =
      (Inr \<lparr>ck_keyUid = uid, ck_rawKeyBytes = raw, ck_packagesNeeded = False, ck_hash = h\<rparr>, u)"
proof -
  obtain s2 s3 h where 2: "storeRawConversationKey cp c uid raw s2 = (Inr (), s3)"
    and h: "devicesHash p cp (chat_devices s3) = Inr h" and t: "storeActiveConversationKey cp c uid h (JStr h) s3 = (Inr (), t)"
    using assms(3) by (auto simp: fetch_conversation_key_def push_reply_def bind_eq_Inr seqc_eq_Inr reads_run lift_run update_run ret_run)
  have k: "knows_key (chat_data s3) (rawConversationKeyCacheKey c uid) raw s3"
    using store_raw_knows [OF 2] by (simp add: knows_key_def)
  let ?k = "activeKeyStorageKey s3 c"
  let ?v = "JObj [(''key_uid'', JStr uid), (''devices_hash'', JStr h), (''packages_sent_hash'', JStr h)]"
  have t': "t = s3\<lparr>idb_ops := idb_ops s3 + 1, idb := (idb s3)(?k \<mapsto> ?v), local_items := (local_items s3)(?k := None)\<rparr>"
    using t store_active_run [OF assms(1), of c uid h "JStr h" s3] by simp
  have keys: "chat_devices t = chat_devices s3" "activeKeyStorageKey t c = ?k"
    using t' by (simp_all add: chat_devices_def activeKeyStorageKey_def user_prefix_def chat_userId_def)
  have "loadSecureJson cp ?k t = (Inr ?v, t\<lparr>idb_ops := idb_ops t + 1\<rparr>)"
    using t' by (simp add: load_run [OF assms(1)] loaded_def after_load_def)
  moreover have "loadRawConversationKey cp c uid u = (Inr (Some raw), u)" if "rawConversationKeyCache u = rawConversationKeyCache t" for u :: "'a chat_scheme"
    using that k t' by (simp add: loadRawConversationKey_def bind_run reads_run ret_run knows_key_def)
  ultimately show ?thesis
    using assms(2) h
    by (simp add: conversationKeyForDevices_def bind_run lift_run reads_run keys Let_def ret_run)
qed

text \<open>
  C37: Trust on first use is trust on every failed read.  Where IndexedDB fails to read the record
  of a device and \<^verbatim>\<open>localStorage\<close> has no copy, the device is accepted with whatever
  self-consistent key it shows, and that key replaces the one that was recorded.
\<close>

theorem chat_trust_read_failure:
  assumes "idb_fault cp (idb_ops s) = Some e" "idb_fault cp (idb_ops s + 1) = None" "local_items s (deviceTrustStorageKey d) = None"
    "verifiedDeviceFingerprint cp d = Inr f"
  shows "\<exists>t. ensureDeviceTrusted p cp d s = (Inr (), t) \<and> pinned (deviceTrustStorageKey d) (JStr f) t"
proof -
  have "loadSecureJson cp (deviceTrustStorageKey d) s = (Inr JNull, s\<lparr>idb_ops := idb_ops s + 1\<rparr>)"
    using assms(1,3) by (simp add: loadSecureJson_def bind_run catch_run secure_runs reads_run ret_run chat_parseJson_def)
  then show ?thesis
    using assms(2,4)
    by (simp add: ensureDeviceTrusted_def bind_run lift_run reads_run seqc_run secure_runs local_remove_def update_run Let_def pinned_def)
qed

section \<open>Examples\<close>

lemma sample_collates: "collates (sample_platform v)"
proof -
  have c: "collate (sample_platform v) = (\<lambda>a b. if a = b then 0 else if a < b then - 1 else 1)" by (simp add: sample_platform_def)
  have "comparator (collate (sample_platform v))" unfolding c by unfold_locales (auto split: if_splits)
  moreover have "a = b" if "collate (sample_platform v) a b \<le> 0 \<and> collate (sample_platform v) b a \<le> 0" for a b
    using that unfolding c by (auto split: if_splits)
  ultimately show ?thesis unfolding collates_def by blast
qed

definition listed_device :: "int \<Rightarrow> string \<Rightarrow> bytes \<Rightarrow> jsv" where
  "listed_device u i key = JObj [(''user_id'', JNum u), (''recipient_handle'', JNull), (''origin_domain'', JNull), (''device_id'', JStr i),
     (''public_key'', JObj [(''algorithm'', JStr ''RSA-OAEP-SHA256''), (''key'', JStr (btoa key))]), (''fingerprint'', JNull),
     (''signing_public_key'', JNull), (''device_signature'', JNull)]"

lemma listed_stable: "i \<noteq> [] \<Longrightarrow> stable_device (listed_device u i key) = Inr (listed_device u i key)"
  by (simp add: stable_device_def listed_device_def js_get_def js_or_def)

lemma listed_key: "device_key (listed_device u i key) = (show_int u, i)"
  by (simp add: device_key_def device_owner_def listed_device_def)



lemma store_raw_total: "calm_store cp \<Longrightarrow> \<exists>t. storeRawConversationKey cp c uid raw s = (Inr (), t)"
  by (simp add: storeRawConversationKey_def cache_raw_key_def local_remove_def seqc_run bind_run reads_run update_run ret_run
      calm_runs load_run Let_def)

theorem chat_old_key_reused_witness:
  "\<exists>t u h. snd (fetch_conversation_key (sample_platform JNull) sample_chat_platform 5 ''old''
      (JObj [(''device_id'', JStr ''a''), (''private_key_crypto'', crypto_key [7])]) sample_chat) = t \<and>
     conversationKeyForDevices (sample_platform JNull) sample_chat_platform 5 (chat_devices t) t =
       (Inr \<lparr>ck_keyUid = ''old'', ck_rawKeyBytes = [9], ck_packagesNeeded = False, ck_hash = h\<rparr>, u)"
proof -
  let ?own = "JObj [(''device_id'', JStr ''a''), (''private_key_crypto'', crypto_key [7])]"
  let ?p = "sample_platform JNull" and ?cp = sample_chat_platform
  let ?wk = "JObj [(''encrypted_key'', JStr (btoa [7, 9]))]"
  have w: "wrapped_key_reply (chat_reply ?cp log) = Inr ?wk" for log
    by (simp add: wrapped_key_reply_def sample_chat_platform_def)
  have d: "decryptWrappedConversationKey ?cp ?own ?wk = Inr [9]"
  proof -
    have "truthy (crypto_key [7])" by (simp add: crypto_key_def)
    moreover have "oaep_decrypt ?cp [7] [7, 9] = Some [9]" by (simp add: sample_chat_platform_def)
    ultimately show ?thesis by (simp add: decryptWrappedConversationKey_def base64_property_def js_get_def atob_btoa of_option_def)
  qed
  obtain t where t: "fetch_conversation_key ?p ?cp 5 ''old'' ?own sample_chat = (Inr [9], t)"
  proof -
    let ?s = "sample_chat\<lparr>chat_pushes := chat_pushes sample_chat @ [(''chat_e2ee_key'',
      JObj [(''conversation_id'', JNum 5), (''device_id'', JStr ''a''), (''key_uid'', JStr ''old'')])]\<rparr>"
    obtain s1 where s1: "storeRawConversationKey ?cp 5 ''old'' [9] ?s = (Inr (), s1)"
      using store_raw_total [OF sample_calm] by blast
    have "chat_data s1 = sample_data" using store_raw_knows [OF s1] by (simp add: knows_key_def)
    then have "devicesHash ?p ?cp (chat_devices s1) = Inr (sha256Base64Url ?cp (json_text (JArr [sample_device])))"
      by (simp add: devicesHash_def chat_devices_def sample_devices)
    then show thesis
      using that s1
      by (simp add: fetch_conversation_key_def push_reply_def bind_run seqc_run reads_run lift_run update_run ret_run w d
          store_active_run [OF sample_calm])
  qed
  show ?thesis using chat_old_key_reused [OF sample_calm _ t] t by auto
qed

theorem chat_trust_read_failure_witness:
  "\<exists>t. ensureDeviceTrusted (sample_platform JNull) (sample_chat_platform\<lparr>idb_fault := [0 \<mapsto> OperationError]\<rparr>) sample_device sample_chat = (Inr (), t) \<and>
     pinned (deviceTrustStorageKey sample_device) (JStr ''AQ'') t"
proof (rule chat_trust_read_failure)
  show "verifiedDeviceFingerprint (sample_chat_platform\<lparr>idb_fault := [0 \<mapsto> OperationError]\<rparr>) sample_device = Inr ''AQ''" by code_simp
  show "local_items sample_chat (deviceTrustStorageKey sample_device) = None" by (simp add: sample_trust_key)
qed simp_all

end
