(* ===== verification/MailContent.thy ===== *)
theory MailContent
  imports MailboxCrypto Html
begin

text \<open>
  \<^verbatim>\<open>apps/elektrine/assets/js/hooks/mailbox_private_content.js\<close>: what is made of a decrypted message:
  its texts, its HTML without what could run, and the bodies of replies and forwarded messages.
  The HTML parser and its inverse are the browser's, the parameter \<open>html_platform\<close>.
\<close>

section \<open>Documents\<close>

text \<open>
  What \<^verbatim>\<open>DOMParser\<close> makes, with names of tags and attributes as in HTML documents, in lower case.
  The content of a \<^verbatim>\<open>template\<close> is a document of its own: \<^verbatim>\<open>querySelectorAll\<close> does not enter it,
  \<^verbatim>\<open>innerHTML\<close> writes it out.
\<close>

datatype node =
    Elem string "(string \<times> string) list" "node list"
  | Template "(string \<times> string) list" "node list"
  | TextNode string

record html_doc =
  doc_head :: "node list option"
  doc_body :: "node list option"

record html_platform =
  parse_html :: "string \<Rightarrow> html_doc"
  inner_html :: "node list \<Rightarrow> string"
  outer_html :: "node \<Rightarrow> string"
  textarea_text :: "string \<Rightarrow> string"
  local_date :: "string \<Rightarrow> string option"

fun text_content :: "node \<Rightarrow> string" where
  "text_content (Elem t as cs) = concat (map text_content cs)"
| "text_content (Template as cs) = []"
| "text_content (TextNode s) = s"

definition attr_of :: "string \<Rightarrow> (string \<times> string) list \<Rightarrow> string" where
  "attr_of name as = (case map_of as name of None \<Rightarrow> [] | Some v \<Rightarrow> v)"

section \<open>Texts of a message\<close>

text \<open>\<^verbatim>\<open>replace(/\s+/g, " ")\<close>.\<close>

fun collapse_spaces :: "bool \<Rightarrow> string \<Rightarrow> string" where
  "collapse_spaces inside [] = []"
| "collapse_spaces inside (c # s) =
     (if is_space c then (if inside then collapse_spaces True s else CHR '' '' # collapse_spaces True s)
      else c # collapse_spaces False s)"

definition htmlToText :: "html_platform \<Rightarrow> jsv \<Rightarrow> string" where
  "htmlToText hp html =
     (if \<not> truthy html then []
      else case doc_body (parse_html hp (to_str html)) of
        None \<Rightarrow> []
      | Some ns \<Rightarrow> trim (collapse_spaces False (concat (map text_content ns))))"

definition previewText :: "html_platform \<Rightarrow> jsv \<Rightarrow> string result" where
  "previewText hp payload =
     res_bind (js_get payload ''text_body'') (\<lambda>body.
     res_bind (js_trim (js_or body (JStr (htmlToText hp (js_get_opt payload ''html_body''))))) (\<lambda>text. Inr
      (if text = [] then ''Encrypted mailbox content''
       else if 160 < length text then take 160 text @ ''...'' else text)))"

definition bodyText :: "html_platform \<Rightarrow> jsv \<Rightarrow> string result" where
  "bodyText hp payload =
     res_bind (js_get payload ''text_body'') (\<lambda>body.
     res_bind (js_trim (js_or body (JStr []))) (\<lambda>text. Inr
      (if text \<noteq> [] then text
       else
         let htmlText = htmlToText hp (js_get_opt payload ''html_body'') in
         if htmlText = [] then ''Encrypted mailbox content'' else htmlText)))"

definition payloadString :: "jsv \<Rightarrow> string \<Rightarrow> string" where
  "payloadString payload field = (case js_get_opt payload field of JStr s \<Rightarrow> s | _ \<Rightarrow> [])"

definition mail_escapeHtml :: "jsv \<Rightarrow> string" where
  "mail_escapeHtml value = escapeHtml (to_str (js_or value (JStr [])))"

definition quoted :: "string \<Rightarrow> string" where
  "quoted w = CHR 0x27 # w @ [CHR 0x27]"

definition attr_text :: "string \<Rightarrow> string \<Rightarrow> string" where
  "attr_text name v = name @ ''='' @ CHR 0x22 # v @ [CHR 0x22]"

definition email_csp :: string where
  "email_csp = join ''; ''
     [''default-src '' @ quoted ''none'', ''img-src data: cid: https:'', ''media-src data: cid: https:'',
      ''style-src '' @ quoted ''unsafe-inline'' @ '' https:'', ''font-src data: https:'',
      ''connect-src '' @ quoted ''none'', ''frame-src '' @ quoted ''none'', ''child-src '' @ quoted ''none'', ''object-src '' @ quoted ''none'',
      ''base-uri '' @ quoted ''none'', ''form-action '' @ quoted ''none'']"

definition email_head :: "string list" where
  "email_head =
     [''<!DOCTYPE html>'', ''<html>'', ''<head>'',
      ''  <meta '' @ attr_text ''charset'' ''UTF-8'' @ ''>'',
      ''  <meta '' @ attr_text ''name'' ''viewport'' @ '' '' @ attr_text ''content'' ''width=device-width, initial-scale=1.0'' @ ''>'',
      ''  <meta '' @ attr_text ''name'' ''referrer'' @ '' '' @ attr_text ''content'' ''no-referrer'' @ ''>'',
      ''  <meta '' @ attr_text ''http-equiv'' ''Content-Security-Policy'' @ '' '' @ attr_text ''content'' email_csp @ ''>'',
      ''  <style>'',
      ''    body {'',
      ''      margin: 0;'',
      ''      padding: 16px;'',
      ''      font-family: -apple-system, BlinkMacSystemFont, '' @ CHR 0x22 # ''Segoe UI'' @ CHR 0x22 # '', sans-serif;'',
      ''      font-size: 14px;'',
      ''      line-height: 1.5;'',
      ''      color: #222;'',
      ''      background: #fff;'',
      ''      overflow-wrap: anywhere;'',
      ''    }'',
      ''    img {'', ''      max-width: 100%;'', ''      height: auto;'', ''    }'',
      ''    table {'', ''      max-width: 100%;'', ''    }'',
      ''  </style>'',
      ''</head>'']"

definition buildSandboxedEmailHtml :: "string \<Rightarrow> string" where
  "buildSandboxedEmailHtml content =
     join [CHR 0x0A] (email_head @ [''<body>'' @ content @ ''</body>'', ''</html>''])"

section \<open>Encoded HTML\<close>

definition is_word :: "char \<Rightarrow> bool" where
  "is_word c \<longleftrightarrow> is_digit c \<or> c = CHR ''_'' \<or> is_upper c \<or> is_upper (char_of (of_char c - (32::nat)))"

definition fragment_tags :: "string list" where
  "fragment_tags =
     [''html'', ''head'', ''body'', ''table'', ''thead'', ''tbody'', ''tfoot'', ''tr'', ''th'', ''td'', ''div'', ''p'', ''span'', ''br'', ''a'',
      ''img'', ''style'', ''section'', ''article'', ''h1'', ''h2'', ''h3'', ''h4'', ''h5'', ''h6'']"

text \<open>\<^verbatim>\<open>(?:w1|w2|...)\b\<close> at the start of a text, in any case.\<close>

definition tag_word_at :: "string list \<Rightarrow> string \<Rightarrow> bool" where
  "tag_word_at ws s \<longleftrightarrow> list_ex (\<lambda>w. lower (take (length w) s) = w \<and> (case drop (length w) s of [] \<Rightarrow> True | c # _ \<Rightarrow> \<not> is_word c)) ws"

definition skip_spaces :: "string \<Rightarrow> string" where
  "skip_spaces s = dropWhile is_space s"

definition skip_slash :: "string \<Rightarrow> string" where
  "skip_slash s = (case s of CHR ''/'' # r \<Rightarrow> r | _ \<Rightarrow> s)"

fun matches_somewhere :: "(string \<Rightarrow> bool) \<Rightarrow> string \<Rightarrow> nat" where
  "matches_somewhere m [] = (if m [] then 1 else 0)"
| "matches_somewhere m (c # s) = (if m (c # s) then 1 else 0) + matches_somewhere m s"

definition html_fragment_at :: "string \<Rightarrow> bool" where
  "html_fragment_at s \<longleftrightarrow> (case s of CHR ''<'' # r \<Rightarrow> tag_word_at fragment_tags (skip_slash r) | _ \<Rightarrow> False)"

text \<open>No match of \<^verbatim>\<open>ENCODED_HTML_FRAGMENT_PATTERN\<close> has another one inside, so matches can be counted by their starts.\<close>

definition encoded_fragment_at :: "string \<Rightarrow> bool" where
  "encoded_fragment_at s \<longleftrightarrow>
     lower (take 4 s) = ''&lt;'' \<and>
     (let r = skip_spaces (drop 4 s) in
      tag_word_at [''!doctype''] r \<or> tag_word_at fragment_tags (skip_spaces (skip_slash r)))"

definition maybeDecodeEntityEncodedHtml :: "html_platform \<Rightarrow> string \<Rightarrow> string" where
  "maybeDecodeEntityEncodedHtml hp content =
     (if 0 < matches_somewhere html_fragment_at content then content
      else if matches_somewhere encoded_fragment_at content < 2 then content
      else textarea_text hp content)"

section \<open>Sanitizing\<close>

definition url_ignored :: "char \<Rightarrow> bool" where
  "url_ignored c \<longleftrightarrow> (of_char c :: nat) \<le> 31 \<or> (of_char c :: nat) = 127 \<or> is_space c"

definition isDangerousUrl :: "string \<Rightarrow> bool" where
  "isDangerousUrl value =
     (let normalized = lower (filter (\<lambda>c. \<not> url_ignored c) value) in
      starts_with normalized ''javascript:'' \<or> starts_with normalized ''vbscript:'' \<or> starts_with normalized ''data:text/html'')"

definition scrubSrcset :: "string \<Rightarrow> string" where
  "scrubSrcset value =
     join '', ''
       (filter (\<lambda>entry. let candidate = takeWhile (\<lambda>c. \<not> is_space c) entry in candidate \<noteq> [] \<and> \<not> isDangerousUrl candidate)
         (map trim (split_by (\<lambda>c. c = CHR '','') value)))"

text \<open>
  A matcher answers the rest of the text after a match at its start; \<open>replace_matches\<close> is
  \<^verbatim>\<open>replace(/.../gi, w)\<close>, for an expression that matches no empty text.
\<close>

definition literal_at :: "string \<Rightarrow> string \<Rightarrow> string option" where
  "literal_at w s = (if lower (take (length w) s) = w then Some (drop (length w) s) else None)"

fun tokens_at :: "string list \<Rightarrow> string \<Rightarrow> string option" where
  "tokens_at [] s = Some s"
| "tokens_at (w # ws) s = (case literal_at w (skip_spaces s) of None \<Rightarrow> None | Some r \<Rightarrow> tokens_at ws r)"

text \<open>\<^verbatim>\<open>\1\s*\)\<close> and, greedily, \<^verbatim>\<open>[^;>]*\1\s*\)\<close>.\<close>

definition close_at :: "string \<Rightarrow> string \<Rightarrow> string option" where
  "close_at q s =
     (if starts_with s q then (case skip_spaces (drop (length q) s) of c # r \<Rightarrow> if c = CHR '')'' then Some r else None | [] \<Rightarrow> None) else None)"

fun body_close :: "string \<Rightarrow> string \<Rightarrow> string option" where
  "body_close q [] = close_at q []"
| "body_close q (c # s) =
     (if c = CHR '';'' \<or> c = CHR ''>'' then close_at q (c # s)
      else case body_close q s of Some r \<Rightarrow> Some r | None \<Rightarrow> close_at q (c # s))"

definition css_url_at :: "string list \<Rightarrow> string \<Rightarrow> string option" where
  "css_url_at scheme s =
     (case literal_at ''url('' s of
        None \<Rightarrow> None
      | Some r \<Rightarrow>
          let r' = skip_spaces r;
              q = (case r' of c # _ \<Rightarrow> if c = CHR 0x22 \<or> c = CHR 0x27 then [c] else [] | [] \<Rightarrow> []) in
          (case tokens_at scheme (drop (length q) r') of None \<Rightarrow> None | Some b \<Rightarrow> body_close q b))"

definition expression_at :: "string \<Rightarrow> string option" where
  "expression_at s =
     (case literal_at ''expression'' s of
        None \<Rightarrow> None
      | Some r \<Rightarrow>
          (case skip_spaces r of
             CHR ''('' # b \<Rightarrow> (case dropWhile (\<lambda>c. c \<noteq> CHR '')'') b of _ # after \<Rightarrow> Some after | [] \<Rightarrow> None)
           | _ \<Rightarrow> None))"

function replace_matches :: "(string \<Rightarrow> string option) \<Rightarrow> string \<Rightarrow> string \<Rightarrow> string" where
  "replace_matches m w [] = []"
| "replace_matches m w (c # s) =
     (case m (c # s) of
        None \<Rightarrow> c # replace_matches m w s
      | Some r \<Rightarrow> if length r \<le> length s then w @ replace_matches m w r else c # replace_matches m w s)"
  by pat_completeness auto
termination by (relation "measure (\<lambda>(m, w, s). length s)") auto

definition scrub_style :: "string \<Rightarrow> string" where
  "scrub_style value =
     replace_matches expression_at []
    (replace_matches (css_url_at [''data'', '':'', ''text/html'']) ''none''
    (replace_matches (css_url_at [''vbscript'', '':'']) ''none''
    (replace_matches (css_url_at [''javascript'', '':'']) ''none'' value)))"

definition scrub_attribute :: "string \<times> string \<Rightarrow> (string \<times> string) option" where
  "scrub_attribute a =
     (case a of (name', value) \<Rightarrow>
        let name = lower name' in
        if starts_with name ''on'' then None
        else if (name = ''src'' \<or> name = ''href'' \<or> name = ''poster'') \<and> isDangerousUrl value then None
        else if name = ''srcset'' then (let s = scrubSrcset value in if s \<noteq> [] then Some (name', s) else None)
        else if name = ''style'' then (let s = scrub_style value in if trim s = [] then None else Some (name', s))
        else Some (name', value))"

definition blocked_tags :: "string list" where
  "blocked_tags =
     [''script'', ''iframe'', ''frame'', ''frameset'', ''object'', ''embed'', ''applet'', ''form'', ''input'', ''textarea'', ''select'', ''button'', ''base'']"

definition blocked_element :: "string \<Rightarrow> (string \<times> string) list \<Rightarrow> bool" where
  "blocked_element tag as \<longleftrightarrow> tag \<in> set blocked_tags \<or> tag = ''meta'' \<and> map_of as ''http-equiv'' \<noteq> None"

definition blocked_rels :: "string list" where
  "blocked_rels = [''dns-prefetch'', ''import'', ''modulepreload'', ''preconnect'', ''prefetch'', ''preload'']"

definition blocked_link :: "string \<Rightarrow> (string \<times> string) list \<Rightarrow> bool" where
  "blocked_link tag as \<longleftrightarrow>
     tag = ''link'' \<and>
     (isDangerousUrl (attr_of ''href'' as) \<or> list_ex (\<lambda>w. w \<in> set blocked_rels) (split_by is_space (lower (attr_of ''rel'' as))))"

fun remove_elements :: "(string \<Rightarrow> (string \<times> string) list \<Rightarrow> bool) \<Rightarrow> node \<Rightarrow> node list" where
  "remove_elements P (Elem t as cs) = (if P t as then [] else [Elem t as (concat (map (remove_elements P) cs))])"
| "remove_elements P (Template as cs) = (if P ''template'' as then [] else [Template as cs])"
| "remove_elements P (TextNode s) = [TextNode s]"

fun scrub_attributes :: "node \<Rightarrow> node" where
  "scrub_attributes (Elem t as cs) = Elem t (List.map_filter scrub_attribute as) (map scrub_attributes cs)"
| "scrub_attributes (Template as cs) = Template (List.map_filter scrub_attribute as) cs"
| "scrub_attributes (TextNode s) = TextNode s"

definition sanitize_nodes :: "node list \<Rightarrow> node list" where
  "sanitize_nodes ns =
     map scrub_attributes (concat (map (remove_elements blocked_link) (concat (map (remove_elements blocked_element) ns))))"

fun styles_of :: "node \<Rightarrow> node list" where
  "styles_of (Elem t as cs) = (if t = ''style'' then [Elem t as cs] else []) @ concat (map styles_of cs)"
| "styles_of (Template as cs) = []"
| "styles_of (TextNode s) = []"

definition nodes_of :: "node list option \<Rightarrow> node list" where
  "nodes_of ns = (case ns of None \<Rightarrow> [] | Some xs \<Rightarrow> xs)"

definition sanitizeProtectedHtml :: "html_platform \<Rightarrow> jsv \<Rightarrow> string" where
  "sanitizeProtectedHtml hp content =
     (case content of
        JStr s \<Rightarrow>
          if trim s = [] then []
          else
            let doc = parse_html hp (maybeDecodeEntityEncodedHtml hp s);
                headStyles = join [CHR 0x0A] (map (outer_html hp) (concat (map styles_of (sanitize_nodes (nodes_of (doc_head doc))))));
                body = (case doc_body doc of None \<Rightarrow> [] | Some ns \<Rightarrow> inner_html hp (sanitize_nodes ns)) in
            join [CHR 0x0A] (filter (\<lambda>t. t \<noteq> []) [headStyles, body])
      | _ \<Rightarrow> [])"

section \<open>Attachments and answers\<close>

text \<open>\<^verbatim>\<open>(n / unit).toFixed(1)\<close>: the nearest tenth, the larger one of two.\<close>

definition to_fixed1 :: "nat \<Rightarrow> nat \<Rightarrow> string" where
  "to_fixed1 n unit = (let tenths = (20 * n + unit) div (2 * unit) in show_nat (tenths div 10) @ ''.'' @ show_nat (tenths mod 10))"

definition formatBytes :: "nat \<Rightarrow> string" where
  "formatBytes value =
     (if value < 1024 then show_nat value @ '' bytes''
      else if value < 1024 * 1024 then to_fixed1 value 1024 @ '' KB''
      else to_fixed1 value (1024 * 1024) @ '' MB'')"

text \<open>\<^verbatim>\<open>Math.max(payload.size || 0, 0)\<close>; \<^verbatim>\<open>NaN\<close> becomes 0 in \<^verbatim>\<open>formatBytes\<close>.  The bullet is three bytes.\<close>

definition attachment_size :: "jsv \<Rightarrow> nat" where
  "attachment_size payload = (case js_to_num (js_or (js_get_opt payload ''size'') (JNum 0)) of None \<Rightarrow> 0 | Some n \<Rightarrow> nat n)"

definition formatAttachmentMeta :: "jsv \<Rightarrow> string" where
  "formatAttachmentMeta payload =
     formatBytes (attachment_size payload) @ '' '' @ [CHR 0xE2, CHR 0x80, CHR 0xA2] @ '' '' @
     to_str (js_or (js_get_opt payload ''content_type'') (JStr ''application/octet-stream''))"

definition formatDateForQuote :: "html_platform \<Rightarrow> string \<Rightarrow> string" where
  "formatDateForQuote hp rawValue =
     (if rawValue = [] then [] else case local_date hp rawValue of None \<Rightarrow> [] | Some text \<Rightarrow> text)"

definition is_newline :: "char \<Rightarrow> bool" where
  "is_newline c \<longleftrightarrow> c = CHR 0x0A"

definition quoteMessageBody :: "string \<Rightarrow> string" where
  "quoteMessageBody body = join [CHR 0x0A] (map (\<lambda>line. ''> '' @ line) (split_by is_newline body))"

definition prefixedSubject :: "string \<Rightarrow> jsv \<Rightarrow> string" where
  "prefixedSubject mode subject =
     (let original = (case subject of JStr s \<Rightarrow> trim s | _ \<Rightarrow> []) in
      if mode = ''forward'' then (if starts_with original ''Fwd: '' then original else ''Fwd: '' @ original)
      else if starts_with original ''Re: '' then original else ''Re: '' @ original)"

record mail_metadata =
  md_from :: string
  md_to :: string
  md_cc :: string
  md_bcc :: string
  md_status :: string
  md_insertedAt :: string

definition buildReplyBody :: "html_platform \<Rightarrow> jsv \<Rightarrow> mail_metadata \<Rightarrow> string result" where
  "buildReplyBody hp payload metadata =
     (let nl = [CHR 0x0A];
          senderText = (if md_status metadata = ''sent'' then ''you'' else md_from metadata) in
      res_bind (bodyText hp payload) (\<lambda>body. Inr
        (nl @ nl @ ''On '' @ formatDateForQuote hp (md_insertedAt metadata) @ '', '' @ senderText @ '' wrote:'' @ nl @ quoteMessageBody body @ nl)))"

definition attachment_line :: "jsv \<Rightarrow> string" where
  "attachment_line attachment =
     ''- '' @ to_str (js_get_opt attachment ''filename'') @ '' ('' @ to_str (js_or (js_get_opt attachment ''size'') (JNum 0)) @ '' bytes)''"

definition buildForwardBody :: "html_platform \<Rightarrow> jsv \<Rightarrow> mail_metadata \<Rightarrow> jsv list \<Rightarrow> string result" where
  "buildForwardBody hp payload metadata attachments =
     (let nl = [CHR 0x0A];
          attachmentBlock = (if attachments = [] then [] else nl @ ''Attachments:'' @ nl @ join nl (map attachment_line attachments) @ nl) in
      res_bind (js_get payload ''subject'') (\<lambda>subject.
      res_bind (bodyText hp payload) (\<lambda>body. Inr
        (nl @ nl @ ''---------- Forwarded message ----------'' @ nl @ ''From: '' @ md_from metadata @ nl @ ''To: '' @ md_to metadata @ nl @
         ''Date: '' @ formatDateForQuote hp (md_insertedAt metadata) @ nl @ ''Subject: '' @ to_str (js_or subject (JStr [])) @ attachmentBlock @ nl @
         body @ nl))))"

section \<open>What the sanitizer leaves\<close>

text \<open>
  The expressions for style values let through what they are there for: one HTML data URL with a
  parameter, and an \<^verbatim>\<open>expression\<close> that appears when an inner one is removed.
\<close>

lemma scrub_style_gaps:
  "css_url_at [''data'', '':'', ''text/html''] ''url(data:text/html;x)'' = None"
  "replace_matches expression_at [] ''expexpression(1)ression(2)'' = ''expression(2)''"
  by code_simp+

text \<open>\<open>node_ok\<close>: neither the element nor one below it, outside of templates, could run a script on its own.\<close>

definition attribute_ok :: "string \<times> string \<Rightarrow> bool" where
  "attribute_ok a \<longleftrightarrow>
     \<not> starts_with (lower (fst a)) ''on'' \<and>
     (lower (fst a) \<in> {''src'', ''href'', ''poster''} \<longrightarrow> \<not> isDangerousUrl (snd a)) \<and>
     (lower (fst a) = ''srcset'' \<longrightarrow> snd a \<noteq> [])"

fun node_ok :: "node \<Rightarrow> bool" where
  "node_ok (Elem t as cs) \<longleftrightarrow>
     t \<notin> set blocked_tags \<and> \<not> (t = ''meta'' \<and> map_of as ''http-equiv'' \<noteq> None) \<and> \<not> blocked_link t as \<and> list_all attribute_ok as \<and> list_all node_ok cs"
| "node_ok (Template as cs) \<longleftrightarrow> list_all attribute_ok as"
| "node_ok (TextNode s) \<longleftrightarrow> True"

fun none_of :: "(string \<Rightarrow> (string \<times> string) list \<Rightarrow> bool) \<Rightarrow> node \<Rightarrow> bool" where
  "none_of P (Elem t as cs) \<longleftrightarrow> \<not> P t as \<and> list_all (none_of P) cs"
| "none_of P (Template as cs) \<longleftrightarrow> True"
| "none_of P (TextNode s) \<longleftrightarrow> True"

lemma removed_none: "x \<in> set (remove_elements P n) \<Longrightarrow> none_of P x"
  by (induction P n arbitrary: x rule: remove_elements.induct) (auto simp: list_all_iff split: if_splits)

lemma removed_keeps: "none_of Q n \<Longrightarrow> x \<in> set (remove_elements P n) \<Longrightarrow> none_of Q x"
  by (induction P n arbitrary: x rule: remove_elements.induct) (auto simp: list_all_iff split: if_splits)

lemma scrubbed_attribute: "scrub_attribute a = Some b \<Longrightarrow> attribute_ok b"
  by (cases a) (auto simp: scrub_attribute_def attribute_ok_def Let_def split: if_splits)

lemma scrubbed_name: "scrub_attribute a = Some b \<Longrightarrow> fst b = fst a"
  by (cases a) (auto simp: scrub_attribute_def Let_def split: if_splits)

lemma scrubbed_all: "list_all attribute_ok (List.map_filter scrub_attribute as)"
  by (auto simp: list_all_iff map_filter_def scrubbed_attribute)

lemma scrubbed_absent: "map_of as k = None \<Longrightarrow> map_of (List.map_filter scrub_attribute as) k = None"
proof (induction as)
  case (Cons a as)
  then show ?case by (cases "scrub_attribute a") (auto simp: map_filter_simps dest: scrubbed_name split: if_splits prod.splits)
qed (simp add: map_filter_simps)

lemma scrubbed_rel: "map_of (List.map_filter scrub_attribute as) ''rel'' = map_of as ''rel''"
proof (induction as)
  case (Cons a as)
  have rel: "scrub_attribute (''rel'', v) = Some (''rel'', v)" for v by (simp add: scrub_attribute_def lower_def lower_char_def is_upper_def)
  obtain n v where a: "a = (n, v)" by (cases a)
  show ?case
  proof (cases "n = ''rel''")
    case True
    then show ?thesis using a rel by (simp add: map_filter_simps)
  next
    case False
    then show ?thesis using a Cons scrubbed_name [of a] by (cases "scrub_attribute a") (auto simp: map_filter_simps)
  qed
qed (simp add: map_filter_simps)

lemma scrubbed_link: "\<not> blocked_link t as \<Longrightarrow> \<not> blocked_link t (List.map_filter scrub_attribute as)"
proof -
  assume n: "\<not> blocked_link t as"
  have "\<not> isDangerousUrl (attr_of ''href'' (List.map_filter scrub_attribute as))"
  proof (cases "map_of (List.map_filter scrub_attribute as) ''href''")
    case None
    then show ?thesis by (simp add: attr_of_def) (simp add: isDangerousUrl_def lower_def)
  next
    case (Some v)
    then have "attribute_ok (''href'', v)" using scrubbed_all [of as] map_of_SomeD by (fastforce simp: list_all_iff)
    moreover have "lower ''href'' = ''href''" by code_simp
    ultimately show ?thesis using Some by (simp add: attr_of_def attribute_ok_def)
  qed
  then show ?thesis using n by (simp add: blocked_link_def attr_of_def scrubbed_rel)
qed

lemma scrub_ok: "none_of blocked_element n \<Longrightarrow> none_of blocked_link n \<Longrightarrow> node_ok (scrub_attributes n)"
proof (induction n rule: scrub_attributes.induct)
  case (1 t as cs)
  then show ?case by (auto simp: list_all_iff blocked_element_def scrubbed_all [unfolded list_all_iff] dest: scrubbed_absent scrubbed_link)
qed (simp_all add: scrubbed_all)

lemma styles_ok: "node_ok n \<Longrightarrow> list_all node_ok (styles_of n)"
  by (induction n rule: styles_of.induct) (auto simp: list_all_iff)

lemma sanitize_nodes_ok: "list_all node_ok (sanitize_nodes ns)"
  by (auto simp: sanitize_nodes_def list_all_iff intro!: scrub_ok dest: removed_none intro: removed_keeps)


end
