(* ===== verification/MailMessages.thy ===== *)
theory MailMessages
  imports MailContent
begin

text \<open>
  The hook \<^verbatim>\<open>PrivateMailboxMessages\<close>
  (\<^verbatim>\<open>apps/elektrine/assets/js/hooks/mailbox_private_messages_hook.js\<close>): the protected messages,
  addresses and attachments of a page, shown decrypted while the mailbox is unlocked and with
  their placeholders while it is locked.
\<close>

section \<open>State\<close>

text \<open>An element that shows a text, with its \<^verbatim>\<open>...Placeholder\<close>; a body also has whether it is hidden.\<close>

record shown =
  sh_text :: string
  sh_placeholder :: "string option"

record private_message =
  pm_payload :: "string option"
  pm_subject :: "shown option"
  pm_preview :: "shown option"
  pm_addresses :: "(string \<times> shown) list"
  pm_body :: "(shown \<times> bool) option"
  pm_frame :: "(string \<times> bool) option"

record private_address =
  pa_payload :: "string option"
  pa_field :: string
  pa_shown :: shown

text \<open>\<open>at_cached\<close> is what \<^verbatim>\<open>decryptedAttachments\<close> holds for the element.\<close>

record private_attachment =
  at_payload :: "string option"
  at_filename :: "shown option"
  at_meta :: "shown option"
  at_label :: "shown option"
  at_cached :: "jsv option"

text \<open>
  \<open>mm_pending\<close>: renderings that wait for the decryption of the messages, each with what it got of
  every message; \<open>None\<close> for a message without a payload.
\<close>

record mail_page = mailbox +
  mm_mailboxId :: string
  mm_messages :: "private_message list"
  mm_addresses :: "private_address list"
  mm_attachments :: "private_attachment list"
  mm_pending :: "jsv result option list list"
  mm_downloads :: "(string \<times> string \<times> bytes) list"

type_synonym ('s, 'a) page_mail = "('s mail_page_scheme, 'a) io"

section \<open>Placeholders\<close>

definition put_text :: "string \<Rightarrow> shown \<Rightarrow> shown" where
  "put_text t sh = sh\<lparr>sh_text := t\<rparr>"

definition restoreAddressPlaceholder :: "shown \<Rightarrow> shown" where
  "restoreAddressPlaceholder sh =
     (case sh_placeholder sh of None \<Rightarrow> sh | Some p \<Rightarrow> if p = [] then sh else put_text p sh)"

definition restore_body :: "shown \<times> bool \<Rightarrow> shown \<times> bool" where
  "restore_body b =
     (case b of (sh, hid) \<Rightarrow>
        (case sh_placeholder sh of None \<Rightarrow> (sh, hid) | Some p \<Rightarrow> if p = [] then (sh, hid) else (put_text p sh, False)))"

definition restorePlaceholderForElement :: "private_message \<Rightarrow> private_message" where
  "restorePlaceholderForElement m =
     m\<lparr>pm_subject := map_option restoreAddressPlaceholder (pm_subject m),
       pm_preview := map_option restoreAddressPlaceholder (pm_preview m),
       pm_addresses := map (\<lambda>(field, sh). (field, restoreAddressPlaceholder sh)) (pm_addresses m),
       pm_body := map_option restore_body (pm_body m),
       pm_frame := map_option (\<lambda>_. ([], True)) (pm_frame m)\<rparr>"

definition restoreAttachmentPlaceholder :: "private_attachment \<Rightarrow> private_attachment" where
  "restoreAttachmentPlaceholder a =
     a\<lparr>at_filename := map_option restoreAddressPlaceholder (at_filename a),
       at_meta := map_option restoreAddressPlaceholder (at_meta a),
       at_label := map_option restoreAddressPlaceholder (at_label a)\<rparr>"

section \<open>Showing a message\<close>

definition show_subject :: "jsv \<Rightarrow> string" where
  "show_subject payload =
     (let subject = (case js_get_opt payload ''subject'' of JStr s \<Rightarrow> trim s | _ \<Rightarrow> []) in
      if subject = [] then ''(No Subject)'' else subject)"

definition show_address :: "jsv \<Rightarrow> string \<Rightarrow> shown \<Rightarrow> shown" where
  "show_address payload field sh =
     (let value = trim (payloadString payload field) in if value = [] then sh else put_text value sh)"

definition show_frame :: "html_platform \<Rightarrow> jsv \<Rightarrow> (private_message, unit) io" where
  "show_frame hp payload =
     update (\<lambda>m.
       case pm_frame m of
         None \<Rightarrow> m
       | Some f \<Rightarrow>
           (case js_get_opt payload ''html_body'' of
              JStr html \<Rightarrow>
                if trim html \<noteq> []
                then m\<lparr>pm_frame := Some (buildSandboxedEmailHtml (sanitizeProtectedHtml hp (JStr html)), False),
                       pm_body := map_option (\<lambda>(sh, hid). (sh, True)) (pm_body m)\<rparr>
                else m\<lparr>pm_frame := Some ([], True), pm_body := map_option (\<lambda>(sh, hid). (sh, False)) (pm_body m)\<rparr>
            | _ \<Rightarrow> m\<lparr>pm_frame := Some ([], True), pm_body := map_option (\<lambda>(sh, hid). (sh, False)) (pm_body m)\<rparr>))"

definition show_payload :: "html_platform \<Rightarrow> jsv \<Rightarrow> (private_message, unit) io" where
  "show_payload hp payload =
     seqc (update (\<lambda>m. m\<lparr>pm_subject := map_option (put_text (show_subject payload)) (pm_subject m)\<rparr>))
     (bind (reads pm_preview) (\<lambda>preview.
      seqc (if preview = None then ret ()
            else bind (lift (previewText hp payload)) (\<lambda>t. update (\<lambda>m. m\<lparr>pm_preview := map_option (put_text t) (pm_preview m)\<rparr>)))
      (seqc (update (\<lambda>m. m\<lparr>pm_addresses := map (\<lambda>(field, sh). (field, show_address payload field sh)) (pm_addresses m)\<rparr>))
      (bind (reads pm_body) (\<lambda>body.
       seqc (if body = None then ret ()
             else bind (lift (bodyText hp payload)) (\<lambda>t. update (\<lambda>m. m\<lparr>pm_body := map_option (\<lambda>(sh, hid). (put_text t sh, hid)) (pm_body m)\<rparr>)))
         (show_frame hp payload))))))"

text \<open>What happens to a message when its decryption has ended.\<close>

definition finish_message :: "html_platform \<Rightarrow> jsv result option \<Rightarrow> private_message \<Rightarrow> private_message" where
  "finish_message hp result m =
     (case result of
        None \<Rightarrow> m
      | Some (Inl e) \<Rightarrow> restorePlaceholderForElement m
      | Some (Inr payload) \<Rightarrow>
          if \<not> truthy payload then m
          else (case show_payload hp payload m of (Inl e, t) \<Rightarrow> restorePlaceholderForElement t | (Inr _, t) \<Rightarrow> t))"

section \<open>Addresses and attachments\<close>

definition render_address :: "platform \<Rightarrow> mailbox_platform \<Rightarrow> 's mail_page_scheme \<Rightarrow> private_address \<Rightarrow> private_address" where
  "render_address p mp s a =
     (let envelope = parsePayload (pa_payload a) in
      if \<not> truthy envelope then a
      else case decryptMessagePayload p mp envelope (mm_mailboxId s) s of
        Inl e \<Rightarrow> a\<lparr>pa_shown := restoreAddressPlaceholder (pa_shown a)\<rparr>
      | Inr payload \<Rightarrow> a\<lparr>pa_shown := show_address payload (pa_field a) (pa_shown a)\<rparr>)"

text \<open>The payload of an attachment, and its element with what is then cached for it.\<close>

definition decryptAttachmentElement ::
  "platform \<Rightarrow> mailbox_platform \<Rightarrow> 's mail_page_scheme \<Rightarrow> private_attachment \<Rightarrow> jsv result \<times> private_attachment" where
  "decryptAttachmentElement p mp s a =
     (case at_cached a of
        Some payload \<Rightarrow> (Inr payload, a)
      | None \<Rightarrow>
          let envelope = parsePayload (at_payload a) in
          if \<not> truthy envelope then (Inr JNull, a)
          else case decryptAttachmentPayload p mp envelope (mm_mailboxId s) s of
            Inl e \<Rightarrow> (Inl e, a)
          | Inr payload \<Rightarrow> (Inr payload, if truthy payload then a\<lparr>at_cached := Some payload\<rparr> else a))"

definition show_attachment :: "jsv \<Rightarrow> private_attachment \<Rightarrow> private_attachment" where
  "show_attachment payload a =
     a\<lparr>at_filename := map_option (put_text (to_str (js_or (js_get_opt payload ''filename'') (JStr ''attachment'')))) (at_filename a),
       at_meta := map_option (put_text (formatAttachmentMeta payload)) (at_meta a),
       at_label := map_option (put_text ''Download'') (at_label a)\<rparr>"

definition render_attachment :: "platform \<Rightarrow> mailbox_platform \<Rightarrow> 's mail_page_scheme \<Rightarrow> private_attachment \<Rightarrow> private_attachment" where
  "render_attachment p mp s a =
     (case decryptAttachmentElement p mp s a of
        (Inl e, b) \<Rightarrow> restoreAttachmentPlaceholder b
      | (Inr payload, b) \<Rightarrow> if truthy payload then show_attachment payload b else b)"

section \<open>Rendering\<close>

definition message_result :: "platform \<Rightarrow> mailbox_platform \<Rightarrow> 's mail_page_scheme \<Rightarrow> private_message \<Rightarrow> jsv result option" where
  "message_result p mp s m =
     (let envelope = parsePayload (pm_payload m) in
      if \<not> truthy envelope then None else Some (decryptMessagePayload p mp envelope (mm_mailboxId s) s))"

text \<open>
  \<^verbatim>\<open>renderPrivateContent\<close> up to its first \<^verbatim>\<open>await\<close>: a locked page is done, otherwise the
  decryption of every message is under way, with the key of now.
\<close>

definition render_start :: "platform \<Rightarrow> mailbox_platform \<Rightarrow> ('s, unit) page_mail" where
  "render_start p mp =
     update (\<lambda>s.
       if getStoredPrivateKey s (mm_mailboxId s) = None
       then s\<lparr>mm_messages := map restorePlaceholderForElement (mm_messages s),
              mm_addresses := map (\<lambda>a. a\<lparr>pa_shown := restoreAddressPlaceholder (pa_shown a)\<rparr>) (mm_addresses s),
              mm_attachments := map restoreAttachmentPlaceholder (mm_attachments s)\<rparr>
       else s\<lparr>mm_pending := mm_pending s @ [map (message_result p mp s) (mm_messages s)]\<rparr>)"

text \<open>The rest of it: the messages are written, then the addresses and the attachments, with the key there is then.\<close>

definition render_finish :: "platform \<Rightarrow> mailbox_platform \<Rightarrow> html_platform \<Rightarrow> jsv result option list \<Rightarrow> ('s, unit) page_mail" where
  "render_finish p mp hp results =
     seqc (update (\<lambda>s. s\<lparr>mm_messages := map (\<lambda>(r, m). finish_message hp r m) (zip results (mm_messages s))\<rparr>))
     (seqc (update (\<lambda>s. s\<lparr>mm_addresses := map (render_address p mp s) (mm_addresses s)\<rparr>))
       (update (\<lambda>s. s\<lparr>mm_attachments := map (render_attachment p mp s) (mm_attachments s)\<rparr>)))"

definition render_resumed :: "platform \<Rightarrow> mailbox_platform \<Rightarrow> html_platform \<Rightarrow> nat \<Rightarrow> ('s, unit) page_mail" where
  "render_resumed p mp hp n =
     bind (reads mm_pending) (\<lambda>pending.
     if n < length pending then
       seqc (update (\<lambda>s. s\<lparr>mm_pending := take n pending @ drop (n + 1) pending\<rparr>)) (render_finish p mp hp (pending ! n))
     else ret ())"

section \<open>Downloads and events\<close>

definition downloadBytes :: "jsv \<Rightarrow> jsv \<Rightarrow> jsv \<Rightarrow> ('s, unit) page_mail" where
  "downloadBytes filename contentType data =
     bind (lift (base64ToBytes (to_str data))) (\<lambda>bytes.
     update (\<lambda>s. s\<lparr>mm_downloads := mm_downloads s @
       [(to_str (js_or filename (JStr ''attachment'')), to_str (js_or contentType (JStr ''application/octet-stream'')), bytes)]\<rparr>))"

definition download_attachment :: "platform \<Rightarrow> mailbox_platform \<Rightarrow> nat \<Rightarrow> ('s, unit) page_mail" where
  "download_attachment p mp i =
     bind (reads (\<lambda>s. decryptAttachmentElement p mp s (mm_attachments s ! i))) (\<lambda>(result, a).
     seqc (update (\<lambda>s. s\<lparr>mm_attachments := (mm_attachments s)[i := a]\<rparr>))
     (bind (lift result) (\<lambda>payload.
      if \<not> truthy (js_get_opt payload ''data'') then mail_notify ''This protected attachment could not be decrypted.'' ''error''
      else downloadBytes (js_get_opt payload ''filename'') (js_get_opt payload ''content_type'') (js_get_opt payload ''data''))))"

definition mail_handleClick :: "platform \<Rightarrow> mailbox_platform \<Rightarrow> nat \<Rightarrow> ('s, unit) page_mail" where
  "mail_handleClick p mp i =
     bind (reads (\<lambda>s. i < length (mm_attachments s) \<and> getStoredPrivateKey s (mm_mailboxId s) \<noteq> None)) (\<lambda>ready.
     if \<not> ready then mail_notify ''Unlock your mailbox before downloading protected attachments.'' ''error''
     else catch (download_attachment p mp i) (\<lambda>_. mail_notify ''Failed to decrypt this protected attachment.'' ''error''))"

text \<open>
  A patch of the page puts in new elements; what a rendering under way writes to the old ones is not seen.
\<close>

datatype mail_event =
    PagePatched string "private_message list" "private_address list" "private_attachment list"
  | MailUnlocked bytes
  | MailLocked
  | RenderResumed nat
  | DownloadClicked nat

fun mail_handler :: "platform \<Rightarrow> mailbox_platform \<Rightarrow> html_platform \<Rightarrow> mail_event \<Rightarrow> ('s, unit) page_mail" where
  "mail_handler p mp hp (PagePatched i ms addrs atts) =
     seqc (update (\<lambda>s. s\<lparr>mm_mailboxId := i, mm_messages := ms, mm_addresses := addrs, mm_attachments := atts, mm_pending := []\<rparr>))
       (render_start p mp)"
| "mail_handler p mp hp (MailUnlocked key) =
     bind (reads mm_mailboxId) (\<lambda>i. seqc (storePrivateKey i key) (render_start p mp))"
| "mail_handler p mp hp MailLocked =
     bind (reads mm_mailboxId) (\<lambda>i. seqc (clearPrivateKey i) (render_start p mp))"
| "mail_handler p mp hp (RenderResumed n) = render_resumed p mp hp n"
| "mail_handler p mp hp (DownloadClicked i) = mail_handleClick p mp i"

fun mail_run :: "platform \<Rightarrow> mailbox_platform \<Rightarrow> html_platform \<Rightarrow> mail_event list \<Rightarrow> 's mail_page_scheme \<Rightarrow> 's mail_page_scheme" where
  "mail_run p mp hp [] s = s"
| "mail_run p mp hp (ev # evs) s = mail_run p mp hp evs (snd (mail_handler p mp hp ev s))"

end
