(* ===== verification/MailPage.thy ===== *)
theory MailPage
  imports MailMessages
begin

text \<open>
  What the page of protected messages shows while the mailbox is locked: its placeholders, as long as
  no decryption that began before is still under way; and what one that is does.
\<close>

section \<open>The page with nothing under way\<close>

text \<open>An event, and the rendering it begins carried through.\<close>

definition mail_step :: "platform \<Rightarrow> mailbox_platform \<Rightarrow> html_platform \<Rightarrow> mail_event \<Rightarrow> 's mail_page_scheme \<Rightarrow> 's mail_page_scheme" where
  "mail_step p mp hp ev s =
     (let t = snd (mail_handler p mp hp ev s) in
      if mm_pending t = [] then t else snd (render_resumed p mp hp 0 t))"

fun mail_steps :: "platform \<Rightarrow> mailbox_platform \<Rightarrow> html_platform \<Rightarrow> mail_event list \<Rightarrow> 's mail_page_scheme \<Rightarrow> 's mail_page_scheme" where
  "mail_steps p mp hp [] s = s"
| "mail_steps p mp hp (ev # evs) s = mail_steps p mp hp evs (mail_step p mp hp ev s)"

definition page_key :: "'s mail_page_scheme \<Rightarrow> bytes option" where
  "page_key s = getStoredPrivateKey s (mm_mailboxId s)"

definition restored :: "shown \<Rightarrow> bool" where
  "restored sh \<longleftrightarrow> (case sh_placeholder sh of None \<Rightarrow> True | Some p \<Rightarrow> p \<noteq> [] \<longrightarrow> sh_text sh = p)"

definition message_restored :: "private_message \<Rightarrow> bool" where
  "message_restored m \<longleftrightarrow>
     pred_option restored (pm_subject m) \<and> pred_option restored (pm_preview m) \<and> list_all (restored \<circ> snd) (pm_addresses m) \<and>
     pred_option (restored \<circ> fst) (pm_body m) \<and> pred_option (\<lambda>f. f = ([], True)) (pm_frame m)"

definition attachment_restored :: "private_attachment \<Rightarrow> bool" where
  "attachment_restored a \<longleftrightarrow>
     pred_option restored (at_filename a) \<and> pred_option restored (at_meta a) \<and> pred_option restored (at_label a)"

definition page_restored :: "'s mail_page_scheme \<Rightarrow> bool" where
  "page_restored s \<longleftrightarrow>
     list_all message_restored (mm_messages s) \<and> list_all (restored \<circ> pa_shown) (mm_addresses s) \<and> list_all attachment_restored (mm_attachments s)"

definition mail_page_inv :: "'s mail_page_scheme \<Rightarrow> bool" where
  "mail_page_inv s \<longleftrightarrow> mm_pending s = [] \<and> (page_key s = None \<longrightarrow> page_restored s)"

lemma restored_shown [simp]: "restored (restoreAddressPlaceholder sh)"
  by (simp add: restored_def restoreAddressPlaceholder_def put_text_def split: option.split)

lemma restored_body [simp]: "restored (fst (restore_body b))"
  by (cases b) (simp add: restored_def restore_body_def put_text_def split: option.split)

lemma restored_message [simp]: "message_restored (restorePlaceholderForElement m)"
  by (auto simp: message_restored_def restorePlaceholderForElement_def list_all_iff pred_option_def option.set_map)

lemma restored_attachment [simp]: "attachment_restored (restoreAttachmentPlaceholder a)"
  by (auto simp: attachment_restored_def restoreAttachmentPlaceholder_def pred_option_def option.set_map)

text \<open>A rendering that begins leaves a locked page restored and an unlocked one with one rendering under way.\<close>

lemma start_run:
  "mm_pending s = [] \<Longrightarrow> \<exists>t. render_start p mp s = (Inr (), t) \<and> page_key t = page_key s \<and>
     (page_key s = None \<longrightarrow> mm_pending t = [] \<and> page_restored t) \<and> (page_key s \<noteq> None \<longrightarrow> length (mm_pending t) = 1)"
  by (simp add: render_start_def update_run page_key_def page_restored_def list_all_iff getStoredPrivateKey_def)

lemma resumed_key: "page_key (snd (render_resumed p mp hp n s)) = page_key s"
  by (simp add: render_resumed_def render_finish_def run_simps page_key_def getStoredPrivateKey_def)

lemma resumed_pending: "length (mm_pending s) = 1 \<Longrightarrow> mm_pending (snd (render_resumed p mp hp 0 s)) = []"
  by (cases "mm_pending s") (simp_all add: render_resumed_def render_finish_def run_simps)

lemma started_inv:
  assumes "mm_pending s = []"
  shows "mail_page_inv (let t = snd (render_start p mp s) in if mm_pending t = [] then t else snd (render_resumed p mp hp 0 t))"
proof -
  obtain t where t: "render_start p mp s = (Inr (), t)" "page_key t = page_key s"
    "page_key s = None \<longrightarrow> mm_pending t = [] \<and> page_restored t" "page_key s \<noteq> None \<longrightarrow> length (mm_pending t) = 1"
    using start_run [OF assms] by blast
  show ?thesis
  proof (cases "page_key s")
    case None
    with t show ?thesis by (simp add: mail_page_inv_def)
  next
    case (Some k)
    then have l: "length (mm_pending t) = 1" using t(4) by simp
    then have "mm_pending t \<noteq> []" by auto
    then show ?thesis using t Some resumed_pending [OF l] by (simp add: mail_page_inv_def resumed_key)
  qed
qed

text \<open>A download changes nothing that is shown.\<close>

definition displays :: "'s mail_page_scheme \<Rightarrow> 's mail_page_scheme \<Rightarrow> bool" where
  "displays s t \<longleftrightarrow>
     mm_pending t = mm_pending s \<and> page_key t = page_key s \<and> mm_messages t = mm_messages s \<and> mm_addresses t = mm_addresses s \<and>
     (list_all attachment_restored (mm_attachments s) \<longrightarrow> list_all attachment_restored (mm_attachments t))"

lemma decrypted_attachment: "decryptAttachmentElement p mp s a = (r, b) \<Longrightarrow> attachment_restored a \<Longrightarrow> attachment_restored b"
  by (auto simp: decryptAttachmentElement_def attachment_restored_def Let_def split: option.splits if_splits sum.splits)

lemma click_displays: "displays s (snd (mail_handleClick p mp i s))"
proof -
  have unchanged: "displays s t" if "mm_pending t = mm_pending s" "mm_mailboxId t = mm_mailboxId s" "importedPrivateKeys t = importedPrivateKeys s"
    "mm_messages t = mm_messages s" "mm_addresses t = mm_addresses s"
    "mm_attachments t = mm_attachments s \<or> i < length (mm_attachments s) \<and>
       mm_attachments t = (mm_attachments s)[i := snd (decryptAttachmentElement p mp s (mm_attachments s ! i))]" for t
  proof -
    have "list_all attachment_restored (mm_attachments t)" if l: "list_all attachment_restored (mm_attachments s)"
    proof (cases "mm_attachments t = mm_attachments s")
      case False
      then have i: "i < length (mm_attachments s)"
        "mm_attachments t = (mm_attachments s)[i := snd (decryptAttachmentElement p mp s (mm_attachments s ! i))]"
        using \<open>mm_attachments t = mm_attachments s \<or> _\<close> by simp_all
      have "attachment_restored (snd (decryptAttachmentElement p mp s (mm_attachments s ! i)))"
        by (rule decrypted_attachment [OF prod.collapse [symmetric]]) (use l i(1) in \<open>simp add: list_all_length\<close>)
      then show ?thesis using l i by (auto simp: list_all_iff dest!: set_update_subset_insert [THEN subsetD])
    qed (simp add: l)
    with that show ?thesis by (simp add: displays_def page_key_def getStoredPrivateKey_def)
  qed
  obtain r a where a: "decryptAttachmentElement p mp s (mm_attachments s ! i) = (r, a)"
    by (cases "decryptAttachmentElement p mp s (mm_attachments s ! i)")
  show ?thesis
    by (rule unchanged)
      (auto simp: mail_handleClick_def download_attachment_def downloadBytes_def mail_notify_def run_simps a split: sum.split)
qed

lemma step_inv: "mail_page_inv s \<or> (\<exists>i ms addrs atts. ev = PagePatched i ms addrs atts) \<Longrightarrow> mail_page_inv (mail_step p mp hp ev s)"
proof (cases ev)
  case (PagePatched i ms addrs atts)
  then show ?thesis by (simp add: mail_step_def seqc_run update_run) (rule started_inv, simp)
next
  case (MailUnlocked key)
  assume "mail_page_inv s \<or> (\<exists>i ms addrs atts. ev = PagePatched i ms addrs atts)"
  with MailUnlocked have "mm_pending s = []" by (simp add: mail_page_inv_def)
  with MailUnlocked show ?thesis
    by (simp add: mail_step_def seqc_run bind_run reads_run storePrivateKey_def update_run) (intro conjI impI; rule started_inv; simp)
next
  case MailLocked
  assume "mail_page_inv s \<or> (\<exists>i ms addrs atts. ev = PagePatched i ms addrs atts)"
  with MailLocked have "mm_pending s = []" by (simp add: mail_page_inv_def)
  with MailLocked show ?thesis
    by (simp add: mail_step_def seqc_run bind_run reads_run clearPrivateKey_def update_run) (intro conjI impI; rule started_inv; simp)
next
  case (RenderResumed n)
  assume "mail_page_inv s \<or> (\<exists>i ms addrs atts. ev = PagePatched i ms addrs atts)"
  with RenderResumed show ?thesis by (simp add: mail_step_def render_resumed_def bind_run reads_run ret_run mail_page_inv_def)
next
  case (DownloadClicked i)
  assume "mail_page_inv s \<or> (\<exists>i ms addrs atts. ev = PagePatched i ms addrs atts)"
  with DownloadClicked show ?thesis using click_displays [of s p mp i]
    by (simp add: mail_step_def mail_page_inv_def displays_def page_restored_def)
qed

lemma steps_inv: "mail_page_inv s \<Longrightarrow> mail_page_inv (mail_steps p mp hp evs s)"
  by (induction evs arbitrary: s) (simp_all add: step_inv)


section \<open>A rendering that ends late\<close>

lemma show_payload_subject:
  assumes "previewText hp payload = Inr pv" "bodyText hp payload = Inr bt"
  shows "\<exists>t. show_payload hp payload m = (Inr (), t) \<and> pm_subject t = map_option (put_text (show_subject payload)) (pm_subject m)"
proof -
  define g where "g = (\<lambda>m. snd (show_frame hp payload m))"
  have f: "show_frame hp payload m = (Inr (), g m)" for m by (simp add: show_frame_def update_run g_def)
  have g: "pm_subject (g m) = pm_subject m" for m
    by (cases "pm_frame m"; cases "js_get_opt payload ''html_body''") (simp_all add: g_def show_frame_def update_run)
  show ?thesis
    by (cases "pm_preview m"; cases "pm_body m") (simp_all add: show_payload_def seqc_run bind_run reads_run lift_run update_run ret_run assms f g)
qed

text \<open>
  C38: A rendering that was waiting for its decryptions when the mailbox was locked writes what it
  decrypted over the placeholders: the page then shows the subject of a protected message while the
  mailbox has no key.
\<close>

theorem mail_late_render:
  assumes "mm_pending s = []" "mm_mailboxId s \<noteq> []" "n < length (mm_messages s)"
    "truthy (parsePayload (pm_payload (mm_messages s ! n)))"
    "decryptMessagePayload p mp (parsePayload (pm_payload (mm_messages s ! n))) (mm_mailboxId s)
       (s\<lparr>importedPrivateKeys := (importedPrivateKeys s)(mm_mailboxId s \<mapsto> key)\<rparr>) = Inr payload"
    "truthy payload" "previewText hp payload = Inr pv" "bodyText hp payload = Inr bt" "pm_subject (mm_messages s ! n) = Some sh"
  shows "let t = mail_run p mp hp [MailUnlocked key, MailLocked, RenderResumed 0] s in
    page_key t = None \<and> map_option sh_text (pm_subject (mm_messages t ! n)) = Some (show_subject payload)"
proof -
  let ?i = "mm_mailboxId s"
  let ?s1 = "s\<lparr>importedPrivateKeys := (importedPrivateKeys s)(?i \<mapsto> key)\<rparr>"
  let ?results = "map (message_result p mp ?s1) (mm_messages s)"
  have 1: "mail_handler p mp hp (MailUnlocked key) s = (Inr (), ?s1\<lparr>mm_pending := [?results]\<rparr>)"
    using assms(1,2) by (simp add: bind_run reads_run seqc_run storePrivateKey_def update_run render_start_def getStoredPrivateKey_def)
  obtain t2 where 2: "mail_handler p mp hp MailLocked (?s1\<lparr>mm_pending := [?results]\<rparr>) = (Inr (), t2)"
    "mm_mailboxId t2 = ?i" "importedPrivateKeys t2 ?i = None" "mm_messages t2 = map restorePlaceholderForElement (mm_messages s)"
    "mm_pending t2 = [?results]"
    using assms(2) by (simp add: bind_run reads_run seqc_run clearPrivateKey_def update_run render_start_def getStoredPrivateKey_def)
  let ?t = "snd (render_resumed p mp hp 0 t2)"
  have t: "page_key ?t = None" using 2(2,3) by (simp add: resumed_key) (simp add: page_key_def getStoredPrivateKey_def)
  have ms: "mm_messages ?t = map (\<lambda>(r, m). finish_message hp r m) (zip ?results (mm_messages t2))"
    using 2(5) by (simp add: render_resumed_def render_finish_def run_simps)
  let ?m = "restorePlaceholderForElement (mm_messages s ! n)"
  have "?results ! n = Some (Inr payload)" using assms(3-5) by (simp add: message_result_def Let_def)
  then have "mm_messages ?t ! n = finish_message hp (Some (Inr payload)) ?m" using ms 2(4) assms(3) by simp
  moreover obtain m' where m': "show_payload hp payload ?m = (Inr (), m')" "pm_subject m' = map_option (put_text (show_subject payload)) (pm_subject ?m)"
    using show_payload_subject [OF assms(7,8)] by blast
  moreover have "pm_subject ?m = Some (restoreAddressPlaceholder sh)" using assms(9) by (simp add: restorePlaceholderForElement_def)
  ultimately have "map_option sh_text (pm_subject (mm_messages ?t ! n)) = Some (show_subject payload)"
    using assms(6) by (simp add: finish_message_def put_text_def)
  moreover have "mail_run p mp hp [MailUnlocked key, MailLocked, RenderResumed 0] s = ?t"
    unfolding mail_run.simps 1 snd_conv 2(1) by simp
  ultimately show ?thesis using t by (simp add: Let_def)
qed

section \<open>Examples\<close>

definition sample_shown :: shown where
  "sample_shown = \<lparr>sh_text = ''Encrypted message'', sh_placeholder = Some ''Encrypted message''\<rparr>"

definition sample_envelope :: jsv where
  "sample_envelope = JObj [(''encrypted_key'', JStr []), (''ciphertext'', JStr []), (''tag'', JStr []), (''iv'', JStr [])]"

definition sample_mail_payload :: jsv where
  "sample_mail_payload = JObj [(''subject'', JStr ''Hi''), (''text_body'', JStr ''x'')]"

definition sample_message :: private_message where
  "sample_message = \<lparr>pm_payload = Some (json_text sample_envelope), pm_subject = Some sample_shown, pm_preview = None, pm_addresses = [],
     pm_body = None, pm_frame = None\<rparr>"

definition sample_mail_page :: mail_page where
  "sample_mail_page = site.extend sample_site
     \<lparr>importedPrivateKeys = (\<lambda>_. None), mailbox_events = [], mailbox_notices = [], mm_mailboxId = ''7'', mm_messages = [sample_message],
      mm_addresses = [], mm_attachments = [], mm_pending = [], mm_downloads = []\<rparr>"

definition sample_reader :: platform where
  "sample_reader = (sample_platform JNull)\<lparr>gcm_decrypt := (\<lambda>_ _ _ _. Some (encode_text (json_text sample_mail_payload)))\<rparr>"

definition sample_mail_platform :: mailbox_platform where
  "sample_mail_platform =
     \<lparr>scrypt_key = (\<lambda>secret salt n r p. None), rsa_keypair = (\<lambda>n. None), import_pkcs8 = Some, rsa_decrypt = (\<lambda>key c. Some c)\<rparr>"

lemma sample_mail_page_fields:
  "mm_pending sample_mail_page = []" "mm_mailboxId sample_mail_page = ''7''" "mm_messages sample_mail_page = [sample_message]"
  by (simp_all add: sample_mail_page_def site.extend_def)

lemma sample_envelope_parsed: "parsePayload (Some (json_text sample_envelope)) = sample_envelope"
  by code_simp

lemma sample_payload_parsed: "json_parse (json_text sample_mail_payload) = Inr sample_mail_payload"
  by code_simp

definition sample_html :: html_platform where
  "sample_html = \<lparr>parse_html = (\<lambda>s. \<lparr>doc_head = Some [], doc_body = Some [TextNode s]\<rparr>), inner_html = (\<lambda>ns. concat (map text_content ns)),
     outer_html = text_content, textarea_text = (\<lambda>s. s), local_date = Some\<rparr>"

lemma atob_nothing: "atob [] = Inr []"
  by code_simp

lemma sample_decrypted:
  "importedPrivateKeys s ''7'' = Some k \<Longrightarrow>
   decryptMessagePayload sample_reader sample_mail_platform sample_envelope ''7'' s = Inr sample_mail_payload"
  by (simp add: decryptMessagePayload_def decryptEnvelope_def getStoredPrivateKey_def base64_property_def sample_envelope_def
      sample_mail_platform_def decrypt_op_def sample_reader_def atob_nothing sample_payload_parsed)

lemma locked_key: "page_key (mail_step p mp hp MailLocked s) = None"
proof -
  have "page_key (snd (mail_handler p mp hp MailLocked s)) = None"
    by (simp add: bind_run reads_run seqc_run clearPrivateKey_def update_run render_start_def page_key_def getStoredPrivateKey_def)
  then show ?thesis by (simp add: mail_step_def Let_def resumed_key)
qed


theorem mail_late_render_witness:
  "\<exists>t. t = mail_run sample_reader sample_mail_platform sample_html [MailUnlocked [2], MailLocked, RenderResumed 0] sample_mail_page \<and>
     page_key t = None \<and> map_option sh_text (pm_subject (mm_messages t ! 0)) = Some ''Hi''"
proof -
  let ?s = sample_mail_page
  let ?t = "mail_run sample_reader sample_mail_platform sample_html [MailUnlocked [2], MailLocked, RenderResumed 0] ?s"
  have e: "parsePayload (pm_payload (mm_messages ?s ! 0)) = sample_envelope"
    by (simp add: sample_mail_page_fields sample_message_def sample_envelope_parsed)
  have b: "previewText sample_html sample_mail_payload = Inr ''x''" "bodyText sample_html sample_mail_payload = Inr ''x''"
    by (simp_all add: previewText_def bodyText_def sample_mail_payload_def trim_def is_space_def)
  have subject: "pm_subject (mm_messages ?s ! 0) = Some sample_shown" by (simp add: sample_mail_page_fields sample_message_def)
  have envelope: "truthy (parsePayload (pm_payload (mm_messages ?s ! 0)))" unfolding e by (simp add: sample_envelope_def)
  have payload: "truthy sample_mail_payload" by (simp add: sample_mail_payload_def)
  have hi: "show_subject sample_mail_payload = ''Hi''" by (simp add: show_subject_def sample_mail_payload_def trim_def is_space_def)
  have dec: "decryptMessagePayload sample_reader sample_mail_platform (parsePayload (pm_payload (mm_messages ?s ! 0))) (mm_mailboxId ?s)
      (?s\<lparr>importedPrivateKeys := (importedPrivateKeys ?s)(mm_mailboxId ?s \<mapsto> [2])\<rparr>) = Inr sample_mail_payload"
    unfolding e sample_mail_page_fields(2) by (rule sample_decrypted) simp
  have "page_key ?t = None \<and> map_option sh_text (pm_subject (mm_messages ?t ! 0)) = Some (show_subject sample_mail_payload)"
    using mail_late_render [OF sample_mail_page_fields(1) _ _ envelope dec payload b subject] sample_mail_page_fields(2,3)
    unfolding Let_def by simp
  then show ?thesis unfolding hi by blast
qed

end
