(* ===== verification/MailCompose.thy ===== *)
theory MailCompose
  imports MailPage
begin

text \<open>
  The hook \<^verbatim>\<open>PrivateMailboxCompose\<close> (\<^verbatim>\<open>apps/elektrine/assets/js/hooks/mailbox_private_compose_hook.js\<close>):
  the form for an answer to a protected message, filled in from the decrypted original.
\<close>

section \<open>State\<close>

record compose_config =
  cm_mailboxId :: string
  cm_mode :: string
  cm_envelope :: jsv
  cm_attachments :: jsv
  cm_metadata :: mail_metadata

text \<open>The inputs and elements of the page that the hook looks up; \<open>None\<close> where there is none.\<close>

record compose_page = mailbox +
  cm_config :: compose_config
  cm_subject :: "replaceable option"
  cm_hidden_body :: "string option"
  cm_preview :: "string option"
  cm_forward :: "string option"
  cm_attachments_html :: "string option"

type_synonym ('s, 'a) compose_io = "('s compose_page_scheme, 'a) io"

definition data_text :: "(string \<rightharpoonup> string) \<Rightarrow> string \<Rightarrow> string" where
  "data_text data name = (case data name of None \<Rightarrow> [] | Some v \<Rightarrow> v)"

definition compose_capture :: "(string \<rightharpoonup> string) \<Rightarrow> compose_config" where
  "compose_capture data =
     \<lparr>cm_mailboxId = data_text data ''privateMailboxId'',
      cm_mode = data_text data ''privateComposeMode'',
      cm_envelope = parsePayload (data ''privateOriginalPayload''),
      cm_attachments = js_or (parsePayload (data ''privateOriginalAttachments'')) (JObj []),
      cm_metadata =
        \<lparr>md_from = data_text data ''privateOriginalFrom'', md_to = data_text data ''privateOriginalTo'', md_cc = data_text data ''privateOriginalCc'',
         md_bcc = data_text data ''privateOriginalBcc'', md_status = data_text data ''privateOriginalStatus'',
         md_insertedAt = data_text data ''privateOriginalInsertedAt''\<rparr>\<rparr>"

section \<open>Attachments\<close>

text \<open>\<^verbatim>\<open>Object.entries\<close> of the object of attachments.\<close>

definition attachment_entries :: "compose_config \<Rightarrow> (string \<times> jsv) list" where
  "attachment_entries c = (case cm_attachments c of JObj ps \<Rightarrow> ps | _ \<Rightarrow> [])"

definition locked_note :: string where
  "locked_note =
     (let nl = [CHR 0x0A] in
      nl @ ''      <div '' @ attr_text ''class'' ''rounded border border-base-300 bg-base-200 p-3 text-sm text-base-content/70'' @ ''>'' @ nl @
      ''        Unlock the mailbox in this tab to include protected attachments in the forwarded message.'' @ nl @
      ''      </div>'' @ nl @ ''    '')"

definition renderLockedAttachments :: "('s, unit) compose_io" where
  "renderLockedAttachments =
     update (\<lambda>s.
       if cm_attachments_html s = None \<or> cm_mode (cm_config s) \<noteq> ''forward'' then s
       else if list_ex (\<lambda>(i, a). truthy (js_get_opt a ''private_encrypted_payload'')) (attachment_entries (cm_config s))
       then s\<lparr>cm_attachments_html := Some locked_note\<rparr>
       else s)"

definition plain_attachment :: "string \<Rightarrow> jsv \<Rightarrow> jsv" where
  "plain_attachment i a = JObj
     [(''attachment_id'', JStr i),
      (''filename'', js_or (js_get_opt a ''filename'') (JStr ''attachment'')),
      (''content_type'', js_or (js_get_opt a ''content_type'') (JStr ''application/octet-stream'')),
      (''size'', js_or (js_get_opt a ''size'') (JNum 0))]"

definition protected_attachment :: "string \<Rightarrow> jsv \<Rightarrow> jsv" where
  "protected_attachment i payload = JObj
     [(''attachment_id'', JStr i),
      (''filename'', js_or (js_get_opt payload ''filename'') (JStr ''attachment'')),
      (''content_type'', js_or (js_get_opt payload ''content_type'') (JStr ''application/octet-stream'')),
      (''size'', js_or (js_get_opt payload ''size'') (JNum 0)),
      (''encoding'', js_or (js_get_opt payload ''encoding'') (JStr ''base64'')),
      (''data'', js_or (js_get_opt payload ''data'') (JStr []))]"

text \<open>Reading a property of null or undefined throws.\<close>

definition object_of :: "jsv \<Rightarrow> jsv result" where
  "object_of v = (if v = JUndef \<or> v = JNull then Inl TypeError else Inr v)"

definition decrypt_forward_attachment ::
  "platform \<Rightarrow> mailbox_platform \<Rightarrow> 's compose_page_scheme \<Rightarrow> string \<times> jsv \<Rightarrow> jsv result" where
  "decrypt_forward_attachment p mp s entry =
     (case entry of (i, a) \<Rightarrow>
        if \<not> truthy (js_get_opt a ''private_encrypted_payload'') then res_bind (object_of a) (\<lambda>a. Inr (plain_attachment i a))
        else
          res_bind (decryptAttachmentPayload p mp (js_get_opt a ''private_encrypted_payload'') (cm_mailboxId (cm_config s)) s) (\<lambda>payload.
          res_bind (object_of payload) (\<lambda>payload. Inr (protected_attachment i payload))))"

definition decryptForwardAttachments :: "platform \<Rightarrow> mailbox_platform \<Rightarrow> 's compose_page_scheme \<Rightarrow> jsv list result" where
  "decryptForwardAttachments p mp s = map_result (decrypt_forward_attachment p mp s) (attachment_entries (cm_config s))"

definition clip_icon :: string where
  "clip_icon =
     ''<svg '' @ attr_text ''xmlns'' ''http://www.w3.org/2000/svg'' @ '' '' @ attr_text ''class'' ''h-4 w-4'' @ '' '' @ attr_text ''viewBox'' ''0 0 24 24'' @ '' '' @
     attr_text ''fill'' ''currentColor'' @ ''><path '' @
     attr_text ''d'' ''M19.5 8.25V18A2.25 2.25 0 0 1 17.25 20.25H6.75A2.25 2.25 0 0 1 4.5 18V6A2.25 2.25 0 0 1 6.75 3.75h7.5L19.5 8.25Z'' @ ''/><path '' @
     attr_text ''d'' ''M14.25 3.75V8.25H18.75'' @ ''/></svg>''"

definition forward_card :: "jsv \<Rightarrow> string" where
  "forward_card attachment =
     (let nl = [CHR 0x0A] in
      nl @ ''          <div '' @ attr_text ''class'' ''flex items-center justify-between p-2 bg-base-200 rounded border border-base-300'' @ ''>'' @ nl @
      ''            <div '' @ attr_text ''class'' ''flex items-center gap-2'' @ ''>'' @ nl @
      ''              <div '' @ attr_text ''class'' ''text-base-content/60'' @ ''>'' @ nl @
      ''                '' @ clip_icon @ nl @
      ''              </div>'' @ nl @
      ''              <div>'' @ nl @
      ''                <p '' @ attr_text ''class'' ''text-sm font-medium'' @ ''>'' @
        mail_escapeHtml (js_or (js_get_opt attachment ''filename'') (JStr ''attachment'')) @ ''</p>'' @ nl @
      ''                <p '' @ attr_text ''class'' ''text-xs text-base-content/60'' @ ''>'' @
        mail_escapeHtml (JStr (formatAttachmentMeta attachment)) @ ''</p>'' @ nl @
      ''              </div>'' @ nl @
      ''            </div>'' @ nl @
      ''            <div '' @ attr_text ''class'' ''badge badge-success badge-sm'' @ ''>Will be forwarded</div>'' @ nl @
      ''          </div>'' @ nl @ ''        '')"

definition renderForwardAttachments :: "jsv list \<Rightarrow> ('s, unit) compose_io" where
  "renderForwardAttachments attachments =
     update (\<lambda>s.
       if cm_attachments_html s = None \<or> cm_mode (cm_config s) \<noteq> ''forward'' then s
       else s\<lparr>cm_attachments_html := Some (concat (map forward_card attachments))\<rparr>)"

section \<open>Filling in\<close>

definition or_text :: "string \<Rightarrow> string \<Rightarrow> string" where
  "or_text a b = (if a = [] then b else a)"

definition answer_metadata :: "jsv \<Rightarrow> mail_metadata \<Rightarrow> mail_metadata" where
  "answer_metadata payload md =
     md\<lparr>md_from := or_text (payloadString payload ''from'') (md_from md), md_to := or_text (payloadString payload ''to'') (md_to md),
        md_cc := or_text (payloadString payload ''cc'') (md_cc md), md_bcc := or_text (payloadString payload ''bcc'') (md_bcc md)\<rparr>"

definition answer_body :: "html_platform \<Rightarrow> compose_config \<Rightarrow> jsv \<Rightarrow> jsv list \<Rightarrow> string result" where
  "answer_body hp c payload attachments =
     (let md = answer_metadata payload (cm_metadata c) in
      if cm_mode c = ''forward'' then buildForwardBody hp payload md attachments else buildReplyBody hp payload md)"

definition set_answer :: "string \<Rightarrow> jsv list \<Rightarrow> ('s, unit) compose_io" where
  "set_answer body attachments =
     seqc (update (\<lambda>s. s\<lparr>cm_hidden_body := map_option (\<lambda>_. body) (cm_hidden_body s),
       cm_preview := map_option (\<lambda>_. body) (cm_preview s),
       cm_forward := map_option (\<lambda>_. json_text (JArr (filter (\<lambda>a. truthy (js_get_opt a ''data'')) attachments))) (cm_forward s)\<rparr>))
       (renderForwardAttachments attachments)"

definition prefill :: "platform \<Rightarrow> mailbox_platform \<Rightarrow> html_platform \<Rightarrow> ('s, unit) compose_io" where
  "prefill p mp hp =
     bind (reads (\<lambda>s. (cm_config s, decryptMessagePayload p mp (cm_envelope (cm_config s)) (cm_mailboxId (cm_config s)) s))) (\<lambda>(c, result).
     bind (lift result) (\<lambda>payload.
     if \<not> truthy payload then ret ()
     else
       let subject = prefixedSubject (cm_mode c) (js_get_opt payload ''subject'') in
       seqc (update (\<lambda>s. s\<lparr>cm_subject := maybeSetValue (cm_subject s) subject (Some (\<lambda>v. str_includes v ''Encrypted message''))\<rparr>))
       (bind (reads (decryptForwardAttachments p mp)) (\<lambda>decrypted.
        bind (lift decrypted) (\<lambda>attachments.
        bind (lift (answer_body hp c payload attachments)) (\<lambda>body.
        set_answer body attachments))))))"

definition applyPrefill :: "platform \<Rightarrow> mailbox_platform \<Rightarrow> html_platform \<Rightarrow> ('s, unit) compose_io" where
  "applyPrefill p mp hp =
     bind (reads (\<lambda>s. (cm_config s, getStoredPrivateKey s (cm_mailboxId (cm_config s))))) (\<lambda>(c, key).
     if cm_mailboxId c = [] \<or> \<not> truthy (cm_envelope c) then ret ()
     else if key = None then
       seqc renderLockedAttachments (update (\<lambda>s. s\<lparr>cm_forward := map_option (\<lambda>_. []) (cm_forward s)\<rparr>))
     else catch (prefill p mp hp) (\<lambda>_. renderLockedAttachments))"

definition compose_mounted :: "platform \<Rightarrow> mailbox_platform \<Rightarrow> html_platform \<Rightarrow> (string \<rightharpoonup> string) \<Rightarrow> ('s, unit) compose_io" where
  "compose_mounted p mp hp data =
     seqc (update (\<lambda>s. s\<lparr>cm_config := compose_capture data\<rparr>)) (applyPrefill p mp hp)"

section \<open>What stays in the form\<close>

text \<open>What the form holds of the decrypted message.\<close>

definition filled :: "'s compose_page_scheme \<Rightarrow> string option \<times> string option \<times> replaceable option" where
  "filled s = (cm_hidden_body s, cm_preview s, cm_subject s)"

lemma locked_run:
  assumes "getStoredPrivateKey s (cm_mailboxId (cm_config s)) = None"
  shows "\<exists>t. applyPrefill p mp hp s = (Inr (), t) \<and> filled t = filled s \<and>
    (cm_mailboxId (cm_config s) \<noteq> [] \<and> truthy (cm_envelope (cm_config s)) \<longrightarrow> cm_forward t = map_option (\<lambda>_. []) (cm_forward s))"
  using assms
  by (simp add: applyPrefill_def renderLockedAttachments_def filled_def bind_run reads_run seqc_run update_run ret_run)

lemma prefill_reply:
  assumes "decryptMessagePayload p mp (cm_envelope (cm_config s)) (cm_mailboxId (cm_config s)) s = Inr payload" "truthy payload"
    "attachment_entries (cm_config s) = []" "cm_mode (cm_config s) \<noteq> ''forward''"
    "buildReplyBody hp payload (answer_metadata payload (cm_metadata (cm_config s))) = Inr body"
  shows "\<exists>t. prefill p mp hp s = (Inr (), t) \<and> cm_config t = cm_config s \<and> cm_preview t = map_option (\<lambda>_. body) (cm_preview s) \<and>
    cm_hidden_body t = map_option (\<lambda>_. body) (cm_hidden_body s) \<and> importedPrivateKeys t = importedPrivateKeys s \<and>
    map_option (\<lambda>_. []) (cm_forward t) = (map_option (\<lambda>_. []) (cm_forward s) :: string option)"
  using assms
  by (simp add: prefill_def set_answer_def renderForwardAttachments_def decryptForwardAttachments_def answer_body_def bind_run reads_run lift_run
      seqc_run update_run Let_def option.map_comp o_def)

text \<open>
  Locking the mailbox does not empty the form of an answer: after the original was quoted in it,
  the hidden input that is submitted and the preview keep the decrypted text, although the hook then
  clears the forwarded attachments because the mailbox is locked.
\<close>

theorem compose_keeps_plaintext:
  assumes "cm_mailboxId (cm_config s) = i" "i \<noteq> []" "truthy (cm_envelope (cm_config s))" "importedPrivateKeys s i \<noteq> None"
    "decryptMessagePayload p mp (cm_envelope (cm_config s)) i s = Inr payload" "truthy payload"
    "attachment_entries (cm_config s) = []" "cm_mode (cm_config s) = ''reply''"
    "buildReplyBody hp payload (answer_metadata payload (cm_metadata (cm_config s))) = Inr body"
  shows "let t = snd (applyPrefill p mp hp (snd (clearPrivateKey i (snd (applyPrefill p mp hp s))))) in
    getStoredPrivateKey t i = None \<and> cm_hidden_body t = map_option (\<lambda>_. body) (cm_hidden_body s) \<and>
    cm_preview t = map_option (\<lambda>_. body) (cm_preview s) \<and> cm_forward t = map_option (\<lambda>_. []) (cm_forward s)"
proof -
  let ?c = "cm_config s"
  have mode: "cm_mode ?c \<noteq> ''forward''" using assms(8) by simp
  obtain t1 where t1: "prefill p mp hp s = (Inr (), t1)" "cm_config t1 = ?c" "cm_preview t1 = map_option (\<lambda>_. body) (cm_preview s)"
    "cm_hidden_body t1 = map_option (\<lambda>_. body) (cm_hidden_body s)"
    "map_option (\<lambda>_. []) (cm_forward t1) = (map_option (\<lambda>_. []) (cm_forward s) :: string option)"
    using prefill_reply [OF assms(5) [folded assms(1)] assms(6,7) mode assms(9)] by blast
  have 1: "applyPrefill p mp hp s = (Inr (), t1)"
    using assms(1-4) t1(1) by (auto simp: applyPrefill_def bind_run reads_run catch_run getStoredPrivateKey_def)
  let ?t2 = "t1\<lparr>importedPrivateKeys := (importedPrivateKeys t1)(i := None)\<rparr>"
  have 2: "snd (clearPrivateKey i t1) = ?t2" using assms(2) by (simp add: clearPrivateKey_def update_run)
  have locked: "getStoredPrivateKey ?t2 (cm_mailboxId (cm_config ?t2)) = None" using assms(1) t1(2) by (simp add: getStoredPrivateKey_def)
  from locked_run [OF locked, of p mp hp] obtain t where t: "applyPrefill p mp hp ?t2 = (Inr (), t)" "filled t = filled ?t2"
    "cm_forward t = map_option (\<lambda>_. []) (cm_forward ?t2)"
    using assms(1-3) t1(2) by auto
  have "importedPrivateKeys t i = None"
    using t(1) locked by (auto simp: applyPrefill_def renderLockedAttachments_def bind_run reads_run seqc_run update_run ret_run split: if_splits)
  then have "getStoredPrivateKey t i = None" by (simp add: getStoredPrivateKey_def)
  then show ?thesis unfolding Let_def 1 snd_conv 2 t(1) using t(2,3) t1 by (simp add: filled_def)
qed

definition sample_compose :: compose_page where
  "sample_compose = site.extend sample_site
     \<lparr>importedPrivateKeys = [''7'' \<mapsto> [2]], mailbox_events = [], mailbox_notices = [],
      cm_config = compose_capture [''privateMailboxId'' \<mapsto> ''7'', ''privateComposeMode'' \<mapsto> ''reply'', ''privateOriginalPayload'' \<mapsto> json_text sample_envelope],
      cm_subject = None, cm_hidden_body = Some [], cm_preview = None, cm_forward = Some ''[]'', cm_attachments_html = None\<rparr>"

lemma sample_compose_fields:
  "importedPrivateKeys sample_compose = [''7'' \<mapsto> [2]]" "cm_hidden_body sample_compose = Some []" "cm_mailboxId (cm_config sample_compose) = ''7''"
  "cm_envelope (cm_config sample_compose) = sample_envelope" "attachment_entries (cm_config sample_compose) = []"
  "cm_mode (cm_config sample_compose) = ''reply''"
  by (simp_all add: sample_compose_def site.extend_def compose_capture_def data_text_def sample_envelope_parsed attachment_entries_def)
    (simp_all add: parsePayload_def)

theorem compose_keeps_plaintext_witness:
  "\<exists>t body. t = snd (applyPrefill sample_reader sample_mail_platform sample_html
      (snd (clearPrivateKey ''7'' (snd (applyPrefill sample_reader sample_mail_platform sample_html sample_compose))))) \<and>
     getStoredPrivateKey t ''7'' = None \<and> cm_hidden_body t = Some body \<and>
     buildReplyBody sample_html sample_mail_payload (answer_metadata sample_mail_payload (cm_metadata (cm_config sample_compose))) = Inr body"
proof -
  let ?s = sample_compose
  have b: "bodyText sample_html sample_mail_payload = Inr ''x''"
    by (simp add: bodyText_def sample_mail_payload_def trim_def is_space_def)
  obtain body where body: "buildReplyBody sample_html sample_mail_payload (answer_metadata sample_mail_payload (cm_metadata (cm_config ?s))) = Inr body"
    by (simp add: buildReplyBody_def b)
  have e: "truthy (cm_envelope (cm_config ?s))" "truthy sample_mail_payload"
    by (simp_all add: sample_compose_fields sample_envelope_def sample_mail_payload_def)
  have d: "decryptMessagePayload sample_reader sample_mail_platform (cm_envelope (cm_config ?s)) ''7'' ?s = Inr sample_mail_payload"
    unfolding sample_compose_fields by (rule sample_decrypted) (simp add: sample_compose_fields)
  have k: "importedPrivateKeys ?s ''7'' \<noteq> None" by (simp add: sample_compose_fields)
  note c = compose_keeps_plaintext [OF sample_compose_fields(3) _ e(1) k d e(2) sample_compose_fields(5,6) body, unfolded Let_def]
  show ?thesis using c body by (simp add: sample_compose_fields(2))
qed

end
