(* ===== verification/Passkey.thy ===== *)
theory Passkey
  imports SiteCrypto
begin

text \<open>
  \<^verbatim>\<open>apps/elektrine/assets/js/hooks/passkey_hooks.js\<close>: registering a passkey and signing in with one.
  The authenticator is the parameter \<open>passkey_platform\<close>; \<^verbatim>\<open>window.showNotification\<close> is taken to be
  there, as on every page of the application.
\<close>

section \<open>Base64 for URLs\<close>

definition url_char :: "char \<Rightarrow> char" where
  "url_char c = (if c = CHR ''+'' then CHR ''-'' else if c = CHR ''/'' then CHR ''_'' else c)"

definition plain_char :: "char \<Rightarrow> char" where
  "plain_char c = (if c = CHR ''-'' then CHR ''+'' else if c = CHR ''_'' then CHR ''/'' else c)"

definition bufferToBase64URL :: "bytes \<Rightarrow> string" where
  "bufferToBase64URL buffer = filter (\<lambda>c. c \<noteq> CHR ''='') (map url_char (btoa buffer))"

definition base64URLToBuffer :: "jsv \<Rightarrow> bytes result" where
  "base64URLToBuffer v =
     (case v of
        JStr s \<Rightarrow> base64ToBytes (map plain_char s @ replicate ((4 - length s mod 4) mod 4) (CHR ''=''))
      | _ \<Rightarrow> Inl TypeError)"

lemma plain_url_char: "c \<noteq> CHR ''-'' \<Longrightarrow> c \<noteq> CHR ''_'' \<Longrightarrow> plain_char (url_char c) = c"
  by (simp add: plain_char_def url_char_def)

lemma b64_char_not: "b64_val c = None \<Longrightarrow> d < 64 \<Longrightarrow> b64_char d \<noteq> c"
  using b64_val_char [of d] by force

lemma b64_not_url: "b64_val (CHR ''-'') = None" "b64_val (CHR ''_'') = None"
  by (simp_all add: b64_val_def)

lemmas b64_char_url = b64_char_not [OF b64_not_url(1)] b64_char_not [OF b64_not_url(2)] b64_char_plain [THEN conjunct1]

lemma url_char_pad: "url_char c = CHR ''='' \<longleftrightarrow> c = CHR ''=''"
  by (simp add: url_char_def)

lemma url_digits: "\<forall>d \<in> set ds. d < 64 \<Longrightarrow> map plain_char (map url_char (map b64_char ds)) = map b64_char ds"
  by (induction ds) (simp_all add: plain_url_char b64_char_url)

lemma url_filter: "\<forall>d \<in> set ds. d < 64 \<Longrightarrow> filter (\<lambda>c. c \<noteq> CHR ''='') (map url_char (map b64_char ds)) = map url_char (map b64_char ds)"
  by (induction ds) (simp_all add: url_char_pad b64_char_url)

lemma pad_length:
  assumes "(n + m) mod 4 = 0" "m \<le> (2::nat)"
  shows "(4 - n mod 4) mod 4 = m"
proof -
  have "n mod 4 = 0 \<or> n mod 4 = 1 \<or> n mod 4 = 2 \<or> n mod 4 = 3" by linarith
  moreover have "m = 0 \<or> m = 1 \<or> m = 2" using assms(2) by linarith
  moreover have "(n mod 4 + m) mod 4 = 0" using assms(1) by (simp add: mod_add_left_eq)
  ultimately show ?thesis by (elim disjE) simp_all
qed

lemma base64url_roundtrip: "base64URLToBuffer (JStr (bufferToBase64URL b)) = Inr b"
proof -
  have lt: "\<forall>a \<in> set (map unat b). a < 256" using unsigned_less [where 'b = 8 and 'a = nat] by auto
  obtain ds pad where enc: "btoa b = map b64_char ds @ pad" and ds: "\<forall>d \<in> set ds. d < 64"
    and dec: "b64_decode ds = Some (map unat b)" and len: "length (map b64_char ds @ pad) mod 4 = 0"
    and pad: "pad = [] \<or> pad = ''='' \<or> pad = ''==''"
    using b64_encode_chars [OF lt] b64_encode_length [of "map unat b"] unfolding btoa_def by metis
  have "filter (\<lambda>c. c \<noteq> CHR ''='') (map url_char pad) = []" using pad by (auto simp: url_char_def)
  then have u: "bufferToBase64URL b = map url_char (map b64_char ds)"
    using url_filter [OF ds] by (simp add: bufferToBase64URL_def enc)
  have "length pad \<le> 2" using pad by auto
  then have "(4 - length ds mod 4) mod 4 = length pad" using len by (intro pad_length) simp_all
  moreover have "replicate (length pad) (CHR ''='') = pad" using pad by auto
  ultimately have "base64URLToBuffer (JStr (bufferToBase64URL b)) = atob (map b64_char ds @ pad)"
    unfolding u base64URLToBuffer_def jsv.case url_digits [OF ds] length_map base64ToBytes_atob by simp
  then show ?thesis by (simp add: enc [symmetric] atob_btoa)
qed

interpretation b64url: codec bufferToBase64URL "\<lambda>s. case base64URLToBuffer (JStr s) of Inl _ \<Rightarrow> None | Inr bs \<Rightarrow> Some bs" "\<lambda>_. True"
  by unfold_locales (simp add: base64url_roundtrip)

section \<open>Ceremonies\<close>

record descriptor =
  cd_type :: jsv
  cd_id :: bytes
  cd_transports :: jsv

record request_options =
  ro_challenge :: bytes
  ro_rpId :: jsv
  ro_timeout :: jsv
  ro_userVerification :: jsv
  ro_allowCredentials :: "descriptor list"

record creation_options =
  co_challenge :: bytes
  co_rp_id :: jsv
  co_rp_name :: jsv
  co_user_id :: bytes
  co_user_name :: jsv
  co_user_displayName :: jsv
  co_pubKeyCredParams :: "(jsv \<times> jsv) list"
  co_timeout :: jsv
  co_attestation :: jsv
  co_residentKey :: jsv
  co_userVerification :: jsv
  co_excludeCredentials :: "descriptor list"

record attested =
  at_id :: string
  at_rawId :: bytes
  at_type :: string
  at_clientDataJSON :: bytes
  at_attestationObject :: bytes
  at_transports :: "jsv option"

record asserted =
  as_id :: string
  as_rawId :: bytes
  as_type :: string
  as_clientDataJSON :: bytes
  as_authenticatorData :: bytes
  as_signature :: bytes
  as_userHandle :: "bytes option"

text \<open>
  What the authenticator answers: a credential, the \<^verbatim>\<open>NotAllowedError\<close> of a person who declined or
  waited too long, with its message, or another error.
\<close>

datatype 'a ceremony =
    Given 'a
  | NotAllowed string
  | Refused js_error

record passkey_platform =
  webauthn :: bool
  create_credential :: "creation_options \<Rightarrow> attested ceremony"
  get_credential :: "request_options \<Rightarrow> asserted ceremony"
  csrf_token :: "string option"

text \<open>\<open>pk_waiting\<close>: a click waits for the challenge of the server.\<close>

record passkey_page = world +
  pk_pushes :: "(string \<times> jsv) list"
  pk_disabled :: bool
  pk_title :: string
  pk_clickable :: bool
  pk_waiting :: bool
  pk_notices :: "string list"
  pk_posts :: "(string \<times> string) list list"

type_synonym ('s, 'a) passkey_io = "('s passkey_page_scheme, 'a) io"

text \<open>\<^verbatim>\<open>(list || []).map(f)\<close>: only arrays have \<^verbatim>\<open>map\<close>.\<close>

definition js_map :: "(jsv \<Rightarrow> 'a result) \<Rightarrow> jsv \<Rightarrow> 'a list result" where
  "js_map f v = (case v of JArr xs \<Rightarrow> map_result f xs | _ \<Rightarrow> Inl TypeError)"

definition descriptor_of :: "jsv \<Rightarrow> descriptor result" where
  "descriptor_of cred =
     res_bind (js_get cred ''type'') (\<lambda>type.
     res_bind (base64URLToBuffer (js_get_opt cred ''id'')) (\<lambda>i.
     Inr \<lparr>cd_type = type, cd_id = i, cd_transports = js_get_opt cred ''transports''\<rparr>))"

definition request_options_of :: "jsv \<Rightarrow> request_options result" where
  "request_options_of data =
     res_bind (js_get data ''challenge_b64'') (\<lambda>c.
     res_bind (base64URLToBuffer c) (\<lambda>challenge.
     res_bind (js_map descriptor_of (js_or (js_get_opt data ''allow_credentials'') (JArr []))) (\<lambda>allow.
     Inr \<lparr>ro_challenge = challenge, ro_rpId = js_get_opt data ''rp_id'', ro_timeout = js_get_opt data ''timeout'',
          ro_userVerification = js_or (js_get_opt data ''user_verification'') (JStr ''preferred''), ro_allowCredentials = allow\<rparr>)))"

definition cred_param :: "jsv \<Rightarrow> (jsv \<times> jsv) result" where
  "cred_param v = res_bind (js_get v ''type'') (\<lambda>type. Inr (type, js_get_opt v ''alg''))"

definition creation_options_of :: "jsv \<Rightarrow> creation_options result" where
  "creation_options_of data =
     res_bind (js_get data ''challenge_b64'') (\<lambda>c.
     res_bind (base64URLToBuffer c) (\<lambda>challenge.
     res_bind (base64URLToBuffer (js_get_opt data ''user_id'')) (\<lambda>user.
     res_bind (js_map cred_param (js_get_opt data ''pub_key_cred_params'')) (\<lambda>params.
     res_bind (js_map descriptor_of (js_or (js_get_opt data ''exclude_credentials'') (JArr []))) (\<lambda>exclude.
     let selection = js_get_opt data ''authenticator_selection'' in
     Inr \<lparr>co_challenge = challenge, co_rp_id = js_get_opt data ''rp_id'', co_rp_name = js_get_opt data ''rp_name'', co_user_id = user,
          co_user_name = js_get_opt data ''user_name'', co_user_displayName = js_get_opt data ''user_display_name'', co_pubKeyCredParams = params,
          co_timeout = js_get_opt data ''timeout'', co_attestation = js_or (js_get_opt data ''attestation'') (JStr ''none''),
          co_residentKey = js_or (js_get_opt selection ''resident_key'') (JStr ''preferred''),
          co_userVerification = js_or (js_get_opt selection ''user_verification'') (JStr ''preferred''),
          co_excludeCredentials = exclude\<rparr>)))))"

definition attestation_response :: "attested \<Rightarrow> jsv" where
  "attestation_response c = JObj
     [(''id'', JStr (at_id c)),
      (''rawId'', JStr (bufferToBase64URL (at_rawId c))),
      (''type'', JStr (at_type c)),
      (''response'', JObj
        ([(''clientDataJSON'', JStr (bufferToBase64URL (at_clientDataJSON c))),
          (''attestationObject'', JStr (bufferToBase64URL (at_attestationObject c)))] @
         (case at_transports c of None \<Rightarrow> [] | Some v \<Rightarrow> [(''transports'', v)])))]"

definition assertion_response :: "asserted \<Rightarrow> jsv" where
  "assertion_response c = JObj
     [(''id'', JStr (as_id c)),
      (''rawId'', JStr (bufferToBase64URL (as_rawId c))),
      (''type'', JStr (as_type c)),
      (''response'', JObj
        ([(''clientDataJSON'', JStr (bufferToBase64URL (as_clientDataJSON c))),
          (''authenticatorData'', JStr (bufferToBase64URL (as_authenticatorData c))),
          (''signature'', JStr (bufferToBase64URL (as_signature c)))] @
         (case as_userHandle c of None \<Rightarrow> [] | Some b \<Rightarrow> [(''userHandle'', JStr (bufferToBase64URL b))])))]"

section \<open>Registering\<close>

definition pk_push :: "string \<Rightarrow> jsv \<Rightarrow> ('s, unit) passkey_io" where
  "pk_push event payload = update (\<lambda>s. s\<lparr>pk_pushes := pk_pushes s @ [(event, payload)]\<rparr>)"

definition registration_error :: "string \<Rightarrow> ('s, unit) passkey_io" where
  "registration_error message = pk_push ''passkey_registration_error'' (JObj [(''error'', JStr message)])"

definition error_or :: "string \<Rightarrow> string \<Rightarrow> string" where
  "error_or message fallback = (if message = [] then fallback else message)"

text \<open>The rejection of the authenticator reaches the handler with nothing in between.\<close>

definition handleRegistration :: "passkey_platform \<Rightarrow> jsv \<Rightarrow> ('s, unit) passkey_io" where
  "handleRegistration pp data =
     bind (lift (creation_options_of data)) (\<lambda>publicKey.
     case create_credential pp publicKey of
       Given c \<Rightarrow>
         pk_push ''passkey_registration_response''
           (JObj [(''attestation'', attestation_response c), (''name'', js_or (js_get_opt data ''suggested_name'') JNull)])
     | NotAllowed m \<Rightarrow> registration_error ''Registration was cancelled or timed out''
     | Refused e \<Rightarrow> raise e)"

definition registration_challenge :: "platform \<Rightarrow> passkey_platform \<Rightarrow> jsv \<Rightarrow> ('s, unit) passkey_io" where
  "registration_challenge p pp data =
     catch (handleRegistration pp data) (\<lambda>e. registration_error (error_or (error_message p e) ''Registration failed''))"

definition passkey_unsupported :: "('s, unit) passkey_io" where
  "passkey_unsupported = update (\<lambda>s. s\<lparr>pk_disabled := True, pk_title := ''Passkeys are not supported in this browser''\<rparr>)"

definition register_mounted :: "passkey_platform \<Rightarrow> ('s, unit) passkey_io" where
  "register_mounted pp = (if webauthn pp then ret () else passkey_unsupported)"

section \<open>Signing in\<close>

definition auth_mounted :: "passkey_platform \<Rightarrow> ('s, unit) passkey_io" where
  "auth_mounted pp =
     (if webauthn pp then update (\<lambda>s. s\<lparr>pk_clickable := True\<rparr>) else passkey_unsupported)"

text \<open>A disabled button is not clicked.  The click then waits for the challenge (\<^verbatim>\<open>getChallenge\<close>).\<close>

definition auth_clicked :: "('s, unit) passkey_io" where
  "auth_clicked =
     bind (reads (\<lambda>s. pk_clickable s \<and> \<not> pk_disabled s)) (\<lambda>go.
     if go then seqc (update (\<lambda>s. s\<lparr>pk_disabled := True, pk_waiting := True\<rparr>)) (pk_push ''get_passkey_challenge'' (JObj [])) else ret ())"

definition submitAuthentication :: "passkey_platform \<Rightarrow> jsv \<Rightarrow> jsv \<Rightarrow> ('s, unit) passkey_io" where
  "submitAuthentication pp assertion challenge =
     update (\<lambda>s. s\<lparr>pk_posts := pk_posts s @
       [(case csrf_token pp of None \<Rightarrow> [] | Some t \<Rightarrow> if t = [] then [] else [(''_csrf_token'', t)]) @
        [(''assertion'', json_text assertion), (''challenge'', to_str challenge)]]\<rparr>)"

definition auth_notice :: "string \<Rightarrow> ('s, unit) passkey_io" where
  "auth_notice message = update (\<lambda>s. s\<lparr>pk_notices := pk_notices s @ [message]\<rparr>)"

definition handleAuthentication :: "passkey_platform \<Rightarrow> jsv \<Rightarrow> ('s, unit) passkey_io" where
  "handleAuthentication pp data =
     bind (lift (request_options_of data)) (\<lambda>publicKey.
     case get_credential pp publicKey of
       Given c \<Rightarrow> submitAuthentication pp (assertion_response c) (js_get_opt data ''challenge_b64'')
     | NotAllowed m \<Rightarrow> auth_notice ''Authentication was cancelled or timed out''
     | Refused e \<Rightarrow> raise e)"

definition auth_challenge :: "platform \<Rightarrow> passkey_platform \<Rightarrow> jsv \<Rightarrow> ('s, unit) passkey_io" where
  "auth_challenge p pp data =
     bind (reads pk_waiting) (\<lambda>waiting.
     if \<not> waiting then ret ()
     else
       seqc (update (\<lambda>s. s\<lparr>pk_waiting := False\<rparr>))
         (finally_do
           (catch
             (bind (lift (js_get data ''error'')) (\<lambda>err.
              if truthy err then raise (Error (to_str err)) else handleAuthentication pp data))
             (\<lambda>e. auth_notice (error_or (error_message p e) ''Authentication failed'')))
           (\<lambda>s. s\<lparr>pk_disabled := False\<rparr>)))"

definition auth_destroyed :: "('s, unit) passkey_io" where
  "auth_destroyed = update (\<lambda>s. s\<lparr>pk_clickable := False, pk_waiting := False\<rparr>)"

section \<open>What is posted\<close>

lemma passkey_keys_plain:
  "array_index ''id'' = None" "array_index ''rawId'' = None" "array_index ''type'' = None" "array_index ''response'' = None"
  "array_index ''clientDataJSON'' = None" "array_index ''authenticatorData'' = None" "array_index ''signature'' = None"
  "array_index ''userHandle'' = None"
  by code_simp+

lemma assertion_json: "json_ok (assertion_response c)"
  by (cases "as_userHandle c") (simp_all add: assertion_response_def obj_ok_fresh passkey_keys_plain)

text \<open>What a field of an answer holds: bytes as base64 for URLs.\<close>

definition holds_bytes :: "jsv \<Rightarrow> string \<Rightarrow> bytes \<Rightarrow> bool" where
  "holds_bytes v k b \<longleftrightarrow> base64URLToBuffer (js_get_opt v k) = Inr b"

definition posted_assertion :: "string \<Rightarrow> asserted \<Rightarrow> bool" where
  "posted_assertion text c \<longleftrightarrow>
     (\<exists>v. json_parse text = Inr v \<and> js_get_opt v ''id'' = JStr (as_id c) \<and> holds_bytes v ''rawId'' (as_rawId c) \<and>
        holds_bytes (js_get_opt v ''response'') ''clientDataJSON'' (as_clientDataJSON c) \<and>
        holds_bytes (js_get_opt v ''response'') ''authenticatorData'' (as_authenticatorData c) \<and>
        holds_bytes (js_get_opt v ''response'') ''signature'' (as_signature c))"

lemma posted_response: "posted_assertion (json_text (assertion_response c)) c"
  unfolding posted_assertion_def
  by (rule exI [of _ "assertion_response c"])
    (simp add: json_parse_text assertion_json; simp add: assertion_response_def holds_bytes_def base64url_roundtrip)

text \<open>
  C39: Signing in with a passkey posts one form: after a click and a challenge that is well formed, the
  authenticator is asked with exactly the bytes of the server's challenge, and the posted assertion
  reads back to the bytes the authenticator answered, beside the challenge as it was received.  The
  button can be pressed again.
\<close>

theorem passkey_sign_in:
  assumes "pk_clickable s" "\<not> pk_disabled s" "js_get_opt data ''challenge_b64'' = JStr (bufferToBase64URL challenge)"
    "\<not> truthy (js_get_opt data ''error'')" "js_map descriptor_of (js_or (js_get_opt data ''allow_credentials'') (JArr [])) = Inr allow"
    "get_credential pp \<lparr>ro_challenge = challenge, ro_rpId = js_get_opt data ''rp_id'', ro_timeout = js_get_opt data ''timeout'',
       ro_userVerification = js_or (js_get_opt data ''user_verification'') (JStr ''preferred''), ro_allowCredentials = allow\<rparr> = Given c"
  shows "let t = snd (auth_challenge p pp data (snd (auth_clicked s))) in
    \<not> pk_disabled t \<and> \<not> pk_waiting t \<and> pk_notices t = pk_notices s \<and>
    (\<exists>csrf assertion. pk_posts t = pk_posts s @ [csrf @ [(''assertion'', assertion), (''challenge'', bufferToBase64URL challenge)]] \<and>
       posted_assertion assertion c)"
proof -
  have d: "js_get data k = Inr (js_get_opt data k)" for k
    using assms(3) by (cases data) (simp_all add: js_get_def)
  show ?thesis
    using assms posted_response [of c]
    by (auto simp: Let_def auth_clicked_def auth_challenge_def pk_push_def handleAuthentication_def request_options_of_def submitAuthentication_def
        run_simps d base64url_roundtrip)
qed

definition sample_asserted :: asserted where
  "sample_asserted =
     \<lparr>as_id = ''key'', as_rawId = [1], as_type = ''public-key'', as_clientDataJSON = [2], as_authenticatorData = [3],
      as_signature = [4], as_userHandle = None\<rparr>"

definition sample_passkeys :: passkey_platform where
  "sample_passkeys =
     \<lparr>webauthn = True, create_credential = (\<lambda>_. NotAllowed []), get_credential = (\<lambda>_. Given sample_asserted), csrf_token = Some ''t''\<rparr>"

definition sign_in_page :: passkey_page where
  "sign_in_page = world.extend sample_world
     \<lparr>pk_pushes = [], pk_disabled = False, pk_title = [], pk_clickable = True, pk_waiting = False, pk_notices = [], pk_posts = []\<rparr>"

lemma passkey_sign_in_witness:
  "\<exists>csrf assertion. pk_posts (snd (auth_challenge (sample_platform JNull) sample_passkeys
       (JObj [(''challenge_b64'', JStr (bufferToBase64URL [7, 8]))]) (snd (auth_clicked sign_in_page)))) =
     [csrf @ [(''assertion'', assertion), (''challenge'', bufferToBase64URL [7, 8])]] \<and> posted_assertion assertion sample_asserted"
  using passkey_sign_in [of sign_in_page "JObj [(''challenge_b64'', JStr (bufferToBase64URL [7, 8]))]" "[7, 8]" "[]" sample_passkeys
      sample_asserted "sample_platform JNull"]
  by (simp add: Let_def sign_in_page_def world.extend_def sample_world_def sample_passkeys_def js_map_def js_or_def)

end
