(* ===== verification/AdminSecurity.thy ===== *)
theory AdminSecurity
  imports Passkey
begin

text \<open>
  \<^verbatim>\<open>apps/elektrine/assets/js/admin_security.js\<close>: a form, a link or the elevation button of the
  administration is signed with a passkey before it goes out.  A form is a state machine: its
  \<^verbatim>\<open>dataset\<close> holds whether the handler is bound, whether a signing is in flight and whether the next
  submit is let through.  What the browser sends itself is the list \<open>aa_sent\<close>.
\<close>

section \<open>Paths and methods\<close>

definition ADMIN_PREFIX :: string where
  "ADMIN_PREFIX = ''/pripyat''"

definition ADMIN_SECURITY_PREFIX :: string where
  "ADMIN_SECURITY_PREFIX = ''/pripyat/security''"

definition ADMIN_SECURITY_EXEMPT_PATHS :: "string set" where
  "ADMIN_SECURITY_EXEMPT_PATHS = {''/pripyat/stop-impersonation''}"

definition MUTATING_METHODS :: "string set" where
  "MUTATING_METHODS = {''POST'', ''PUT'', ''PATCH'', ''DELETE''}"

text \<open>
  What the browser gives the module: \<open>resolve_url\<close> is \<^verbatim>\<open>new URL(x, window.location.origin)\<close>,
  \<open>can_request_submit\<close> whether forms have \<^verbatim>\<open>requestSubmit\<close>.
\<close>

record admin_platform = passkey_platform +
  resolve_url :: "string \<Rightarrow> url option"
  here_path :: string
  here_origin :: string
  can_request_submit :: bool

text \<open>\<open>ff_override\<close> is the hidden input \<^verbatim>\<open>_method\<close>, \<open>ff_grant\<close> the hidden input \<^verbatim>\<open>_admin_action_grant\<close>.\<close>

record admin_form =
  ff_override :: "string option"
  ff_method_attr :: "string option"
  ff_method :: string
  ff_action :: "string option"
  ff_live :: bool
  ff_grant :: "string option"
  ff_bound :: bool
  ff_skip :: bool
  ff_inflight :: bool

definition or_string :: "string option \<Rightarrow> string \<Rightarrow> string" where
  "or_string v other = (case v of None \<Rightarrow> other | Some s \<Rightarrow> if s = [] then other else s)"

definition getCsrfToken :: "'a admin_platform_scheme \<Rightarrow> string" where
  "getCsrfToken ap = or_string (csrf_token ap) []"

definition parseActionPath :: "'a admin_platform_scheme \<Rightarrow> string \<Rightarrow> string option" where
  "parseActionPath ap action = map_option u_pathname (resolve_url ap (if action = [] then here_path ap else action))"

definition resolveFormMethod :: "admin_form \<Rightarrow> string" where
  "resolveFormMethod f =
     map upper_char (or_string (ff_override f) (or_string (ff_method_attr f) (error_or (ff_method f) ''GET'')))"

definition isSensitiveAdminPath :: "string option \<Rightarrow> bool" where
  "isSensitiveAdminPath path =
     (case path of
        None \<Rightarrow> False
      | Some s \<Rightarrow> s \<noteq> [] \<and> starts_with s ADMIN_PREFIX \<and> \<not> starts_with s ADMIN_SECURITY_PREFIX \<and> s \<notin> ADMIN_SECURITY_EXEMPT_PATHS)"

definition form_path :: "'a admin_platform_scheme \<Rightarrow> admin_form \<Rightarrow> string option" where
  "form_path ap f = parseActionPath ap (or_string (ff_action f) (here_path ap))"

definition shouldInterceptForm :: "'a admin_platform_scheme \<Rightarrow> admin_form \<Rightarrow> bool" where
  "shouldInterceptForm ap f =
     (if ff_skip f then False
      else if ff_live f then False
      else if resolveFormMethod f \<notin> MUTATING_METHODS then False
      else isSensitiveAdminPath (form_path ap f))"

section \<open>Signing\<close>

text \<open>
  \<open>aa_signing\<close> is the method and path a signing in flight was started for; \<open>aa_sent\<close> says of each
  native submit whether it came while a signing was in flight, and its grant.
\<close>

record admin_page = passkey_page +
  aa_form :: admin_form
  aa_signing :: "(string \<times> string option) option"
  aa_sent :: "(bool \<times> string option) list"
  aa_location :: "string option"
  aa_blank_tabs :: nat
  aa_button_disabled :: bool

type_synonym ('s, 'a) admin_io = "('s admin_page_scheme, 'a) io"

definition parseJsonResponse :: "response \<Rightarrow> jsv result" where
  "parseJsonResponse resp =
     (let body = (case res_json resp of None \<Rightarrow> JObj [] | Some v \<Rightarrow> v) in
      if res_ok resp then Inr body
      else res_bind (js_get body ''error'') (\<lambda>err. Inl (Error (to_str (js_or err (JStr ''Admin security request failed.''))))))"

definition admin_request :: "'a admin_platform_scheme \<Rightarrow> string \<Rightarrow> jsv \<Rightarrow> request" where
  "admin_request ap path payload =
     \<lparr>req_method = ''POST'', req_url = path,
      req_headers = [(''content-type'', ''application/json''), (''x-csrf-token'', getCsrfToken ap)],
      req_body = TextBody (json_text payload), req_omit_credentials = False\<rparr>"

definition postJson :: "platform \<Rightarrow> 'a admin_platform_scheme \<Rightarrow> string \<Rightarrow> jsv \<Rightarrow> ('b world_scheme, jsv) io" where
  "postJson p ap path payload = bind (fetch p (admin_request ap path payload)) (\<lambda>resp. lift (parseJsonResponse resp))"

definition createPasskeyAssertion :: "'a admin_platform_scheme \<Rightarrow> jsv \<Rightarrow> ('b world_scheme, jsv) io" where
  "createPasskeyAssertion ap data =
     (if \<not> webauthn ap then raise (Error ''Passkeys are not supported by this browser.'')
      else
        bind (lift (request_options_of data)) (\<lambda>publicKey.
        case get_credential ap publicKey of
          Given c \<Rightarrow> ret (assertion_response c)
        | NotAllowed m \<Rightarrow> raise (Error m)
        | Refused e \<Rightarrow> raise e))"

text \<open>What is posted after the authenticator answered.\<close>

definition finish_payload :: "jsv \<Rightarrow> jsv \<Rightarrow> jsv" where
  "finish_payload startData assertion = JObj
     [(''intent_token'', js_get_opt startData ''intent_token''), (''challenge'', js_get_opt startData ''challenge_b64''),
      (''assertion'', assertion)]"

text \<open>\<^verbatim>\<open>signFormAction\<close> and \<^verbatim>\<open>signLinkAction\<close> from the path on.\<close>

definition sign_action :: "platform \<Rightarrow> 'a admin_platform_scheme \<Rightarrow> string \<Rightarrow> string option \<Rightarrow> ('b world_scheme, jsv) io" where
  "sign_action p ap meth path =
     (case path of
        None \<Rightarrow> raise (Error ''Unable to resolve admin action path.'')
      | Some s \<Rightarrow>
          if s = [] then raise (Error ''Unable to resolve admin action path.'')
          else
            bind (postJson p ap ''/pripyat/security/action/start'' (JObj [(''method'', JStr meth), (''path'', JStr s)])) (\<lambda>startData.
            bind (createPasskeyAssertion ap startData) (\<lambda>assertion.
            bind (postJson p ap ''/pripyat/security/action/finish'' (finish_payload startData assertion)) (\<lambda>finishData.
            bind (lift (js_get finishData ''grant_token'')) (\<lambda>grant.
            if truthy grant then ret grant else raise (Error ''Missing action grant token.''))))))"

section \<open>Forms\<close>

definition set_form :: "(admin_form \<Rightarrow> admin_form) \<Rightarrow> ('s, unit) admin_io" where
  "set_form g = update (\<lambda>s. s\<lparr>aa_form := g (aa_form s)\<rparr>)"

definition bindSensitiveForm :: "'a admin_platform_scheme \<Rightarrow> ('s, unit) admin_io" where
  "bindSensitiveForm ap =
     bind (reads aa_form) (\<lambda>f.
     if \<not> shouldInterceptForm ap f \<or> ff_bound f then ret () else set_form (\<lambda>f. f\<lparr>ff_bound := True\<rparr>))"

text \<open>The default action of a submit event that nothing prevented.\<close>

definition default_submit :: "('s, unit) admin_io" where
  "default_submit = update (\<lambda>s. s\<lparr>aa_sent := aa_sent s @ [(ff_inflight (aa_form s), ff_grant (aa_form s))]\<rparr>)"

text \<open>
  A submit event: the listener runs when it is bound; it returns, or prevents the default action and
  starts a signing for the method and path the form has now.
\<close>

definition submit_event :: "'a admin_platform_scheme \<Rightarrow> ('s, unit) admin_io" where
  "submit_event ap =
     bind (reads aa_form) (\<lambda>f.
     if \<not> ff_bound f then default_submit
     else if ff_skip f then seqc (set_form (\<lambda>f. f\<lparr>ff_skip := False\<rparr>)) default_submit
     else if ff_inflight f then default_submit
     else
       seqc (set_form (\<lambda>f. f\<lparr>ff_inflight := True\<rparr>))
         (update (\<lambda>s. s\<lparr>aa_signing := Some (resolveFormMethod f, form_path ap f)\<rparr>)))"

text \<open>\<^verbatim>\<open>requestSubmit\<close> checks the fields of the form (\<open>valid\<close>) first; an event sent by hand does not.\<close>

definition requestFormSubmit :: "'a admin_platform_scheme \<Rightarrow> bool \<Rightarrow> ('s, unit) admin_io" where
  "requestFormSubmit ap valid = (if can_request_submit ap \<and> \<not> valid then ret () else submit_event ap)"

definition upsertGrantInput :: "jsv \<Rightarrow> ('s, unit) admin_io" where
  "upsertGrantInput grant = set_form (\<lambda>f. f\<lparr>ff_grant := Some (to_str grant)\<rparr>)"

definition notifyAdminSecurityError :: "string \<Rightarrow> ('s passkey_page_scheme, unit) io" where
  "notifyAdminSecurityError message = auth_notice message"

text \<open>The signing in flight ends.\<close>

definition signing_done :: "platform \<Rightarrow> 'a admin_platform_scheme \<Rightarrow> bool \<Rightarrow> ('s, unit) admin_io" where
  "signing_done p ap valid =
     bind (reads aa_signing) (\<lambda>signing.
     case signing of
       None \<Rightarrow> ret ()
     | Some (meth, path) \<Rightarrow>
         seqc (update (\<lambda>s. s\<lparr>aa_signing := None\<rparr>))
           (catch
             (bind (sign_action p ap meth path) (\<lambda>grant.
              seqc (upsertGrantInput grant)
              (seqc (set_form (\<lambda>f. f\<lparr>ff_skip := True\<rparr>))
              (seqc (set_form (\<lambda>f. f\<lparr>ff_inflight := False\<rparr>))
                (requestFormSubmit ap valid)))))
             (\<lambda>e. seqc (set_form (\<lambda>f. f\<lparr>ff_inflight := False\<rparr>))
                (notifyAdminSecurityError (error_or (error_message p e) ''Passkey confirmation failed.'')))))"

text \<open>
  A click on a submit button whose \<^verbatim>\<open>data-confirm\<close> is bound (\<^verbatim>\<open>bindSensitiveConfirm\<close>): the question is
  asked, and the form submitted for the button, when the button is of this form.
\<close>

definition confirm_click :: "platform \<Rightarrow> 'a admin_platform_scheme \<Rightarrow> string \<Rightarrow> bool \<Rightarrow> bool \<Rightarrow> ('s, unit) admin_io" where
  "confirm_click p ap question own valid =
     (if \<not> own then ret ()
      else if \<not> confirm_ok p (error_or question ''Are you sure?'') then ret ()
      else requestFormSubmit ap valid)"

text \<open>What happens to a form: the person submits it, a signing ends, the page changes the fields it is read from.\<close>

datatype form_happening =
    Submits bool
  | Confirms string bool bool
  | SigningEnds bool
  | Edits "string option" "string option"

definition form_step :: "platform \<Rightarrow> 'a admin_platform_scheme \<Rightarrow> form_happening \<Rightarrow> ('s, unit) admin_io" where
  "form_step p ap h =
     (case h of
        Submits valid \<Rightarrow> if valid then submit_event ap else ret ()
      | Confirms question own valid \<Rightarrow> confirm_click p ap question own valid
      | SigningEnds valid \<Rightarrow> signing_done p ap valid
      | Edits override action \<Rightarrow> set_form (\<lambda>f. f\<lparr>ff_override := override, ff_action := action\<rparr>))"

definition form_run :: "platform \<Rightarrow> 'a admin_platform_scheme \<Rightarrow> form_happening list \<Rightarrow> 's admin_page_scheme \<Rightarrow> 's admin_page_scheme" where
  "form_run p ap hs s = foldl (\<lambda>s h. snd (form_step p ap h s)) s hs"

section \<open>Links\<close>

record admin_link =
  al_method :: "string option"
  al_href_attr :: "string option"
  al_href :: string
  al_blank :: bool

definition resolveLinkMethod :: "admin_link \<Rightarrow> string" where
  "resolveLinkMethod l = map upper_char (or_string (al_method l) ''GET'')"

definition link_path :: "'a admin_platform_scheme \<Rightarrow> admin_link \<Rightarrow> string option" where
  "link_path ap l = parseActionPath ap (or_string (al_href_attr l) (al_href l))"

text \<open>\<^verbatim>\<open>searchParams.set\<close>: the first pair of that name is changed, the others go.\<close>

fun set_param :: "string \<Rightarrow> string \<Rightarrow> (string \<times> string) list \<Rightarrow> (string \<times> string) list" where
  "set_param k v [] = [(k, v)]"
| "set_param k v ((j, x) # ps) = (if j = k then (k, v) # filter (\<lambda>q. fst q \<noteq> k) ps else (j, x) # set_param k v ps)"

definition appendGrantToken :: "platform \<Rightarrow> 'a admin_platform_scheme \<Rightarrow> string \<Rightarrow> string \<Rightarrow> string result" where
  "appendGrantToken p ap href grant =
     (case resolve_url ap href of
        None \<Rightarrow> Inl TypeError
      | Some u \<Rightarrow>
          let u' = u\<lparr>u_search := ''?'' @ params_text p (set_param ''_admin_action_grant'' grant (params_of p (u_search u)))\<rparr> in
          Inr (if u_origin u' = here_origin ap then u_pathname u' @ u_search u' @ u_hash u' else url_text u'))"

definition signLinkAction :: "platform \<Rightarrow> 'a admin_platform_scheme \<Rightarrow> admin_link \<Rightarrow> ('b world_scheme, string) io" where
  "signLinkAction p ap l =
     bind (sign_action p ap (resolveLinkMethod l) (link_path ap l)) (\<lambda>grant.
     lift (appendGrantToken p ap (al_href l) (to_str grant)))"

text \<open>\<^verbatim>\<open>bindSensitiveLink\<close>: only a link to a sensitive path is listened to.\<close>

definition link_bound :: "'a admin_platform_scheme \<Rightarrow> admin_link \<Rightarrow> bool" where
  "link_bound ap l \<longleftrightarrow> isSensitiveAdminPath (link_path ap l)"

text \<open>
  A click on a bound link with the main button, \<open>modifier\<close> when a key is held.  \<^verbatim>\<open>window.open\<close> with
  \<^verbatim>\<open>noopener\<close> opens a tab and returns \<^verbatim>\<open>null\<close>, so there is no popup to lead anywhere or to close.
\<close>

definition link_click :: "platform \<Rightarrow> 'a admin_platform_scheme \<Rightarrow> admin_link \<Rightarrow> bool \<Rightarrow> ('s, unit) admin_io" where
  "link_click p ap l modifier =
     seqc (if al_blank l \<or> modifier then update (\<lambda>s. s\<lparr>aa_blank_tabs := aa_blank_tabs s + 1\<rparr>) else ret ())
       (catch
         (bind (signLinkAction p ap l) (\<lambda>signedHref. update (\<lambda>s. s\<lparr>aa_location := Some signedHref\<rparr>)))
         (\<lambda>e. notifyAdminSecurityError (error_or (error_message p e) ''Passkey confirmation failed.'')))"

section \<open>Elevation\<close>

definition elevate :: "platform \<Rightarrow> 'a admin_platform_scheme \<Rightarrow> string \<Rightarrow> ('s, unit) admin_io" where
  "elevate p ap returnTo =
     bind (postJson p ap ''/pripyat/security/elevate/start'' (JObj [(''return_to'', JStr returnTo)])) (\<lambda>startData.
     bind (createPasskeyAssertion ap startData) (\<lambda>assertion.
     bind (postJson p ap ''/pripyat/security/elevate/finish'' (finish_payload startData assertion)) (\<lambda>finishData.
     bind (lift (js_get finishData ''redirect_to'')) (\<lambda>redirect.
     update (\<lambda>s. s\<lparr>aa_location := Some (to_str (js_or redirect (JStr returnTo)))\<rparr>)))))"

text \<open>A click on the button of an element whose \<^verbatim>\<open>data-return-to\<close> is \<open>return_to\<close>.\<close>

definition elevation_click :: "platform \<Rightarrow> 'a admin_platform_scheme \<Rightarrow> string option \<Rightarrow> ('s, unit) admin_io" where
  "elevation_click p ap return_to =
     bind (reads aa_button_disabled) (\<lambda>disabled.
     if disabled then ret ()
     else
       seqc (update (\<lambda>s. s\<lparr>aa_button_disabled := True\<rparr>))
         (catch (elevate p ap (or_string return_to ''/pripyat''))
           (\<lambda>e. seqc (update (\<lambda>s. s\<lparr>aa_button_disabled := False\<rparr>))
              (notifyAdminSecurityError (error_or (error_message p e) ''Admin elevation failed.'')))))"

section \<open>What a grant is\<close>

text \<open>
  \<open>granted\<close>: the page asked to start an action of the form, later posted to the finish endpoint, and
  the server answered that request with this grant.
\<close>

definition start_request :: "'a admin_platform_scheme \<Rightarrow> string \<Rightarrow> string \<Rightarrow> request" where
  "start_request ap meth path =
     admin_request ap ''/pripyat/security/action/start'' (JObj [(''method'', JStr meth), (''path'', JStr path)])"

definition grants :: "platform \<Rightarrow> request list \<Rightarrow> request \<Rightarrow> string \<Rightarrow> bool" where
  "grants p log r g \<longleftrightarrow>
     req_url r = ''/pripyat/security/action/finish'' \<and>
     (\<exists>resp v. fetch_of p log r = Response resp \<and> res_ok resp \<and> res_json resp = Some v \<and>
        truthy (js_get_opt v ''grant_token'') \<and> to_str (js_get_opt v ''grant_token'') = g)"

definition granted :: "platform \<Rightarrow> 'a admin_platform_scheme \<Rightarrow> request list \<Rightarrow> string \<Rightarrow> bool" where
  "granted p ap log g \<longleftrightarrow>
     (\<exists>before r rest meth path. log = before @ r # rest \<and> start_request ap meth path \<in> set before \<and> grants p before r g)"

lemma granted_mono: "granted p ap log g \<Longrightarrow> granted p ap (log @ later) g"
  unfolding granted_def by (metis append_Cons append_assoc)

lemma parseJsonResponse_Inr:
  "parseJsonResponse resp = Inr v \<Longrightarrow> res_ok resp \<and> (res_json resp = Some v \<or> v = JObj [])"
  by (auto simp: parseJsonResponse_def Let_def res_bind_eq_Inr split: if_splits option.splits)

lemma postJson_Inr:
  "postJson p ap path payload s = (Inr v, t) \<Longrightarrow>
   \<exists>resp. fetch_of p (net_log s) (admin_request ap path payload) = Response resp \<and> parseJsonResponse resp = Inr v \<and>
     t = s\<lparr>net_log := net_log s @ [admin_request ap path payload]\<rparr>"
  by (auto simp: postJson_def run_simps split: fetch_outcome.splits sum.splits)

lemma createPasskeyAssertion_state: "snd (createPasskeyAssertion ap data s) = s"
  by (auto simp: createPasskeyAssertion_def run_simps split: sum.split ceremony.split)

text \<open>A signing changes nothing but the log, and what it returns is granted there.\<close>

lemma sends_sign_action: "sends (\<lambda>_. True) (sign_action p ap meth path)"
  unfolding sign_action_def postJson_def createPasskeyAssertion_def
  by (intro sends_intros TrueI) (auto split: ceremony.split intro!: sends_intros)

lemma keeps_sign_action:
  assumes "\<And>s log. f (s\<lparr>net_log := log\<rparr>) = f s"
  shows "keeps f (sign_action p ap meth path)"
proof -
  have "keeps f (fetch p r)" for r
    using assms by (simp add: keeps_def fetch_run split: fetch_outcome.split)
  then show ?thesis
    unfolding sign_action_def postJson_def createPasskeyAssertion_def
    by (intro keeps_intros) (auto split: ceremony.split intro!: keeps_intros)
qed

lemma sign_action_granted:
  assumes "sign_action p ap meth path s = (Inr grant, t)"
  shows "granted p ap (net_log t) (to_str grant)"
proof -
  obtain w where w: "path = Some w" "w \<noteq> []"
    using assms by (auto simp: sign_action_def raise_def split: option.splits if_splits)
  let ?start = "start_request ap meth w"
  obtain sd s1 where 1: "postJson p ap ''/pripyat/security/action/start'' (JObj [(''method'', JStr meth), (''path'', JStr w)]) s = (Inr sd, s1)"
    and r1: "bind (createPasskeyAssertion ap sd) (\<lambda>assertion.
       bind (postJson p ap ''/pripyat/security/action/finish'' (finish_payload sd assertion)) (\<lambda>finishData.
       bind (lift (js_get finishData ''grant_token'')) (\<lambda>grant.
       if truthy grant then ret grant else raise (Error ''Missing action grant token.'')))) s1 = (Inr grant, t)"
    using assms w unfolding sign_action_def by (auto simp: bind_eq_Inr)
  obtain a where 2: "createPasskeyAssertion ap sd s1 = (Inr a, s1)"
    and r2: "bind (postJson p ap ''/pripyat/security/action/finish'' (finish_payload sd a)) (\<lambda>finishData.
       bind (lift (js_get finishData ''grant_token'')) (\<lambda>grant.
       if truthy grant then ret grant else raise (Error ''Missing action grant token.''))) s1 = (Inr grant, t)"
    using r1 createPasskeyAssertion_state [of ap sd s1] by (auto simp: bind_eq_Inr)
  let ?r = "admin_request ap ''/pripyat/security/action/finish'' (finish_payload sd a)"
  obtain fd where 3: "postJson p ap ''/pripyat/security/action/finish'' (finish_payload sd a) s1 = (Inr fd, t)"
    and g: "js_get fd ''grant_token'' = Inr grant" "truthy grant"
    using r2 by (auto simp: bind_eq_Inr lift_run ret_run raise_def split: if_splits sum.splits)
  from postJson_Inr [OF 1] have log1: "net_log s1 = net_log s @ [?start]" by (auto simp: start_request_def)
  from postJson_Inr [OF 3] obtain resp where resp: "fetch_of p (net_log s1) ?r = Response resp" "parseJsonResponse resp = Inr fd"
    and log: "net_log t = net_log s1 @ [?r]" by auto
  from g have "js_get_opt fd ''grant_token'' = grant" "fd \<noteq> JObj []"
    by (cases fd; auto simp: js_get_def split: if_splits)+
  with parseJsonResponse_Inr [OF resp(2)] resp(1) g(2) have "grants p (net_log s1) ?r (to_str grant)"
    by (auto simp: grants_def admin_request_def)
  then show ?thesis unfolding granted_def log using log1 by (intro exI conjI) auto
qed

section \<open>Every submit is granted\<close>

definition sent_ok :: "platform \<Rightarrow> 'a admin_platform_scheme \<Rightarrow> request list \<Rightarrow> bool \<times> string option \<Rightarrow> bool" where
  "sent_ok p ap log q \<longleftrightarrow> fst q \<or> (\<exists>g. snd q = Some g \<and> granted p ap log g)"

definition form_inv :: "platform \<Rightarrow> 'a admin_platform_scheme \<Rightarrow> 's admin_page_scheme \<Rightarrow> bool" where
  "form_inv p ap s \<longleftrightarrow>
     ff_bound (aa_form s) \<and>
     (ff_skip (aa_form s) \<longrightarrow> sent_ok p ap (net_log s) (False, ff_grant (aa_form s))) \<and>
     list_all (sent_ok p ap (net_log s)) (aa_sent s)"

lemma sent_ok_mono: "sent_ok p ap log q \<Longrightarrow> sent_ok p ap (log @ later) q"
  by (auto simp: sent_ok_def granted_mono)

lemma sent_ok_flying [simp]: "sent_ok p ap log (True, g)"
  by (simp add: sent_ok_def)

lemma submit_event_run:
  "submit_event ap s =
     (Inr (),
      if ff_bound (aa_form s) \<and> \<not> ff_skip (aa_form s) \<and> \<not> ff_inflight (aa_form s) then
        s\<lparr>aa_form := (aa_form s)\<lparr>ff_inflight := True\<rparr>, aa_signing := Some (resolveFormMethod (aa_form s), form_path ap (aa_form s))\<rparr>
      else
        s\<lparr>aa_form := (aa_form s)\<lparr>ff_skip := (ff_skip (aa_form s) \<and> \<not> ff_bound (aa_form s))\<rparr>,
          aa_sent := aa_sent s @ [(ff_inflight (aa_form s), ff_grant (aa_form s))]\<rparr>)"
  by (cases "aa_form s") (auto simp: submit_event_def default_submit_def set_form_def run_simps)

lemma form_inv_submit: "form_inv p ap s \<Longrightarrow> form_inv p ap (snd (submit_event ap s))"
  unfolding form_inv_def submit_event_run
  by (cases "ff_inflight (aa_form s)") (auto simp: sent_ok_def)

lemma form_inv_log: "form_inv p ap s \<Longrightarrow> form_inv p ap (s\<lparr>net_log := net_log s @ later\<rparr>)"
  by (auto simp: form_inv_def sent_ok_mono elim: list.pred_mono_strong)

lemma form_inv_request: "form_inv p ap s \<Longrightarrow> form_inv p ap (snd (requestFormSubmit ap valid s))"
  by (simp add: requestFormSubmit_def form_inv_submit ret_run)

lemma form_inv_sign:
  assumes "form_inv p ap s" "sign_action p ap meth path s = (r, t)"
  shows "form_inv p ap t"
proof -
  obtain later where log: "net_log t = net_log s @ later" using sendsD [OF sends_sign_action assms(2)] by blast
  have "aa_form t = aa_form s" "aa_sent t = aa_sent s"
    by (rule keepsD [OF keeps_sign_action assms(2)], simp)+
  with form_inv_log [OF assms(1), of later] log show ?thesis by (simp add: form_inv_def)
qed

lemma form_inv_done: "form_inv p ap s \<Longrightarrow> form_inv p ap (snd (signing_done p ap valid s))"
proof (cases "aa_signing s")
  case None
  then show "form_inv p ap s \<Longrightarrow> ?thesis" by (simp add: signing_done_def run_simps)
next
  case (Some q)
  obtain meth path where q: "q = (meth, path)" by (cases q)
  let ?s = "s\<lparr>aa_signing := None\<rparr>"
  obtain r t where run: "sign_action p ap meth path ?s = (r, t)" by (cases "sign_action p ap meth path ?s")
  assume "form_inv p ap s"
  then have "form_inv p ap ?s" by (simp add: form_inv_def)
  from form_inv_sign [OF this run] have inv: "form_inv p ap t" .
  show ?thesis
  proof (cases r)
    case (Inl e)
    with Some q run inv show ?thesis
      by (simp add: signing_done_def run_simps set_form_def notifyAdminSecurityError_def auth_notice_def form_inv_def)
  next
    case (Inr grant)
    let ?t = "t\<lparr>aa_form := (aa_form t)\<lparr>ff_grant := Some (to_str grant), ff_skip := True, ff_inflight := False\<rparr>\<rparr>"
    have "granted p ap (net_log t) (to_str grant)" using sign_action_granted run Inr by blast
    with inv have "form_inv p ap ?t" by (simp add: form_inv_def sent_ok_def)
    moreover have "signing_done p ap valid s = requestFormSubmit ap valid ?t"
      using Some q run Inr
      by (simp add: signing_done_def run_simps set_form_def upsertGrantInput_def requestFormSubmit_def submit_event_run)
    ultimately show ?thesis using form_inv_request by metis
  qed
qed

lemma form_inv_step: "form_inv p ap s \<Longrightarrow> form_inv p ap (snd (form_step p ap h s))"
  by (cases h)
    (simp_all add: form_step_def form_inv_submit form_inv_done form_inv_request confirm_click_def ret_run,
     simp add: form_inv_def set_form_def run_simps)

lemma form_inv_run: "form_inv p ap s \<Longrightarrow> form_inv p ap (form_run p ap hs s)"
  unfolding form_run_def by (induction hs arbitrary: s) (simp_all add: form_inv_step)



text \<open>
  When the fields of the form no longer pass their checks after the signing, nothing is sent and the
  mark that lets one submit through stays: the next submit goes out with this grant, signed for the
  form as it was before.
\<close>

lemma admin_stale_skip:
  assumes "can_request_submit ap" "aa_signing s = Some (meth, path)" "ff_bound (aa_form s)"
    "sign_action p ap meth path (s\<lparr>aa_signing := None\<rparr>) = (Inr grant, t)"
  shows "let u = form_run p ap [SigningEnds False, Edits override action, Submits True] s in
    aa_sent u = aa_sent s @ [(False, Some (to_str grant))] \<and> net_log u = net_log t \<and> form_path ap (aa_form u) = parseActionPath ap (or_string action (here_path ap))"
proof -
  have "aa_form t = aa_form s" "aa_sent t = aa_sent s"
    using keepsD [OF keeps_sign_action assms(4), of aa_form] keepsD [OF keeps_sign_action assms(4), of aa_sent] by simp_all
  with assms show ?thesis
    by (simp add: Let_def form_run_def form_step_def signing_done_def run_simps set_form_def upsertGrantInput_def requestFormSubmit_def
        submit_event_run form_path_def)
qed

text \<open>A link that is to open in a new tab leaves that tab empty, and leads the page itself to the signed address.\<close>

lemma link_new_tab:
  assumes "signLinkAction p ap l (s\<lparr>aa_blank_tabs := aa_blank_tabs s + 1\<rparr>) = (Inr signedHref, t)" "al_blank l \<or> modifier"
  shows "aa_location (snd (link_click p ap l modifier s)) = Some signedHref \<and>
    aa_blank_tabs (snd (link_click p ap l modifier s)) = aa_blank_tabs t"
  using assms by (simp add: link_click_def run_simps)

text \<open>The prefix of the exempt pages is compared as text: a path beside them is exempt as well.\<close>

lemma security_prefix_gap: "\<not> isSensitiveAdminPath (Some ''/pripyat/securityx'')" "isSensitiveAdminPath (Some ''/pripyatx'')"
  by code_simp+

section \<open>An instance\<close>

definition sample_admin :: admin_platform where
  "sample_admin = passkey_platform.extend sample_passkeys
     \<lparr>resolve_url = (\<lambda>s. Some (sample_url ''https:'' ''site.example'' s)), here_path = ''/pripyat'', here_origin = ''https://site.example'',
      can_request_submit = True\<rparr>"

definition sample_form :: admin_form where
  "sample_form =
     \<lparr>ff_override = None, ff_method_attr = Some ''post'', ff_method = ''post'', ff_action = Some ''/pripyat/users'', ff_live = False,
      ff_grant = None, ff_bound = False, ff_skip = False, ff_inflight = False\<rparr>"

definition admin_start :: admin_page where
  "admin_start = passkey_page.extend sign_in_page
     \<lparr>aa_form = sample_form, aa_signing = None, aa_sent = [], aa_location = None, aa_blank_tabs = 0, aa_button_disabled = False\<rparr>"

definition admin_bound :: admin_page where
  "admin_bound = snd (bindSensitiveForm sample_admin admin_start)"

lemma sample_intercepted: "shouldInterceptForm sample_admin sample_form" "resolveFormMethod sample_form = ''POST''"
    "form_path sample_admin sample_form = Some ''/pripyat/users''"
  by code_simp+

lemma sample_form_flags [simp]: "\<not> ff_skip sample_form" "\<not> ff_inflight sample_form" "ff_grant sample_form = None"
  by (simp_all add: sample_form_def)

lemma admin_bound_fields [simp]:
  "aa_form admin_bound = sample_form\<lparr>ff_bound := True\<rparr>" "aa_sent admin_bound = []" "aa_signing admin_bound = None" "net_log admin_bound = []"
  using sample_intercepted(1)
  by (simp_all add: admin_bound_def bindSensitiveForm_def set_form_def run_simps admin_start_def passkey_page.extend_def sign_in_page_def
      world.extend_def sample_world_def sample_form_def)

definition grant_server :: platform where
  "grant_server = sample_platform (JObj [(''challenge_b64'', JStr []), (''intent_token'', JStr ''i''), (''grant_token'', JStr ''g'')])"

lemma empty_challenge: "base64URLToBuffer (JStr []) = Inr []"
  by code_simp

lemma sample_sign: "\<exists>log. sign_action grant_server sample_admin ''POST'' (Some ''/pripyat/users'') s = (Inr (JStr ''g''), s\<lparr>net_log := log\<rparr>)"
  by (simp add: sign_action_def postJson_def createPasskeyAssertion_def run_simps grant_server_def sample_admin_def passkey_platform.extend_def
      sample_passkeys_def parseJsonResponse_def request_options_of_def sample_platform_def sample_response_def res_ok_def
      empty_challenge js_map_def) blast



end
