(* ===== verification/Spec2Isabelle.thy ===== *)
theory Spec2Isabelle
  imports Base64 Crypto Password Api Kairo Theme Capture Machine Vault StagedRace Html PopupEntry
    OptionsProps Launcher ContentProps Lease SiteVault SiteBridge MailboxAuth ChatLaws MailCompose AdminSecurity
begin

text \<open>
  A verification development for what Elektrine does in the browser with keys and secrets: the
  Nerve extension (\<^verbatim>\<open>clients/nerve-extension/\<close>, of which
  \<^verbatim>\<open>apps/elektrine_web/priv/nerve-extension/\<close> is an identical copy that the web application
  serves), and of the web application's scripts (\<^verbatim>\<open>apps/elektrine/assets/js/\<close>, the hooks in
  \<^verbatim>\<open>hooks/\<close>) the vault, the password entries, the private mailbox, the encrypted chat, passkeys and
  the signing of administration actions.

  \<^bold>\<open>The extension.\<close>  The extension is a password manager.  Its background worker
  (\<^verbatim>\<open>background.js\<close>) keeps the account password in memory for at most fifteen idle minutes,
  decrypts entries it fetches from the server (\<^verbatim>\<open>lib/api.js\<close>, \<^verbatim>\<open>lib/crypto.js\<close>), and answers
  messages.  The content script (\<^verbatim>\<open>content.js\<close>) runs in web pages: it finds login fields, asks
  the worker for suggestions and credentials, fills them in, and offers to save submitted
  logins.  The pages of the extension are the manager (\<^verbatim>\<open>popup.js\<close>), the settings
  (\<^verbatim>\<open>options.js\<close>) and the launcher (\<^verbatim>\<open>launcher.js\<close>).  All share \<^verbatim>\<open>lib/storage.js\<close>,
  \<^verbatim>\<open>lib/theme.js\<close> and \<^verbatim>\<open>lib/kairo_capture.js\<close>.

  \<^bold>\<open>The web application.\<close>  A master data key, wrapped under the account's password and under a
  recovery key, opens the vault; \<^verbatim>\<open>vault_session.js\<close> holds it in memory, restores it for the tab
  from \<^verbatim>\<open>sessionStorage\<close>, and tells its listeners when it opens and locks.  The pages of the
  vault and of the password entries encrypt and decrypt with keys derived from it.  A private
  mailbox has an RSA key, wrapped under a passphrase or under the vault's key, and its panels
  set it up, unlock and lock it; a password change wraps vault and mailbox again.  Encrypted chat
  keeps a device key in IndexedDB, records the fingerprint of every other device it meets, makes
  a key for a conversation and its list of devices, and sends messages under it.  A passkey signs a
  person in, and an administrator's passkey signs each action before its form or link goes out.

  \<^bold>\<open>How code is modelled.\<close>  An \<^verbatim>\<open>async\<close> function is a computation \<open>'s \<Rightarrow> ('e + 'a) \<times> 's\<close> in
  the state-and-error monad of \<open>Prelude\<close>: \<open>bind\<close> is \<^verbatim>\<open>await\<close>, \<open>raise\<close> a rejection, \<open>catch\<close> and
  \<open>finally_do\<close> the statements of those names; changes made before a throw stay.  JavaScript
  values are \<open>jsv\<close> (\<open>JsValue\<close>), with truthiness, property access, \<^verbatim>\<open>||\<close> and conversion to text
  as the language has them; an object is its list of properties in their own order.  A handler
  runs as one step of the machines below; where an interleaving matters it is modelled with
  the steps apart (\<open>StagedRace\<close>, \<open>SiteRace\<close>, the start and the finish of the form in
  \<open>MailboxAuth\<close>, the reply to a send and its timeout in \<open>ChatHook\<close>, the two
  halves of a rendering in \<open>MailMessages\<close>, the signing of a form in \<open>AdminSecurity\<close>).

  \<^bold>\<open>Theories and sources.\<close>
  \<^item> \<open>Prelude\<close>: errors, the monad, and the frame predicates \<open>keeps\<close>, \<open>maintains\<close>,
    \<open>establishes\<close> with their introduction rules.
  \<^item> \<open>JsString\<close>, \<open>JsValue\<close>, \<open>Json\<close>, \<open>JsSort\<close>: the parts of the language the code uses;
    \<open>JSON.parse\<close> and \<open>JSON.stringify\<close> with their round trip, \<open>Array.prototype.sort\<close> with the
    locale \<open>comparator\<close>.
  \<^item> \<open>World\<close>: the record \<open>platform\<close> of the code that is not in the repository (URL parser,
    WebCrypto, network, failures of \<^verbatim>\<open>chrome.storage\<close>, tabs) and the state \<open>world\<close>.
  \<^item> \<open>Storage\<close>: \<^verbatim>\<open>lib/storage.js\<close>.  The locale \<open>tab_store\<close> states what a map from tabs to
    values promises; pending saves and staged fills both provide it.
  \<^item> \<open>Base64\<close>, \<open>Crypto\<close>, \<open>Password\<close>: \<^verbatim>\<open>lib/crypto.js\<close>: Base64 both ways, AES-GCM values with
    associated data, unwrapping of the data key, the password generator on 32-bit words.
  \<^item> \<open>Api\<close>: \<^verbatim>\<open>lib/api.js\<close>; \<open>Kairo\<close>: \<^verbatim>\<open>lib/kairo_capture.js\<close>; \<open>Theme\<close>: \<^verbatim>\<open>lib/theme.js\<close>.
  \<^item> \<open>Session\<close>, \<open>Ranking\<close>, \<open>Background\<close>, \<open>Capture\<close>: \<^verbatim>\<open>background.js\<close>: the password session,
    the ranking of entries, the message handlers, and the capture of pages and files.
    \<open>Machine\<close> makes it a step relation (messages, tab and menu events, clock, timer, restart,
    outside writes) and proves the session invariant; \<open>Vault\<close> has what the handlers promise;
    \<open>Lease\<close> the refinement of an abstract vault, with the locale \<open>preorder_frame\<close>;
    \<open>StagedRace\<close> the interleaving of two staged fills.
  \<^item> \<open>Html\<close>, \<open>Page\<close>, \<open>PageProps\<close>: markup and escaping, the state the extension's pages share,
    and what they may rely on when they message the worker.
  \<^item> \<open>Popup\<close>, \<open>PopupProps\<close>, \<open>PopupEntry\<close>: \<^verbatim>\<open>popup.js\<close>; \<open>Options\<close>, \<open>OptionsProps\<close>:
    \<^verbatim>\<open>options.js\<close>; \<open>Launcher\<close>: \<^verbatim>\<open>launcher.js\<close>.
  \<^item> \<open>ContentFields\<close>, \<open>ContentGeometry\<close>, \<open>ContentView\<close>, \<open>ContentScript\<close>, \<open>ContentEvents\<close>:
    \<^verbatim>\<open>content.js\<close>: fields and their scores, the place of the button, what the popover and the
    banner show, the script's state and operations, its listeners and timers as a step relation;
    \<open>ContentFill\<close> and \<open>ContentProps\<close> hold their properties.
  \<^item> \<open>SiteCrypto\<close>: \<^verbatim>\<open>vault_crypto.js\<close>; \<open>SiteSession\<close>: \<^verbatim>\<open>vault_session.js\<close>, with the listeners a
    parameter; \<open>SiteRace\<close>: the derivation of keys with its awaits as steps of their own, against
    locking and unlocking; \<open>SiteElement\<close>, \<open>SiteVault\<close>: \<^verbatim>\<open>vault_hooks.js\<close>; \<open>SiteNerve\<close>:
    \<^verbatim>\<open>nerve_hooks.js\<close>; \<open>SiteBridge\<close>: what the site encrypts, the extension reads.
  \<^item> \<open>MailboxCrypto\<close>: \<^verbatim>\<open>mailbox_private_crypto.js\<close>; \<open>MailboxStorage\<close>:
    \<^verbatim>\<open>mailbox_private_storage_hooks.js\<close>; \<open>MailboxLock\<close> and \<open>MailboxProps\<close>: their invariant and
    properties; \<open>MailboxAuth\<close>: \<^verbatim>\<open>mailbox_private_auth_forms.js\<close>, its payloads and
    \<^verbatim>\<open>utils/form_submission.js\<close>.
  \<^item> \<open>MailContent\<close>: \<^verbatim>\<open>mailbox_private_content.js\<close>, with the HTML parser a parameter and what the
    sanitizer does to its tree; \<open>MailMessages\<close>: \<^verbatim>\<open>mailbox_private_messages_hook.js\<close>, a rendering
    split at its first \<^verbatim>\<open>await\<close>; \<open>MailPage\<close>: what its page shows; \<open>MailCompose\<close>:
    \<^verbatim>\<open>mailbox_private_compose_hook.js\<close>.
  \<^item> \<open>ChatCrypto\<close>: \<^verbatim>\<open>chat_e2ee_crypto.js\<close>; \<open>ChatKeys\<close>, \<open>ChatMessages\<close>, \<open>ChatHook\<close>:
    \<^verbatim>\<open>chat_e2ee_hook.js\<close> with the texts of \<^verbatim>\<open>chat_e2ee_messages.js\<close>: this browser's device and the
    trust in others, conversation keys and messages, and the hook with its events; \<open>ChatProps\<close>
    has what every run of events keeps, \<open>ChatLaws\<close> the laws of the keys.
  \<^item> \<open>Passkey\<close>: \<^verbatim>\<open>passkey_hooks.js\<close>, with the authenticator a parameter; \<open>AdminSecurity\<close>:
    \<^verbatim>\<open>admin_security.js\<close>, the form as a machine whose signing starts and ends in steps of its own.

  \<^bold>\<open>What is shown.\<close>  The password session keeps its invariant in every reachable state, refines
  an abstract vault with a lease, ends when idle, and discloses the password only to extension
  pages before its expiry.  Credentials leave the worker only for senders it allows, for
  entries saved for the page, and a staged fill once; the content script changes a page's
  fields only with credentials of such an answer or of the manager's message, and only in
  valid login fields.  What is saved is encrypted with the entry's associated data and read
  back; nothing else is sent, and only to https or loopback servers.  The generator terminates
  and is unbiased; polling for a pairing ends; the pages show exactly the sections their state
  asks for and escape what they interpolate.

  What setting up the vault writes opens with the password and with the recovery key, and an entry
  the site encrypts is what the extension decrypts; keys derived for an old vault key are not
  kept, except by the race that is shown.  A mailbox that was set up unlocks with what was
  entered, its panels show the state of its key, a password change keeps it readable, a locked page
  shows its placeholders, and no node that could run reaches the frame of a message.  A chat
  that is ready sends no text as it was typed; a recorded fingerprint stays, and a device that shows
  another key stops sending; a message opens on every listed device; the hash of the devices
  does not depend on their order.  A passkey signs the server's challenge bytes and its answer
  reaches the server as it was given; a form of the administration goes out with a grant of the
  server, unless it is submitted again while it is being signed.  Where the code falls short of that, the flaw is a theorem too:
  trust after a failed read, an old key made active again, encryption switched off by the server's
  next patch, a mailbox key that outlives the vault, and protected text that comes back or stays
  after the mailbox was locked.

  \<^bold>\<open>Bounds and fuel.\<close>  \<open>json_parse\<close> takes the length of the text plus one as fuel, enough because
  every call consumes a character (\<open>Json\<close>); \<open>random_word\<close>, the rejection loop of the generator,
  is a partial function, total for every source that sometimes draws a word below the limit;
  the polling loop has a measure on the clock, which every turn moves by at least 1500 ms, so
  it sends at most two hundred requests; every other loop is structural.

  \<^bold>\<open>Assumptions of the model.\<close>  Text is a list of bytes (UTF-8): lengths and indices agree with
  the source on ASCII, and case folding is that of ASCII letters.  Numbers are integers, in the
  geometry exact rationals.  A handler is atomic, except where the steps are apart.  Messages reach the
  worker.  Ties of titles keep the order of the list; the comparator of \<open>renderEntries\<close> treats
  dates that do not parse as equal, and is a preorder for dates that parse.  Inputs that left the
  document count as empty and invisible.  Laws of the platform appear as hypotheses (such as
  \<open>gcm_correct\<close>: decryption undoes encryption), each with a witness.

  \<^bold>\<open>Not modelled.\<close>  The style sheet of the content script and the building of its shadow root,
  the wiring of listeners beyond the event each handler serves, manifests and HTML files, the
  identical copy of the extension, and the server (Elixir).  Of the web application's scripts,
  those that only move markup and styles about or drive the browser's media: timelines, chat and
  e-mail controls, calls, graphs, editors, notifications, profiles, the service worker.
\<close>

end
